(* ===== verification/Prelude.thy ===== *)
theory Prelude
  imports
    Main
    "HOL-Library.Char_ord"
    "HOL-Library.List_Lexorder"
    "HOL-Library.Product_Lexorder"
begin

section \<open>Shared vocabulary: fallible state-passing operations and row lists\<close>

text \<open>
  An operation of the program reads and writes some state \<open>'w\<close> and either returns a value or
  fails with an error \<open>'e\<close>. The state after a failure is kept: only a transaction rolls it
  back. \<open>bindE m f\<close> is the Go idiom \<^verbatim>\<open>x, err := m(); if err != nil { return err }; f(x)\<close>.

  Tables are lists of rows in insertion order. The second half of the theory has the three
  statements the SQL of the program uses (select, update, delete by a condition) and their laws.
\<close>

subsection \<open>Operations\<close>

type_synonym ('w, 'e, 'a) op = "'w \<Rightarrow> ('e + 'a) \<times> 'w"

named_theorems op_defs \<open>unfolding equations of the operation combinators\<close>
named_theorems conforms_intros \<open>compositional rules for relations every step conforms\<close>

definition returnE :: "'a \<Rightarrow> ('w, 'e, 'a) op" where
  "returnE x = (\<lambda>w. (Inr x, w))"

definition throwE :: "'e \<Rightarrow> ('w, 'e, 'a) op" where
  "throwE e = (\<lambda>w. (Inl e, w))"

definition bindE :: "('w, 'e, 'a) op \<Rightarrow> ('a \<Rightarrow> ('w, 'e, 'b) op) \<Rightarrow> ('w, 'e, 'b) op" where
  "bindE m f = (\<lambda>w. case m w of (Inl e, v) \<Rightarrow> (Inl e, v) | (Inr x, v) \<Rightarrow> f x v)"

text \<open>\<open>attemptE m\<close> hands the outcome, error included, to the caller, who inspects it with
  \<^verbatim>\<open>errors.Is\<close>.\<close>

definition attemptE :: "('w, 'e, 'a) op \<Rightarrow> ('w, 'e, 'e + 'a) op" where
  "attemptE m = (\<lambda>w. case m w of (r, v) \<Rightarrow> (Inr r, v))"

definition liftE :: "'e + 'a \<Rightarrow> ('w, 'e, 'a) op" where
  "liftE r = (\<lambda>w. (r, w))"

fun forE :: "'x list \<Rightarrow> ('x \<Rightarrow> ('w, 'e, unit) op) \<Rightarrow> ('w, 'e, unit) op" where
  "forE [] body = returnE ()"
| "forE (x # xs) body = bindE (body x) (\<lambda>_. forE xs body)"

fun mapE :: "'x list \<Rightarrow> ('x \<Rightarrow> ('w, 'e, 'y) op) \<Rightarrow> ('w, 'e, 'y list) op" where
  "mapE [] f = returnE []"
| "mapE (x # xs) f = bindE (f x) (\<lambda>y. bindE (mapE xs f) (\<lambda>ys. returnE (y # ys)))"

definition succeeded :: "'e + 'a \<Rightarrow> bool" where
  "succeeded r = (case r of Inl _ \<Rightarrow> False | Inr _ \<Rightarrow> True)"

lemma succeeded_simps [simp]: "succeeded (Inr x)" "\<not> succeeded (Inl e)"
  by (simp_all add: succeeded_def)

lemma returnE_apply [simp, op_defs]: "returnE x w = (Inr x, w)"
  by (simp add: returnE_def)

lemma throwE_apply [simp, op_defs]: "throwE e w = (Inl e, w)"
  by (simp add: throwE_def)

lemma liftE_apply [simp, op_defs]: "liftE r w = (r, w)"
  by (simp add: liftE_def)

lemma bindE_apply: "bindE m f w = (case m w of (Inl e, v) \<Rightarrow> (Inl e, v) | (Inr x, v) \<Rightarrow> f x v)"
  by (simp add: bindE_def)

lemma attemptE_apply: "attemptE m w = (Inr (fst (m w)), snd (m w))"
  by (simp add: attemptE_def split: prod.split)

text \<open>Evaluation: once the first operation has a known outcome, the rest is determined.\<close>

lemma bindE_ok [simp]: "m w = (Inr x, v) \<Longrightarrow> bindE m f w = f x v"
  by (simp add: bindE_def)

lemma bindE_err [simp]: "m w = (Inl e, v) \<Longrightarrow> bindE m f w = (Inl e, v)"
  by (simp add: bindE_def)

lemma attemptE_ok [simp]: "m w = (r, v) \<Longrightarrow> attemptE m w = (Inr r, v)"
  by (simp add: attemptE_def)

lemma bindE_Inr:
  "bindE m f w = (Inr y, w') \<longleftrightarrow> (\<exists>x v. m w = (Inr x, v) \<and> f x v = (Inr y, w'))"
  by (auto simp: bindE_def split: prod.splits sum.splits)

lemma bindE_Inl:
  "bindE m f w = (Inl e, w') \<longleftrightarrow>
     m w = (Inl e, w') \<or> (\<exists>x v. m w = (Inr x, v) \<and> f x v = (Inl e, w'))"
  by (auto simp: bindE_def split: prod.splits sum.splits)

lemma bindE_cases:
  assumes "bindE m f w = (r, w')"
  obtains (err) e where "m w = (Inl e, w')" "r = Inl e"
    | (ok) x v where "m w = (Inr x, v)" "f x v = (r, w')"
  using assms by (auto simp: bindE_def split: prod.splits sum.splits)

lemma forE_append: "forE (xs @ ys) body w = bindE (forE xs body) (\<lambda>_. forE ys body) w"
  by (induction xs arbitrary: w) (auto simp: bindE_def split: prod.split sum.split)

subsection \<open>Relations every step conforms\<close>

text \<open>
  \<open>conforms R m\<close> says that \<open>m\<close> relates the state before to the state after by \<open>R\<close>, whatever
  its outcome. With a preorder \<open>R\<close> it composes; a frame condition, an append-only log, a state
  that only moves forward and an invariant are all relations of this kind.
\<close>

definition conforms :: "('w \<Rightarrow> 'w \<Rightarrow> bool) \<Rightarrow> ('w, 'e, 'a) op \<Rightarrow> bool" where
  "conforms R m \<longleftrightarrow> (\<forall>w. R w (snd (m w)))"

lemma conformsI: "(\<And>w r w'. m w = (r, w') \<Longrightarrow> R w w') \<Longrightarrow> conforms R m"
  by (auto simp: conforms_def intro: prod.collapse [symmetric])

lemma conformsD: "conforms R m \<Longrightarrow> m w = (r, w') \<Longrightarrow> R w w'"
  by (metis conforms_def snd_conv)

locale effect_order =
  fixes R :: "'w \<Rightarrow> 'w \<Rightarrow> bool"
  assumes R_refl: "R w w"
    and R_trans: "R u v \<Longrightarrow> R v w \<Longrightarrow> R u w"
begin

lemma resp_return: "conforms R (returnE x)"
  by (simp add: conforms_def R_refl)

lemma resp_throw: "conforms R (throwE e)"
  by (simp add: conforms_def R_refl)

lemma resp_lift: "conforms R (liftE r)"
  by (simp add: conforms_def R_refl)

lemma resp_attempt: "conforms R m \<Longrightarrow> conforms R (attemptE m)"
  by (simp add: conforms_def attemptE_apply)

lemma resp_bind:
  assumes "conforms R m" and "\<And>x. conforms R (f x)"
  shows "conforms R (bindE m f)"
proof (rule conformsI)
  fix w r w' assume "bindE m f w = (r, w')"
  then show "R w w'"
  proof (cases rule: bindE_cases)
    case err
    with assms(1) show ?thesis by (blast dest: conformsD)
  next
    case (ok x v)
    with assms have "R w v" and "R v w'" by (blast dest: conformsD)+
    then show ?thesis by (rule R_trans)
  qed
qed

lemma resp_for: "(\<And>x. x \<in> set xs \<Longrightarrow> conforms R (body x)) \<Longrightarrow> conforms R (forE xs body)"
  by (induction xs) (simp_all add: resp_return resp_bind)

lemma resp_map: "(\<And>x. x \<in> set xs \<Longrightarrow> conforms R (f x)) \<Longrightarrow> conforms R (mapE xs f)"
  by (induction xs) (simp_all add: resp_return resp_bind)

lemmas resp_intros = resp_return resp_throw resp_lift resp_attempt resp_bind resp_for resp_map

end

subsection \<open>Rows\<close>

definition count_where :: "('r \<Rightarrow> bool) \<Rightarrow> 'r list \<Rightarrow> nat" where
  "count_where P rows = length (filter P rows)"

definition update_where :: "('r \<Rightarrow> bool) \<Rightarrow> ('r \<Rightarrow> 'r) \<Rightarrow> 'r list \<Rightarrow> 'r list" where
  "update_where P f rows = map (\<lambda>r. if P r then f r else r) rows"

definition delete_where :: "('r \<Rightarrow> bool) \<Rightarrow> 'r list \<Rightarrow> 'r list" where
  "delete_where P rows = filter (\<lambda>r. \<not> P r) rows"

definition exists_where :: "('r \<Rightarrow> bool) \<Rightarrow> 'r list \<Rightarrow> bool" where
  "exists_where P rows = list_ex P rows"

text \<open>A single-row read takes the first matching row, as \<^verbatim>\<open>QueryRow\<close> does.\<close>

definition first_where :: "('r \<Rightarrow> bool) \<Rightarrow> 'r list \<Rightarrow> 'r option" where
  "first_where P rows = List.find P rows"

lemma exists_where_iff: "exists_where P rows \<longleftrightarrow> (\<exists>r \<in> set rows. P r)"
  by (simp add: exists_where_def list_ex_iff)

lemma set_update_where: "set (update_where P f rows) = (\<lambda>r. if P r then f r else r) ` set rows"
  by (simp add: update_where_def)

lemma in_update_where:
  assumes "r \<in> set (update_where P f rows)"
  obtains (changed) s where "s \<in> set rows" "P s" "r = f s" | (kept) "r \<in> set rows" "\<not> P r"
proof -
  from assms obtain s where "s \<in> set rows" "r = (if P s then f s else s)"
    unfolding set_update_where by blast
  then show thesis using changed kept by (cases "P s") simp_all
qed

lemma update_where_clears:
  assumes "\<And>r. P r \<Longrightarrow> \<not> Q (f r)" and "\<And>r. Q r \<Longrightarrow> P r"
  shows "\<not> exists_where Q (update_where P f rows)"
proof -
  have "\<not> Q r" if "r \<in> set (update_where P f rows)" for r
    using that by (cases rule: in_update_where) (use assms in auto)
  then show ?thesis by (simp add: exists_where_iff)
qed

lemma update_where_others:
  assumes "\<And>r. P r \<Longrightarrow> \<not> Q r" and "\<And>r. P r \<Longrightarrow> \<not> Q (f r)"
  shows "filter Q (update_where P f rows) = filter Q rows"
  using assms by (induction rows) (auto simp: update_where_def)

lemma update_where_idem:
  assumes "\<And>r. f (f r) = f r" and "\<And>r. Q (f r) = Q r"
  shows "update_where Q f (update_where P f rows) = update_where (\<lambda>r. P r \<or> Q r) f rows"
  using assms by (induction rows) (auto simp: update_where_def)

lemma update_where_none: "\<not> exists_where P rows \<Longrightarrow> update_where P f rows = rows"
  by (auto simp: update_where_def exists_where_iff intro: map_idI)

lemma update_where_Nil [simp]: "update_where P f [] = []"
  by (simp add: update_where_def)

lemma length_update_where [simp]: "length (update_where P f rows) = length rows"
  by (simp add: update_where_def)

lemma map_update_where [simp]:
  "(\<And>r. P r \<Longrightarrow> g (f r) = g r) \<Longrightarrow> map g (update_where P f rows) = map g rows"
  by (simp add: update_where_def)

lemma count_where_zero: "count_where P rows = 0 \<longleftrightarrow> \<not> exists_where P rows"
  by (auto simp: count_where_def exists_where_iff filter_empty_conv)

lemma count_where_append [simp]: "count_where P (xs @ ys) = count_where P xs + count_where P ys"
  by (simp add: count_where_def)

lemma count_where_Nil [simp]: "count_where P [] = 0"
  by (simp add: count_where_def)

lemma count_where_Cons: "count_where P (x # xs) = (if P x then 1 else 0) + count_where P xs"
  by (simp add: count_where_def)

lemma count_where_mono: "(\<And>r. r \<in> set rows \<Longrightarrow> P r \<Longrightarrow> Q r) \<Longrightarrow> count_where P rows \<le> count_where Q rows"
  by (induction rows) (auto simp: count_where_Cons)

text \<open>The counting law behind every capacity argument: an update that makes no row newly
  countable does not raise the count.\<close>

lemma count_where_update_le:
  assumes "\<And>r. r \<in> set rows \<Longrightarrow> Q (if P r then f r else r) \<Longrightarrow> Q' r"
  shows "count_where Q (update_where P f rows) \<le> count_where Q' rows"
  using assms
proof (induction rows)
  case (Cons r rows)
  from Cons.IH Cons.prems have "count_where Q (update_where P f rows) \<le> count_where Q' rows"
    by simp
  moreover have "Q (if P r then f r else r) \<Longrightarrow> Q' r" using Cons.prems [of r] by simp
  ultimately show ?case by (auto simp: count_where_Cons update_where_def)
qed simp

lemma first_where_Some: "first_where P rows = Some r \<Longrightarrow> r \<in> set rows \<and> P r"
  by (auto simp: first_where_def find_Some_iff)

lemma first_where_last: "\<not> exists_where P xs \<Longrightarrow> P r \<Longrightarrow> first_where P (xs @ [r]) = Some r"
  by (induction xs) (auto simp: first_where_def exists_where_def)

lemma first_where_None: "first_where P rows = None \<longleftrightarrow> (\<forall>r \<in> set rows. \<not> P r)"
  by (auto simp: first_where_def find_None_iff)

lemma first_where_key:
  assumes "distinct (map k rows)" and "r \<in> set rows"
  shows "first_where (\<lambda>r'. k r' = k r) rows = Some r"
  using assms by (induction rows) (auto simp: first_where_def)

lemma distinct_key_eq: "distinct (map k rows) \<Longrightarrow> r \<in> set rows \<Longrightarrow> s \<in> set rows \<Longrightarrow> k r = k s \<Longrightarrow> r = s"
  by (auto simp: distinct_map inj_on_def)

lemma set_delete_where [simp]: "set (delete_where P rows) = {r \<in> set rows. \<not> P r}"
  by (auto simp: delete_where_def)

lemma distinct_map_filterI: "distinct (map k rows) \<Longrightarrow> distinct (map k (filter P rows))"
  by (induction rows) auto

subsection \<open>Tables that only grow and rows that only evolve\<close>

text \<open>\<open>evolves R xs ys\<close>: \<open>ys\<close> has every row of \<open>xs\<close> at its place, changed by \<open>R\<close> at
  most, and possibly rows after them.\<close>

definition evolves :: "('r \<Rightarrow> 'r \<Rightarrow> bool) \<Rightarrow> 'r list \<Rightarrow> 'r list \<Rightarrow> bool" where
  "evolves R xs ys \<longleftrightarrow> length xs \<le> length ys \<and> (\<forall>i < length xs. R (xs ! i) (ys ! i))"

definition evolves_in_place :: "('r \<Rightarrow> 'r \<Rightarrow> bool) \<Rightarrow> 'r list \<Rightarrow> 'r list \<Rightarrow> bool" where
  "evolves_in_place R xs ys \<longleftrightarrow> length xs = length ys \<and> (\<forall>i < length xs. R (xs ! i) (ys ! i))"

lemma evolves_refl: "(\<And>r. R r r) \<Longrightarrow> evolves R xs xs"
  by (simp add: evolves_def)

lemma evolves_trans:
  "evolves R xs ys \<Longrightarrow> evolves R ys zs \<Longrightarrow> (\<And>r s t. R r s \<Longrightarrow> R s t \<Longrightarrow> R r t) \<Longrightarrow> evolves R xs zs"
  unfolding evolves_def by (metis order_trans order_less_le_trans)

lemma evolves_append: "(\<And>r. R r r) \<Longrightarrow> evolves R xs (xs @ ys)"
  by (simp add: evolves_def nth_append)

lemma evolves_update: "(\<And>r. R r r) \<Longrightarrow> (\<And>r. P r \<Longrightarrow> R r (f r)) \<Longrightarrow> evolves R xs (update_where P f xs)"
  by (simp add: evolves_def update_where_def)

lemma evolves_in_place_refl: "(\<And>r. R r r) \<Longrightarrow> evolves_in_place R xs xs"
  by (simp add: evolves_in_place_def)

lemma evolves_in_place_trans:
  "evolves_in_place R xs ys \<Longrightarrow> evolves_in_place R ys zs \<Longrightarrow>
     (\<And>r s t. R r s \<Longrightarrow> R s t \<Longrightarrow> R r t) \<Longrightarrow> evolves_in_place R xs zs"
  unfolding evolves_in_place_def by metis

lemma evolves_in_place_update:
  "(\<And>r. R r r) \<Longrightarrow> (\<And>r. P r \<Longrightarrow> R r (f r)) \<Longrightarrow> evolves_in_place R xs (update_where P f xs)"
  by (simp add: evolves_in_place_def update_where_def)

lemma evolves_in_place_mono:
  "evolves_in_place R xs ys \<Longrightarrow> (\<And>r s. R r s \<Longrightarrow> S r s) \<Longrightarrow> evolves S xs ys"
  by (simp add: evolves_in_place_def evolves_def)

lemma evolves_in_place_map:
  "evolves_in_place R xs ys \<Longrightarrow> (\<And>r s. R r s \<Longrightarrow> f s = f r) \<Longrightarrow> map f ys = map f xs"
  by (simp add: evolves_in_place_def list_eq_iff_nth_eq)

lemma evolves_in_place_back:
  "evolves_in_place R xs ys \<Longrightarrow> s \<in> set ys \<Longrightarrow> \<exists>r \<in> set xs. R r s"
  unfolding evolves_in_place_def by (metis in_set_conv_nth)

lemma evolves_forward:
  "evolves R xs ys \<Longrightarrow> r \<in> set xs \<Longrightarrow> \<exists>s \<in> set ys. R r s"
  unfolding evolves_def by (metis in_set_conv_nth order_less_le_trans)

lemma evolves_in_place_forward:
  "evolves_in_place R xs ys \<Longrightarrow> r \<in> set xs \<Longrightarrow> \<exists>s \<in> set ys. R r s"
  unfolding evolves_in_place_def by (metis in_set_conv_nth)

lemma evolves_in_place_count:
  "evolves_in_place R xs ys \<Longrightarrow> (\<And>r s. R r s \<Longrightarrow> P s \<Longrightarrow> Q r) \<Longrightarrow> count_where P ys \<le> count_where Q xs"
proof (induction xs arbitrary: ys)
  case Nil
  then show ?case by (simp add: evolves_in_place_def)
next
  case (Cons x xs)
  then obtain y ys' where ys: "ys = y # ys'" by (cases ys) (auto simp: evolves_in_place_def)
  with Cons.prems(1) have "R x y" and "evolves_in_place R xs ys'"
    unfolding evolves_in_place_def by (force dest: spec [of _ "0::nat"], fastforce)
  with Cons show ?case by (auto simp: ys count_where_Cons intro: le_SucI)
qed

subsection \<open>Tables of the database\<close>

text \<open>
  One table of a database \<open>'d\<close>: how its rows are read, how they are replaced, and its primary
  key. The lemmas say what an insert of a fresh key, an update that keeps the key and a delete do
  to the key constraint, once for all tables.
\<close>

locale table =
  fixes rows :: "'d \<Rightarrow> 'r list"
    and put :: "('r list \<Rightarrow> 'r list) \<Rightarrow> 'd \<Rightarrow> 'd"
    and key :: "'r \<Rightarrow> 'k"
  assumes rows_put: "rows (put f d) = f (rows d)"
begin

lemma key_insert:
  assumes "distinct (map key (rows d))" and "\<not> exists_where (\<lambda>s. key s = key r) (rows d)"
  shows "distinct (map key (rows (put (\<lambda>rs. rs @ [r]) d)))"
  using assms by (auto simp: rows_put exists_where_iff)

lemma key_update:
  assumes "\<And>r. P r \<Longrightarrow> key (f r) = key r"
  shows "map key (rows (put (update_where P f) d)) = map key (rows d)"
  using assms by (simp add: rows_put)

lemma key_delete:
  assumes "distinct (map key (rows d))"
  shows "distinct (map key (rows (put (delete_where P) d)))"
  using assms by (simp add: rows_put delete_where_def distinct_map_filterI)

lemma find_by_key:
  assumes "distinct (map key (rows d))" and "r \<in> set (rows d)"
  shows "first_where (\<lambda>s. key s = key r) (rows d) = Some r"
  using assms by (rule first_where_key)

end

subsection \<open>Sorting by a key\<close>

lemma sort_key_head_le:
  assumes "sort_key f xs = y # ys" and "x \<in> set xs"
  shows "f y \<le> f x"
proof -
  have "sorted (map f (y # ys))" using sorted_sort_key [of f xs] assms(1) by simp
  moreover have "x \<in> set (y # ys)" using assms by (metis set_sort)
  ultimately show ?thesis by auto
qed

lemma sort_key_head_in: "sort_key f xs = y # ys \<Longrightarrow> y \<in> set xs"
  by (metis list.set_intros(1) set_sort)

lemma sort_key_head_unique:
  assumes "sort_key f xs = y # ys" and "x \<in> set xs" and "\<And>z. z \<in> set xs \<Longrightarrow> f x \<le> f z"
    and "inj_on f (set xs)"
  shows "y = x"
  using assms sort_key_head_le [OF assms(1,2)] sort_key_head_in [OF assms(1)]
  by (metis antisym inj_onD)

text \<open>A limited listing in order: what it leaves out comes after what it has.\<close>

lemma take_sort_key_least:
  assumes "x \<in> set (take n (sort_key f xs))" and "y \<in> set xs" and "y \<notin> set (take n (sort_key f xs))"
  shows "f x \<le> f y"
proof -
  have "sorted (map f (take n (sort_key f xs) @ drop n (sort_key f xs)))" by simp
  then have "\<forall>u \<in> set (take n (sort_key f xs)). \<forall>v \<in> set (drop n (sort_key f xs)). f u \<le> f v"
    unfolding map_append sorted_append by auto
  moreover have "y \<in> set (drop n (sort_key f xs))"
    using assms(2,3) by (metis UnE append_take_drop_id set_append set_sort)
  ultimately show ?thesis using assms(1) by blast
qed

lemma sorted_take_sort_key: "sorted (map f (take n (sort_key f xs)))"
  by (simp add: take_map [symmetric] sorted_wrt_take)

end
