(* ===== verification/GoStd.thy ===== *)
theory GoStd
  imports Prelude
begin

section \<open>The parts of the Go standard library the program uses\<close>

text \<open>
  Instants are integers: nanoseconds since the Unix epoch, UTC. Go's zero time (year 1) is a
  particular instant, which the program uses for "has not happened". Durations are nanoseconds.
  Instants outside the years 1678 to 2262 would wrap in \<^verbatim>\<open>UnixNano\<close>, which the program does not
  call; its microsecond counts stay far inside 64 bits. Strings are byte lists, as Go's are.
\<close>

type_synonym instant = int
type_synonym duration = int

definition zeroTime :: instant where
  "zeroTime = - 62135596800000000000"

definition IsZero :: "instant \<Rightarrow> bool" where
  "IsZero t \<longleftrightarrow> t = zeroTime"

abbreviation Microsecond :: duration where "Microsecond \<equiv> 1000"
abbreviation Second :: duration where "Second \<equiv> 1000000000"
abbreviation Minute :: duration where "Minute \<equiv> 60 * Second"

text \<open>\<^verbatim>\<open>time.UnixMicro\<close> rounds towards minus infinity, because the nanosecond part of a
  \<^verbatim>\<open>time.Time\<close> is never negative; \<^verbatim>\<open>Duration.Microseconds\<close> truncates towards zero.\<close>

definition UnixMicro :: "instant \<Rightarrow> int" where
  "UnixMicro t = t div 1000"

definition fromUnixMicro :: "int \<Rightarrow> instant" where
  "fromUnixMicro us = us * 1000"

definition quot :: "int \<Rightarrow> int \<Rightarrow> int" where
  "quot a b = sgn a * sgn b * (\<bar>a\<bar> div \<bar>b\<bar>)"

definition Microseconds :: "duration \<Rightarrow> int" where
  "Microseconds d = quot d 1000"

lemma quot_nonneg: "0 \<le> a \<Longrightarrow> 0 < b \<Longrightarrow> quot a b = a div b"
  by (auto simp: quot_def sgn_if)

lemma UnixMicro_mono: "s \<le> t \<Longrightarrow> UnixMicro s \<le> UnixMicro t"
  by (simp add: UnixMicro_def zdiv_mono1)

lemma UnixMicro_fromUnixMicro [simp]: "UnixMicro (fromUnixMicro us) = us"
  by (simp add: UnixMicro_def fromUnixMicro_def)

subsection \<open>Decimal numbers and RFC 3339\<close>

definition digit :: "nat \<Rightarrow> char" where
  "digit n = ''0123456789'' ! n"

function digits10 :: "int \<Rightarrow> string" where
  "digits10 n = (if n < 10 then [digit (nat n)] else digits10 (n div 10) @ [digit (nat (n mod 10))])"
  by pat_completeness auto
termination by (relation "measure nat") auto

declare digits10.simps [simp del]

definition itoa :: "int \<Rightarrow> string" where
  "itoa i = (if i < 0 then ''-'' @ digits10 (- i) else digits10 i)"

definition pad :: "nat \<Rightarrow> int \<Rightarrow> string" where
  "pad width n = (let ds = digits10 n in replicate (width - length ds) (CHR ''0'') @ ds)"

text \<open>The proleptic Gregorian date of a day count since 1970-01-01 (400-year eras of 146097
  days, years starting in March).\<close>

definition civil_from_days :: "int \<Rightarrow> int \<times> int \<times> int" where
  "civil_from_days z0 =
     (let z = z0 + 719468;
          era = z div 146097;
          doe = z mod 146097;
          yoe = (doe - doe div 1460 + doe div 36524 - doe div 146096) div 365;
          doy = doe - (365 * yoe + yoe div 4 - yoe div 100);
          mp = (5 * doy + 2) div 153;
          d = doy - (153 * mp + 2) div 5 + 1;
          m = (if mp < 10 then mp + 3 else mp - 9);
          y = yoe + era * 400 + (if m \<le> 2 then 1 else 0)
      in (y, m, d))"

definition FormatRFC3339 :: "instant \<Rightarrow> string" where
  "FormatRFC3339 t =
     (let secs = t div Second;
          (y, m, d) = civil_from_days (secs div 86400);
          sod = secs mod 86400
      in pad 4 y @ ''-'' @ pad 2 m @ ''-'' @ pad 2 d @ ''T'' @
         pad 2 (sod div 3600) @ '':'' @ pad 2 (sod div 60 mod 60) @ '':'' @ pad 2 (sod mod 60) @ ''Z'')"

text \<open>\<^verbatim>\<open>Duration.String\<close>: hours, minutes and seconds with the fraction's trailing zeros dropped;
  below a second the unit is ms, \<mu>s (two bytes) or ns.\<close>

definition frac :: "int \<Rightarrow> nat \<Rightarrow> string" where
  "frac v prec = (let f = v mod 10 ^ prec in
     if f = 0 then [] else ''.'' @ rev (dropWhile (\<lambda>c. c = CHR ''0'') (rev (pad prec f))))"

definition FormatDuration :: "duration \<Rightarrow> string" where
  "FormatDuration d =
     (let u = \<bar>d\<bar>;
          secs = u div 1000000000;
          body = (if u = 0 then ''0s''
             else if u < 1000 then digits10 u @ ''ns''
             else if u < 1000000 then digits10 (u div 1000) @ frac u 3 @ [CHR 0xC2, CHR 0xB5] @ ''s''
             else if u < 1000000000 then digits10 (u div 1000000) @ frac u 6 @ ''ms''
             else (if secs \<ge> 3600 then digits10 (secs div 3600) @ ''h'' else []) @
                  (if secs \<ge> 60 then digits10 (secs div 60 mod 60) @ ''m'' else []) @
                  digits10 (secs mod 60) @ frac u 9 @ ''s'')
      in (if d < 0 then ''-'' else []) @ body)"

text \<open>\<^verbatim>\<open>time.RFC3339Nano\<close> has the nanoseconds too, without trailing zeros.\<close>

definition FormatRFC3339Nano :: "instant \<Rightarrow> string" where
  "FormatRFC3339Nano t = butlast (FormatRFC3339 t) @ frac (t mod Second) 9 @ ''Z''"

subsection \<open>Strings\<close>

definition HasPrefix :: "string \<Rightarrow> string \<Rightarrow> bool" where
  "HasPrefix s p \<longleftrightarrow> take (length p) s = p"

definition TrimPrefix :: "string \<Rightarrow> string \<Rightarrow> string" where
  "TrimPrefix s p = (if HasPrefix s p then drop (length p) s else s)"

text \<open>\<^verbatim>\<open>strings.Join\<close>.\<close>

fun Join :: "string list \<Rightarrow> string \<Rightarrow> string" where
  "Join [] sep = []"
| "Join [x] sep = x"
| "Join (x # y # zs) sep = x @ sep @ Join (y # zs) sep"

text \<open>\<^verbatim>\<open>strings.Split\<close> at a one-byte separator.\<close>

fun Split_at :: "char \<Rightarrow> string \<Rightarrow> string list" where
  "Split_at c [] = [[]]"
| "Split_at c (x # xs) =
     (if x = c then [] # Split_at c xs
      else (case Split_at c xs of [] \<Rightarrow> [[x]] | p # ps \<Rightarrow> (x # p) # ps))"

text \<open>\<^verbatim>\<open>strings.Cut\<close> at a one-byte separator: before, after, found.\<close>

fun cut_at :: "char \<Rightarrow> string \<Rightarrow> string \<times> string \<times> bool" where
  "cut_at c [] = ([], [], False)"
| "cut_at c (x # xs) =
     (if x = c then ([], xs, True) else (case cut_at c xs of (b, a, f) \<Rightarrow> (x # b, a, f)))"

text \<open>\<^verbatim>\<open>strings.TrimSpace\<close> takes \<^verbatim>\<open>unicode.IsSpace\<close> off both ends: the ASCII white space and the
  UTF-8 texts of U+0085, U+00A0, U+1680, U+2000 to U+200A, U+2028, U+2029, U+202F, U+205F and
  U+3000.\<close>

definition is_space :: "char \<Rightarrow> bool" where
  "is_space c \<longleftrightarrow> c \<in> {CHR '' '', CHR 0x09, CHR 0x0A, CHR 0x0B, CHR 0x0C, CHR 0x0D}"

definition wide_spaces :: "string list" where
  "wide_spaces = [[CHR 0xC2, CHR 0x85], [CHR 0xC2, CHR 0xA0], [CHR 0xE1, CHR 0x9A, CHR 0x80]] @
     map (\<lambda>n. [CHR 0xE2, CHR 0x80, char_of (n :: nat)]) ([0x80..<0x8B] @ [0xA8, 0xA9, 0xAF]) @
     [[CHR 0xE2, CHR 0x81, CHR 0x9F], [CHR 0xE3, CHR 0x80, CHR 0x80]]"

definition leading_space :: "string list \<Rightarrow> string \<Rightarrow> nat" where
  "leading_space wide s = (case s of [] \<Rightarrow> 0
     | c # _ \<Rightarrow> if is_space c then 1
        else (case List.find (HasPrefix s) wide of None \<Rightarrow> 0 | Some p \<Rightarrow> length p))"

function trim_left :: "string list \<Rightarrow> string \<Rightarrow> string" where
  "trim_left wide s = (if leading_space wide s = 0 then s else trim_left wide (drop (leading_space wide s) s))"
  by pat_completeness auto
termination
  by (relation "measure (\<lambda>(_, s). length s)") (auto simp: leading_space_def split: list.splits)

declare trim_left.simps [simp del]

definition TrimSpace :: "string \<Rightarrow> string" where
  "TrimSpace s = rev (trim_left (map rev wide_spaces) (rev (trim_left wide_spaces s)))"

lemma trim_left_suffix: "\<exists>p. s = p @ trim_left wide s"
proof (induction wide s rule: trim_left.induct)
  case (1 wide s)
  show ?case
  proof (cases "leading_space wide s = 0")
    case True
    then show ?thesis by (simp add: trim_left.simps)
  next
    case False
    then have "trim_left wide s = trim_left wide (drop (leading_space wide s) s)"
      by (simp add: trim_left.simps [of wide s])
    with 1 [OF False] obtain p where "drop (leading_space wide s) s = p @ trim_left wide s" by auto
    then have "s = (take (leading_space wide s) s @ p) @ trim_left wide s"
      by (metis append.assoc append_take_drop_id)
    then show ?thesis by blast
  qed
qed

lemma TrimSpace_infix: "\<exists>p q. s = p @ TrimSpace s @ q"
proof -
  from trim_left_suffix obtain p where p: "s = p @ trim_left wide_spaces s" by blast
  from trim_left_suffix [of "rev (trim_left wide_spaces s)" "map rev wide_spaces"] obtain q where
    "rev (trim_left wide_spaces s) = q @ rev (TrimSpace s)" by (auto simp: TrimSpace_def)
  then have "trim_left wide_spaces s = TrimSpace s @ rev q" by (metis rev_append rev_rev_ident)
  with p show ?thesis by metis
qed

lemma TrimSpace_set: "set (TrimSpace s) \<subseteq> set s"
  using TrimSpace_infix [of s] by (metis Un_iff set_append subsetI)

lemma cut_at_append: "cut_at c s = (b, a, True) \<Longrightarrow> s = b @ c # a"
  by (induction s arbitrary: b) (auto split: if_splits prod.splits)

lemma cut_at_before: "cut_at c s = (b, a, f) \<Longrightarrow> c \<notin> set b"
  by (induction s arbitrary: b) (auto split: if_splits prod.splits)

lemma cut_at_not_found: "c \<notin> set s \<Longrightarrow> cut_at c s = (s, [], False)"
  by (induction s) auto

lemma cut_at_found: "c \<notin> set b \<Longrightarrow> cut_at c (b @ c # a) = (b, a, True)"
  by (induction b) auto

lemma Split_at_Cons: "\<exists>p ps. Split_at c s = p # ps"
  by (induction s) (auto split: list.splits)

lemma Split_at_none: "c \<notin> set s \<Longrightarrow> Split_at c s = [s]"
  by (induction s) auto

lemma Split_at_append: "c \<notin> set s \<Longrightarrow> Split_at c (s @ c # t) = s # Split_at c t"
  by (induction s) auto

text \<open>Splitting undoes joining when no element has the separator in it.\<close>

lemma Split_Join:
  assumes "\<forall>x \<in> set xs. c \<notin> set x" and "xs \<noteq> []"
  shows "Split_at c (Join xs [c]) = xs"
  using assms by (induction xs "[c]" rule: Join.induct) (auto simp: Split_at_none Split_at_append)

end
