(* ===== verification/Core.thy ===== *)
theory Core
  imports GoStd
begin

section \<open>The domain vocabulary (\<open>internal/core\<close>)\<close>

text \<open>
  The types every layer agrees on, with the source's field names behind a prefix that says whose
  field it is. An enumeration of the source is a string type with named constants; its datatype
  has one constructor per constant and one for any other string, so that the \<open>Valid\<close> checks keep
  their meaning. Errors are the sentinel a caller finds with \<^verbatim>\<open>errors.Is\<close>; the wrapped text is
  left out. \<open>ContextDone\<close> stands for \<^verbatim>\<open>ctx.Err()\<close>; \<open>ErrGitHubNotFound\<close> is the sentinel of
  \<open>internal/github\<close>, with its text, which the watcher stores.
\<close>

subsection \<open>Errors (\<open>errors.go\<close>)\<close>

datatype ctx_err = Canceled | DeadlineExceeded

datatype err =
    ErrNotFound
  | ErrAlreadyExists
  | ErrInvalidArgument
  | ErrUnauthorised
  | ErrCapacityReached
  | ErrConflict
  | ContextDone ctx_err
  | ErrGitHubNotFound string
  | OtherError string

type_synonym 'a res = "err + 'a"

definition check :: "bool \<Rightarrow> err \<Rightarrow> unit res" where
  "check ok e = (if ok then Inr () else Inl e)"

lemma check_simps [simp]:
  "check b e = Inr u \<longleftrightarrow> b"
  "check b e = Inl e' \<longleftrightarrow> \<not> b \<and> e' = e"
  "check True e = Inr ()" "check False e = Inl e"
  "succeeded (check b e) \<longleftrightarrow> b"
  by (auto simp: check_def)

text \<open>Checks run in order; the first failure is the answer.\<close>

fun first_error :: "unit res list \<Rightarrow> unit res" where
  "first_error [] = Inr ()"
| "first_error (Inl e # cs) = Inl e"
| "first_error (Inr u # cs) = first_error cs"

lemma first_error_ok: "first_error cs = Inr u \<longleftrightarrow> (\<forall>c \<in> set cs. succeeded c)"
  by (induction cs rule: first_error.induct) auto

lemma first_error_in: "first_error cs = Inl e \<Longrightarrow> Inl e \<in> set cs"
  by (induction cs rule: first_error.induct) auto

lemma first_error_check [simp]:
  "first_error (check b e # cs) = (if b then first_error cs else Inl e)"
  by (simp add: check_def)

subsection \<open>Names and agents (\<open>agent.go\<close>)\<close>

datatype AgentState = AgentActive | AgentStale | AgentDeregistered | OtherAgentState string

definition AgentState_Valid :: "AgentState \<Rightarrow> bool" where
  "AgentState_Valid s \<longleftrightarrow> s = AgentActive \<or> s = AgentStale \<or> s = AgentDeregistered"

definition name_first :: "char \<Rightarrow> bool" where
  "name_first c \<longleftrightarrow> CHR ''a'' \<le> c \<and> c \<le> CHR ''z'' \<or> CHR ''0'' \<le> c \<and> c \<le> CHR ''9''"

definition name_rest :: "char \<Rightarrow> bool" where
  "name_rest c \<longleftrightarrow> name_first c \<or> c = CHR ''.'' \<or> c = CHR ''_'' \<or> c = CHR ''-''"

definition nameSyntax :: "string \<Rightarrow> bool" where
  "nameSyntax s = (case s of [] \<Rightarrow> False
     | c # cs \<Rightarrow> name_first c \<and> list_all name_rest cs \<and> length cs \<le> 62)"

definition ValidateName :: "string \<Rightarrow> unit res" where
  "ValidateName name = (if \<not> nameSyntax name then Inl ErrInvalidArgument else Inr ())"

lemma ValidateName_check: "ValidateName n = check (nameSyntax n) ErrInvalidArgument"
  by (simp add: ValidateName_def check_def)

record Capabilities =
  cap_Resources :: "string list"
  cap_CanBroadcast :: bool
  cap_CanDefineResources :: bool
  cap_CanRequestReports :: bool
  cap_CanReadLog :: bool

definition noCapabilities :: Capabilities where
  "noCapabilities = \<lparr>cap_Resources = [], cap_CanBroadcast = False, cap_CanDefineResources = False,
     cap_CanRequestReports = False, cap_CanReadLog = False\<rparr>"

definition WildcardResource :: string where
  "WildcardResource = ''*''"

definition MayLease :: "Capabilities \<Rightarrow> string \<Rightarrow> bool" where
  "MayLease c resource \<longleftrightarrow>
     List.member (cap_Resources c) WildcardResource \<or> List.member (cap_Resources c) resource"

record Agent =
  agent_ID :: string
  agent_Name :: string
  agent_Kind :: string
  agent_Workdir :: string
  agent_ProcessID :: int
  agent_Capabilities :: Capabilities
  agent_Internal :: bool
  agent_State :: AgentState
  agent_RegisteredAt :: instant
  agent_LastHeartbeatAt :: instant

definition Agent_Validate :: "Agent \<Rightarrow> unit res" where
  "Agent_Validate a = first_error
     [check (agent_ID a \<noteq> []) ErrInvalidArgument,
      ValidateName (agent_Name a),
      ValidateName (agent_Kind a),
      check (agent_Workdir a \<noteq> []) ErrInvalidArgument,
      check (AgentState_Valid (agent_State a)) ErrInvalidArgument]"

definition IsAlive :: "Agent \<Rightarrow> instant \<Rightarrow> duration \<Rightarrow> bool" where
  "IsAlive a at timeToLive \<longleftrightarrow>
     agent_State a = AgentActive \<and> at - agent_LastHeartbeatAt a \<le> timeToLive"

subsection \<open>The audit log (\<open>audit.go\<close>)\<close>

datatype AuditAction =
    AuditAgentRegistered | AuditAgentDeregistered | AuditAgentWentStale | AuditAuthDenied
  | AuditMessageSent | AuditResourceDefined | AuditLeaseGranted | AuditLeaseRenewed
  | AuditLeaseReleased | AuditLeaseExpired | AuditQueueJoined | AuditQueueCancelled
  | AuditReportRequested | NoAuditAction

record AuditEntry =
  ae_ID :: int
  ae_Actor :: string
  ae_Action :: AuditAction
  ae_Target :: string
  ae_Detail :: string
  ae_At :: instant

definition SystemActor :: string where
  "SystemActor = ''system''"

subsection \<open>Credentials (\<open>credential.go\<close>)\<close>

record Credential =
  cred_AgentID :: string
  cred_TokenHash :: string
  cred_IssuedAt :: instant
  cred_RevokedAt :: instant

definition Revoked :: "Credential \<Rightarrow> bool" where
  "Revoked c \<longleftrightarrow> \<not> IsZero (cred_RevokedAt c)"

subsection \<open>Messages (\<open>message.go\<close>)\<close>

definition BroadcastTopic :: string where
  "BroadcastTopic = ''all''"

record Message =
  msg_ID :: string
  msg_FromAgentID :: string
  msg_ToAgentID :: string
  msg_Topic :: string
  msg_Kind :: string
  msg_Body :: string
  msg_CreatedAt :: instant
  msg_ExpiresAt :: instant

definition Direct :: "Message \<Rightarrow> bool" where
  "Direct m \<longleftrightarrow> msg_ToAgentID m \<noteq> []"

definition Message_Validate :: "Message \<Rightarrow> unit res" where
  "Message_Validate m = first_error
     [check (msg_ID m \<noteq> []) ErrInvalidArgument,
      check (msg_FromAgentID m \<noteq> []) ErrInvalidArgument,
      check (\<not> ((msg_ToAgentID m = []) = (msg_Topic m = []))) ErrInvalidArgument,
      (if msg_Topic m \<noteq> [] then ValidateName (msg_Topic m) else Inr ()),
      ValidateName (msg_Kind m),
      check (length (msg_Body m) \<noteq> 0) ErrInvalidArgument]"

record MessageFilter =
  mf_AgentID :: string
  mf_Topic :: string
  mf_Since :: instant
  mf_Limit :: int

record MessageRecord =
  mr_Message :: Message
  mr_RecipientIDs :: "string list"
  mr_DeliveredCount :: nat
  mr_AcknowledgedCount :: nat

subsection \<open>Reports (\<open>report.go\<close>)\<close>

record ReportRequest =
  rq_ID :: string
  rq_RequesterID :: string
  rq_Question :: string
  rq_AskedAgentIDs :: "string list"
  rq_CreatedAt :: instant
  rq_Deadline :: instant

record Report =
  rep_RequestID :: string
  rep_AgentID :: string
  rep_Body :: string
  rep_CreatedAt :: instant

record ReportCollection =
  rc_Request :: ReportRequest
  rc_Reports :: "Report list"
  rc_SilentAgentIDs :: "string list"

subsection \<open>Resources, queue entries and leases (\<open>resource.go\<close>)\<close>

definition MaxCapacity :: int where
  "MaxCapacity = 1024"

record Resource =
  res_Name :: string
  res_Capacity :: int
  res_LeaseTimeToLive :: duration
  res_Description :: string
  res_CreatedAt :: instant

definition Resource_Validate :: "Resource \<Rightarrow> unit res" where
  "Resource_Validate r = first_error
     [ValidateName (res_Name r),
      check (\<not> (res_Capacity r < 1 \<or> res_Capacity r > MaxCapacity)) ErrInvalidArgument,
      check (\<not> res_LeaseTimeToLive r \<le> 0) ErrInvalidArgument]"

record ResourceStatus =
  rs_Resource :: Resource
  rs_ActiveLeases :: int
  rs_Waiting :: int

definition Free :: "ResourceStatus \<Rightarrow> int" where
  "Free s = (let free = res_Capacity (rs_Resource s) - rs_ActiveLeases s
             in if free < 0 then 0 else free)"

datatype QueueEntryState =
  QueueWaiting | QueueGranted | QueueCancelled | QueueExpired | OtherQueueState string

definition QueueEntryState_Valid :: "QueueEntryState \<Rightarrow> bool" where
  "QueueEntryState_Valid s \<longleftrightarrow>
     s = QueueWaiting \<or> s = QueueGranted \<or> s = QueueCancelled \<or> s = QueueExpired"

definition Terminal :: "QueueEntryState \<Rightarrow> bool" where
  "Terminal s \<longleftrightarrow> s \<noteq> QueueWaiting"

record QueueEntry =
  qe_ID :: string
  qe_ResourceName :: string
  qe_AgentID :: string
  qe_Priority :: int
  qe_Reason :: string
  qe_State :: QueueEntryState
  qe_RequestedAt :: instant
  qe_ResolvedAt :: instant

definition QueueEntry_Validate :: "QueueEntry \<Rightarrow> unit res" where
  "QueueEntry_Validate q = first_error
     [check (qe_ID q \<noteq> []) ErrInvalidArgument,
      ValidateName (qe_ResourceName q),
      check (qe_AgentID q \<noteq> []) ErrInvalidArgument,
      check (QueueEntryState_Valid (qe_State q)) ErrInvalidArgument]"

record Lease =
  lease_ID :: string
  lease_ResourceName :: string
  lease_AgentID :: string
  lease_QueueEntryID :: string
  lease_AcquiredAt :: instant
  lease_ExpiresAt :: instant
  lease_ReleasedAt :: instant
  lease_Metadata :: string

definition Lease_Active :: "Lease \<Rightarrow> instant \<Rightarrow> bool" where
  "Lease_Active l at \<longleftrightarrow> IsZero (lease_ReleasedAt l) \<and> at < lease_ExpiresAt l"

definition Lease_Expired :: "Lease \<Rightarrow> instant \<Rightarrow> bool" where
  "Lease_Expired l at \<longleftrightarrow> IsZero (lease_ReleasedAt l) \<and> \<not> at < lease_ExpiresAt l"

subsection \<open>Tasks (\<open>task.go\<close>)\<close>

datatype TaskState =
  TaskQueued | TaskRunning | TaskSucceeded | TaskFailed | TaskCancelled | OtherTaskState string

definition TaskState_Valid :: "TaskState \<Rightarrow> bool" where
  "TaskState_Valid s = (case s of
      TaskQueued \<Rightarrow> True | TaskRunning \<Rightarrow> True | TaskSucceeded \<Rightarrow> True
    | TaskFailed \<Rightarrow> True | TaskCancelled \<Rightarrow> True | _ \<Rightarrow> False)"

definition Finished :: "TaskState \<Rightarrow> bool" where
  "Finished s \<longleftrightarrow> s = TaskSucceeded \<or> s = TaskFailed \<or> s = TaskCancelled"

definition MaxTaskOutput :: nat where
  "MaxTaskOutput = 256 * 1024"

record Task =
  task_ID :: string
  task_ResourceName :: string
  task_CommandKey :: string
  task_Workdir :: string
  task_RequesterID :: string
  task_WorkerID :: string
  task_LeaseID :: string
  task_State :: TaskState
  task_ExitCode :: int
  task_Output :: string
  task_Failure :: string
  task_SubmittedAt :: instant
  task_StartedAt :: instant
  task_FinishedAt :: instant

definition Task_Validate :: "Task \<Rightarrow> unit res" where
  "Task_Validate t = first_error
     [check (task_ID t \<noteq> []) ErrInvalidArgument,
      ValidateName (task_ResourceName t),
      ValidateName (task_CommandKey t),
      check (task_Workdir t \<noteq> []) ErrInvalidArgument,
      check (task_RequesterID t \<noteq> []) ErrInvalidArgument,
      check (TaskState_Valid (task_State t)) ErrInvalidArgument]"

text \<open>The notice is UTF-8: the ellipsis is the three bytes E2 80 A6.\<close>

definition ellipsis :: string where
  "ellipsis = [CHR 0xE2, CHR 0x80, CHR 0xA6]"

definition truncation_notice :: string where
  "truncation_notice =
     ellipsis @ '' output truncated; the beginning was dropped '' @ ellipsis @ [CHR 0x0A]"

definition TruncateOutput :: "string \<Rightarrow> string" where
  "TruncateOutput output =
     (if length output \<le> MaxTaskOutput then output
      else truncation_notice @ drop (length output - MaxTaskOutput) output)"

subsection \<open>Watched pull requests (\<open>watch.go\<close>)\<close>

text \<open>The stored snapshot is a value of type \<open>'s\<close>, the observation whose JSON text the source
  keeps; \<open>None\<close> is the empty text.\<close>

record 's Watch =
  wt_ID :: string
  wt_Owner :: string
  wt_Repository :: string
  wt_Number :: int
  wt_Account :: string
  wt_Snapshot :: "'s option"
  wt_Title :: string
  wt_State :: string
  wt_Draft :: bool
  wt_ChecksState :: string
  wt_Unresolved :: int
  wt_ObservedAt :: instant
  wt_Failures :: int
  wt_LastError :: string
  wt_LastErrorAt :: instant
  wt_NextPollAt :: instant
  wt_CreatedAt :: instant

definition Watch_Reference :: "'s Watch \<Rightarrow> string" where
  "Watch_Reference w = wt_Owner w @ ''/'' @ wt_Repository w @ ''#'' @ itoa (wt_Number w)"

definition Observed :: "'s Watch \<Rightarrow> bool" where
  "Observed w \<longleftrightarrow> \<not> IsZero (wt_ObservedAt w)"

definition Watch_Stale :: "'s Watch \<Rightarrow> instant \<Rightarrow> duration \<Rightarrow> bool" where
  "Watch_Stale w now freshFor =
     (if \<not> Observed w then True
      else wt_Failures w > 0 \<or> now - wt_ObservedAt w > freshFor)"

definition Watch_Validate :: "'s Watch \<Rightarrow> unit res" where
  "Watch_Validate w = first_error
     [check (wt_ID w \<noteq> []) ErrInvalidArgument,
      check (\<not> (wt_Owner w = [] \<or> wt_Repository w = [])) ErrInvalidArgument,
      check (\<not> wt_Number w \<le> 0) ErrInvalidArgument]"

datatype WatchEventKind =
    WatchChecks | WatchState | WatchComment | WatchReview | WatchThread | WatchCommits
  | WatchUnreachable | WatchRecovered | NoWatchEventKind

record WatchEvent =
  we_ID :: int
  we_WatchID :: string
  we_Kind :: WatchEventKind
  we_Summary :: string
  we_At :: instant

end
