(* ===== verification/PullRequest.thy ===== *)
theory PullRequest
  imports Core
begin

section \<open>What the watcher knows about a pull request (\<open>internal/github/pullrequest.go\<close>)\<close>

text \<open>The observation the GitHub reader returns, and the counts taken from it.\<close>

record Check =
  chk_Name :: string
  chk_State :: string
  chk_URL :: string

record ChecksSummary =
  cs_State :: string
  cs_Total :: int
  cs_Passed :: int
  cs_Failed :: int
  cs_Pending :: int
  cs_Checks :: "Check list"

record Comment =
  cm_ID :: string
  cm_Author :: string
  cm_Body :: string
  cm_CreatedAt :: instant

record Review =
  rv_ID :: string
  rv_Author :: string
  rv_State :: string
  rv_SubmittedAt :: instant

record ReviewThread =
  th_ID :: string
  th_Path :: string
  th_Line :: int
  th_Resolved :: bool
  th_Outdated :: bool
  th_Comments :: "Comment list"

record PullRequest =
  pr_Owner :: string
  pr_Repository :: string
  pr_Number :: int
  pr_Title :: string
  pr_URL :: string
  pr_Author :: string
  pr_State :: string
  pr_Draft :: bool
  pr_Mergeable :: string
  pr_HeadSHA :: string
  pr_UpdatedAt :: instant
  pr_Checks :: ChecksSummary
  pr_Comments :: "Comment list"
  pr_Reviews :: "Review list"
  pr_Threads :: "ReviewThread list"

definition PullRequest_Reference :: "PullRequest \<Rightarrow> string" where
  "PullRequest_Reference p = pr_Owner p @ ''/'' @ pr_Repository p @ ''#'' @ itoa (pr_Number p)"

definition UnresolvedThreads :: "PullRequest \<Rightarrow> int" where
  "UnresolvedThreads p =
     int (length (filter (\<lambda>t. \<not> th_Resolved t \<and> \<not> th_Outdated t) (pr_Threads p)))"

definition Check_Failed :: "Check \<Rightarrow> bool" where
  "Check_Failed c \<longleftrightarrow> chk_State c \<in>
     {''failure'', ''cancelled'', ''timed_out'', ''action_required'', ''startup_failure'', ''stale''}"

definition Failing :: "ChecksSummary \<Rightarrow> Check list" where
  "Failing s = filter Check_Failed (cs_Checks s)"

definition newline :: char where
  "newline = CHR 0x0A"

definition Thread_Summary :: "ReviewThread \<Rightarrow> string" where
  "Thread_Summary t = (case th_Comments t of [] \<Rightarrow> []
     | c # _ \<Rightarrow> (let body = TrimSpace (cm_Body c)
                 in case cut_at newline body of (line, _, found) \<Rightarrow> if found then line else body))"

end
