(* ===== verification/Schema.thy ===== *)
theory Schema
  imports PullRequest
begin

section \<open>The database: columns, constraints and driver errors\<close>

text \<open>
  The tables the migrations create (\<open>internal/store/sqlite/migrations\<close>), one record per row with
  the column names qualified by their table, and the conversions of \<open>convert.go\<close> between Go
  values and columns. A nullable column is an option. Instants are stored as whole microseconds.
  JSON columns (the capabilities, the asked agents, the snapshot) hold the value whose text the
  source stores; JSON encoding and decoding are inverse on these types.
\<close>

subsection \<open>Conversions (\<open>convert.go\<close>)\<close>

definition toMicros :: "instant \<Rightarrow> int option" where
  "toMicros t = (if IsZero t then None else Some (UnixMicro t))"

definition requireMicros :: "instant \<Rightarrow> int" where
  "requireMicros t = UnixMicro t"

definition fromMicros :: "int option \<Rightarrow> instant" where
  "fromMicros stored = (case stored of None \<Rightarrow> zeroTime | Some us \<Rightarrow> fromUnixMicro us)"

definition fromRequiredMicros :: "int \<Rightarrow> instant" where
  "fromRequiredMicros us = fromUnixMicro us"

definition nullString :: "string \<Rightarrow> string option" where
  "nullString v = (if v = [] then None else Some v)"

definition fromNullString :: "string option \<Rightarrow> string" where
  "fromNullString stored = (case stored of None \<Rightarrow> [] | Some v \<Rightarrow> v)"

text \<open>What the driver reports. Constraints are checked in SQLite's order: CHECK, then UNIQUE,
  then the foreign keys at the end of the statement. I/O failures are not modelled.\<close>

datatype sql_error = NoRows | UniqueFailed | ForeignKeyFailed | CheckFailed | DriverError string

definition translateError :: "sql_error \<Rightarrow> err" where
  "translateError e = (case e of
      NoRows \<Rightarrow> ErrNotFound
    | UniqueFailed \<Rightarrow> ErrAlreadyExists
    | ForeignKeyFailed \<Rightarrow> ErrInvalidArgument
    | CheckFailed \<Rightarrow> ErrInvalidArgument
    | DriverError m \<Rightarrow> OtherError m)"

definition translated :: "sql_error + 'a \<Rightarrow> 'a res" where
  "translated r = (case r of Inl e \<Rightarrow> Inl (translateError e) | Inr x \<Rightarrow> Inr x)"

text \<open>An update reports how many rows it changed; none is \<open>ErrNotFound\<close>.\<close>

definition affectedOrNotFound :: "sql_error + (nat \<times> 'd) \<Rightarrow> 'd res" where
  "affectedOrNotFound r = (case r of
      Inl e \<Rightarrow> Inl (translateError e)
    | Inr (affected, d) \<Rightarrow> if affected = 0 then Inl ErrNotFound else Inr d)"

definition constrained :: "bool \<Rightarrow> bool \<Rightarrow> bool \<Rightarrow> 'd \<Rightarrow> sql_error + 'd" where
  "constrained checks unique references d =
     (if \<not> checks then Inl CheckFailed
      else if \<not> unique then Inl UniqueFailed
      else if \<not> references then Inl ForeignKeyFailed
      else Inr d)"

lemma translated_constrained:
  "translated (constrained c u f d) = Inr d' \<longleftrightarrow> c \<and> u \<and> f \<and> d' = d"
  by (auto simp: translated_def constrained_def)

lemma translated_Inr [simp]: "translated (Inr x) = Inr x"
  by (simp add: translated_def)

definition fetch :: "('r \<Rightarrow> 'a) \<Rightarrow> 'r option \<Rightarrow> 'a res" where
  "fetch scan row = (case row of None \<Rightarrow> Inl (translateError NoRows) | Some r \<Rightarrow> Inr (scan r))"

lemma fetch_simps [simp]:
  "fetch scan (Some r) = Inr (scan r)" "fetch scan None = Inl ErrNotFound"
  by (simp_all add: fetch_def translateError_def)

lemma fetch_Inr: "fetch scan row = Inr x \<longleftrightarrow> (\<exists>r. row = Some r \<and> x = scan r)"
  by (auto simp: fetch_def split: option.splits)

lemma requireMicros_mono: "s \<le> t \<Longrightarrow> requireMicros s \<le> requireMicros t"
  by (simp add: requireMicros_def UnixMicro_mono)

lemma toMicros_fromMicros [simp]:
  "fromUnixMicro us \<noteq> zeroTime \<Longrightarrow> toMicros (fromMicros (Some us)) = Some us"
  "toMicros (fromMicros None) = None"
  by (simp_all add: toMicros_def fromMicros_def IsZero_def)

lemma fromNullString_nullString [simp]: "fromNullString (nullString v) = v"
  by (simp add: fromNullString_def nullString_def)

subsection \<open>Rows\<close>

record agents_row =
  agents_id :: string
  agents_name :: string
  agents_kind :: string
  agents_workdir :: string
  agents_process_id :: int
  agents_capabilities :: Capabilities
  agents_internal :: int
  agents_state :: AgentState
  agents_registered_at :: int
  agents_last_heartbeat_at :: int

record credentials_row =
  credentials_agent_id :: string
  credentials_token_hash :: string
  credentials_issued_at :: int
  credentials_revoked_at :: "int option"

record messages_row =
  messages_id :: string
  messages_from_agent_id :: string
  messages_to_agent_id :: "string option"
  messages_topic :: "string option"
  messages_kind :: string
  messages_body :: string
  messages_created_at :: int
  messages_expires_at :: "int option"

record deliveries_row =
  deliveries_message_id :: string
  deliveries_agent_id :: string
  deliveries_delivered_at :: "int option"
  deliveries_acked_at :: "int option"

record subscriptions_row =
  subscriptions_agent_id :: string
  subscriptions_topic :: string
  subscriptions_subscribed_at :: int

record resources_row =
  resources_name :: string
  resources_capacity :: int
  resources_lease_ttl_micros :: int
  resources_description :: string
  resources_created_at :: int

record queue_entries_row =
  queue_entries_id :: string
  queue_entries_resource_name :: string
  queue_entries_agent_id :: string
  queue_entries_priority :: int
  queue_entries_reason :: string
  queue_entries_state :: QueueEntryState
  queue_entries_requested_at :: int
  queue_entries_resolved_at :: "int option"

record leases_row =
  leases_id :: string
  leases_resource_name :: string
  leases_agent_id :: string
  leases_queue_entry_id :: "string option"
  leases_acquired_at :: int
  leases_expires_at :: int
  leases_released_at :: "int option"
  leases_metadata :: string

record report_requests_row =
  report_requests_id :: string
  report_requests_requester_id :: string
  report_requests_question :: string
  report_requests_asked_agent_ids :: "string list"
  report_requests_created_at :: int
  report_requests_deadline :: int

record reports_row =
  reports_request_id :: string
  reports_agent_id :: string
  reports_body :: string
  reports_created_at :: int

record audit_log_row =
  audit_log_id :: int
  audit_log_actor :: string
  audit_log_action :: AuditAction
  audit_log_target :: string
  audit_log_detail :: string
  audit_log_at :: int

record tasks_row =
  tasks_id :: string
  tasks_resource_name :: string
  tasks_command_key :: string
  tasks_workdir :: string
  tasks_requester_id :: string
  tasks_worker_id :: "string option"
  tasks_lease_id :: "string option"
  tasks_state :: TaskState
  tasks_exit_code :: "int option"
  tasks_output :: string
  tasks_failure :: string
  tasks_submitted_at :: int
  tasks_started_at :: "int option"
  tasks_finished_at :: "int option"

record watches_row =
  watches_id :: string
  watches_owner :: string
  watches_repository :: string
  watches_number :: int
  watches_account :: string
  watches_snapshot :: "PullRequest option"
  watches_state :: string
  watches_draft :: int
  watches_title :: string
  watches_checks_state :: string
  watches_unresolved :: int
  watches_observed_at :: "int option"
  watches_failures :: int
  watches_last_error :: string
  watches_last_error_at :: "int option"
  watches_next_poll_at :: int
  watches_created_at :: int

record watch_subscribers_row =
  watch_subscribers_watch_id :: string
  watch_subscribers_agent_id :: string
  watch_subscribers_subscribed_at :: int

record watch_events_row =
  watch_events_id :: int
  watch_events_watch_id :: string
  watch_events_kind :: WatchEventKind
  watch_events_summary :: string
  watch_events_at :: int

subsection \<open>The database\<close>

record db =
  agents :: "agents_row list"
  credentials :: "credentials_row list"
  messages :: "messages_row list"
  deliveries :: "deliveries_row list"
  subscriptions :: "subscriptions_row list"
  resources :: "resources_row list"
  queue_entries :: "queue_entries_row list"
  leases :: "leases_row list"
  report_requests :: "report_requests_row list"
  reports :: "reports_row list"
  audit_log :: "audit_log_row list"
  audit_log_seq :: int
  tasks :: "tasks_row list"
  watches :: "watches_row list"
  watch_subscribers :: "watch_subscribers_row list"
  watch_events :: "watch_events_row list"
  watch_events_seq :: int

definition empty_db :: db where
  "empty_db = \<lparr>agents = [], credentials = [], messages = [], deliveries = [], subscriptions = [],
     resources = [], queue_entries = [], leases = [], report_requests = [], reports = [],
     audit_log = [], audit_log_seq = 0, tasks = [], watches = [], watch_subscribers = [],
     watch_events = [], watch_events_seq = 0\<rparr>"

interpretation agents_table: table agents agents_update agents_id
  by unfold_locales simp

interpretation resources_table: table resources resources_update resources_name
  by unfold_locales simp

interpretation queue_table: table queue_entries queue_entries_update queue_entries_id
  by unfold_locales simp

interpretation leases_table: table leases leases_update leases_id
  by unfold_locales simp

interpretation messages_table: table messages messages_update messages_id
  by unfold_locales simp

interpretation deliveries_table: table deliveries deliveries_update
    "\<lambda>r. (deliveries_message_id r, deliveries_agent_id r)"
  by unfold_locales simp

interpretation tasks_table: table tasks tasks_update tasks_id
  by unfold_locales simp

interpretation watches_table: table watches watches_update watches_id
  by unfold_locales simp

text \<open>What a foreign key refers to.\<close>

definition agent_exists :: "db \<Rightarrow> string \<Rightarrow> bool" where
  "agent_exists d i = exists_where (\<lambda>r. agents_id r = i) (agents d)"

definition resource_exists :: "db \<Rightarrow> string \<Rightarrow> bool" where
  "resource_exists d n = exists_where (\<lambda>r. resources_name r = n) (resources d)"

definition queue_entry_exists :: "db \<Rightarrow> string \<Rightarrow> bool" where
  "queue_entry_exists d i = exists_where (\<lambda>r. queue_entries_id r = i) (queue_entries d)"

definition lease_exists :: "db \<Rightarrow> string \<Rightarrow> bool" where
  "lease_exists d i = exists_where (\<lambda>r. leases_id r = i) (leases d)"

definition watch_exists :: "db \<Rightarrow> string \<Rightarrow> bool" where
  "watch_exists d i = exists_where (\<lambda>r. watches_id r = i) (watches d)"

text \<open>A nullable reference is satisfied by NULL.\<close>

definition null_or :: "('a \<Rightarrow> bool) \<Rightarrow> 'a option \<Rightarrow> bool" where
  "null_or P x = (case x of None \<Rightarrow> True | Some v \<Rightarrow> P v)"

lemma null_or_simps [simp]: "null_or P None" "null_or P (Some v) = P v"
  by (simp_all add: null_or_def)

end
