(* ===== verification/Ident.thy ===== *)
theory Ident
  imports GoStd "HOL-Library.Word"
begin

section \<open>Identifiers (\<open>internal/id/id.go\<close>)\<close>

text \<open>
  An identifier is a kind, an underscore and the base-32 text of sixteen bytes: a 48-bit
  millisecond count, big-endian, and ten random bytes. The alphabet is in ASCII order, so the
  text orders as the bytes do. The clock reading and the random bytes are arguments.
\<close>

type_synonym byte = "8 word"

definition alphabet32 :: string where
  "alphabet32 = ''0123456789abcdefghijklmnopqrstuv''"

definition bits_of_byte :: "byte \<Rightarrow> bool list" where
  "bits_of_byte b = map (bit b) (rev [0..<8])"

definition bits_of_bytes :: "byte list \<Rightarrow> bool list" where
  "bits_of_bytes bs = concat (map bits_of_byte bs)"

text \<open>The value of five bits, most significant first; a short last group is padded with zero bits.\<close>

definition group_value :: "bool list \<Rightarrow> nat" where
  "group_value bs = foldl (\<lambda>v b. 2 * v + (if b then 1 else 0)) 0 (bs @ replicate (5 - length bs) False)"

function groups32 :: "bool list \<Rightarrow> nat list" where
  "groups32 bs = (if bs = [] then [] else group_value (take 5 bs) # groups32 (drop 5 bs))"
  by pat_completeness auto
termination by (relation "measure length") auto

declare groups32.simps [simp del]

definition EncodeToString32 :: "byte list \<Rightarrow> string" where
  "EncodeToString32 bs = map ((!) alphabet32) (groups32 (bits_of_bytes bs))"

text \<open>\<^verbatim>\<open>binary.BigEndian.PutUint64\<close> and the copy of its last six bytes.\<close>

definition PutUint64 :: "64 word \<Rightarrow> byte list" where
  "PutUint64 v = map (\<lambda>i. ucast (drop_bit (8 * i) v)) (rev [0..<8])"

definition id_buffer :: "64 word \<Rightarrow> byte list \<Rightarrow> byte list" where
  "id_buffer milliseconds rand_bytes = drop 2 (PutUint64 milliseconds) @ rand_bytes"

definition New :: "string \<Rightarrow> 64 word \<Rightarrow> byte list \<Rightarrow> string" where
  "New kind milliseconds rand_bytes =
     kind @ ''_'' @ EncodeToString32 (id_buffer milliseconds rand_bytes)"

end
