(* ===== verification/Catalogue.thy ===== *)
theory Catalogue
  imports Core
begin

section \<open>The commands workers may run (\<open>internal/config/commands.go\<close>, \<open>internal/daemon/catalogue.go\<close>)\<close>

text \<open>
  The operator's configuration maps a key to a command line; the dispatch service sees it through
  the catalogue. The map is an association list whose keys are distinct, and reloading replaces it.
\<close>

record CommandConfig =
  cc_Resource :: string
  cc_Run :: "string list"
  cc_Description :: string
  cc_TimeLimit :: duration

type_synonym worker_commands = "(string \<times> CommandConfig) list"

definition Config_Command :: "worker_commands \<Rightarrow> string \<Rightarrow> CommandConfig res" where
  "Config_Command commands key = (case map_of commands key of
      None \<Rightarrow> Inl ErrNotFound | Some command \<Rightarrow> Inr command)"

definition ErrInvalidConfig :: err where
  "ErrInvalidConfig = OtherError ''invalid configuration''"

definition validateCommand :: "string \<times> CommandConfig \<Rightarrow> unit res" where
  "validateCommand = (\<lambda>(key, command). first_error
     [check (nameSyntax key) ErrInvalidConfig,
      check (cc_Run command \<noteq> []) ErrInvalidConfig,
      check (\<not> (cc_Run command \<noteq> [] \<and> hd (cc_Run command) = [])) ErrInvalidConfig,
      check (nameSyntax (cc_Resource command)) ErrInvalidConfig,
      check (\<not> cc_TimeLimit command < 0) ErrInvalidConfig])"

definition validateCommands :: "worker_commands \<Rightarrow> unit res" where
  "validateCommands commands = first_error (map validateCommand commands)"

record Command =
  cmd_Key :: string
  cmd_Resource :: string
  cmd_Run :: "string list"
  cmd_Description :: string
  cmd_TimeLimit :: duration

definition commandOf :: "string \<Rightarrow> CommandConfig \<Rightarrow> Command" where
  "commandOf key declared = \<lparr>cmd_Key = key, cmd_Resource = cc_Resource declared,
     cmd_Run = cc_Run declared, cmd_Description = cc_Description declared,
     cmd_TimeLimit = cc_TimeLimit declared\<rparr>"

definition catalogue_Command :: "worker_commands \<Rightarrow> string \<Rightarrow> Command res" where
  "catalogue_Command commands key = (case Config_Command commands key of
      Inl e \<Rightarrow> Inl e | Inr declared \<Rightarrow> Inr (commandOf key declared))"

definition catalogue_Commands :: "worker_commands \<Rightarrow> Command list" where
  "catalogue_Commands commands =
     map (\<lambda>key. commandOf key (the (map_of commands key))) (sort (map fst commands))"

lemma catalogue_Command_Inr: "catalogue_Command commands key = Inr command \<longleftrightarrow>
    (\<exists>declared. map_of commands key = Some declared \<and> command = commandOf key declared)"
  by (auto simp: catalogue_Command_def Config_Command_def split: option.split)

lemma catalogue_Command_Inl: "catalogue_Command commands key = Inl e \<longleftrightarrow>
    map_of commands key = None \<and> e = ErrNotFound"
  by (auto simp: catalogue_Command_def Config_Command_def split: option.split)

text \<open>A catalogue of a valid configuration offers runnable commands on well-named resources.\<close>

lemma validateCommands_ok:
  assumes "validateCommands commands = Inr ()" and "catalogue_Command commands key = Inr command"
  shows "cmd_Key command = key \<and> nameSyntax key \<and> nameSyntax (cmd_Resource command) \<and>
    cmd_Run command \<noteq> [] \<and> hd (cmd_Run command) \<noteq> [] \<and> 0 \<le> cmd_TimeLimit command"
proof -
  from assms(2) obtain declared where d: "(key, declared) \<in> set commands" "command = commandOf key declared"
    by (auto simp: catalogue_Command_Inr dest: map_of_SomeD)
  with assms(1) have "succeeded (validateCommand (key, declared))"
    by (auto simp: validateCommands_def first_error_ok)
  with d(2) show ?thesis
    by (auto simp: validateCommand_def commandOf_def split: if_splits)
qed

end
