(* ===== verification/World.thy ===== *)
theory World
  imports Schema Ident Catalogue
begin

section \<open>The daemon's state and its storage transactions (\<open>store.go\<close>)\<close>

text \<open>
  One record holds everything the services read and write: the database, the clock and the two
  random sources as streams with a position, the wake-up channels of the four services that park
  callers, what was pushed to connected sessions, the watcher's own agent id, and the configured
  commands, which a reload replaces. The streams
  never change; the positions only grow.
\<close>

subsection \<open>Wake-up channels\<close>

text \<open>A channel is a number. \<open>ch_open\<close> is the map from keys to channels, \<open>ch_closed\<close> the
  channels that have been closed.\<close>

record channels =
  ch_open :: "(string \<times> nat) list"
  ch_closed :: "nat list"
  ch_next :: nat

definition no_channels :: channels where
  "no_channels = \<lparr>ch_open = [], ch_closed = [], ch_next = 0\<rparr>"

subsection \<open>The state\<close>

record world =
  w_db :: db
  w_clock :: "nat \<Rightarrow> instant"
  w_ticks :: nat
  w_entropy :: "nat \<Rightarrow> 64 word \<times> byte list"
  w_drawn :: nat
  w_tokens :: "nat \<Rightarrow> byte list"
  w_issued :: nat
  w_jitter :: "nat \<Rightarrow> nat"
  w_jittered :: nat
  w_waiters :: channels
  w_arrivals :: channels
  w_outcomes :: channels
  w_replies :: channels
  w_refreshed :: channels
  w_sessions :: "string \<Rightarrow> nat"
  w_pushed :: "(string \<times> string \<times> (string \<times> string) list) list"
  w_senderID :: string
  w_commands :: worker_commands

type_synonym 'a action = "(world, err, 'a) op"

definition start_world ::
  "(nat \<Rightarrow> instant) \<Rightarrow> (nat \<Rightarrow> 64 word \<times> byte list) \<Rightarrow> (nat \<Rightarrow> byte list) \<Rightarrow> (nat \<Rightarrow> nat) \<Rightarrow>
   (string \<Rightarrow> nat) \<Rightarrow> world" where
  "start_world clock entropy tokens jitter sessions = \<lparr>w_db = empty_db, w_clock = clock, w_ticks = 0,
     w_entropy = entropy, w_drawn = 0, w_tokens = tokens, w_issued = 0, w_jitter = jitter,
     w_jittered = 0, w_waiters = no_channels, w_arrivals = no_channels, w_outcomes = no_channels,
     w_replies = no_channels, w_refreshed = no_channels, w_sessions = sessions, w_pushed = [],
     w_senderID = [], w_commands = []\<rparr>"

text \<open>The instant the next reading of the clock returns.\<close>

definition time_of :: "world \<Rightarrow> instant" where
  "time_of w = w_clock w (w_ticks w)"

subsection \<open>Primitive actions\<close>

definition now :: "instant action" where
  "now = (\<lambda>w. (Inr (time_of w), w\<lparr>w_ticks := Suc (w_ticks w)\<rparr>))"

definition newID :: "string \<Rightarrow> string action" where
  "newID kind = (\<lambda>w. case w_entropy w (w_drawn w) of
     (ms, rnd) \<Rightarrow> (Inr (New kind ms rnd), w\<lparr>w_drawn := Suc (w_drawn w)\<rparr>))"

definition query :: "(db \<Rightarrow> 'a res) \<Rightarrow> 'a action" where
  "query q = (\<lambda>w. (q (w_db w), w))"

definition exec :: "(db \<Rightarrow> db res) \<Rightarrow> unit action" where
  "exec x = (\<lambda>w. case x (w_db w) of Inl e \<Rightarrow> (Inl e, w) | Inr d \<Rightarrow> (Inr (), w\<lparr>w_db := d\<rparr>))"

definition execR :: "(db \<Rightarrow> ('a \<times> db) res) \<Rightarrow> 'a action" where
  "execR x = (\<lambda>w. case x (w_db w) of Inl e \<Rightarrow> (Inl e, w) | Inr (a, d) \<Rightarrow> (Inr a, w\<lparr>w_db := d\<rparr>))"

text \<open>
  \<^verbatim>\<open>Store.InTransaction\<close>: a store already bound to a transaction runs the function as it is;
  otherwise the database commits when the function returns nil and is rolled back on an error.
  What the function did outside the database stays.
\<close>

definition InTransaction :: "bool \<Rightarrow> 'a action \<Rightarrow> 'a action" where
  "InTransaction inTransaction fn = (\<lambda>w.
     if inTransaction then fn w
     else (case fn w of
        (Inl e, v) \<Rightarrow> (Inl e, v\<lparr>w_db := w_db w\<rparr>)
      | (Inr x, v) \<Rightarrow> (Inr x, v)))"

abbreviation transaction :: "'a action \<Rightarrow> 'a action" where
  "transaction \<equiv> InTransaction False"

subsection \<open>Laws\<close>

lemma now_apply [simp, op_defs]: "now w = (Inr (time_of w), w\<lparr>w_ticks := Suc (w_ticks w)\<rparr>)"
  by (simp add: now_def)

lemma query_apply [simp, op_defs]: "query q w = (q (w_db w), w)"
  by (simp add: query_def)

lemma exec_apply [op_defs]:
  "exec x w = (case x (w_db w) of Inl e \<Rightarrow> (Inl e, w) | Inr d \<Rightarrow> (Inr (), w\<lparr>w_db := d\<rparr>))"
  by (simp add: exec_def)

lemma exec_Inr: "exec x w = (Inr u, w') \<longleftrightarrow> (\<exists>d. x (w_db w) = Inr d \<and> w' = w\<lparr>w_db := d\<rparr>)"
  by (auto simp: exec_def split: sum.splits)

lemma exec_Inl: "exec x w = (Inl e, w') \<longleftrightarrow> x (w_db w) = Inl e \<and> w' = w"
  by (auto simp: exec_def split: sum.splits)

lemma execR_Inr: "execR x w = (Inr a, w') \<longleftrightarrow> (\<exists>d. x (w_db w) = Inr (a, d) \<and> w' = w\<lparr>w_db := d\<rparr>)"
  by (auto simp: execR_def split: sum.splits prod.splits)

lemma execR_Inl: "execR x w = (Inl e, w') \<longleftrightarrow> x (w_db w) = Inl e \<and> w' = w"
  by (auto simp: execR_def split: sum.splits prod.splits)

lemma transaction_Inr: "transaction fn w = (Inr x, w') \<longleftrightarrow> fn w = (Inr x, w')"
  by (auto simp: InTransaction_def split: prod.splits sum.splits)

lemma transaction_Inl:
  "transaction fn w = (Inl e, w') \<longleftrightarrow> (\<exists>v. fn w = (Inl e, v) \<and> w' = v\<lparr>w_db := w_db w\<rparr>)"
  by (auto simp: InTransaction_def split: prod.splits sum.splits)

lemma transaction_ok [simp]: "fn w = (Inr x, v) \<Longrightarrow> transaction fn w = (Inr x, v)"
  by (simp add: InTransaction_def)

lemma transaction_err [simp]: "fn w = (Inl e, v) \<Longrightarrow> transaction fn w = (Inl e, v\<lparr>w_db := w_db w\<rparr>)"
  by (simp add: InTransaction_def)

lemma time_of_update_db [simp]: "time_of (w\<lparr>w_db := d\<rparr>) = time_of w"
  by (simp add: time_of_def)

text \<open>
  Most actions touch the database and a few in-memory fields. A relation that only looks at the
  databases before and after is respected by every primitive that does not write, by a write
  whose effect it relates, and by a transaction whose body it is respected by.
\<close>

definition db_rel :: "(db \<Rightarrow> db \<Rightarrow> bool) \<Rightarrow> world \<Rightarrow> world \<Rightarrow> bool" where
  "db_rel Q w w' \<longleftrightarrow> Q (w_db w) (w_db w')"

locale db_order =
  fixes Q :: "db \<Rightarrow> db \<Rightarrow> bool"
  assumes Q_refl: "Q d d"
    and Q_trans: "Q d1 d2 \<Longrightarrow> Q d2 d3 \<Longrightarrow> Q d1 d3"
begin

lemma db_rel_refl: "db_rel Q w w"
  by (simp add: db_rel_def Q_refl)

lemma db_rel_trans: "db_rel Q u v \<Longrightarrow> db_rel Q v w \<Longrightarrow> db_rel Q u w"
  by (auto simp: db_rel_def intro: Q_trans)

lemma conf_now: "conforms (db_rel Q) now"
  by (simp add: conforms_def db_rel_def Q_refl)

lemma conf_newID: "conforms (db_rel Q) (newID kind)"
  by (simp add: conforms_def db_rel_def newID_def Q_refl split: prod.split)

lemma conf_query: "conforms (db_rel Q) (query q)"
  by (simp add: conforms_def db_rel_def Q_refl)

lemma conf_exec: "(\<And>d d'. x d = Inr d' \<Longrightarrow> Q d d') \<Longrightarrow> conforms (db_rel Q) (exec x)"
  by (auto simp: conforms_def db_rel_def exec_def Q_refl split: sum.split)

lemma conf_execR: "(\<And>d a d'. x d = Inr (a, d') \<Longrightarrow> Q d d') \<Longrightarrow> conforms (db_rel Q) (execR x)"
  by (auto simp: conforms_def db_rel_def execR_def Q_refl split: sum.split)

lemma conf_transaction: "conforms (db_rel Q) fn \<Longrightarrow> conforms (db_rel Q) (transaction fn)"
  by (auto simp: conforms_def db_rel_def InTransaction_def Q_refl split: prod.splits sum.splits)
     (metis snd_conv)

lemma conf_same_db: "(\<And>w. w_db (snd (m w)) = w_db w) \<Longrightarrow> conforms (db_rel Q) m"
  by (simp add: conforms_def db_rel_def Q_refl)

end

sublocale db_order \<subseteq> steps: effect_order "db_rel Q"
  by unfold_locales (blast intro: db_rel_refl db_rel_trans)+

context db_order begin

lemmas conf_intros = conf_now conf_newID conf_query conf_transaction steps.resp_return
  steps.resp_throw steps.resp_lift steps.resp_attempt steps.resp_bind steps.resp_for steps.resp_map

end

end
