(* ===== verification/StoreLeases.thy ===== *)
theory StoreLeases
  imports World
begin

section \<open>Resources, the queue, leases and the audit log in SQLite\<close>

text \<open>
  \<open>resources.go\<close>, \<open>leases.go\<close> and \<open>audit.go\<close> of \<open>internal/store/sqlite\<close>: one definition per
  method, its SQL statement written as a selection, an insert or an update of the table's rows
  with the constraints of the schema. \<open>scan\<close> functions read a row back into the domain type.
\<close>

subsection \<open>Audit log (\<open>audit.go\<close>)\<close>

definition Audit_Append :: "AuditEntry \<Rightarrow> db \<Rightarrow> db res" where
  "Audit_Append e d =
     (if ae_Actor e = [] \<or> ae_Action e = NoAuditAction then Inl ErrInvalidArgument
      else Inr (d\<lparr>audit_log_seq := audit_log_seq d + 1,
             audit_log := audit_log d @
               [\<lparr>audit_log_id = audit_log_seq d + 1, audit_log_actor = ae_Actor e,
                 audit_log_action = ae_Action e, audit_log_target = ae_Target e,
                 audit_log_detail = ae_Detail e, audit_log_at = requireMicros (ae_At e)\<rparr>]\<rparr>))"

record AuditFilter =
  af_Actor :: string
  af_Actions :: "AuditAction list"
  af_Since :: instant
  af_Limit :: int

definition defaultAuditLimit :: int where
  "defaultAuditLimit = 200"

definition audit_matches :: "AuditFilter \<Rightarrow> audit_log_row \<Rightarrow> bool" where
  "audit_matches f r \<longleftrightarrow>
     (af_Actor f \<noteq> [] \<longrightarrow> audit_log_actor r = af_Actor f) \<and>
     (af_Actions f \<noteq> [] \<longrightarrow> List.member (af_Actions f) (audit_log_action r)) \<and>
     (\<not> IsZero (af_Since f) \<longrightarrow> audit_log_at r \<ge> requireMicros (af_Since f))"

definition scanAudit :: "audit_log_row \<Rightarrow> AuditEntry" where
  "scanAudit r = \<lparr>ae_ID = audit_log_id r, ae_Actor = audit_log_actor r,
     ae_Action = audit_log_action r, ae_Target = audit_log_target r,
     ae_Detail = audit_log_detail r, ae_At = fromRequiredMicros (audit_log_at r)\<rparr>"

definition Audit_List :: "AuditFilter \<Rightarrow> db \<Rightarrow> AuditEntry list res" where
  "Audit_List f d =
     (let limit = (if af_Limit f \<le> 0 then defaultAuditLimit else af_Limit f)
      in Inr (map scanAudit (take (nat limit)
           (sort_key (\<lambda>r. (- audit_log_at r, - audit_log_id r))
              (filter (audit_matches f) (audit_log d))))))"

text \<open>Every service writes its audit entry in a transaction with the change, or afterwards in a
  statement of its own whose failure is only logged.\<close>

definition entry_of :: "string \<Rightarrow> AuditAction \<Rightarrow> string \<Rightarrow> string \<Rightarrow> instant \<Rightarrow> AuditEntry" where
  "entry_of actor action target detail at = \<lparr>ae_ID = 0, ae_Actor = actor, ae_Action = action,
     ae_Target = target, ae_Detail = detail, ae_At = at\<rparr>"

subsection \<open>Resources (\<open>resources.go\<close>)\<close>

definition resource_row_of :: "Resource \<Rightarrow> int \<Rightarrow> resources_row" where
  "resource_row_of r createdAt = \<lparr>resources_name = res_Name r, resources_capacity = res_Capacity r,
     resources_lease_ttl_micros = Microseconds (res_LeaseTimeToLive r),
     resources_description = res_Description r, resources_created_at = createdAt\<rparr>"

text \<open>The upsert keeps the creation time of a resource that exists. \<open>wall\<close> is the reading of
  \<^verbatim>\<open>time.Now\<close> used when the caller gave no creation time.\<close>

definition Resources_Define :: "instant \<Rightarrow> Resource \<Rightarrow> db \<Rightarrow> db res" where
  "Resources_Define wall r d = (case Resource_Validate r of
      Inl e \<Rightarrow> Inl e
    | Inr _ \<Rightarrow>
       (let createdAt = (if IsZero (res_CreatedAt r) then wall else res_CreatedAt r);
            row = resource_row_of r (requireMicros createdAt)
        in translated (constrained
             (resources_capacity row > 0 \<and> resources_lease_ttl_micros row > 0) True True
             (if resource_exists d (res_Name r)
              then d\<lparr>resources := update_where (\<lambda>s. resources_name s = res_Name r)
                       (\<lambda>s. row\<lparr>resources_created_at := resources_created_at s\<rparr>) (resources d)\<rparr>
              else d\<lparr>resources := resources d @ [row]\<rparr>))))"

definition scanResource :: "resources_row \<Rightarrow> Resource" where
  "scanResource r = \<lparr>res_Name = resources_name r, res_Capacity = resources_capacity r,
     res_LeaseTimeToLive = resources_lease_ttl_micros r * Microsecond,
     res_Description = resources_description r,
     res_CreatedAt = fromRequiredMicros (resources_created_at r)\<rparr>"

definition Resources_ByName :: "string \<Rightarrow> db \<Rightarrow> Resource res" where
  "Resources_ByName name d = fetch scanResource (first_where (\<lambda>r. resources_name r = name) (resources d))"

definition Resources_List :: "db \<Rightarrow> Resource list res" where
  "Resources_List d = Inr (map scanResource (sort_key resources_name (resources d)))"

text \<open>Deleting a resource takes its queue, its leases and its tasks with it.\<close>

definition Resources_Delete :: "string \<Rightarrow> db \<Rightarrow> db res" where
  "Resources_Delete name d = affectedOrNotFound (Inr
     (count_where (\<lambda>r. resources_name r = name) (resources d),
      d\<lparr>resources := delete_where (\<lambda>r. resources_name r = name) (resources d),
        queue_entries := delete_where (\<lambda>r. queue_entries_resource_name r = name) (queue_entries d),
        leases := delete_where (\<lambda>r. leases_resource_name r = name) (leases d),
        tasks := delete_where (\<lambda>r. tasks_resource_name r = name) (tasks d)\<rparr>))"

subsection \<open>The queue (\<open>leases.go\<close>)\<close>

definition queue_row_of :: "QueueEntry \<Rightarrow> queue_entries_row" where
  "queue_row_of e = \<lparr>queue_entries_id = qe_ID e, queue_entries_resource_name = qe_ResourceName e,
     queue_entries_agent_id = qe_AgentID e, queue_entries_priority = qe_Priority e,
     queue_entries_reason = qe_Reason e, queue_entries_state = qe_State e,
     queue_entries_requested_at = requireMicros (qe_RequestedAt e),
     queue_entries_resolved_at = toMicros (qe_ResolvedAt e)\<rparr>"

definition Enqueue :: "QueueEntry \<Rightarrow> db \<Rightarrow> db res" where
  "Enqueue e d = (case QueueEntry_Validate e of
      Inl er \<Rightarrow> Inl er
    | Inr _ \<Rightarrow> translated (constrained
        (QueueEntryState_Valid (qe_State e))
        (\<not> queue_entry_exists d (qe_ID e))
        (resource_exists d (qe_ResourceName e) \<and> agent_exists d (qe_AgentID e))
        (d\<lparr>queue_entries := queue_entries d @ [queue_row_of e]\<rparr>)))"

definition scanQueueEntry :: "queue_entries_row \<Rightarrow> QueueEntry" where
  "scanQueueEntry r = \<lparr>qe_ID = queue_entries_id r, qe_ResourceName = queue_entries_resource_name r,
     qe_AgentID = queue_entries_agent_id r, qe_Priority = queue_entries_priority r,
     qe_Reason = queue_entries_reason r, qe_State = queue_entries_state r,
     qe_RequestedAt = fromRequiredMicros (queue_entries_requested_at r),
     qe_ResolvedAt = fromMicros (queue_entries_resolved_at r)\<rparr>"

definition QueueEntryByID :: "string \<Rightarrow> db \<Rightarrow> QueueEntry res" where
  "QueueEntryByID entryID d =
     fetch scanQueueEntry (first_where (\<lambda>r. queue_entries_id r = entryID) (queue_entries d))"

text \<open>
  The service order: highest priority first, then earliest request, then smallest id. A rank is
  smaller the earlier its entry is served.
\<close>

datatype service_rank = ServiceRank (rank_priority: int) (rank_requested: int) (rank_id: string)

definition rank_key :: "service_rank \<Rightarrow> int \<times> int \<times> string" where
  "rank_key r = (- rank_priority r, rank_requested r, rank_id r)"

lemma rank_key_eq: "rank_key r = rank_key s \<Longrightarrow> r = s"
  by (cases r; cases s) (simp add: rank_key_def)

instantiation service_rank :: linorder
begin

definition less_eq_service_rank :: "service_rank \<Rightarrow> service_rank \<Rightarrow> bool" where
  "r \<le> s \<longleftrightarrow> rank_key r \<le> rank_key s"

definition less_service_rank :: "service_rank \<Rightarrow> service_rank \<Rightarrow> bool" where
  "r < s \<longleftrightarrow> rank_key r < rank_key s"

instance
proof
  fix r s t :: service_rank
  show "(r < s) = (r \<le> s \<and> \<not> s \<le> r)"
    by (simp add: less_eq_service_rank_def less_service_rank_def less_le_not_le)
  show "r \<le> r" by (simp add: less_eq_service_rank_def)
  show "r \<le> s \<Longrightarrow> s \<le> t \<Longrightarrow> r \<le> t"
    unfolding less_eq_service_rank_def by (rule order_trans)
  show "r \<le> s \<Longrightarrow> s \<le> r \<Longrightarrow> r = s"
    unfolding less_eq_service_rank_def by (blast intro: rank_key_eq antisym)
  show "r \<le> s \<or> s \<le> r" unfolding less_eq_service_rank_def by (rule linear)
qed

end

definition rank_of :: "queue_entries_row \<Rightarrow> service_rank" where
  "rank_of r = ServiceRank (queue_entries_priority r) (queue_entries_requested_at r) (queue_entries_id r)"

definition waits_for :: "string \<Rightarrow> queue_entries_row \<Rightarrow> bool" where
  "waits_for resource r \<longleftrightarrow>
     queue_entries_resource_name r = resource \<and> queue_entries_state r = QueueWaiting"

definition waiting_rows :: "string \<Rightarrow> db \<Rightarrow> queue_entries_row list" where
  "waiting_rows resource d = sort_key rank_of (filter (waits_for resource) (queue_entries d))"

definition Waiting :: "string \<Rightarrow> db \<Rightarrow> QueueEntry list res" where
  "Waiting resource d = Inr (map scanQueueEntry (waiting_rows resource d))"

definition WaitingByAgent :: "string \<Rightarrow> db \<Rightarrow> QueueEntry list res" where
  "WaitingByAgent agentID d = Inr (map scanQueueEntry
     (sort_key queue_entries_requested_at
        (filter (\<lambda>r. queue_entries_agent_id r = agentID \<and> queue_entries_state r = QueueWaiting)
           (queue_entries d))))"

definition ResolveQueueEntry :: "string \<Rightarrow> QueueEntryState \<Rightarrow> instant \<Rightarrow> db \<Rightarrow> db res" where
  "ResolveQueueEntry entryID state at d =
     (if \<not> Terminal state then Inl ErrInvalidArgument
      else let waits = (\<lambda>r. queue_entries_id r = entryID \<and> queue_entries_state r = QueueWaiting);
               affected = count_where waits (queue_entries d)
           in if affected > 0 \<and> \<not> QueueEntryState_Valid state then Inl (translateError CheckFailed)
              else if affected = 0 then Inl ErrConflict
              else Inr (d\<lparr>queue_entries := update_where waits
                     (\<lambda>r. r\<lparr>queue_entries_state := state,
                            queue_entries_resolved_at := Some (requireMicros at)\<rparr>)
                     (queue_entries d)\<rparr>))"

subsection \<open>Leases (\<open>leases.go\<close>)\<close>

text \<open>A row occupies a slot on \<open>resource\<close> at the instant of \<open>us\<close> microseconds.\<close>

definition holds_at :: "int \<Rightarrow> leases_row \<Rightarrow> bool" where
  "holds_at us r \<longleftrightarrow> leases_released_at r = None \<and> leases_expires_at r > us"

definition holds_slot :: "string \<Rightarrow> int \<Rightarrow> leases_row \<Rightarrow> bool" where
  "holds_slot resource us r \<longleftrightarrow> leases_resource_name r = resource \<and> holds_at us r"

definition CountActiveLeases :: "string \<Rightarrow> instant \<Rightarrow> db \<Rightarrow> int res" where
  "CountActiveLeases resource at d =
     Inr (int (count_where (holds_slot resource (requireMicros at)) (leases d)))"

definition lease_row_of :: "Lease \<Rightarrow> leases_row" where
  "lease_row_of l = \<lparr>leases_id = lease_ID l, leases_resource_name = lease_ResourceName l,
     leases_agent_id = lease_AgentID l, leases_queue_entry_id = nullString (lease_QueueEntryID l),
     leases_acquired_at = requireMicros (lease_AcquiredAt l),
     leases_expires_at = requireMicros (lease_ExpiresAt l),
     leases_released_at = toMicros (lease_ReleasedAt l), leases_metadata = lease_Metadata l\<rparr>"

definition CreateLease :: "Lease \<Rightarrow> db \<Rightarrow> db res" where
  "CreateLease l d =
     (if lease_ID l = [] \<or> lease_AgentID l = [] then Inl ErrInvalidArgument
      else if \<not> lease_ExpiresAt l > lease_AcquiredAt l then Inl ErrInvalidArgument
      else translated (constrained True
        (\<not> lease_exists d (lease_ID l))
        (resource_exists d (lease_ResourceName l) \<and> agent_exists d (lease_AgentID l) \<and>
         null_or (queue_entry_exists d) (nullString (lease_QueueEntryID l)))
        (d\<lparr>leases := leases d @ [lease_row_of l]\<rparr>)))"

definition scanLease :: "leases_row \<Rightarrow> Lease" where
  "scanLease r = \<lparr>lease_ID = leases_id r, lease_ResourceName = leases_resource_name r,
     lease_AgentID = leases_agent_id r, lease_QueueEntryID = fromNullString (leases_queue_entry_id r),
     lease_AcquiredAt = fromRequiredMicros (leases_acquired_at r),
     lease_ExpiresAt = fromRequiredMicros (leases_expires_at r),
     lease_ReleasedAt = fromMicros (leases_released_at r), lease_Metadata = leases_metadata r\<rparr>"

definition LeaseByID :: "string \<Rightarrow> db \<Rightarrow> Lease res" where
  "LeaseByID leaseID d = fetch scanLease (first_where (\<lambda>r. leases_id r = leaseID) (leases d))"

definition ActiveLeases :: "string \<Rightarrow> instant \<Rightarrow> db \<Rightarrow> Lease list res" where
  "ActiveLeases resource at d = Inr (map scanLease (sort_key leases_acquired_at
     (filter (holds_slot resource (requireMicros at)) (leases d))))"

definition ActiveLeasesByAgent :: "string \<Rightarrow> instant \<Rightarrow> db \<Rightarrow> Lease list res" where
  "ActiveLeasesByAgent agentID at d = Inr (map scanLease (sort_key leases_acquired_at
     (filter (\<lambda>r. leases_agent_id r = agentID \<and> holds_at (requireMicros at) r) (leases d))))"

definition explainFailedRenewal :: "string \<Rightarrow> db \<Rightarrow> err" where
  "explainFailedRenewal leaseID d = (case LeaseByID leaseID d of Inl e \<Rightarrow> e | Inr _ \<Rightarrow> ErrConflict)"

definition Leases_Renew :: "string \<Rightarrow> instant \<Rightarrow> instant \<Rightarrow> db \<Rightarrow> db res" where
  "Leases_Renew leaseID expiresAt at d =
     (let held = (\<lambda>r. leases_id r = leaseID \<and> holds_at (requireMicros at) r)
      in if count_where held (leases d) = 0 then Inl (explainFailedRenewal leaseID d)
         else Inr (d\<lparr>leases := update_where held
                (\<lambda>r. r\<lparr>leases_expires_at := requireMicros expiresAt\<rparr>) (leases d)\<rparr>))"

definition Leases_Release :: "string \<Rightarrow> instant \<Rightarrow> db \<Rightarrow> db res" where
  "Leases_Release leaseID at d = Inr (d\<lparr>leases := update_where
     (\<lambda>r. leases_id r = leaseID \<and> leases_released_at r = None)
     (\<lambda>r. r\<lparr>leases_released_at := Some (requireMicros at)\<rparr>) (leases d)\<rparr>)"

definition ExpiredLeases :: "instant \<Rightarrow> db \<Rightarrow> Lease list res" where
  "ExpiredLeases at d = Inr (map scanLease (sort_key leases_expires_at
     (filter (\<lambda>r. leases_released_at r = None \<and> leases_expires_at r \<le> requireMicros at) (leases d))))"

end
