(* ===== verification/Waiters.thy ===== *)
theory Waiters
  imports World
begin

section \<open>Waking whoever waits (\<open>internal/service/leasing/waiters.go\<close>)\<close>

text \<open>
  Each key has a channel that is closed, never sent on, to say "something changed, look again"; a
  fresh one takes its place. The locale states what a parked caller relies on, and proves once
  that a change signalled after the caller took its channel is never missed, whatever other
  watches and signals happen in between. Four services carry a copy of this code; each copy is
  interpreted in the theory of its service.
\<close>

definition watch :: "string \<Rightarrow> channels \<Rightarrow> nat \<times> channels" where
  "watch resource c = (case map_of (ch_open c) resource of
      Some channel \<Rightarrow> (channel, c)
    | None \<Rightarrow> (ch_next c, c\<lparr>ch_open := (resource, ch_next c) # ch_open c, ch_next := Suc (ch_next c)\<rparr>))"

definition signal :: "string \<Rightarrow> channels \<Rightarrow> channels" where
  "signal resource c = (case map_of (ch_open c) resource of
      Some channel \<Rightarrow> c\<lparr>ch_closed := channel # ch_closed c,
                         ch_open := filter (\<lambda>p. fst p \<noteq> resource) (ch_open c)\<rparr>
    | None \<Rightarrow> c)"

definition signalAll :: "channels \<Rightarrow> channels" where
  "signalAll c = c\<lparr>ch_closed := map snd (ch_open c) @ ch_closed c, ch_open := []\<rparr>"

text \<open>Open channels are distinct, were handed out, and are not closed.\<close>

definition channels_ok :: "channels \<Rightarrow> bool" where
  "channels_ok c \<longleftrightarrow> distinct (map fst (ch_open c)) \<and> distinct (map snd (ch_open c)) \<and>
     (\<forall>n \<in> set (map snd (ch_open c)). n < ch_next c \<and> n \<notin> set (ch_closed c)) \<and>
     (\<forall>n \<in> set (ch_closed c). n < ch_next c)"

datatype wake_event = OnWatch string | OnSignal string

locale wakeups =
  fixes wake_watch :: "string \<Rightarrow> 'c \<Rightarrow> nat \<times> 'c"
    and wake_signal :: "string \<Rightarrow> 'c \<Rightarrow> 'c"
    and parked_on :: "'c \<Rightarrow> string \<Rightarrow> nat option"
    and closed :: "'c \<Rightarrow> nat \<Rightarrow> bool"
    and ok :: "'c \<Rightarrow> bool"
  assumes ok_watch: "ok c \<Longrightarrow> ok (snd (wake_watch k c))"
    and ok_signal: "ok c \<Longrightarrow> ok (wake_signal k c)"
    and watch_parks: "ok c \<Longrightarrow> parked_on (snd (wake_watch k c)) k = Some (fst (wake_watch k c))"
    and watch_keeps: "ok c \<Longrightarrow> parked_on c j = Some n \<Longrightarrow> parked_on (snd (wake_watch k c)) j = Some n"
    and watch_closes_none: "ok c \<Longrightarrow> closed (snd (wake_watch k c)) n = closed c n"
    and signal_closes: "ok c \<Longrightarrow> parked_on c k = Some n \<Longrightarrow> closed (wake_signal k c) n"
    and signal_keeps: "ok c \<Longrightarrow> j \<noteq> k \<Longrightarrow> parked_on (wake_signal k c) j = parked_on c j"
    and closed_stays: "ok c \<Longrightarrow> closed c n \<Longrightarrow> closed (wake_signal k c) n"
    and parked_open: "ok c \<Longrightarrow> parked_on c k = Some n \<Longrightarrow> \<not> closed c n"
begin

fun wake_step :: "wake_event \<Rightarrow> 'c \<Rightarrow> 'c" where
  "wake_step (OnWatch k) c = snd (wake_watch k c)"
| "wake_step (OnSignal k) c = wake_signal k c"

definition wake_run :: "wake_event list \<Rightarrow> 'c \<Rightarrow> 'c" where
  "wake_run es c = fold wake_step es c"

lemma ok_step: "ok c \<Longrightarrow> ok (wake_step e c)"
  by (cases e) (auto intro: ok_watch ok_signal)

lemma closed_step: "ok c \<Longrightarrow> closed c n \<Longrightarrow> closed (wake_step e c) n"
  by (cases e) (auto simp: watch_closes_none intro: closed_stays)

lemma closed_run: "ok c \<Longrightarrow> closed c n \<Longrightarrow> closed (wake_run es c) n"
  by (induction es arbitrary: c) (auto simp: wake_run_def intro: closed_step ok_step)

lemma parked_step: "ok c \<Longrightarrow> parked_on c k = Some n \<Longrightarrow> e \<noteq> OnSignal k \<Longrightarrow>
    parked_on (wake_step e c) k = Some n"
  by (cases e) (auto simp: signal_keeps intro: watch_keeps)

text \<open>A parked caller's channel is closed exactly when its key was signalled meanwhile.\<close>

lemma woken_iff_signalled:
  assumes "ok c" and "parked_on c k = Some n"
  shows "closed (wake_run es c) n \<longleftrightarrow> OnSignal k \<in> set es"
  using assms
proof (induction es arbitrary: c)
  case Nil
  then show ?case by (simp add: wake_run_def parked_open)
next
  case (Cons e es)
  show ?case
  proof (cases "e = OnSignal k")
    case True
    with Cons.prems have "closed (wake_step e c) n" by (simp add: signal_closes)
    with Cons.prems have "closed (wake_run es (wake_step e c)) n"
      by (intro closed_run ok_step)
    with True show ?thesis by (simp add: wake_run_def)
  next
    case False
    with Cons.prems have "ok (wake_step e c)" "parked_on (wake_step e c) k = Some n"
      by (simp_all add: ok_step parked_step)
    from Cons.IH [OF this] False show ?thesis by (simp add: wake_run_def)
  qed
qed

lemma watch_woken_iff:
  assumes "ok c" and "wake_watch k c = (n, c')"
  shows "closed (wake_run es c') n \<longleftrightarrow> OnSignal k \<in> set es"
  using assms woken_iff_signalled [of c' k n es] ok_watch [of c k] watch_parks [of c k] by simp

lemma parked_run:
  "ok c \<Longrightarrow> parked_on c k = Some n \<Longrightarrow> OnSignal k \<notin> set es \<Longrightarrow> parked_on (wake_run es c) k = Some n"
  by (induction es arbitrary: c) (auto simp: wake_run_def ok_step parked_step)

lemma ok_run: "ok c \<Longrightarrow> ok (wake_run es c)"
  by (induction es arbitrary: c) (auto simp: wake_run_def ok_step)

end

locale wakeups_all = wakeups +
  fixes wake_all :: "'a \<Rightarrow> 'a"
  assumes ok_all: "ok c \<Longrightarrow> ok (wake_all c)"
    and all_closes: "ok c \<Longrightarrow> parked_on c k = Some n \<Longrightarrow> closed (wake_all c) n"
    and all_keeps_closed: "ok c \<Longrightarrow> closed c n \<Longrightarrow> closed (wake_all c) n"
begin

text \<open>Waking everybody reaches every caller parked before it, and the wake-up is not undone.\<close>

lemma all_wakes:
  assumes "ok c" and "wake_watch k c = (n, c')"
  shows "closed (wake_run fs (wake_all (wake_run es c'))) n"
proof -
  let ?mid = "wake_run es c'"
  from assms have ok: "ok c'" and parked: "parked_on c' k = Some n"
    using ok_watch [of c k] watch_parks [of c k] by simp_all
  have "closed (wake_all ?mid) n"
  proof (cases "OnSignal k \<in> set es")
    case True
    with ok parked have "closed ?mid n" by (simp add: woken_iff_signalled)
    with ok show ?thesis by (simp add: all_keeps_closed ok_run)
  next
    case False
    with ok parked have "parked_on ?mid k = Some n" by (rule parked_run)
    with ok show ?thesis by (simp add: all_closes ok_run)
  qed
  with ok show ?thesis by (simp add: closed_run ok_all ok_run)
qed

end

subsection \<open>The leasing service's copy\<close>

lemma channels_ok_empty [simp]: "channels_ok no_channels"
  by (simp add: channels_ok_def no_channels_def)

lemma channels_ok_watch: "channels_ok c \<Longrightarrow> channels_ok (snd (watch k c))"
  by (force simp: channels_ok_def watch_def map_of_eq_None_iff split: option.split)

lemma open_key_channel:
  "channels_ok c \<Longrightarrow> map_of (ch_open c) k = Some n \<Longrightarrow> (j, n) \<in> set (ch_open c) \<Longrightarrow> j = k"
  by (auto simp: channels_ok_def dest!: map_of_SomeD dest: distinct_key_eq [where k = snd])

lemma channels_ok_signal: "channels_ok c \<Longrightarrow> channels_ok (signal k c)"
  by (auto simp: channels_ok_def signal_def distinct_map_filterI dest!: map_of_SomeD
      dest: distinct_key_eq [where k = snd] split: option.split)

lemma channels_ok_signalAll: "channels_ok c \<Longrightarrow> channels_ok (signalAll c)"
  by (auto simp: channels_ok_def signalAll_def)

lemma map_of_filter_other: "j \<noteq> k \<Longrightarrow> map_of (filter (\<lambda>p. fst p \<noteq> k) ps) j = map_of ps j"
  by (induction ps) auto

interpretation waiters: wakeups watch signal "\<lambda>c. map_of (ch_open c)" "\<lambda>c n. n \<in> set (ch_closed c)"
  channels_ok
proof
  fix c k j n
  assume ok: "channels_ok c"
  show "channels_ok (snd (watch k c))" using ok by (rule channels_ok_watch)
  show "channels_ok (signal k c)" using ok by (rule channels_ok_signal)
  show "map_of (ch_open (snd (watch k c))) k = Some (fst (watch k c))"
    by (simp add: watch_def split: option.split)
  show "map_of (ch_open (snd (watch k c))) j = Some n" if "map_of (ch_open c) j = Some n"
    using that by (auto simp: watch_def split: option.split)
  show "(n \<in> set (ch_closed (snd (watch k c)))) = (n \<in> set (ch_closed c))"
    by (simp add: watch_def split: option.split)
  show "n \<in> set (ch_closed (signal k c))" if "map_of (ch_open c) k = Some n"
    using that by (simp add: signal_def)
  show "map_of (ch_open (signal k c)) j = map_of (ch_open c) j" if "j \<noteq> k"
    using that by (simp add: signal_def map_of_filter_other split: option.split)
  show "n \<in> set (ch_closed (signal k c))" if "n \<in> set (ch_closed c)"
    using that by (simp add: signal_def split: option.split)
  show "n \<notin> set (ch_closed c)" if "map_of (ch_open c) k = Some n"
    using that ok by (force simp: channels_ok_def dest: map_of_SomeD)
qed

lemma signalAll_closes: "map_of (ch_open c) k = Some n \<Longrightarrow> n \<in> set (ch_closed (signalAll c))"
  by (force simp: signalAll_def dest: map_of_SomeD)

interpretation all_waiters: wakeups_all watch signal "\<lambda>c. map_of (ch_open c)"
    "\<lambda>c n. n \<in> set (ch_closed c)" channels_ok signalAll
  by unfold_locales
    (auto simp: channels_ok_signalAll signalAll_closes, simp add: signalAll_def)

end
