(* ===== verification/Leasing.thy ===== *)
theory Leasing
  imports StoreLeases Waiters
begin

section \<open>The leasing service (\<open>internal/service/leasing/leasing.go\<close>)\<close>

text \<open>
  Each method of \<^verbatim>\<open>Service\<close> is an action on the daemon's state, its statements in the source's
  order. Logging is left out. The wait loop of \<open>Acquire\<close> takes the list of pauses its caller goes
  through: what everybody else did while it was parked, and why it woke.
\<close>

subsection \<open>Set-up and small pieces\<close>

definition defaultTimeToLive :: "duration \<Rightarrow> duration" where
  "defaultTimeToLive configured = (if configured \<le> 0 then 15 * Minute else configured)"

definition reapInterval :: "Resource \<Rightarrow> duration" where
  "reapInterval resource =
     (let shortest = Second; longest = 30 * Second;
          interval = quot (res_LeaseTimeToLive resource) 10
      in min (max interval shortest) longest)"

definition watch_resource :: "string \<Rightarrow> nat action" where
  "watch_resource resource = (\<lambda>w. case watch resource (w_waiters w) of
     (channel, c) \<Rightarrow> (Inr channel, w\<lparr>w_waiters := c\<rparr>))"

definition signal_resource :: "string \<Rightarrow> unit action" where
  "signal_resource resource = (\<lambda>w. (Inr (), w\<lparr>w_waiters := signal resource (w_waiters w)\<rparr>))"

definition signal_every_resource :: "unit action" where
  "signal_every_resource = (\<lambda>w. (Inr (), w\<lparr>w_waiters := signalAll (w_waiters w)\<rparr>))"

text \<open>An audit entry outside a transaction: a failure to write it is only logged.\<close>

definition audit :: "string \<Rightarrow> AuditAction \<Rightarrow> string \<Rightarrow> string \<Rightarrow> unit action" where
  "audit actor action target detail =
     bindE now (\<lambda>at.
     bindE (attemptE (exec (Audit_Append (entry_of actor action target detail at)))) (\<lambda>_.
     returnE ()))"

definition audit_in :: "string \<Rightarrow> AuditAction \<Rightarrow> string \<Rightarrow> string \<Rightarrow> instant \<Rightarrow> unit action" where
  "audit_in actor action target detail at = exec (Audit_Append (entry_of actor action target detail at))"

subsection \<open>Definitions and views\<close>

definition Define :: "duration \<Rightarrow> string \<Rightarrow> Resource \<Rightarrow> unit action" where
  "Define defaultTTL actorID resource0 =
     (let resource1 = (if res_LeaseTimeToLive resource0 \<le> 0
                       then resource0\<lparr>res_LeaseTimeToLive := defaultTTL\<rparr> else resource0)
      in bindE (if IsZero (res_CreatedAt resource1)
                then bindE now (\<lambda>at. returnE (resource1\<lparr>res_CreatedAt := at\<rparr>))
                else returnE resource1) (\<lambda>resource.
         bindE (\<lambda>w. exec (Resources_Define (time_of w) resource) w) (\<lambda>_.
         bindE (audit actorID AuditResourceDefined (res_Name resource)
                  (''capacity='' @ itoa (res_Capacity resource) @ '' ttl='' @
                   FormatDuration (res_LeaseTimeToLive resource))) (\<lambda>_.
         signal_resource (res_Name resource)))))"

definition statusOf :: "Resource \<Rightarrow> ResourceStatus action" where
  "statusOf resource =
     bindE now (\<lambda>at.
     bindE (query (CountActiveLeases (res_Name resource) at)) (\<lambda>held.
     bindE (query (Waiting (res_Name resource))) (\<lambda>waiting.
     returnE \<lparr>rs_Resource = resource, rs_ActiveLeases = held, rs_Waiting = int (length waiting)\<rparr>)))"

definition Status :: "string \<Rightarrow> ResourceStatus action" where
  "Status name = bindE (query (Resources_ByName name)) statusOf"

definition List_resources :: "ResourceStatus list action" where
  "List_resources = bindE (query Resources_List) (\<lambda>rs. mapE rs statusOf)"

definition Queue :: "string \<Rightarrow> QueueEntry list action" where
  "Queue resourceName = query (Waiting resourceName)"

record Holding =
  hold_Lease :: Lease
  hold_Reason :: string

definition holding_of :: "Lease \<Rightarrow> Holding action" where
  "holding_of lease =
     bindE (attemptE (query (QueueEntryByID (lease_QueueEntryID lease)))) (\<lambda>r. case r of
       Inr entry \<Rightarrow> returnE \<lparr>hold_Lease = lease, hold_Reason = qe_Reason entry\<rparr>
     | Inl e \<Rightarrow> if e \<noteq> ErrNotFound then throwE e
               else returnE \<lparr>hold_Lease = lease, hold_Reason = []\<rparr>)"

definition Holders :: "string \<Rightarrow> Holding list action" where
  "Holders resourceName =
     bindE now (\<lambda>at.
     bindE (query (ActiveLeases resourceName at)) (\<lambda>held. mapE held holding_of))"

definition Held :: "string \<Rightarrow> Lease list action" where
  "Held agentID = bindE now (\<lambda>at. query (ActiveLeasesByAgent agentID at))"

subsection \<open>Acquiring a slot\<close>

record AcquireRequest =
  aq_AgentID :: string
  aq_ResourceName :: string
  aq_Priority :: int
  aq_Reason :: string
  aq_Metadata :: string
  aq_NoWait :: bool

text \<open>The body of \<open>tryGrant\<close>'s transaction: the slot is granted when this entry is at the head of
  the queue and there is room; otherwise it has to go on waiting.\<close>

definition grant_lease :: "QueueEntry \<Rightarrow> string \<Rightarrow> Resource \<Rightarrow> instant \<Rightarrow> Lease option action" where
  "grant_lease entry metadata resource at =
     bindE (newID ''lease'') (\<lambda>leaseID.
     let lease = \<lparr>lease_ID = leaseID, lease_ResourceName = res_Name resource,
           lease_AgentID = qe_AgentID entry, lease_QueueEntryID = qe_ID entry,
           lease_AcquiredAt = at, lease_ExpiresAt = at + res_LeaseTimeToLive resource,
           lease_ReleasedAt = zeroTime, lease_Metadata = metadata\<rparr>
     in
     bindE (exec (CreateLease lease)) (\<lambda>_.
     bindE (exec (ResolveQueueEntry (qe_ID entry) QueueGranted at)) (\<lambda>_.
     bindE (audit_in (qe_AgentID entry) AuditLeaseGranted (res_Name resource)
              (''lease '' @ leaseID) at) (\<lambda>_.
     returnE (Some lease)))))"

definition at_head :: "QueueEntry \<Rightarrow> QueueEntry list \<Rightarrow> bool" where
  "at_head entry waiting = (case waiting of [] \<Rightarrow> False | first # _ \<Rightarrow> qe_ID first = qe_ID entry)"

definition grant_body :: "QueueEntry \<Rightarrow> string \<Rightarrow> Lease option action" where
  "grant_body entry metadata =
     bindE (query (QueueEntryByID (qe_ID entry))) (\<lambda>current.
     if qe_State current \<noteq> QueueWaiting then throwE ErrConflict
     else
     bindE (query (Resources_ByName (qe_ResourceName entry))) (\<lambda>resource.
     bindE now (\<lambda>at.
     bindE (query (CountActiveLeases (res_Name resource) at)) (\<lambda>held.
     if held \<ge> res_Capacity resource then returnE None
     else
     bindE (query (Waiting (res_Name resource))) (\<lambda>waiting.
     if \<not> at_head entry waiting then returnE None
     else grant_lease entry metadata resource at)))))"

definition tryGrant :: "QueueEntry \<Rightarrow> string \<Rightarrow> Lease option action" where
  "tryGrant entry metadata =
     bindE (transaction (grant_body entry metadata)) (\<lambda>outcome.
     bindE (if outcome \<noteq> None then signal_resource (qe_ResourceName entry) else returnE ()) (\<lambda>_.
     returnE outcome))"

definition abandon :: "QueueEntry \<Rightarrow> err \<Rightarrow> unit action" where
  "abandon entry cause =
     (let state = (if cause = ErrCapacityReached then QueueExpired else QueueCancelled)
      in bindE now (\<lambda>at.
         bindE (attemptE (exec (ResolveQueueEntry (qe_ID entry) state at))) (\<lambda>r.
         if succeeded r then signal_resource (qe_ResourceName entry) else returnE ())))"

text \<open>Why a parked caller woke: its channel was closed, its context ended, or the safety-net
  timer fired. A pause is what happened to the state meanwhile, with that reason.\<close>

datatype wake = Changed | CtxDone ctx_err | TimerFired

type_synonym pause = "(world \<Rightarrow> world) \<times> wake"

text \<open>
  The wait loop. \<open>None\<close> means the pauses ran out while the caller was still parked. A channel
  that is still open cannot wake anybody, so such a pause only lets time pass.
\<close>

function waitForSlot :: "pause list \<Rightarrow> Resource \<Rightarrow> QueueEntry \<Rightarrow> AcquireRequest \<Rightarrow>
    world \<Rightarrow> Lease res option \<times> world"
  and parked :: "pause list \<Rightarrow> nat \<Rightarrow> Resource \<Rightarrow> QueueEntry \<Rightarrow> AcquireRequest \<Rightarrow>
    world \<Rightarrow> Lease res option \<times> world" where
  "waitForSlot ps resource entry request w =
     (case bindE (watch_resource (res_Name resource)) (\<lambda>channel.
           bindE (tryGrant entry (aq_Metadata request)) (\<lambda>outcome. returnE (channel, outcome))) w of
        (Inl e, w1) \<Rightarrow> (Some (Inl e), w1)
      | (Inr (channel, Some lease), w1) \<Rightarrow> (Some (Inr lease), w1)
      | (Inr (channel, None), w1) \<Rightarrow>
          if aq_NoWait request then (Some (Inl ErrCapacityReached), w1)
          else parked ps channel resource entry request w1)"
| "parked [] channel resource entry request w = (None, w)"
| "parked ((others, why) # ps) channel resource entry request w =
     (case why of
        Changed \<Rightarrow> if channel \<in> set (ch_closed (w_waiters (others w)))
                   then waitForSlot ps resource entry request (others w)
                   else parked ps channel resource entry request (others w)
      | CtxDone ce \<Rightarrow> (Some (Inl (ContextDone ce)), others w)
      | TimerFired \<Rightarrow> waitForSlot ps resource entry request (others w))"
  by pat_completeness auto
termination
  by (relation "measure (case_sum (\<lambda>(ps, _). Suc (2 * length ps)) (\<lambda>(ps, _). 2 * length ps))") auto

declare waitForSlot.simps [simp del] parked.simps [simp del]

text \<open>The first half of \<open>Acquire\<close> puts the request in the queue; the second waits, and takes the
  request out again when the wait fails.\<close>

definition joinQueue :: "AcquireRequest \<Rightarrow> (Resource \<times> QueueEntry) action" where
  "joinQueue request =
     bindE (query (Resources_ByName (aq_ResourceName request))) (\<lambda>resource.
     bindE (newID ''queue'') (\<lambda>entryID.
     bindE now (\<lambda>at.
     let entry = \<lparr>qe_ID = entryID, qe_ResourceName = res_Name resource,
           qe_AgentID = aq_AgentID request, qe_Priority = aq_Priority request,
           qe_Reason = aq_Reason request, qe_State = QueueWaiting, qe_RequestedAt = at,
           qe_ResolvedAt = zeroTime\<rparr>
     in
     bindE (exec (Enqueue entry)) (\<lambda>_.
     bindE (audit (aq_AgentID request) AuditQueueJoined (res_Name resource) (aq_Reason request)) (\<lambda>_.
     returnE (resource, entry))))))"

definition Acquire :: "pause list \<Rightarrow> AcquireRequest \<Rightarrow> world \<Rightarrow> Lease res option \<times> world" where
  "Acquire ps request w =
     (case joinQueue request w of
        (Inl e, w1) \<Rightarrow> (Some (Inl e), w1)
      | (Inr (resource, entry), w1) \<Rightarrow>
          (case waitForSlot ps resource entry request w1 of
             (Some (Inl e), w2) \<Rightarrow> (Some (Inl e), snd (abandon entry e w2))
           | done \<Rightarrow> done))"

subsection \<open>Keeping and giving back\<close>

definition Renew :: "string \<Rightarrow> string \<Rightarrow> Lease action" where
  "Renew agentID leaseID = transaction (
     bindE (query (LeaseByID leaseID)) (\<lambda>lease.
     if lease_AgentID lease \<noteq> agentID then throwE ErrUnauthorised
     else
     bindE (query (Resources_ByName (lease_ResourceName lease))) (\<lambda>resource.
     bindE now (\<lambda>at.
     let expiresAt = at + res_LeaseTimeToLive resource in
     bindE (exec (Leases_Renew leaseID expiresAt at)) (\<lambda>_.
     bindE (audit_in agentID AuditLeaseRenewed (lease_ResourceName lease) (''lease '' @ leaseID) at) (\<lambda>_.
     returnE (lease\<lparr>lease_ExpiresAt := expiresAt\<rparr>)))))))"

definition release :: "string \<Rightarrow> string \<Rightarrow> bool \<Rightarrow> unit action" where
  "release agentID leaseID force =
     bindE (transaction (
       bindE (query (LeaseByID leaseID)) (\<lambda>lease.
       if \<not> force \<and> lease_AgentID lease \<noteq> agentID then throwE ErrUnauthorised
       else
       bindE now (\<lambda>at.
       bindE (exec (Leases_Release leaseID at)) (\<lambda>_.
       let detail = (if lease_AgentID lease \<noteq> agentID
             then ''lease '' @ leaseID @ '' force-released from '' @ lease_AgentID lease
             else ''lease '' @ leaseID) in
       bindE (audit_in agentID AuditLeaseReleased (lease_ResourceName lease) detail at) (\<lambda>_.
       returnE (lease_ResourceName lease))))))) signal_resource"

definition Release :: "string \<Rightarrow> string \<Rightarrow> unit action" where
  "Release agentID leaseID = release agentID leaseID False"

definition ForceRelease :: "string \<Rightarrow> string \<Rightarrow> unit action" where
  "ForceRelease actorID leaseID = release actorID leaseID True"

definition cancel :: "string \<Rightarrow> string \<Rightarrow> bool \<Rightarrow> unit action" where
  "cancel agentID entryID force =
     bindE (transaction (
       bindE (query (QueueEntryByID entryID)) (\<lambda>entry.
       if \<not> force \<and> qe_AgentID entry \<noteq> agentID then throwE ErrUnauthorised
       else if force \<and> qe_State entry \<noteq> QueueWaiting then throwE ErrConflict
       else
       bindE now (\<lambda>at.
       bindE (exec (ResolveQueueEntry entryID QueueCancelled at)) (\<lambda>_.
       let detail = (if qe_AgentID entry \<noteq> agentID
             then ''entry '' @ entryID @ '' force-cancelled for '' @ qe_AgentID entry
             else ''entry '' @ entryID) in
       bindE (audit_in agentID AuditQueueCancelled (qe_ResourceName entry) detail at) (\<lambda>_.
       returnE (qe_ResourceName entry))))))) signal_resource"

definition Cancel :: "string \<Rightarrow> string \<Rightarrow> unit action" where
  "Cancel agentID entryID = cancel agentID entryID False"

definition ForceCancel :: "string \<Rightarrow> string \<Rightarrow> unit action" where
  "ForceCancel actorID entryID = cancel actorID entryID True"

subsection \<open>Bulk operations\<close>

text \<open>Each loop counts the rows it changed; on success that is how many there were.\<close>

definition release_logged :: "string \<Rightarrow> AuditAction \<Rightarrow> (Lease \<Rightarrow> string) \<Rightarrow> instant \<Rightarrow> Lease \<Rightarrow> unit action" where
  "release_logged actor action detail at lease =
     bindE (exec (Leases_Release (lease_ID lease) at)) (\<lambda>_.
     audit_in actor action (lease_ResourceName lease) (detail lease) at)"

definition ReleaseEverythingHeldBy :: "string \<Rightarrow> string \<Rightarrow> string \<Rightarrow> nat action" where
  "ReleaseEverythingHeldBy actor agentID reason =
     bindE now (\<lambda>at.
     bindE (transaction (
       bindE (query (ActiveLeasesByAgent agentID at)) (\<lambda>held.
       bindE (forE held (release_logged actor AuditLeaseReleased
                (\<lambda>lease. ''lease '' @ lease_ID lease @ '' reclaimed: '' @ reason) at)) (\<lambda>_.
       bindE (query (WaitingByAgent agentID)) (\<lambda>entries.
       bindE (forE entries (\<lambda>entry. exec (ResolveQueueEntry (qe_ID entry) QueueCancelled at))) (\<lambda>_.
       returnE (length held))))))) (\<lambda>released.
     bindE signal_every_resource (\<lambda>_. returnE released)))"

definition FreeResource :: "string \<Rightarrow> string \<Rightarrow> nat action" where
  "FreeResource actorID resourceName =
     bindE now (\<lambda>at.
     bindE (transaction (
       bindE (query (Resources_ByName resourceName)) (\<lambda>_.
       bindE (query (ActiveLeases resourceName at)) (\<lambda>held.
       bindE (forE held (\<lambda>lease.
         bindE (exec (Leases_Release (lease_ID lease) at)) (\<lambda>_.
         audit_in actorID AuditLeaseReleased resourceName
           (''lease '' @ lease_ID lease @ '' force-released from '' @ lease_AgentID lease) at))) (\<lambda>_.
       returnE (length held)))))) (\<lambda>released.
     bindE (signal_resource resourceName) (\<lambda>_. returnE released)))"

definition ClearQueue :: "string \<Rightarrow> string \<Rightarrow> nat action" where
  "ClearQueue actorID resourceName =
     bindE now (\<lambda>at.
     bindE (transaction (
       bindE (query (Resources_ByName resourceName)) (\<lambda>_.
       bindE (query (Waiting resourceName)) (\<lambda>entries.
       bindE (forE entries (\<lambda>entry.
         bindE (exec (ResolveQueueEntry (qe_ID entry) QueueCancelled at)) (\<lambda>_.
         audit_in actorID AuditQueueCancelled resourceName
           (''entry '' @ qe_ID entry @ '' force-cancelled for '' @ qe_AgentID entry) at))) (\<lambda>_.
       returnE (length entries)))))) (\<lambda>cancelled.
     bindE (signal_resource resourceName) (\<lambda>_. returnE cancelled)))"

definition ReapExpired :: "nat action" where
  "ReapExpired =
     bindE now (\<lambda>at.
     bindE (transaction (
       bindE (query (ExpiredLeases at)) (\<lambda>expired.
       bindE (forE expired (release_logged SystemActor AuditLeaseExpired
                (\<lambda>lease. ''lease '' @ lease_ID lease @ '' held by '' @ lease_AgentID lease @
                         '' expired at '' @ FormatRFC3339 (lease_ExpiresAt lease)) at)) (\<lambda>_.
       returnE (length expired))))) (\<lambda>reclaimed.
     bindE (if reclaimed > 0 then signal_every_resource else returnE ()) (\<lambda>_. returnE reclaimed)))"

end
