(* ===== verification/LeasingFacts.thy ===== *)
theory LeasingFacts
  imports Leasing
begin

section \<open>What the leasing operations do\<close>

text \<open>
  One lemma per operation and outcome: which rows a success changed, what an error left alone.
  The store methods come first, then the service's transactions.
\<close>

subsection \<open>Store methods\<close>

lemmas store_defs = Audit_Append_def Resources_Define_def Enqueue_def ResolveQueueEntry_def
  CreateLease_def Leases_Renew_def Leases_Release_def

lemma Audit_Append_Inr:
  "Audit_Append e d = Inr d' \<longleftrightarrow> ae_Actor e \<noteq> [] \<and> ae_Action e \<noteq> NoAuditAction \<and>
     d' = d\<lparr>audit_log_seq := audit_log_seq d + 1, audit_log := audit_log d @
       [\<lparr>audit_log_id = audit_log_seq d + 1, audit_log_actor = ae_Actor e,
         audit_log_action = ae_Action e, audit_log_target = ae_Target e,
         audit_log_detail = ae_Detail e, audit_log_at = requireMicros (ae_At e)\<rparr>]\<rparr>"
  by (auto simp: Audit_Append_def)

lemma Audit_Append_Inl: "Audit_Append e d = Inl er \<Longrightarrow> er = ErrInvalidArgument"
  by (auto simp: Audit_Append_def split: if_splits)

text \<open>What an audit append leaves alone.\<close>

lemma Audit_Append_frame:
  assumes "Audit_Append e d = Inr d'"
  shows "queue_entries d' = queue_entries d" "leases d' = leases d" "resources d' = resources d"
    "agents d' = agents d" "credentials d' = credentials d" "messages d' = messages d"
    "deliveries d' = deliveries d" "subscriptions d' = subscriptions d" "tasks d' = tasks d"
    "report_requests d' = report_requests d" "reports d' = reports d" "watches d' = watches d"
    "watch_subscribers d' = watch_subscribers d" "watch_events d' = watch_events d"
  using assms by (auto simp: Audit_Append_Inr)

lemma entry_of_sel [simp]:
  "ae_Actor (entry_of a ac t dt at) = a" "ae_Action (entry_of a ac t dt at) = ac"
  "ae_Target (entry_of a ac t dt at) = t" "ae_Detail (entry_of a ac t dt at) = dt"
  "ae_At (entry_of a ac t dt at) = at"
  by (simp_all add: entry_of_def)

abbreviation waits_as :: "string \<Rightarrow> queue_entries_row \<Rightarrow> bool" where
  "waits_as entryID r \<equiv> queue_entries_id r = entryID \<and> queue_entries_state r = QueueWaiting"

lemma Resolve_Inr:
  "ResolveQueueEntry i st at d = Inr d' \<longleftrightarrow>
     Terminal st \<and> QueueEntryState_Valid st \<and> exists_where (waits_as i) (queue_entries d) \<and>
     d' = d\<lparr>queue_entries := update_where (waits_as i)
       (\<lambda>r. r\<lparr>queue_entries_state := st, queue_entries_resolved_at := Some (requireMicros at)\<rparr>)
       (queue_entries d)\<rparr>"
  by (auto simp: ResolveQueueEntry_def Let_def count_where_zero
      dest: count_where_zero [THEN iffD2])

lemma Resolve_Inl:
  "ResolveQueueEntry i st at d = Inl e \<Longrightarrow> Terminal st \<Longrightarrow> QueueEntryState_Valid st \<Longrightarrow>
     e = ErrConflict \<and> \<not> exists_where (waits_as i) (queue_entries d)"
  by (auto simp: ResolveQueueEntry_def Let_def count_where_zero split: if_splits)

lemma Terminal_simps [simp]:
  "Terminal QueueGranted" "Terminal QueueCancelled" "Terminal QueueExpired" "\<not> Terminal QueueWaiting"
  "QueueEntryState_Valid QueueGranted" "QueueEntryState_Valid QueueCancelled"
  "QueueEntryState_Valid QueueExpired" "QueueEntryState_Valid QueueWaiting"
  by (simp_all add: Terminal_def QueueEntryState_Valid_def)

lemma Release_Inr:
  "Leases_Release i at d = Inr d' \<longleftrightarrow> d' = d\<lparr>leases := update_where
     (\<lambda>r. leases_id r = i \<and> leases_released_at r = None)
     (\<lambda>r. r\<lparr>leases_released_at := Some (requireMicros at)\<rparr>) (leases d)\<rparr>"
  by (auto simp: Leases_Release_def)

lemma Release_not_Inl [simp]: "Leases_Release i at d \<noteq> Inl e"
  by (simp add: Leases_Release_def)

lemma Renew_Inr:
  "Leases_Renew i ex at d = Inr d' \<longleftrightarrow>
     exists_where (\<lambda>r. leases_id r = i \<and> holds_at (requireMicros at) r) (leases d) \<and>
     d' = d\<lparr>leases := update_where (\<lambda>r. leases_id r = i \<and> holds_at (requireMicros at) r)
       (\<lambda>r. r\<lparr>leases_expires_at := requireMicros ex\<rparr>) (leases d)\<rparr>"
  by (auto simp: Leases_Renew_def Let_def count_where_zero)

lemma CreateLease_Inr:
  "CreateLease l d = Inr d' \<longleftrightarrow>
     lease_ID l \<noteq> [] \<and> lease_AgentID l \<noteq> [] \<and> lease_AcquiredAt l < lease_ExpiresAt l \<and>
     \<not> lease_exists d (lease_ID l) \<and> resource_exists d (lease_ResourceName l) \<and>
     agent_exists d (lease_AgentID l) \<and>
     null_or (queue_entry_exists d) (nullString (lease_QueueEntryID l)) \<and>
     d' = d\<lparr>leases := leases d @ [lease_row_of l]\<rparr>"
  by (auto simp: CreateLease_def translated_constrained)

lemma Enqueue_Inr:
  "Enqueue e d = Inr d' \<longleftrightarrow>
     QueueEntry_Validate e = Inr () \<and> \<not> queue_entry_exists d (qe_ID e) \<and>
     resource_exists d (qe_ResourceName e) \<and> agent_exists d (qe_AgentID e) \<and>
     d' = d\<lparr>queue_entries := queue_entries d @ [queue_row_of e]\<rparr>"
  by (auto simp: Enqueue_def translated_constrained QueueEntry_Validate_def
      ValidateName_check split: sum.splits if_splits)

lemma Define_Inr:
  assumes "Resources_Define wall r d = Inr d'"
  shows "1 \<le> res_Capacity r" "res_Capacity r \<le> MaxCapacity" "0 < Microseconds (res_LeaseTimeToLive r)"
    "queue_entries d' = queue_entries d" "leases d' = leases d" "agents d' = agents d"
    "nameSyntax (res_Name r)"
    "\<exists>c. resources d' = (if resource_exists d (res_Name r)
       then update_where (\<lambda>s. resources_name s = res_Name r)
              (\<lambda>s. (resource_row_of r c)\<lparr>resources_created_at := resources_created_at s\<rparr>) (resources d)
       else resources d @ [resource_row_of r c])"
  using assms
  by (auto simp: Resources_Define_def Resource_Validate_def ValidateName_check Let_def
      translated_constrained resource_row_of_def split: sum.splits if_splits)

subsection \<open>Reading rows back\<close>

lemma scanQueueEntry_sel [simp]:
  "qe_ID (scanQueueEntry r) = queue_entries_id r"
  "qe_ResourceName (scanQueueEntry r) = queue_entries_resource_name r"
  "qe_AgentID (scanQueueEntry r) = queue_entries_agent_id r"
  "qe_Priority (scanQueueEntry r) = queue_entries_priority r"
  "qe_State (scanQueueEntry r) = queue_entries_state r"
  by (simp_all add: scanQueueEntry_def)

lemma scanLease_sel [simp]:
  "lease_ID (scanLease r) = leases_id r"
  "lease_ResourceName (scanLease r) = leases_resource_name r"
  "lease_AgentID (scanLease r) = leases_agent_id r"
  "lease_QueueEntryID (scanLease r) = fromNullString (leases_queue_entry_id r)"
  by (simp_all add: scanLease_def)

lemma scanResource_sel [simp]:
  "res_Name (scanResource r) = resources_name r"
  "res_Capacity (scanResource r) = resources_capacity r"
  "res_LeaseTimeToLive (scanResource r) = resources_lease_ttl_micros r * 1000"
  by (simp_all add: scanResource_def)

lemma lease_row_sel [simp]:
  "leases_id (lease_row_of l) = lease_ID l"
  "leases_resource_name (lease_row_of l) = lease_ResourceName l"
  "leases_agent_id (lease_row_of l) = lease_AgentID l"
  "leases_queue_entry_id (lease_row_of l) = nullString (lease_QueueEntryID l)"
  "leases_expires_at (lease_row_of l) = requireMicros (lease_ExpiresAt l)"
  "leases_released_at (lease_row_of l) = toMicros (lease_ReleasedAt l)"
  by (simp_all add: lease_row_of_def)

lemma queue_row_sel [simp]:
  "queue_entries_id (queue_row_of e) = qe_ID e"
  "queue_entries_resource_name (queue_row_of e) = qe_ResourceName e"
  "queue_entries_agent_id (queue_row_of e) = qe_AgentID e"
  "queue_entries_state (queue_row_of e) = qe_State e"
  by (simp_all add: queue_row_of_def)

lemma LeaseByID_Inr:
  "LeaseByID i d = Inr l \<longleftrightarrow>
     (\<exists>r. first_where (\<lambda>r. leases_id r = i) (leases d) = Some r \<and> l = scanLease r)"
  by (simp add: LeaseByID_def fetch_Inr)

lemma QueueEntryByID_Inr:
  "QueueEntryByID i d = Inr e \<longleftrightarrow>
     (\<exists>r. first_where (\<lambda>r. queue_entries_id r = i) (queue_entries d) = Some r \<and> e = scanQueueEntry r)"
  by (simp add: QueueEntryByID_def fetch_Inr)

lemma ByName_Inr:
  "Resources_ByName n d = Inr r \<longleftrightarrow>
     (\<exists>row. first_where (\<lambda>r. resources_name r = n) (resources d) = Some row \<and> r = scanResource row)"
  by (simp add: Resources_ByName_def fetch_Inr)

lemma ByName_name: "Resources_ByName n d = Inr r \<Longrightarrow> res_Name r = n"
  by (auto simp: ByName_Inr dest: first_where_Some)

lemma QueueEntryByID_id: "QueueEntryByID i d = Inr e \<Longrightarrow> qe_ID e = i"
  by (auto simp: QueueEntryByID_Inr dest: first_where_Some)

lemma LeaseByID_id: "LeaseByID i d = Inr l \<Longrightarrow> lease_ID l = i"
  by (auto simp: LeaseByID_Inr dest: first_where_Some)

text \<open>The queue in service order is a permutation of the waiting rows, sorted by rank.\<close>

lemma set_waiting_rows: "set (waiting_rows r d) = {e \<in> set (queue_entries d). waits_for r e}"
  by (auto simp: waiting_rows_def)

lemma sorted_waiting_rows: "sorted (map rank_of (waiting_rows r d))"
  by (simp add: waiting_rows_def)

lemma waiting_rows_head:
  "waiting_rows r d = e # es \<Longrightarrow> e \<in> set (queue_entries d) \<and> waits_for r e \<and>
     (\<forall>e' \<in> set (queue_entries d). waits_for r e' \<longrightarrow> rank_of e \<le> rank_of e')"
  unfolding waiting_rows_def
  by (auto dest: sort_key_head_in sort_key_head_le)

subsection \<open>The clock only moves forward\<close>

definition clock_forward :: "world \<Rightarrow> world \<Rightarrow> bool" where
  "clock_forward w w' \<longleftrightarrow> w_clock w' = w_clock w \<and> w_ticks w \<le> w_ticks w'"

interpretation clock: effect_order clock_forward
  by unfold_locales (auto simp: clock_forward_def)

lemma clock_now: "conforms clock_forward now"
  by (simp add: conforms_def clock_forward_def)

lemma clock_newID: "conforms clock_forward (newID k)"
  by (simp add: conforms_def clock_forward_def newID_def split: prod.split)

lemma clock_query: "conforms clock_forward (query q)"
  by (simp add: conforms_def clock_forward_def)

lemma clock_exec: "conforms clock_forward (exec x)"
  by (simp add: conforms_def clock_forward_def exec_def split: sum.split)

lemma clock_transaction: "conforms clock_forward fn \<Longrightarrow> conforms clock_forward (transaction fn)"
  by (auto simp: conforms_def clock_forward_def InTransaction_def split: prod.splits sum.splits)
     (metis snd_conv)+

lemma clock_signals:
  "conforms clock_forward (watch_resource r)" "conforms clock_forward (signal_resource r)"
  "conforms clock_forward signal_every_resource"
  by (simp_all add: conforms_def clock_forward_def watch_resource_def signal_resource_def
      signal_every_resource_def split: prod.split)

lemmas clock_intros = clock.resp_intros clock_now clock_newID clock_query clock_exec
  clock_transaction clock_signals

lemma clock_forward_time: "mono (w_clock w) \<Longrightarrow> clock_forward w w' \<Longrightarrow> time_of w \<le> time_of w'"
  by (auto simp: clock_forward_def time_of_def dest: monoD)

lemma clock_audit: "conforms clock_forward (audit a b c e)"
  by (auto simp: audit_def intro!: clock_intros)

lemma clock_audit_in: "conforms clock_forward (audit_in a b c e t)"
  by (auto simp: audit_in_def intro!: clock_intros)

subsection \<open>Granting\<close>

definition slots_held :: "string \<Rightarrow> int \<Rightarrow> db \<Rightarrow> nat" where
  "slots_held resource us d = count_where (holds_slot resource us) (leases d)"

definition capacity_of :: "string \<Rightarrow> db \<Rightarrow> int option" where
  "capacity_of resource d =
     map_option resources_capacity (first_where (\<lambda>r. resources_name r = resource) (resources d))"

text \<open>The lease a grant creates, and the database it leaves.\<close>

definition granted_lease :: "QueueEntry \<Rightarrow> string \<Rightarrow> string \<Rightarrow> duration \<Rightarrow> instant \<Rightarrow> Lease" where
  "granted_lease entry metadata leaseID ttl at =
     \<lparr>lease_ID = leaseID, lease_ResourceName = qe_ResourceName entry,
       lease_AgentID = qe_AgentID entry, lease_QueueEntryID = qe_ID entry,
       lease_AcquiredAt = at, lease_ExpiresAt = at + ttl,
       lease_ReleasedAt = zeroTime, lease_Metadata = metadata\<rparr>"

lemma granted_lease_sel [simp]:
  "lease_ID (granted_lease e m i ttl at) = i"
  "lease_ResourceName (granted_lease e m i ttl at) = qe_ResourceName e"
  "lease_AgentID (granted_lease e m i ttl at) = qe_AgentID e"
  "lease_QueueEntryID (granted_lease e m i ttl at) = qe_ID e"
  "lease_AcquiredAt (granted_lease e m i ttl at) = at"
  "lease_ExpiresAt (granted_lease e m i ttl at) = at + ttl"
  "lease_ReleasedAt (granted_lease e m i ttl at) = zeroTime"
  by (simp_all add: granted_lease_def)

lemma grant_lease_Inr:
  assumes "grant_lease entry metadata resource at w = (Inr r, w')"
  obtains i where
    "r = Some (granted_lease (entry\<lparr>qe_ResourceName := res_Name resource\<rparr>) metadata i
       (res_LeaseTimeToLive resource) at)"
    "0 < res_LeaseTimeToLive resource"
    "\<not> lease_exists (w_db w) i"
    "leases (w_db w') = leases (w_db w) @ [lease_row_of (the r)]"
    "exists_where (waits_as (qe_ID entry)) (queue_entries (w_db w))"
    "queue_entries (w_db w') = update_where (waits_as (qe_ID entry))
       (\<lambda>r. r\<lparr>queue_entries_state := QueueGranted,
              queue_entries_resolved_at := Some (requireMicros at)\<rparr>) (queue_entries (w_db w))"
    "resources (w_db w') = resources (w_db w)"
    "w_ticks w' = w_ticks w" "w_clock w' = w_clock w"
  using assms
  by (auto simp: grant_lease_def bindE_Inr newID_def Let_def exec_Inr CreateLease_Inr Resolve_Inr
      audit_in_def Audit_Append_Inr granted_lease_def split: prod.splits)

text \<open>The decision to grant, branch by branch.\<close>

lemma grant_body_eq:
  "grant_body entry metadata w =
     (case first_where (\<lambda>r. queue_entries_id r = qe_ID entry) (queue_entries (w_db w)) of
        None \<Rightarrow> (Inl ErrNotFound, w)
      | Some row \<Rightarrow>
         if queue_entries_state row \<noteq> QueueWaiting then (Inl ErrConflict, w)
         else (case first_where (\<lambda>r. resources_name r = qe_ResourceName entry) (resources (w_db w)) of
            None \<Rightarrow> (Inl ErrNotFound, w)
          | Some res \<Rightarrow>
             (let v = w\<lparr>w_ticks := Suc (w_ticks w)\<rparr> in
              if resources_capacity res \<le>
                   int (slots_held (qe_ResourceName entry) (requireMicros (time_of w)) (w_db w))
              then (Inr None, v)
              else if \<not> at_head entry (map scanQueueEntry (waiting_rows (qe_ResourceName entry) (w_db w)))
              then (Inr None, v)
              else grant_lease entry metadata (scanResource res) (time_of w) v)))"
proof (cases "first_where (\<lambda>r. resources_name r = qe_ResourceName entry) (resources (w_db w))")
  case None
  then show ?thesis
    by (auto simp: grant_body_def bindE_apply QueueEntryByID_def Resources_ByName_def fetch_def translateError_def
        split: option.split)
next
  case (Some res)
  then have "resources_name res = qe_ResourceName entry" by (auto dest: first_where_Some)
  with Some show ?thesis
    by (auto simp: grant_body_def bindE_apply QueueEntryByID_def Resources_ByName_def fetch_def translateError_def
        CountActiveLeases_def Waiting_def slots_held_def Let_def split: option.split)
qed

lemma at_head_rows:
  "at_head entry (map scanQueueEntry rows) \<longleftrightarrow>
     (\<exists>first rest. rows = first # rest \<and> queue_entries_id first = qe_ID entry)"
  by (cases rows) (simp_all add: at_head_def)

lemma grant_body_Inr:
  assumes "grant_body entry metadata w = (Inr r, w')"
  obtains (wait) "r = None" "w' = w\<lparr>w_ticks := Suc (w_ticks w)\<rparr>"
  | (grant) row res first rest where
    "first_where (\<lambda>r. queue_entries_id r = qe_ID entry) (queue_entries (w_db w)) = Some row"
    "queue_entries_state row = QueueWaiting"
    "first_where (\<lambda>r. resources_name r = qe_ResourceName entry) (resources (w_db w)) = Some res"
    "resources_name res = qe_ResourceName entry"
    "int (slots_held (qe_ResourceName entry) (requireMicros (time_of w)) (w_db w)) < resources_capacity res"
    "waiting_rows (qe_ResourceName entry) (w_db w) = first # rest"
    "queue_entries_id first = qe_ID entry"
    "grant_lease entry metadata (scanResource res) (time_of w) (w\<lparr>w_ticks := Suc (w_ticks w)\<rparr>) = (Inr r, w')"
  using assms unfolding grant_body_eq at_head_rows Let_def
  by (auto split: option.splits if_splits dest: first_where_Some)

end
