(* ===== verification/LeasingSystem.thy ===== *)
theory LeasingSystem
  imports LeasingFacts
begin

section \<open>The leasing service as a running system\<close>

text \<open>
  The operations of \<open>Leasing\<close> interleaved with one another and with the rest of the daemon, as an
  inductive relation, and the invariants every reachable state has. Three preorders on databases
  carry the proofs: what closing operations do (\<open>frees\<close>), what any leasing operation may do to
  the history (\<open>history_kept\<close>), and the growth of the audit log.
\<close>

subsection \<open>Closing leases and queue entries\<close>

text \<open>A lease row closes by getting its release instant, a queue row by being cancelled or
  expired; a row already closed stays as it is.\<close>

definition lease_closes :: "leases_row \<Rightarrow> leases_row \<Rightarrow> bool" where
  "lease_closes r r' \<longleftrightarrow> r' = r \<or>
     (leases_released_at r = None \<and> leases_released_at r' \<noteq> None \<and>
      r' = r\<lparr>leases_released_at := leases_released_at r'\<rparr>)"

definition entry_closes :: "queue_entries_row \<Rightarrow> queue_entries_row \<Rightarrow> bool" where
  "entry_closes r r' \<longleftrightarrow> r' = r \<or>
     (queue_entries_state r = QueueWaiting \<and>
      queue_entries_state r' \<in> {QueueCancelled, QueueExpired} \<and>
      r' = r\<lparr>queue_entries_state := queue_entries_state r',
             queue_entries_resolved_at := queue_entries_resolved_at r'\<rparr>)"

lemma lease_closes_refl [simp]: "lease_closes r r" by (simp add: lease_closes_def)
lemma entry_closes_refl [simp]: "entry_closes r r" by (simp add: entry_closes_def)

lemma lease_closes_trans: "lease_closes r s \<Longrightarrow> lease_closes s t \<Longrightarrow> lease_closes r t"
  unfolding lease_closes_def by auto

lemma entry_closes_trans: "entry_closes r s \<Longrightarrow> entry_closes s t \<Longrightarrow> entry_closes r t"
  unfolding entry_closes_def by auto

lemma entry_closes_fields:
  assumes "entry_closes r s"
  shows "queue_entries_id s = queue_entries_id r" "queue_entries_resource_name s = queue_entries_resource_name r"
    "queue_entries_agent_id s = queue_entries_agent_id r" "queue_entries_priority s = queue_entries_priority r"
    "queue_entries_requested_at s = queue_entries_requested_at r"
    "queue_entries_state s = QueueGranted \<longleftrightarrow> queue_entries_state r = QueueGranted"
  using assms unfolding entry_closes_def by (cases r; cases s; auto)+

lemma lease_closes_fields:
  assumes "lease_closes r s"
  shows "leases_id s = leases_id r" "leases_resource_name s = leases_resource_name r"
    "leases_agent_id s = leases_agent_id r" "leases_queue_entry_id s = leases_queue_entry_id r"
    "leases_expires_at s = leases_expires_at r"
  using assms unfolding lease_closes_def by (cases r; cases s; auto)+

definition frees :: "db \<Rightarrow> db \<Rightarrow> bool" where
  "frees d d' \<longleftrightarrow> resources d' = resources d \<and>
     evolves_in_place lease_closes (leases d) (leases d') \<and>
     evolves_in_place entry_closes (queue_entries d) (queue_entries d')"

interpretation frees: db_order frees
proof unfold_locales
  show "frees d d" for d by (simp add: frees_def evolves_in_place_refl)
  show "frees d1 d3" if "frees d1 d2" "frees d2 d3" for d1 d2 d3
    using that unfolding frees_def
    by (auto intro: evolves_in_place_trans [OF _ _ lease_closes_trans]
        evolves_in_place_trans [OF _ _ entry_closes_trans])
qed

lemma frees_exec_release: "conforms (db_rel frees) (exec (Leases_Release i at))"
  by (rule frees.conf_exec)
     (auto simp: frees_def Release_Inr lease_closes_def intro!: evolves_in_place_update evolves_in_place_refl)

lemma frees_exec_resolve:
  "st \<in> {QueueCancelled, QueueExpired} \<Longrightarrow>
     conforms (db_rel frees) (exec (ResolveQueueEntry i st at))"
  by (rule frees.conf_exec)
     (auto simp: frees_def Resolve_Inr entry_closes_def intro!: evolves_in_place_update evolves_in_place_refl)

lemma frees_exec_audit: "conforms (db_rel frees) (exec (Audit_Append e))"
  by (rule frees.conf_exec) (simp add: frees_def Audit_Append_Inr evolves_in_place_refl)

lemma frees_signals: "conforms (db_rel frees) (signal_resource r)" "conforms (db_rel frees) signal_every_resource"
  by (rule frees.conf_same_db; simp add: signal_resource_def signal_every_resource_def)+

lemmas frees_intros = frees.conf_intros frees_exec_release frees_exec_resolve frees_exec_audit frees_signals

lemma frees_release: "conforms (db_rel frees) (release a i f)"
  unfolding release_def Let_def audit_in_def by (auto intro!: frees_intros)

lemma frees_cancel: "conforms (db_rel frees) (cancel a i f)"
  unfolding cancel_def Let_def audit_in_def by (auto intro!: frees_intros)

lemma frees_ReleaseEverything: "conforms (db_rel frees) (ReleaseEverythingHeldBy a i f)"
  unfolding ReleaseEverythingHeldBy_def release_logged_def Let_def audit_in_def by (auto intro!: frees_intros)

lemma frees_FreeResource: "conforms (db_rel frees) (FreeResource a i)"
  unfolding FreeResource_def Let_def audit_in_def by (auto intro!: frees_intros)

lemma frees_ClearQueue: "conforms (db_rel frees) (ClearQueue a i)"
  unfolding ClearQueue_def Let_def audit_in_def by (auto intro!: frees_intros)

lemma frees_ReapExpired: "conforms (db_rel frees) ReapExpired"
  unfolding ReapExpired_def release_logged_def Let_def audit_in_def by (auto intro!: frees_intros)

lemma frees_abandon: "conforms (db_rel frees) (abandon e c)"
  unfolding abandon_def Let_def by (auto intro!: frees_intros)

lemmas frees_ops = frees_release frees_cancel frees_ReleaseEverything frees_FreeResource frees_ClearQueue
  frees_ReapExpired frees_abandon

subsection \<open>What no leasing operation ever undoes\<close>

text \<open>Queue entries are resolved once and then never change; a lease keeps its identity, and once
  released it never changes; no row is deleted; the audit log is only appended to.\<close>

definition entry_evolves :: "queue_entries_row \<Rightarrow> queue_entries_row \<Rightarrow> bool" where
  "entry_evolves r r' \<longleftrightarrow> r' = r \<or>
     (queue_entries_state r = QueueWaiting \<and> Terminal (queue_entries_state r') \<and>
      r' = r\<lparr>queue_entries_state := queue_entries_state r',
             queue_entries_resolved_at := queue_entries_resolved_at r'\<rparr>)"

definition lease_evolves :: "leases_row \<Rightarrow> leases_row \<Rightarrow> bool" where
  "lease_evolves r r' \<longleftrightarrow>
     r' = r\<lparr>leases_expires_at := leases_expires_at r', leases_released_at := leases_released_at r'\<rparr> \<and>
     (leases_released_at r \<noteq> None \<longrightarrow> r' = r)"

lemma entry_evolves_refl [simp]: "entry_evolves r r" by (simp add: entry_evolves_def)
lemma lease_evolves_refl [simp]: "lease_evolves r r" by (simp add: lease_evolves_def)

lemma entry_evolves_trans: "entry_evolves r s \<Longrightarrow> entry_evolves s t \<Longrightarrow> entry_evolves r t"
  unfolding entry_evolves_def by (auto simp: Terminal_def)

lemma lease_evolves_trans:
  assumes "lease_evolves r s" and "lease_evolves s t"
  shows "lease_evolves r t"
  using assms unfolding lease_evolves_def by (cases r; cases s; cases t) auto

definition history_kept :: "db \<Rightarrow> db \<Rightarrow> bool" where
  "history_kept d d' \<longleftrightarrow>
     evolves entry_evolves (queue_entries d) (queue_entries d') \<and>
     evolves lease_evolves (leases d) (leases d') \<and>
     (\<exists>new. audit_log d' = audit_log d @ new)"

interpretation history: db_order history_kept
proof unfold_locales
  show "history_kept d d" for d by (simp add: history_kept_def evolves_refl)
  show "history_kept d1 d3" if "history_kept d1 d2" "history_kept d2 d3" for d1 d2 d3
    using that unfolding history_kept_def
    by (auto intro: evolves_trans [OF _ _ lease_evolves_trans] evolves_trans [OF _ _ entry_evolves_trans])
qed

lemma history_exec_release: "conforms (db_rel history_kept) (exec (Leases_Release i at))"
  by (rule history.conf_exec)
     (auto simp: history_kept_def Release_Inr lease_evolves_def intro!: evolves_update evolves_refl)

lemma history_exec_renew: "conforms (db_rel history_kept) (exec (Leases_Renew i ex at))"
  by (rule history.conf_exec)
     (auto simp: history_kept_def Renew_Inr lease_evolves_def holds_at_def intro!: evolves_update evolves_refl)

lemma history_exec_resolve: "conforms (db_rel history_kept) (exec (ResolveQueueEntry i st at))"
  by (rule history.conf_exec)
     (auto simp: history_kept_def Resolve_Inr entry_evolves_def intro!: evolves_update evolves_refl)

lemma history_exec_audit: "conforms (db_rel history_kept) (exec (Audit_Append e))"
  by (rule history.conf_exec) (simp add: history_kept_def Audit_Append_Inr evolves_refl)

lemma history_exec_create: "conforms (db_rel history_kept) (exec (CreateLease l))"
  by (rule history.conf_exec) (auto simp: history_kept_def CreateLease_Inr intro: evolves_refl evolves_append)

lemma history_exec_enqueue: "conforms (db_rel history_kept) (exec (Enqueue e))"
  by (rule history.conf_exec) (auto simp: history_kept_def Enqueue_Inr intro: evolves_refl evolves_append)

lemma Define_audit_log: "Resources_Define wall r d = Inr d' \<Longrightarrow> audit_log d' = audit_log d"
  by (auto simp: Resources_Define_def Let_def translated_constrained split: sum.splits if_splits)

lemma history_exec_define: "conforms (db_rel history_kept) (\<lambda>w. exec (Resources_Define (time_of w) r) w)"
  by (rule conformsI)
     (auto simp: db_rel_def exec_def history_kept_def Define_Inr Define_audit_log evolves_refl split: sum.splits)

lemma history_signals: "conforms (db_rel history_kept) (signal_resource r)"
    "conforms (db_rel history_kept) signal_every_resource"
  by (rule history.conf_same_db; simp add: signal_resource_def signal_every_resource_def)+

lemmas history_intros = history.conf_intros history_exec_release history_exec_renew history_exec_resolve
  history_exec_audit history_exec_create history_exec_enqueue history_exec_define history_signals

lemma history_ops:
  "conforms (db_rel history_kept) (release a i f)"
  "conforms (db_rel history_kept) (cancel a i f)"
  "conforms (db_rel history_kept) (ReleaseEverythingHeldBy a i g)"
  "conforms (db_rel history_kept) (FreeResource a i)"
  "conforms (db_rel history_kept) (ClearQueue a i)"
  "conforms (db_rel history_kept) ReapExpired"
  "conforms (db_rel history_kept) (abandon e c)"
  "conforms (db_rel history_kept) (Renew a i)"
  "conforms (db_rel history_kept) (joinQueue rq)"
  "conforms (db_rel history_kept) (tryGrant e m)"
  "conforms (db_rel history_kept) (Define ttl a r)"
  unfolding release_def cancel_def ReleaseEverythingHeldBy_def FreeResource_def ClearQueue_def
    ReapExpired_def abandon_def Renew_def joinQueue_def tryGrant_def grant_body_def grant_lease_def
    Define_def release_logged_def audit_in_def audit_def Let_def
  by (auto intro!: history_intros)

lemma clock_exec_define: "conforms clock_forward (\<lambda>w. exec (Resources_Define (time_of w) r) w)"
  by (simp add: conforms_def clock_forward_def exec_def split: sum.split)

lemma clock_ops:
  "conforms clock_forward (release a i f)"
  "conforms clock_forward (cancel a i f)"
  "conforms clock_forward (ReleaseEverythingHeldBy a i g)"
  "conforms clock_forward (FreeResource a i)"
  "conforms clock_forward (ClearQueue a i)"
  "conforms clock_forward ReapExpired"
  "conforms clock_forward (abandon e c)"
  "conforms clock_forward (Renew a i)"
  "conforms clock_forward (joinQueue rq)"
  "conforms clock_forward (tryGrant e m)"
  "conforms clock_forward (Define ttl a r)"
  unfolding release_def cancel_def ReleaseEverythingHeldBy_def FreeResource_def ClearQueue_def
    ReapExpired_def abandon_def Renew_def joinQueue_def tryGrant_def grant_body_def grant_lease_def
    Define_def release_logged_def audit_in_def audit_def Let_def
  by (auto intro!: clock_intros clock_exec_define)

subsection \<open>Runs\<close>

text \<open>What the rest of the daemon does between two steps of the leasing service.\<close>

definition apart :: "world \<Rightarrow> world \<Rightarrow> bool" where
  "apart w w' \<longleftrightarrow> clock_forward w w' \<and>
     queue_entries (w_db w') = queue_entries (w_db w) \<and> leases (w_db w') = leases (w_db w) \<and>
     resources (w_db w') = resources (w_db w) \<and>
     (\<exists>new. audit_log (w_db w') = audit_log (w_db w) @ new)"

text \<open>\<open>lease_run ttl w0 defs es w\<close>: from \<open>w0\<close> the daemon reaches \<open>w\<close>; \<open>defs\<close> are the definitions
  that succeeded, \<open>es\<close> the entries that callers of \<open>Acquire\<close> have in memory.\<close>

inductive lease_run :: "duration \<Rightarrow> world \<Rightarrow> Resource list \<Rightarrow> QueueEntry list \<Rightarrow> world \<Rightarrow> bool"
  for ttl :: duration and w0 :: world where
  start: "lease_run ttl w0 [] [] w0"
| elsewhere: "lease_run ttl w0 defs es w \<Longrightarrow> apart w w' \<Longrightarrow> lease_run ttl w0 defs es w'"
| define_ok: "lease_run ttl w0 defs es w \<Longrightarrow> Define ttl actor r w = (Inr u, w') \<Longrightarrow>
    lease_run ttl w0 (r # defs) es w'"
| define_err: "lease_run ttl w0 defs es w \<Longrightarrow> Define ttl actor r w = (Inl e, w') \<Longrightarrow>
    lease_run ttl w0 defs es w'"
| join_ok: "lease_run ttl w0 defs es w \<Longrightarrow> joinQueue rq w = (Inr (r, entry), w') \<Longrightarrow>
    lease_run ttl w0 defs (entry # es) w'"
| join_err: "lease_run ttl w0 defs es w \<Longrightarrow> joinQueue rq w = (Inl e, w') \<Longrightarrow>
    lease_run ttl w0 defs es w'"
| look: "lease_run ttl w0 defs es w \<Longrightarrow> entry \<in> set es \<Longrightarrow>
    lease_run ttl w0 defs es (snd (tryGrant entry metadata w))"
| give_up: "lease_run ttl w0 defs es w \<Longrightarrow> entry \<in> set es \<Longrightarrow>
    lease_run ttl w0 defs es (snd (abandon entry cause w))"
| renew: "lease_run ttl w0 defs es w \<Longrightarrow> lease_run ttl w0 defs es (snd (Renew agent leaseID w))"
| give_back: "lease_run ttl w0 defs es w \<Longrightarrow> lease_run ttl w0 defs es (snd (release agent leaseID force w))"
| withdraw: "lease_run ttl w0 defs es w \<Longrightarrow> lease_run ttl w0 defs es (snd (cancel agent entryID force w))"
| agent_gone: "lease_run ttl w0 defs es w \<Longrightarrow>
    lease_run ttl w0 defs es (snd (ReleaseEverythingHeldBy actor agent reason w))"
| free: "lease_run ttl w0 defs es w \<Longrightarrow> lease_run ttl w0 defs es (snd (FreeResource actor name w))"
| clear: "lease_run ttl w0 defs es w \<Longrightarrow> lease_run ttl w0 defs es (snd (ClearQueue actor name w))"
| reap: "lease_run ttl w0 defs es w \<Longrightarrow> lease_run ttl w0 defs es (snd (ReapExpired w))"

subsection \<open>What each step does to the three tables\<close>

definition same_tables :: "db \<Rightarrow> db \<Rightarrow> bool" where
  "same_tables d d' \<longleftrightarrow> resources d' = resources d \<and> leases d' = leases d \<and> queue_entries d' = queue_entries d"

interpretation same: db_order same_tables
  by unfold_locales (auto simp: same_tables_def)

lemma same_audit: "conforms (db_rel same_tables) (audit a b c e)"
proof -
  have "conforms (db_rel same_tables) (exec (Audit_Append en))" for en
    by (rule same.conf_exec) (simp add: same_tables_def Audit_Append_Inr)
  then show ?thesis unfolding audit_def by (auto intro!: same.conf_intros)
qed

lemma signal_resource_Inr: "signal_resource r w = (Inr u, w') \<longleftrightarrow> w' = snd (signal_resource r w)"
  by (auto simp: signal_resource_def)

lemma signal_resource_db [simp]: "w_db (snd (signal_resource r w)) = w_db w"
  "w_clock (snd (signal_resource r w)) = w_clock w" "w_ticks (snd (signal_resource r w)) = w_ticks w"
  by (simp_all add: signal_resource_def)

lemma Define_ok_effect:
  assumes "Define ttl actor r w = (Inr u, w')"
  shows "leases (w_db w') = leases (w_db w)" "queue_entries (w_db w') = queue_entries (w_db w)"
    "\<And>row. row \<in> set (resources (w_db w')) \<Longrightarrow> row \<notin> set (resources (w_db w)) \<Longrightarrow>
       resources_name row = res_Name r \<and> resources_capacity row = res_Capacity r"
proof -
  let ?r = "if res_LeaseTimeToLive r \<le> 0 then r\<lparr>res_LeaseTimeToLive := ttl\<rparr> else r"
  let ?pre = "if IsZero (res_CreatedAt ?r) then bindE now (\<lambda>at. returnE (?r\<lparr>res_CreatedAt := at\<rparr>)) else returnE ?r"
  from assms obtain r' v1 v2 v3 where pre: "?pre w = (Inr r', v1)"
    and x: "exec (Resources_Define (time_of v1) r') v1 = (Inr (), v2)"
    and a: "audit actor AuditResourceDefined (res_Name r') (''capacity='' @ itoa (res_Capacity r') @
      '' ttl='' @ FormatDuration (res_LeaseTimeToLive r')) v2 = (Inr (), v3)"
    and w': "w' = snd (signal_resource (res_Name r') v3)"
    unfolding Define_def Let_def by (auto simp: bindE_Inr signal_resource_Inr)
  from pre have r': "res_Name r' = res_Name r" "res_Capacity r' = res_Capacity r" "w_db v1 = w_db w"
    by (auto split: if_splits)
  with x obtain d where d: "Resources_Define (time_of v1) r' (w_db w) = Inr d" and "w_db v2 = d"
    by (auto simp: exec_Inr)
  with conformsD [OF same_audit a] w' have same: "same_tables d (w_db w')" by (simp add: db_rel_def)
  from same Define_Inr(4,5) [OF d] show "leases (w_db w') = leases (w_db w)"
    "queue_entries (w_db w') = queue_entries (w_db w)" by (simp_all add: same_tables_def)
  fix row assume "row \<in> set (resources (w_db w'))" "row \<notin> set (resources (w_db w))"
  with same Define_Inr(8) [OF d] r' show "resources_name row = res_Name r \<and> resources_capacity row = res_Capacity r"
    by (auto simp: same_tables_def resource_row_of_def set_update_where split: if_splits)
qed

lemma audit_not_Inl [simp]: "audit a b c e w \<noteq> (Inl er, w')"
  by (simp add: audit_def bindE_apply attemptE_apply split: prod.split)

lemma signal_not_Inl [simp]: "signal_resource r w \<noteq> (Inl er, w')" "signal_every_resource w \<noteq> (Inl er, w')"
  by (simp_all add: signal_resource_def signal_every_resource_def)

lemma Define_err_effect: "Define ttl actor r w = (Inl e, w') \<Longrightarrow> w_db w' = w_db w"
  by (auto simp: Define_def Let_def bindE_Inl exec_Inl split: if_splits)

lemma joinQueue_ok_effect:
  assumes "joinQueue rq w = (Inr (r, entry), w')"
  shows "\<exists>d. Enqueue entry (w_db w) = Inr d \<and> same_tables d (w_db w') \<and>
     qe_State entry = QueueWaiting \<and> qe_RequestedAt entry = time_of w \<and>
     qe_AgentID entry = aq_AgentID rq \<and> qe_Priority entry = aq_Priority rq \<and>
     qe_ResourceName entry = aq_ResourceName rq \<and>
     Resources_ByName (aq_ResourceName rq) (w_db w) = Inr r"
proof -
  from assms obtain i v v' v'' where e: "Resources_ByName (aq_ResourceName rq) (w_db w) = Inr r"
    and v: "newID ''queue'' w = (Inr i, v)"
    and entry: "entry = \<lparr>qe_ID = i, qe_ResourceName = res_Name r,
           qe_AgentID = aq_AgentID rq, qe_Priority = aq_Priority rq,
           qe_Reason = aq_Reason rq, qe_State = QueueWaiting, qe_RequestedAt = time_of v,
           qe_ResolvedAt = zeroTime\<rparr>"
    and x: "exec (Enqueue entry) (v\<lparr>w_ticks := Suc (w_ticks v)\<rparr>) = (Inr (), v')"
    and a: "audit (aq_AgentID rq) AuditQueueJoined (res_Name r) (aq_Reason rq) v' = (Inr (), w')"
    unfolding joinQueue_def Let_def by (auto simp: bindE_Inr)
  have "w_db v = w_db w" "time_of v = time_of w"
    using v by (auto simp: newID_def time_of_def split: prod.splits)
  with x obtain d where "Enqueue entry (w_db w) = Inr d" "w_db v' = d"
    by (auto simp: exec_Inr)
  with conformsD [OF same_audit a] e entry \<open>time_of v = time_of w\<close> show ?thesis
    by (auto simp: db_rel_def time_of_def ByName_name)
qed

lemma joinQueue_err_effect: "joinQueue rq w = (Inl e, w') \<Longrightarrow> w_db w' = w_db w"
  by (auto simp: joinQueue_def Let_def bindE_Inl exec_Inl newID_def split: prod.splits)

lemma tryGrant_cases:
  assumes "tryGrant entry metadata w = (res, w')"
  obtains (err) e where "res = Inl e" "w_db w' = w_db w"
  | (wait) "res = Inr None" "w_db w' = w_db w"
  | (grant) lease v where "res = Inr (Some lease)"
      "grant_body entry metadata w = (Inr (Some lease), v)" "w' = snd (signal_resource (qe_ResourceName entry) v)"
proof -
  obtain o1 v1 where t: "transaction (grant_body entry metadata) w = (o1, v1)" by (rule prod.exhaust)
  have "tryGrant entry metadata w = (case o1 of Inl e \<Rightarrow> (Inl e, v1) | Inr None \<Rightarrow> (Inr None, v1)
      | Inr (Some l) \<Rightarrow> (Inr (Some l), snd (signal_resource (qe_ResourceName entry) v1)))"
    using t by (cases o1) (auto simp: tryGrant_def bindE_apply signal_resource_def split: option.split)
  with assms t consider (e) e where "res = Inl e" "transaction (grant_body entry metadata) w = (Inl e, w')"
    | (n) "res = Inr None" "transaction (grant_body entry metadata) w = (Inr None, w')"
    | (g) lease v where "res = Inr (Some lease)" "grant_body entry metadata w = (Inr (Some lease), v)"
       "w' = snd (signal_resource (qe_ResourceName entry) v)"
    by (auto simp: transaction_Inr split: sum.splits option.splits)
  then show thesis
  proof cases
    case e
    then show thesis using err by (auto simp: transaction_Inl)
  next
    case n
    then show thesis using wait by (auto simp: transaction_Inr elim!: grant_body_Inr grant_lease_Inr)
  next
    case g
    then show thesis by (rule grant)
  qed
qed

lemma Renew_cases:
  assumes "Renew agent i w = (res, w')"
  obtains (err) e where "res = Inl e" "w_db w' = w_db w"
  | (ok) lease r where "LeaseByID i (w_db w) = Inr lease" "lease_AgentID lease = agent"
      "Resources_ByName (lease_ResourceName lease) (w_db w) = Inr r"
      "res = Inr (lease\<lparr>lease_ExpiresAt := time_of w + res_LeaseTimeToLive r\<rparr>)"
      "\<exists>row \<in> set (leases (w_db w)). leases_id row = i \<and> holds_at (requireMicros (time_of w)) row"
      "leases (w_db w') = update_where (\<lambda>r. leases_id r = i \<and> holds_at (requireMicros (time_of w)) r)
         (\<lambda>row. row\<lparr>leases_expires_at := requireMicros (time_of w + res_LeaseTimeToLive r)\<rparr>) (leases (w_db w))"
      "queue_entries (w_db w') = queue_entries (w_db w)" "resources (w_db w') = resources (w_db w)"
proof (cases res)
  case (Inl e)
  with assms show thesis using err by (auto simp: Renew_def transaction_Inl)
next
  case (Inr l)
  with assms have "Renew agent i w = (Inr l, w')" by simp
  then obtain lease r d1 d2 where
    l: "LeaseByID i (w_db w) = Inr lease" "lease_AgentID lease = agent"
      "Resources_ByName (lease_ResourceName lease) (w_db w) = Inr r"
    and res: "l = lease\<lparr>lease_ExpiresAt := time_of w + res_LeaseTimeToLive r\<rparr>"
    and d1: "Leases_Renew i (time_of w + res_LeaseTimeToLive r) (time_of w) (w_db w) = Inr d1"
    and d2: "Audit_Append (entry_of agent AuditLeaseRenewed (lease_ResourceName lease) (''lease '' @ i) (time_of w)) d1 = Inr d2"
    and w': "w_db w' = d2"
    unfolding Renew_def Let_def transaction_Inr audit_in_def
    by (auto simp: bindE_Inr exec_Inr split: if_splits)
  show thesis
    by (rule ok [OF l]) (use Inr res d1 Audit_Append_frame [OF d2] w' in \<open>auto simp: Renew_Inr exists_where_iff\<close>)
qed

text \<open>The shape of every induction over runs: a step that changes a table defines a resource, joins
  a queue, grants a slot, renews a lease or closes leases and entries.\<close>

lemma conforms_snd: "conforms R m \<Longrightarrow> R w (snd (m w))"
  by (simp add: conforms_def)

lemma lease_run_kinds [consumes 1, case_names start quiet redefines joins grants renews closes]:
  assumes run: "lease_run ttl w0 defs es w"
    and start: "P [] [] w0"
    and quiet: "\<And>defs es w w'. lease_run ttl w0 defs es w \<Longrightarrow> P defs es w \<Longrightarrow> clock_forward w w' \<Longrightarrow>
      same_tables (w_db w) (w_db w') \<Longrightarrow> P defs es w'"
    and redefines: "\<And>defs es w w' actor r. lease_run ttl w0 defs es w \<Longrightarrow> P defs es w \<Longrightarrow> clock_forward w w' \<Longrightarrow>
      Define ttl actor r w = (Inr (), w') \<Longrightarrow> P (r # defs) es w'"
    and joins: "\<And>defs es w w' rq r entry. lease_run ttl w0 defs es w \<Longrightarrow> P defs es w \<Longrightarrow> clock_forward w w' \<Longrightarrow>
      joinQueue rq w = (Inr (r, entry), w') \<Longrightarrow> P defs (entry # es) w'"
    and grants: "\<And>defs es w w' v entry metadata lease. lease_run ttl w0 defs es w \<Longrightarrow> P defs es w \<Longrightarrow> clock_forward w w' \<Longrightarrow>
      entry \<in> set es \<Longrightarrow> grant_body entry metadata w = (Inr (Some lease), v) \<Longrightarrow> w_db w' = w_db v \<Longrightarrow>
      P defs es w'"
    and renews: "\<And>defs es w w' agent i l. lease_run ttl w0 defs es w \<Longrightarrow> P defs es w \<Longrightarrow> clock_forward w w' \<Longrightarrow>
      Renew agent i w = (Inr l, w') \<Longrightarrow> P defs es w'"
    and closes: "\<And>defs es w w'. lease_run ttl w0 defs es w \<Longrightarrow> P defs es w \<Longrightarrow> clock_forward w w' \<Longrightarrow>
      frees (w_db w) (w_db w') \<Longrightarrow> P defs es w'"
  shows "P defs es w"
proof -
  note forward = clock_ops [THEN conforms_snd]
  note freed = frees_ops [THEN conforms_snd, unfolded db_rel_def]
  have unchanged: "P defs es w'" if "lease_run ttl w0 defs es w" "P defs es w" "clock_forward w w'" "w_db w' = w_db w" for defs es w w'
    using that by (auto intro: quiet simp: same_tables_def)
  from run show ?thesis
  proof induction
    case (look defs es w entry metadata)
    obtain res w' where t: "tryGrant entry metadata w = (res, w')" by (rule prod.exhaust)
    have f: "clock_forward w w'" using forward(10) [of w entry metadata] t by simp
    from t show ?case
      by (cases rule: tryGrant_cases) (use look t f in \<open>auto intro: unchanged grants\<close>)
  next
    case (renew defs es w agent i)
    obtain res w' where t: "Renew agent i w = (res, w')" by (rule prod.exhaust)
    have f: "clock_forward w w'" using forward(8) [of w agent i] t by simp
    show ?case
    proof (cases res)
      case (Inl e)
      with t have "w_db w' = w_db w" by (auto elim: Renew_cases)
      with renew t f show ?thesis by (auto intro: unchanged)
    next
      case (Inr l)
      with renew t f show ?thesis by (auto intro: renews)
    qed
  next
    case start
    show ?case by (rule assms(2))
  next
    case (elsewhere defs es w w')
    then show ?case by (auto simp: apart_def same_tables_def intro: quiet)
  next
    case (define_ok defs es w actor r u w')
    then show ?case using redefines conformsD [OF clock_ops(11) define_ok.hyps(2)] by simp
  next
    case (define_err defs es w actor r e w')
    then show ?case using unchanged Define_err_effect conformsD [OF clock_ops(11) define_err.hyps(2)] by simp
  next
    case (join_ok defs es w rq r entry w')
    then show ?case using joins conformsD [OF clock_ops(9) join_ok.hyps(2)] by simp
  next
    case (join_err defs es w rq e w')
    then show ?case using unchanged joinQueue_err_effect conformsD [OF clock_ops(9) join_err.hyps(2)] by simp
  qed (rule closes, assumption, assumption, rule forward, rule freed)+
qed

subsection \<open>Capacity\<close>

definition no_leasing_yet :: "world \<Rightarrow> bool" where
  "no_leasing_yet w \<longleftrightarrow> resources (w_db w) = [] \<and> leases (w_db w) = [] \<and> queue_entries (w_db w) = []"

lemma run_clock: "lease_run ttl w0 defs es w \<Longrightarrow> clock_forward w0 w"
  by (induction rule: lease_run_kinds) (auto intro: clock.R_refl clock.R_trans)

lemma clock_forward_micros:
  "mono (w_clock w0) \<Longrightarrow> clock_forward w0 w \<Longrightarrow> clock_forward w w' \<Longrightarrow>
     requireMicros (time_of w) \<le> requireMicros (time_of w')"
  by (intro requireMicros_mono clock_forward_time) (auto simp: clock_forward_def)

lemma slots_held_later: "us \<le> us' \<Longrightarrow> slots_held r us' d \<le> slots_held r us d"
  unfolding slots_held_def by (rule count_where_mono) (auto simp: holds_slot_def holds_at_def)

lemma slots_held_frees: "frees d d' \<Longrightarrow> slots_held r us d' \<le> slots_held r us d"
  unfolding slots_held_def frees_def
  by (auto elim!: evolves_in_place_count simp: holds_slot_def holds_at_def lease_closes_def)

lemma slots_held_same: "same_tables d d' \<Longrightarrow> slots_held r us d' = slots_held r us d"
  by (simp add: same_tables_def slots_held_def)

lemma slots_held_renew:
  assumes "Renew agent i w = (Inr l, w')" and "requireMicros (time_of w) \<le> us"
  shows "slots_held r us (w_db w') \<le> slots_held r (requireMicros (time_of w)) (w_db w)"
  using assms unfolding slots_held_def
  by (auto elim!: Renew_cases intro!: count_where_update_le simp: holds_slot_def holds_at_def split: if_splits)

lemma slots_held_grant:
  assumes "grant_body entry metadata w = (Inr (Some lease), v)"
  shows "slots_held r us (w_db v) =
     slots_held r us (w_db w) + (if holds_slot r us (lease_row_of lease) then 1 else 0)"
  using assms by (auto elim!: grant_body_Inr grant_lease_Inr simp: slots_held_def count_where_Cons)

text \<open>Every resource row comes from a definition that succeeded.\<close>

lemma resources_defined:
  assumes "lease_run ttl w0 defs es w" and "no_leasing_yet w0"
  shows "\<forall>row \<in> set (resources (w_db w)). \<exists>r \<in> set defs.
     res_Name r = resources_name row \<and> res_Capacity r = resources_capacity row"
  using assms
proof (induction rule: lease_run_kinds)
  case start
  then show ?case by (simp add: no_leasing_yet_def)
next
  case (quiet defs es w w')
  then show ?case by (simp add: same_tables_def)
next
  case (redefines defs es w w' actor r)
  show ?case
  proof
    fix row assume "row \<in> set (resources (w_db w'))"
    with redefines Define_ok_effect(3) [OF redefines(3)]
    show "\<exists>r \<in> set (r # defs). res_Name r = resources_name row \<and> res_Capacity r = resources_capacity row"
      by (metis list.set_intros)
  qed
next
  case (joins defs es w w' rq r entry)
  then show ?case
    by (auto dest!: joinQueue_ok_effect simp: same_tables_def Enqueue_Inr)
next
  case (grants defs es w w' v entry metadata lease)
  then show ?case by (auto elim!: grant_body_Inr grant_lease_Inr)
next
  case (renews defs es w w' agent i l)
  then show ?case by (auto elim!: Renew_cases)
next
  case (closes defs es w w')
  then show ?case by (simp add: frees_def)
qed

lemma slots_held_carry:
  assumes "us \<le> us'" and "slots_held r us' d' \<le> slots_held r us' d" and "int (slots_held r us d) \<le> B"
  shows "int (slots_held r us' d') \<le> B"
  using slots_held_later [OF assms(1), of r d] assms(2,3) by linarith

lemma capacity_bound:
  assumes "lease_run ttl w0 defs es w" and fresh: "no_leasing_yet w0" and mono: "mono (w_clock w0)"
    and "0 \<le> B" and "\<forall>r \<in> set defs. res_Name r = name \<longrightarrow> res_Capacity r \<le> B"
  shows "int (slots_held name (requireMicros (time_of w)) (w_db w)) \<le> B"
  using assms(1,5)
proof (induction rule: lease_run_kinds)
  case start
  from fresh \<open>0 \<le> B\<close> show ?case by (simp add: no_leasing_yet_def slots_held_def)
next
  case (grants defs es w w' v entry metadata lease)
  note time = clock_forward_micros [OF mono run_clock [OF grants(1)] grants(2)]
  let ?us = "requireMicros (time_of w')"
  have before: "slots_held name ?us (w_db w) \<le> slots_held name (requireMicros (time_of w)) (w_db w)"
    by (rule slots_held_later [OF time])
  from grants(4) obtain res where
    res: "res \<in> set (resources (w_db w))" "resources_name res = qe_ResourceName entry"
      "int (slots_held (qe_ResourceName entry) (requireMicros (time_of w)) (w_db w)) < resources_capacity res"
    and lease: "lease_ResourceName lease = qe_ResourceName entry"
    by (cases rule: grant_body_Inr) (auto elim!: grant_lease_Inr dest: first_where_Some)
  from resources_defined [OF grants(1) fresh] res grants(7)
  have "resources_name res = name \<Longrightarrow> resources_capacity res \<le> B" by fastforce
  with res lease before grants(6) grants(7) show ?case
    unfolding grants(5) slots_held_grant [OF grants(4)] by (auto simp: holds_slot_def)
next
  case (redefines defs es w w' actor r)
  note time = clock_forward_micros [OF mono run_clock [OF redefines(1)] redefines(2)]
  show ?case
    by (rule slots_held_carry [OF time _ redefines(4)])
       (use redefines(5) Define_ok_effect(1) [OF redefines(3)] in \<open>simp_all add: slots_held_def\<close>)
next
  case (joins defs es w w' rq r entry)
  note time = clock_forward_micros [OF mono run_clock [OF joins(1)] joins(2)]
  have "leases (w_db w') = leases (w_db w)"
    using joinQueue_ok_effect [OF joins(3)] by (auto simp: same_tables_def Enqueue_Inr)
  then show ?case
    by (intro slots_held_carry [OF time _ joins(4) [OF joins(5)]]) (simp add: slots_held_def)
next
  case (renews defs es w w' agent i l)
  note time = clock_forward_micros [OF mono run_clock [OF renews(1)] renews(2)]
  from slots_held_renew [OF renews(3) time, of name] renews(4) [OF renews(5)] show ?case by linarith
next
  case (quiet defs es w w')
  note time = clock_forward_micros [OF mono run_clock [OF quiet(1)] quiet(2)]
  show ?case
    by (rule slots_held_carry [OF time _ quiet(4) [OF quiet(5)]]) (simp add: slots_held_same [OF quiet(3)])
next
  case (closes defs es w w')
  note time = clock_forward_micros [OF mono run_clock [OF closes(1)] closes(2)]
  show ?case
    by (rule slots_held_carry [OF time slots_held_frees [OF closes(3)] closes(4) [OF closes(5)]])
qed

subsection \<open>Leases and queue entries correspond\<close>

definition identity_of :: "leases_row \<Rightarrow> string \<times> string \<times> string \<times> string option" where
  "identity_of l = (leases_id l, leases_resource_name l, leases_agent_id l, leases_queue_entry_id l)"

definition stands_for :: "QueueEntry \<Rightarrow> queue_entries_row \<Rightarrow> bool" where
  "stands_for entry e \<longleftrightarrow> queue_entries_id e = qe_ID entry \<and> queue_entries_resource_name e = qe_ResourceName entry \<and>
     queue_entries_agent_id e = qe_AgentID entry \<and> queue_entries_priority e = qe_Priority entry"

text \<open>Keys are unique; every lease was granted to exactly one queue entry, of its resource and its
  agent, which is recorded as granted; and every entry recorded as granted has its lease.\<close>

definition linked :: "db \<Rightarrow> bool" where
  "linked d \<longleftrightarrow>
     distinct (map queue_entries_id (queue_entries d)) \<and>
     distinct (map leases_id (leases d)) \<and>
     distinct (map leases_queue_entry_id (leases d)) \<and>
     (\<forall>e \<in> set (queue_entries d). queue_entries_id e \<noteq> []) \<and>
     (\<forall>l \<in> set (leases d). \<exists>e \<in> set (queue_entries d).
        identity_of l = (leases_id l, queue_entries_resource_name e, queue_entries_agent_id e,
          Some (queue_entries_id e)) \<and> queue_entries_state e = QueueGranted) \<and>
     (\<forall>e \<in> set (queue_entries d). queue_entries_state e = QueueGranted \<longrightarrow>
        (\<exists>l \<in> set (leases d). leases_queue_entry_id l = Some (queue_entries_id e)))"

definition remembered :: "QueueEntry list \<Rightarrow> db \<Rightarrow> bool" where
  "remembered es d \<longleftrightarrow> (\<forall>entry \<in> set es. \<exists>e \<in> set (queue_entries d). stands_for entry e)"

lemma identity_maps:
  assumes "map identity_of ls' = map identity_of ls"
  shows "map leases_id ls' = map leases_id ls" "map leases_queue_entry_id ls' = map leases_queue_entry_id ls"
    "identity_of ` set ls' = identity_of ` set ls"
proof -
  have "map leases_id xs = map fst (map identity_of xs)"
    "map leases_queue_entry_id xs = map (snd \<circ> snd \<circ> snd) (map identity_of xs)" for xs
    by (simp_all add: identity_of_def)
  with assms show "map leases_id ls' = map leases_id ls" "map leases_queue_entry_id ls' = map leases_queue_entry_id ls"
    by metis+
  show "identity_of ` set ls' = identity_of ` set ls" using assms by (metis image_set)
qed

lemma linked_closes:
  assumes link: "linked d" and ls: "map identity_of (leases d') = map identity_of (leases d)"
    and es: "evolves_in_place entry_closes (queue_entries d) (queue_entries d')"
  shows "linked d'"
proof -
  have ids: "map queue_entries_id (queue_entries d') = map queue_entries_id (queue_entries d)"
    by (rule evolves_in_place_map [OF es], rule entry_closes_fields)
  have ident: "\<exists>l \<in> set (leases d). identity_of l = identity_of l'" if "l' \<in> set (leases d')" for l'
    using identity_maps(3) [OF ls] that by (metis imageE imageI)
  have ident': "\<exists>l' \<in> set (leases d'). identity_of l' = identity_of l" if "l \<in> set (leases d)" for l
    using identity_maps(3) [OF ls] that by (metis imageE imageI)
  have granted: "e' \<in> set (queue_entries d')"
    if "e' \<in> set (queue_entries d)" "queue_entries_state e' = QueueGranted" for e'
    using evolves_in_place_forward [OF es that(1)] that(2) by (auto simp: entry_closes_def)
  have origin: "e' \<in> set (queue_entries d)"
    if "e' \<in> set (queue_entries d')" "queue_entries_state e' = QueueGranted" for e'
    using evolves_in_place_back [OF es that(1)] that(2) by (auto simp: entry_closes_def)
  have nonempty: "\<forall>e \<in> set (queue_entries d'). queue_entries_id e \<noteq> []"
    using link ids unfolding linked_def by (metis (no_types, lifting) imageE imageI list.set_map)
  show ?thesis
    unfolding linked_def
  proof (intro conjI ballI impI)
    show "distinct (map queue_entries_id (queue_entries d'))" using link ids by (simp add: linked_def)
    show "distinct (map leases_id (leases d'))" "distinct (map leases_queue_entry_id (leases d'))"
      using link identity_maps [OF ls] by (simp_all add: linked_def)
  next
    fix l' assume "l' \<in> set (leases d')"
    with ident obtain l where l: "l \<in> set (leases d)" "identity_of l = identity_of l'" by blast
    with link obtain e where "e \<in> set (queue_entries d)" "queue_entries_state e = QueueGranted"
      "identity_of l = (leases_id l, queue_entries_resource_name e, queue_entries_agent_id e, Some (queue_entries_id e))"
      unfolding linked_def by blast
    with l granted show "\<exists>e \<in> set (queue_entries d'). identity_of l' = (leases_id l',
        queue_entries_resource_name e, queue_entries_agent_id e, Some (queue_entries_id e)) \<and>
        queue_entries_state e = QueueGranted"
      by (auto simp: identity_of_def)
  next
    fix e assume "e \<in> set (queue_entries d')" "queue_entries_state e = QueueGranted"
    with origin link obtain l where "l \<in> set (leases d)" "leases_queue_entry_id l = Some (queue_entries_id e)"
      unfolding linked_def by blast
    with ident' show "\<exists>l \<in> set (leases d'). leases_queue_entry_id l = Some (queue_entries_id e)"
      by (fastforce simp: identity_of_def)
  qed (use nonempty in blast)
qed

lemma remembered_closes:
  assumes "remembered es d" and "evolves_in_place entry_closes (queue_entries d) (queue_entries d')"
  shows "remembered es d'"
proof -
  have "\<exists>e' \<in> set (queue_entries d'). stands_for entry e'"
    if "e \<in> set (queue_entries d)" "stands_for entry e" for e entry
    proof -
    from evolves_in_place_forward [OF assms(2) that(1)] obtain s where "s \<in> set (queue_entries d')" "entry_closes e s"
      by blast
    with that(2) show ?thesis by (intro bexI [of _ s]) (simp_all add: stands_for_def entry_closes_fields)
  qed
  with assms(1) show ?thesis unfolding remembered_def by blast
qed

lemma same_tables_linked: "same_tables d d' \<Longrightarrow> linked d' = linked d"
    "same_tables d d' \<Longrightarrow> remembered es d' = remembered es d"
  by (simp_all add: same_tables_def linked_def remembered_def)

lemma linked_Enqueue:
  assumes "linked d" and "Enqueue e d = Inr d'" and "qe_State e = QueueWaiting"
  shows "linked d'"
proof -
  from assms(2) have fresh: "\<not> queue_entry_exists d (qe_ID e)" and "qe_ID e \<noteq> []"
    and d': "d' = d\<lparr>queue_entries := queue_entries d @ [queue_row_of e]\<rparr>"
    by (auto simp: Enqueue_Inr QueueEntry_Validate_def split: if_splits)
  from fresh have "qe_ID e \<notin> set (map queue_entries_id (queue_entries d))"
    by (auto simp: queue_entry_exists_def exists_where_iff)
  with assms \<open>qe_ID e \<noteq> []\<close> show ?thesis by (auto simp: linked_def d')
qed

lemma remembered_Enqueue:
  assumes "remembered es d" and "Enqueue e d = Inr d'"
  shows "remembered (e # es) d'"
  using assms by (auto simp: remembered_def Enqueue_Inr stands_for_def queue_row_of_def)

lemma linked_grant:
  assumes link: "linked d" and mem: "e0 \<in> set (queue_entries d)" "stands_for entry e0"
    and wait: "queue_entries_state e0 = QueueWaiting"
    and fresh: "\<not> lease_exists d (lease_ID lease)"
    and lease: "lease_ResourceName lease = qe_ResourceName entry" "lease_AgentID lease = qe_AgentID entry"
      "lease_QueueEntryID lease = qe_ID entry"
    and ls: "leases d' = leases d @ [lease_row_of lease]"
    and es: "queue_entries d' = update_where (waits_as (qe_ID entry))
       (\<lambda>r. r\<lparr>queue_entries_state := QueueGranted, queue_entries_resolved_at := Some us\<rparr>) (queue_entries d)"
  shows "linked d'"
proof -
  let ?g = "\<lambda>r. if waits_as (qe_ID entry) r
    then r\<lparr>queue_entries_state := QueueGranted, queue_entries_resolved_at := Some us\<rparr> else r"
  have id0: "queue_entries_id e0 = qe_ID entry" using mem(2) by (simp add: stands_for_def)
  have only: "e = e0" if "e \<in> set (queue_entries d)" "queue_entries_id e = qe_ID entry" for e
    using link mem(1) that id0 unfolding linked_def by (metis distinct_key_eq)
  have nonempty: "qe_ID entry \<noteq> []" using link mem(1) id0 by (auto simp: linked_def)
  have set': "set (queue_entries d') = ?g ` set (queue_entries d)" by (simp add: es set_update_where)
  have g0: "?g e0 = e0\<lparr>queue_entries_state := QueueGranted, queue_entries_resolved_at := Some us\<rparr>"
    using id0 wait by simp
  have ids: "map queue_entries_id (queue_entries d') = map queue_entries_id (queue_entries d)"
    by (simp add: es)
  have kept: "e \<in> set (queue_entries d')" if "e \<in> set (queue_entries d)" "queue_entries_state e = QueueGranted" for e
    using that wait unfolding set' by (intro image_eqI [of _ _ e]) auto
  have unused: "leases_queue_entry_id l \<noteq> Some (qe_ID entry)" if "l \<in> set (leases d)" for l
  proof
    assume "leases_queue_entry_id l = Some (qe_ID entry)"
    with link that obtain e where "e \<in> set (queue_entries d)" "queue_entries_state e = QueueGranted"
      "queue_entries_id e = qe_ID entry"
      unfolding linked_def identity_of_def by fastforce
    with only wait show False by auto
  qed
  have new: "leases_queue_entry_id (lease_row_of lease) = Some (qe_ID entry)"
    using nonempty lease by (simp add: nullString_def)
  show ?thesis
    unfolding linked_def
  proof (intro conjI ballI impI)
    show "distinct (map queue_entries_id (queue_entries d'))" using link ids by (simp add: linked_def)
    show "distinct (map leases_id (leases d'))"
      using link fresh by (auto simp: ls linked_def lease_exists_def exists_where_iff)
    show "distinct (map leases_queue_entry_id (leases d'))"
      using link unused new by (fastforce simp: ls linked_def)
    show "queue_entries_id e \<noteq> []" if "e \<in> set (queue_entries d')" for e
      using that link unfolding set' linked_def by (auto split: if_splits)
  next
    fix l assume "l \<in> set (leases d')"
    then consider "l \<in> set (leases d)" | "l = lease_row_of lease" by (auto simp: ls)
    then show "\<exists>e \<in> set (queue_entries d'). identity_of l = (leases_id l, queue_entries_resource_name e,
        queue_entries_agent_id e, Some (queue_entries_id e)) \<and> queue_entries_state e = QueueGranted"
    proof cases
      case 1
      with link kept show ?thesis unfolding linked_def by blast
    next
      case 2
      have "?g e0 \<in> set (queue_entries d')" unfolding set' using mem(1) by (rule imageI)
      with 2 mem(2) new lease g0 show ?thesis
        by (intro bexI [of _ "?g e0"]) (auto simp: identity_of_def stands_for_def)
    qed
  next
    fix e assume "e \<in> set (queue_entries d')" and granted: "queue_entries_state e = QueueGranted"
    then obtain r where r: "r \<in> set (queue_entries d)" "e = ?g r" unfolding set' by blast
    show "\<exists>l \<in> set (leases d'). leases_queue_entry_id l = Some (queue_entries_id e)"
    proof (cases "waits_as (qe_ID entry) r")
      case True
      with r new show ?thesis by (auto simp: ls)
    next
      case False
      with r granted link show ?thesis unfolding linked_def ls by auto
    qed
  qed
qed

lemma remembered_update:
  assumes "remembered es d" and es: "queue_entries d' = update_where P f (queue_entries d)"
    and same: "\<And>entry r. stands_for entry (f r) = stands_for entry r"
  shows "remembered es d'"
  unfolding remembered_def
proof
  fix entry assume "entry \<in> set es"
  with assms(1) obtain e where "e \<in> set (queue_entries d)" "stands_for entry e" by (auto simp: remembered_def)
  then show "\<exists>e \<in> set (queue_entries d'). stands_for entry e"
    unfolding es set_update_where by (intro bexI [of _ "if P e then f e else e"]) (simp_all add: same)
qed

lemma run_linked:
  assumes "lease_run ttl w0 defs es w" and fresh: "no_leasing_yet w0"
  shows "linked (w_db w) \<and> remembered es (w_db w)"
  using assms(1)
proof (induction rule: lease_run_kinds)
  case start
  from fresh show ?case by (simp add: no_leasing_yet_def linked_def remembered_def)
next
  case (quiet defs es w w')
  then show ?case by (simp add: same_tables_linked)
next
  case (redefines defs es w w' actor r)
  then show ?case using Define_ok_effect(1,2) [OF redefines(3)] by (simp add: linked_def remembered_def)
next
  case (joins defs es w w' rq r entry)
  then show ?case
    using joinQueue_ok_effect [OF joins(3)] linked_Enqueue remembered_Enqueue
    by (metis same_tables_linked)
next
  case (grants defs es w w' v entry metadata lease)
  from grants(4) obtain row at i where
    row: "first_where (\<lambda>r. queue_entries_id r = qe_ID entry) (queue_entries (w_db w)) = Some row"
      "queue_entries_state row = QueueWaiting"
    and lease: "lease_ResourceName lease = qe_ResourceName entry" "lease_AgentID lease = qe_AgentID entry"
      "lease_QueueEntryID lease = qe_ID entry" "\<not> lease_exists (w_db w) (lease_ID lease)"
    and ls: "leases (w_db v) = leases (w_db w) @ [lease_row_of lease]"
    and es: "queue_entries (w_db v) = update_where (waits_as (qe_ID entry))
       (\<lambda>r. r\<lparr>queue_entries_state := QueueGranted, queue_entries_resolved_at := Some (requireMicros at)\<rparr>)
       (queue_entries (w_db w))"
    by (cases rule: grant_body_Inr) (auto elim!: grant_lease_Inr)
  from grants(3,6) obtain e0 where e0: "e0 \<in> set (queue_entries (w_db w))" "stands_for entry e0"
    unfolding remembered_def by blast
  with row first_where_Some [OF row(1)] grants(6) have "e0 = row"
    unfolding linked_def stands_for_def by (metis distinct_key_eq)
  with e0 row have wait: "queue_entries_state e0 = QueueWaiting" by simp
  have "linked (w_db v)"
    by (rule linked_grant [OF _ e0 wait lease(4) lease(1-3) ls es]) (use grants(6) in simp)
  moreover have "remembered es (w_db v)"
    by (rule remembered_update [OF _ es]) (use grants(6) in \<open>simp_all add: stands_for_def\<close>)
  ultimately show ?case by (simp add: grants(5))
next
  case (renews defs es w w' agent i l)
  have "map identity_of (leases (w_db w')) = map identity_of (leases (w_db w))"
    "queue_entries (w_db w') = queue_entries (w_db w)"
    using renews(3) by (auto elim!: Renew_cases simp: identity_of_def)
  moreover from this(2) have "evolves_in_place entry_closes (queue_entries (w_db w)) (queue_entries (w_db w'))"
    by (simp add: evolves_in_place_refl)
  ultimately show ?case using renews(4) by (blast intro: linked_closes remembered_closes)
next
  case (closes defs es w w')
  have "map identity_of (leases (w_db w')) = map identity_of (leases (w_db w))"
    using closes(3) unfolding frees_def
    by (auto elim!: evolves_in_place_map simp: identity_of_def lease_closes_fields)
  with closes(3,4) show ?case unfolding frees_def by (blast intro: linked_closes remembered_closes)
qed

subsection \<open>History\<close>

lemma history_same_apart: "apart w w' \<Longrightarrow> history_kept (w_db w) (w_db w')"
  by (simp add: apart_def history_kept_def evolves_refl)

lemma run_history: "lease_run ttl w0 defs es w \<Longrightarrow> history_kept (w_db w0) (w_db w)"
proof (induction rule: lease_run.induct)
  case start
  show ?case by (rule history.Q_refl)
next
  case (elsewhere defs es w w')
  then show ?case by (blast intro: history.Q_trans history_same_apart)
next
  case (define_ok defs es w actor r u w')
  then show ?case using conformsD [OF history_ops(11) define_ok.hyps(2)] by (auto simp: db_rel_def intro: history.Q_trans)
next
  case (define_err defs es w actor r e w')
  then show ?case using conformsD [OF history_ops(11) define_err.hyps(2)] by (auto simp: db_rel_def intro: history.Q_trans)
next
  case (join_ok defs es w rq r entry w')
  then show ?case using conformsD [OF history_ops(9) join_ok.hyps(2)] by (auto simp: db_rel_def intro: history.Q_trans)
next
  case (join_err defs es w rq e w')
  then show ?case using conformsD [OF history_ops(9) join_err.hyps(2)] by (auto simp: db_rel_def intro: history.Q_trans)
qed (erule history.Q_trans, rule history_ops [THEN conforms_snd, unfolded db_rel_def])+

end
