(* ===== verification/LeasingBulk.thy ===== *)
theory LeasingBulk
  imports LeasingSystem
begin

section \<open>Loops over leases and queue entries\<close>

text \<open>
  The bulk operations read a list of rows and close them one by one. Their net effect is a single
  update of the table; the lemmas here turn the loop into that update.
\<close>

definition close_leases :: "(leases_row \<Rightarrow> bool) \<Rightarrow> instant \<Rightarrow> leases_row list \<Rightarrow> leases_row list" where
  "close_leases P at = update_where P (\<lambda>r. r\<lparr>leases_released_at := Some (requireMicros at)\<rparr>)"

definition cancel_entries ::
    "(queue_entries_row \<Rightarrow> bool) \<Rightarrow> instant \<Rightarrow> queue_entries_row list \<Rightarrow> queue_entries_row list" where
  "cancel_entries P at = update_where P
     (\<lambda>r. r\<lparr>queue_entries_state := QueueCancelled, queue_entries_resolved_at := Some (requireMicros at)\<rparr>)"

lemma update_where_again:
  assumes "\<And>r. P r \<Longrightarrow> \<not> Q (f r)"
  shows "update_where Q f (update_where P f rows) = update_where (\<lambda>r. P r \<or> Q r) f rows"
  using assms by (induction rows) (auto simp: update_where_def)

lemma update_where_cong:
  "(\<And>r. r \<in> set rows \<Longrightarrow> P r = Q r) \<Longrightarrow> update_where P f rows = update_where Q f rows"
  by (simp add: update_where_def)

lemma update_where_False: "update_where (\<lambda>_. False) f rows = rows"
  by (simp add: update_where_def)

abbreviation unreleased_in :: "string set \<Rightarrow> leases_row \<Rightarrow> bool" where
  "unreleased_in ids r \<equiv> leases_id r \<in> ids \<and> leases_released_at r = None"

abbreviation waiting_in :: "string set \<Rightarrow> queue_entries_row \<Rightarrow> bool" where
  "waiting_in ids r \<equiv> queue_entries_id r \<in> ids \<and> queue_entries_state r = QueueWaiting"

lemma audit_in_ok:
  "actor \<noteq> [] \<Longrightarrow> action \<noteq> NoAuditAction \<Longrightarrow>
     \<exists>d. Audit_Append (entry_of actor action target detail at) (w_db w) = Inr d \<and>
         audit_in actor action target detail at w = (Inr (), w\<lparr>w_db := d\<rparr>)"
  by (simp add: audit_in_def exec_apply Audit_Append_def)

lemma release_loop:
  assumes "actor \<noteq> []" and "action \<noteq> NoAuditAction"
  shows "\<exists>w'. forE ls (\<lambda>l. bindE (exec (Leases_Release (lease_ID l) at))
      (\<lambda>_. audit_in actor action (target l) (detail l) at)) w = (Inr (), w') \<and>
    leases (w_db w') = close_leases (unreleased_in (lease_ID ` set ls)) at (leases (w_db w)) \<and>
    queue_entries (w_db w') = queue_entries (w_db w) \<and> resources (w_db w') = resources (w_db w)"
proof (induction ls arbitrary: w)
  case Nil
  show ?case by (simp add: close_leases_def update_where_False)
next
  case (Cons l ls)
  obtain d1 where d1: "Leases_Release (lease_ID l) at (w_db w) = Inr d1" by (simp add: Leases_Release_def)
  from audit_in_ok [OF assms, of "target l" "detail l" at "w\<lparr>w_db := d1\<rparr>"] obtain d2 where
    d2: "Audit_Append (entry_of actor action (target l) (detail l) at) d1 = Inr d2"
      "audit_in actor action (target l) (detail l) at (w\<lparr>w_db := d1\<rparr>) = (Inr (), w\<lparr>w_db := d2\<rparr>)"
    by auto
  from Cons.IH [of "w\<lparr>w_db := d2\<rparr>"] obtain w' where
    rest: "forE ls (\<lambda>l. bindE (exec (Leases_Release (lease_ID l) at))
      (\<lambda>_. audit_in actor action (target l) (detail l) at)) (w\<lparr>w_db := d2\<rparr>) = (Inr (), w')"
    "leases (w_db w') = close_leases (unreleased_in (lease_ID ` set ls)) at (leases d2)"
    "queue_entries (w_db w') = queue_entries d2" "resources (w_db w') = resources d2"
    by auto
  have "leases d2 = close_leases (unreleased_in {lease_ID l}) at (leases (w_db w))"
    "queue_entries d2 = queue_entries (w_db w)" "resources d2 = resources (w_db w)"
    using Audit_Append_frame [OF d2(1)] d1 by (auto simp: Release_Inr close_leases_def)
  moreover have "exec (Leases_Release (lease_ID l) at) w = (Inr (), w\<lparr>w_db := d1\<rparr>)"
    using d1 by (simp add: exec_apply)
  ultimately show ?case
    using rest d2(2)
    by (intro exI [of _ w']) (auto simp: close_leases_def update_where_again intro!: update_where_cong)
qed

lemma resolve_loop:
  assumes "distinct (map qe_ID es)"
    and "\<And>e. e \<in> set es \<Longrightarrow> exists_where (waits_as (qe_ID e)) (queue_entries (w_db w))"
    and "\<And>e v. logged e v = (Inr (), after e v) \<and> queue_entries (w_db (after e v)) = queue_entries (w_db v) \<and>
       leases (w_db (after e v)) = leases (w_db v) \<and> resources (w_db (after e v)) = resources (w_db v)"
  shows "\<exists>w'. forE es (\<lambda>e. bindE (exec (ResolveQueueEntry (qe_ID e) QueueCancelled at)) (\<lambda>_. logged e)) w = (Inr (), w') \<and>
    queue_entries (w_db w') = cancel_entries (waiting_in (qe_ID ` set es)) at (queue_entries (w_db w)) \<and>
    leases (w_db w') = leases (w_db w) \<and> resources (w_db w') = resources (w_db w)"
  using assms(1,2)
proof (induction es arbitrary: w)
  case Nil
  show ?case by (simp add: cancel_entries_def update_where_False)
next
  case (Cons e es)
  from Cons.prems(2) [of e] obtain d1 where
    d1: "ResolveQueueEntry (qe_ID e) QueueCancelled at (w_db w) = Inr d1" by (simp add: Resolve_Inr)
  let ?v = "after e (w\<lparr>w_db := d1\<rparr>)"
  have qs: "queue_entries (w_db ?v) = cancel_entries (waiting_in {qe_ID e}) at (queue_entries (w_db w))"
    "leases (w_db ?v) = leases (w_db w)" "resources (w_db ?v) = resources (w_db w)"
    using d1 assms(3) [of e "w\<lparr>w_db := d1\<rparr>"] by (auto simp: Resolve_Inr cancel_entries_def)
  have "exists_where (waits_as (qe_ID e')) (queue_entries (w_db ?v))" if "e' \<in> set es" for e'
  proof -
    from imageI [OF that, of qe_ID] Cons.prems(1) have "qe_ID e' \<noteq> qe_ID e" by auto
    moreover have "exists_where (waits_as (qe_ID e')) (queue_entries (w_db w))"
      by (rule Cons.prems(2)) (simp add: that)
    then obtain r where "r \<in> set (queue_entries (w_db w))" "waits_as (qe_ID e') r"
      by (auto simp: exists_where_iff)
    ultimately show "exists_where (waits_as (qe_ID e')) (queue_entries (w_db ?v))"
      unfolding qs cancel_entries_def exists_where_iff set_update_where
      by (intro bexI [of _ r]) (auto intro: image_eqI [of _ _ r])
  qed
  with Cons.IH [of ?v] Cons.prems obtain w' where
    rest: "forE es (\<lambda>e. bindE (exec (ResolveQueueEntry (qe_ID e) QueueCancelled at)) (\<lambda>_. logged e)) ?v = (Inr (), w')"
    "queue_entries (w_db w') = cancel_entries (waiting_in (qe_ID ` set es)) at (queue_entries (w_db ?v))"
    "leases (w_db w') = leases (w_db ?v)" "resources (w_db w') = resources (w_db ?v)"
    by auto
  moreover have "exec (ResolveQueueEntry (qe_ID e) QueueCancelled at) w = (Inr (), w\<lparr>w_db := d1\<rparr>)"
    using d1 by (simp add: exec_apply)
  ultimately show ?case
    using qs assms(3) [of e "w\<lparr>w_db := d1\<rparr>"]
    by (intro exI [of _ w']) (auto simp: cancel_entries_def update_where_again intro!: update_where_cong)
qed

subsection \<open>The bulk operations as single updates\<close>

lemma close_leases_scan:
  assumes "distinct (map leases_id rows)"
  shows "close_leases (unreleased_in (lease_ID ` set (map scanLease (sort_key k (filter P rows))))) at rows =
     close_leases (\<lambda>r. P r \<and> leases_released_at r = None) at rows"
  unfolding close_leases_def
  by (rule update_where_cong) (use assms in \<open>auto simp: image_image dest: distinct_key_eq\<close>)

lemma cancel_entries_scan:
  assumes "distinct (map queue_entries_id rows)" and "\<And>r. P r \<Longrightarrow> queue_entries_state r = QueueWaiting"
  shows "cancel_entries (waiting_in (qe_ID ` set (map scanQueueEntry (sort_key k (filter P rows))))) at rows =
     cancel_entries P at rows"
  unfolding cancel_entries_def
  by (rule update_where_cong) (use assms in \<open>auto simp: image_image dest: distinct_key_eq\<close>)

lemma scanned_distinct:
  "distinct (map queue_entries_id rows) \<Longrightarrow> distinct (map qe_ID (map scanQueueEntry (sort_key k (filter P rows))))"
  by (simp add: comp_def) (metis distinct_map_filterI distinct_map distinct_sort set_sort)

lemma scanned_waits:
  "e \<in> set (map scanQueueEntry (sort_key k (filter P rows))) \<Longrightarrow>
     (\<And>r. P r \<Longrightarrow> queue_entries_state r = QueueWaiting) \<Longrightarrow> exists_where (waits_as (qe_ID e)) rows"
  by (auto simp: exists_where_iff)

lemma ReapExpired_effect:
  assumes "distinct (map leases_id (leases (w_db w)))"
  shows "\<exists>w'. ReapExpired w = (Inr (count_where (\<lambda>r. leases_released_at r = None \<and>
        leases_expires_at r \<le> requireMicros (time_of w)) (leases (w_db w))), w') \<and>
     leases (w_db w') = close_leases (\<lambda>r. leases_released_at r = None \<and>
        leases_expires_at r \<le> requireMicros (time_of w)) (time_of w) (leases (w_db w)) \<and>
     queue_entries (w_db w') = queue_entries (w_db w)"
proof -
  let ?P = "\<lambda>r. leases_released_at r = None \<and> leases_expires_at r \<le> requireMicros (time_of w)"
  let ?ls = "map scanLease (sort_key leases_expires_at (filter ?P (leases (w_db w))))"
  let ?v = "w\<lparr>w_ticks := Suc (w_ticks w)\<rparr>"
  let ?detail = "\<lambda>lease. ''lease '' @ lease_ID lease @ '' held by '' @ lease_AgentID lease @
                         '' expired at '' @ FormatRFC3339 (lease_ExpiresAt lease)"
  have "SystemActor \<noteq> []" "AuditLeaseExpired \<noteq> NoAuditAction" by (simp_all add: SystemActor_def)
  from release_loop [OF this, of ?ls "time_of w" lease_ResourceName ?detail ?v] obtain w' where
    loop: "forE ?ls (release_logged SystemActor AuditLeaseExpired ?detail (time_of w)) ?v = (Inr (), w')"
    and eff: "leases (w_db w') = close_leases (unreleased_in (lease_ID ` set ?ls)) (time_of w) (leases (w_db w))"
    "queue_entries (w_db w') = queue_entries (w_db w)"
    unfolding release_logged_def by auto
  let ?n = "length ?ls"
  have "\<exists>w''. ReapExpired w = (Inr ?n, w'') \<and> w_db w'' = w_db w'"
    unfolding ReapExpired_def using loop
    by (simp add: bindE_apply ExpiredLeases_def InTransaction_def signal_every_resource_def)
  moreover have "?n = count_where ?P (leases (w_db w))" by (simp add: count_where_def)
  ultimately show ?thesis
    using eff unfolding close_leases_scan [OF assms] by (auto simp: conj_ac)
qed

lemma FreeResource_effect:
  assumes "distinct (map leases_id (leases (w_db w)))" and "resource_exists (w_db w) name" and "actor \<noteq> []"
  shows "\<exists>w'. FreeResource actor name w = (Inr (slots_held name (requireMicros (time_of w)) (w_db w)), w') \<and>
     leases (w_db w') = close_leases (holds_slot name (requireMicros (time_of w))) (time_of w) (leases (w_db w)) \<and>
     queue_entries (w_db w') = queue_entries (w_db w)"
proof -
  let ?P = "holds_slot name (requireMicros (time_of w))"
  let ?ls = "map scanLease (sort_key leases_acquired_at (filter ?P (leases (w_db w))))"
  let ?v = "w\<lparr>w_ticks := Suc (w_ticks w)\<rparr>"
  let ?detail = "\<lambda>lease. ''lease '' @ lease_ID lease @ '' force-released from '' @ lease_AgentID lease"
  obtain r where r: "Resources_ByName name (w_db w) = Inr r"
    using assms(2) by (cases "first_where (\<lambda>r. resources_name r = name) (resources (w_db w))")
      (auto simp: Resources_ByName_def resource_exists_def exists_where_iff first_where_None)
  from release_loop [OF assms(3), of AuditLeaseReleased ?ls "time_of w" "\<lambda>_. name" ?detail ?v] obtain w' where
    loop: "forE ?ls (\<lambda>l. bindE (exec (Leases_Release (lease_ID l) (time_of w)))
      (\<lambda>_. audit_in actor AuditLeaseReleased name (?detail l) (time_of w))) ?v = (Inr (), w')"
    and eff: "leases (w_db w') = close_leases (unreleased_in (lease_ID ` set ?ls)) (time_of w) (leases (w_db w))"
    "queue_entries (w_db w') = queue_entries (w_db w)"
    by auto
  let ?n = "length ?ls"
  have "\<exists>w''. FreeResource actor name w = (Inr ?n, w'') \<and> w_db w'' = w_db w'"
    unfolding FreeResource_def using loop
    by (simp add: bindE_apply r ActiveLeases_def InTransaction_def signal_resource_def)
  moreover have "?n = slots_held name (requireMicros (time_of w)) (w_db w)"
    by (simp add: slots_held_def count_where_def)
  moreover have "close_leases (\<lambda>r. ?P r \<and> leases_released_at r = None) (time_of w) (leases (w_db w)) =
      close_leases ?P (time_of w) (leases (w_db w))"
    unfolding close_leases_def by (rule update_where_cong) (auto simp: holds_slot_def holds_at_def)
  ultimately show ?thesis
    using eff unfolding close_leases_scan [OF assms(1)] by auto
qed

lemma logged_audit_in:
  assumes "actor \<noteq> []" and "action \<noteq> NoAuditAction"
  shows "audit_in actor action target detail at v = (Inr (), snd (audit_in actor action target detail at v)) \<and>
    queue_entries (w_db (snd (audit_in actor action target detail at v))) = queue_entries (w_db v) \<and>
    leases (w_db (snd (audit_in actor action target detail at v))) = leases (w_db v) \<and>
    resources (w_db (snd (audit_in actor action target detail at v))) = resources (w_db v)"
  using audit_in_ok [OF assms, of target detail at v] by (auto simp: Audit_Append_frame)

lemma ClearQueue_effect:
  assumes "distinct (map queue_entries_id (queue_entries (w_db w)))" and "resource_exists (w_db w) name" and "actor \<noteq> []"
  shows "\<exists>w'. ClearQueue actor name w = (Inr (count_where (waits_for name) (queue_entries (w_db w))), w') \<and>
     queue_entries (w_db w') = cancel_entries (waits_for name) (time_of w) (queue_entries (w_db w)) \<and>
     leases (w_db w') = leases (w_db w)"
proof -
  let ?P = "waits_for name"
  let ?es = "map scanQueueEntry (sort_key rank_of (filter ?P (queue_entries (w_db w))))"
  let ?v = "w\<lparr>w_ticks := Suc (w_ticks w)\<rparr>"
  let ?log = "\<lambda>entry. audit_in actor AuditQueueCancelled name
           (''entry '' @ qe_ID entry @ '' force-cancelled for '' @ qe_AgentID entry) (time_of w)"
  obtain r where r: "Resources_ByName name (w_db w) = Inr r"
    using assms(2) by (cases "first_where (\<lambda>r. resources_name r = name) (resources (w_db w))")
      (auto simp: Resources_ByName_def resource_exists_def exists_where_iff first_where_None)
  have waits: "?P r \<Longrightarrow> queue_entries_state r = QueueWaiting" for r by (simp add: waits_for_def)
  have "\<exists>w'. forE ?es (\<lambda>e. bindE (exec (ResolveQueueEntry (qe_ID e) QueueCancelled (time_of w))) (\<lambda>_. ?log e)) ?v = (Inr (), w') \<and>
    queue_entries (w_db w') = cancel_entries (waiting_in (qe_ID ` set ?es)) (time_of w) (queue_entries (w_db ?v)) \<and>
    leases (w_db w') = leases (w_db ?v) \<and> resources (w_db w') = resources (w_db ?v)"
    by (rule resolve_loop [where after = "\<lambda>e v. snd (?log e v)"])
       (use scanned_distinct [OF assms(1)] scanned_waits [OF _ waits] logged_audit_in [OF assms(3)] in \<open>simp_all\<close>)
  then obtain w' where
    loop: "forE ?es (\<lambda>e. bindE (exec (ResolveQueueEntry (qe_ID e) QueueCancelled (time_of w))) (\<lambda>_. ?log e)) ?v = (Inr (), w')"
    and eff: "queue_entries (w_db w') = cancel_entries (waiting_in (qe_ID ` set ?es)) (time_of w) (queue_entries (w_db w))"
      "leases (w_db w') = leases (w_db w)"
    by auto
  let ?n = "length ?es"
  have "\<exists>w''. ClearQueue actor name w = (Inr ?n, w'') \<and> w_db w'' = w_db w'"
    unfolding ClearQueue_def using loop
    by (simp add: bindE_apply r Waiting_def waiting_rows_def InTransaction_def signal_resource_def)
  moreover have "?n = count_where ?P (queue_entries (w_db w))" by (simp add: count_where_def)
  ultimately show ?thesis
    using eff cancel_entries_scan [OF assms(1) waits, of ?P] by auto
qed

lemma ReleaseEverything_effect:
  assumes "distinct (map leases_id (leases (w_db w)))"
    and "distinct (map queue_entries_id (queue_entries (w_db w)))" and "actor \<noteq> []"
  shows "\<exists>w'. ReleaseEverythingHeldBy actor agent reason w =
       (Inr (count_where (\<lambda>r. leases_agent_id r = agent \<and> holds_at (requireMicros (time_of w)) r) (leases (w_db w))), w') \<and>
     leases (w_db w') = close_leases (\<lambda>r. leases_agent_id r = agent \<and> holds_at (requireMicros (time_of w)) r)
       (time_of w) (leases (w_db w)) \<and>
     queue_entries (w_db w') = cancel_entries (\<lambda>r. queue_entries_agent_id r = agent \<and> queue_entries_state r = QueueWaiting)
       (time_of w) (queue_entries (w_db w))"
proof -
  let ?P = "\<lambda>r. leases_agent_id r = agent \<and> holds_at (requireMicros (time_of w)) r"
  let ?Q = "\<lambda>r. queue_entries_agent_id r = agent \<and> queue_entries_state r = QueueWaiting"
  let ?ls = "map scanLease (sort_key leases_acquired_at (filter ?P (leases (w_db w))))"
  let ?es = "map scanQueueEntry (sort_key queue_entries_requested_at (filter ?Q (queue_entries (w_db w))))"
  let ?v = "w\<lparr>w_ticks := Suc (w_ticks w)\<rparr>"
  let ?detail = "\<lambda>lease. ''lease '' @ lease_ID lease @ '' reclaimed: '' @ reason"
  from release_loop [OF assms(3), of AuditLeaseReleased ?ls "time_of w" lease_ResourceName ?detail ?v] obtain w1 where
    loop1: "forE ?ls (release_logged actor AuditLeaseReleased ?detail (time_of w)) ?v = (Inr (), w1)"
    and eff1: "leases (w_db w1) = close_leases (unreleased_in (lease_ID ` set ?ls)) (time_of w) (leases (w_db w))"
    "queue_entries (w_db w1) = queue_entries (w_db w)"
    unfolding release_logged_def by auto
  have waits: "?Q r \<Longrightarrow> queue_entries_state r = QueueWaiting" for r by simp
  have unlogged: "forE es f = forE es (\<lambda>e. bindE (f e) (\<lambda>_. returnE ()))" for es and f :: "QueueEntry \<Rightarrow> unit action"
    by (rule arg_cong [of _ _ "forE es"]) (auto simp: fun_eq_iff bindE_def split: prod.split sum.split)
  have "\<exists>w2. forE ?es (\<lambda>e. bindE (exec (ResolveQueueEntry (qe_ID e) QueueCancelled (time_of w))) (\<lambda>_. returnE ())) w1 = (Inr (), w2) \<and>
    queue_entries (w_db w2) = cancel_entries (waiting_in (qe_ID ` set ?es)) (time_of w) (queue_entries (w_db w1)) \<and>
    leases (w_db w2) = leases (w_db w1) \<and> resources (w_db w2) = resources (w_db w1)"
    by (rule resolve_loop [where after = "\<lambda>e v. v"])
       (use scanned_distinct [OF assms(2)] scanned_waits [OF _ waits] eff1(2) in \<open>simp_all\<close>)
  then obtain w2 where
    loop2: "forE ?es (\<lambda>e. exec (ResolveQueueEntry (qe_ID e) QueueCancelled (time_of w))) w1 = (Inr (), w2)"
    and eff2: "queue_entries (w_db w2) = cancel_entries (waiting_in (qe_ID ` set ?es)) (time_of w) (queue_entries (w_db w))"
      "leases (w_db w2) = leases (w_db w1)"
    unfolding unlogged [symmetric] using eff1(2) by auto
  let ?n = "length ?ls"
  have "\<exists>w''. ReleaseEverythingHeldBy actor agent reason w = (Inr ?n, w'') \<and> w_db w'' = w_db w2"
    unfolding ReleaseEverythingHeldBy_def using loop1 loop2 eff1(2)
    by (simp add: bindE_apply ActiveLeasesByAgent_def WaitingByAgent_def InTransaction_def signal_every_resource_def)
  moreover have "?n = count_where ?P (leases (w_db w))" by (simp add: count_where_def)
  moreover have "close_leases (\<lambda>r. ?P r \<and> leases_released_at r = None) (time_of w) (leases (w_db w)) =
      close_leases ?P (time_of w) (leases (w_db w))"
    unfolding close_leases_def by (rule update_where_cong) (auto simp: holds_at_def)
  ultimately show ?thesis
    using eff1(1) eff2 cancel_entries_scan [OF assms(2) waits, of ?Q] unfolding close_leases_scan [OF assms(1)] by auto
qed

end
