(* ===== verification/Scenario.thy ===== *)
theory Scenario
  imports LeasingBulk
begin

section \<open>Concrete states\<close>

text \<open>Two registered agents, a clock that ticks one second at a time, and entropy that counts: the
  states on which the properties are evaluated.\<close>

definition an_agent :: "string \<Rightarrow> string \<Rightarrow> agents_row" where
  "an_agent i name = \<lparr>agents_id = i, agents_name = name, agents_kind = ''claude'', agents_workdir = ''/w'',
     agents_process_id = 1, agents_capabilities = noCapabilities, agents_internal = 0,
     agents_state = AgentActive, agents_registered_at = 0, agents_last_heartbeat_at = 0\<rparr>"

definition sample_world :: world where
  "sample_world = (start_world (\<lambda>n. int n * Second) (\<lambda>n. (of_nat n, replicate 10 (of_nat n)))
     (\<lambda>n. replicate 32 (of_nat n)) (\<lambda>n. n) (\<lambda>_. 1))
     \<lparr>w_db := empty_db\<lparr>agents := [an_agent ''agent_a'' ''alpha'', an_agent ''agent_b'' ''beta'']\<rparr>\<rparr>"

definition sample_resource :: Resource where
  "sample_resource = \<lparr>res_Name = ''gpu'', res_Capacity = 1, res_LeaseTimeToLive = 5 * Minute,
     res_Description = [], res_CreatedAt = zeroTime\<rparr>"

definition sample_request :: "string \<Rightarrow> AcquireRequest" where
  "sample_request agent = \<lparr>aq_AgentID = agent, aq_ResourceName = ''gpu'', aq_Priority = 0,
     aq_Reason = ''tests'', aq_Metadata = ''{}'', aq_NoWait = True\<rparr>"

definition defined_world :: world where
  "defined_world = snd (Define Minute ''agent_a'' sample_resource sample_world)"

definition joined_entry :: QueueEntry where
  "joined_entry = snd (projr (fst (joinQueue (sample_request ''agent_a'') defined_world)))"

definition joined_world :: world where
  "joined_world = snd (joinQueue (sample_request ''agent_a'') defined_world)"

definition granted_world :: world where
  "granted_world = snd (tryGrant joined_entry ''{}'' joined_world)"

lemma sample_steps:
  "succeeded (fst (Define Minute ''agent_a'' sample_resource sample_world)) \<and>
   succeeded (fst (joinQueue (sample_request ''agent_a'') defined_world)) \<and>
   (case fst (tryGrant joined_entry ''{}'' joined_world) of Inr (Some _) \<Rightarrow> True | _ \<Rightarrow> False) \<and>
   length (leases (w_db granted_world)) = 1 \<and>
   slots_held ''gpu'' (requireMicros (time_of granted_world)) (w_db granted_world) = 1"
  by code_simp

lemma defined_ok: "succeeded (fst (Define Minute ''agent_a'' sample_resource sample_world))"
  using sample_steps by blast

lemma joined_ok: "succeeded (fst (joinQueue (sample_request ''agent_a'') defined_world))"
  using sample_steps by blast

lemma granted_ok: "\<exists>lease. fst (tryGrant joined_entry ''{}'' joined_world) = Inr (Some lease)"
  using sample_steps by (auto split: sum.splits option.splits)

lemma one_lease: "length (leases (w_db granted_world)) = 1"
  using sample_steps by blast

lemma slot_taken: "slots_held ''gpu'' (requireMicros (time_of granted_world)) (w_db granted_world) = 1"
  using sample_steps by blast

text \<open>The second agent asks for the slot the first one holds, without waiting.\<close>

definition refused_entry :: QueueEntry where
  "refused_entry = snd (projr (fst (joinQueue (sample_request ''agent_b'') granted_world)))"

lemma refused:
  "succeeded (fst (joinQueue (sample_request ''agent_b'') granted_world)) \<and>
   fst (Acquire [] (sample_request ''agent_b'') granted_world) = Some (Inl ErrCapacityReached)"
  by code_simp

end
