(* ===== verification/LeasingProperties.thy ===== *)
theory LeasingProperties
  imports Scenario
begin

section \<open>Properties of the leasing service\<close>

subsection \<open>Runs on the sample\<close>

lemma mono_sample: "mono (w_clock sample_world)"
  by (simp add: sample_world_def start_world_def mono_def)

lemma fresh_sample: "no_leasing_yet sample_world"
  by (simp add: sample_world_def start_world_def no_leasing_yet_def empty_db_def)

lemma sample_defined: "lease_run Minute sample_world [sample_resource] [] defined_world"
  unfolding defined_world_def
  by (rule lease_run.define_ok [OF lease_run.start, where actor = "''agent_a''" and u = "()"])
     (use defined_ok in \<open>auto simp: prod_eq_iff succeeded_def split: sum.splits\<close>)

lemma sample_joined:
  "lease_run Minute sample_world [sample_resource] [joined_entry] joined_world"
  unfolding joined_world_def joined_entry_def
  by (rule lease_run.join_ok [OF sample_defined, where rq = "sample_request ''agent_a''" and r = "fst (projr (fst (joinQueue (sample_request ''agent_a'') defined_world)))"])
     (use joined_ok in \<open>auto simp: prod_eq_iff succeeded_def split: sum.splits\<close>)

lemma sample_held: "lease_run Minute sample_world [sample_resource] [joined_entry] granted_world"
  unfolding granted_world_def by (rule lease_run.look [OF sample_joined]) simp

subsection \<open>Safety\<close>

text \<open>C1: In every reachable state at most as many slots of a resource are held at the current
  instant as the largest capacity it was ever defined with, however the operations of the service
  interleave.\<close>

theorem capacity_never_exceeded:
  assumes "lease_run ttl w0 defs es w" and "no_leasing_yet w0" and "mono (w_clock w0)"
    and "0 \<le> B" and "\<forall>r \<in> set defs. res_Name r = name \<longrightarrow> res_Capacity r \<le> B"
  shows "int (slots_held name (requireMicros (time_of w)) (w_db w)) \<le> B"
  using assms by (rule capacity_bound)

theorem capacity_never_exceeded_witness:
  "int (slots_held ''gpu'' (requireMicros (time_of granted_world)) (w_db granted_world)) \<le> 1 \<and>
   slots_held ''gpu'' (requireMicros (time_of granted_world)) (w_db granted_world) = 1"
proof
  show "int (slots_held ''gpu'' (requireMicros (time_of granted_world)) (w_db granted_world)) \<le> 1"
    by (rule capacity_never_exceeded [OF sample_held fresh_sample mono_sample]) (simp_all add: sample_resource_def)
qed (fact slot_taken)

text \<open>C2: In every reachable state queue entries and leases have unique keys, each lease belongs
  to exactly one queue entry of the same agent and resource, that entry is recorded as granted,
  and every entry recorded as granted has its lease: no request is ever granted twice.\<close>

theorem one_lease_per_grant:
  assumes "lease_run ttl w0 defs es w" and "no_leasing_yet w0"
  shows "linked (w_db w)"
  using run_linked [OF assms] ..

theorem one_lease_per_grant_witness:
  "linked (w_db granted_world) \<and> length (leases (w_db granted_world)) = 1"
  using one_lease_per_grant [OF sample_held fresh_sample] one_lease by simp

subsection \<open>The queue\<close>

text \<open>C3: A slot is granted only to an entry that waits, whose resource has room, and that comes
  first in service order among all entries waiting for that resource; the lease is for the entry's
  agent, starts now and lasts the resource's time to live; it takes exactly one slot.\<close>

theorem grants_in_service_order:
  assumes "tryGrant entry metadata w = (Inr (Some lease), w')"
  shows "\<exists>row res. row \<in> set (queue_entries (w_db w)) \<and> queue_entries_id row = qe_ID entry \<and>
     waits_for (qe_ResourceName entry) row \<and>
     (\<forall>other \<in> set (queue_entries (w_db w)). waits_for (qe_ResourceName entry) other \<longrightarrow> rank_of row \<le> rank_of other) \<and>
     res \<in> set (resources (w_db w)) \<and> resources_name res = qe_ResourceName entry \<and>
     int (slots_held (qe_ResourceName entry) (requireMicros (time_of w)) (w_db w)) < resources_capacity res \<and>
     lease = granted_lease entry metadata (lease_ID lease) (resources_lease_ttl_micros res * 1000) (time_of w) \<and>
     leases (w_db w') = leases (w_db w) @ [lease_row_of lease]"
proof -
  from assms obtain v where g: "grant_body entry metadata w = (Inr (Some lease), v)" and w': "w_db w' = w_db v"
    by (auto elim: tryGrant_cases)
  from g show ?thesis
  proof (cases rule: grant_body_Inr)
    case (grant row res first rest)
    from grant(8) obtain i where
      lease: "lease = granted_lease (entry\<lparr>qe_ResourceName := qe_ResourceName entry\<rparr>) metadata i
        (resources_lease_ttl_micros res * 1000) (time_of w)"
      and ls: "leases (w_db v) = leases (w_db w) @ [lease_row_of lease]"
      by (rule grant_lease_Inr) (simp add: grant(4))
    have "lease = granted_lease entry metadata (lease_ID lease) (resources_lease_ttl_micros res * 1000) (time_of w)"
      unfolding lease by simp
    with waiting_rows_head [OF grant(6)] grant(4,5,7) first_where_Some [OF grant(3)] ls show ?thesis
      unfolding w' by blast
  qed simp
qed

theorem grants_in_service_order_witness:
  "\<exists>lease w'. tryGrant joined_entry ''{}'' joined_world = (Inr (Some lease), w') \<and>
     leases (w_db w') = leases (w_db joined_world) @ [lease_row_of lease]"
proof -
  obtain lease w' where "tryGrant joined_entry ''{}'' joined_world = (Inr (Some lease), w')"
    using granted_ok by (cases "tryGrant joined_entry ''{}'' joined_world")
      (auto simp: succeeded_def split: sum.splits)
  with grants_in_service_order [OF this] show ?thesis by blast
qed


text \<open>An entry that is first in service order for a resource with room gets its lease the next
  time it looks, provided its agent still exists and the identifier drawn is new; so a free slot
  never stays unused while somebody who looks is at the head.\<close>

theorem head_with_room_is_granted:
  assumes "linked (w_db w)" and "row \<in> set (queue_entries (w_db w))" and "stands_for entry row"
    and "queue_entries_state row = QueueWaiting"
    and "\<forall>other \<in> set (queue_entries (w_db w)). waits_for (qe_ResourceName entry) other \<longrightarrow> rank_of row \<le> rank_of other"
    and "first_where (\<lambda>r. resources_name r = qe_ResourceName entry) (resources (w_db w)) = Some res"
    and "int (slots_held (qe_ResourceName entry) (requireMicros (time_of w)) (w_db w)) < resources_capacity res"
    and "0 < resources_lease_ttl_micros res"
    and "qe_AgentID entry \<noteq> []" and "agent_exists (w_db w) (qe_AgentID entry)"
    and "w_entropy w (w_drawn w) = (ms, rnd)" and "\<not> lease_exists (w_db w) (New ''lease'' ms rnd)"
  shows "fst (tryGrant entry metadata w) = Inr (Some (granted_lease entry metadata (New ''lease'' ms rnd)
     (resources_lease_ttl_micros res * 1000) (time_of w)))"
proof -
  let ?name = "qe_ResourceName entry"
  have row: "queue_entries_id row = qe_ID entry" "queue_entries_resource_name row = ?name"
    using assms(3) by (simp_all add: stands_for_def)
  have found: "first_where (\<lambda>r. queue_entries_id r = qe_ID entry) (queue_entries (w_db w)) = Some row"
    using assms(1,2) row(1) first_where_key [of queue_entries_id "queue_entries (w_db w)" row]
    by (simp add: linked_def)
  have "row \<in> set (waiting_rows ?name (w_db w))"
    using assms(2,4) row(2) by (simp add: set_waiting_rows waits_for_def)
  then obtain first rest where rows: "waiting_rows ?name (w_db w) = first # rest"
    by (cases "waiting_rows ?name (w_db w)") auto
  with waiting_rows_head [OF rows] assms(2,4,5) row(2) have "rank_of first = rank_of row"
    by (auto simp: waits_for_def intro: antisym)
  then have "queue_entries_id first = qe_ID entry" using row(1) by (simp add: rank_of_def)
  with rows have head: "at_head entry (map scanQueueEntry (waiting_rows ?name (w_db w)))"
    by (simp add: at_head_def)
  have name: "resources_name res = ?name" using first_where_Some [OF assms(6)] by simp
  have waits: "exists_where (waits_as (qe_ID entry)) (queue_entries (w_db w))"
    using assms(2,4) row(1) by (auto simp: exists_where_iff)
  have res: "resource_exists (w_db w) ?name" and ent: "queue_entry_exists (w_db w) (qe_ID entry)"
    using first_where_Some [OF assms(6)] assms(2) row(1)
    by (auto simp: resource_exists_def queue_entry_exists_def exists_where_iff)
  let ?v = "w\<lparr>w_ticks := Suc (w_ticks w)\<rparr>"
  let ?lease = "granted_lease entry metadata (New ''lease'' ms rnd) (resources_lease_ttl_micros res * 1000) (time_of w)"
  have created: "CreateLease ?lease (w_db w) = Inr ((w_db w)\<lparr>leases := leases (w_db w) @ [lease_row_of ?lease]\<rparr>)"
    using assms(8-10,12) res ent by (simp add: CreateLease_Inr New_def nullString_def)
  let ?d1 = "(w_db w)\<lparr>leases := leases (w_db w) @ [lease_row_of ?lease]\<rparr>"
  obtain d2 where d2: "ResolveQueueEntry (qe_ID entry) QueueGranted (time_of w) ?d1 = Inr d2"
    using waits by (simp add: Resolve_Inr)
  from audit_in_ok [OF assms(9), of AuditLeaseGranted ?name "''lease '' @ New ''lease'' ms rnd" "time_of w" "?v\<lparr>w_drawn := Suc (w_drawn w), w_db := d2\<rparr>"]
  obtain v3 where d3: "audit_in (qe_AgentID entry) AuditLeaseGranted ?name (''lease '' @ New ''lease'' ms rnd)
      (time_of w) (?v\<lparr>w_drawn := Suc (w_drawn w), w_db := d2\<rparr>) = (Inr (), v3)"
    by auto
  have "fst (grant_lease entry metadata (scanResource res) (time_of w) ?v) = Inr (Some ?lease)"
    using created assms(11) d2 d3 name
    by (simp add: grant_lease_def bindE_apply newID_def exec_apply granted_lease_def Let_def)
  then have "fst (grant_body entry metadata w) = Inr (Some ?lease)"
    using found assms(4,6,7) head by (simp add: grant_body_eq Let_def)
  then obtain v where "grant_body entry metadata w = (Inr (Some ?lease), v)"
    by (cases "grant_body entry metadata w") auto
  then show ?thesis
    by (simp add: tryGrant_def bindE_apply InTransaction_def signal_resource_def)
qed

text \<open>Cancelling an entry that no longer waits is refused and changes nothing, so a withdrawal
  that loses the race with a grant cannot undo it; somebody else's entry is refused unless the
  call is forced; otherwise exactly that entry is cancelled.\<close>

theorem cancel_outcome:
  assumes "distinct (map queue_entries_id (queue_entries (w_db w)))" and "actor \<noteq> []"
    and "row \<in> set (queue_entries (w_db w))"
  shows "\<exists>r w'. cancel actor (queue_entries_id row) force w = (r, w') \<and>
     (if \<not> force \<and> queue_entries_agent_id row \<noteq> actor then r = Inl ErrUnauthorised \<and> w_db w' = w_db w
      else if queue_entries_state row \<noteq> QueueWaiting then r = Inl ErrConflict \<and> w_db w' = w_db w
      else r = Inr () \<and> leases (w_db w') = leases (w_db w) \<and>
        queue_entries (w_db w') = cancel_entries (\<lambda>e. e = row) (time_of w) (queue_entries (w_db w)))"
proof -
  let ?i = "queue_entries_id row"
  have found: "QueueEntryByID ?i (w_db w) = Inr (scanQueueEntry row)"
    using first_where_key [OF assms(1,3)] by (simp add: QueueEntryByID_Inr)
  have only: "e = row" if "e \<in> set (queue_entries (w_db w))" "queue_entries_id e = ?i" for e
    using distinct_key_eq [OF assms(1) that(1) assms(3) that(2)] .
  consider (theirs) "\<not> force" "queue_entries_agent_id row \<noteq> actor"
    | (resolved) "force \<or> queue_entries_agent_id row = actor" "queue_entries_state row \<noteq> QueueWaiting"
    | (waits) "force \<or> queue_entries_agent_id row = actor" "queue_entries_state row = QueueWaiting"
    by blast
  then show ?thesis
  proof cases
    case theirs
    with found show ?thesis by (simp add: cancel_def bindE_apply InTransaction_def)
  next
    case resolved
    then have "\<not> exists_where (waits_as ?i) (queue_entries (w_db w))" using only by (auto simp: exists_where_iff)
    then have "ResolveQueueEntry ?i QueueCancelled (time_of w) (w_db w) = Inl ErrConflict"
      by (simp add: ResolveQueueEntry_def Let_def count_where_zero [THEN iffD2])
    with found resolved show ?thesis
      by (cases force) (auto simp: cancel_def bindE_apply InTransaction_def exec_apply)
  next
    case waits
    then have w: "exists_where (waits_as ?i) (queue_entries (w_db w))" using assms(3) by (auto simp: exists_where_iff)
    then obtain d1 where d1: "ResolveQueueEntry ?i QueueCancelled (time_of w) (w_db w) = Inr d1"
      by (simp add: Resolve_Inr)
    then have eff: "queue_entries d1 = cancel_entries (\<lambda>e. e = row) (time_of w) (queue_entries (w_db w))"
      "leases d1 = leases (w_db w)"
      using only waits by (auto simp: Resolve_Inr cancel_entries_def intro!: update_where_cong)
    let ?detail = "if queue_entries_agent_id row \<noteq> actor
             then ''entry '' @ ?i @ '' force-cancelled for '' @ queue_entries_agent_id row else ''entry '' @ ?i"
    obtain d2 where d2: "audit_in actor AuditQueueCancelled (queue_entries_resource_name row) ?detail (time_of w)
          (w\<lparr>w_ticks := Suc (w_ticks w), w_db := d1\<rparr>) = (Inr (), w\<lparr>w_ticks := Suc (w_ticks w), w_db := d2\<rparr>)"
      "queue_entries d2 = queue_entries d1" "leases d2 = leases d1"
      using audit_in_ok [OF assms(2), of AuditQueueCancelled "queue_entries_resource_name row" ?detail "time_of w"
          "w\<lparr>w_ticks := Suc (w_ticks w), w_db := d1\<rparr>"] by (auto simp: Audit_Append_frame)
    with found waits d1 eff show ?thesis
      by (auto simp: cancel_def bindE_apply InTransaction_def exec_apply signal_resource_def Let_def)
  qed
qed

text \<open>C6: A failed \<open>Acquire\<close> leaves no waiting entry behind, whatever made it fail (no slot with
  \<open>NoWait\<close>, a cancelled context, a vanished resource) and whatever others did while it waited.\<close>

theorem failed_acquire_leaves_queue:
  assumes "joinQueue request w = (Inr (resource, entry), w1)"
    and "Acquire pauses request w = (Some (Inl e), w')"
  shows "\<not> exists_where (waits_as (qe_ID entry)) (queue_entries (w_db w'))"
proof -
  from assms obtain v where w': "w' = snd (abandon entry e v)"
    by (auto simp: Acquire_def split: option.splits sum.splits prod.splits)
  let ?st = "if e = ErrCapacityReached then QueueExpired else QueueCancelled"
  have st: "Terminal ?st" "QueueEntryState_Valid ?st" by auto
  show ?thesis
  proof (cases "ResolveQueueEntry (qe_ID entry) ?st (time_of v) (w_db v)")
    case (Inl er)
    then have "w_db w' = w_db v"
      by (simp add: w' abandon_def bindE_apply attemptE_apply exec_apply)
    with Resolve_Inl [OF Inl st] show ?thesis by simp
  next
    case (Inr d)
    then have "w_db w' = d"
      by (simp add: w' abandon_def bindE_apply attemptE_apply exec_apply signal_resource_def)
    with Inr st show ?thesis by (auto simp: Resolve_Inr exists_where_iff set_update_where split: if_splits)
  qed
qed

subsection \<open>Keeping and giving back\<close>

lemma LeaseByID_row:
  assumes "distinct (map leases_id (leases d))" and "row \<in> set (leases d)"
  shows "LeaseByID (leases_id row) d = Inr (scanLease row)"
  using first_where_key [OF assms] by (simp add: LeaseByID_Inr)

text \<open>A renewal succeeds exactly when the lease is the caller's and still holds its slot (and its
  resource still exists): a lease that expired or was released is never revived. It moves the
  expiry of that lease alone to now plus the resource's time to live; a refusal changes nothing.\<close>

theorem renewal:
  assumes "distinct (map leases_id (leases (w_db w)))" and "agent \<noteq> []" and "row \<in> set (leases (w_db w))"
  shows "case Renew agent (leases_id row) w of
      (Inr l, w') \<Rightarrow> leases_agent_id row = agent \<and> holds_at (requireMicros (time_of w)) row \<and>
        (\<exists>res. Resources_ByName (leases_resource_name row) (w_db w) = Inr res \<and>
          leases (w_db w') = update_where (\<lambda>r. r = row) (\<lambda>r. r\<lparr>leases_expires_at :=
            requireMicros (time_of w + res_LeaseTimeToLive res)\<rparr>) (leases (w_db w))) \<and>
        queue_entries (w_db w') = queue_entries (w_db w)
    | (Inl e, w') \<Rightarrow> w_db w' = w_db w \<and> \<not> (leases_agent_id row = agent \<and>
        holds_at (requireMicros (time_of w)) row \<and> resource_exists (w_db w) (leases_resource_name row))"
proof -
  let ?i = "leases_id row"
  have l: "LeaseByID ?i (w_db w) = Inr (scanLease row)" by (rule LeaseByID_row [OF assms(1,3)])
  have only: "(leases_id r = ?i \<and> holds_at us r) = (r = row \<and> holds_at us row)" if "r \<in> set (leases (w_db w))" for r us
    using distinct_key_eq [OF assms(1) that assms(3)] by auto
  obtain r w' where R: "Renew agent ?i w = (r, w')" by (rule prod.exhaust)
  show ?thesis
  proof (cases r)
    case (Inr l')
    from R show ?thesis
    proof (cases rule: Renew_cases)
      case (ok lease res)
      then obtain row' where row': "row' \<in> set (leases (w_db w))" "leases_id row' = ?i"
        "holds_at (requireMicros (time_of w)) row'" by blast
      with only have held: "holds_at (requireMicros (time_of w)) row" by blast
      have "update_where (\<lambda>r. leases_id r = ?i \<and> holds_at (requireMicros (time_of w)) r) f (leases (w_db w)) =
          update_where (\<lambda>r. r = row) f (leases (w_db w))" for f
        by (rule update_where_cong) (use only held in blast)
      with ok l R held show ?thesis by auto
    qed (use Inr in simp)
  next
    case (Inl e)
    with R have same: "w_db w' = w_db w" by (auto elim: Renew_cases)
    moreover have "\<not> (leases_agent_id row = agent \<and>
        holds_at (requireMicros (time_of w)) row \<and> resource_exists (w_db w) (leases_resource_name row))"
    proof
      assume ok: "leases_agent_id row = agent \<and>
        holds_at (requireMicros (time_of w)) row \<and> resource_exists (w_db w) (leases_resource_name row)"
      then obtain res where res: "Resources_ByName (leases_resource_name row) (w_db w) = Inr res"
        by (cases "first_where (\<lambda>r. resources_name r = leases_resource_name row) (resources (w_db w))")
          (auto simp: Resources_ByName_def resource_exists_def exists_where_iff first_where_None)
      let ?v = "w\<lparr>w_ticks := Suc (w_ticks w)\<rparr>"
      obtain d1 where d1: "Leases_Renew ?i (time_of w + res_LeaseTimeToLive res) (time_of w) (w_db w) = Inr d1"
        using ok assms(3) by (auto simp: Renew_Inr exists_where_iff)
      from audit_in_ok [OF assms(2), of AuditLeaseRenewed "leases_resource_name row" "''lease '' @ ?i" "time_of w" "?v\<lparr>w_db := d1\<rparr>"]
      obtain d2 where "audit_in agent AuditLeaseRenewed (leases_resource_name row) (''lease '' @ ?i) (time_of w) (?v\<lparr>w_db := d1\<rparr>) =
          (Inr (), ?v\<lparr>w_db := d2\<rparr>)" by auto
      with R Inl l ok res d1 show False
        by (simp add: Renew_def bindE_apply InTransaction_def exec_apply Let_def)
    qed
    ultimately show ?thesis using R Inl by simp
  qed
qed

text \<open>Releasing a lease that is not one's own is refused, unless forced, and changes nothing;
  otherwise it frees exactly that lease and no other row, and doing it again changes no lease.\<close>

theorem release_outcome:
  assumes "distinct (map leases_id (leases (w_db w)))" and "actor \<noteq> []" and "row \<in> set (leases (w_db w))"
  shows "\<exists>r w'. release actor (leases_id row) force w = (r, w') \<and>
     (if \<not> force \<and> leases_agent_id row \<noteq> actor then r = Inl ErrUnauthorised \<and> w_db w' = w_db w
      else r = Inr () \<and> queue_entries (w_db w') = queue_entries (w_db w) \<and>
        leases (w_db w') = close_leases (\<lambda>l. l = row \<and> leases_released_at l = None) (time_of w) (leases (w_db w)))"
proof (cases "\<not> force \<and> leases_agent_id row \<noteq> actor")
  case True
  with LeaseByID_row [OF assms(1,3)] show ?thesis by (simp add: release_def bindE_apply InTransaction_def)
next
  case False
  let ?i = "leases_id row" and ?v = "w\<lparr>w_ticks := Suc (w_ticks w)\<rparr>"
  obtain d1 where d1: "Leases_Release ?i (time_of w) (w_db w) = Inr d1" by (simp add: Leases_Release_def)
  have eff: "leases d1 = close_leases (\<lambda>l. l = row \<and> leases_released_at l = None) (time_of w) (leases (w_db w))"
    "queue_entries d1 = queue_entries (w_db w)"
    using d1 distinct_key_eq [OF assms(1) _ assms(3)]
    by (auto simp: Release_Inr close_leases_def intro!: update_where_cong)
  let ?detail = "if leases_agent_id row \<noteq> actor
             then ''lease '' @ ?i @ '' force-released from '' @ leases_agent_id row else ''lease '' @ ?i"
  obtain d2 where "audit_in actor AuditLeaseReleased (leases_resource_name row) ?detail (time_of w) (?v\<lparr>w_db := d1\<rparr>) =
      (Inr (), ?v\<lparr>w_db := d2\<rparr>)" "queue_entries d2 = queue_entries d1" "leases d2 = leases d1"
    using audit_in_ok [OF assms(2), of AuditLeaseReleased "leases_resource_name row" ?detail "time_of w" "?v\<lparr>w_db := d1\<rparr>"]
    by (auto simp: Audit_Append_frame)
  with False LeaseByID_row [OF assms(1,3)] d1 eff show ?thesis
    by (auto simp: release_def bindE_apply InTransaction_def exec_apply signal_resource_def Let_def)
qed

theorem failed_acquire_leaves_queue_witness:
  "\<exists>e w'. Acquire [] (sample_request ''agent_b'') granted_world = (Some (Inl e), w') \<and>
     \<not> exists_where (waits_as (qe_ID refused_entry)) (queue_entries (w_db w'))"
proof -
  obtain r w1 where j: "joinQueue (sample_request ''agent_b'') granted_world = (Inr (r, refused_entry), w1)"
    using refused by (cases "joinQueue (sample_request ''agent_b'') granted_world")
      (auto simp: refused_entry_def succeeded_def split: sum.splits)
  obtain w' where a: "Acquire [] (sample_request ''agent_b'') granted_world = (Some (Inl ErrCapacityReached), w')"
    using refused by (cases "Acquire [] (sample_request ''agent_b'') granted_world") auto
  from failed_acquire_leaves_queue [OF j a] a show ?thesis by blast
qed

subsection \<open>Reclaiming\<close>

text \<open>Reaping closes every lease whose time is up and no other, reports how many, and never
  touches the queue.\<close>

theorem reap_closes_exactly_the_expired:
  assumes "distinct (map leases_id (leases (w_db w)))"
  shows "\<exists>w'. ReapExpired w = (Inr (count_where (\<lambda>r. leases_released_at r = None \<and>
        leases_expires_at r \<le> requireMicros (time_of w)) (leases (w_db w))), w') \<and>
     leases (w_db w') = close_leases (\<lambda>r. leases_released_at r = None \<and>
        leases_expires_at r \<le> requireMicros (time_of w)) (time_of w) (leases (w_db w)) \<and>
     queue_entries (w_db w') = queue_entries (w_db w)"
  using assms by (rule ReapExpired_effect)

text \<open>When an agent goes, every slot it holds is freed and every request it has waiting is
  cancelled, in one step, and nobody else's rows change.\<close>

theorem departed_agent_holds_nothing:
  assumes "linked (w_db w)" and "actor \<noteq> []"
  shows "\<exists>n w'. ReleaseEverythingHeldBy actor agent reason w = (Inr n, w') \<and>
     n = count_where (\<lambda>r. leases_agent_id r = agent \<and> holds_at (requireMicros (time_of w)) r) (leases (w_db w)) \<and>
     \<not> exists_where (\<lambda>r. leases_agent_id r = agent \<and> holds_at (requireMicros (time_of w)) r) (leases (w_db w')) \<and>
     \<not> exists_where (\<lambda>r. queue_entries_agent_id r = agent \<and> queue_entries_state r = QueueWaiting) (queue_entries (w_db w')) \<and>
     filter (\<lambda>r. leases_agent_id r \<noteq> agent) (leases (w_db w')) = filter (\<lambda>r. leases_agent_id r \<noteq> agent) (leases (w_db w)) \<and>
     filter (\<lambda>r. queue_entries_agent_id r \<noteq> agent) (queue_entries (w_db w')) =
       filter (\<lambda>r. queue_entries_agent_id r \<noteq> agent) (queue_entries (w_db w))"
proof -
  have others: "filter (\<lambda>r. k r \<noteq> a) (update_where P f xs) = filter (\<lambda>r. k r \<noteq> a) xs"
    if "\<And>r. P r \<Longrightarrow> k r = a" "\<And>r. k (f r) = k r" for k :: "'r \<Rightarrow> string" and a P f xs
    using that by (induction xs) (auto simp: update_where_def)
  from assms(1) have d: "distinct (map leases_id (leases (w_db w)))"
    "distinct (map queue_entries_id (queue_entries (w_db w)))" by (simp_all add: linked_def)
  from ReleaseEverything_effect [OF d assms(2), of agent reason] obtain w' where
    e: "ReleaseEverythingHeldBy actor agent reason w =
       (Inr (count_where (\<lambda>r. leases_agent_id r = agent \<and> holds_at (requireMicros (time_of w)) r) (leases (w_db w))), w')"
    "leases (w_db w') = close_leases (\<lambda>r. leases_agent_id r = agent \<and> holds_at (requireMicros (time_of w)) r)
       (time_of w) (leases (w_db w))"
    "queue_entries (w_db w') = cancel_entries (\<lambda>r. queue_entries_agent_id r = agent \<and> queue_entries_state r = QueueWaiting)
       (time_of w) (queue_entries (w_db w))" by blast
  show ?thesis
  proof (intro exI conjI)
    show "ReleaseEverythingHeldBy actor agent reason w = (Inr (count_where (\<lambda>r. leases_agent_id r = agent \<and>
        holds_at (requireMicros (time_of w)) r) (leases (w_db w))), w')" by (fact e(1))
    show "\<not> exists_where (\<lambda>r. leases_agent_id r = agent \<and> holds_at (requireMicros (time_of w)) r) (leases (w_db w'))"
      unfolding e(2) close_leases_def by (rule update_where_clears) (auto simp: holds_at_def)
    show "\<not> exists_where (\<lambda>r. queue_entries_agent_id r = agent \<and> queue_entries_state r = QueueWaiting) (queue_entries (w_db w'))"
      unfolding e(3) cancel_entries_def by (rule update_where_clears) auto
    show "filter (\<lambda>r. leases_agent_id r \<noteq> agent) (leases (w_db w')) = filter (\<lambda>r. leases_agent_id r \<noteq> agent) (leases (w_db w))"
      unfolding e(2) close_leases_def by (rule others) auto
    show "filter (\<lambda>r. queue_entries_agent_id r \<noteq> agent) (queue_entries (w_db w')) =
       filter (\<lambda>r. queue_entries_agent_id r \<noteq> agent) (queue_entries (w_db w))"
      unfolding e(3) cancel_entries_def by (rule others) auto
  qed (rule refl)
qed

text \<open>The operator's \<open>FreeResource\<close> closes exactly the leases that hold a slot of the resource now,
  and \<open>ClearQueue\<close> cancels exactly the entries waiting for it; each reports how many and leaves the
  other table alone.\<close>

theorem operator_reclaims:
  assumes "linked (w_db w)" and "resource_exists (w_db w) name" and "actor \<noteq> []"
  shows "(\<exists>w'. FreeResource actor name w = (Inr (slots_held name (requireMicros (time_of w)) (w_db w)), w') \<and>
       leases (w_db w') = close_leases (holds_slot name (requireMicros (time_of w))) (time_of w) (leases (w_db w)) \<and>
       queue_entries (w_db w') = queue_entries (w_db w)) \<and>
     (\<exists>w'. ClearQueue actor name w = (Inr (count_where (waits_for name) (queue_entries (w_db w))), w') \<and>
       queue_entries (w_db w') = cancel_entries (waits_for name) (time_of w) (queue_entries (w_db w)) \<and>
       leases (w_db w') = leases (w_db w))"
  using FreeResource_effect [OF _ assms(2,3)] ClearQueue_effect [OF _ assms(2,3)] assms(1)
  unfolding linked_def by blast

subsection \<open>History and atomicity\<close>

text \<open>Along any run no row of the queue or of the leases is deleted, a resolved queue entry never
  changes again, a lease keeps its resource, agent and entry and once released never changes again,
  and the audit log is only appended to.\<close>

theorem history_is_permanent:
  assumes "lease_run ttl w0 defs es w"
  shows "(\<exists>new. audit_log (w_db w) = audit_log (w_db w0) @ new) \<and>
    (\<forall>i < length (queue_entries (w_db w0)). i < length (queue_entries (w_db w)) \<and>
       (Terminal (queue_entries_state (queue_entries (w_db w0) ! i)) \<longrightarrow>
          queue_entries (w_db w) ! i = queue_entries (w_db w0) ! i)) \<and>
    (\<forall>i < length (leases (w_db w0)). i < length (leases (w_db w)) \<and>
       identity_of (leases (w_db w) ! i) = identity_of (leases (w_db w0) ! i) \<and>
       (leases_released_at (leases (w_db w0) ! i) \<noteq> None \<longrightarrow>
          leases (w_db w) ! i = leases (w_db w0) ! i))"
proof -
  from run_history [OF assms] have q: "evolves entry_evolves (queue_entries (w_db w0)) (queue_entries (w_db w))"
    and l: "evolves lease_evolves (leases (w_db w0)) (leases (w_db w))"
    and a: "\<exists>new. audit_log (w_db w) = audit_log (w_db w0) @ new"
    by (simp_all add: history_kept_def)
  have ident: "identity_of r' = identity_of r" if "lease_evolves r r'" for r r'
    using that unfolding lease_evolves_def identity_of_def by (cases r; cases r') auto
  show ?thesis
  proof (intro conjI allI impI)
    show "\<exists>new. audit_log (w_db w) = audit_log (w_db w0) @ new" by (fact a)
  next
    fix i assume "i < length (queue_entries (w_db w0))"
    with q show "i < length (queue_entries (w_db w))" by (simp add: evolves_def)
  next
    fix i assume "i < length (queue_entries (w_db w0))" "Terminal (queue_entries_state (queue_entries (w_db w0) ! i))"
    with q show "queue_entries (w_db w) ! i = queue_entries (w_db w0) ! i"
      by (auto simp: evolves_def entry_evolves_def Terminal_def)
  next
    fix i assume "i < length (leases (w_db w0))"
    with l show "i < length (leases (w_db w))" "identity_of (leases (w_db w) ! i) = identity_of (leases (w_db w0) ! i)"
      by (simp_all add: evolves_def ident)
  next
    fix i assume "i < length (leases (w_db w0))" "leases_released_at (leases (w_db w0) ! i) \<noteq> None"
    with l show "leases (w_db w) ! i = leases (w_db w0) ! i" by (simp add: evolves_def lease_evolves_def)
  qed
qed

text \<open>An operation of the service that fails leaves the database as it found it.\<close>

theorem failures_change_nothing:
  "(tryGrant entry metadata w = (Inl e, w') \<longrightarrow> w_db w' = w_db w) \<and>
   (joinQueue request w = (Inl e, w') \<longrightarrow> w_db w' = w_db w) \<and>
   (Define ttl actor resource w = (Inl e, w') \<longrightarrow> w_db w' = w_db w) \<and>
   (Renew actor i w = (Inl e, w') \<longrightarrow> w_db w' = w_db w) \<and>
   (release actor i force w = (Inl e, w') \<longrightarrow> w_db w' = w_db w) \<and>
   (cancel actor i force w = (Inl e, w') \<longrightarrow> w_db w' = w_db w) \<and>
   (ReleaseEverythingHeldBy actor i reason w = (Inl e, w') \<longrightarrow> w_db w' = w_db w) \<and>
   (FreeResource actor i w = (Inl e, w') \<longrightarrow> w_db w' = w_db w) \<and>
   (ClearQueue actor i w = (Inl e, w') \<longrightarrow> w_db w' = w_db w) \<and>
   (ReapExpired w = (Inl e, w') \<longrightarrow> w_db w' = w_db w)"
proof (intro conjI impI)
  show "w_db w' = w_db w" if "tryGrant entry metadata w = (Inl e, w')"
    using that by (auto elim: tryGrant_cases)
  show "w_db w' = w_db w" if "joinQueue request w = (Inl e, w')"
    using that by (rule joinQueue_err_effect)
  show "w_db w' = w_db w" if "Define ttl actor resource w = (Inl e, w')"
    using that by (rule Define_err_effect)
  show "w_db w' = w_db w" if "Renew actor i w = (Inl e, w')"
    using that by (auto elim: Renew_cases)
  show "w_db w' = w_db w" if "release actor i force w = (Inl e, w')"
    using that unfolding release_def by (auto simp: bindE_Inl [of "transaction _"] transaction_Inl)
  show "w_db w' = w_db w" if "cancel actor i force w = (Inl e, w')"
    using that unfolding cancel_def by (auto simp: bindE_Inl [of "transaction _"] transaction_Inl)
  show "w_db w' = w_db w" if "ReleaseEverythingHeldBy actor i reason w = (Inl e, w')"
    using that unfolding ReleaseEverythingHeldBy_def by (auto simp: bindE_Inl [of "transaction _"] bindE_Inl [of now] bindE_Inl [of signal_every_resource] transaction_Inl)
  show "w_db w' = w_db w" if "FreeResource actor i w = (Inl e, w')"
    using that unfolding FreeResource_def by (auto simp: bindE_Inl [of "transaction _"] bindE_Inl [of now] bindE_Inl [of "signal_resource _"] transaction_Inl)
  show "w_db w' = w_db w" if "ClearQueue actor i w = (Inl e, w')"
    using that unfolding ClearQueue_def by (auto simp: bindE_Inl [of "transaction _"] bindE_Inl [of now] bindE_Inl [of "signal_resource _"] transaction_Inl)
  show "w_db w' = w_db w" if "ReapExpired w = (Inl e, w')"
    using that unfolding ReapExpired_def by (auto simp: bindE_Inl [of "transaction _"] bindE_Inl [of now] bindE_Inl [of signal_every_resource] transaction_Inl split: if_splits)
qed

subsection \<open>Waking up\<close>

text \<open>C7: Nobody parked for a resource misses a release: if a caller took the channel of the lease's
  resource, then whatever watching and signalling happens in between, after a successful release
  of a lease on that resource the caller's channel is closed.\<close>

theorem release_wakes_the_waiting:
  assumes "channels_ok (w_waiters w)" and "watch_resource name w = (Inr channel, w1)"
    and "w_waiters w2 = waiters.wake_run events (w_waiters w1)"
    and "LeaseByID i (w_db w2) = Inr lease" and "lease_ResourceName lease = name"
    and "release actor i force w2 = (Inr u, w3)"
  shows "channel \<in> set (ch_closed (w_waiters w3))"
proof -
  obtain c' where c': "watch name (w_waiters w) = (channel, c')" "w_waiters w1 = c'"
    using assms(2) by (auto simp: watch_resource_def split: prod.splits)
  from assms(4-6) have "w_waiters w3 = signal name (w_waiters w2)"
    by (auto simp: release_def bindE_Inr transaction_Inr exec_Inr audit_in_def signal_resource_def Let_def
        split: if_splits)
  also have "\<dots> = waiters.wake_run (events @ [OnSignal name]) c'"
    by (simp add: assms(3) c' waiters.wake_run_def)
  finally show ?thesis
    using waiters.watch_woken_iff [OF assms(1) c'(1), of "events @ [OnSignal name]"] by simp
qed

theorem release_wakes_the_waiting_witness:
  "\<exists>channel w3. channel \<in> set (ch_closed (w_waiters w3)) \<and>
     release ''agent_a'' (leases_id (hd (leases (w_db granted_world)))) False
       (snd (watch_resource ''gpu'' granted_world)) = (Inr (), w3)"
proof -
  let ?w1 = "snd (watch_resource ''gpu'' granted_world)" and ?i = "leases_id (hd (leases (w_db granted_world)))"
  have facts: "channels_ok (w_waiters granted_world) \<and>
      succeeded (fst (release ''agent_a'' ?i False ?w1)) \<and>
      (case LeaseByID ?i (w_db ?w1) of Inr l \<Rightarrow> lease_ResourceName l = ''gpu'' | Inl _ \<Rightarrow> False)"
    by code_simp
  then obtain lease where l: "LeaseByID ?i (w_db ?w1) = Inr lease" "lease_ResourceName lease = ''gpu''"
    by (auto split: sum.splits)
  obtain channel where c: "watch_resource ''gpu'' granted_world = (Inr channel, ?w1)"
    by (cases "watch ''gpu'' (w_waiters granted_world)") (simp add: watch_resource_def)
  obtain w3 where r: "release ''agent_a'' ?i False ?w1 = (Inr (), w3)"
    using facts by (cases "release ''agent_a'' ?i False ?w1") (auto simp: succeeded_def split: sum.splits)
  have "w_waiters ?w1 = waiters.wake_run [] (w_waiters ?w1)" by (simp add: waiters.wake_run_def)
  with release_wakes_the_waiting [OF _ c _ l r] facts r show ?thesis by blast
qed

end
