(* ===== verification/StoreAgents.thy ===== *)
theory StoreAgents
  imports LeasingBulk
begin

section \<open>Agents and credentials in SQLite\<close>

text \<open>
  \<open>agents.go\<close> and \<open>credentials.go\<close> of \<open>internal/store/sqlite\<close>. The partial unique index
  \<open>agents_active_name\<close> lets one active agent at a time carry a name. Where the SQL orders by a
  column that does not decide between two rows, the model takes them in insertion order.
\<close>

subsection \<open>Agents (\<open>agents.go\<close>)\<close>

record AgentFilter =
  agf_States :: "AgentState list"
  agf_Kinds :: "string list"

text \<open>No other active agent carries the name.\<close>

definition name_free :: "db \<Rightarrow> string \<Rightarrow> string \<Rightarrow> bool" where
  "name_free d name agentID \<longleftrightarrow> \<not> exists_where (\<lambda>r. agents_name r = name \<and>
     agents_state r = AgentActive \<and> agents_id r \<noteq> agentID) (agents d)"

definition boolToInt :: "bool \<Rightarrow> int" where
  "boolToInt value = (if value then 1 else 0)"

definition agent_row_of :: "Agent \<Rightarrow> agents_row" where
  "agent_row_of a = \<lparr>agents_id = agent_ID a, agents_name = agent_Name a, agents_kind = agent_Kind a,
     agents_workdir = agent_Workdir a, agents_process_id = agent_ProcessID a,
     agents_capabilities = agent_Capabilities a, agents_internal = boolToInt (agent_Internal a),
     agents_state = agent_State a, agents_registered_at = requireMicros (agent_RegisteredAt a),
     agents_last_heartbeat_at = requireMicros (agent_LastHeartbeatAt a)\<rparr>"

definition Agents_Create :: "Agent \<Rightarrow> db \<Rightarrow> db res" where
  "Agents_Create a d = (case Agent_Validate a of
      Inl e \<Rightarrow> Inl e
    | Inr _ \<Rightarrow> translated (constrained
        (AgentState_Valid (agent_State a))
        (\<not> agent_exists d (agent_ID a) \<and>
         (agent_State a = AgentActive \<longrightarrow> name_free d (agent_Name a) (agent_ID a)))
        True
        (d\<lparr>agents := agents d @ [agent_row_of a]\<rparr>)))"

text \<open>An update of the rows a condition selects, with the constraints the new rows must meet. They
  are checked only when there is a row to change.\<close>

definition updated :: "nat \<Rightarrow> bool \<Rightarrow> bool \<Rightarrow> db \<Rightarrow> sql_error + (nat \<times> db)" where
  "updated affected checks unique d' =
     (if affected = 0 then Inr (0, d')
      else (case constrained checks unique True d' of Inl e \<Rightarrow> Inl e | Inr d'' \<Rightarrow> Inr (affected, d'')))"

definition Agents_Update :: "Agent \<Rightarrow> db \<Rightarrow> db res" where
  "Agents_Update a d = (case Agent_Validate a of
      Inl e \<Rightarrow> Inl e
    | Inr _ \<Rightarrow> affectedOrNotFound (updated
        (count_where (\<lambda>r. agents_id r = agent_ID a) (agents d))
        (AgentState_Valid (agent_State a))
        (agent_State a = AgentActive \<longrightarrow> name_free d (agent_Name a) (agent_ID a))
        (d\<lparr>agents := update_where (\<lambda>r. agents_id r = agent_ID a) (\<lambda>_. agent_row_of a) (agents d)\<rparr>)))"

definition scanAgent :: "agents_row \<Rightarrow> Agent" where
  "scanAgent r = \<lparr>agent_ID = agents_id r, agent_Name = agents_name r, agent_Kind = agents_kind r,
     agent_Workdir = agents_workdir r, agent_ProcessID = agents_process_id r,
     agent_Capabilities = agents_capabilities r, agent_Internal = (agents_internal r \<noteq> 0),
     agent_State = agents_state r, agent_RegisteredAt = fromRequiredMicros (agents_registered_at r),
     agent_LastHeartbeatAt = fromRequiredMicros (agents_last_heartbeat_at r)\<rparr>"

definition Agents_ByID :: "string \<Rightarrow> db \<Rightarrow> Agent res" where
  "Agents_ByID agentID d = fetch scanAgent (first_where (\<lambda>r. agents_id r = agentID) (agents d))"

definition Agents_ByName :: "string \<Rightarrow> db \<Rightarrow> Agent res" where
  "Agents_ByName name d = fetch scanAgent
     (first_where (\<lambda>r. agents_name r = name \<and> agents_state r = AgentActive) (agents d))"

definition FindForDelivery :: "string \<Rightarrow> db \<Rightarrow> Agent res" where
  "FindForDelivery name d = fetch scanAgent (first_where (\<lambda>_. True)
     (sort_key (\<lambda>r. (if agents_state r = AgentActive then 0 else 1 :: int, - agents_registered_at r))
        (filter (\<lambda>r. agents_name r = name \<and> agents_state r \<noteq> AgentDeregistered) (agents d))))"

definition agent_matches :: "AgentFilter \<Rightarrow> agents_row \<Rightarrow> bool" where
  "agent_matches f r \<longleftrightarrow>
     (agf_States f \<noteq> [] \<longrightarrow> List.member (agf_States f) (agents_state r)) \<and>
     (agf_Kinds f \<noteq> [] \<longrightarrow> List.member (agf_Kinds f) (agents_kind r))"

definition Agents_List :: "AgentFilter \<Rightarrow> db \<Rightarrow> Agent list res" where
  "Agents_List f d = Inr (map scanAgent
     (sort_key (\<lambda>r. (agents_registered_at r, agents_id r)) (filter (agent_matches f) (agents d))))"

text \<open>A heartbeat revives a stale agent, so it can collide with an active agent of its name.\<close>

definition Agents_Heartbeat :: "string \<Rightarrow> instant \<Rightarrow> db \<Rightarrow> db res" where
  "Agents_Heartbeat agentID at d =
     (let beats = (\<lambda>r. agents_id r = agentID \<and> agents_state r \<noteq> AgentDeregistered) in
      affectedOrNotFound (updated
        (count_where beats (agents d)) True
        (list_all (\<lambda>r. beats r \<longrightarrow> name_free d (agents_name r) agentID) (agents d))
        (d\<lparr>agents := update_where beats
           (\<lambda>r. r\<lparr>agents_last_heartbeat_at := requireMicros at, agents_state := AgentActive\<rparr>) (agents d)\<rparr>)))"

definition Agents_SetState :: "string \<Rightarrow> AgentState \<Rightarrow> instant \<Rightarrow> db \<Rightarrow> db res" where
  "Agents_SetState agentID state at d =
     (if \<not> AgentState_Valid state then Inl ErrInvalidArgument
      else affectedOrNotFound (updated
        (count_where (\<lambda>r. agents_id r = agentID) (agents d)) True
        (state = AgentActive \<longrightarrow>
           list_all (\<lambda>r. agents_id r = agentID \<longrightarrow> name_free d (agents_name r) agentID) (agents d))
        (d\<lparr>agents := update_where (\<lambda>r. agents_id r = agentID)
           (\<lambda>r. r\<lparr>agents_state := state,
                  agents_last_heartbeat_at := max (agents_last_heartbeat_at r) (requireMicros at)\<rparr>) (agents d)\<rparr>)))"

definition StaleBefore :: "instant \<Rightarrow> db \<Rightarrow> Agent list res" where
  "StaleBefore cutoff d = Inr (map scanAgent (sort_key agents_last_heartbeat_at
     (filter (\<lambda>r. agents_state r = AgentActive \<and> agents_last_heartbeat_at r < requireMicros cutoff) (agents d))))"

subsection \<open>Credentials (\<open>credentials.go\<close>)\<close>

definition Credentials_Store :: "Credential \<Rightarrow> db \<Rightarrow> db res" where
  "Credentials_Store c d =
     (if cred_AgentID c = [] \<or> cred_TokenHash c = [] then Inl ErrInvalidArgument
      else let row = \<lparr>credentials_agent_id = cred_AgentID c, credentials_token_hash = cred_TokenHash c,
                 credentials_issued_at = requireMicros (cred_IssuedAt c),
                 credentials_revoked_at = toMicros (cred_RevokedAt c)\<rparr>;
               owns = (\<lambda>r. credentials_agent_id r = cred_AgentID c)
           in translated (constrained True
                (\<not> exists_where (\<lambda>r. credentials_token_hash r = cred_TokenHash c \<and> \<not> owns r) (credentials d))
                (agent_exists d (cred_AgentID c))
                (if exists_where owns (credentials d)
                 then d\<lparr>credentials := update_where owns (\<lambda>_. row) (credentials d)\<rparr>
                 else d\<lparr>credentials := credentials d @ [row]\<rparr>)))"

definition scanCredential :: "credentials_row \<Rightarrow> Credential" where
  "scanCredential r = \<lparr>cred_AgentID = credentials_agent_id r, cred_TokenHash = credentials_token_hash r,
     cred_IssuedAt = fromRequiredMicros (credentials_issued_at r),
     cred_RevokedAt = fromMicros (credentials_revoked_at r)\<rparr>"

definition ByTokenHash :: "string \<Rightarrow> db \<Rightarrow> Credential res" where
  "ByTokenHash tokenHash d =
     (if length tokenHash = 0 then Inl ErrInvalidArgument
      else fetch scanCredential (first_where (\<lambda>r. credentials_token_hash r = tokenHash) (credentials d)))"

definition Credentials_Revoke :: "string \<Rightarrow> instant \<Rightarrow> db \<Rightarrow> db res" where
  "Credentials_Revoke agentID at d = Inr (d\<lparr>credentials := update_where
     (\<lambda>r. credentials_agent_id r = agentID \<and> credentials_revoked_at r = None)
     (\<lambda>r. r\<lparr>credentials_revoked_at := Some (requireMicros at)\<rparr>) (credentials d)\<rparr>)"

subsection \<open>The name index\<close>

text \<open>What the schema guarantees of the roster: identifiers are unique, and so are the names of the
  active agents.\<close>

definition roster_ok :: "db \<Rightarrow> bool" where
  "roster_ok d \<longleftrightarrow> distinct (map agents_id (agents d)) \<and>
     distinct (map agents_name (filter (\<lambda>r. agents_state r = AgentActive) (agents d)))"

text \<open>An operation on the roster keeps it well formed and touches no other table of the roster.\<close>

definition roster_kept :: "db \<Rightarrow> db \<Rightarrow> bool" where
  "roster_kept d d' \<longleftrightarrow> (roster_ok d \<longrightarrow> roster_ok d')"

interpretation roster: db_order roster_kept
  by unfold_locales (auto simp: roster_kept_def)

lemma affected_updated_Inr:
  "affectedOrNotFound (updated n c u d) = Inr d' \<longleftrightarrow> 0 < n \<and> c \<and> u \<and> d' = d"
  by (auto simp: affectedOrNotFound_def updated_def constrained_def)

lemma affected_updated_Inl:
  "affectedOrNotFound (updated n c u d) = Inl e \<longleftrightarrow>
     (if n = 0 then e = ErrNotFound else \<not> c \<and> e = ErrInvalidArgument \<or> c \<and> \<not> u \<and> e = ErrAlreadyExists)"
  by (auto simp: affectedOrNotFound_def updated_def constrained_def translateError_def)

lemma Create_Inr:
  "Agents_Create a d = Inr d' \<longleftrightarrow> Agent_Validate a = Inr () \<and> \<not> agent_exists d (agent_ID a) \<and>
     (agent_State a = AgentActive \<longrightarrow> name_free d (agent_Name a) (agent_ID a)) \<and>
     d' = d\<lparr>agents := agents d @ [agent_row_of a]\<rparr>"
  by (auto simp: Agents_Create_def translated_constrained Agent_Validate_def ValidateName_check
      split: sum.splits if_splits)

lemma Update_Inr:
  "Agents_Update a d = Inr d' \<longleftrightarrow> Agent_Validate a = Inr () \<and> agent_exists d (agent_ID a) \<and>
     (agent_State a = AgentActive \<longrightarrow> name_free d (agent_Name a) (agent_ID a)) \<and>
     d' = d\<lparr>agents := update_where (\<lambda>r. agents_id r = agent_ID a) (\<lambda>_. agent_row_of a) (agents d)\<rparr>"
proof -
  have "0 < count_where P rows \<longleftrightarrow> exists_where P rows" for P and rows :: "agents_row list"
    using count_where_zero [of P rows] by auto
  then show ?thesis
    by (auto simp: Agents_Update_def affected_updated_Inr agent_exists_def Agent_Validate_def ValidateName_check
        split: sum.splits if_splits)
qed

text \<open>An update that gives one row, with a given key, a name that is free keeps the roster well formed.\<close>

lemma roster_update:
  assumes ok: "roster_ok d"
    and keeps: "\<And>r. r \<in> set (agents d) \<Longrightarrow> P r \<Longrightarrow> agents_id r = i \<and> agents_id (f r) = i \<and>
      (agents_state (f r) = AgentActive \<longrightarrow> name_free d (agents_name (f r)) i)"
  shows "roster_ok (d\<lparr>agents := update_where P f (agents d)\<rparr>)"
proof -
  let ?g = "\<lambda>r. if P r then f r else r" and ?active = "\<lambda>r. agents_state r = AgentActive"
  have ids: "distinct (map agents_id (agents d))"
    and names: "\<And>r s. r \<in> set (agents d) \<Longrightarrow> s \<in> set (agents d) \<Longrightarrow> ?active r \<Longrightarrow> ?active s \<Longrightarrow>
      agents_name r = agents_name s \<Longrightarrow> r = s"
    using ok by (auto simp: roster_ok_def dest: distinct_key_eq [where k = agents_name])
  have g_id: "agents_id (?g r) = agents_id r" if "r \<in> set (agents d)" for r using keeps that by auto
  have same_ids: "map agents_id (update_where P f (agents d)) = map agents_id (agents d)"
    using g_id by (simp add: update_where_def)
  have "distinct (map agents_name (filter ?active (map ?g (agents d))))"
  proof -
    have same: "r = s" if r: "r \<in> set (agents d)" "?active (?g r)" and s: "s \<in> set (agents d)" "?active (?g s)"
      and n: "agents_name (?g r) = agents_name (?g s)" for r s
    proof (cases "P r")
      case True
      with keeps r have i: "agents_id r = i" "name_free d (agents_name (?g r)) i" by auto
      show ?thesis
      proof (cases "P s")
        case True
        with keeps s i distinct_key_eq [OF ids r(1) s(1)] show ?thesis by auto
      next
        case False
        with i s n have "agents_id s = i" by (auto simp: name_free_def exists_where_iff)
        with i distinct_key_eq [OF ids r(1) s(1)] show ?thesis by auto
      qed
    next
      case notP: False
      show ?thesis
      proof (cases "P s")
        case True
        with keeps s have i: "agents_id s = i" "name_free d (agents_name (?g s)) i" by auto
        with notP r n have "agents_id r = i" by (auto simp: name_free_def exists_where_iff)
        with i distinct_key_eq [OF ids r(1) s(1)] show ?thesis by auto
      next
        case False
        with notP r s n names show ?thesis by auto
      qed
    qed
    have "distinct (agents d)" using ids by (simp add: distinct_map)
    then have "distinct (filter (\<lambda>r. ?active (?g r)) (agents d))" by simp
    moreover have "inj_on (\<lambda>r. agents_name (?g r)) (set (filter (\<lambda>r. ?active (?g r)) (agents d)))"
      using same by (auto simp: inj_on_def)
    ultimately have "distinct (map (\<lambda>r. agents_name (?g r)) (filter (\<lambda>r. ?active (?g r)) (agents d)))"
      by (simp add: distinct_map)
    then show ?thesis by (simp add: filter_map comp_def)
  qed
  then have "distinct (map agents_name (filter ?active (update_where P f (agents d))))"
    by (simp add: update_where_def)
  with ids show ?thesis unfolding roster_ok_def by (simp add: same_ids)
qed

lemma roster_append:
  assumes "roster_ok d" and "\<not> agent_exists d (agents_id row)"
    and "agents_state row = AgentActive \<longrightarrow> name_free d (agents_name row) (agents_id row)"
  shows "roster_ok (d\<lparr>agents := agents d @ [row]\<rparr>)"
  using assms by (auto simp: roster_ok_def agent_exists_def name_free_def exists_where_iff)

lemma agent_row_sel [simp]:
  "agents_id (agent_row_of a) = agent_ID a" "agents_name (agent_row_of a) = agent_Name a"
  "agents_state (agent_row_of a) = agent_State a" "agents_process_id (agent_row_of a) = agent_ProcessID a"
  by (simp_all add: agent_row_of_def)

lemma scanAgent_sel [simp]:
  "agent_ID (scanAgent r) = agents_id r" "agent_Name (scanAgent r) = agents_name r"
  "agent_State (scanAgent r) = agents_state r" "agent_ProcessID (scanAgent r) = agents_process_id r"
  "agent_Capabilities (scanAgent r) = agents_capabilities r"
  by (simp_all add: scanAgent_def)

lemma Heartbeat_Inr:
  "Agents_Heartbeat i at d = Inr d' \<longleftrightarrow>
     exists_where (\<lambda>r. agents_id r = i \<and> agents_state r \<noteq> AgentDeregistered) (agents d) \<and>
     (\<forall>r \<in> set (agents d). agents_id r = i \<and> agents_state r \<noteq> AgentDeregistered \<longrightarrow> name_free d (agents_name r) i) \<and>
     d' = d\<lparr>agents := update_where (\<lambda>r. agents_id r = i \<and> agents_state r \<noteq> AgentDeregistered)
       (\<lambda>r. r\<lparr>agents_last_heartbeat_at := requireMicros at, agents_state := AgentActive\<rparr>) (agents d)\<rparr>"
  using count_where_zero [of "\<lambda>r. agents_id r = i \<and> agents_state r \<noteq> AgentDeregistered" "agents d"]
  by (auto simp: Agents_Heartbeat_def Let_def affected_updated_Inr list_all_iff)

lemma SetState_Inr:
  "Agents_SetState i st at d = Inr d' \<longleftrightarrow> AgentState_Valid st \<and> agent_exists d i \<and>
     (st = AgentActive \<longrightarrow> (\<forall>r \<in> set (agents d). agents_id r = i \<longrightarrow> name_free d (agents_name r) i)) \<and>
     d' = d\<lparr>agents := update_where (\<lambda>r. agents_id r = i)
       (\<lambda>r. r\<lparr>agents_state := st,
              agents_last_heartbeat_at := max (agents_last_heartbeat_at r) (requireMicros at)\<rparr>) (agents d)\<rparr>"
  using count_where_zero [of "\<lambda>r. agents_id r = i" "agents d"]
  by (auto simp: Agents_SetState_def affected_updated_Inr list_all_iff agent_exists_def)

lemma AgentState_Valid_simps [simp]:
  "AgentState_Valid AgentActive" "AgentState_Valid AgentStale" "AgentState_Valid AgentDeregistered"
  by (simp_all add: AgentState_Valid_def)

lemma roster_Create: "Agents_Create a d = Inr d' \<Longrightarrow> roster_kept d d'"
  by (auto simp: Create_Inr roster_kept_def intro: roster_append)

lemma roster_Update: "Agents_Update a d = Inr d' \<Longrightarrow> roster_kept d d'"
  by (auto simp: Update_Inr roster_kept_def intro!: roster_update [where i = "agent_ID a"])

lemma roster_Heartbeat: "Agents_Heartbeat i at d = Inr d' \<Longrightarrow> roster_kept d d'"
  by (auto simp: Heartbeat_Inr roster_kept_def intro!: roster_update [where i = i])

lemma roster_SetState: "Agents_SetState i st at d = Inr d' \<Longrightarrow> roster_kept d d'"
  by (auto simp: SetState_Inr roster_kept_def intro!: roster_update [where i = i])

lemma roster_other: "agents d' = agents d \<Longrightarrow> roster_kept d d'"
  by (simp add: roster_kept_def roster_ok_def)

lemma Credentials_Store_Inr:
  "Credentials_Store c d = Inr d' \<longleftrightarrow> cred_AgentID c \<noteq> [] \<and> cred_TokenHash c \<noteq> [] \<and>
     \<not> exists_where (\<lambda>r. credentials_token_hash r = cred_TokenHash c \<and> credentials_agent_id r \<noteq> cred_AgentID c) (credentials d) \<and>
     agent_exists d (cred_AgentID c) \<and>
     (let row = \<lparr>credentials_agent_id = cred_AgentID c, credentials_token_hash = cred_TokenHash c,
            credentials_issued_at = requireMicros (cred_IssuedAt c),
            credentials_revoked_at = toMicros (cred_RevokedAt c)\<rparr>;
          owns = (\<lambda>r. credentials_agent_id r = cred_AgentID c)
      in d' = (if exists_where owns (credentials d)
        then d\<lparr>credentials := update_where owns (\<lambda>_. row) (credentials d)\<rparr>
        else d\<lparr>credentials := credentials d @ [row]\<rparr>))"
  by (auto simp: Credentials_Store_def Let_def translated_constrained)

lemma Credentials_Store_agents: "Credentials_Store c d = Inr d' \<Longrightarrow> agents d' = agents d"
  by (auto simp: Credentials_Store_Inr Let_def)

end
