(* ===== verification/Base64.thy ===== *)
theory Base64
  imports Ident
begin

section \<open>Base-64 without padding (\<^verbatim>\<open>base64.RawURLEncoding\<close>)\<close>

text \<open>
  Bytes are written as groups of six bits, most significant first, the last group padded with zero
  bits. Decoding skips line breaks, refuses a character outside the alphabet and a single left-over
  character, and drops the bits that do not fill a byte.
\<close>

definition alphabet64 :: string where
  "alphabet64 = ''ABCDEFGHIJKLMNOPQRSTUVWXYZabcdefghijklmnopqrstuvwxyz0123456789-_''"

definition bits_value :: "bool list \<Rightarrow> nat" where
  "bits_value bs = foldl (\<lambda>v b. 2 * v + (if b then 1 else 0)) 0 bs"

definition pad_bits :: "nat \<Rightarrow> bool list \<Rightarrow> bool list" where
  "pad_bits k bs = bs @ replicate (k - length bs) False"

function groups64 :: "bool list \<Rightarrow> bool list list" where
  "groups64 bs = (if bs = [] then [] else pad_bits 6 (take 6 bs) # groups64 (drop 6 bs))"
  by pat_completeness auto
termination by (relation "measure length") auto

declare groups64.simps [simp del]

definition EncodeToString64 :: "byte list \<Rightarrow> string" where
  "EncodeToString64 bs = map (\<lambda>g. alphabet64 ! bits_value g) (groups64 (bits_of_bytes bs))"

definition index64 :: "char \<Rightarrow> nat option" where
  "index64 c = List.find (\<lambda>i. alphabet64 ! i = c) [0..<64]"

definition bits_of_index :: "nat \<Rightarrow> bool list" where
  "bits_of_index n = map (\<lambda>i. odd (n div 2 ^ i)) (rev [0..<6])"

definition byte_of_bits :: "bool list \<Rightarrow> byte" where
  "byte_of_bits bs = of_nat (bits_value bs)"

function whole_bytes :: "bool list \<Rightarrow> byte list" where
  "whole_bytes bs = (if length bs < 8 then [] else byte_of_bits (take 8 bs) # whole_bytes (drop 8 bs))"
  by pat_completeness auto
termination by (relation "measure length") auto

declare whole_bytes.simps [simp del]

definition DecodeString64 :: "string \<Rightarrow> byte list option" where
  "DecodeString64 s =
     (let cs = filter (\<lambda>c. c \<noteq> CHR 0x0A \<and> c \<noteq> CHR 0x0D) s;
          found = map index64 cs
      in if List.member found None \<or> length cs mod 4 = 1 then None
         else Some (whole_bytes (concat (map (bits_of_index \<circ> the) found))))"

subsection \<open>Round trip\<close>

lemma all_indices: "list_all (\<lambda>i. index64 (alphabet64 ! i) = Some i \<and>
    alphabet64 ! i \<noteq> CHR 0x0A \<and> alphabet64 ! i \<noteq> CHR 0x0D) [0..<64]"
  by code_simp

lemma index_alphabet:
  assumes "n < 64"
  shows "index64 (alphabet64 ! n) = Some n" "alphabet64 ! n \<noteq> CHR 0x0A" "alphabet64 ! n \<noteq> CHR 0x0D"
  using all_indices assms by (auto simp: list_all_iff)

lemma all_six_bits: "list_all (\<lambda>bs. bits_of_index (bits_value bs) = bs \<and> bits_value bs < 64)
    (List.n_lists 6 [False, True])"
  by code_simp

lemma six_bits:
  assumes "length bs = 6"
  shows "bits_of_index (bits_value bs) = bs" "bits_value bs < 64"
proof -
  have "bs \<in> set (List.n_lists 6 [False, True])" using assms by (auto simp: set_n_lists)
  then show "bits_of_index (bits_value bs) = bs" "bits_value bs < 64"
    using all_six_bits unfolding list_all_iff by blast+
qed

lemma bits_value_horner: "bits_value bs = horner_sum of_bool 2 (rev bs)"
  by (induction bs rule: rev_induct) (simp_all add: bits_value_def)

lemma of_nat_horner: "of_nat (horner_sum of_bool 2 bs) = (horner_sum of_bool 2 bs :: 'a::len word)"
  by (induction bs) simp_all

lemma byte_of_bits_of_byte: "byte_of_bits (bits_of_byte b) = b"
proof -
  have "byte_of_bits (bits_of_byte b) = horner_sum of_bool 2 (map (bit b) [0..<8])"
    by (simp add: byte_of_bits_def bits_value_horner of_nat_horner bits_of_byte_def flip: rev_map)
  also have "\<dots> = take_bit 8 b" by (rule horner_sum_bit_eq_take_bit)
  also have "\<dots> = b" by (rule take_bit_word_eq_self) simp
  finally show ?thesis .
qed

lemma length_bits_of_byte [simp]: "length (bits_of_byte b) = 8"
  by (simp add: bits_of_byte_def)

text \<open>The groups spell the bits back, followed by fewer than six zero bits.\<close>

lemma groups64_spell:
  "\<exists>n < 6. concat (groups64 bs) = bs @ replicate n False \<and> (\<forall>g \<in> set (groups64 bs). length g = 6)"
proof (induction bs rule: groups64.induct)
  case (1 bs)
  show ?case
  proof (cases "length bs \<le> 6")
    case True
    have "groups64 (drop 6 bs) = []" using True by (simp add: groups64.simps)
    then show ?thesis
      using True by (cases "bs = []") (auto simp: groups64.simps [of bs] pad_bits_def intro: exI [of _ "6 - length bs"])
  next
    case False
    then have "bs \<noteq> []" by auto
    with 1 obtain n where n: "n < 6" "concat (groups64 (drop 6 bs)) = drop 6 bs @ replicate n False"
      "\<forall>g \<in> set (groups64 (drop 6 bs)). length g = 6" by auto
    have "take 6 bs @ drop 6 bs @ replicate n False = bs @ replicate n False"
      by (metis append_assoc append_take_drop_id)
    with n False \<open>bs \<noteq> []\<close> show ?thesis
      by (intro exI [of _ n]) (simp add: groups64.simps [of bs] pad_bits_def)
  qed
qed

lemma six_more: "0 < n \<Longrightarrow> Suc ((n - 6 + 5) div 6) = (n + 5) div 6" for n :: nat
proof (cases "n \<le> 6")
  case True
  assume "0 < n"
  with True show ?thesis by (simp add: div_nat_eqI [of 1])
next
  case False
  then have "n + 5 = (n - 6 + 5) + 6" by simp
  then show ?thesis by (metis div_add_self2 Suc_eq_plus1 zero_neq_numeral)
qed

lemma length_groups64: "length (groups64 bs) = (length bs + 5) div 6"
proof (induction bs rule: groups64.induct)
  case (1 bs)
  show ?case
  proof (cases "bs = []")
    case False
    then have "length bs > 0" by simp
    with 1 [OF False] False have "length (groups64 bs) = Suc ((length bs - 6 + 5) div 6)"
      by (simp add: groups64.simps [of bs])
    also have "\<dots> = (length bs + 5) div 6" by (rule six_more) (rule \<open>length bs > 0\<close>)
    finally show ?thesis .
  qed (simp add: groups64.simps)
qed

lemma whole_bytes_bits:
  "length rest < 8 \<Longrightarrow> whole_bytes (bits_of_bytes bs @ rest) = bs"
proof (induction bs)
  case Nil
  then show ?case by (simp add: bits_of_bytes_def whole_bytes.simps)
next
  case (Cons b bs)
  then show ?case
    by (simp add: whole_bytes.simps [of "bits_of_byte b @ concat (map bits_of_byte bs) @ rest"] bits_of_bytes_def
        byte_of_bits_of_byte)
qed

lemma length_bits_of_bytes: "length (bits_of_bytes bs) = 8 * length bs"
  by (induction bs) (simp_all add: bits_of_bytes_def)

theorem Decode_Encode: "DecodeString64 (EncodeToString64 bs) = Some bs"
proof -
  let ?gs = "groups64 (bits_of_bytes bs)"
  obtain n where n: "n < 6" "concat ?gs = bits_of_bytes bs @ replicate n False"
    and six: "\<And>g. g \<in> set ?gs \<Longrightarrow> length g = 6"
    using groups64_spell [of "bits_of_bytes bs"] by blast
  have skip: "filter (\<lambda>c. c \<noteq> CHR 0x0A \<and> c \<noteq> CHR 0x0D) (EncodeToString64 bs) = EncodeToString64 bs"
    unfolding EncodeToString64_def filter_id_conv by (auto simp: index_alphabet six_bits six)
  have idx: "map index64 (EncodeToString64 bs) = map (Some \<circ> bits_value) ?gs"
    unfolding EncodeToString64_def by (auto simp: index_alphabet six_bits six)
  have "concat (map (bits_of_index \<circ> the) (map index64 (EncodeToString64 bs))) = concat ?gs"
    unfolding idx by (rule arg_cong [of _ _ concat]) (auto intro!: map_idI simp: six_bits six)
  moreover have "length (EncodeToString64 bs) mod 4 \<noteq> 1"
    unfolding EncodeToString64_def by (simp add: length_groups64 length_bits_of_bytes) presburger
  moreover have "whole_bytes (concat ?gs) = bs"
    unfolding n(2) using n(1) by (intro whole_bytes_bits) simp
  ultimately show ?thesis
    unfolding DecodeString64_def Let_def skip by (auto simp: idx)
qed

end
