(* ===== verification/Auth.thy ===== *)
theory Auth
  imports StoreAgents Base64
begin

section \<open>Tokens and permissions (\<open>internal/auth\<close>)\<close>

text \<open>
  \<open>token.go\<close> and \<open>auth.go\<close>. The keyed hash \<^verbatim>\<open>hmac(sha256, secret)\<close> is the parameter \<open>mac\<close>; what is
  proved holds for every such function. Every authentication failure is the one error
  \<open>ErrUnauthorised\<close>; the reason goes to the audit log.
\<close>

subsection \<open>Tokens (\<open>token.go\<close>)\<close>

definition TokenPrefix :: string where
  "TokenPrefix = ''lac_''"

definition tokenBytes :: nat where
  "tokenBytes = 32"

definition token_text :: "byte list \<Rightarrow> string" where
  "token_text raw = TokenPrefix @ EncodeToString64 raw"

definition newToken :: "string action" where
  "newToken = (\<lambda>w. (Inr (token_text (w_tokens w (w_issued w))), w\<lparr>w_issued := Suc (w_issued w)\<rparr>))"

type_synonym keyed_hash = "string \<Rightarrow> string \<Rightarrow> string"

definition hashToken :: "keyed_hash \<Rightarrow> string \<Rightarrow> string \<Rightarrow> string" where
  "hashToken mac secret token = mac secret token"

definition looksLikeToken :: "string \<Rightarrow> bool" where
  "looksLikeToken token =
     (if \<not> HasPrefix token TokenPrefix then False
      else (case DecodeString64 (TrimPrefix token TokenPrefix) of
          None \<Rightarrow> False
        | Some decoded \<Rightarrow> length decoded = tokenBytes))"

definition Redact :: "string \<Rightarrow> string" where
  "Redact token =
     (if length token \<le> length TokenPrefix + 6 then TokenPrefix @ ellipsis
      else take (length TokenPrefix + 6) token @ ellipsis)"

subsection \<open>Authentication (\<open>auth.go\<close>)\<close>

datatype Permission =
    PermissionLease | PermissionBroadcast | PermissionDefineResource | PermissionRequestReports
  | PermissionReadLog | PermissionForceRelease | PermissionEvict | OtherPermission string

fun permission_name :: "Permission \<Rightarrow> string" where
  "permission_name PermissionLease = ''lease''"
| "permission_name PermissionBroadcast = ''broadcast''"
| "permission_name PermissionDefineResource = ''define_resource''"
| "permission_name PermissionRequestReports = ''request_reports''"
| "permission_name PermissionReadLog = ''read_the_message_log''"
| "permission_name PermissionForceRelease = ''force_release''"
| "permission_name PermissionEvict = ''evict''"
| "permission_name (OtherPermission s) = s"

definition auth_audit :: "string \<Rightarrow> string \<Rightarrow> string \<Rightarrow> unit action" where
  "auth_audit actor0 target detail =
     (let actor = (if actor0 = [] then SystemActor else actor0) in
      bindE now (\<lambda>at.
      bindE (attemptE (exec (Audit_Append (entry_of actor AuditAuthDenied target detail at)))) (\<lambda>_.
      returnE ())))"

definition refuse :: "string \<Rightarrow> string \<Rightarrow> string \<Rightarrow> 'a action" where
  "refuse actor target detail = bindE (auth_audit actor target detail) (\<lambda>_. throwE ErrUnauthorised)"

definition Issue :: "keyed_hash \<Rightarrow> string \<Rightarrow> string \<Rightarrow> string action" where
  "Issue mac secret agentID =
     bindE newToken (\<lambda>token.
     bindE now (\<lambda>at.
     bindE (exec (Credentials_Store \<lparr>cred_AgentID = agentID, cred_TokenHash = hashToken mac secret token,
              cred_IssuedAt = at, cred_RevokedAt = zeroTime\<rparr>)) (\<lambda>_.
     returnE token)))"

definition Authenticate :: "keyed_hash \<Rightarrow> string \<Rightarrow> string \<Rightarrow> Agent action" where
  "Authenticate mac secret token =
     (if \<not> looksLikeToken token then refuse SystemActor [] ''the token is malformed''
      else
      bindE (attemptE (query (ByTokenHash (hashToken mac secret token)))) (\<lambda>found. case found of
        Inl e \<Rightarrow> if e = ErrNotFound then refuse SystemActor (Redact token) ''no credential matches the token''
                else throwE e
      | Inr credential \<Rightarrow>
        if cred_TokenHash credential \<noteq> hashToken mac secret token
        then refuse SystemActor (cred_AgentID credential) ''the token hash did not match''
        else if Revoked credential
        then refuse (cred_AgentID credential) (cred_AgentID credential) ''the credential has been revoked''
        else
        bindE (attemptE (query (Agents_ByID (cred_AgentID credential)))) (\<lambda>r. case r of
          Inl e \<Rightarrow> if e = ErrNotFound
                  then refuse (cred_AgentID credential) (cred_AgentID credential) ''the agent no longer exists''
                  else throwE e
        | Inr agent \<Rightarrow>
          if agent_State agent = AgentDeregistered
          then refuse (agent_ID agent) (agent_ID agent) ''the agent has deregistered''
          else returnE agent)))"

definition Revoke :: "string \<Rightarrow> unit action" where
  "Revoke agentID = bindE now (\<lambda>at. exec (Credentials_Revoke agentID at))"

definition permitted :: "Agent \<Rightarrow> Permission \<Rightarrow> string \<Rightarrow> bool" where
  "permitted agent permission target = (case permission of
      PermissionLease \<Rightarrow> MayLease (agent_Capabilities agent) target
    | PermissionBroadcast \<Rightarrow> cap_CanBroadcast (agent_Capabilities agent)
    | PermissionDefineResource \<Rightarrow> cap_CanDefineResources (agent_Capabilities agent)
    | PermissionForceRelease \<Rightarrow> cap_CanDefineResources (agent_Capabilities agent)
    | PermissionEvict \<Rightarrow> cap_CanDefineResources (agent_Capabilities agent)
    | PermissionRequestReports \<Rightarrow> cap_CanRequestReports (agent_Capabilities agent)
    | PermissionReadLog \<Rightarrow> cap_CanReadLog (agent_Capabilities agent)
    | OtherPermission _ \<Rightarrow> False)"

definition Authorise :: "Agent \<Rightarrow> Permission \<Rightarrow> string \<Rightarrow> unit action" where
  "Authorise agent permission target =
     (if permitted agent permission target then returnE ()
      else refuse (agent_ID agent) target (permission_name permission @ '' is not permitted''))"

subsection \<open>What a refusal does\<close>

lemma auth_audit_effect:
  "\<exists>d. auth_audit actor target detail w = (Inr (), w\<lparr>w_ticks := Suc (w_ticks w), w_db := d\<rparr>) \<and>
     Audit_Append (entry_of (if actor = [] then SystemActor else actor) AuditAuthDenied target detail (time_of w)) (w_db w) = Inr d"
  by (simp add: auth_audit_def bindE_apply attemptE_apply exec_apply Audit_Append_def SystemActor_def Let_def)

lemma refuse_effect:
  "\<exists>d. refuse actor target detail w = (Inl ErrUnauthorised, w\<lparr>w_ticks := Suc (w_ticks w), w_db := d\<rparr>) \<and>
     Audit_Append (entry_of (if actor = [] then SystemActor else actor) AuditAuthDenied target detail (time_of w)) (w_db w) = Inr d"
  using auth_audit_effect [of actor target detail w] by (auto simp: refuse_def)

lemma refuse_not_Inr [simp]: "refuse actor target detail w \<noteq> (Inr x, w')"
  using auth_audit_effect [of actor target detail w] by (auto simp: refuse_def)

lemma refuse_Inl: "refuse actor target detail w = (Inl e, w') \<Longrightarrow> e = ErrUnauthorised"
  using auth_audit_effect [of actor target detail w] by (auto simp: refuse_def)

text \<open>A token names the credential row with its hash.\<close>

definition token_valid :: "keyed_hash \<Rightarrow> string \<Rightarrow> string \<Rightarrow> db \<Rightarrow> agents_row \<Rightarrow> bool" where
  "token_valid mac secret token d row \<longleftrightarrow> looksLikeToken token \<and>
     (\<exists>c. first_where (\<lambda>r. credentials_token_hash r = mac secret token) (credentials d) = Some c \<and>
       \<not> Revoked (scanCredential c) \<and>
       first_where (\<lambda>r. agents_id r = credentials_agent_id c) (agents d) = Some row \<and>
       agents_state row \<noteq> AgentDeregistered)"

lemma scanCredential_sel [simp]:
  "cred_AgentID (scanCredential r) = credentials_agent_id r"
  "cred_TokenHash (scanCredential r) = credentials_token_hash r"
  by (simp_all add: scanCredential_def)

lemma Authenticate_cases:
  assumes "mac secret token \<noteq> []"
  obtains (ok) row where "token_valid mac secret token (w_db w) row"
      "Authenticate mac secret token w = (Inr (scanAgent row), w)"
  | (refused) actor target detail where "\<And>row. \<not> token_valid mac secret token (w_db w) row"
      "Authenticate mac secret token w = refuse actor target detail w"
proof -
  let ?h = "mac secret token"
  consider (malformed) "\<not> looksLikeToken token"
    | (unknown) "looksLikeToken token" "first_where (\<lambda>r. credentials_token_hash r = ?h) (credentials (w_db w)) = None"
    | (known) c where "looksLikeToken token"
        "first_where (\<lambda>r. credentials_token_hash r = ?h) (credentials (w_db w)) = Some c"
    by (cases "first_where (\<lambda>r. credentials_token_hash r = ?h) (credentials (w_db w))") auto
  then show thesis
  proof cases
    case malformed
    then show thesis by (intro refused) (auto simp: token_valid_def Authenticate_def)
  next
    case unknown
    with assms show thesis
      by (intro refused) (auto simp: token_valid_def Authenticate_def bindE_apply attemptE_apply ByTokenHash_def hashToken_def)
  next
    case (known c)
    then have h: "credentials_token_hash c = ?h" by (auto dest: first_where_Some)
    have at: "Authenticate mac secret token w =
        (if Revoked (scanCredential c)
         then refuse (credentials_agent_id c) (credentials_agent_id c) ''the credential has been revoked'' w
         else (case first_where (\<lambda>r. agents_id r = credentials_agent_id c) (agents (w_db w)) of
            None \<Rightarrow> refuse (credentials_agent_id c) (credentials_agent_id c) ''the agent no longer exists'' w
          | Some row \<Rightarrow> if agents_state row = AgentDeregistered
              then refuse (agents_id row) (agents_id row) ''the agent has deregistered'' w
              else (Inr (scanAgent row), w)))"
      using known assms h
      by (simp add: Authenticate_def bindE_apply attemptE_apply ByTokenHash_def hashToken_def Agents_ByID_def
          split: option.split)
    show thesis
    proof (cases "\<exists>row. token_valid mac secret token (w_db w) row")
      case True
      then obtain row where v: "token_valid mac secret token (w_db w) row" by blast
      with known at show thesis by (intro ok [OF v]) (auto simp: token_valid_def)
    next
      case False
      with known have "Revoked (scanCredential c) \<or>
          (case first_where (\<lambda>r. agents_id r = credentials_agent_id c) (agents (w_db w)) of
             None \<Rightarrow> True | Some row \<Rightarrow> agents_state row = AgentDeregistered)"
        by (auto simp: token_valid_def split: option.split)
      with at False show thesis
        by (cases "Revoked (scanCredential c)";
            cases "first_where (\<lambda>r. agents_id r = credentials_agent_id c) (agents (w_db w))")
           (auto intro: refused)
    qed
  qed
qed

end
