(* ===== verification/Registry.thy ===== *)
theory Registry
  imports Auth "HOL-Library.Sublist"
begin

section \<open>The roster of agents (\<open>internal/service/registry\<close>)\<close>

subsection \<open>Paths (\<^verbatim>\<open>path/filepath\<close> on Unix)\<close>

fun split_slash :: "string \<Rightarrow> string list" where
  "split_slash [] = [[]]"
| "split_slash (c # cs) =
     (if c = CHR ''/'' then [] # split_slash cs
      else (case split_slash cs of [] \<Rightarrow> [[c]] | p # ps \<Rightarrow> (c # p) # ps))"

definition IsAbs :: "string \<Rightarrow> bool" where
  "IsAbs path = HasPrefix path ''/''"

definition path_components :: "string \<Rightarrow> string list" where
  "path_components path = filter (\<lambda>c. c \<noteq> []) (split_slash path)"

text \<open>The elements of a cleaned path, kept in reverse while walking: a dot is skipped, a dot-dot
  takes back the element before it, and at the root it is dropped.\<close>

fun clean_step :: "bool \<Rightarrow> string list \<Rightarrow> string \<Rightarrow> string list" where
  "clean_step rooted acc c =
     (if c = ''.'' then acc
      else if c = ''..'' then
        (case acc of
           [] \<Rightarrow> if rooted then [] else [''..'']
         | a # rest \<Rightarrow> if a = ''..'' then ''..'' # acc else rest)
      else c # acc)"

definition clean_components :: "string \<Rightarrow> string list" where
  "clean_components path = rev (foldl (clean_step (IsAbs path)) [] (path_components path))"

definition Clean :: "string \<Rightarrow> string" where
  "Clean path =
     (if IsAbs path then ''/'' @ Join (clean_components path) ''/''
      else if clean_components path = [] then ''.''
      else Join (clean_components path) ''/'')"

fun strip_common :: "string list \<Rightarrow> string list \<Rightarrow> string list \<times> string list" where
  "strip_common (b # bs) (t # ts) = (if b = t then strip_common bs ts else (b # bs, t # ts))"
| "strip_common bs ts = (bs, ts)"

text \<open>\<^verbatim>\<open>filepath.Rel\<close> for a target that is absolute: \<open>None\<close> is its error.\<close>

definition Rel :: "string \<Rightarrow> string \<Rightarrow> string option" where
  "Rel basepath targpath =
     (let base = Clean basepath; targ = Clean targpath in
      if targ = base then Some ''.''
      else if IsAbs base \<noteq> IsAbs targ then None
      else (case strip_common (path_components base) (path_components targ) of (up, down) \<Rightarrow>
        if up = [] then Some (Join down ''/'')
        else Some (Join (replicate (length up) ''..'') ''/'' @ (if down = [] then [] else ''/'' @ Join down ''/''))))"

definition within :: "string \<Rightarrow> string \<Rightarrow> bool" where
  "within path root =
     (if path = root then True
      else (case Rel root path of
          None \<Rightarrow> False
        | Some relative \<Rightarrow> relative \<noteq> ''..'' \<and> \<not> HasPrefix relative ''../''))"

subsection \<open>The service\<close>

record registry_options =
  ro_TimeToLive :: duration
  ro_WorkdirRoots :: "string list"
  ro_CapabilitiesFor :: "string \<Rightarrow> Capabilities"

definition New_registry :: "duration \<Rightarrow> string list \<Rightarrow> (string \<Rightarrow> Capabilities) option \<Rightarrow> registry_options" where
  "New_registry timeToLive roots policy = \<lparr>
     ro_TimeToLive = (if timeToLive \<le> 0 then 90 * Second else timeToLive),
     ro_WorkdirRoots = roots,
     ro_CapabilitiesFor = (case policy of None \<Rightarrow> (\<lambda>_. noCapabilities) | Some f \<Rightarrow> f)\<rparr>"

record RegisterRequest =
  reg_Name :: string
  reg_Kind :: string
  reg_Workdir :: string
  reg_ProcessID :: int

record Registration =
  registered_Agent :: Agent
  registered_Token :: string

definition internalWorkdir :: string where
  "internalWorkdir = ''/''"

definition resolveWorkdir :: "registry_options \<Rightarrow> string \<Rightarrow> string res" where
  "resolveWorkdir options workdir =
     (if workdir = [] then Inl ErrInvalidArgument
      else if \<not> IsAbs workdir then Inl ErrInvalidArgument
      else let cleaned = Clean workdir in
        if length (ro_WorkdirRoots options) = 0 then Inr cleaned
        else if list_ex (\<lambda>root. within cleaned (Clean root)) (ro_WorkdirRoots options) then Inr cleaned
        else Inl ErrInvalidArgument)"

definition registry_audit :: "string \<Rightarrow> AuditAction \<Rightarrow> string \<Rightarrow> string \<Rightarrow> unit action" where
  "registry_audit actor action target detail =
     bindE now (\<lambda>at.
     bindE (attemptE (exec (Audit_Append (entry_of actor action target detail at)))) (\<lambda>_. returnE ()))"

text \<open>The transaction of \<open>register\<close>: the name is free, or the same process is back.\<close>

definition admit :: "Agent \<Rightarrow> RegisterRequest \<Rightarrow> Agent action" where
  "admit agent request =
     bindE (attemptE (query (Agents_ByName (reg_Name request)))) (\<lambda>r. case r of
       Inl e \<Rightarrow> if e = ErrNotFound then bindE (exec (Agents_Create agent)) (\<lambda>_. returnE agent) else throwE e
     | Inr existing \<Rightarrow>
         if agent_ProcessID existing \<noteq> reg_ProcessID request then throwE ErrAlreadyExists
         else let agent' = agent\<lparr>agent_ID := agent_ID existing, agent_RegisteredAt := agent_RegisteredAt existing\<rparr>
              in bindE (exec (Agents_Update agent')) (\<lambda>_. returnE agent'))"

definition register :: "keyed_hash \<Rightarrow> string \<Rightarrow> registry_options \<Rightarrow> RegisterRequest \<Rightarrow> bool \<Rightarrow> Registration action" where
  "register mac secret options request internal =
     bindE (liftE (ValidateName (reg_Name request))) (\<lambda>_.
     bindE (liftE (ValidateName (reg_Kind request))) (\<lambda>_.
     bindE (liftE (if \<not> internal then resolveWorkdir options (reg_Workdir request)
                   else Inr (reg_Workdir request))) (\<lambda>workdir.
     bindE now (\<lambda>at.
     bindE (newID ''agent'') (\<lambda>agentID.
     let agent0 = \<lparr>agent_ID = agentID, agent_Name = reg_Name request, agent_Kind = reg_Kind request,
           agent_Workdir = workdir, agent_ProcessID = reg_ProcessID request,
           agent_Capabilities = ro_CapabilitiesFor options (reg_Name request), agent_Internal = internal,
           agent_State = AgentActive, agent_RegisteredAt = at, agent_LastHeartbeatAt = at\<rparr>
     in
     bindE (transaction (admit agent0 request)) (\<lambda>agent.
     bindE (Issue mac secret (agent_ID agent)) (\<lambda>token.
     bindE (registry_audit (agent_ID agent) AuditAgentRegistered (agent_Name agent)
              (''kind='' @ agent_Kind agent @ '' workdir='' @ agent_Workdir agent @
               '' pid='' @ itoa (agent_ProcessID agent))) (\<lambda>_.
     returnE \<lparr>registered_Agent = agent, registered_Token = token\<rparr>))))))))"

definition Register :: "keyed_hash \<Rightarrow> string \<Rightarrow> registry_options \<Rightarrow> RegisterRequest \<Rightarrow> Registration action" where
  "Register mac secret options request = register mac secret options request False"

definition RegisterInternal :: "keyed_hash \<Rightarrow> string \<Rightarrow> registry_options \<Rightarrow> RegisterRequest \<Rightarrow> Registration action" where
  "RegisterInternal mac secret options request0 =
     (let request = (if reg_Workdir request0 = [] then request0\<lparr>reg_Workdir := internalWorkdir\<rparr> else request0)
      in register mac secret options request True)"

definition Heartbeat :: "string \<Rightarrow> unit action" where
  "Heartbeat agentID = bindE now (\<lambda>at. exec (Agents_Heartbeat agentID at))"

definition ByID :: "string \<Rightarrow> Agent action" where
  "ByID agentID = query (Agents_ByID agentID)"

definition ByName :: "string \<Rightarrow> Agent action" where
  "ByName name = query (Agents_ByName name)"

definition List_agents :: "AgentFilter \<Rightarrow> Agent list action" where
  "List_agents f = query (Agents_List f)"

definition Active :: "registry_options \<Rightarrow> Agent list action" where
  "Active options =
     bindE (List_agents \<lparr>agf_States = [AgentActive], agf_Kinds = []\<rparr>) (\<lambda>found.
     bindE now (\<lambda>at. returnE (filter (\<lambda>a. IsAlive a at (ro_TimeToLive options)) found)))"

definition retire :: "string \<Rightarrow> string \<Rightarrow> string \<Rightarrow> unit action" where
  "retire actorID agentID detail =
     bindE now (\<lambda>at.
     bindE (transaction (exec (Agents_SetState agentID AgentDeregistered at))) (\<lambda>_.
     bindE (Revoke agentID) (\<lambda>_.
     registry_audit actorID AuditAgentDeregistered agentID detail)))"

definition Deregister :: "string \<Rightarrow> unit action" where
  "Deregister agentID = retire agentID agentID ''the agent said goodbye''"

definition Evict :: "string \<Rightarrow> string \<Rightarrow> unit action" where
  "Evict actorID agentID = retire actorID agentID (''evicted by '' @ actorID)"

definition ReapStale :: "registry_options \<Rightarrow> Agent list action" where
  "ReapStale options =
     bindE now (\<lambda>at.
     bindE (query (StaleBefore (at - ro_TimeToLive options))) (\<lambda>stale.
     bindE (forE stale (\<lambda>agent.
       bindE (exec (Agents_SetState (agent_ID agent) AgentStale at)) (\<lambda>_.
       registry_audit SystemActor AuditAgentWentStale (agent_ID agent)
         (''no heartbeat since '' @ FormatRFC3339 (agent_LastHeartbeatAt agent))))) (\<lambda>_.
     returnE stale)))"

end
