(* ===== verification/RegistryFacts.thy ===== *)
theory RegistryFacts
  imports Registry
begin

section \<open>What the registry's operations do\<close>

subsection \<open>Cleaned paths\<close>

lemma split_slash_plain: "CHR ''/'' \<notin> set x \<Longrightarrow> split_slash x = [x]"
  by (induction x) auto

lemma split_slash_cons: "CHR ''/'' \<notin> set x \<Longrightarrow> split_slash (x @ CHR ''/'' # rest) = x # split_slash rest"
  by (induction x) auto

lemma split_slash_no_slash: "c \<in> set (split_slash s) \<Longrightarrow> CHR ''/'' \<notin> set c"
  by (induction s arbitrary: c) (auto split: if_splits list.splits)

definition plain_components :: "string list \<Rightarrow> bool" where
  "plain_components cs \<longleftrightarrow> (\<forall>c \<in> set cs. c \<noteq> [] \<and> CHR ''/'' \<notin> set c)"

lemma split_Join: "cs \<noteq> [] \<Longrightarrow> plain_components cs \<Longrightarrow> split_slash (Join cs ''/'') = cs"
proof (induction cs)
  case (Cons c cs)
  then have c: "CHR ''/'' \<notin> set c" and cs: "plain_components cs" by (simp_all add: plain_components_def)
  show ?case
  proof (cases cs)
    case Nil
    with c show ?thesis by (simp add: split_slash_plain)
  next
    case (Cons d ds)
    with cs Cons.IH have "split_slash (Join cs ''/'') = cs" by simp
    with c Cons show ?thesis by (simp add: split_slash_cons)
  qed
qed simp

lemma path_components_plain: "plain_components (path_components s)"
  by (auto simp: plain_components_def path_components_def dest: split_slash_no_slash)

definition dotless :: "string list \<Rightarrow> bool" where
  "dotless cs \<longleftrightarrow> ''.'' \<notin> set cs \<and> ''..'' \<notin> set cs"

lemma clean_step_cases:
  "clean_step rooted acc c \<in> {acc, [], [''..''], ''..'' # acc, tl acc, c # acc}"
  by (cases acc) simp_all

lemma clean_step_rooted:
  "dotless acc \<Longrightarrow> clean_step True acc c = (if c = ''.'' then acc else if c = ''..'' then tl acc else c # acc)"
  by (cases acc) (auto simp: dotless_def)

declare clean_step.simps [simp del]

lemma clean_step_plain:
  assumes "plain_components acc" "c \<noteq> []" "CHR ''/'' \<notin> set c"
  shows "plain_components (clean_step rooted acc c)"
proof -
  have tl: "plain_components (tl acc)" using assms(1) by (cases acc) (simp_all add: plain_components_def)
  have cons: "plain_components (d # acc)" if "d \<noteq> []" "CHR ''/'' \<notin> set d" for d
    using that assms(1) by (simp add: plain_components_def)
  have "plain_components []" "plain_components [''..'']" by (simp_all add: plain_components_def)
  with tl cons [of "''..''"] cons [OF assms(2,3)] assms(1) clean_step_cases [of rooted acc c]
  show ?thesis by fastforce
qed

lemma clean_components_plain: "plain_components (clean_components s)"
proof -
  have "plain_components acc \<Longrightarrow> plain_components cs \<Longrightarrow> plain_components (foldl (clean_step rooted) acc cs)" for rooted acc cs
  proof (induction cs arbitrary: acc)
    case (Cons c cs)
    from Cons.prems have "plain_components (clean_step rooted acc c)"
      by (intro clean_step_plain) (auto simp: plain_components_def)
    moreover have "plain_components cs" using Cons.prems by (simp add: plain_components_def)
    ultimately show ?case using Cons.IH by simp
  qed simp
  from this [OF _ path_components_plain, of "[]" "IsAbs s" s]
  have "plain_components (foldl (clean_step (IsAbs s)) [] (path_components s))" by (simp add: plain_components_def)
  then show ?thesis by (simp add: clean_components_def plain_components_def)
qed

text \<open>A cleaned absolute path has no dot elements, and walking it again changes nothing.\<close>

lemma clean_abs_dotless: "IsAbs s \<Longrightarrow> dotless (clean_components s)"
proof -
  have "dotless acc \<Longrightarrow> dotless (foldl (clean_step True) acc cs)" for acc cs
  proof (induction cs arbitrary: acc)
    case (Cons c cs)
    have "dotless (tl acc)" using Cons.prems by (cases acc) (simp_all add: dotless_def)
    with Cons.prems have "dotless (clean_step True acc c)" by (simp add: clean_step_rooted) (simp add: dotless_def)
    with Cons.IH show ?case by simp
  qed simp
  then show "IsAbs s \<Longrightarrow> ?thesis" by (simp add: clean_components_def dotless_def)
qed

lemma clean_dotless: "dotless cs \<Longrightarrow> foldl (clean_step rooted) acc cs = rev cs @ acc"
  by (induction cs arbitrary: acc) (auto simp: dotless_def clean_step.simps)

lemma components_of_abs:
  assumes "plain_components cs"
  shows "path_components (''/'' @ Join cs ''/'') = cs" "IsAbs (''/'' @ Join cs ''/'')"
proof -
  show "IsAbs (''/'' @ Join cs ''/'')" by (simp add: IsAbs_def HasPrefix_def)
  show "path_components (''/'' @ Join cs ''/'') = cs"
  proof (cases "cs = []")
    case False
    then have "split_slash (Join cs ''/'') = cs" using assms by (rule split_Join)
    with assms show ?thesis by (auto simp: path_components_def plain_components_def filter_id_conv)
  qed (simp add: path_components_def)
qed

lemma Clean_abs:
  assumes "IsAbs s"
  shows "IsAbs (Clean s)" "path_components (Clean s) = clean_components s" "Clean (Clean s) = Clean s"
proof -
  note eq = components_of_abs [OF clean_components_plain [of s]]
  have c: "Clean s = ''/'' @ Join (clean_components s) ''/''" using assms by (simp add: Clean_def)
  show abs: "IsAbs (Clean s)" and comps: "path_components (Clean s) = clean_components s" using eq by (simp_all add: c)
  have "clean_components (Clean s) = clean_components s"
    unfolding clean_components_def [of "Clean s"] comps
    using clean_dotless [OF clean_abs_dotless [OF assms], of _ "[]"] by simp
  then have "Clean (Clean s) = ''/'' @ Join (clean_components s) ''/''" using abs by (simp only: Clean_def if_True)
  then show "Clean (Clean s) = Clean s" by (simp only: c)
qed

lemma Clean_rel: "\<not> IsAbs s \<Longrightarrow> \<not> IsAbs (Clean s)"
proof (cases "clean_components s")
  case (Cons c cs)
  assume "\<not> IsAbs s"
  have "c \<noteq> []" "CHR ''/'' \<notin> set c"
    using clean_components_plain [of s] by (simp_all add: Cons plain_components_def)
  then show ?thesis
    using \<open>\<not> IsAbs s\<close> by (cases c; cases cs) (auto simp: Clean_def Cons IsAbs_def HasPrefix_def)
qed (simp add: Clean_def IsAbs_def HasPrefix_def)

lemma strip_common_prefix: "strip_common bs ts = (up, down) \<Longrightarrow> (up = [] \<longleftrightarrow> prefix bs ts)"
  by (induction bs ts rule: strip_common.induct) (auto split: if_splits)

lemma strip_common_down: "strip_common bs ts = (up, down) \<Longrightarrow> suffix down ts"
  by (induction bs ts rule: strip_common.induct) (auto split: if_splits simp: suffix_ConsI)

lemma strip_common_same: "strip_common bs ts = ([], []) \<Longrightarrow> bs = ts"
  by (induction bs ts rule: strip_common.induct) (auto split: if_splits)

lemma not_upwards:
  assumes "down \<noteq> []" and "plain_components down" and "dotless down"
  shows "Join down ''/'' \<noteq> ''..''" "\<not> HasPrefix (Join down ''/'') ''../''"
proof -
  note split = split_Join [OF assms(1,2)]
  show "Join down ''/'' \<noteq> ''..''"
  proof
    assume "Join down ''/'' = ''..''"
    with split have "down = [''..'']" by simp
    with assms(3) show False by (simp add: dotless_def)
  qed
  show "\<not> HasPrefix (Join down ''/'') ''../''"
  proof
    assume "HasPrefix (Join down ''/'') ''../''"
    then obtain rest where "Join down ''/'' = ''..'' @ CHR ''/'' # rest"
      unfolding HasPrefix_def by (metis append.assoc append_Cons append_Nil append_take_drop_id)
    then have "down = ''..'' # split_slash rest" using split split_slash_cons [of "''..''" rest] by simp
    then have "hd down = ''..''" by simp
    with assms(1,3) show False by (metis dotless_def hd_in_set)
  qed
qed

lemma upwards:
  assumes "up \<noteq> ([] :: string list)"
  shows "Join (replicate (length up) ''..'') ''/'' @ (if down = [] then [] else ''/'' @ Join down ''/'') = ''..'' \<or>
    HasPrefix (Join (replicate (length up) ''..'') ''/'' @ (if down = [] then [] else ''/'' @ Join down ''/'')) ''../''"
proof -
  obtain n where "length up = Suc n" using assms by (cases up) auto
  then show ?thesis by (cases n) (auto simp: HasPrefix_def)
qed

lemma within_prefix:
  assumes "IsAbs path"
  shows "within (Clean path) (Clean root) \<longleftrightarrow>
     IsAbs root \<and> prefix (clean_components root) (clean_components path)"
proof (cases "IsAbs root")
  case False
  then have "Clean path \<noteq> Clean root" "Clean (Clean path) \<noteq> Clean (Clean root)"
    using Clean_abs(1) [OF assms] Clean_rel [OF False] Clean_rel [OF Clean_rel [OF False]] Clean_abs(3) [OF assms] by metis+
  then show ?thesis
    using False Clean_abs [OF assms] Clean_rel [OF Clean_rel [OF False]] by (simp add: within_def Rel_def Let_def)
next
  case True
  obtain up down where s: "strip_common (clean_components root) (clean_components path) = (up, down)"
    by (rule prod.exhaust)
  show ?thesis
  proof (cases "Clean path = Clean root")
    case same: True
    then have "clean_components path = clean_components root"
      using Clean_abs(2) [OF assms] Clean_abs(2) [OF True] by metis
    with same True show ?thesis by (simp add: within_def)
  next
    case False
    have rel: "Rel (Clean root) (Clean path) = (if up = [] then Some (Join down ''/'')
        else Some (Join (replicate (length up) ''..'') ''/'' @ (if down = [] then [] else ''/'' @ Join down ''/'')))"
      using False s Clean_abs [OF assms] Clean_abs [OF True] by (simp add: Rel_def Let_def)
    have sub: "suffix down (clean_components path)" using strip_common_down [OF s] .
    have "plain_components down" "dotless down"
      using clean_components_plain [of path] clean_abs_dotless [OF assms] set_mono_suffix [OF sub]
      by (auto simp: plain_components_def dotless_def)
    moreover have "up = [] \<Longrightarrow> down \<noteq> []"
      using strip_common_same [of "clean_components root" "clean_components path"] s False assms True
      by (auto simp: Clean_def)
    ultimately show ?thesis
      using False True rel not_upwards [of down] upwards [of up down] strip_common_prefix [OF s]
      by (cases "up = []") (auto simp: within_def)
  qed
qed

subsection \<open>The roster stays well formed\<close>

lemma roster_exec_Create: "conforms (db_rel roster_kept) (exec (Agents_Create a))"
  by (rule roster.conf_exec) (rule roster_Create)

lemma roster_exec_Update: "conforms (db_rel roster_kept) (exec (Agents_Update a))"
  by (rule roster.conf_exec) (rule roster_Update)

lemma roster_exec_Heartbeat: "conforms (db_rel roster_kept) (exec (Agents_Heartbeat i at))"
  by (rule roster.conf_exec) (rule roster_Heartbeat)

lemma roster_exec_SetState: "conforms (db_rel roster_kept) (exec (Agents_SetState i st at))"
  by (rule roster.conf_exec) (rule roster_SetState)

lemma roster_exec_Store: "conforms (db_rel roster_kept) (exec (Credentials_Store c))"
  by (rule roster.conf_exec) (auto intro: roster_other dest: Credentials_Store_agents)

lemma roster_exec_Revoke: "conforms (db_rel roster_kept) (exec (Credentials_Revoke i at))"
  by (rule roster.conf_exec) (auto simp: Credentials_Revoke_def intro: roster_other)

lemma roster_exec_audit: "conforms (db_rel roster_kept) (exec (Audit_Append e))"
  by (rule roster.conf_exec) (auto simp: Audit_Append_Inr intro: roster_other)

lemma roster_newToken: "conforms (db_rel roster_kept) newToken"
  by (rule roster.conf_same_db) (simp add: newToken_def)

lemmas roster_intros = roster.conf_intros roster_exec_Create roster_exec_Update roster_exec_Heartbeat
  roster_exec_SetState roster_exec_Store roster_exec_Revoke roster_exec_audit roster_newToken

lemma roster_auth_audit: "conforms (db_rel roster_kept) (auth_audit a t dt)"
  unfolding auth_audit_def Let_def by (auto intro!: roster_intros)

lemma roster_refuse: "conforms (db_rel roster_kept) (refuse a t dt)"
  unfolding refuse_def by (auto intro!: roster_intros roster_auth_audit)

lemma roster_registry_audit: "conforms (db_rel roster_kept) (registry_audit a ac t dt)"
  unfolding registry_audit_def by (auto intro!: roster_intros)

lemma roster_Issue: "conforms (db_rel roster_kept) (Issue mac secret i)"
  unfolding Issue_def by (auto intro!: roster_intros)

lemma roster_admit: "conforms (db_rel roster_kept) (admit a rq)"
  unfolding admit_def Let_def by (auto intro!: roster_intros split: sum.split)

lemma roster_register: "conforms (db_rel roster_kept) (register mac secret opt rq internal)"
  unfolding register_def Let_def
  by (auto intro!: roster_intros roster_registry_audit roster_Issue roster_admit)

lemma roster_Authenticate: "conforms (db_rel roster_kept) (Authenticate mac secret token)"
  unfolding Authenticate_def by (auto intro!: roster_intros roster_refuse split: sum.split)

lemma roster_Beat: "conforms (db_rel roster_kept) (Heartbeat i)"
  unfolding Heartbeat_def by (auto intro!: roster_intros)

lemma roster_retire: "conforms (db_rel roster_kept) (retire a i dt)"
  unfolding retire_def Revoke_def by (auto intro!: roster_intros roster_registry_audit)

lemma roster_ReapStale: "conforms (db_rel roster_kept) (ReapStale opt)"
  unfolding ReapStale_def by (auto intro!: roster_intros roster_registry_audit)

subsection \<open>Admission\<close>

lemma ByName_some:
  "Agents_ByName n d = Inr a \<longleftrightarrow> (\<exists>row. first_where (\<lambda>r. agents_name r = n \<and> agents_state r = AgentActive) (agents d) = Some row \<and>
     a = scanAgent row)"
  by (simp add: Agents_ByName_def fetch_Inr)

lemma ByName_none:
  "Agents_ByName n d = Inl e \<longleftrightarrow> e = ErrNotFound \<and>
     \<not> exists_where (\<lambda>r. agents_name r = n \<and> agents_state r = AgentActive) (agents d)"
proof (cases "first_where (\<lambda>r. agents_name r = n \<and> agents_state r = AgentActive) (agents d)")
  case None
  then have "\<not> exists_where (\<lambda>r. agents_name r = n \<and> agents_state r = AgentActive) (agents d)"
    unfolding first_where_None exists_where_iff by blast
  with None show ?thesis by (auto simp: Agents_ByName_def)
next
  case (Some row)
  with first_where_Some [OF Some] show ?thesis by (auto simp: Agents_ByName_def exists_where_iff)
qed

lemma admit_cases:
  assumes "admit agent rq w = (res, w')" and "agent_Name agent = reg_Name rq"
  obtains (fresh) d where "\<not> exists_where (\<lambda>r. agents_name r = reg_Name rq \<and> agents_state r = AgentActive) (agents (w_db w))"
      "res = Inr agent" "Agents_Create agent (w_db w) = Inr d" "w' = w\<lparr>w_db := d\<rparr>"
  | (reclaimed) row d where "row \<in> set (agents (w_db w))" "agents_name row = reg_Name rq" "agents_state row = AgentActive"
      "agents_process_id row = reg_ProcessID rq"
      "res = Inr (agent\<lparr>agent_ID := agents_id row, agent_RegisteredAt := fromRequiredMicros (agents_registered_at row)\<rparr>)"
      "Agents_Update (agent\<lparr>agent_ID := agents_id row, agent_RegisteredAt := fromRequiredMicros (agents_registered_at row)\<rparr>) (w_db w) = Inr d"
      "w' = w\<lparr>w_db := d\<rparr>"
  | (taken) row where "row \<in> set (agents (w_db w))" "agents_name row = reg_Name rq" "agents_state row = AgentActive"
      "agents_process_id row \<noteq> reg_ProcessID rq" "res = Inl ErrAlreadyExists" "w' = w"
  | (failed) e where "res = Inl e" "w' = w"
proof (cases "Agents_ByName (reg_Name rq) (w_db w)")
  case (Inl e)
  then have "e = ErrNotFound" and none: "\<not> exists_where (\<lambda>r. agents_name r = reg_Name rq \<and> agents_state r = AgentActive) (agents (w_db w))"
    by (simp_all add: ByName_none)
  with assms(1) Inl have "(res, w') = bindE (exec (Agents_Create agent)) (\<lambda>_. returnE agent) w"
    by (simp add: admit_def bindE_apply attemptE_apply)
  with none show thesis
    by (cases "Agents_Create agent (w_db w)") (auto simp: bindE_apply exec_apply intro: fresh failed)
next
  case (Inr a)
  then obtain row where row: "row \<in> set (agents (w_db w))" "agents_name row = reg_Name rq" "agents_state row = AgentActive"
    and a: "a = scanAgent row"
    by (auto simp: ByName_some dest: first_where_Some)
  let ?agent = "agent\<lparr>agent_ID := agents_id row, agent_RegisteredAt := fromRequiredMicros (agents_registered_at row)\<rparr>"
  show thesis
  proof (cases "agents_process_id row = reg_ProcessID rq")
    case True
    have "agent_RegisteredAt (scanAgent row) = fromRequiredMicros (agents_registered_at row)" by (simp add: scanAgent_def)
    with True assms(1) Inr a have "(res, w') = bindE (exec (Agents_Update ?agent)) (\<lambda>_. returnE ?agent) w"
      by (simp add: admit_def bindE_apply attemptE_apply Let_def)
    with row True show thesis
      by (cases "Agents_Update ?agent (w_db w)") (auto simp: bindE_apply exec_apply intro: reclaimed failed)
  next
    case False
    with assms(1) Inr a have "res = Inl ErrAlreadyExists" "w' = w" by (simp_all add: admit_def bindE_apply attemptE_apply)
    with row False show thesis by (auto intro: taken)
  qed
qed

subsection \<open>Tokens\<close>

lemma token_text_looks: "length raw = tokenBytes \<Longrightarrow> looksLikeToken (token_text raw)"
  by (simp add: looksLikeToken_def token_text_def HasPrefix_def TrimPrefix_def Decode_Encode)

lemma Issue_Inr:
  assumes "Issue mac secret i w = (Inr token, w')"
  obtains d where "token = token_text (w_tokens w (w_issued w))"
    "Credentials_Store \<lparr>cred_AgentID = i, cred_TokenHash = mac secret token,
       cred_IssuedAt = time_of w, cred_RevokedAt = zeroTime\<rparr> (w_db w) = Inr d"
    "w_db w' = d"
  using assms by (auto simp: Issue_def newToken_def bindE_Inr exec_Inr hashToken_def time_of_def)

lemma Stored_found:
  assumes "Credentials_Store \<lparr>cred_AgentID = i, cred_TokenHash = h, cred_IssuedAt = at,
      cred_RevokedAt = zeroTime\<rparr> d = Inr d'"
  shows "\<exists>c. first_where (\<lambda>r. credentials_token_hash r = h) (credentials d') = Some c \<and>
     credentials_agent_id c = i \<and> \<not> Revoked (scanCredential c)" "h \<noteq> []" "agent_exists d i" "agents d' = agents d"
proof -
  let ?row = "\<lparr>credentials_agent_id = i, credentials_token_hash = h,
            credentials_issued_at = requireMicros at, credentials_revoked_at = None\<rparr>"
  from assms show "h \<noteq> []" "agent_exists d i" "agents d' = agents d" by (auto simp: Credentials_Store_Inr Let_def)
  from assms have others: "\<And>r. r \<in> set (credentials d) \<Longrightarrow> credentials_token_hash r = h \<Longrightarrow> credentials_agent_id r = i"
    and d': "credentials d' = (if exists_where (\<lambda>r. credentials_agent_id r = i) (credentials d)
        then update_where (\<lambda>r. credentials_agent_id r = i) (\<lambda>_. ?row) (credentials d) else credentials d @ [?row])"
    by (auto simp: Credentials_Store_Inr Let_def exists_where_iff toMicros_def IsZero_def)
  have "?row \<in> set (credentials d')"
    unfolding d' by (auto simp: exists_where_iff set_update_where)
  then obtain c where c: "first_where (\<lambda>r. credentials_token_hash r = h) (credentials d') = Some c"
    by (cases "first_where (\<lambda>r. credentials_token_hash r = h) (credentials d')") (force simp: first_where_None)+
  then have "c \<in> set (credentials d')" "credentials_token_hash c = h" by (auto dest: first_where_Some)
  then have "c = ?row"
    unfolding d' using others by (auto simp: set_update_where exists_where_iff split: if_splits)
  with c show "\<exists>c. first_where (\<lambda>r. credentials_token_hash r = h) (credentials d') = Some c \<and>
     credentials_agent_id c = i \<and> \<not> Revoked (scanCredential c)"
    by (auto simp: Revoked_def scanCredential_def fromMicros_def IsZero_def)
qed

lemma registry_audit_frame:
  "registry_audit a ac t dt w = (r, w') \<Longrightarrow> r = Inr () \<and> agents (w_db w') = agents (w_db w) \<and>
     credentials (w_db w') = credentials (w_db w)"
  by (cases "Audit_Append (entry_of a ac t dt (time_of w)) (w_db w)")
     (auto simp: registry_audit_def bindE_apply attemptE_apply exec_apply Audit_Append_frame)

lemma register_Inr:
  assumes "register mac secret opt rq internal w = (Inr reg, w')"
  obtains agent0 w1 w2 w3 where
    "agent_Name agent0 = reg_Name rq" "agent_State agent0 = AgentActive" "agent_ProcessID agent0 = reg_ProcessID rq"
    "agent_Capabilities agent0 = ro_CapabilitiesFor opt (reg_Name rq)" "agent_Internal agent0 = internal"
    "w_db w1 = w_db w" "w_tokens w1 = w_tokens w"
    "admit agent0 rq w1 = (Inr (registered_Agent reg), w2)"
    "Issue mac secret (agent_ID (registered_Agent reg)) w2 = (Inr (registered_Token reg), w3)"
    "agents (w_db w') = agents (w_db w3)" "credentials (w_db w') = credentials (w_db w3)"
    "\<not> internal \<Longrightarrow> resolveWorkdir opt (reg_Workdir rq) = Inr (agent_Workdir agent0)"
proof -
  from assms obtain workdir where
    v: "if internal then workdir = reg_Workdir rq else resolveWorkdir opt (reg_Workdir rq) = Inr workdir"
    and "\<exists>agentID v. newID ''agent'' (w\<lparr>w_ticks := Suc (w_ticks w)\<rparr>) = (Inr agentID, v) \<and>
      (let agent0 = \<lparr>agent_ID = agentID, agent_Name = reg_Name rq, agent_Kind = reg_Kind rq,
           agent_Workdir = workdir, agent_ProcessID = reg_ProcessID rq,
           agent_Capabilities = ro_CapabilitiesFor opt (reg_Name rq), agent_Internal = internal,
           agent_State = AgentActive, agent_RegisteredAt = time_of w, agent_LastHeartbeatAt = time_of w\<rparr>
       in \<exists>agent w2 token w3 u. admit agent0 rq v = (Inr agent, w2) \<and> Issue mac secret (agent_ID agent) w2 = (Inr token, w3) \<and>
         registry_audit (agent_ID agent) AuditAgentRegistered (agent_Name agent)
              (''kind='' @ agent_Kind agent @ '' workdir='' @ agent_Workdir agent @
               '' pid='' @ itoa (agent_ProcessID agent)) w3 = (Inr u, w') \<and>
         reg = \<lparr>registered_Agent = agent, registered_Token = token\<rparr>)"
    unfolding register_def Let_def bindE_Inr transaction_Inr by (auto split: if_splits)
  then obtain agentID v1 agent w2 token w3 u where
    n: "newID ''agent'' (w\<lparr>w_ticks := Suc (w_ticks w)\<rparr>) = (Inr agentID, v1)"
    and a: "admit \<lparr>agent_ID = agentID, agent_Name = reg_Name rq, agent_Kind = reg_Kind rq,
           agent_Workdir = workdir, agent_ProcessID = reg_ProcessID rq,
           agent_Capabilities = ro_CapabilitiesFor opt (reg_Name rq), agent_Internal = internal,
           agent_State = AgentActive, agent_RegisteredAt = time_of w, agent_LastHeartbeatAt = time_of w\<rparr> rq v1 = (Inr agent, w2)"
    and i: "Issue mac secret (agent_ID agent) w2 = (Inr token, w3)"
    and au: "registry_audit (agent_ID agent) AuditAgentRegistered (agent_Name agent)
              (''kind='' @ agent_Kind agent @ '' workdir='' @ agent_Workdir agent @
               '' pid='' @ itoa (agent_ProcessID agent)) w3 = (Inr u, w')"
    and reg: "reg = \<lparr>registered_Agent = agent, registered_Token = token\<rparr>"
    unfolding Let_def by blast
  have "w_db v1 = w_db w" "w_tokens v1 = w_tokens w" using n by (auto simp: newID_def split: prod.splits)
  with a i registry_audit_frame [OF au] v show thesis
    by (intro that) (auto simp: reg)
qed

end
