(* ===== verification/RegistryProperties.thy ===== *)
theory RegistryProperties
  imports Scenario RegistryFacts
begin

section \<open>Properties of authentication and the registry\<close>

subsection \<open>A registered agent on the sample\<close>

definition sample_mac :: keyed_hash where
  "sample_mac secret token = secret @ token"

definition sample_options :: registry_options where
  "sample_options = New_registry 0 [''/home/dev''] None"

definition sample_registration :: RegisterRequest where
  "sample_registration = \<lparr>reg_Name = ''gamma'', reg_Kind = ''codex'', reg_Workdir = ''/home/dev/../dev/project'',
     reg_ProcessID = 42\<rparr>"

definition registered_world :: world where
  "registered_world = snd (Register sample_mac ''key'' sample_options sample_registration sample_world)"

definition registered :: Registration where
  "registered = projr (fst (Register sample_mac ''key'' sample_options sample_registration sample_world))"


subsection \<open>Authentication\<close>

text \<open>C4: A token authenticates exactly when it has the shape of a token, its keyed hash is stored, the
  credential is not revoked and its agent exists and has not deregistered; the answer is that agent,
  and the state is untouched. Any other token gets the one error \<open>ErrUnauthorised\<close>, and the refusal
  is one new entry of the audit log and nothing else.\<close>

theorem authentication_outcome:
  assumes "mac secret token \<noteq> []"
  shows "(\<exists>row. token_valid mac secret token (w_db w) row \<and>
        Authenticate mac secret token w = (Inr (scanAgent row), w)) \<or>
     (\<forall>row. \<not> token_valid mac secret token (w_db w) row) \<and>
     (\<exists>w' e. Authenticate mac secret token w = (Inl ErrUnauthorised, w') \<and>
        ae_Action e = AuditAuthDenied \<and> Audit_Append e (w_db w) = Inr (w_db w'))"
  using assms
proof (cases rule: Authenticate_cases [of mac secret token w])
  case (ok row)
  then show ?thesis by blast
next
  case (refused actor target detail)
  with refuse_effect [of actor target detail w] show ?thesis
    by (metis entry_of_sel(2) select_convs(1) world.select_convs(1) world.surjective world.update_convs(1))
qed

theorem authentication_outcome_witness:
  "(\<exists>row. Authenticate sample_mac ''key'' (registered_Token registered) registered_world = (Inr (scanAgent row), registered_world)) \<or>
   (\<exists>w'. Authenticate sample_mac ''key'' (registered_Token registered) registered_world = (Inl ErrUnauthorised, w'))"
proof -
  have "sample_mac ''key'' (registered_Token registered) \<noteq> []" by (simp add: sample_mac_def)
  from authentication_outcome [of sample_mac "''key''" "registered_Token registered" registered_world, OF this] show ?thesis by blast
qed

lemma register_authenticates:
  assumes ok: "roster_ok (w_db w)" and raw: "\<And>n. length (w_tokens w n) = tokenBytes"
    and reg: "register mac secret opt rq internal w = (Inr reg, w')"
  shows "\<exists>row. Authenticate mac secret (registered_Token reg) w' = (Inr (scanAgent row), w') \<and>
     agents_id row = agent_ID (registered_Agent reg) \<and> agents_name row = reg_Name rq \<and>
     agents_state row = AgentActive \<and> agents_capabilities row = ro_CapabilitiesFor opt (reg_Name rq)"
proof -
  from reg obtain agent0 w1 w2 w3 where
    a0: "agent_Name agent0 = reg_Name rq" "agent_State agent0 = AgentActive" "agent_ProcessID agent0 = reg_ProcessID rq"
      "agent_Capabilities agent0 = ro_CapabilitiesFor opt (reg_Name rq)" "w_db w1 = w_db w" "w_tokens w1 = w_tokens w"
    and ad: "admit agent0 rq w1 = (Inr (registered_Agent reg), w2)"
    and iss: "Issue mac secret (agent_ID (registered_Agent reg)) w2 = (Inr (registered_Token reg), w3)"
    and fr: "agents (w_db w') = agents (w_db w3)" "credentials (w_db w') = credentials (w_db w3)"
    by (rule register_Inr)
  let ?i = "agent_ID (registered_Agent reg)"
  have "\<exists>row. first_where (\<lambda>r. agents_id r = ?i) (agents (w_db w2)) = Some row \<and> agents_id row = ?i \<and>
      agents_name row = reg_Name rq \<and> agents_state row = AgentActive \<and>
      agents_capabilities row = ro_CapabilitiesFor opt (reg_Name rq) \<and> w_tokens w2 = w_tokens w1"
    using ad a0(1)
  proof (cases rule: admit_cases)
    case (fresh d)
    then have "w_db w2 = (w_db w)\<lparr>agents := agents (w_db w) @ [agent_row_of agent0]\<rparr>" "registered_Agent reg = agent0"
      "\<not> agent_exists (w_db w) (agent_ID agent0)" using a0(5) by (simp_all add: Create_Inr)
    then have "first_where (\<lambda>r. agents_id r = ?i) (agents (w_db w2)) = Some (agent_row_of agent0)"
      by (auto simp: agent_exists_def intro!: first_where_last)
    with a0 \<open>registered_Agent reg = agent0\<close> fresh show ?thesis by (simp add: agent_row_of_def)
  next
    case (reclaimed row d)
    let ?a = "agent0\<lparr>agent_ID := agents_id row, agent_RegisteredAt := fromRequiredMicros (agents_registered_at row)\<rparr>"
    have ids: "distinct (map agents_id (agents (w_db w)))" using ok by (simp add: roster_ok_def)
    have w2: "agents (w_db w2) = update_where (\<lambda>r. agents_id r = ?i) (\<lambda>_. agent_row_of ?a) (agents (w_db w))"
      and r: "registered_Agent reg = ?a" using reclaimed a0(5) by (simp_all add: Update_Inr)
    have i: "?i = agents_id row" by (simp add: r)
    then have "agent_row_of ?a \<in> set (agents (w_db w2))"
      unfolding w2 set_update_where using reclaimed(1) a0(5) by (auto simp: image_iff)
    moreover have "distinct (map agents_id (agents (w_db w2)))"
      unfolding w2 using ids i by (subst map_update_where) simp_all
    ultimately have "first_where (\<lambda>r. agents_id r = ?i) (agents (w_db w2)) = Some (agent_row_of ?a)"
      using first_where_key [of agents_id "agents (w_db w2)" "agent_row_of ?a"] i by simp
    with a0 i reclaimed show ?thesis by (simp add: agent_row_of_def)
  qed simp_all
  then obtain row where row: "first_where (\<lambda>r. agents_id r = ?i) (agents (w_db w2)) = Some row" "agents_id row = ?i"
      "agents_name row = reg_Name rq" "agents_state row = AgentActive"
      "agents_capabilities row = ro_CapabilitiesFor opt (reg_Name rq)" "w_tokens w2 = w_tokens w"
    using a0(6) by auto
  from iss obtain d where tok: "registered_Token reg = token_text (w_tokens w2 (w_issued w2))"
    and st: "Credentials_Store \<lparr>cred_AgentID = ?i, cred_TokenHash = mac secret (registered_Token reg),
       cred_IssuedAt = time_of w2, cred_RevokedAt = zeroTime\<rparr> (w_db w2) = Inr d" and "w_db w3 = d"
    by (rule Issue_Inr)
  from Stored_found [OF st] row fr \<open>w_db w3 = d\<close> tok raw token_text_looks
  have "token_valid mac secret (registered_Token reg) (w_db w') row" and "mac secret (registered_Token reg) \<noteq> []"
    by (auto simp: token_valid_def)
  with Authenticate_cases [of mac secret "registered_Token reg" w'] row show ?thesis
    by (metis option.inject token_valid_def)
qed

text \<open>The token a registration returns works at once: it authenticates as the agent that was
  admitted, under the name asked for, with exactly the capabilities the operator's policy gives that
  name.\<close>

theorem registered_token_works:
  assumes "roster_ok (w_db w)" and "\<And>n. length (w_tokens w n) = tokenBytes"
    and "Register mac secret opt rq w = (Inr reg, w')"
  shows "\<exists>agent. Authenticate mac secret (registered_Token reg) w' = (Inr agent, w') \<and>
     agent_ID agent = agent_ID (registered_Agent reg) \<and> agent_Name agent = reg_Name rq \<and>
     agent_State agent = AgentActive \<and> agent_Capabilities agent = ro_CapabilitiesFor opt (reg_Name rq)"
  using register_authenticates [OF assms(1,2) assms(3) [unfolded Register_def]] by force

subsection \<open>Names\<close>



lemma bind_same_db:
  "w_db v = d \<Longrightarrow> w_db (snd (m v)) = d \<Longrightarrow>
     (\<And>x u. m v = (Inr x, u) \<Longrightarrow> w_db u = d \<Longrightarrow> w_db (snd (f x u)) = d) \<Longrightarrow>
     w_db (snd (bindE m f v)) = d"
  by (cases "m v") (auto simp: bindE_def split: sum.splits)

lemma register_blocked:
  assumes blocked: "\<And>a v. w_db v = w_db w \<Longrightarrow> agent_Name a = reg_Name rq \<Longrightarrow> \<exists>e. admit a rq v = (Inl e, v)"
  shows "w_db (snd (register mac secret opt rq internal w)) = w_db w"
proof -
  have last: "w_db (snd (bindE (transaction (admit a rq)) f v)) = w_db w"
    if "w_db v = w_db w" "agent_Name a = reg_Name rq" for a f and v :: world
    using blocked [OF that] that(1) by (auto simp: bindE_apply InTransaction_def)
  show ?thesis
    unfolding register_def Let_def
    apply (rule bind_same_db, simp, simp)
    apply (rule bind_same_db, simp, simp)
    apply (rule bind_same_db, simp, simp)
    apply (rule bind_same_db, simp, simp)
    apply (rule bind_same_db, simp, simp add: newID_def split: prod.split)
    apply (rule last)
     apply simp_all
    done
qed

text \<open>Registering under the name of a live agent: another process is refused with
  \<open>ErrAlreadyExists\<close> and the database is unchanged; the same process gets its own identity back (same
  identifier, same registration time) and no second record appears.\<close>

theorem registering_a_taken_name:
  assumes ok: "roster_ok (w_db w)" and row: "row \<in> set (agents (w_db w))" "agents_state row = AgentActive"
    and name: "agents_name row = reg_Name rq" and reg: "Register mac secret opt rq w = (res, w')"
  shows "(agents_process_id row \<noteq> reg_ProcessID rq \<longrightarrow> (\<exists>e. res = Inl e) \<and> w_db w' = w_db w) \<and>
     (\<forall>r. res = Inr r \<longrightarrow> agents_process_id row = reg_ProcessID rq \<and>
        agent_ID (registered_Agent r) = agents_id row \<and>
        agent_RegisteredAt (registered_Agent r) = fromRequiredMicros (agents_registered_at row) \<and>
        map agents_id (agents (w_db w')) = map agents_id (agents (w_db w)))"
proof (intro conjI impI allI)
  have only: "r = row" if "r \<in> set (agents (w_db w))" "agents_state r = AgentActive" "agents_name r = reg_Name rq" for r
    using ok row that name by (auto simp: roster_ok_def dest: distinct_key_eq [where k = agents_name])
  { fix r assume "res = Inr r"
    with reg have "register mac secret opt rq False w = (Inr r, w')" by (simp add: Register_def)
    then obtain agent0 w1 w2 w3 where
      a0: "agent_Name agent0 = reg_Name rq" "w_db w1 = w_db w"
      and ad: "admit agent0 rq w1 = (Inr (registered_Agent r), w2)"
      and iss: "Issue mac secret (agent_ID (registered_Agent r)) w2 = (Inr (registered_Token r), w3)"
      and fr: "agents (w_db w') = agents (w_db w3)"
      by (rule register_Inr)
    have "agents (w_db w3) = agents (w_db w2)"
      using iss by (auto elim!: Issue_Inr dest: Credentials_Store_agents)
    moreover have "agents_process_id row = reg_ProcessID rq \<and> agent_ID (registered_Agent r) = agents_id row \<and>
        agent_RegisteredAt (registered_Agent r) = fromRequiredMicros (agents_registered_at row) \<and>
        map agents_id (agents (w_db w2)) = map agents_id (agents (w_db w))"
      using ad a0(1)
    proof (cases rule: admit_cases)
      case (fresh d)
      with row name a0(2) show ?thesis by (auto simp: exists_where_iff)
    next
      case (reclaimed row' d)
      with only a0(2) have "row' = row" by simp
      with reclaimed a0(2) show ?thesis by (auto simp: Update_Inr)
    qed simp_all
    ultimately show "agents_process_id row = reg_ProcessID rq" "agent_ID (registered_Agent r) = agents_id row"
      "agent_RegisteredAt (registered_Agent r) = fromRequiredMicros (agents_registered_at row)"
      "map agents_id (agents (w_db w')) = map agents_id (agents (w_db w))"
      using fr by simp_all
    note * = this
  }
  note success = this
  assume other: "agents_process_id row \<noteq> reg_ProcessID rq"
  with success show "\<exists>e. res = Inl e" by (cases res) auto
  then obtain e where e: "res = Inl e" ..
  have adm: "\<exists>e. admit a rq v = (Inl e, v)" if "w_db v = w_db w" "agent_Name a = reg_Name rq" for a v
  proof -
    obtain r v' where "admit a rq v = (r, v')" by (rule prod.exhaust)
    then show ?thesis using that(2)
    proof (cases rule: admit_cases)
      case (fresh d)
      with row name that(1) show ?thesis by (auto simp: exists_where_iff)
    next
      case (reclaimed row' d)
      with only that(1) other show ?thesis by auto
    qed (use \<open>admit a rq v = (r, v')\<close> in blast)+
  qed
  have "w_db (snd (register mac secret opt rq False w)) = w_db w"
    by (rule register_blocked) (rule adm)
  with reg show "w_db w' = w_db w" by (simp add: Register_def)
qed

subsection \<open>Departure\<close>

lemma Authenticate_Inr:
  assumes "Authenticate mac secret token w = (Inr agent, w')"
  obtains row where "token_valid mac secret token (w_db w) row" "agent = scanAgent row"
proof (cases "mac secret token = []")
  case True
  with assms show thesis
    by (auto simp: Authenticate_def bindE_apply attemptE_apply ByTokenHash_def hashToken_def split: if_splits)
next
  case False
  from False show thesis
  proof (cases rule: Authenticate_cases [of mac secret token w])
    case (ok row)
    with assms that show thesis by simp
  next
    case (refused actor target detail)
    with assms have "refuse actor target detail w = (Inr agent, w')" by simp
    then show thesis by simp
  qed
qed

text \<open>C5: Once an agent has deregistered or been evicted, no token authenticates as it any more, its
  credential is revoked, and no other agent's record changes.\<close>

theorem departed_agents_are_locked_out:
  assumes "retire actor agentID detail w = (Inr u, w')"
  shows "(\<forall>mac secret token agent w''. Authenticate mac secret token w' = (Inr agent, w'') \<longrightarrow> agent_ID agent \<noteq> agentID) \<and>
     (\<forall>c \<in> set (credentials (w_db w')). credentials_agent_id c = agentID \<longrightarrow> credentials_revoked_at c \<noteq> None) \<and>
     filter (\<lambda>r. agents_id r \<noteq> agentID) (agents (w_db w')) = filter (\<lambda>r. agents_id r \<noteq> agentID) (agents (w_db w))"
proof -
  from assms obtain v1 v2 where
    steps: "exec (Agents_SetState agentID AgentDeregistered (time_of w)) (w\<lparr>w_ticks := Suc (w_ticks w)\<rparr>) = (Inr (), v1)"
      "Revoke agentID v1 = (Inr (), v2)" "registry_audit actor AuditAgentDeregistered agentID detail v2 = (Inr u, w')"
    unfolding retire_def by (auto simp: bindE_Inr transaction_Inr)
  from steps(1) obtain d1 where d1: "Agents_SetState agentID AgentDeregistered (time_of w) (w_db w) = Inr d1" "w_db v1 = d1"
    by (auto simp: exec_Inr)
  let ?rv = "requireMicros (time_of v1)"
  have v: "agents (w_db w') = agents d1"
      "credentials (w_db w') = update_where (\<lambda>r. credentials_agent_id r = agentID \<and> credentials_revoked_at r = None)
        (\<lambda>r. r\<lparr>credentials_revoked_at := Some ?rv\<rparr>) (credentials d1)"
    using steps(2) registry_audit_frame [OF steps(3)] d1(2)
    by (auto simp: Revoke_def exec_apply Credentials_Revoke_def)
  have gone: "agents_state r = AgentDeregistered" if "r \<in> set (agents (w_db w'))" "agents_id r = agentID" for r
  proof -
    have "agents d1 = update_where (\<lambda>r. agents_id r = agentID) (\<lambda>r. r\<lparr>agents_state := AgentDeregistered,
        agents_last_heartbeat_at := max (agents_last_heartbeat_at r) (requireMicros (time_of w))\<rparr>) (agents (w_db w))"
      using d1(1) by (simp add: SetState_Inr)
    with that(1) v(1) have "r \<in> set (update_where (\<lambda>r. agents_id r = agentID) (\<lambda>r. r\<lparr>agents_state := AgentDeregistered,
        agents_last_heartbeat_at := max (agents_last_heartbeat_at r) (requireMicros (time_of w))\<rparr>) (agents (w_db w)))"
      by simp
    then show ?thesis by (cases rule: in_update_where) (use that(2) in simp_all)
  qed
  have "agent_ID agent \<noteq> agentID" if "Authenticate mac secret token w' = (Inr agent, w'')" for mac secret token agent w''
  proof (rule Authenticate_Inr [OF that])
    fix row assume "token_valid mac secret token (w_db w') row" "agent = scanAgent row"
    then have "row \<in> set (agents (w_db w'))" "agents_state row \<noteq> AgentDeregistered" "agent_ID agent = agents_id row"
      by (auto simp: token_valid_def dest: first_where_Some)
    with gone show ?thesis by metis
  qed
  moreover have "\<forall>c \<in> set (credentials (w_db w')). credentials_agent_id c = agentID \<longrightarrow> credentials_revoked_at c \<noteq> None"
  proof (intro ballI impI)
    fix c assume c: "c \<in> set (credentials (w_db w'))" "credentials_agent_id c = agentID"
    from c(1) [unfolded v(2)] show "credentials_revoked_at c \<noteq> None"
      by (cases rule: in_update_where) (use c(2) in simp_all)
  qed
  moreover have "filter (\<lambda>r. agents_id r \<noteq> agentID) (agents (w_db w')) = filter (\<lambda>r. agents_id r \<noteq> agentID) (agents (w_db w))"
  proof -
    have "agents d1 = update_where (\<lambda>r. agents_id r = agentID) (\<lambda>r. r\<lparr>agents_state := AgentDeregistered,
        agents_last_heartbeat_at := max (agents_last_heartbeat_at r) (requireMicros (time_of w))\<rparr>) (agents (w_db w))"
      using d1(1) by (simp add: SetState_Inr)
    then show ?thesis unfolding v(1) by (simp add: update_where_others)
  qed
  ultimately show ?thesis by blast
qed

lemma retired_ok:
  "succeeded (fst (Deregister (agent_ID (registered_Agent registered)) registered_world))"
  by code_simp

theorem departed_agents_are_locked_out_witness:
  "\<not> (\<exists>agent w''. Authenticate sample_mac ''key'' (registered_Token registered)
     (snd (Deregister (agent_ID (registered_Agent registered)) registered_world)) = (Inr agent, w'') \<and>
     agent_ID agent = agent_ID (registered_Agent registered))"
proof -
  let ?i = "agent_ID (registered_Agent registered)"
  have "retire ?i ?i ''the agent said goodbye'' registered_world = (Inr (), snd (Deregister ?i registered_world))"
    using retired_ok by (cases "Deregister ?i registered_world") (auto simp: Deregister_def succeeded_def split: sum.splits)
  from departed_agents_are_locked_out [OF this] show ?thesis by blast
qed

subsection \<open>Permissions\<close>

text \<open>Every power is denied unless it was granted: a permitted request passes and changes nothing; any
  other is \<open>ErrUnauthorised\<close> with one audit entry naming who asked for what; an agent without
  capabilities, and a permission the code does not know, get nothing.\<close>

theorem authorisation_outcome:
  "Authorise agent permission target w = (if permitted agent permission target then (Inr (), w)
     else (Inl ErrUnauthorised, snd (Authorise agent permission target w))) \<and>
   (\<not> permitted agent permission target \<longrightarrow> (\<exists>e. ae_Action e = AuditAuthDenied \<and>
      ae_Actor e = (if agent_ID agent = [] then SystemActor else agent_ID agent) \<and> ae_Target e = target \<and>
      Audit_Append e (w_db w) = Inr (w_db (snd (Authorise agent permission target w))))) \<and>
   (agent_Capabilities agent = noCapabilities \<longrightarrow> \<not> permitted agent permission target) \<and>
   \<not> permitted agent (OtherPermission name) target"
proof (intro conjI)
  obtain d where d: "refuse (agent_ID agent) target (permission_name permission @ '' is not permitted'') w =
      ((Inl ErrUnauthorised :: err + unit), w\<lparr>w_ticks := Suc (w_ticks w), w_db := d\<rparr>)"
    "Audit_Append (entry_of (if agent_ID agent = [] then SystemActor else agent_ID agent) AuditAuthDenied target
      (permission_name permission @ '' is not permitted'') (time_of w)) (w_db w) = Inr d"
    using refuse_effect by blast
  show "Authorise agent permission target w = (if permitted agent permission target then (Inr (), w)
     else (Inl ErrUnauthorised, snd (Authorise agent permission target w)))"
    using d(1) by (simp add: Authorise_def)
  show "\<not> permitted agent permission target \<longrightarrow> (\<exists>e. ae_Action e = AuditAuthDenied \<and>
      ae_Actor e = (if agent_ID agent = [] then SystemActor else agent_ID agent) \<and> ae_Target e = target \<and>
      Audit_Append e (w_db w) = Inr (w_db (snd (Authorise agent permission target w))))"
  proof
    assume "\<not> permitted agent permission target"
    with d show "\<exists>e. ae_Action e = AuditAuthDenied \<and>
      ae_Actor e = (if agent_ID agent = [] then SystemActor else agent_ID agent) \<and> ae_Target e = target \<and>
      Audit_Append e (w_db w) = Inr (w_db (snd (Authorise agent permission target w)))"
      by (intro exI [of _ "entry_of (if agent_ID agent = [] then SystemActor else agent_ID agent) AuditAuthDenied target
        (permission_name permission @ '' is not permitted'') (time_of w)"]) (simp add: Authorise_def)
  qed
qed (auto simp: permitted_def MayLease_def noCapabilities_def split: Permission.split)

text \<open>C9: A working directory is accepted exactly when it is absolute and, where roots are configured,
  one of them is an ancestor of it element by element once both are cleaned (so a sibling whose name
  merely starts alike, or a path that climbs out with dot-dot, is refused); what is recorded is the
  cleaned path.\<close>

theorem workdir_confinement:
  "resolveWorkdir options workdir =
     (if IsAbs workdir \<and> (ro_WorkdirRoots options = [] \<or>
         (\<exists>root \<in> set (ro_WorkdirRoots options). IsAbs root \<and> prefix (clean_components root) (clean_components workdir)))
      then Inr (Clean workdir) else Inl ErrInvalidArgument)"
proof (cases "IsAbs workdir")
  case True
  then have "workdir \<noteq> []" by (auto simp: IsAbs_def HasPrefix_def)
  with True show ?thesis by (simp add: resolveWorkdir_def Let_def within_prefix list_ex_iff)
qed (simp add: resolveWorkdir_def)

end
