(* ===== verification/StoreMessages.thy ===== *)
theory StoreMessages
  imports StoreAgents
begin

section \<open>Messages, deliveries and subscriptions in SQLite (\<open>messages.go\<close>)\<close>

text \<open>
  A message is stored with one delivery row per recipient; both halves of a delivery, seen and
  acknowledged, are nullable instants. Deleting a message deletes its deliveries (the foreign key
  cascades).
\<close>

definition defaultInboxLimit :: int where
  "defaultInboxLimit = 100"

definition defaultLogLimit :: int where
  "defaultLogLimit = 50"

definition message_row_of :: "Message \<Rightarrow> messages_row" where
  "message_row_of m = \<lparr>messages_id = msg_ID m, messages_from_agent_id = msg_FromAgentID m,
     messages_to_agent_id = nullString (msg_ToAgentID m), messages_topic = nullString (msg_Topic m),
     messages_kind = msg_Kind m, messages_body = msg_Body m,
     messages_created_at = requireMicros (msg_CreatedAt m),
     messages_expires_at = toMicros (msg_ExpiresAt m)\<rparr>"

definition message_exists :: "db \<Rightarrow> string \<Rightarrow> bool" where
  "message_exists d i = exists_where (\<lambda>r. messages_id r = i) (messages d)"

definition new_delivery :: "string \<Rightarrow> string \<Rightarrow> deliveries_row" where
  "new_delivery messageID agentID = \<lparr>deliveries_message_id = messageID,
     deliveries_agent_id = agentID, deliveries_delivered_at = None, deliveries_acked_at = None\<rparr>"

definition is_delivery :: "string \<Rightarrow> string \<Rightarrow> deliveries_row \<Rightarrow> bool" where
  "is_delivery messageID agentID r \<longleftrightarrow>
     deliveries_message_id r = messageID \<and> deliveries_agent_id r = agentID"

text \<open>\<^verbatim>\<open>INSERT OR IGNORE\<close>: a row that is there already stays as it is.\<close>

definition insert_delivery :: "string \<Rightarrow> string \<Rightarrow> db \<Rightarrow> db" where
  "insert_delivery messageID recipientID d =
     (if exists_where (is_delivery messageID recipientID) (deliveries d) then d
      else d\<lparr>deliveries := deliveries d @ [new_delivery messageID recipientID]\<rparr>)"

definition Messages_Append :: "Message \<Rightarrow> string list \<Rightarrow> db \<Rightarrow> db res" where
  "Messages_Append m recipientIDs d = (case Message_Validate m of
      Inl e \<Rightarrow> Inl e
    | Inr _ \<Rightarrow>
       if length recipientIDs = 0 then Inl ErrInvalidArgument
       else (case translated (constrained
                ((messages_to_agent_id (message_row_of m) = None) \<noteq> (messages_topic (message_row_of m) = None))
                (\<not> message_exists d (msg_ID m)) True
                (d\<lparr>messages := messages d @ [message_row_of m]\<rparr>)) of
          Inl e \<Rightarrow> Inl e
        | Inr d1 \<Rightarrow> Inr (fold (insert_delivery (msg_ID m)) recipientIDs d1)))"

definition scanMessage :: "messages_row \<Rightarrow> Message" where
  "scanMessage r = \<lparr>msg_ID = messages_id r, msg_FromAgentID = messages_from_agent_id r,
     msg_ToAgentID = fromNullString (messages_to_agent_id r),
     msg_Topic = fromNullString (messages_topic r), msg_Kind = messages_kind r,
     msg_Body = messages_body r, msg_CreatedAt = fromRequiredMicros (messages_created_at r),
     msg_ExpiresAt = fromMicros (messages_expires_at r)\<rparr>"

definition pending_for :: "db \<Rightarrow> string \<Rightarrow> messages_row \<Rightarrow> bool" where
  "pending_for d agentID m \<longleftrightarrow>
     exists_where (\<lambda>r. is_delivery (messages_id m) agentID r \<and> deliveries_acked_at r = None) (deliveries d)"

text \<open>The join has one row per pending delivery; \<open>(message_id, agent_id)\<close> is the primary key, so
  that is one per pending message.\<close>

definition Pending :: "string \<Rightarrow> int \<Rightarrow> db \<Rightarrow> Message list res" where
  "Pending agentID limit0 d =
     (let limit = (if limit0 \<le> 0 then defaultInboxLimit else limit0)
      in Inr (map scanMessage (take (nat limit)
           (sort_key (\<lambda>m. (messages_created_at m, messages_id m))
              (filter (pending_for d agentID) (messages d))))))"

definition MarkDelivered :: "string \<Rightarrow> string list \<Rightarrow> instant \<Rightarrow> db \<Rightarrow> db res" where
  "MarkDelivered agentID messageIDs at d =
     (if length messageIDs = 0 then Inr d
      else Inr (d\<lparr>deliveries := update_where
        (\<lambda>r. deliveries_agent_id r = agentID \<and> deliveries_delivered_at r = None \<and>
             List.member messageIDs (deliveries_message_id r))
        (\<lambda>r. r\<lparr>deliveries_delivered_at := Some (requireMicros at)\<rparr>) (deliveries d)\<rparr>))"

definition acknowledges :: "string \<Rightarrow> string list \<Rightarrow> deliveries_row \<Rightarrow> bool" where
  "acknowledges agentID messageIDs r \<longleftrightarrow> deliveries_agent_id r = agentID \<and>
     deliveries_acked_at r = None \<and> List.member messageIDs (deliveries_message_id r)"

definition COALESCE :: "'a option \<Rightarrow> 'a \<Rightarrow> 'a" where
  "COALESCE x y = (case x of None \<Rightarrow> y | Some v \<Rightarrow> v)"

definition Messages_Acknowledge :: "string \<Rightarrow> string list \<Rightarrow> instant \<Rightarrow> db \<Rightarrow> (nat \<times> db) res" where
  "Messages_Acknowledge agentID messageIDs at d =
     (if length messageIDs = 0 then Inr (0, d)
      else Inr (count_where (acknowledges agentID messageIDs) (deliveries d),
        d\<lparr>deliveries := update_where (acknowledges agentID messageIDs)
          (\<lambda>r. r\<lparr>deliveries_acked_at := Some (requireMicros at),
                 deliveries_delivered_at := Some (COALESCE (deliveries_delivered_at r) (requireMicros at))\<rparr>)
          (deliveries d)\<rparr>))"

definition message_matches :: "db \<Rightarrow> MessageFilter \<Rightarrow> messages_row \<Rightarrow> bool" where
  "message_matches d f m \<longleftrightarrow>
     (mf_AgentID f \<noteq> [] \<longrightarrow> messages_from_agent_id m = mf_AgentID f \<or>
        exists_where (is_delivery (messages_id m) (mf_AgentID f)) (deliveries d)) \<and>
     (mf_Topic f \<noteq> [] \<longrightarrow> messages_topic m = Some (mf_Topic f)) \<and>
     (\<not> IsZero (mf_Since f) \<longrightarrow> messages_created_at m \<ge> requireMicros (mf_Since f))"

definition unit_separator :: char where
  "unit_separator = CHR 0x1F"

text \<open>The grouped row: two counts of non-null columns and the concatenated recipients, which the
  scan splits again. The concatenation is in insertion order.\<close>

definition scanMessageRecord :: "messages_row \<Rightarrow> nat \<Rightarrow> nat \<Rightarrow> string \<Rightarrow> MessageRecord" where
  "scanMessageRecord m delivered acked agentIDs = \<lparr>mr_Message = scanMessage m,
     mr_RecipientIDs = (if agentIDs \<noteq> [] then Split_at unit_separator agentIDs else []),
     mr_DeliveredCount = delivered, mr_AcknowledgedCount = acked\<rparr>"

definition deliveries_of :: "db \<Rightarrow> messages_row \<Rightarrow> deliveries_row list" where
  "deliveries_of d m = filter (\<lambda>r. deliveries_message_id r = messages_id m) (deliveries d)"

definition message_record :: "db \<Rightarrow> messages_row \<Rightarrow> MessageRecord" where
  "message_record d m = scanMessageRecord m
     (count_where (\<lambda>r. deliveries_delivered_at r \<noteq> None) (deliveries_of d m))
     (count_where (\<lambda>r. deliveries_acked_at r \<noteq> None) (deliveries_of d m))
     (Join (map deliveries_agent_id (deliveries_of d m)) [unit_separator])"

definition Messages_List :: "MessageFilter \<Rightarrow> db \<Rightarrow> MessageRecord list res" where
  "Messages_List f d =
     (let limit = (if mf_Limit f \<le> 0 then defaultLogLimit else mf_Limit f)
      in Inr (map (message_record d) (take (nat limit)
           (rev (sort_key (\<lambda>m. (messages_created_at m, messages_id m))
              (filter (message_matches d f) (messages d)))))))"

definition prunable :: "db \<Rightarrow> instant \<Rightarrow> duration \<Rightarrow> messages_row \<Rightarrow> bool" where
  "prunable d at retention m \<longleftrightarrow>
     (case messages_expires_at m of None \<Rightarrow> False | Some e \<Rightarrow> e \<le> requireMicros at) \<or>
     messages_created_at m \<le> requireMicros (at - retention) \<and>
     \<not> exists_where (\<lambda>r. deliveries_message_id r = messages_id m \<and> deliveries_acked_at r = None) (deliveries d)"

definition PruneExpired :: "instant \<Rightarrow> duration \<Rightarrow> db \<Rightarrow> (nat \<times> db) res" where
  "PruneExpired at retention d =
     (let gone = map messages_id (filter (prunable d at retention) (messages d))
      in Inr (length gone,
        d\<lparr>messages := delete_where (prunable d at retention) (messages d),
          deliveries := delete_where (\<lambda>r. List.member gone (deliveries_message_id r)) (deliveries d)\<rparr>))"

definition is_subscription :: "string \<Rightarrow> string \<Rightarrow> subscriptions_row \<Rightarrow> bool" where
  "is_subscription agentID topic r \<longleftrightarrow> subscriptions_agent_id r = agentID \<and> subscriptions_topic r = topic"

text \<open>\<open>wall\<close> is the reading of \<^verbatim>\<open>time.Now\<close>. A foreign key is not among the conflicts
  \<^verbatim>\<open>OR IGNORE\<close> ignores.\<close>

definition Messages_Subscribe :: "string \<Rightarrow> string \<Rightarrow> instant \<Rightarrow> db \<Rightarrow> db res" where
  "Messages_Subscribe agentID topic wall d = (case ValidateName topic of
      Inl e \<Rightarrow> Inl e
    | Inr _ \<Rightarrow>
       if exists_where (is_subscription agentID topic) (subscriptions d) then Inr d
       else translated (constrained True True (agent_exists d agentID)
         (d\<lparr>subscriptions := subscriptions d @ [\<lparr>subscriptions_agent_id = agentID,
              subscriptions_topic = topic, subscriptions_subscribed_at = requireMicros wall\<rparr>]\<rparr>)))"

definition Messages_Unsubscribe :: "string \<Rightarrow> string \<Rightarrow> db \<Rightarrow> db res" where
  "Messages_Unsubscribe agentID topic d =
     Inr (d\<lparr>subscriptions := delete_where (is_subscription agentID topic) (subscriptions d)\<rparr>)"

definition Subscribers :: "string \<Rightarrow> db \<Rightarrow> string list res" where
  "Subscribers topic d = Inr (map subscriptions_agent_id
     (sort_key (\<lambda>r. (subscriptions_subscribed_at r, subscriptions_agent_id r))
        (filter (\<lambda>r. subscriptions_topic r = topic) (subscriptions d))))"

end
