(* ===== verification/Json.thy ===== *)
theory Json
  imports GoStd
begin

section \<open>Well-formed JSON (\<^verbatim>\<open>json.Valid\<close>)\<close>

text \<open>
  The scanner of Go's \<^verbatim>\<open>encoding/json\<close>: a state per position in the grammar and a stack of the
  open objects and arrays, advanced one byte at a time. The text is valid when no byte is refused
  and the end is reached after a complete value.
\<close>

datatype json_state =
    BeginValue | BeginValueOrEmpty | BeginStringOrEmpty | BeginString | EndValue | EndTop
  | InString | InStringEsc | InStringEscU nat
  | Neg | One | Zero | Dot | Dot0 | Exp | ExpSign | Exp0 | Literal string

datatype json_open = ObjectKey | ObjectValue | ArrayValue

type_synonym json_scan = "json_state \<times> json_open list"

definition maxNestingDepth :: nat where
  "maxNestingDepth = 10000"

definition json_space :: "char \<Rightarrow> bool" where
  "json_space c \<longleftrightarrow> c = CHR '' '' \<or> c = CHR 0x09 \<or> c = CHR 0x0D \<or> c = CHR 0x0A"

definition is_digit :: "char \<Rightarrow> bool" where
  "is_digit c \<longleftrightarrow> CHR ''0'' \<le> c \<and> c \<le> CHR ''9''"

definition is_hex :: "char \<Rightarrow> bool" where
  "is_hex c \<longleftrightarrow> is_digit c \<or> CHR ''a'' \<le> c \<and> c \<le> CHR ''f'' \<or> CHR ''A'' \<le> c \<and> c \<le> CHR ''F''"

definition push_open :: "json_state \<Rightarrow> json_open \<Rightarrow> json_open list \<Rightarrow> json_scan option" where
  "push_open st k stack =
     (if length stack \<ge> maxNestingDepth then None else Some (st, k # stack))"

definition pop_open :: "json_open list \<Rightarrow> json_scan" where
  "pop_open stack = (if stack = [] then (EndTop, []) else (EndValue, stack))"

definition begin_value :: "json_open list \<Rightarrow> char \<Rightarrow> json_scan option" where
  "begin_value stack c =
     (if json_space c then Some (BeginValue, stack)
      else if c = CHR ''{'' then push_open BeginStringOrEmpty ObjectKey stack
      else if c = CHR ''['' then push_open BeginValueOrEmpty ArrayValue stack
      else if c = CHR 0x22 then Some (InString, stack)
      else if c = CHR ''-'' then Some (Neg, stack)
      else if c = CHR ''0'' then Some (Zero, stack)
      else if c = CHR ''t'' then Some (Literal ''rue'', stack)
      else if c = CHR ''f'' then Some (Literal ''alse'', stack)
      else if c = CHR ''n'' then Some (Literal ''ull'', stack)
      else if is_digit c then Some (One, stack)
      else None)"

definition begin_string :: "json_open list \<Rightarrow> char \<Rightarrow> json_scan option" where
  "begin_string stack c =
     (if json_space c then Some (BeginString, stack)
      else if c = CHR 0x22 then Some (InString, stack)
      else None)"

definition end_value :: "json_open list \<Rightarrow> char \<Rightarrow> json_scan option" where
  "end_value stack c = (case stack of
      [] \<Rightarrow> if json_space c then Some (EndTop, []) else None
    | k # rest \<Rightarrow>
        if json_space c then Some (EndValue, stack)
        else (case k of
            ObjectKey \<Rightarrow> if c = CHR '':'' then Some (BeginValue, ObjectValue # rest) else None
          | ObjectValue \<Rightarrow>
              if c = CHR '','' then Some (BeginString, ObjectKey # rest)
              else if c = CHR ''}'' then Some (pop_open rest) else None
          | ArrayValue \<Rightarrow>
              if c = CHR '','' then Some (BeginValue, stack)
              else if c = CHR '']'' then Some (pop_open rest) else None))"

definition exponent :: "json_open list \<Rightarrow> char \<Rightarrow> json_scan option" where
  "exponent stack c =
     (if c = CHR ''e'' \<or> c = CHR ''E'' then Some (Exp, stack) else end_value stack c)"

definition after_zero :: "json_open list \<Rightarrow> char \<Rightarrow> json_scan option" where
  "after_zero stack c = (if c = CHR ''.'' then Some (Dot, stack) else exponent stack c)"

fun json_step :: "json_scan \<Rightarrow> char \<Rightarrow> json_scan option" where
  "json_step (BeginValue, stack) c = begin_value stack c"
| "json_step (BeginValueOrEmpty, stack) c =
     (if json_space c then Some (BeginValueOrEmpty, stack)
      else if c = CHR '']'' then end_value stack c else begin_value stack c)"
| "json_step (BeginStringOrEmpty, stack) c =
     (if json_space c then Some (BeginStringOrEmpty, stack)
      else if c = CHR ''}'' then end_value (ObjectValue # tl stack) c else begin_string stack c)"
| "json_step (BeginString, stack) c = begin_string stack c"
| "json_step (EndValue, stack) c = end_value stack c"
| "json_step (EndTop, stack) c = (if json_space c then Some (EndTop, stack) else None)"
| "json_step (InString, stack) c =
     (if c = CHR 0x22 then Some (EndValue, stack)
      else if c = CHR 0x5C then Some (InStringEsc, stack)
      else if c < CHR '' '' then None
      else Some (InString, stack))"
| "json_step (InStringEsc, stack) c =
     (if c \<in> set ''bfnrt/'' \<or> c = CHR 0x5C \<or> c = CHR 0x22 then Some (InString, stack)
      else if c = CHR ''u'' then Some (InStringEscU 3, stack)
      else None)"
| "json_step (InStringEscU n, stack) c =
     (if \<not> is_hex c then None
      else if n = 0 then Some (InString, stack) else Some (InStringEscU (n - 1), stack))"
| "json_step (Neg, stack) c =
     (if c = CHR ''0'' then Some (Zero, stack) else if is_digit c then Some (One, stack) else None)"
| "json_step (One, stack) c = (if is_digit c then Some (One, stack) else after_zero stack c)"
| "json_step (Zero, stack) c = after_zero stack c"
| "json_step (Dot, stack) c = (if is_digit c then Some (Dot0, stack) else None)"
| "json_step (Dot0, stack) c = (if is_digit c then Some (Dot0, stack) else exponent stack c)"
| "json_step (Exp, stack) c =
     (if c = CHR ''+'' \<or> c = CHR ''-'' then Some (ExpSign, stack)
      else if is_digit c then Some (Exp0, stack) else None)"
| "json_step (ExpSign, stack) c = (if is_digit c then Some (Exp0, stack) else None)"
| "json_step (Exp0, stack) c = (if is_digit c then Some (Exp0, stack) else end_value stack c)"
| "json_step (Literal expected, stack) c = (case expected of
      [] \<Rightarrow> end_value stack c
    | x # xs \<Rightarrow> if c \<noteq> x then None
                else if xs = [] then Some (EndValue, stack) else Some (Literal xs, stack))"

fun json_scan :: "json_scan \<Rightarrow> string \<Rightarrow> json_scan option" where
  "json_scan s [] = Some s"
| "json_scan s (c # cs) = (case json_step s c of None \<Rightarrow> None | Some s' \<Rightarrow> json_scan s' cs)"

definition json_Valid :: "string \<Rightarrow> bool" where
  "json_Valid source = (case json_scan (BeginValue, []) source of
      None \<Rightarrow> False
    | Some s \<Rightarrow> (case s of (EndTop, _) \<Rightarrow> True
        | _ \<Rightarrow> (case json_step s (CHR '' '') of Some (EndTop, _) \<Rightarrow> True | _ \<Rightarrow> False)))"

subsection \<open>Encoding strings and string maps (\<^verbatim>\<open>json.Marshal\<close>)\<close>

text \<open>\<^verbatim>\<open>utf8.DecodeRuneInString\<close>: how many bytes the first character has, 0 if they are not UTF-8.\<close>

definition byte_in :: "nat \<Rightarrow> nat \<Rightarrow> char \<Rightarrow> bool" where
  "byte_in lo hi c \<longleftrightarrow> lo \<le> of_char c \<and> of_char c \<le> hi"

definition rune_pattern :: "char \<Rightarrow> (char \<Rightarrow> bool) list" where
  "rune_pattern c =
     (if byte_in 0xC2 0xDF c then [byte_in 0x80 0xBF]
      else if byte_in 0xE0 0xE0 c then [byte_in 0xA0 0xBF, byte_in 0x80 0xBF]
      else if byte_in 0xE1 0xEC c \<or> byte_in 0xEE 0xEF c then [byte_in 0x80 0xBF, byte_in 0x80 0xBF]
      else if byte_in 0xED 0xED c then [byte_in 0x80 0x9F, byte_in 0x80 0xBF]
      else if byte_in 0xF0 0xF0 c then [byte_in 0x90 0xBF, byte_in 0x80 0xBF, byte_in 0x80 0xBF]
      else if byte_in 0xF1 0xF3 c then [byte_in 0x80 0xBF, byte_in 0x80 0xBF, byte_in 0x80 0xBF]
      else if byte_in 0xF4 0xF4 c then [byte_in 0x80 0x8F, byte_in 0x80 0xBF, byte_in 0x80 0xBF]
      else [])"

definition rune_rest :: "char \<Rightarrow> string \<Rightarrow> nat" where
  "rune_rest c cs = (let ps = rune_pattern c in
     if length ps \<le> length cs \<and> list_all2 (\<lambda>p x. p x) ps (take (length ps) cs) then length ps else 0)"

definition hex_digit :: "nat \<Rightarrow> char" where
  "hex_digit n = ''0123456789abcdef'' ! (n mod 16)"

definition json_escape :: "char \<Rightarrow> string" where
  "json_escape c =
     (if c = CHR 0x22 \<or> c = CHR 0x5C then [CHR 0x5C, c]
      else if c = CHR 0x08 then [CHR 0x5C, CHR ''b'']
      else if c = CHR 0x0C then [CHR 0x5C, CHR ''f'']
      else if c = CHR 0x0A then [CHR 0x5C, CHR ''n'']
      else if c = CHR 0x0D then [CHR 0x5C, CHR ''r'']
      else if c = CHR 0x09 then [CHR 0x5C, CHR ''t'']
      else if c < CHR '' '' \<or> c = CHR ''<'' \<or> c = CHR ''>'' \<or> c = CHR ''&''
        then [CHR 0x5C, CHR ''u'', CHR ''0'', CHR ''0'', hex_digit (of_char c div 16), hex_digit (of_char c)]
      else [c])"

definition replacement :: string where
  "replacement = CHR 0x5C # ''ufffd''"

text \<open>The line and paragraph separators (E2 80 A8 and E2 80 A9) are escaped for JavaScript's sake.\<close>

function json_string_body :: "string \<Rightarrow> string" where
  "json_string_body [] = []"
| "json_string_body (c # cs) =
     (if c < CHR 0x80 then json_escape c @ json_string_body cs
      else (let n = rune_rest c cs in
        if n = 0 then replacement @ json_string_body cs
        else if c # take n cs = [CHR 0xE2, CHR 0x80, CHR 0xA8] then (CHR 0x5C # ''u2028'') @ json_string_body (drop n cs)
        else if c # take n cs = [CHR 0xE2, CHR 0x80, CHR 0xA9] then (CHR 0x5C # ''u2029'') @ json_string_body (drop n cs)
        else (c # take n cs) @ json_string_body (drop n cs)))"
  by pat_completeness auto
termination by (relation "measure length") (auto simp: le_imp_less_Suc)

declare json_string_body.simps [simp del]

definition json_string :: "string \<Rightarrow> string" where
  "json_string s = [CHR 0x22] @ json_string_body s @ [CHR 0x22]"

text \<open>A \<^verbatim>\<open>map[string]string\<close> is written with its keys in order.\<close>

definition json_member :: "string \<times> string \<Rightarrow> string" where
  "json_member kv = json_string (fst kv) @ '':'' @ json_string (snd kv)"

definition json_object :: "(string \<times> string) list \<Rightarrow> string" where
  "json_object kvs = ''{'' @ Join (map json_member (sort_key fst kvs)) '','' @ ''}''"

subsection \<open>What is encoded is valid\<close>

lemma json_Valid_nonempty: "json_Valid source \<Longrightarrow> source \<noteq> []"
  by (cases source) (auto simp: json_Valid_def begin_value_def json_space_def)

lemma json_scan_append: "json_scan s (xs @ ys) = (case json_scan s xs of None \<Rightarrow> None | Some s' \<Rightarrow> json_scan s' ys)"
  by (induction xs arbitrary: s) (auto split: option.split)

text \<open>Text that keeps the scanner inside a string.\<close>

definition in_string :: "string \<Rightarrow> bool" where
  "in_string s \<longleftrightarrow> (\<forall>stack. json_scan (InString, stack) s = Some (InString, stack))"

lemma in_string_Nil: "in_string []"
  by (simp add: in_string_def)

lemma in_string_append: "in_string s \<Longrightarrow> in_string t \<Longrightarrow> in_string (s @ t)"
  by (simp add: in_string_def json_scan_append)

lemma in_string_plain: "list_all (\<lambda>c. c \<noteq> CHR 0x22 \<and> c \<noteq> CHR 0x5C \<and> \<not> c < CHR '' '') s \<Longrightarrow> in_string s"
  by (induction s) (auto simp: in_string_def)

lemma is_hex_digit: "is_hex (hex_digit n)"
proof -
  have "\<forall>m < 16. is_hex (''0123456789abcdef'' ! m)" by code_simp
  then show ?thesis by (simp add: hex_digit_def)
qed

lemma in_string_escape: "in_string (json_escape c)"
  using is_hex_digit [of "of_char c div 16"] is_hex_digit [of "of_char c"]
  by (auto simp: json_escape_def in_string_def is_hex_def is_digit_def)

lemma high_plain: "\<not> c < CHR 0x80 \<Longrightarrow> c \<noteq> CHR 0x22 \<and> c \<noteq> CHR 0x5C \<and> \<not> c < CHR '' ''"
  by (auto simp: less_char_def)

lemma byte_in_high: "byte_in lo hi c \<Longrightarrow> 0x80 \<le> lo \<Longrightarrow> \<not> c < CHR 0x80"
  by (simp add: byte_in_def less_char_def)

lemma rune_pattern_high: "p \<in> set (rune_pattern c) \<Longrightarrow> p x \<Longrightarrow> \<not> x < CHR 0x80"
  by (auto simp: rune_pattern_def split: if_splits dest: byte_in_high)

lemma rune_rest_high: "x \<in> set (take (rune_rest c cs) cs) \<Longrightarrow> \<not> x < CHR 0x80"
proof -
  assume x: "x \<in> set (take (rune_rest c cs) cs)"
  then have all: "list_all2 (\<lambda>p x. p x) (rune_pattern c) (take (rune_rest c cs) cs)"
    by (auto simp: rune_rest_def Let_def split: if_splits)
  then obtain p where "p \<in> set (rune_pattern c)" "p x"
    using x by (metis list_all2_conv_all_nth in_set_conv_nth)
  then show ?thesis by (rule rune_pattern_high)
qed

lemma in_string_body: "in_string (json_string_body s)"
proof (induction s rule: json_string_body.induct)
  case 1
  show ?case by (simp add: json_string_body.simps in_string_Nil)
next
  case (2 c cs)
  have u: "in_string replacement" "in_string (CHR 0x5C # ''u2028'')" "in_string (CHR 0x5C # ''u2029'')"
    by (auto simp: in_string_def replacement_def is_hex_def is_digit_def)
  show ?case
  proof (cases "c < CHR 0x80")
    case True
    with 2 show ?thesis by (simp add: json_string_body.simps in_string_append in_string_escape)
  next
    case False
    have "in_string (c # take (rune_rest c cs) cs)"
      using False rune_rest_high [of _ c cs] high_plain by (intro in_string_plain) (auto simp: list_all_iff)
    with 2 False u show ?thesis
      by (auto simp: json_string_body.simps(2) [of c cs] Let_def intro!: in_string_append simp del: append_Cons)
  qed
qed

lemma scan_string: "json_scan (InString, stack) (json_string_body s @ CHR 0x22 # rest) = json_scan (EndValue, stack) rest"
  using in_string_body [of s] by (simp add: in_string_def json_scan_append)

lemma scan_member:
  assumes "st = BeginString \<or> st = BeginStringOrEmpty"
  shows "json_scan (st, ObjectKey # stack) (json_member kv @ rest) = json_scan (EndValue, ObjectValue # stack) rest"
  using assms
  by (auto simp: json_member_def json_string_def begin_string_def begin_value_def json_space_def scan_string end_value_def)

lemma scan_members:
  assumes "kvs \<noteq> []" and "st = BeginString \<or> st = BeginStringOrEmpty"
  shows "json_scan (st, ObjectKey # stack) (Join (map json_member kvs) '','' @ rest) =
    json_scan (EndValue, ObjectValue # stack) rest"
  using assms
proof (induction kvs arbitrary: st)
  case (Cons kv kvs)
  show ?case
  proof (cases kvs)
    case Nil
    with Cons.prems show ?thesis by (simp add: scan_member)
  next
    case (Cons kv' kvs')
    with Cons.IH [of BeginString] Cons.prems scan_member [of st stack kv] show ?thesis
      by (simp add: end_value_def json_space_def)
  qed
qed simp

text \<open>Every encoded map is valid JSON, whatever bytes its strings have.\<close>

lemma json_object_valid: "json_Valid (json_object kvs)"
proof (cases "kvs = []")
  case True
  then show ?thesis
    by (simp add: json_object_def json_Valid_def begin_value_def push_open_def maxNestingDepth_def json_space_def
        end_value_def pop_open_def)
next
  case False
  then have "sort_key fst kvs \<noteq> []" by (metis length_0_conv length_sort)
  then have "json_scan (BeginValue, []) (json_object kvs) = Some (EndTop, [])"
    using scan_members [of "sort_key fst kvs" BeginStringOrEmpty "[]" "''}''"]
    by (simp add: json_object_def begin_value_def push_open_def maxNestingDepth_def json_space_def end_value_def pop_open_def)
  then show ?thesis by (simp add: json_Valid_def)
qed

lemma json_object_nonempty: "json_object kvs \<noteq> []"
  by (simp add: json_object_def)

end
