(* ===== verification/Messaging.thy ===== *)
theory Messaging
  imports StoreMessages Json
begin

section \<open>What one agent tells another (\<open>internal/service/messaging\<close>, \<open>internal/daemon/notifier.go\<close>)\<close>

text \<open>
  The service resolves an address into recipients, stores the message with a delivery for each in
  one transaction, and then nudges the recipients that are connected. The notifier is the daemon's
  fan-out over its front ends: \<open>w_sessions\<close> says how many sessions of an agent a push reaches and
  \<open>w_pushed\<close> records what was pushed.
\<close>

definition NotificationMethod :: string where
  "NotificationMethod = ''message.received''"

subsection \<open>Pushing (\<open>notifier.go\<close>)\<close>

text \<open>A front end answers how many sessions of the agent it reached; \<open>None\<close> is a nil target.\<close>

type_synonym front_end = "string \<Rightarrow> string \<Rightarrow> nat"

definition add_target :: "front_end option \<Rightarrow> front_end option list \<Rightarrow> front_end option list" where
  "add_target target targets = (if target \<noteq> None then targets @ [target] else targets)"

definition fanOut_Broadcast :: "front_end option list \<Rightarrow> string \<Rightarrow> string \<Rightarrow> nat" where
  "fanOut_Broadcast targets agentID rpc_method = foldl
     (\<lambda>reached target. case target of None \<Rightarrow> reached | Some t \<Rightarrow> reached + t agentID rpc_method) 0 targets"

definition Broadcast :: "string \<Rightarrow> string \<Rightarrow> (string \<times> string) list \<Rightarrow> nat action" where
  "Broadcast agentID rpc_method params = (\<lambda>w.
     (Inr (w_sessions w agentID), w\<lparr>w_pushed := w_pushed w @ [(agentID, rpc_method, params)]\<rparr>))"

subsection \<open>The service\<close>

record messaging_options =
  mo_DefaultTimeToLive :: duration
  mo_Retention :: duration
  mo_Notifier :: bool

record SendRequest =
  snd_FromAgentID :: string
  snd_ToAgentName :: string
  snd_Topic :: string
  snd_Kind :: string
  snd_Body :: string

record Sent =
  sent_Message :: Message
  sent_RecipientIDs :: "string list"
  sent_Notified :: nat

definition everyoneBut :: "Agent list \<Rightarrow> string \<Rightarrow> string list" where
  "everyoneBut found senderID = map agent_ID (filter (\<lambda>a. agent_ID a \<noteq> senderID) found)"

definition withoutSender :: "string list \<Rightarrow> string \<Rightarrow> string list" where
  "withoutSender agentIDs senderID = filter (\<lambda>i. i \<noteq> senderID) agentIDs"

definition destinationOf :: "Message \<Rightarrow> string" where
  "destinationOf m = (if Direct m then msg_ToAgentID m else ''topic:'' @ msg_Topic m)"

definition resolveRecipients :: "SendRequest \<Rightarrow> string \<Rightarrow> db \<Rightarrow> string list res" where
  "resolveRecipients request senderID d =
     (if snd_ToAgentName request \<noteq> [] then
        (case FindForDelivery (snd_ToAgentName request) d of
           Inl e \<Rightarrow> Inl e | Inr recipient \<Rightarrow> Inr [agent_ID recipient])
      else if snd_Topic request = BroadcastTopic then
        (case Agents_List \<lparr>agf_States = [AgentActive], agf_Kinds = []\<rparr> d of
           Inl e \<Rightarrow> Inl e | Inr found \<Rightarrow> Inr (everyoneBut found senderID))
      else (case Subscribers (snd_Topic request) d of
           Inl e \<Rightarrow> Inl e | Inr subscribers \<Rightarrow> Inr (withoutSender subscribers senderID)))"

definition message_params :: "Message \<Rightarrow> (string \<times> string) list" where
  "message_params m = [(''message_id'', msg_ID m), (''from'', msg_FromAgentID m),
     (''kind'', msg_Kind m), (''topic'', msg_Topic m),
     (''created_at'', FormatRFC3339Nano (msg_CreatedAt m))]"

fun notify_each :: "Message \<Rightarrow> string list \<Rightarrow> nat action" where
  "notify_each m [] = returnE 0"
| "notify_each m (recipient # rest) =
     bindE (Broadcast recipient NotificationMethod (message_params m)) (\<lambda>n.
     bindE (notify_each m rest) (\<lambda>k. returnE (n + k)))"

definition notify :: "messaging_options \<Rightarrow> Message \<Rightarrow> string list \<Rightarrow> nat action" where
  "notify options m recipients = (if \<not> mo_Notifier options then returnE 0 else notify_each m recipients)"

text \<open>The body of the transaction of \<open>Send\<close>.\<close>

definition store_message :: "SendRequest \<Rightarrow> Message \<Rightarrow> (Message \<times> string list) action" where
  "store_message request message0 =
     bindE (query (resolveRecipients request (msg_FromAgentID message0))) (\<lambda>resolved.
     if length resolved = 0 then throwE ErrNotFound
     else
       let message = (if snd_ToAgentName request \<noteq> [] then message0\<lparr>msg_ToAgentID := hd resolved\<rparr>
                      else message0)
       in
       bindE (exec (Messages_Append message resolved)) (\<lambda>_.
       bindE (exec (Audit_Append (entry_of (msg_FromAgentID message) AuditMessageSent (destinationOf message)
                (''kind='' @ msg_Kind message @ '' recipients='' @ itoa (int (length resolved)))
                (msg_CreatedAt message)))) (\<lambda>_.
       returnE (message, resolved))))"

definition Send :: "messaging_options \<Rightarrow> SendRequest \<Rightarrow> Sent action" where
  "Send options request =
     bindE (liftE (ValidateName (snd_Kind request))) (\<lambda>_.
     if length (snd_Body request) = 0 then throwE ErrInvalidArgument
     else if \<not> json_Valid (snd_Body request) then throwE ErrInvalidArgument
     else
     bindE (newID ''msg'') (\<lambda>messageID.
     bindE now (\<lambda>at.
     let message0 = \<lparr>msg_ID = messageID, msg_FromAgentID = snd_FromAgentID request, msg_ToAgentID = [],
           msg_Topic = snd_Topic request, msg_Kind = snd_Kind request, msg_Body = snd_Body request,
           msg_CreatedAt = at,
           msg_ExpiresAt = (if mo_DefaultTimeToLive options > 0 then at + mo_DefaultTimeToLive options
                            else zeroTime)\<rparr>
     in
     bindE (transaction (store_message request message0)) (\<lambda>(message, recipients).
     bindE (notify options message recipients) (\<lambda>notified.
     returnE \<lparr>sent_Message = message, sent_RecipientIDs = recipients, sent_Notified = notified\<rparr>)))))"

definition Inbox :: "string \<Rightarrow> int \<Rightarrow> Message list action" where
  "Inbox agentID limit =
     bindE (query (Pending agentID limit)) (\<lambda>found.
     if length found = 0 then returnE found
     else
     bindE now (\<lambda>at.
     bindE (exec (MarkDelivered agentID (map msg_ID found) at)) (\<lambda>_. returnE found)))"

definition Acknowledge :: "string \<Rightarrow> string list \<Rightarrow> nat action" where
  "Acknowledge agentID messageIDs =
     bindE now (\<lambda>at. execR (Messages_Acknowledge agentID messageIDs at))"

definition Subscribe :: "string \<Rightarrow> string \<Rightarrow> unit action" where
  "Subscribe agentID topic =
     (if topic = BroadcastTopic then throwE ErrInvalidArgument
      else bindE now (\<lambda>wall. exec (Messages_Subscribe agentID topic wall)))"

definition Unsubscribe :: "string \<Rightarrow> string \<Rightarrow> unit action" where
  "Unsubscribe agentID topic = exec (Messages_Unsubscribe agentID topic)"

definition Log :: "MessageFilter \<Rightarrow> MessageRecord list action" where
  "Log f = query (Messages_List f)"

definition Prune :: "messaging_options \<Rightarrow> nat action" where
  "Prune options = bindE now (\<lambda>at. execR (PruneExpired at (mo_Retention options)))"

end
