(* ===== verification/MessagingFacts.thy ===== *)
theory MessagingFacts
  imports Messaging
begin

section \<open>What the messaging operations do to the mailboxes\<close>

text \<open>
  The abstraction of the messages and deliveries tables is a mailbox per agent: the messages it has
  not acknowledged. The lemmas give the effect of each statement on the mailboxes and show that
  the tables stay consistent: unique keys, and no delivery without its message.
\<close>

definition mail_ok :: "db \<Rightarrow> bool" where
  "mail_ok d \<longleftrightarrow> distinct (map messages_id (messages d)) \<and>
     distinct (map (\<lambda>r. (deliveries_message_id r, deliveries_agent_id r)) (deliveries d)) \<and>
     (\<forall>r \<in> set (deliveries d). message_exists d (deliveries_message_id r))"

definition mailbox :: "db \<Rightarrow> string \<Rightarrow> messages_row set" where
  "mailbox d a = {m \<in> set (messages d). pending_for d a m}"

text \<open>A failed operation left the tables alone; a step of another service does not touch them.\<close>

definition same_mail :: "db \<Rightarrow> db \<Rightarrow> bool" where
  "same_mail d d' \<longleftrightarrow> messages d' = messages d \<and> deliveries d' = deliveries d"

interpretation same_mail: db_order same_mail
  by unfold_locales (auto simp: same_mail_def)

lemma same_mail_refl [simp]: "same_mail d d"
  by (simp add: same_mail_def)

lemma mailbox_same: "same_mail d d' \<Longrightarrow> mailbox d' a = mailbox d a"
  by (simp add: same_mail_def mailbox_def pending_for_def)

lemma mail_ok_same: "same_mail d d' \<Longrightarrow> mail_ok d' = mail_ok d"
  by (simp add: same_mail_def mail_ok_def message_exists_def)

lemma pending_for_iff:
  "pending_for d a m \<longleftrightarrow> (\<exists>r \<in> set (deliveries d). deliveries_message_id r = messages_id m \<and>
     deliveries_agent_id r = a \<and> deliveries_acked_at r = None)"
  by (auto simp: pending_for_def exists_where_iff is_delivery_def)

lemma message_row_sel [simp]:
  "messages_id (message_row_of m) = msg_ID m"
  "messages_expires_at (message_row_of m) = toMicros (msg_ExpiresAt m)"
  "messages_created_at (message_row_of m) = requireMicros (msg_CreatedAt m)"
  by (simp_all add: message_row_of_def)

lemma bex_update_where:
  "(\<exists>r \<in> set (update_where P f rows). Q r) \<longleftrightarrow> (\<exists>r \<in> set rows. Q (if P r then f r else r))"
  by (auto simp: update_where_def)

lemma new_delivery_sel [simp]:
  "deliveries_message_id (new_delivery i a) = i" "deliveries_agent_id (new_delivery i a) = a"
  "deliveries_acked_at (new_delivery i a) = None" "deliveries_delivered_at (new_delivery i a) = None"
  by (simp_all add: new_delivery_def)

subsection \<open>Appending\<close>

text \<open>The first of several equal recipients counts.\<close>

definition each_once :: "string list \<Rightarrow> string list" where
  "each_once rs = rev (remdups (rev rs))"

lemma set_each_once [simp]: "set (each_once rs) = set rs"
  by (simp add: each_once_def)

lemma distinct_each_once [simp]: "distinct (each_once rs)"
  by (simp add: each_once_def)

lemma each_once_distinct: "distinct rs \<Longrightarrow> each_once rs = rs"
  by (simp add: each_once_def distinct_remdups_id)

lemma each_once_snoc: "each_once (rs @ [r]) = (if r \<in> set rs then each_once rs else each_once rs @ [r])"
  by (simp add: each_once_def)

lemma fold_insert_delivery:
  assumes "\<forall>s \<in> set (deliveries d). deliveries_message_id s \<noteq> i"
  shows "fold (insert_delivery i) rs d =
    d\<lparr>deliveries := deliveries d @ map (new_delivery i) (each_once rs)\<rparr>"
proof (induction rs rule: rev_induct)
  case Nil
  then show ?case by (simp add: each_once_def)
next
  case (snoc r rs)
  have "exists_where (is_delivery i r) (deliveries d @ map (new_delivery i) (each_once rs)) \<longleftrightarrow> r \<in> set rs"
    using assms by (auto simp: exists_where_iff is_delivery_def bex_Un)
  then have "insert_delivery i r (d\<lparr>deliveries := deliveries d @ map (new_delivery i) (each_once rs)\<rparr>) =
      d\<lparr>deliveries := deliveries d @ map (new_delivery i) (each_once (rs @ [r]))\<rparr>"
    by (simp add: insert_delivery_def each_once_snoc)
  then show ?case by (simp add: snoc.IH)
qed

lemma Validate_destination: "Message_Validate m = Inr u \<Longrightarrow>
    (messages_to_agent_id (message_row_of m) = None) \<noteq> (messages_topic (message_row_of m) = None)"
  by (auto simp: Message_Validate_def message_row_of_def nullString_def split: if_splits)

lemma no_delivery_of_a_new_message:
  "mail_ok d \<Longrightarrow> \<not> message_exists d i \<Longrightarrow> \<forall>s \<in> set (deliveries d). deliveries_message_id s \<noteq> i"
  by (auto simp: mail_ok_def)

lemma Append_Inr:
  assumes "mail_ok d"
  shows "Messages_Append m rs d = Inr d' \<longleftrightarrow> Message_Validate m = Inr () \<and> rs \<noteq> [] \<and>
    \<not> message_exists d (msg_ID m) \<and>
    d' = d\<lparr>messages := messages d @ [message_row_of m],
           deliveries := deliveries d @ map (new_delivery (msg_ID m)) (each_once rs)\<rparr>"
proof -
  have "fold (insert_delivery (msg_ID m)) rs (d\<lparr>messages := messages d @ [message_row_of m]\<rparr>) =
      d\<lparr>messages := messages d @ [message_row_of m],
        deliveries := deliveries d @ map (new_delivery (msg_ID m)) (each_once rs)\<rparr>"
    if "\<not> message_exists d (msg_ID m)"
    using no_delivery_of_a_new_message [OF assms that] by (simp add: fold_insert_delivery)
  then show ?thesis
    using Validate_destination [of m]
    by (cases "Message_Validate m") (auto simp: Messages_Append_def translated_def constrained_def)
qed

lemma Append_mail_ok:
  assumes ok: "mail_ok d" and app: "Messages_Append m rs d = Inr d'"
  shows "mail_ok d'"
proof -
  have eq: "messages d' = messages d @ [message_row_of m]"
      "deliveries d' = deliveries d @ map (new_delivery (msg_ID m)) (each_once rs)"
    and new: "\<not> message_exists d (msg_ID m)"
    using app Append_Inr [OF ok, of m rs d'] by auto
  have "distinct (map messages_id (messages d'))"
    using ok new by (auto simp: eq mail_ok_def message_exists_def exists_where_iff)
  moreover have "distinct (map (\<lambda>r. (deliveries_message_id r, deliveries_agent_id r)) (deliveries d'))"
    using ok no_delivery_of_a_new_message [OF ok new]
    by (auto simp: eq mail_ok_def comp_def distinct_map inj_on_def)
  moreover have "message_exists d' (deliveries_message_id r)" if "r \<in> set (deliveries d')" for r
    using that ok by (auto simp: eq mail_ok_def message_exists_def exists_where_iff)
  ultimately show ?thesis by (simp add: mail_ok_def)
qed

lemma Append_mailbox:
  assumes ok: "mail_ok d" and app: "Messages_Append m rs d = Inr d'"
  shows "mailbox d' a = mailbox d a \<union> (if a \<in> set rs then {message_row_of m} else {})"
proof -
  have eq: "messages d' = messages d @ [message_row_of m]"
      "deliveries d' = deliveries d @ map (new_delivery (msg_ID m)) (each_once rs)"
    and new: "\<not> message_exists d (msg_ID m)"
    using app Append_Inr [OF ok, of m rs d'] by auto
  note none = no_delivery_of_a_new_message [OF ok new]
  have "pending_for d' a x \<longleftrightarrow> pending_for d a x" if "x \<in> set (messages d)" for x
    using that new by (auto simp: pending_for_iff eq message_exists_def exists_where_iff)
  moreover have "pending_for d' a (message_row_of m) \<longleftrightarrow> a \<in> set rs"
    using none by (auto simp: pending_for_iff eq bex_Un)
  ultimately show ?thesis by (auto simp: mailbox_def eq)
qed

subsection \<open>Delivering, acknowledging, pruning\<close>

lemma MarkDelivered_Inr:
  "MarkDelivered a ids at d = Inr d' \<longleftrightarrow>
     d' = d\<lparr>deliveries := update_where
        (\<lambda>r. deliveries_agent_id r = a \<and> deliveries_delivered_at r = None \<and> deliveries_message_id r \<in> set ids)
        (\<lambda>r. r\<lparr>deliveries_delivered_at := Some (requireMicros at)\<rparr>) (deliveries d)\<rparr>"
  by (cases ids) (auto simp: MarkDelivered_def update_where_def)

lemma Acknowledge_Inr:
  "Messages_Acknowledge a ids at d = Inr (n, d') \<longleftrightarrow>
     n = count_where (acknowledges a ids) (deliveries d) \<and>
     d' = d\<lparr>deliveries := update_where (acknowledges a ids)
          (\<lambda>r. r\<lparr>deliveries_acked_at := Some (requireMicros at),
                 deliveries_delivered_at := Some (COALESCE (deliveries_delivered_at r) (requireMicros at))\<rparr>)
          (deliveries d)\<rparr>"
  by (cases ids) (auto simp: Messages_Acknowledge_def update_where_def acknowledges_def count_where_def
     )

text \<open>An update that keeps the keys of the deliveries keeps the tables consistent.\<close>

lemma update_deliveries_ok:
  assumes "mail_ok d"
    and "\<And>r. deliveries_message_id (f r) = deliveries_message_id r" "\<And>r. deliveries_agent_id (f r) = deliveries_agent_id r"
  shows "mail_ok (d\<lparr>deliveries := update_where P f (deliveries d)\<rparr>)"
proof -
  let ?k = "\<lambda>r. (deliveries_message_id r, deliveries_agent_id r)"
  have "map ?k (update_where P f (deliveries d)) = map ?k (deliveries d)"
    using assms(2,3) by simp
  moreover have "message_exists d (deliveries_message_id r)" if "r \<in> set (update_where P f (deliveries d))" for r
    using that assms by (cases rule: in_update_where) (auto simp: mail_ok_def)
  ultimately show ?thesis using assms(1) by (auto simp: mail_ok_def message_exists_def)
qed

lemma MarkDelivered_mail_ok: "mail_ok d \<Longrightarrow> MarkDelivered a ids at d = Inr d' \<Longrightarrow> mail_ok d'"
  by (auto simp: MarkDelivered_Inr intro: update_deliveries_ok)

lemma Acknowledge_mail_ok: "mail_ok d \<Longrightarrow> Messages_Acknowledge a ids at d = Inr (n, d') \<Longrightarrow> mail_ok d'"
  by (auto simp: Acknowledge_Inr intro: update_deliveries_ok)

lemma MarkDelivered_mailbox:
  assumes "MarkDelivered b ids at d = Inr d'"
  shows "mailbox d' a = mailbox d a"
  using assms by (auto simp: MarkDelivered_Inr mailbox_def pending_for_iff bex_update_where)

lemma Acknowledge_mailbox:
  assumes "Messages_Acknowledge b ids at d = Inr (n, d')"
  shows "mailbox d' a = (if a = b then {m \<in> mailbox d a. messages_id m \<notin> set ids} else mailbox d a)"
proof -
  let ?f = "\<lambda>r. if acknowledges b ids r then r\<lparr>deliveries_acked_at := Some (requireMicros at),
      deliveries_delivered_at := Some (COALESCE (deliveries_delivered_at r) (requireMicros at))\<rparr> else r"
  let ?open = "\<lambda>x r. deliveries_message_id r = messages_id x \<and> deliveries_agent_id r = a \<and> deliveries_acked_at r = None"
  have row: "?open x (?f r) \<longleftrightarrow> ?open x r \<and> \<not> (a = b \<and> messages_id x \<in> set ids)" for x r
    by (auto simp: acknowledges_def)
  have "pending_for d' a x \<longleftrightarrow> (\<exists>r \<in> set (deliveries d). ?open x (?f r))" for x
    using assms by (simp add: Acknowledge_Inr pending_for_iff bex_update_where)
  then have "pending_for d' a x \<longleftrightarrow> pending_for d a x \<and> \<not> (a = b \<and> messages_id x \<in> set ids)" for x
    unfolding row pending_for_iff by blast
  moreover have "messages d' = messages d" using assms by (simp add: Acknowledge_Inr)
  ultimately show ?thesis by (auto simp: mailbox_def)
qed

text \<open>The count an acknowledgement reports is the number of messages it takes out of the mailbox.\<close>

lemma Acknowledge_count:
  assumes ok: "mail_ok d" and ack: "Messages_Acknowledge b ids at d = Inr (n, d')"
  shows "n = card {m \<in> mailbox d b. messages_id m \<in> set ids}"
proof -
  let ?D = "filter (acknowledges b ids) (deliveries d)"
  let ?M = "{m \<in> mailbox d b. messages_id m \<in> set ids}"
  have dD: "distinct (map deliveries_message_id ?D)"
  proof -
    have "inj_on deliveries_message_id (set ?D)"
      using ok by (auto simp: mail_ok_def distinct_map acknowledges_def inj_on_def)
    moreover have "distinct ?D" using ok by (auto simp: mail_ok_def distinct_map)
    ultimately show ?thesis by (simp add: distinct_map)
  qed
  have "n = length (map deliveries_message_id ?D)" using ack by (simp add: Acknowledge_Inr count_where_def)
  also have "\<dots> = card (deliveries_message_id ` set ?D)" using distinct_card [OF dD] by simp
  also have "deliveries_message_id ` set ?D = messages_id ` ?M"
  proof (rule set_eqI, rule iffI)
    fix i assume "i \<in> deliveries_message_id ` set ?D"
    then obtain r where r: "r \<in> set (deliveries d)" "acknowledges b ids r" "i = deliveries_message_id r" by auto
    with ok obtain m where m: "m \<in> set (messages d)" "messages_id m = i"
      by (auto simp: mail_ok_def message_exists_def exists_where_iff)
    then have "m \<in> ?M" using r by (auto simp: mailbox_def pending_for_iff acknowledges_def)
    with m show "i \<in> messages_id ` ?M" by blast
  next
    fix i assume "i \<in> messages_id ` ?M"
    then obtain m where "m \<in> ?M" "i = messages_id m" by blast
    then obtain r where "r \<in> set (deliveries d)" "deliveries_message_id r = i" "acknowledges b ids r"
      by (auto simp: mailbox_def pending_for_iff acknowledges_def)
    then show "i \<in> deliveries_message_id ` set ?D" by auto
  qed
  also have "card (messages_id ` ?M) = card ?M"
  proof (rule card_image, rule inj_onI)
    fix x y assume "x \<in> ?M" "y \<in> ?M" "messages_id x = messages_id y"
    with ok show "x = y" by (auto simp: mailbox_def mail_ok_def dest: distinct_key_eq)
  qed
  finally show ?thesis .
qed

subsection \<open>Pruning\<close>

definition message_expired :: "instant \<Rightarrow> messages_row \<Rightarrow> bool" where
  "message_expired at m \<longleftrightarrow> (case messages_expires_at m of None \<Rightarrow> False | Some e \<Rightarrow> e \<le> requireMicros at)"

lemma prunable_iff:
  "prunable d at retention m \<longleftrightarrow> message_expired at m \<or>
     messages_created_at m \<le> requireMicros (at - retention) \<and> (\<forall>a. \<not> pending_for d a m)"
  by (auto simp: prunable_def message_expired_def pending_for_iff exists_where_iff)

lemma Prune_mail_ok:
  assumes ok: "mail_ok d" and p: "PruneExpired at retention d = Inr (n, d')"
  shows "mail_ok d'"
proof -
  let ?gone = "map messages_id (filter (prunable d at retention) (messages d))"
  have eq: "messages d' = delete_where (prunable d at retention) (messages d)"
      "deliveries d' = delete_where (\<lambda>r. deliveries_message_id r \<in> set ?gone) (deliveries d)"
    using p by (auto simp: PruneExpired_def Let_def)
  have "message_exists d' (deliveries_message_id r)" if "r \<in> set (deliveries d')" for r
  proof -
    from that have r: "r \<in> set (deliveries d)" "deliveries_message_id r \<notin> set ?gone" by (auto simp: eq)
    with ok obtain m where m: "m \<in> set (messages d)" "messages_id m = deliveries_message_id r"
      by (auto simp: mail_ok_def message_exists_def exists_where_iff)
    have "\<not> prunable d at retention m"
    proof
      assume "prunable d at retention m"
      with m(1) have "messages_id m \<in> set ?gone" by simp
      with r m show False by simp
    qed
    with m show ?thesis by (auto simp: message_exists_def exists_where_iff eq)
  qed
  with ok show ?thesis
    by (simp add: mail_ok_def eq) (simp add: delete_where_def distinct_map_filterI)
qed

lemma Prune_mailbox:
  assumes ok: "mail_ok d" and p: "PruneExpired at retention d = Inr (n, d')"
  shows "mailbox d' a = {m \<in> mailbox d a. \<not> message_expired at m}"
proof -
  let ?gone = "map messages_id (filter (prunable d at retention) (messages d))"
  have eq: "messages d' = delete_where (prunable d at retention) (messages d)"
      "deliveries d' = delete_where (\<lambda>r. deliveries_message_id r \<in> set ?gone) (deliveries d)"
    using p by (auto simp: PruneExpired_def Let_def)
  have same: "pending_for d' a x \<longleftrightarrow> pending_for d a x" if x: "x \<in> set (messages d)" "\<not> prunable d at retention x" for x
  proof -
    have "messages_id x \<notin> set ?gone"
      using x ok by (auto simp: mail_ok_def dest: distinct_key_eq)
    then show ?thesis unfolding pending_for_iff eq set_delete_where Bex_def mem_Collect_eq by metis
  qed
  have "m \<in> mailbox d' a \<longleftrightarrow> m \<in> mailbox d a \<and> \<not> message_expired at m" for m
    using same by (auto simp: mailbox_def eq prunable_iff)
  then show ?thesis by blast
qed

subsection \<open>The operations\<close>

lemma notify_each_run:
  "notify_each m rs w = (Inr (sum_list (map (w_sessions w) rs)),
     w\<lparr>w_pushed := w_pushed w @ map (\<lambda>r. (r, NotificationMethod, message_params m)) rs\<rparr>)"
  by (induction rs arbitrary: w) (simp_all add: Broadcast_def)

lemma notify_db: "notify options m rs w = (r, w') \<Longrightarrow> w_db w' = w_db w"
  by (auto simp: notify_def notify_each_run split: if_splits)

lemma notify_ok: "\<exists>n v. notify options m rs w = (Inr n, v)"
  by (simp add: notify_def notify_each_run)

lemma Audit_Append_same_mail: "Audit_Append e d = Inr d' \<Longrightarrow> same_mail d d'"
  by (auto simp: Audit_Append_def same_mail_def split: if_splits)

lemma store_message_Inr:
  assumes "store_message req m0 w = (Inr (m, rs), w')"
  obtains d1 where "resolveRecipients req (msg_FromAgentID m0) (w_db w) = Inr rs" "rs \<noteq> []"
    "m = (if snd_ToAgentName req \<noteq> [] then m0\<lparr>msg_ToAgentID := hd rs\<rparr> else m0)"
    "Messages_Append m rs (w_db w) = Inr d1"
    "Audit_Append (entry_of (msg_FromAgentID m) AuditMessageSent (destinationOf m)
       (''kind='' @ msg_Kind m @ '' recipients='' @ itoa (int (length rs))) (msg_CreatedAt m)) d1 = Inr (w_db w')"
    "w' = w\<lparr>w_db := w_db w'\<rparr>"
  using assms unfolding store_message_def
  by (auto simp: bindE_Inr exec_Inr Let_def split: if_splits)

definition draft_of :: "messaging_options \<Rightarrow> SendRequest \<Rightarrow> string \<Rightarrow> instant \<Rightarrow> Message" where
  "draft_of options request messageID at = \<lparr>msg_ID = messageID, msg_FromAgentID = snd_FromAgentID request,
     msg_ToAgentID = [], msg_Topic = snd_Topic request, msg_Kind = snd_Kind request,
     msg_Body = snd_Body request, msg_CreatedAt = at,
     msg_ExpiresAt = (if mo_DefaultTimeToLive options > 0 then at + mo_DefaultTimeToLive options else zeroTime)\<rparr>"

text \<open>After the checks, an identifier and a reading of the clock are taken; what is left is the
  transaction and the pushes.\<close>

definition well_formed_request :: "SendRequest \<Rightarrow> bool" where
  "well_formed_request req \<longleftrightarrow> nameSyntax (snd_Kind req) \<and> snd_Body req \<noteq> [] \<and> json_Valid (snd_Body req)"

definition send_rest :: "messaging_options \<Rightarrow> SendRequest \<Rightarrow> Message \<Rightarrow> Sent action" where
  "send_rest options req draft =
     bindE (transaction (store_message req draft)) (\<lambda>(m, rs).
     bindE (notify options m rs) (\<lambda>n.
     returnE \<lparr>sent_Message = m, sent_RecipientIDs = rs, sent_Notified = n\<rparr>))"

definition msg_id_at :: "world \<Rightarrow> nat \<Rightarrow> string" where
  "msg_id_at w k = New ''msg'' (fst (w_entropy w k)) (snd (w_entropy w k))"

lemma Send_eq:
  obtains i v where "w_db v = w_db w" "w_sessions v = w_sessions w" "w_pushed v = w_pushed w"
    "w_entropy v = w_entropy w" "w_drawn v = Suc (w_drawn w)" "i = msg_id_at w (w_drawn w)"
    "Send options req w = (if well_formed_request req
       then send_rest options req (draft_of options req i (time_of w)) v
       else (Inl ErrInvalidArgument, w))"
proof (cases "w_entropy w (w_drawn w)")
  case (Pair ms rnd)
  let ?v = "w\<lparr>w_drawn := Suc (w_drawn w), w_ticks := Suc (w_ticks w)\<rparr>"
  have "newID ''msg'' w = (Inr (New ''msg'' ms rnd), w\<lparr>w_drawn := Suc (w_drawn w)\<rparr>)"
    by (simp add: newID_def Pair)
  then have "Send options req w = (if well_formed_request req
       then send_rest options req (draft_of options req (New ''msg'' ms rnd) (time_of w)) ?v
       else (Inl ErrInvalidArgument, w))"
    by (simp add: Send_def send_rest_def well_formed_request_def draft_of_def ValidateName_def time_of_def)
  then show thesis by (intro that [of ?v]) (simp_all add: msg_id_at_def Pair)
qed

lemma send_rest_Inr:
  assumes "send_rest options req draft v = (Inr sent, w')"
  obtains u where "store_message req draft v = (Inr (sent_Message sent, sent_RecipientIDs sent), u)"
    "notify options (sent_Message sent) (sent_RecipientIDs sent) u = (Inr (sent_Notified sent), w')"
  using assms unfolding send_rest_def
  by (force simp: bindE_Inr transaction_Inr)

lemma send_rest_Inl:
  assumes "send_rest options req draft v = (Inl e, w')"
  obtains u where "store_message req draft v = (Inl e, u)" "w' = u\<lparr>w_db := w_db v\<rparr>"
proof -
  from assms have "\<exists>u. store_message req draft v = (Inl e, u) \<and> w' = u\<lparr>w_db := w_db v\<rparr>"
    unfolding send_rest_def bindE_Inl transaction_Inl
  proof (elim disjE exE conjE)
    fix x u
    assume "(case x of (m, rs) \<Rightarrow> bindE (notify options m rs) (\<lambda>n. returnE
        \<lparr>sent_Message = m, sent_RecipientIDs = rs, sent_Notified = n\<rparr>)) u = (Inl e, w')"
    moreover obtain m rs where "x = (m, rs)" by force
    moreover obtain n z where "notify options m rs u = (Inr n, z)" using notify_ok by blast
    ultimately show ?thesis by simp
  qed blast
  then show thesis using that by blast
qed

lemma store_message_frame:
  "store_message req m0 w = (r, w') \<Longrightarrow> w_pushed w' = w_pushed w \<and> w_sessions w' = w_sessions w"
  unfolding store_message_def Let_def
  by (auto elim!: bindE_cases simp: exec_def split: if_splits sum.splits)

lemma Send_Inr:
  assumes "Send options req w = (Inr sent, w')"
  obtains d1 i where
    "resolveRecipients req (snd_FromAgentID req) (w_db w) = Inr (sent_RecipientIDs sent)"
    "sent_RecipientIDs sent \<noteq> []"
    "sent_Message sent = (let m = draft_of options req i (time_of w) in
       if snd_ToAgentName req \<noteq> [] then m\<lparr>msg_ToAgentID := hd (sent_RecipientIDs sent)\<rparr> else m)"
    "Messages_Append (sent_Message sent) (sent_RecipientIDs sent) (w_db w) = Inr d1"
    "same_mail d1 (w_db w')"
    "sent_Notified sent = (if mo_Notifier options then sum_list (map (w_sessions w) (sent_RecipientIDs sent)) else 0)"
    "w_pushed w' = w_pushed w @ (if mo_Notifier options then map (\<lambda>r. (r, NotificationMethod,
       message_params (sent_Message sent))) (sent_RecipientIDs sent) else [])"
proof (rule Send_eq [of w options req])
  fix i v
  let ?draft = "draft_of options req i (time_of w)"
  assume v: "w_db v = w_db w" "w_sessions v = w_sessions w" "w_pushed v = w_pushed w"
    and eq: "Send options req w = (if well_formed_request req then send_rest options req ?draft v
       else (Inl ErrInvalidArgument, w))"
  from eq assms have "send_rest options req ?draft v = (Inr sent, w')" by (simp split: if_splits)
  then obtain u where st: "store_message req ?draft v = (Inr (sent_Message sent, sent_RecipientIDs sent), u)"
    and nt: "notify options (sent_Message sent) (sent_RecipientIDs sent) u = (Inr (sent_Notified sent), w')"
    by (rule send_rest_Inr)
  have frame: "w_sessions u = w_sessions w" "w_pushed u = w_pushed w"
    using store_message_frame [OF st] v by simp_all
  from st show thesis
  proof (rule store_message_Inr)
    fix d1
    assume r: "resolveRecipients req (msg_FromAgentID ?draft) (w_db v) = Inr (sent_RecipientIDs sent)"
        "sent_RecipientIDs sent \<noteq> []"
      and m: "sent_Message sent = (if snd_ToAgentName req \<noteq> []
        then ?draft\<lparr>msg_ToAgentID := hd (sent_RecipientIDs sent)\<rparr> else ?draft)"
      and app: "Messages_Append (sent_Message sent) (sent_RecipientIDs sent) (w_db v) = Inr d1"
      and audit: "Audit_Append (entry_of (msg_FromAgentID (sent_Message sent)) AuditMessageSent
        (destinationOf (sent_Message sent)) (''kind='' @ msg_Kind (sent_Message sent) @ '' recipients='' @
         itoa (int (length (sent_RecipientIDs sent)))) (msg_CreatedAt (sent_Message sent))) d1 = Inr (w_db u)"
    show thesis
    proof (rule that [of i d1])
      show "resolveRecipients req (snd_FromAgentID req) (w_db w) = Inr (sent_RecipientIDs sent)"
        using r v by (simp add: draft_of_def)
      show "same_mail d1 (w_db w')"
        using Audit_Append_same_mail [OF audit] notify_db [OF nt] by simp
      show "sent_Message sent = (let m = ?draft in
          if snd_ToAgentName req \<noteq> [] then m\<lparr>msg_ToAgentID := hd (sent_RecipientIDs sent)\<rparr> else m)"
        using m by (simp add: Let_def)
      show "Messages_Append (sent_Message sent) (sent_RecipientIDs sent) (w_db w) = Inr d1" using app v by simp
      show "sent_RecipientIDs sent \<noteq> []" by (fact r(2))
    qed (use nt frame in \<open>auto simp: notify_def notify_each_run split: if_splits\<close>)
  qed
qed

text \<open>A failed \<open>Send\<close> leaves the database as it was and pushes nothing.\<close>

lemma Send_Inl:
  assumes "Send options req w = (Inl e, w')"
  shows "w_db w' = w_db w \<and> w_pushed w' = w_pushed w"
proof (rule Send_eq [of w options req])
  fix i v
  assume v: "w_db v = w_db w" "w_pushed v = w_pushed w"
    and eq: "Send options req w = (if well_formed_request req
       then send_rest options req (draft_of options req i (time_of w)) v else (Inl ErrInvalidArgument, w))"
  show ?thesis
  proof (cases "well_formed_request req")
    case True
    with eq assms have "send_rest options req (draft_of options req i (time_of w)) v = (Inl e, w')" by simp
    then show ?thesis using v by (auto elim!: send_rest_Inl dest: store_message_frame)
  next
    case False
    with eq assms show ?thesis by simp
  qed
qed

text \<open>A well-formed message to one agent goes out when its identifier is fresh.\<close>

lemma New_nonempty [simp]: "New kind ms rnd \<noteq> []"
  by (simp add: New_def)

lemma Send_direct_succeeds:
  assumes ok: "mail_ok (w_db w)" and wf: "well_formed_request req"
    and direct: "snd_ToAgentName req \<noteq> []" "snd_Topic req = []" "snd_FromAgentID req \<noteq> []"
    and res: "resolveRecipients req (snd_FromAgentID req) (w_db w) = Inr [a]" "a \<noteq> []"
    and fresh: "\<not> message_exists (w_db w) (msg_id_at w (w_drawn w))"
  shows "\<exists>sent w'. Send options req w = (Inr sent, w') \<and> sent_RecipientIDs sent = [a] \<and>
    messages_id (message_row_of (sent_Message sent)) = msg_id_at w (w_drawn w) \<and>
    messages (w_db w') = messages (w_db w) @ [message_row_of (sent_Message sent)] \<and>
    agents (w_db w') = agents (w_db w) \<and> w_entropy w' = w_entropy w \<and> w_drawn w' = Suc (w_drawn w)"
proof (rule Send_eq [of w options req])
  fix i v
  let ?m = "(draft_of options req i (time_of w))\<lparr>msg_ToAgentID := a\<rparr>"
  assume v: "w_db v = w_db w" "w_entropy v = w_entropy w" "w_drawn v = Suc (w_drawn w)"
    and i: "i = msg_id_at w (w_drawn w)"
    and eq: "Send options req w = (if well_formed_request req
       then send_rest options req (draft_of options req i (time_of w)) v else (Inl ErrInvalidArgument, w))"
  have "Message_Validate ?m = Inr ()"
    using wf direct res(2) i
    by (simp add: Message_Validate_def draft_of_def well_formed_request_def ValidateName_def msg_id_at_def)
  then obtain d1 where app: "Messages_Append ?m [a] (w_db w) = Inr d1"
    and d1: "messages d1 = messages (w_db w) @ [message_row_of ?m]" "agents d1 = agents (w_db w)"
    using fresh i by (simp add: Append_Inr [OF ok] draft_of_def)
  obtain d2 where audit: "Audit_Append (entry_of (msg_FromAgentID ?m) AuditMessageSent (destinationOf ?m)
      (''kind='' @ msg_Kind ?m @ '' recipients='' @ itoa 1) (msg_CreatedAt ?m)) d1 = Inr d2"
    and d2: "messages d2 = messages d1" "agents d2 = agents d1"
    using direct(3) by (auto simp: Audit_Append_def entry_of_def draft_of_def)
  have "store_message req (draft_of options req i (time_of w)) v = (Inr (?m, [a]), v\<lparr>w_db := d2\<rparr>)"
    using res direct v app audit by (simp add: store_message_def bindE_def exec_def draft_of_def Let_def)
  then have "Send options req w = (Inr \<lparr>sent_Message = ?m, sent_RecipientIDs = [a],
      sent_Notified = (if mo_Notifier options then w_sessions v a else 0)\<rparr>,
      if mo_Notifier options then v\<lparr>w_db := d2, w_pushed := w_pushed v @ [(a, NotificationMethod, message_params ?m)]\<rparr>
      else v\<lparr>w_db := d2\<rparr>)"
    using eq wf by (simp add: send_rest_def notify_def Broadcast_def)
  then show ?thesis using d1 d2 v i by (simp add: draft_of_def)
qed

lemma Send_mail_ok: "mail_ok (w_db w) \<Longrightarrow> Send options req w = (r, w') \<Longrightarrow> mail_ok (w_db w')"
proof (cases r)
  case (Inl e)
  then show "mail_ok (w_db w) \<Longrightarrow> Send options req w = (r, w') \<Longrightarrow> mail_ok (w_db w')"
    by (simp add: Send_Inl)
next
  case (Inr sent)
  then show "mail_ok (w_db w) \<Longrightarrow> Send options req w = (r, w') \<Longrightarrow> mail_ok (w_db w')"
    by (auto elim!: Send_Inr dest: Append_mail_ok mail_ok_same)
qed

text \<open>A successful \<open>Send\<close> puts the message in the mailbox of every recipient, and in no other.\<close>

lemma Send_mailbox:
  assumes "mail_ok (w_db w)" and "Send options req w = (Inr sent, w')"
  shows "mailbox (w_db w') a = mailbox (w_db w) a \<union>
    (if a \<in> set (sent_RecipientIDs sent) then {message_row_of (sent_Message sent)} else {})"
  using assms(2)
proof (rule Send_Inr)
  fix d1
  assume "Messages_Append (sent_Message sent) (sent_RecipientIDs sent) (w_db w) = Inr d1"
    and "same_mail d1 (w_db w')"
  with assms(1) show ?thesis by (simp add: mailbox_same Append_mailbox)
qed

lemma Acknowledge_Inl: "Acknowledge a ids w \<noteq> (Inl e, w')"
  by (cases ids) (simp_all add: Acknowledge_def execR_def Messages_Acknowledge_def)

lemma Acknowledge_run:
  "Acknowledge a ids w = (Inr n, w') \<Longrightarrow> Messages_Acknowledge a ids (time_of w) (w_db w) = Inr (n, w_db w')"
  by (auto simp: Acknowledge_def execR_Inr)

lemma Prune_Inl: "Prune options w \<noteq> (Inl e, w')"
  by (simp add: Prune_def execR_def PruneExpired_def Let_def)

lemma Prune_run:
  "Prune options w = (Inr n, w') \<Longrightarrow> PruneExpired (time_of w) (mo_Retention options) (w_db w) = Inr (n, w_db w')"
  by (auto simp: Prune_def execR_Inr)

subsection \<open>Interleaved runs\<close>

text \<open>The messaging operations of all agents and the steps of every other part of the daemon, in any
  order. \<open>Inbox\<close> reads without a transaction and marks what it read in a second statement, so
  its marking is a step of its own.\<close>

datatype mail_event = EvSend SendRequest | EvAck string "string list" | EvPrune instant | EvOther

inductive mail_run :: "messaging_options \<Rightarrow> world \<Rightarrow> mail_event list \<Rightarrow> world \<Rightarrow> bool"
  for options w0 where
  nothing: "mail_run options w0 [] w0"
| sends: "mail_run options w0 es w \<Longrightarrow> Send options req w = (r, w') \<Longrightarrow>
    mail_run options w0 (es @ [EvSend req]) w'"
| marks: "mail_run options w0 es w \<Longrightarrow> exec (MarkDelivered a ids at) w = (r, w') \<Longrightarrow>
    mail_run options w0 (es @ [EvOther]) w'"
| acks: "mail_run options w0 es w \<Longrightarrow> Acknowledge a ids w = (r, w') \<Longrightarrow>
    mail_run options w0 (es @ [EvAck a ids]) w'"
| prunes: "mail_run options w0 es w \<Longrightarrow> Prune options w = (r, w') \<Longrightarrow>
    mail_run options w0 (es @ [EvPrune (time_of w)]) w'"
| subscribes: "mail_run options w0 es w \<Longrightarrow> Subscribe a topic w = (r, w') \<Longrightarrow>
    mail_run options w0 (es @ [EvOther]) w'"
| unsubscribes: "mail_run options w0 es w \<Longrightarrow> Unsubscribe a topic w = (r, w') \<Longrightarrow>
    mail_run options w0 (es @ [EvOther]) w'"
| elsewhere: "mail_run options w0 es w \<Longrightarrow> same_mail (w_db w) (w_db w') \<Longrightarrow>
    mail_run options w0 (es @ [EvOther]) w'"

lemma subscribe_same_mail: "Subscribe a topic w = (r, w') \<Longrightarrow> same_mail (w_db w) (w_db w')"
  by (auto simp: Subscribe_def exec_def Messages_Subscribe_def same_mail_def translated_def constrained_def
      split: if_splits sum.splits)

lemma unsubscribe_same_mail: "Unsubscribe a topic w = (r, w') \<Longrightarrow> same_mail (w_db w) (w_db w')"
  by (auto simp: Unsubscribe_def exec_def Messages_Unsubscribe_def same_mail_def)

lemma mark_step:
  assumes "exec (MarkDelivered a ids at) w = (r, w')"
  shows "mailbox (w_db w') b = mailbox (w_db w) b \<and> (mail_ok (w_db w) \<longrightarrow> mail_ok (w_db w'))"
proof (cases r)
  case (Inl e)
  with assms show ?thesis by (simp add: exec_Inl)
next
  case (Inr u)
  with assms obtain d where d: "MarkDelivered a ids at (w_db w) = Inr d" "w_db w' = d"
    by (auto simp: exec_Inr)
  then show ?thesis using MarkDelivered_mailbox [OF d(1)] MarkDelivered_mail_ok [OF _ d(1)] by simp
qed

lemma ack_step:
  assumes "Acknowledge a ids w = (r, w')"
  shows "mailbox (w_db w') b = (if b = a then {m \<in> mailbox (w_db w) b. messages_id m \<notin> set ids} else mailbox (w_db w) b)
    \<and> (mail_ok (w_db w) \<longrightarrow> mail_ok (w_db w'))"
proof (cases r)
  case (Inl e)
  with assms show ?thesis by (simp add: Acknowledge_Inl)
next
  case (Inr n)
  with assms have d: "Messages_Acknowledge a ids (time_of w) (w_db w) = Inr (n, w_db w')"
    by (simp add: Acknowledge_run)
  then show ?thesis using Acknowledge_mailbox [OF d] Acknowledge_mail_ok [OF _ d] by simp
qed

lemma prune_step:
  assumes "Prune options w = (r, w')" and "mail_ok (w_db w)"
  shows "mailbox (w_db w') b = {m \<in> mailbox (w_db w) b. \<not> message_expired (time_of w) m} \<and> mail_ok (w_db w')"
proof (cases r)
  case (Inl e)
  with assms show ?thesis by (simp add: Prune_Inl)
next
  case (Inr n)
  with assms have d: "PruneExpired (time_of w) (mo_Retention options) (w_db w) = Inr (n, w_db w')"
    by (simp add: Prune_run)
  then show ?thesis using Prune_mailbox [OF assms(2) d] Prune_mail_ok [OF assms(2) d] by simp
qed

lemma send_step:
  assumes "Send options req w = (r, w')" and "mail_ok (w_db w)"
  shows "mailbox (w_db w) b \<subseteq> mailbox (w_db w') b \<and>
    (\<forall>m \<in> mailbox (w_db w') b - mailbox (w_db w) b.
       messages_from_agent_id m = snd_FromAgentID req \<and> messages_body m = snd_Body req)"
proof (cases r)
  case (Inl e)
  with assms show ?thesis by (simp add: Send_Inl)
next
  case (Inr sent)
  with assms have s: "Send options req w = (Inr sent, w')" by simp
  then have "msg_FromAgentID (sent_Message sent) = snd_FromAgentID req \<and> msg_Body (sent_Message sent) = snd_Body req"
    by (rule Send_Inr) (auto simp: Let_def draft_of_def split: if_splits)
  then show ?thesis using Send_mailbox [OF assms(2) s, of b] by (auto simp: message_row_of_def)
qed

lemma mail_run_ok: "mail_run options w0 es w \<Longrightarrow> mail_ok (w_db w0) \<Longrightarrow> mail_ok (w_db w)"
proof (induction rule: mail_run.induct)
  case nothing
  then show ?case by simp
next
  case (sends es w req r w')
  then show ?case using Send_mail_ok by blast
next
  case (marks es w a ids at r w')
  then show ?case using mark_step by blast
next
  case (acks es w a ids r w')
  then show ?case using ack_step by blast
next
  case (prunes es w r w')
  then show ?case using prune_step by blast
next
  case (subscribes es w a topic r w')
  then show ?case using mail_ok_same [OF subscribe_same_mail] by blast
next
  case (unsubscribes es w a topic r w')
  then show ?case using mail_ok_same [OF unsubscribe_same_mail] by blast
next
  case (elsewhere es w w')
  then show ?case using mail_ok_same by blast
qed

text \<open>What one step of each kind does to a mailbox.\<close>

definition mail_effect :: "mail_event \<Rightarrow> string \<Rightarrow> messages_row set \<Rightarrow> messages_row set \<Rightarrow> bool" where
  "mail_effect e a before after = (case e of
      EvSend req \<Rightarrow> before \<subseteq> after \<and>
        (\<forall>m \<in> after - before. messages_from_agent_id m = snd_FromAgentID req \<and> messages_body m = snd_Body req)
    | EvAck b ids \<Rightarrow> after = (if a = b then {m \<in> before. messages_id m \<notin> set ids} else before)
    | EvPrune at \<Rightarrow> after = {m \<in> before. \<not> message_expired at m}
    | EvOther \<Rightarrow> after = before)"

text \<open>A run is a sequence of such effects: everything about mailboxes follows by induction on it.\<close>

lemma mail_run_effects [consumes 2, case_names nothing step]:
  assumes run: "mail_run options w0 es w" and ok: "mail_ok (w_db w0)"
    and nothing: "P [] (mailbox (w_db w0) a)"
    and step: "\<And>es e before after. P es before \<Longrightarrow> mail_effect e a before after \<Longrightarrow> P (es @ [e]) after"
  shows "P es (mailbox (w_db w) a)"
  using run
proof (induction rule: mail_run.induct)
  case nothing
  then show ?case by (rule assms(3))
next
  case (sends es w req r w')
  have "mail_effect (EvSend req) a (mailbox (w_db w) a) (mailbox (w_db w') a)"
    using send_step [OF sends(2) mail_run_ok [OF sends(1) ok], of a] by (simp add: mail_effect_def)
  with sends show ?case by (blast intro: step)
next
  case (marks es w b ids at r w')
  have "mail_effect EvOther a (mailbox (w_db w) a) (mailbox (w_db w') a)"
    using mark_step [OF marks(2), of a] by (simp add: mail_effect_def)
  with marks show ?case by (blast intro: step)
next
  case (acks es w b ids r w')
  have "mail_effect (EvAck b ids) a (mailbox (w_db w) a) (mailbox (w_db w') a)"
    using ack_step [OF acks(2), of a] by (simp add: mail_effect_def)
  with acks show ?case by (blast intro: step)
next
  case (prunes es w r w')
  have "mail_effect (EvPrune (time_of w)) a (mailbox (w_db w) a) (mailbox (w_db w') a)"
    using prune_step [OF prunes(2) mail_run_ok [OF prunes(1) ok], of a] by (simp add: mail_effect_def)
  with prunes show ?case by (blast intro: step)
next
  case (subscribes es w b topic r w')
  have "mail_effect EvOther a (mailbox (w_db w) a) (mailbox (w_db w') a)"
    using mailbox_same [OF subscribe_same_mail [OF subscribes(2)]] by (simp add: mail_effect_def)
  with subscribes show ?case by (blast intro: step)
next
  case (unsubscribes es w b topic r w')
  have "mail_effect EvOther a (mailbox (w_db w) a) (mailbox (w_db w') a)"
    using mailbox_same [OF unsubscribe_same_mail [OF unsubscribes(2)]] by (simp add: mail_effect_def)
  with unsubscribes show ?case by (blast intro: step)
next
  case (elsewhere es w w')
  have "mail_effect EvOther a (mailbox (w_db w) a) (mailbox (w_db w') a)"
    using mailbox_same [OF elsewhere(2)] by (simp add: mail_effect_def)
  with elsewhere show ?case by (blast intro: step)
qed

lemma mail_kept:
  assumes "mail_run options w0 es w" and "mail_ok (w_db w0)" and "m \<in> mailbox (w_db w0) a"
  shows "(\<forall>e \<in> set es. case e of EvAck b ids \<Rightarrow> b = a \<longrightarrow> messages_id m \<notin> set ids
       | EvPrune at \<Rightarrow> \<not> message_expired at m | _ \<Rightarrow> True) \<longrightarrow> m \<in> mailbox (w_db w) a"
  using assms(1,2)
proof (induction rule: mail_run_effects [where a = a])
  case nothing
  then show ?case using assms(3) by simp
next
  case (step es e before after)
  then show ?case by (cases e) (auto simp: mail_effect_def)
qed

lemma mail_origin:
  assumes "mail_run options w0 es w" and "mail_ok (w_db w0)"
  shows "\<forall>m \<in> mailbox (w_db w) a. m \<in> mailbox (w_db w0) a \<or>
    (\<exists>req. EvSend req \<in> set es \<and> messages_from_agent_id m = snd_FromAgentID req \<and> messages_body m = snd_Body req)"
  using assms
proof (induction rule: mail_run_effects [where a = a])
  case nothing
  then show ?case by simp
next
  case (step es e before after)
  show ?case
  proof
    fix m assume m: "m \<in> after"
    show "m \<in> mailbox (w_db w0) a \<or> (\<exists>req. EvSend req \<in> set (es @ [e]) \<and>
        messages_from_agent_id m = snd_FromAgentID req \<and> messages_body m = snd_Body req)"
    proof (cases "m \<in> before")
      case True
      with step(1) show ?thesis by auto
    next
      case False
      with m step(2) show ?thesis by (cases e) (auto simp: mail_effect_def split: if_splits)
    qed
  qed
qed

end
