(* ===== verification/MessagingProperties.thy ===== *)
theory MessagingProperties
  imports Scenario MessagingFacts
begin

section \<open>Properties of the messaging service\<close>

text \<open>Each property is stated over the operations of the service and the mailboxes they act on, and
  is followed by a concrete instance.\<close>

subsection \<open>Whom a message is addressed to\<close>

definition addressed :: "db \<Rightarrow> SendRequest \<Rightarrow> string list \<Rightarrow> bool" where
  "addressed d req rs \<longleftrightarrow>
     (if snd_ToAgentName req \<noteq> [] then
        \<exists>r \<in> set (agents d). agents_name r = snd_ToAgentName req \<and> agents_state r \<noteq> AgentDeregistered \<and>
          rs = [agents_id r]
      else if snd_Topic req = BroadcastTopic then
        set rs = {agents_id r |r. r \<in> set (agents d) \<and> agents_state r = AgentActive} - {snd_FromAgentID req}
      else set rs = {subscriptions_agent_id r |r. r \<in> set (subscriptions d) \<and>
          subscriptions_topic r = snd_Topic req} - {snd_FromAgentID req})"

lemma image_but: "k ` {r \<in> A. P r \<and> k r \<noteq> f} = {k r |r. r \<in> A \<and> P r} - {f}"
  by auto

lemma resolved_addressed:
  assumes res: "resolveRecipients req (snd_FromAgentID req) d = Inr rs"
  shows "addressed d req rs"
proof (cases "snd_ToAgentName req \<noteq> []")
  case True
  let ?rows = "sort_key (\<lambda>r. (if agents_state r = AgentActive then 0 else 1 :: int, - agents_registered_at r))
    (filter (\<lambda>r. agents_name r = snd_ToAgentName req \<and> agents_state r \<noteq> AgentDeregistered) (agents d))"
  from True res obtain r where "first_where (\<lambda>_. True) ?rows = Some r" "rs = [agents_id r]"
    by (auto simp: resolveRecipients_def FindForDelivery_def fetch_def split: sum.splits option.splits)
  with True show ?thesis by (auto simp: addressed_def dest!: first_where_Some)
next
  case direct: False
  show ?thesis
  proof (cases "snd_Topic req = BroadcastTopic")
    case True
    with direct res have rs: "rs = map agents_id (filter (\<lambda>r. agents_id r \<noteq> snd_FromAgentID req)
        (sort_key (\<lambda>r. (agents_registered_at r, agents_id r)) (filter (\<lambda>r. agents_state r = AgentActive) (agents d))))"
      by (simp add: resolveRecipients_def Agents_List_def everyoneBut_def agent_matches_def [abs_def] filter_map comp_def)
    have "set rs = {agents_id r |r. r \<in> set (agents d) \<and> agents_state r = AgentActive} - {snd_FromAgentID req}"
      unfolding rs image_but [symmetric] by (simp add: conj_commute conj_left_commute)
    with direct True show ?thesis by (simp add: addressed_def)
  next
    case False
    with direct res have rs: "rs = map subscriptions_agent_id (filter (\<lambda>r. subscriptions_agent_id r \<noteq> snd_FromAgentID req)
        (sort_key (\<lambda>r. (subscriptions_subscribed_at r, subscriptions_agent_id r))
          (filter (\<lambda>r. subscriptions_topic r = snd_Topic req) (subscriptions d))))"
      by (simp add: resolveRecipients_def Subscribers_def withoutSender_def filter_map comp_def)
    have "set rs = {subscriptions_agent_id r |r. r \<in> set (subscriptions d) \<and> subscriptions_topic r = snd_Topic req} -
        {snd_FromAgentID req}"
      unfolding rs image_but [symmetric] by (simp add: conj_commute conj_left_commute)
    with direct False show ?thesis by (simp add: addressed_def)
  qed
qed

subsection \<open>Sending\<close>

text \<open>C10: A message that was sent is in the mailbox of every recipient and of nobody else, and
  nothing else in any mailbox changed. The recipients are exactly the agent of that name that has
  not deregistered, the active agents other than the sender for a broadcast, or the subscribers of
  the topic other than the sender. The stored message has the sender, kind and body of the request.\<close>

theorem send_reaches_its_recipients:
  assumes "mail_ok (w_db w)" and "Send options req w = (Inr sent, w')"
  shows "(\<forall>a. mailbox (w_db w') a = mailbox (w_db w) a \<union>
       (if a \<in> set (sent_RecipientIDs sent) then {message_row_of (sent_Message sent)} else {})) \<and>
    sent_RecipientIDs sent \<noteq> [] \<and> addressed (w_db w) req (sent_RecipientIDs sent) \<and>
    msg_FromAgentID (sent_Message sent) = snd_FromAgentID req \<and>
    msg_Kind (sent_Message sent) = snd_Kind req \<and> msg_Body (sent_Message sent) = snd_Body req \<and>
    mail_ok (w_db w')"
proof -
  have "sent_RecipientIDs sent \<noteq> [] \<and> addressed (w_db w) req (sent_RecipientIDs sent) \<and>
    msg_FromAgentID (sent_Message sent) = snd_FromAgentID req \<and>
    msg_Kind (sent_Message sent) = snd_Kind req \<and> msg_Body (sent_Message sent) = snd_Body req"
    using assms(2) by (rule Send_Inr) (auto simp: Let_def draft_of_def resolved_addressed)
  with assms show ?thesis by (simp add: Send_mailbox Send_mail_ok)
qed

definition sample_options :: messaging_options where
  "sample_options = \<lparr>mo_DefaultTimeToLive = 0, mo_Retention = Minute, mo_Notifier = True\<rparr>"

definition a_question :: SendRequest where
  "a_question = \<lparr>snd_FromAgentID = ''agent_a'', snd_ToAgentName = ''beta'', snd_Topic = [],
     snd_Kind = ''question'', snd_Body = ''{}''\<rparr>"

definition asked_world :: world where
  "asked_world = snd (Send sample_options a_question sample_world)"

definition the_question :: messages_row where
  "the_question = hd (messages (w_db asked_world))"

lemma asked:
  "succeeded (fst (Send sample_options a_question sample_world)) \<and>
   map messages_id (messages (w_db asked_world)) = [messages_id the_question] \<and>
   pending_for (w_db asked_world) ''agent_b'' the_question \<and>
   messages_expires_at the_question = None \<and>
   length (deliveries (w_db asked_world)) = 1 \<and>
   succeeded (fst (Inbox ''agent_b'' 0 asked_world)) \<and>
   succeeded (fst (Acknowledge ''agent_b'' [messages_id the_question] asked_world)) \<and>
   succeeded (fst (Prune sample_options asked_world))"
  by code_simp

lemma sample_mail_ok: "mail_ok (w_db sample_world)"
  by (simp add: mail_ok_def sample_world_def empty_db_def start_world_def)

lemma asked_run: "\<exists>sent. Send sample_options a_question sample_world = (Inr sent, asked_world)"
  using asked by (cases "Send sample_options a_question sample_world") (auto simp: asked_world_def succeeded_def split: sum.splits)

lemma asked_ok: "mail_ok (w_db asked_world)"
  using asked_run Send_mail_ok [OF sample_mail_ok] by blast

lemma asked_mailbox: "the_question \<in> mailbox (w_db asked_world) ''agent_b''"
proof -
  have "the_question \<in> set (messages (w_db asked_world))"
    using asked unfolding the_question_def by (metis list.simps(9) list.set_sel(1) map_is_Nil_conv not_Cons_self2)
  with asked show ?thesis by (simp add: mailbox_def)
qed

theorem send_reaches_its_recipients_witness:
  "\<exists>sent. Send sample_options a_question sample_world = (Inr sent, asked_world) \<and>
     addressed (w_db sample_world) a_question (sent_RecipientIDs sent) \<and> mail_ok (w_db asked_world)"
  using asked_run send_reaches_its_recipients [OF sample_mail_ok, of sample_options a_question _ asked_world]
  by blast

text \<open>A message that cannot be sent leaves the database as it was and pushes nothing. The error
  says why: a malformed kind or body is \<open>ErrInvalidArgument\<close>, an address that resolves to nobody is
  \<open>ErrNotFound\<close>.\<close>

theorem failed_send_changes_nothing:
  assumes "Send options req w = (Inl e, w')"
  shows "w_db w' = w_db w \<and> w_pushed w' = w_pushed w \<and>
    (\<not> well_formed_request req \<longrightarrow> e = ErrInvalidArgument) \<and>
    (well_formed_request req \<longrightarrow> (case resolveRecipients req (snd_FromAgentID req) (w_db w) of
       Inl cause \<Rightarrow> e = cause | Inr rs \<Rightarrow> rs = [] \<longrightarrow> e = ErrNotFound))"
proof (rule Send_eq [of w options req])
  fix i v
  let ?draft = "draft_of options req i (time_of w)"
  assume v: "w_db v = w_db w" "w_sessions v = w_sessions w" "w_pushed v = w_pushed w"
    and eq: "Send options req w = (if well_formed_request req then send_rest options req ?draft v
       else (Inl ErrInvalidArgument, w))"
  have "case resolveRecipients req (snd_FromAgentID req) (w_db w) of
       Inl cause \<Rightarrow> e = cause | Inr rs \<Rightarrow> rs = [] \<longrightarrow> e = ErrNotFound" if "well_formed_request req"
  proof -
    from that eq assms have "send_rest options req ?draft v = (Inl e, w')" by simp
    then obtain u where "store_message req ?draft v = (Inl e, u)" by (rule send_rest_Inl)
    then show ?thesis unfolding store_message_def
      by (auto simp: bindE_Inl draft_of_def v split: sum.splits)
  qed
  with assms eq Send_Inl [OF assms] show ?thesis by (simp split: if_splits)
qed

definition to_nobody :: SendRequest where
  "to_nobody = a_question\<lparr>snd_ToAgentName := [], snd_Topic := ''builds''\<rparr>"

lemma nobody: "fst (Send sample_options to_nobody sample_world) = Inl ErrNotFound"
  by code_simp

subsection \<open>Keeping\<close>

text \<open>C11: No message is lost and none is forged. Whatever all agents and the rest of the daemon do, a
  message stays in the mailbox it was put in until that agent acknowledges it or it is pruned after
  its expiry; and every message found in a mailbox was there at the start or was sent, by the agent
  it names and with that body.\<close>

theorem no_message_is_lost:
  assumes "mail_run options w0 es w" and "mail_ok (w_db w0)"
  shows "(\<forall>m \<in> mailbox (w_db w0) a.
       (\<forall>ids. EvAck a ids \<in> set es \<longrightarrow> messages_id m \<notin> set ids) \<longrightarrow>
       (\<forall>at. EvPrune at \<in> set es \<longrightarrow> \<not> message_expired at m) \<longrightarrow> m \<in> mailbox (w_db w) a) \<and>
    (\<forall>m \<in> mailbox (w_db w) a. m \<in> mailbox (w_db w0) a \<or>
       (\<exists>req. EvSend req \<in> set es \<and> messages_from_agent_id m = snd_FromAgentID req \<and>
          messages_body m = snd_Body req))"
proof -
  have "m \<in> mailbox (w_db w) a" if m: "m \<in> mailbox (w_db w0) a"
    and ev: "\<forall>ids. EvAck a ids \<in> set es \<longrightarrow> messages_id m \<notin> set ids"
      "\<forall>at. EvPrune at \<in> set es \<longrightarrow> \<not> message_expired at m" for m
  proof -
    have "\<forall>e \<in> set es. case e of EvAck b ids \<Rightarrow> b = a \<longrightarrow> messages_id m \<notin> set ids
       | EvPrune at \<Rightarrow> \<not> message_expired at m | _ \<Rightarrow> True"
      using ev by (auto split: mail_event.split)
    with mail_kept [OF assms m] show ?thesis by blast
  qed
  with mail_origin [OF assms] show ?thesis by blast
qed

theorem no_message_is_lost_witness:
  "the_question \<in> mailbox (w_db (snd (Prune sample_options
     (snd (Acknowledge ''agent_a'' [messages_id the_question] asked_world))))) ''agent_b''"
proof -
  let ?w1 = "snd (Acknowledge ''agent_a'' [messages_id the_question] asked_world)"
  have "mail_run sample_options asked_world [] asked_world" by (rule mail_run.nothing)
  then have "mail_run sample_options asked_world ([] @ [EvAck ''agent_a'' [messages_id the_question]]) ?w1"
    by (rule mail_run.acks) (simp add: prod_eq_iff)
  then have run: "mail_run sample_options asked_world
      (([] @ [EvAck ''agent_a'' [messages_id the_question]]) @ [EvPrune (time_of ?w1)]) (snd (Prune sample_options ?w1))"
    by (rule mail_run.prunes) (simp add: prod_eq_iff)
  have "\<not> message_expired at the_question" for at using asked by (simp add: message_expired_def)
  then show ?thesis using no_message_is_lost [OF run asked_ok, of "''agent_b''"] asked_mailbox by auto
qed

text \<open>C12: Acknowledging takes the named messages out of the caller's own mailbox and touches no other
  mailbox; the count is the number taken out, and doing it again takes out nothing.\<close>

theorem acknowledge_outcome:
  assumes "mail_ok (w_db w)" and "Acknowledge a ids w = (Inr n, w')"
  shows "(\<forall>b. mailbox (w_db w') b =
      (if b = a then {m \<in> mailbox (w_db w) a. messages_id m \<notin> set ids} else mailbox (w_db w) b)) \<and>
    n = card {m \<in> mailbox (w_db w) a. messages_id m \<in> set ids} \<and>
    fst (Acknowledge a ids w') = Inr 0"
proof -
  have one: "Messages_Acknowledge a ids (time_of w) (w_db w) = Inr (n, w_db w')"
    using assms(2) by (rule Acknowledge_run)
  have box: "mailbox (w_db w') b = (if b = a then {m \<in> mailbox (w_db w) a. messages_id m \<notin> set ids}
      else mailbox (w_db w) b)" for b
    using Acknowledge_mailbox [OF one, of b] by simp
  obtain k v where again: "Acknowledge a ids w' = (Inr k, v)"
    using Acknowledge_Inl [of a ids w'] by (metis old.sum.exhaust surj_pair)
  have "k = card {m \<in> mailbox (w_db w') a. messages_id m \<in> set ids}"
    using Acknowledge_count [OF Acknowledge_mail_ok [OF assms(1) one] Acknowledge_run [OF again]] .
  also have "{m \<in> mailbox (w_db w') a. messages_id m \<in> set ids} = {}" using box [of a] by auto
  finally show ?thesis using box again Acknowledge_count [OF assms(1) one] by simp
qed

theorem acknowledge_outcome_witness:
  "\<exists>n w'. Acknowledge ''agent_b'' [messages_id the_question] asked_world = (Inr n, w') \<and>
     the_question \<notin> mailbox (w_db w') ''agent_b''"
proof -
  obtain n w' where r: "Acknowledge ''agent_b'' [messages_id the_question] asked_world = (Inr n, w')"
    using Acknowledge_Inl by (metis old.sum.exhaust surj_pair)
  then show ?thesis using acknowledge_outcome [OF asked_ok r] by auto
qed

subsection \<open>Reading\<close>

lemma Pending_rows:
  assumes ok: "mail_ok d" and p: "Pending a limit d = Inr found"
  shows "\<exists>rows. found = map scanMessage rows \<and> distinct rows \<and> set rows \<subseteq> mailbox d a \<and>
    length rows = min (nat (if limit \<le> 0 then defaultInboxLimit else limit)) (card (mailbox d a)) \<and>
    sorted (map (\<lambda>m. (messages_created_at m, messages_id m)) rows) \<and>
    (\<forall>m \<in> mailbox d a - set rows. \<forall>r \<in> set rows.
       (messages_created_at r, messages_id r) \<le> (messages_created_at m, messages_id m))"
proof -
  let ?k = "\<lambda>m. (messages_created_at m, messages_id m)"
  let ?n = "nat (if limit \<le> 0 then defaultInboxLimit else limit)"
  let ?box = "filter (pending_for d a) (messages d)"
  let ?rows = "take ?n (sort_key ?k ?box)"
  have box: "set ?box = mailbox d a" by (auto simp: mailbox_def)
  have dist: "distinct ?box" using ok by (simp add: mail_ok_def distinct_map)
  have "length ?box = card (mailbox d a)" using distinct_card [OF dist] box by simp
  then have "length ?rows = min ?n (card (mailbox d a))" by simp
  moreover have "set ?rows \<subseteq> mailbox d a" using set_take_subset [of ?n "sort_key ?k ?box"] box by simp
  moreover have "\<forall>m \<in> mailbox d a - set ?rows. \<forall>r \<in> set ?rows. ?k r \<le> ?k m"
    using take_sort_key_least [of _ ?n ?k ?box] box by blast
  moreover have "found = map scanMessage ?rows" using p by (simp add: Pending_def Let_def)
  moreover have "distinct ?rows" using dist by simp
  ultimately show ?thesis using sorted_take_sort_key [of ?k ?n ?box] by blast
qed

text \<open>An inbox holds the oldest messages the agent has not acknowledged, in order, as many as the
  limit allows, and marks them delivered. Reading takes nothing out of any mailbox: an agent that
  crashes before it acts on a message sees it again.\<close>

theorem inbox_outcome:
  assumes "mail_ok (w_db w)" and "Inbox a limit w = (Inr found, w')"
  shows "(\<exists>rows. found = map scanMessage rows \<and> distinct rows \<and> set rows \<subseteq> mailbox (w_db w) a \<and>
      length rows = min (nat (if limit \<le> 0 then defaultInboxLimit else limit)) (card (mailbox (w_db w) a)) \<and>
      sorted (map (\<lambda>m. (messages_created_at m, messages_id m)) rows) \<and>
      (\<forall>m \<in> mailbox (w_db w) a - set rows. \<forall>r \<in> set rows.
         (messages_created_at r, messages_id r) \<le> (messages_created_at m, messages_id m))) \<and>
    (\<forall>b. mailbox (w_db w') b = mailbox (w_db w) b) \<and>
    (\<forall>r \<in> set (deliveries (w_db w')). deliveries_agent_id r = a \<and>
       deliveries_message_id r \<in> set (map msg_ID found) \<longrightarrow> deliveries_delivered_at r \<noteq> None)"
proof -
  have pend: "Pending a limit (w_db w) = Inr found"
    using assms(2) by (auto simp: Inbox_def bindE_Inr exec_Inr split: if_splits)
  have "(\<forall>b. mailbox (w_db w') b = mailbox (w_db w) b) \<and>
    (\<forall>r \<in> set (deliveries (w_db w')). deliveries_agent_id r = a \<and>
       deliveries_message_id r \<in> set (map msg_ID found) \<longrightarrow> deliveries_delivered_at r \<noteq> None)"
  proof (cases "found = []")
    case True
    with assms(2) pend show ?thesis by (simp add: Inbox_def)
  next
    case False
    with assms(2) pend obtain d where mark: "MarkDelivered a (map msg_ID found) (time_of w) (w_db w) = Inr d"
      and d: "w_db w' = d"
      by (auto simp: Inbox_def bindE_Inr exec_Inr)
    have "deliveries_delivered_at r \<noteq> None" if "r \<in> set (deliveries d)" "deliveries_agent_id r = a"
      "deliveries_message_id r \<in> set (map msg_ID found)" for r
    proof -
      from that(1) have "r \<in> set (update_where (\<lambda>r. deliveries_agent_id r = a \<and> deliveries_delivered_at r = None \<and>
          deliveries_message_id r \<in> set (map msg_ID found))
        (\<lambda>r. r\<lparr>deliveries_delivered_at := Some (requireMicros (time_of w))\<rparr>) (deliveries (w_db w)))"
        using mark by (simp only: MarkDelivered_Inr db.simps db.update_convs db.select_convs) simp
      then show ?thesis using that(2,3) by (cases rule: in_update_where) auto
    qed
    then show ?thesis using MarkDelivered_mailbox [OF mark] d by blast
  qed
  with Pending_rows [OF assms(1) pend] show ?thesis by blast
qed

subsection \<open>Pruning and the log\<close>

lemma PruneExpired_parts:
  assumes "PruneExpired at retention d = Inr (n, d')"
  shows "messages d' = delete_where (prunable d at retention) (messages d)"
    and "deliveries d' = delete_where (\<lambda>r. deliveries_message_id r \<in>
      set (map messages_id (filter (prunable d at retention) (messages d)))) (deliveries d)"
    and "n = length (map messages_id (filter (prunable d at retention) (messages d)))"
  using assms by (auto simp: PruneExpired_def Let_def)

text \<open>Pruning removes exactly the messages past their expiry and those older than the retention
  period that are in nobody's mailbox any more; it reports how many, and removes their deliveries
  with them and no others.\<close>

theorem prune_outcome:
  assumes ok: "mail_ok (w_db w)" and run: "Prune options w = (Inr n, w')"
  shows "set (messages (w_db w')) = {m \<in> set (messages (w_db w)). \<not> message_expired (time_of w) m \<and>
      (messages_created_at m \<le> requireMicros (time_of w - mo_Retention options) \<longrightarrow>
       (\<exists>a. m \<in> mailbox (w_db w) a))} \<and>
    n = card (set (messages (w_db w)) - set (messages (w_db w'))) \<and>
    set (deliveries (w_db w')) = {r \<in> set (deliveries (w_db w)). message_exists (w_db w') (deliveries_message_id r)}"
proof -
  let ?d = "w_db w" and ?P = "prunable (w_db w) (time_of w) (mo_Retention options)"
  let ?gone = "map messages_id (filter ?P (messages ?d))"
  have eq: "messages (w_db w') = delete_where ?P (messages ?d)"
      "deliveries (w_db w') = delete_where (\<lambda>r. deliveries_message_id r \<in> set ?gone) (deliveries ?d)"
      "n = length ?gone"
    using PruneExpired_parts [OF Prune_run [OF run]] by simp_all
  have kept: "m \<in> set (messages (w_db w')) \<longleftrightarrow> m \<in> set (messages ?d) \<and> \<not> ?P m" for m
    by (auto simp: eq)
  have "distinct (filter ?P (messages ?d))" using ok by (simp add: mail_ok_def distinct_map)
  then have "n = card (set (filter ?P (messages ?d)))" using distinct_card [of "filter ?P (messages ?d)"] eq(3) by simp
  also have "set (filter ?P (messages ?d)) = set (messages ?d) - set (messages (w_db w'))" using kept by auto
  finally have n: "n = card (set (messages ?d) - set (messages (w_db w')))" .
  have dead: "deliveries_message_id r \<in> set ?gone \<longleftrightarrow> \<not> message_exists (w_db w') (deliveries_message_id r)"
    if r: "r \<in> set (deliveries ?d)" for r
  proof -
    from r ok obtain m where m: "m \<in> set (messages ?d)" "messages_id m = deliveries_message_id r"
      by (auto simp: mail_ok_def message_exists_def exists_where_iff)
    have same: "x = m" if "x \<in> set (messages ?d)" "messages_id x = deliveries_message_id r" for x
      using that m ok distinct_key_eq [of messages_id "messages ?d" x m] by (simp add: mail_ok_def)
    have "deliveries_message_id r \<in> set ?gone \<longleftrightarrow> (\<exists>x. x \<in> set (messages ?d) \<and> ?P x \<and> messages_id x = deliveries_message_id r)"
      by (auto simp: image_iff)
    also have "\<dots> \<longleftrightarrow> ?P m" using same m by blast
    also have "\<dots> \<longleftrightarrow> \<not> (\<exists>x. x \<in> set (messages (w_db w')) \<and> messages_id x = deliveries_message_id r)"
      using same m kept by blast
    finally show ?thesis by (simp add: message_exists_def exists_where_iff Bex_def)
  qed
  have "r \<in> set (deliveries (w_db w')) \<longleftrightarrow> r \<in> set (deliveries ?d) \<and> deliveries_message_id r \<notin> set ?gone" for r
    by (simp only: eq set_delete_where mem_Collect_eq)
  then have dels: "set (deliveries (w_db w')) = {r \<in> set (deliveries ?d). message_exists (w_db w') (deliveries_message_id r)}"
    using dead by blast
  have "set (messages (w_db w')) = {m \<in> set (messages ?d). \<not> message_expired (time_of w) m \<and>
      (messages_created_at m \<le> requireMicros (time_of w - mo_Retention options) \<longrightarrow> (\<exists>a. m \<in> mailbox ?d a))}"
    using kept by (auto simp: prunable_iff mailbox_def)
  with n dels show ?thesis by blast
qed




end
