(* ===== verification/StoreTasks.thy ===== *)
theory StoreTasks
  imports StoreAgents
begin

section \<open>Tasks in SQLite (\<open>tasks.go\<close>)\<close>

text \<open>
  One definition per statement. A task is queued, running or finished; every statement that moves
  it names the states it may come from, so that two workers cannot both get it.
\<close>

definition defaultTaskLimit :: int where
  "defaultTaskLimit = 50"

definition nullExitCode :: "Task \<Rightarrow> int option" where
  "nullExitCode t = (if \<not> Finished (task_State t) then None else Some (task_ExitCode t))"

definition task_row_of :: "Task \<Rightarrow> tasks_row" where
  "task_row_of t = \<lparr>tasks_id = task_ID t, tasks_resource_name = task_ResourceName t,
     tasks_command_key = task_CommandKey t, tasks_workdir = task_Workdir t,
     tasks_requester_id = task_RequesterID t, tasks_worker_id = nullString (task_WorkerID t),
     tasks_lease_id = nullString (task_LeaseID t), tasks_state = task_State t,
     tasks_exit_code = nullExitCode t, tasks_output = task_Output t, tasks_failure = task_Failure t,
     tasks_submitted_at = requireMicros (task_SubmittedAt t), tasks_started_at = toMicros (task_StartedAt t),
     tasks_finished_at = toMicros (task_FinishedAt t)\<rparr>"

definition task_exists :: "db \<Rightarrow> string \<Rightarrow> bool" where
  "task_exists d i = exists_where (\<lambda>r. tasks_id r = i) (tasks d)"

definition Tasks_Create :: "Task \<Rightarrow> db \<Rightarrow> db res" where
  "Tasks_Create t d = (case Task_Validate t of
      Inl e \<Rightarrow> Inl e
    | Inr _ \<Rightarrow> translated (constrained
        (TaskState_Valid (task_State t))
        (\<not> task_exists d (task_ID t))
        (resource_exists d (task_ResourceName t) \<and> agent_exists d (task_RequesterID t) \<and>
         null_or (agent_exists d) (nullString (task_WorkerID t)) \<and>
         null_or (lease_exists d) (nullString (task_LeaseID t)))
        (d\<lparr>tasks := tasks d @ [task_row_of t]\<rparr>)))"

definition scanTask :: "tasks_row \<Rightarrow> Task" where
  "scanTask r = \<lparr>task_ID = tasks_id r, task_ResourceName = tasks_resource_name r,
     task_CommandKey = tasks_command_key r, task_Workdir = tasks_workdir r,
     task_RequesterID = tasks_requester_id r, task_WorkerID = fromNullString (tasks_worker_id r),
     task_LeaseID = fromNullString (tasks_lease_id r), task_State = tasks_state r,
     task_ExitCode = (case tasks_exit_code r of None \<Rightarrow> 0 | Some c \<Rightarrow> c),
     task_Output = tasks_output r, task_Failure = tasks_failure r,
     task_SubmittedAt = fromRequiredMicros (tasks_submitted_at r),
     task_StartedAt = fromMicros (tasks_started_at r), task_FinishedAt = fromMicros (tasks_finished_at r)\<rparr>"

definition Tasks_ByID :: "string \<Rightarrow> db \<Rightarrow> Task res" where
  "Tasks_ByID taskID d = fetch scanTask (first_where (\<lambda>r. tasks_id r = taskID) (tasks d))"

text \<open>The queue of a resource: the task waiting longest first.\<close>

definition queued_for :: "string \<Rightarrow> tasks_row \<Rightarrow> bool" where
  "queued_for resource r \<longleftrightarrow> tasks_resource_name r = resource \<and> tasks_state r = TaskQueued"

definition NextQueued :: "string \<Rightarrow> db \<Rightarrow> Task res" where
  "NextQueued resourceName d = fetch scanTask (first_where (\<lambda>_. True)
     (sort_key (\<lambda>r. (tasks_submitted_at r, tasks_id r)) (filter (queued_for resourceName) (tasks d))))"

definition claimable :: "string \<Rightarrow> tasks_row \<Rightarrow> bool" where
  "claimable taskID r \<longleftrightarrow> tasks_id r = taskID \<and> tasks_state r = TaskQueued"

definition Tasks_Claim :: "string \<Rightarrow> string \<Rightarrow> string \<Rightarrow> instant \<Rightarrow> db \<Rightarrow> db res" where
  "Tasks_Claim taskID workerID leaseID at d =
     (if \<not> exists_where (claimable taskID) (tasks d) then Inl ErrConflict
      else translated (constrained True True
        (agent_exists d workerID \<and> null_or (lease_exists d) (nullString leaseID))
        (d\<lparr>tasks := update_where (claimable taskID)
           (\<lambda>r. r\<lparr>tasks_state := TaskRunning, tasks_worker_id := Some workerID,
                  tasks_lease_id := nullString leaseID, tasks_started_at := Some (requireMicros at)\<rparr>)
           (tasks d)\<rparr>)))"

text \<open>
  \<^verbatim>\<open>substr(x, -n)\<close> keeps the last \<open>n\<close> characters of a text. SQLite counts a byte from C0 upwards
  together with the continuation bytes (80 to BF) after it as one character, and any other byte as
  one. The texts have no zero byte.
\<close>

definition continuation_byte :: "char \<Rightarrow> bool" where
  "continuation_byte c \<longleftrightarrow> CHR 0x80 \<le> c \<and> c < CHR 0xC0"

function sql_chars :: "string \<Rightarrow> string list" where
  "sql_chars [] = []"
| "sql_chars (c # cs) =
     (if CHR 0xC0 \<le> c
      then (c # takeWhile continuation_byte cs) # sql_chars (dropWhile continuation_byte cs)
      else [c] # sql_chars cs)"
  by pat_completeness auto
termination by (relation "measure length") (auto simp: le_imp_less_Suc length_dropWhile_le)

definition sql_last :: "nat \<Rightarrow> string \<Rightarrow> string" where
  "sql_last n s = concat (drop (length (sql_chars s) - n) (sql_chars s))"

definition runs :: "string \<Rightarrow> tasks_row \<Rightarrow> bool" where
  "runs taskID r \<longleftrightarrow> tasks_id r = taskID \<and> tasks_state r = TaskRunning"

definition Tasks_AppendOutput :: "string \<Rightarrow> string \<Rightarrow> db \<Rightarrow> db res" where
  "Tasks_AppendOutput taskID chunk d =
     (if chunk = [] then Inr d
      else if \<not> exists_where (runs taskID) (tasks d) then Inl ErrConflict
      else Inr (d\<lparr>tasks := update_where (runs taskID)
             (\<lambda>r. r\<lparr>tasks_output := sql_last MaxTaskOutput (tasks_output r @ chunk)\<rparr>) (tasks d)\<rparr>))"

definition unfinished :: "string \<Rightarrow> tasks_row \<Rightarrow> bool" where
  "unfinished taskID r \<longleftrightarrow> tasks_id r = taskID \<and> (tasks_state r = TaskRunning \<or> tasks_state r = TaskQueued)"

definition Tasks_Finish :: "string \<Rightarrow> TaskState \<Rightarrow> int \<Rightarrow> string \<Rightarrow> instant \<Rightarrow> db \<Rightarrow> db res" where
  "Tasks_Finish taskID state exitCode failure at d =
     (if \<not> Finished state then Inl ErrInvalidArgument
      else if \<not> exists_where (unfinished taskID) (tasks d) then Inl ErrConflict
      else Inr (d\<lparr>tasks := update_where (unfinished taskID)
             (\<lambda>r. r\<lparr>tasks_state := state, tasks_exit_code := Some exitCode, tasks_failure := failure,
                    tasks_finished_at := Some (requireMicros at)\<rparr>) (tasks d)\<rparr>))"

definition ListByRequester :: "string \<Rightarrow> int \<Rightarrow> db \<Rightarrow> Task list res" where
  "ListByRequester requesterID limit0 d =
     (let limit = (if limit0 \<le> 0 then defaultTaskLimit else limit0)
      in Inr (map scanTask (take (nat limit)
           (rev (sort_key (\<lambda>r. (tasks_submitted_at r, tasks_id r))
              (filter (\<lambda>r. tasks_requester_id r = requesterID) (tasks d)))))))"

definition running_of :: "string \<Rightarrow> tasks_row \<Rightarrow> bool" where
  "running_of workerID r \<longleftrightarrow> tasks_worker_id r = Some workerID \<and> tasks_state r = TaskRunning"

definition runningTasksOf :: "string \<Rightarrow> db \<Rightarrow> Task list res" where
  "runningTasksOf workerID d = Inr (map scanTask (filter (running_of workerID) (tasks d)))"

definition requeue_reason :: "instant \<Rightarrow> string" where
  "requeue_reason at = ''requeued at '' @ FormatRFC3339 at @ '': the worker went away''"

definition requeue :: "string \<Rightarrow> string \<Rightarrow> db \<Rightarrow> db" where
  "requeue reason taskID d = d\<lparr>tasks := update_where (runs taskID)
     (\<lambda>r. r\<lparr>tasks_state := TaskQueued, tasks_worker_id := None, tasks_lease_id := None,
            tasks_started_at := None, tasks_output := [], tasks_failure := reason\<rparr>) (tasks d)\<rparr>"

definition Tasks_ReleaseAbandoned :: "string \<Rightarrow> instant \<Rightarrow> db \<Rightarrow> (Task list \<times> db) res" where
  "Tasks_ReleaseAbandoned workerID at d = (case runningTasksOf workerID d of
      Inl e \<Rightarrow> Inl e
    | Inr abandoned \<Rightarrow>
        Inr (abandoned, fold (requeue (requeue_reason at)) (map task_ID abandoned) d))"

end
