(* ===== verification/WaitLoop.thy ===== *)
theory WaitLoop
  imports Waiters
begin

section \<open>Waiting for something to appear\<close>

text \<open>
  The shape of every wait loop of the dispatch, reporting and watching services: take the channel,
  look, and if there is nothing yet park until the channel closes, the safety-net timer fires or
  the caller's context ends. What happens to the state while the caller is parked, and why it woke,
  is a list of pauses; \<open>None\<close> means they ran out while it was still parked. A channel that is
  still open cannot wake anybody, so such a pause only lets time pass.
\<close>

datatype wakeup = ChannelClosed | ContextEnded ctx_err | Recheck

type_synonym interlude = "(world \<Rightarrow> world) \<times> wakeup"

function wait_loop :: "interlude list \<Rightarrow> nat action \<Rightarrow> 'a option action \<Rightarrow> (world \<Rightarrow> nat list) \<Rightarrow>
    world \<Rightarrow> 'a res option \<times> world"
  and wait_parked :: "interlude list \<Rightarrow> nat \<Rightarrow> nat action \<Rightarrow> 'a option action \<Rightarrow> (world \<Rightarrow> nat list) \<Rightarrow>
    world \<Rightarrow> 'a res option \<times> world" where
  "wait_loop ps arm look closed w =
     (case bindE arm (\<lambda>channel. bindE look (\<lambda>outcome. returnE (channel, outcome))) w of
        (Inl e, w1) \<Rightarrow> (Some (Inl e), w1)
      | (Inr (channel, Some x), w1) \<Rightarrow> (Some (Inr x), w1)
      | (Inr (channel, None), w1) \<Rightarrow> wait_parked ps channel arm look closed w1)"
| "wait_parked [] channel arm look closed w = (None, w)"
| "wait_parked ((others, why) # ps) channel arm look closed w =
     (case why of
        ChannelClosed \<Rightarrow> if channel \<in> set (closed (others w))
                   then wait_loop ps arm look closed (others w)
                   else wait_parked ps channel arm look closed (others w)
      | ContextEnded ce \<Rightarrow> (Some (Inl (ContextDone ce)), others w)
      | Recheck \<Rightarrow> wait_loop ps arm look closed (others w))"
  by pat_completeness auto
termination
  by (relation "measure (case_sum (\<lambda>(ps, _). Suc (2 * length ps)) (\<lambda>(ps, _). 2 * length ps))") auto

declare wait_loop.simps [simp del] wait_parked.simps [simp del]

text \<open>What a loop returns is what its last look found, or failed with, or the end of the context. The
  state of that look satisfies every invariant that the loop's own steps and the interludes keep.\<close>

lemma wait_outcome:
  fixes I :: "world \<Rightarrow> bool"
  assumes arm: "\<And>x y v. I x \<Longrightarrow> arm x = (y, v) \<Longrightarrow> I v"
    and look: "\<And>x v. I x \<Longrightarrow> look x = (Inr None, v) \<Longrightarrow> I v"
  shows "wait_loop ps arm look closed w = (Some r, w') \<Longrightarrow> I w \<Longrightarrow>
      (\<forall>f why x. (f, why) \<in> set ps \<longrightarrow> I x \<longrightarrow> I (f x)) \<Longrightarrow>
      (case r of Inr x \<Rightarrow> (\<exists>v. I v \<and> look v = (Inr (Some x), w'))
       | Inl e \<Rightarrow> (\<exists>v. I v \<and> look v = (Inl e, w')) \<or> (\<exists>v. arm v = (Inl e, w')) \<or> (\<exists>ce. e = ContextDone ce))"
    and "wait_parked ps channel arm look closed w = (Some r, w') \<Longrightarrow> I w \<Longrightarrow>
      (\<forall>f why x. (f, why) \<in> set ps \<longrightarrow> I x \<longrightarrow> I (f x)) \<Longrightarrow>
      (case r of Inr x \<Rightarrow> (\<exists>v. I v \<and> look v = (Inr (Some x), w'))
       | Inl e \<Rightarrow> (\<exists>v. I v \<and> look v = (Inl e, w')) \<or> (\<exists>v. arm v = (Inl e, w')) \<or> (\<exists>ce. e = ContextDone ce))"
  using arm look
proof (induction ps arm look closed w and ps channel arm look closed w
    rule: wait_loop_wait_parked.induct)
  case (1 ps arm look closed w)
  show ?case
  proof (cases "arm w")
    case (Pair a w1)
    show ?thesis
    proof (cases a)
      case (Inl e)
      with Pair 1(2) have "r = Inl e" "w' = w1" by (simp_all add: wait_loop.simps)
      moreover have "\<exists>v. arm v = (Inl e, w1)" using Pair Inl by blast
      ultimately show ?thesis by simp
    next
      case (Inr channel)
      have I1: "I w1" by (rule 1(5) [OF 1(3) Pair])
      obtain b w2 where l: "look w1 = (b, w2)" by force
      show ?thesis
      proof (cases b)
        case (Inl e)
        with Pair Inr l 1(2) have "r = Inl e" "w' = w2" by (simp_all add: wait_loop.simps)
        moreover have "\<exists>v. I v \<and> look v = (Inl e, w2)" using l Inl I1 by blast
        ultimately show ?thesis by simp
      next
        case out: (Inr out)
        show ?thesis
        proof (cases out)
          case None
          have I2: "I w2" by (rule 1(6) [OF I1]) (simp add: l out None)
          have run: "bindE arm (\<lambda>channel. bindE look (\<lambda>outcome. returnE (channel, outcome))) w =
              (Inr (channel, None), w2)" using Pair Inr l out None by simp
          then have "wait_parked ps channel arm look closed w2 = (Some r, w')"
            using 1(2) by (simp add: wait_loop.simps)
          from 1(1) [OF run [symmetric] refl refl refl this I2 1(4,5,6)] show ?thesis .
        next
          case (Some x)
          with Pair Inr l out 1(2) have "r = Inr x" "w' = w2" by (simp_all add: wait_loop.simps)
          moreover have "\<exists>v. I v \<and> look v = (Inr (Some x), w2)" using l out Some I1 by blast
          ultimately show ?thesis by simp
        qed
      qed
    qed
  qed
next
  case (2 channel arm look closed w)
  from 2(1) show ?case by (simp add: wait_parked.simps)
next
  case (3 others why ps channel arm look closed w)
  have I: "I (others w)" and rest: "\<forall>f why x. (f, why) \<in> set ps \<longrightarrow> I x \<longrightarrow> I (f x)"
    using 3(5,6) by auto
  show ?case
  proof (cases why)
    case ChannelClosed
    show ?thesis
    proof (cases "channel \<in> set (closed (others w))")
      case True
      with ChannelClosed 3(4) have "wait_loop ps arm look closed (others w) = (Some r, w')"
        by (simp add: wait_parked.simps)
      from 3(1) [OF ChannelClosed True this I rest 3(7,8)] show ?thesis .
    next
      case False
      with ChannelClosed 3(4) have "wait_parked ps channel arm look closed (others w) = (Some r, w')"
        by (simp add: wait_parked.simps)
      from 3(2) [OF ChannelClosed False this I rest 3(7,8)] show ?thesis .
    qed
  next
    case (ContextEnded ce)
    with 3(4) have "r = Inl (ContextDone ce)" by (simp add: wait_parked.simps)
    then show ?thesis by simp
  next
    case Recheck
    with 3(4) have "wait_loop ps arm look closed (others w) = (Some r, w')" by (simp add: wait_parked.simps)
    from 3(3) [OF Recheck this I rest 3(7,8)] show ?thesis .
  qed
qed

lemma wait_found:
  assumes "wait_loop ps arm look closed w = (Some (Inr x), w')" and "I w"
    and "\<And>x y v. I x \<Longrightarrow> arm x = (y, v) \<Longrightarrow> I v"
    and "\<And>x v. I x \<Longrightarrow> look x = (Inr None, v) \<Longrightarrow> I v"
    and "\<And>f why x. (f, why) \<in> set ps \<Longrightarrow> I x \<Longrightarrow> I (f x)"
  shows "\<exists>v. I v \<and> look v = (Inr (Some x), w')"
proof -
  have "case Inr x of Inr x \<Rightarrow> (\<exists>v. I v \<and> look v = (Inr (Some x), w'))
       | Inl e \<Rightarrow> (\<exists>v. I v \<and> look v = (Inl e, w')) \<or> (\<exists>v. arm v = (Inl e, w')) \<or> (\<exists>ce. e = ContextDone ce)"
    by (rule wait_outcome(1) [where I = I, OF _ _ assms(1,2)]) (use assms(3-5) in blast)+
  then show ?thesis by simp
qed

lemma wait_failed:
  assumes "wait_loop ps arm look closed w = (Some (Inl e), w')" and "I w"
    and "\<And>x y v. I x \<Longrightarrow> arm x = (y, v) \<Longrightarrow> I v"
    and "\<And>x v. I x \<Longrightarrow> look x = (Inr None, v) \<Longrightarrow> I v"
    and "\<And>f why x. (f, why) \<in> set ps \<Longrightarrow> I x \<Longrightarrow> I (f x)"
  shows "(\<exists>v. I v \<and> look v = (Inl e, w')) \<or> (\<exists>v. arm v = (Inl e, w')) \<or> (\<exists>ce. e = ContextDone ce)"
proof -
  have "case Inl e of Inr x \<Rightarrow> (\<exists>v. I v \<and> look v = (Inr (Some x), w'))
       | Inl e \<Rightarrow> (\<exists>v. I v \<and> look v = (Inl e, w')) \<or> (\<exists>v. arm v = (Inl e, w')) \<or> (\<exists>ce. e = ContextDone ce)"
    by (rule wait_outcome(1) [where I = I, OF _ _ assms(1,2)]) (use assms(3-5) in blast)+
  then show ?thesis by simp
qed

end
