(* ===== verification/Dispatch.thy ===== *)
theory Dispatch
  imports StoreTasks Registry Catalogue WaitLoop
begin

section \<open>Work one agent asks a shared worker to do (\<open>internal/service/dispatch\<close>)\<close>

text \<open>
  A requester names a command key; the catalogue decides what it runs. A worker shows the lease it
  holds, takes the oldest queued task of the resource and reports its outcome. \<open>w_arrivals\<close> and
  \<open>w_outcomes\<close> are the two signal maps of the service.
\<close>

subsection \<open>Signals\<close>

definition signals_watch :: "string \<Rightarrow> channels \<Rightarrow> nat \<times> channels" where
  "signals_watch key c = (case map_of (ch_open c) key of
      Some channel \<Rightarrow> (channel, c)
    | None \<Rightarrow> (ch_next c, c\<lparr>ch_open := (key, ch_next c) # ch_open c, ch_next := Suc (ch_next c)\<rparr>))"

definition signals_signal :: "string \<Rightarrow> channels \<Rightarrow> channels" where
  "signals_signal key c = (case map_of (ch_open c) key of
      Some channel \<Rightarrow> c\<lparr>ch_closed := channel # ch_closed c,
                         ch_open := filter (\<lambda>p. fst p \<noteq> key) (ch_open c)\<rparr>
    | None \<Rightarrow> c)"

interpretation signals: wakeups signals_watch signals_signal "\<lambda>c. map_of (ch_open c)"
    "\<lambda>c n. n \<in> set (ch_closed c)" channels_ok
proof -
  have "signals_watch = watch" "signals_signal = signal"
    by (simp_all add: fun_eq_iff signals_watch_def watch_def signals_signal_def signal_def)
  then show "wakeups signals_watch signals_signal (\<lambda>c. map_of (ch_open c)) (\<lambda>c n. n \<in> set (ch_closed c)) channels_ok"
    by (simp add: waiters.wakeups_axioms)
qed

definition watch_arrivals :: "string \<Rightarrow> nat action" where
  "watch_arrivals key = (\<lambda>w. case signals_watch key (w_arrivals w) of (n, c) \<Rightarrow> (Inr n, w\<lparr>w_arrivals := c\<rparr>))"

definition signal_arrivals :: "string \<Rightarrow> unit action" where
  "signal_arrivals key = (\<lambda>w. (Inr (), w\<lparr>w_arrivals := signals_signal key (w_arrivals w)\<rparr>))"

definition watch_outcomes :: "string \<Rightarrow> nat action" where
  "watch_outcomes key = (\<lambda>w. case signals_watch key (w_outcomes w) of (n, c) \<Rightarrow> (Inr n, w\<lparr>w_outcomes := c\<rparr>))"

definition signal_outcomes :: "string \<Rightarrow> unit action" where
  "signal_outcomes key = (\<lambda>w. (Inr (), w\<lparr>w_outcomes := signals_signal key (w_outcomes w)\<rparr>))"

subsection \<open>Submitting\<close>

record SubmitRequest =
  sub_RequesterID :: string
  sub_CommandKey :: string
  sub_Workdir :: string

text \<open>The catalogue reads the configuration live.\<close>

definition configured_command :: "string \<Rightarrow> Command action" where
  "configured_command key = (\<lambda>w. (catalogue_Command (w_commands w) key, w))"

text \<open>An empty working directory means the requester's own. \<open>within\<close> is the same function as the
  registry's; the error outside the roots is another.\<close>

definition task_workdir_in :: "string list \<Rightarrow> string \<Rightarrow> string res" where
  "task_workdir_in roots workdir =
     (if \<not> IsAbs workdir then Inl ErrInvalidArgument
      else let cleaned = Clean workdir in
        if length roots = 0 then Inr cleaned
        else if list_ex (\<lambda>root. within cleaned (Clean root)) roots then Inr cleaned
        else Inl ErrUnauthorised)"

definition task_workdir :: "string list \<Rightarrow> SubmitRequest \<Rightarrow> db \<Rightarrow> string res" where
  "task_workdir roots request d =
     (if sub_Workdir request = [] then
        (case Agents_ByID (sub_RequesterID request) d of
           Inl e \<Rightarrow> Inl e | Inr requester \<Rightarrow> task_workdir_in roots (agent_Workdir requester))
      else task_workdir_in roots (sub_Workdir request))"

definition Submit :: "string list \<Rightarrow> SubmitRequest \<Rightarrow> Task action" where
  "Submit roots request =
     bindE (configured_command (sub_CommandKey request)) (\<lambda>command.
     bindE (query (task_workdir roots request)) (\<lambda>workdir.
     bindE (newID ''task'') (\<lambda>taskID.
     bindE now (\<lambda>at.
     let task = \<lparr>task_ID = taskID, task_ResourceName = cmd_Resource command,
           task_CommandKey = cmd_Key command, task_Workdir = workdir,
           task_RequesterID = sub_RequesterID request, task_WorkerID = [], task_LeaseID = [],
           task_State = TaskQueued, task_ExitCode = 0, task_Output = [], task_Failure = [],
           task_SubmittedAt = at, task_StartedAt = zeroTime, task_FinishedAt = zeroTime\<rparr>
     in
     bindE (exec (Tasks_Create task)) (\<lambda>_.
     bindE (signal_arrivals (cmd_Resource command)) (\<lambda>_.
     returnE task))))))"

subsection \<open>Claiming\<close>

record Claimed =
  claimed_Task :: Task
  claimed_Command :: Command

definition not_found_as_none :: "'a action \<Rightarrow> 'a option action" where
  "not_found_as_none m = bindE (attemptE m) (\<lambda>r. case r of
      Inr x \<Rightarrow> returnE (Some x)
    | Inl e \<Rightarrow> if e = ErrNotFound then returnE None else throwE e)"

definition WaitForWork :: "interlude list \<Rightarrow> string \<Rightarrow> world \<Rightarrow> Task res option \<times> world" where
  "WaitForWork ps resourceName = wait_loop ps (watch_arrivals resourceName)
     (not_found_as_none (query (NextQueued resourceName))) (\<lambda>w. ch_closed (w_arrivals w))"

definition verifyLease :: "string \<Rightarrow> string \<Rightarrow> string \<Rightarrow> unit action" where
  "verifyLease resourceName workerID leaseID =
     bindE (query (LeaseByID leaseID)) (\<lambda>lease.
     if lease_AgentID lease \<noteq> workerID then throwE ErrUnauthorised
     else if lease_ResourceName lease \<noteq> resourceName then throwE ErrInvalidArgument
     else bindE now (\<lambda>at. if \<not> Lease_Active lease at then throwE ErrConflict else returnE ()))"

definition quoted :: "string \<Rightarrow> string" where
  "quoted s = [CHR 0x22] @ s @ [CHR 0x22]"

text \<open>The transaction of \<open>tryClaim\<close>. A task whose command was removed from the configuration is
  failed instead; the transaction then succeeds with nothing claimed.\<close>

definition claim_body :: "string \<Rightarrow> string \<Rightarrow> string \<Rightarrow> Claimed option action" where
  "claim_body resourceName workerID leaseID =
     bindE (query (NextQueued resourceName)) (\<lambda>task.
     bindE (attemptE (configured_command (task_CommandKey task))) (\<lambda>found. case found of
       Inl _ \<Rightarrow>
         bindE now (\<lambda>at.
         bindE (exec (Tasks_Finish (task_ID task) TaskFailed (- 1)
            (''the command '' @ quoted (task_CommandKey task) @ '' is no longer configured on this machine'') at)) (\<lambda>_.
         returnE None))
     | Inr command \<Rightarrow>
         bindE now (\<lambda>at.
         bindE (exec (Tasks_Claim (task_ID task) workerID leaseID at)) (\<lambda>_.
         returnE (Some \<lparr>claimed_Task = task\<lparr>task_State := TaskRunning, task_WorkerID := workerID,
             task_LeaseID := leaseID, task_StartedAt := at\<rparr>, claimed_Command = command\<rparr>)))))"

definition tryClaim :: "string \<Rightarrow> string \<Rightarrow> string \<Rightarrow> Claimed option action" where
  "tryClaim resourceName workerID leaseID =
     bindE (attemptE (transaction (claim_body resourceName workerID leaseID))) (\<lambda>r. case r of
       Inl e \<Rightarrow> if e = ErrNotFound \<or> e = ErrConflict then returnE None else throwE e
     | Inr outcome \<Rightarrow> (case outcome of
           None \<Rightarrow> returnE None
         | Some claimed \<Rightarrow> if task_ID (claimed_Task claimed) = [] then returnE None else returnE outcome))"

text \<open>One round of \<open>Claim\<close>'s loop.\<close>

definition claim_round :: "string \<Rightarrow> string \<Rightarrow> string \<Rightarrow> bool \<Rightarrow> Claimed option action" where
  "claim_round resourceName workerID leaseID noWait =
     bindE (tryClaim resourceName workerID leaseID) (\<lambda>outcome.
     if outcome = None \<and> noWait then throwE ErrNotFound else returnE outcome)"

definition Claim :: "interlude list \<Rightarrow> string \<Rightarrow> string \<Rightarrow> string \<Rightarrow> bool \<Rightarrow>
    world \<Rightarrow> Claimed res option \<times> world" where
  "Claim ps resourceName workerID leaseID noWait w =
     (if leaseID = [] then (Some (Inl ErrInvalidArgument), w)
      else (case verifyLease resourceName workerID leaseID w of
          (Inl e, w1) \<Rightarrow> (Some (Inl e), w1)
        | (Inr _, w1) \<Rightarrow> wait_loop ps (watch_arrivals resourceName)
            (claim_round resourceName workerID leaseID noWait) (\<lambda>w. ch_closed (w_arrivals w)) w1))"

subsection \<open>Running and finishing\<close>

definition AppendOutput :: "string \<Rightarrow> string \<Rightarrow> string \<Rightarrow> unit action" where
  "AppendOutput taskID workerID chunk =
     bindE (query (Tasks_ByID taskID)) (\<lambda>task.
     if task_WorkerID task \<noteq> workerID then throwE ErrUnauthorised
     else
     bindE (exec (Tasks_AppendOutput taskID chunk)) (\<lambda>_. signal_outcomes taskID))"

definition Complete :: "string \<Rightarrow> string \<Rightarrow> int \<Rightarrow> string \<Rightarrow> Task action" where
  "Complete taskID workerID exitCode failure =
     bindE (query (Tasks_ByID taskID)) (\<lambda>task.
     if task_WorkerID task \<noteq> workerID then throwE ErrUnauthorised
     else
     let state = (if exitCode \<noteq> 0 \<or> failure \<noteq> [] then TaskFailed else TaskSucceeded) in
     bindE now (\<lambda>at.
     bindE (exec (Tasks_Finish taskID state exitCode failure at)) (\<lambda>_.
     bindE (signal_outcomes taskID) (\<lambda>_.
     query (Tasks_ByID taskID)))))"

definition Cancel_task :: "string \<Rightarrow> string \<Rightarrow> Task action" where
  "Cancel_task taskID requesterID =
     bindE (query (Tasks_ByID taskID)) (\<lambda>task.
     if task_RequesterID task \<noteq> requesterID then throwE ErrUnauthorised
     else if task_State task \<noteq> TaskQueued then throwE ErrConflict
     else
     bindE now (\<lambda>at.
     bindE (exec (Tasks_Finish taskID TaskCancelled (- 1) ''withdrawn by the requester'' at)) (\<lambda>_.
     bindE (signal_outcomes taskID) (\<lambda>_.
     query (Tasks_ByID taskID)))))"

definition Task_by_id :: "string \<Rightarrow> Task action" where
  "Task_by_id taskID = query (Tasks_ByID taskID)"

text \<open>The task read last comes back with a context error too; its only caller drops it.\<close>

definition await_round :: "string \<Rightarrow> Task option action" where
  "await_round taskID = bindE (query (Tasks_ByID taskID)) (\<lambda>task.
     returnE (if Finished (task_State task) then Some task else None))"

definition Await :: "interlude list \<Rightarrow> string \<Rightarrow> world \<Rightarrow> Task res option \<times> world" where
  "Await ps taskID = wait_loop ps (watch_outcomes taskID) (await_round taskID)
     (\<lambda>w. ch_closed (w_outcomes w))"

definition Mine :: "string \<Rightarrow> int \<Rightarrow> Task list action" where
  "Mine requesterID limit = query (ListByRequester requesterID limit)"

definition ReleaseAbandoned :: "string \<Rightarrow> nat action" where
  "ReleaseAbandoned workerID =
     bindE now (\<lambda>at.
     bindE (execR (Tasks_ReleaseAbandoned workerID at)) (\<lambda>requeued.
     bindE (forE requeued (\<lambda>task. signal_arrivals (task_ResourceName task))) (\<lambda>_.
     returnE (length requeued))))"

definition Commands :: "Command list action" where
  "Commands = (\<lambda>w. (Inr (catalogue_Commands (w_commands w)), w))"

end
