(* ===== verification/DispatchFacts.thy ===== *)
theory DispatchFacts
  imports Dispatch
begin

section \<open>What the dispatch operations do to the tasks\<close>

subsection \<open>Output is cut by characters\<close>

lemma concat_sql_chars [simp]: "concat (sql_chars s) = s"
  by (induction s rule: sql_chars.induct) auto

lemma tl_sql_chars: "\<exists>rest. tl (sql_chars s) = sql_chars rest"
proof (cases s)
  case Nil
  then show ?thesis by (metis list.sel(2) sql_chars.simps(1))
next
  case (Cons c cs)
  then show ?thesis by (cases "CHR 0xC0 \<le> c") auto
qed

lemma drop_sql_chars: "\<exists>rest. drop k (sql_chars s) = sql_chars rest"
proof (induction k)
  case (Suc k)
  then obtain rest where "drop k (sql_chars s) = sql_chars rest" by blast
  then have "drop (Suc k) (sql_chars s) = tl (sql_chars rest)" by (metis drop_Suc tl_drop)
  with tl_sql_chars show ?case by metis
qed (metis drop0)

lemma sql_chars_last: "sql_chars (sql_last n s) = drop (length (sql_chars s) - n) (sql_chars s)"
proof -
  obtain rest where r: "drop (length (sql_chars s) - n) (sql_chars s) = sql_chars rest"
    using drop_sql_chars by blast
  then have "sql_last n s = rest" by (simp add: sql_last_def)
  with r show ?thesis by simp
qed

lemma sql_last_bound: "length (sql_chars (sql_last n s)) \<le> n"
  by (simp add: sql_chars_last)

lemma sql_last_suffix: "\<exists>dropped. s = dropped @ sql_last n s"
proof -
  have "s = concat (take (length (sql_chars s) - n) (sql_chars s)) @ sql_last n s"
    unfolding sql_last_def by (metis append_take_drop_id concat_append concat_sql_chars)
  then show ?thesis by blast
qed

lemma sql_last_fits: "length (sql_chars s) \<le> n \<Longrightarrow> sql_last n s = s"
  by (simp add: sql_last_def)

lemma sql_chars_length: "length (sql_chars s) \<le> length s"
  by (induction s rule: sql_chars.induct) (auto intro: le_trans [OF _ length_dropWhile_le])

subsection \<open>The life of a task\<close>

text \<open>The columns of a row agree with its state: a queued task belongs to nobody, a running one to a
  worker, a finished one has its exit status and its end; and the output is bounded.\<close>

definition task_ok :: "tasks_row \<Rightarrow> bool" where
  "task_ok r \<longleftrightarrow> TaskState_Valid (tasks_state r) \<and> length (sql_chars (tasks_output r)) \<le> MaxTaskOutput \<and>
     (tasks_state r = TaskQueued \<longrightarrow> tasks_worker_id r = None \<and> tasks_lease_id r = None \<and> tasks_started_at r = None) \<and>
     (tasks_state r = TaskRunning \<longrightarrow> tasks_worker_id r \<noteq> None \<and> tasks_started_at r \<noteq> None) \<and>
     (Finished (tasks_state r) \<longleftrightarrow> tasks_exit_code r \<noteq> None) \<and>
     (Finished (tasks_state r) \<longleftrightarrow> tasks_finished_at r \<noteq> None)"

definition tasks_ok :: "db \<Rightarrow> bool" where
  "tasks_ok d \<longleftrightarrow> distinct (map tasks_id (tasks d)) \<and> (\<forall>r \<in> set (tasks d). task_ok r)"

text \<open>What a task is never changes, and nothing about a finished task does.\<close>

definition task_follows :: "tasks_row \<Rightarrow> tasks_row \<Rightarrow> bool" where
  "task_follows r s \<longleftrightarrow> tasks_id s = tasks_id r \<and> tasks_resource_name s = tasks_resource_name r \<and>
     tasks_command_key s = tasks_command_key r \<and> tasks_workdir s = tasks_workdir r \<and>
     tasks_requester_id s = tasks_requester_id r \<and> tasks_submitted_at s = tasks_submitted_at r \<and>
     (Finished (tasks_state r) \<longrightarrow> s = r)"

lemma task_follows_refl [simp]: "task_follows r r"
  by (simp add: task_follows_def)

lemma task_follows_trans: "task_follows r s \<Longrightarrow> task_follows s t \<Longrightarrow> task_follows r t"
  by (auto simp: task_follows_def)

definition tasks_forward :: "db \<Rightarrow> db \<Rightarrow> bool" where
  "tasks_forward d d' \<longleftrightarrow> (tasks_ok d \<longrightarrow> tasks_ok d') \<and> evolves task_follows (tasks d) (tasks d')"

interpretation forward: db_order tasks_forward
  by unfold_locales
    (auto simp: tasks_forward_def intro: evolves_refl evolves_trans task_follows_trans)

lemma forward_other: "tasks d' = tasks d \<Longrightarrow> tasks_forward d d'"
  by (simp add: tasks_forward_def tasks_ok_def evolves_refl)

lemma forward_update:
  assumes "\<And>r. P r \<Longrightarrow> task_follows r (f r)" and "\<And>r. P r \<Longrightarrow> task_ok r \<Longrightarrow> task_ok (f r)"
    and "tasks d' = update_where P f (tasks d)"
  shows "tasks_forward d d'"
proof -
  have ids: "tasks_id (f r) = tasks_id r" if "P r" for r
    using assms(1) [OF that] by (simp add: task_follows_def)
  have "task_ok r" if "r \<in> set (update_where P f (tasks d))" "tasks_ok d" for r
    using that(1) by (cases rule: in_update_where) (use that(2) assms(2) in \<open>auto simp: tasks_ok_def\<close>)
  moreover have "distinct (map tasks_id (update_where P f (tasks d)))" if "tasks_ok d"
    using that map_update_where [where g = tasks_id and P = P and f = f and rows = "tasks d"] ids by (simp add: tasks_ok_def)
  ultimately show ?thesis
    using evolves_update [where R = task_follows and P = P and f = f] assms(1,3)
    by (simp add: tasks_forward_def tasks_ok_def)
qed

lemma TaskState_simps [simp]:
  "TaskState_Valid TaskQueued" "TaskState_Valid TaskRunning" "TaskState_Valid TaskFailed"
  "TaskState_Valid TaskSucceeded" "TaskState_Valid TaskCancelled"
  "\<not> Finished TaskQueued" "\<not> Finished TaskRunning" "Finished TaskFailed" "Finished TaskSucceeded" "Finished TaskCancelled"
  by (simp_all add: TaskState_Valid_def Finished_def)

lemma Finished_Valid: "Finished s \<Longrightarrow> TaskState_Valid s"
  by (auto simp: Finished_def)

text \<open>The effect of each statement.\<close>

lemma Tasks_Create_Inr: "Tasks_Create t d = Inr d' \<longleftrightarrow> Task_Validate t = Inr () \<and> TaskState_Valid (task_State t) \<and>
    \<not> task_exists d (task_ID t) \<and> resource_exists d (task_ResourceName t) \<and> agent_exists d (task_RequesterID t) \<and>
    null_or (agent_exists d) (nullString (task_WorkerID t)) \<and> null_or (lease_exists d) (nullString (task_LeaseID t)) \<and>
    d' = d\<lparr>tasks := tasks d @ [task_row_of t]\<rparr>"
  by (cases "Task_Validate t") (auto simp: Tasks_Create_def translated_constrained)

lemma Tasks_Claim_Inr: "Tasks_Claim i wk l at d = Inr d' \<longleftrightarrow> exists_where (claimable i) (tasks d) \<and>
    agent_exists d wk \<and> null_or (lease_exists d) (nullString l) \<and>
    d' = d\<lparr>tasks := update_where (claimable i)
           (\<lambda>r. r\<lparr>tasks_state := TaskRunning, tasks_worker_id := Some wk,
                  tasks_lease_id := nullString l, tasks_started_at := Some (requireMicros at)\<rparr>) (tasks d)\<rparr>"
  by (auto simp: Tasks_Claim_def translated_constrained)

lemma Tasks_Finish_Inr: "Tasks_Finish i st code why at d = Inr d' \<longleftrightarrow> Finished st \<and> exists_where (unfinished i) (tasks d) \<and>
    d' = d\<lparr>tasks := update_where (unfinished i)
             (\<lambda>r. r\<lparr>tasks_state := st, tasks_exit_code := Some code, tasks_failure := why,
                    tasks_finished_at := Some (requireMicros at)\<rparr>) (tasks d)\<rparr>"
  by (auto simp: Tasks_Finish_def)

lemma forward_create:
  assumes "Tasks_Create t d = Inr d'" and "task_ok (task_row_of t)"
  shows "tasks_forward d d'"
proof -
  have "tasks d' = tasks d @ [task_row_of t]" "\<not> task_exists d (task_ID t)" using assms(1) by (auto simp: Tasks_Create_Inr)
  with assms(2) show ?thesis
    by (auto simp: tasks_forward_def tasks_ok_def task_exists_def exists_where_iff task_row_of_def intro: evolves_append)
qed

lemma forward_claim:
  assumes "Tasks_Claim i wk l at d = Inr d'"
  shows "tasks_forward d d'"
proof (rule forward_update)
  show "tasks d' = update_where (claimable i) (\<lambda>r. r\<lparr>tasks_state := TaskRunning, tasks_worker_id := Some wk,
      tasks_lease_id := nullString l, tasks_started_at := Some (requireMicros at)\<rparr>) (tasks d)"
    using assms by (simp add: Tasks_Claim_Inr)
qed (auto simp: claimable_def task_follows_def task_ok_def)

lemma forward_finish:
  assumes "Tasks_Finish i st code why at d = Inr d'"
  shows "tasks_forward d d'"
proof (rule forward_update)
  show "tasks d' = update_where (unfinished i) (\<lambda>r. r\<lparr>tasks_state := st, tasks_exit_code := Some code,
      tasks_failure := why, tasks_finished_at := Some (requireMicros at)\<rparr>) (tasks d)"
    using assms by (simp add: Tasks_Finish_Inr)
  have "Finished st" using assms by (simp add: Tasks_Finish_Inr)
  then show "task_ok (r\<lparr>tasks_state := st, tasks_exit_code := Some code, tasks_failure := why,
      tasks_finished_at := Some (requireMicros at)\<rparr>)" if "task_ok r" for r
    using that by (auto simp: task_ok_def Finished_def)
qed (auto simp: unfinished_def task_follows_def)

lemma forward_output:
  assumes "Tasks_AppendOutput i chunk d = Inr d'"
  shows "tasks_forward d d'"
proof (cases "chunk = []")
  case True
  with assms show ?thesis by (simp add: Tasks_AppendOutput_def forward_other)
next
  case False
  show ?thesis
  proof (rule forward_update)
    show "tasks d' = update_where (runs i)
        (\<lambda>r. r\<lparr>tasks_output := sql_last MaxTaskOutput (tasks_output r @ chunk)\<rparr>) (tasks d)"
      using assms False by (auto simp: Tasks_AppendOutput_def split: if_splits)
  qed (auto simp: runs_def task_follows_def task_ok_def sql_last_bound)
qed

lemma forward_requeue: "tasks_forward d (requeue reason i d)"
  by (rule forward_update [where P = "runs i"])
    (auto simp: requeue_def runs_def task_follows_def task_ok_def)

subsection \<open>Runs\<close>

text \<open>Every statement of the service that writes, from any agent and in any order, and the steps of
  every other part of the daemon. \<open>Complete\<close> and \<open>Cancel_task\<close> read without a transaction, so the
  statement that finishes a task is a step of its own, and so is each statement of a requeue.\<close>

definition same_tasks :: "db \<Rightarrow> db \<Rightarrow> bool" where
  "same_tasks d d' \<longleftrightarrow> tasks d' = tasks d"

inductive task_run :: "world \<Rightarrow> world \<Rightarrow> bool" for w0 where
  nothing: "task_run w0 w0"
| submits: "task_run w0 w \<Longrightarrow> Submit roots request w = (r, w') \<Longrightarrow> task_run w0 w'"
| claims: "task_run w0 w \<Longrightarrow> claim_round resource worker leaseID noWait w = (r, w') \<Longrightarrow> task_run w0 w'"
| outputs: "task_run w0 w \<Longrightarrow> AppendOutput taskID worker chunk w = (r, w') \<Longrightarrow> task_run w0 w'"
| finishes: "task_run w0 w \<Longrightarrow> exec (Tasks_Finish taskID state code failure at) w = (r, w') \<Longrightarrow> task_run w0 w'"
| requeues: "task_run w0 w \<Longrightarrow> w' = w\<lparr>w_db := requeue reason taskID (w_db w)\<rparr> \<Longrightarrow> task_run w0 w'"
| elsewhere: "task_run w0 w \<Longrightarrow> same_tasks (w_db w) (w_db w') \<Longrightarrow> task_run w0 w'"

lemma forward_Submit: "conforms (db_rel tasks_forward) (Submit roots request)"
  unfolding Submit_def Let_def
proof (intro forward.conf_intros forward.conf_exec)
  show "conforms (db_rel tasks_forward) (configured_command k)" for k
    by (rule forward.conf_same_db) (simp add: configured_command_def)
  show "conforms (db_rel tasks_forward) (signal_arrivals k)" for k
    by (rule forward.conf_same_db) (simp add: signal_arrivals_def)
  fix command workdir taskID at d d'
  assume "Tasks_Create \<lparr>task_ID = taskID, task_ResourceName = cmd_Resource command, task_CommandKey = cmd_Key command,
      task_Workdir = workdir, task_RequesterID = sub_RequesterID request, task_WorkerID = [], task_LeaseID = [],
      task_State = TaskQueued, task_ExitCode = 0, task_Output = [], task_Failure = [], task_SubmittedAt = at,
      task_StartedAt = zeroTime, task_FinishedAt = zeroTime\<rparr> d = Inr d'"
  then show "tasks_forward d d'"
    by (rule forward_create)
      (simp add: task_ok_def task_row_of_def nullString_def nullExitCode_def toMicros_def IsZero_def)
qed

lemma forward_claim_round: "conforms (db_rel tasks_forward) (claim_round resource worker leaseID noWait)"
proof -
  have cfg: "conforms (db_rel tasks_forward) (configured_command k)" for k
    by (rule forward.conf_same_db) (simp add: configured_command_def)
  have finish: "conforms (db_rel tasks_forward) (exec (Tasks_Finish i st code why at))" for i st code why at
    by (rule forward.conf_exec) (rule forward_finish)
  have claim: "conforms (db_rel tasks_forward) (exec (Tasks_Claim i wk l at))" for i wk l at
    by (rule forward.conf_exec) (rule forward_claim)
  have body: "conforms (db_rel tasks_forward) (claim_body resource worker leaseID)"
    unfolding claim_body_def
    by (intro forward.conf_intros cfg) (auto split: sum.split intro!: forward.conf_intros finish claim)
  have "conforms (db_rel tasks_forward) (tryClaim resource worker leaseID)"
    unfolding tryClaim_def
    by (intro forward.conf_intros body) (auto split: sum.split option.split intro!: forward.conf_intros)
  then show ?thesis
    unfolding claim_round_def by (intro forward.conf_intros) (auto intro!: forward.conf_intros)
qed

lemma forward_AppendOutput: "conforms (db_rel tasks_forward) (AppendOutput taskID worker chunk)"
proof -
  have out: "conforms (db_rel tasks_forward) (exec (Tasks_AppendOutput taskID chunk))"
    by (rule forward.conf_exec) (rule forward_output)
  have sig: "conforms (db_rel tasks_forward) (signal_outcomes taskID)"
    by (rule forward.conf_same_db) (simp add: signal_outcomes_def)
  show ?thesis
    unfolding AppendOutput_def
    by (intro forward.conf_intros) (auto intro!: forward.conf_intros out sig)
qed

lemma task_run_forward: "task_run w0 w \<Longrightarrow> tasks_forward (w_db w0) (w_db w)"
proof (induction rule: task_run.induct)
  case nothing
  show ?case by (rule forward.Q_refl)
next
  case (submits w roots request r w')
  then show ?case using conformsD [OF forward_Submit submits(2)] by (auto simp: db_rel_def intro: forward.Q_trans)
next
  case (claims w resource worker leaseID noWait r w')
  then show ?case using conformsD [OF forward_claim_round claims(2)] by (auto simp: db_rel_def intro: forward.Q_trans)
next
  case (outputs w taskID worker chunk r w')
  then show ?case using conformsD [OF forward_AppendOutput outputs(2)] by (auto simp: db_rel_def intro: forward.Q_trans)
next
  case (finishes w taskID state code failure at r w')
  have "conforms (db_rel tasks_forward) (exec (Tasks_Finish taskID state code failure at))"
    by (rule forward.conf_exec) (rule forward_finish)
  then show ?case using conformsD finishes by (fastforce simp: db_rel_def intro: forward.Q_trans)
next
  case (requeues w w' reason taskID)
  then show ?case using forward_requeue by (auto intro: forward.Q_trans)
next
  case (elsewhere w w')
  then show ?case using forward_other by (auto simp: same_tasks_def intro: forward.Q_trans)
qed

lemma task_run_trans: "task_run u v \<Longrightarrow> task_run w u \<Longrightarrow> task_run w v"
proof (induction rule: task_run.induct)
  case nothing
  then show ?case .
next
  case (submits v roots request r w')
  then show ?case by (blast intro: task_run.submits)
next
  case (claims v resource worker leaseID noWait r w')
  then show ?case by (blast intro: task_run.claims)
next
  case (outputs v taskID worker chunk r w')
  then show ?case by (blast intro: task_run.outputs)
next
  case (finishes v taskID state code failure at r w')
  then show ?case by (blast intro: task_run.finishes)
next
  case (requeues v w' reason taskID)
  then show ?case by (blast intro: task_run.requeues)
next
  case (elsewhere v w')
  then show ?case by (blast intro: task_run.elsewhere)
qed

subsection \<open>Claiming\<close>

lemma NextQueued_Inr:
  assumes "NextQueued resource d = Inr task"
  obtains row where "row \<in> set (tasks d)" "queued_for resource row" "task = scanTask row"
    "\<And>s. s \<in> set (tasks d) \<Longrightarrow> queued_for resource s \<Longrightarrow>
       (tasks_submitted_at row, tasks_id row) \<le> (tasks_submitted_at s, tasks_id s)"
proof -
  let ?k = "\<lambda>r. (tasks_submitted_at r, tasks_id r)" and ?q = "filter (queued_for resource) (tasks d)"
  obtain row rest where sorted: "sort_key ?k ?q = row # rest" and task: "task = scanTask row"
    using assms by (cases "sort_key ?k ?q") (auto simp: NextQueued_def first_where_def)
  have "row \<in> set ?q" using sorted by (rule sort_key_head_in)
  moreover have "?k row \<le> ?k s" if "s \<in> set (tasks d)" "queued_for resource s" for s
    using sort_key_head_le [OF sorted, of s] that by simp
  ultimately show thesis using that [of row] task by simp
qed

lemma NextQueued_Inl: "NextQueued resource d = Inl e \<longleftrightarrow>
    e = ErrNotFound \<and> \<not> exists_where (queued_for resource) (tasks d)"
proof (cases "sort_key (\<lambda>r. (tasks_submitted_at r, tasks_id r)) (filter (queued_for resource) (tasks d))")
  case Nil
  then have "filter (queued_for resource) (tasks d) = []" by (metis length_0_conv length_sort)
  with Nil show ?thesis by (auto simp: NextQueued_def first_where_def filter_empty_conv exists_where_iff)
next
  case (Cons row rest)
  then have "row \<in> set (filter (queued_for resource) (tasks d))" by (rule sort_key_head_in)
  with Cons show ?thesis by (auto simp: NextQueued_def first_where_def exists_where_iff)
qed

text \<open>A claim that succeeded: the oldest queued task, its configured command, and nothing else changed.\<close>

lemma scanTask_sel [simp]:
  "task_ID (scanTask r) = tasks_id r" "task_ResourceName (scanTask r) = tasks_resource_name r"
  "task_CommandKey (scanTask r) = tasks_command_key r" "task_RequesterID (scanTask r) = tasks_requester_id r"
  "task_State (scanTask r) = tasks_state r" "task_WorkerID (scanTask r) = fromNullString (tasks_worker_id r)"
  by (simp_all add: scanTask_def)

definition claimed_row :: "string \<Rightarrow> string \<Rightarrow> instant \<Rightarrow> tasks_row \<Rightarrow> tasks_row" where
  "claimed_row workerID leaseID at r = r\<lparr>tasks_state := TaskRunning, tasks_worker_id := Some workerID,
     tasks_lease_id := nullString leaseID, tasks_started_at := Some (requireMicros at)\<rparr>"

lemma tryClaim_Some:
  assumes "tryClaim resource wk l v = (Inr (Some claimed), w')"
  obtains row where "row \<in> set (tasks (w_db v))" "queued_for resource row"
    "\<And>s. s \<in> set (tasks (w_db v)) \<Longrightarrow> queued_for resource s \<Longrightarrow>
       (tasks_submitted_at row, tasks_id row) \<le> (tasks_submitted_at s, tasks_id s)"
    "catalogue_Command (w_commands v) (tasks_command_key row) = Inr (claimed_Command claimed)"
    "claimed_Task claimed = (scanTask row)\<lparr>task_State := TaskRunning, task_WorkerID := wk,
       task_LeaseID := l, task_StartedAt := time_of v\<rparr>"
    "tasks (w_db w') = update_where (claimable (tasks_id row)) (claimed_row wk l (time_of v)) (tasks (w_db v))"
proof -
  from assms have body: "claim_body resource wk l v = (Inr (Some claimed), w')"
  proof -
    obtain r u where b: "claim_body resource wk l v = (r, u)" by force
    show ?thesis
    proof (cases r)
      case (Inl e)
      with b assms show ?thesis by (simp add: tryClaim_def split: if_splits)
    next
      case (Inr out)
      with b assms show ?thesis by (simp add: tryClaim_def split: option.splits if_splits)
    qed
  qed
  then obtain task where nq: "NextQueued resource (w_db v) = Inr task"
    by (auto simp: claim_body_def bindE_Inr)
  then obtain row where row: "row \<in> set (tasks (w_db v))" "queued_for resource row" "task = scanTask row"
    and first: "\<And>s. s \<in> set (tasks (w_db v)) \<Longrightarrow> queued_for resource s \<Longrightarrow>
       (tasks_submitted_at row, tasks_id row) \<le> (tasks_submitted_at s, tasks_id s)"
    by (rule NextQueued_Inr) blast
  obtain command where command: "catalogue_Command (w_commands v) (tasks_command_key row) = Inr command"
    using body nq row(3)
    by (cases "catalogue_Command (w_commands v) (tasks_command_key row)")
      (auto simp: claim_body_def bindE_Inr attemptE_apply configured_command_def)
  then obtain d where "Tasks_Claim (tasks_id row) wk l (time_of v) (w_db v) = Inr d" "w_db w' = d"
    and "claimed = \<lparr>claimed_Task = (scanTask row)\<lparr>task_State := TaskRunning, task_WorkerID := wk,
       task_LeaseID := l, task_StartedAt := time_of v\<rparr>, claimed_Command = command\<rparr>"
    using body nq row(3)
    by (auto simp: claim_body_def bindE_Inr attemptE_apply configured_command_def exec_Inr)
  with row first command show thesis
    by (intro that [of row]) (auto simp: Tasks_Claim_Inr claimed_row_def [abs_def])
qed

lemma claim_round_Some: "claim_round resource wk l nw v = (Inr (Some claimed), w') \<Longrightarrow>
    tryClaim resource wk l v = (Inr (Some claimed), w')"
  by (auto simp: claim_round_def bindE_Inr split: if_splits)

lemma verifyLease_Inr: "verifyLease resource wk l w = (Inr u, w') \<longleftrightarrow>
    (\<exists>lease. LeaseByID l (w_db w) = Inr lease \<and> lease_AgentID lease = wk \<and> lease_ResourceName lease = resource \<and>
       Lease_Active lease (time_of w)) \<and> w' = w\<lparr>w_ticks := Suc (w_ticks w)\<rparr>"
  by (auto simp: verifyLease_def bindE_Inr split: if_splits)

end
