(* ===== verification/DispatchProperties.thy ===== *)
theory DispatchProperties
  imports Scenario DispatchFacts
begin

section \<open>Properties of the dispatch service\<close>

subsection \<open>A machine with one command, and a task for it\<close>

definition test_command :: CommandConfig where
  "test_command = \<lparr>cc_Resource = ''gpu'', cc_Run = [''make'', ''test''], cc_Description = [], cc_TimeLimit = 0\<rparr>"

definition serving_world :: world where
  "serving_world = granted_world\<lparr>w_commands := [(''test'', test_command)]\<rparr>"

definition a_task :: SubmitRequest where
  "a_task = \<lparr>sub_RequesterID = ''agent_b'', sub_CommandKey = ''test'', sub_Workdir = []\<rparr>"

definition submitted_world :: world where
  "submitted_world = snd (Submit [''/w''] a_task serving_world)"

definition the_lease :: string where
  "the_lease = leases_id (hd (leases (w_db granted_world)))"

definition the_task :: string where
  "the_task = ''task_00000000081040g2081040g208''"

definition patient :: "interlude list" where
  "patient = [(\<lambda>w. snd (Submit [''/w''] a_task w), Recheck)]"

definition claimed_world :: world where
  "claimed_world = snd (Claim [] ''gpu'' ''agent_a'' the_lease True submitted_world)"

text \<open>The states above, evaluated.\<close>

lemma task_submitted: "fst (Submit [''/w''] a_task serving_world) = Inr \<lparr>
    task_ID = ''task_00000000081040g2081040g208'', task_ResourceName = ''gpu'', task_CommandKey = ''test'',
    task_Workdir = ''/w'', task_RequesterID = ''agent_b'', task_WorkerID = [], task_LeaseID = [],
    task_State = TaskQueued, task_ExitCode = 0, task_Output = [], task_Failure = [],
    task_SubmittedAt = 5 * Second, task_StartedAt = zeroTime, task_FinishedAt = zeroTime\<rparr>"
  by code_simp

lemma task_claimed: "case Claim patient ''gpu'' ''agent_a'' the_lease False serving_world of
    (Some (Inr _), w) \<Rightarrow> map (\<lambda>r. (tasks_state r, tasks_worker_id r)) (tasks (w_db w)) = [(TaskRunning, Some ''agent_a'')]
  | _ \<Rightarrow> False"
  by code_simp

lemma task_running: "map (\<lambda>r. (tasks_id r, tasks_state r, tasks_worker_id r, tasks_output r,
      tasks_started_at r = None, tasks_exit_code r, tasks_finished_at r)) (tasks (w_db claimed_world)) =
    [(the_task, TaskRunning, Some ''agent_a'', [], False, None, None)]"
  by code_simp

lemma claimed_row: "\<exists>row. tasks (w_db claimed_world) = [row] \<and> tasks_id row = the_task \<and> tasks_state row = TaskRunning \<and>
    tasks_worker_id row = Some ''agent_a'' \<and> tasks_output row = [] \<and> tasks_started_at row \<noteq> None \<and>
    tasks_exit_code row = None \<and> tasks_finished_at row = None"
  using task_running by auto


text \<open>C14: A claim is granted only to a worker whose lease was its own, for that resource and held when
  it asked. It gets the oldest queued task with what the operator's configuration says its key runs,
  and exactly that task becomes running, for that worker. Meanwhile tasks only moved as the service
  lets them.\<close>

theorem claim_outcome:
  assumes "Claim ps resource wk l noWait w = (Some (Inr claimed), w')"
    and "\<forall>(others, why) \<in> set ps. \<forall>x. task_run x (others x)"
  shows "(\<exists>lease. LeaseByID l (w_db w) = Inr lease \<and> lease_AgentID lease = wk \<and>
       lease_ResourceName lease = resource \<and> Lease_Active lease (time_of w)) \<and>
    (\<exists>v row. task_run w v \<and> row \<in> set (tasks (w_db v)) \<and> queued_for resource row \<and>
       (\<forall>s \<in> set (tasks (w_db v)). queued_for resource s \<longrightarrow>
          (tasks_submitted_at row, tasks_id row) \<le> (tasks_submitted_at s, tasks_id s)) \<and>
       catalogue_Command (w_commands v) (tasks_command_key row) = Inr (claimed_Command claimed) \<and>
       claimed_Task claimed = (scanTask row)\<lparr>task_State := TaskRunning, task_WorkerID := wk,
          task_LeaseID := l, task_StartedAt := time_of v\<rparr> \<and>
       tasks (w_db w') = update_where (claimable (tasks_id row)) (claimed_row wk l (time_of v)) (tasks (w_db v)))"
proof -
  obtain w1 where verified: "verifyLease resource wk l w = (Inr (), w1)"
    and wait: "wait_loop ps (watch_arrivals resource) (claim_round resource wk l noWait)
      (\<lambda>w. ch_closed (w_arrivals w)) w1 = (Some (Inr claimed), w')"
    using assms(1) by (auto simp: Claim_def split: if_splits prod.splits sum.splits)
  have w1: "task_run w w1"
    using verified task_run.elsewhere [OF task_run.nothing, of w w1] by (auto simp: verifyLease_Inr same_tasks_def)
  have arm: "task_run w v" if "task_run w x" "watch_arrivals resource x = (y, v)" for x y v
    using that task_run.elsewhere [of w x v] by (auto simp: watch_arrivals_def same_tasks_def split: prod.splits)
  have look: "task_run w v" if "task_run w x" "claim_round resource wk l noWait x = (Inr None, v)" for x v
    using that by (rule task_run.claims)
  have others: "\<forall>f why x. (f, why) \<in> set ps \<longrightarrow> task_run w x \<longrightarrow> task_run w (f x)"
    using assms(2) task_run_trans by fast
  have "\<exists>v. task_run w v \<and> claim_round resource wk l noWait v = (Inr (Some claimed), w')"
    by (rule wait_found [OF wait, where I = "task_run w", OF w1]) (use arm look others in blast)+
  then obtain v where v: "task_run w v" "claim_round resource wk l noWait v = (Inr (Some claimed), w')" by blast
  have "\<exists>v row. task_run w v \<and> row \<in> set (tasks (w_db v)) \<and> queued_for resource row \<and>
       (\<forall>s \<in> set (tasks (w_db v)). queued_for resource s \<longrightarrow>
          (tasks_submitted_at row, tasks_id row) \<le> (tasks_submitted_at s, tasks_id s)) \<and>
       catalogue_Command (w_commands v) (tasks_command_key row) = Inr (claimed_Command claimed) \<and>
       claimed_Task claimed = (scanTask row)\<lparr>task_State := TaskRunning, task_WorkerID := wk,
          task_LeaseID := l, task_StartedAt := time_of v\<rparr> \<and>
       tasks (w_db w') = update_where (claimable (tasks_id row)) (claimed_row wk l (time_of v)) (tasks (w_db v))"
    using claim_round_Some [OF v(2)]
    by (rule tryClaim_Some) (intro exI [of _ v], rule_tac x = row in exI, simp add: v(1))
  moreover from verified have "\<exists>lease. LeaseByID l (w_db w) = Inr lease \<and> lease_AgentID lease = wk \<and>
       lease_ResourceName lease = resource \<and> Lease_Active lease (time_of w)"
    unfolding verifyLease_Inr by (rule conjunct1)
  ultimately show ?thesis by (rule_tac conjI)
qed

theorem claim_outcome_witness:
  "\<exists>claimed w'. Claim patient ''gpu'' ''agent_a'' the_lease False serving_world = (Some (Inr claimed), w') \<and>
     (\<exists>v row. task_run serving_world v \<and> row \<in> set (tasks (w_db v)) \<and>
        tasks (w_db w') = update_where (claimable (tasks_id row)) (claimed_row ''agent_a'' the_lease (time_of v)) (tasks (w_db v)))"
proof -
  obtain claimed w' where run: "Claim patient ''gpu'' ''agent_a'' the_lease False serving_world = (Some (Inr claimed), w')"
    using task_claimed by (auto split: prod.splits option.splits sum.splits)
  have "\<forall>(others, why) \<in> set patient. \<forall>x. task_run x (others x)"
    by (auto simp: patient_def intro!: task_run.submits [OF task_run.nothing] prod.collapse [symmetric])
  from claim_outcome [OF run this] run show ?thesis by blast
qed

subsection \<open>The life of a task\<close>

text \<open>C15: Along any run tasks only move forward. No task disappears; what it is (its resource, command,
  working directory, requester and submission time) never changes; once it has finished nothing about
  it changes any more; and in every state identifiers are unique, a queued task belongs to nobody, a
  running one to a worker, a finished one has its exit status and end, and no output exceeds its
  bound.\<close>

theorem task_lifecycle:
  assumes "task_run w0 w" and "tasks_ok (w_db w0)"
  shows "tasks_ok (w_db w) \<and> evolves task_follows (tasks (w_db w0)) (tasks (w_db w))"
  using task_run_forward [OF assms(1)] assms(2) by (simp add: tasks_forward_def)

lemma serving_ok: "tasks_ok (w_db serving_world)"
proof -
  have "tasks (w_db granted_world) = []" by code_simp
  then show ?thesis by (simp add: serving_world_def tasks_ok_def)
qed

lemma submitted_run: "Submit [''/w''] a_task serving_world = (fst (Submit [''/w''] a_task serving_world), submitted_world)"
  by (simp add: submitted_world_def)

theorem task_lifecycle_witness: "tasks_ok (w_db submitted_world)"
  using task_lifecycle [OF task_run.submits [OF task_run.nothing submitted_run] serving_ok] by blast

definition new_task :: "SubmitRequest \<Rightarrow> Command \<Rightarrow> string \<Rightarrow> string \<Rightarrow> instant \<Rightarrow> Task" where
  "new_task request command workdir taskID at = \<lparr>task_ID = taskID, task_ResourceName = cmd_Resource command,
     task_CommandKey = cmd_Key command, task_Workdir = workdir, task_RequesterID = sub_RequesterID request,
     task_WorkerID = [], task_LeaseID = [], task_State = TaskQueued, task_ExitCode = 0, task_Output = [],
     task_Failure = [], task_SubmittedAt = at, task_StartedAt = zeroTime, task_FinishedAt = zeroTime\<rparr>"

lemma Submit_eq:
  obtains i v where "w_db v = w_db w" "w_arrivals v = w_arrivals w"
    "Submit roots request w = (case catalogue_Command (w_commands w) (sub_CommandKey request) of
       Inl e \<Rightarrow> (Inl e, w)
     | Inr command \<Rightarrow> (case task_workdir roots request (w_db w) of
         Inl e \<Rightarrow> (Inl e, w)
       | Inr workdir \<Rightarrow> (case Tasks_Create (new_task request command workdir i (time_of w)) (w_db w) of
           Inl e \<Rightarrow> (Inl e, v)
         | Inr d \<Rightarrow> (Inr (new_task request command workdir i (time_of w)),
             v\<lparr>w_db := d, w_arrivals := signals_signal (cmd_Resource command) (w_arrivals w)\<rparr>))))"
proof (cases "w_entropy w (w_drawn w)")
  case (Pair ms rnd)
  let ?v = "w\<lparr>w_drawn := Suc (w_drawn w), w_ticks := Suc (w_ticks w)\<rparr>"
  have id: "newID ''task'' w = (Inr (New ''task'' ms rnd), w\<lparr>w_drawn := Suc (w_drawn w)\<rparr>)"
    by (simp add: newID_def Pair)
  show thesis
    by (rule that [of ?v "New ''task'' ms rnd"])
      (simp_all add: Submit_def configured_command_def id new_task_def exec_def
        signal_arrivals_def time_of_def bindE_def Let_def split: sum.split)
qed

text \<open>A submitted task runs what the operator configured under its key, on the configured resource,
  in an absolute directory inside a configured root; it joins the table as one queued row, and every
  worker parked for that resource is woken. A refused one leaves the database as it was.\<close>

theorem submit_outcome:
  assumes "Submit roots request w = (r, w')"
  shows "case r of
      Inr task \<Rightarrow> (\<exists>declared. map_of (w_commands w) (sub_CommandKey request) = Some declared \<and>
          task_ResourceName task = cc_Resource declared) \<and>
        task_CommandKey task = sub_CommandKey request \<and> task_RequesterID task = sub_RequesterID request \<and>
        task_State task = TaskQueued \<and>
        (\<exists>dir. IsAbs dir \<and> task_Workdir task = Clean dir \<and>
          (roots = [] \<or> (\<exists>root \<in> set roots. within (task_Workdir task) (Clean root)))) \<and>
        w_db w' = (w_db w)\<lparr>tasks := tasks (w_db w) @ [task_row_of task]\<rparr> \<and>
        (\<forall>n. map_of (ch_open (w_arrivals w)) (task_ResourceName task) = Some n \<longrightarrow>
          n \<in> set (ch_closed (w_arrivals w')))
    | Inl e \<Rightarrow> w_db w' = w_db w"
proof (cases r)
  case (Inl e)
  with assms show ?thesis by (rule_tac Submit_eq [of w roots request]) (auto split: sum.splits)
next
  case (Inr task)
  have confined: "\<exists>dir. IsAbs dir \<and> cleaned = Clean dir \<and> (roots = [] \<or> (\<exists>root \<in> set roots. within cleaned (Clean root)))"
    if "task_workdir roots request d = Inr cleaned" for cleaned d
  proof -
    have "\<exists>dir. task_workdir_in roots dir = Inr cleaned"
      using that by (auto simp: task_workdir_def split: if_splits sum.splits)
    then show ?thesis by (auto simp: task_workdir_in_def Let_def list_ex_iff split: if_splits)
  qed
  obtain i v where v: "w_db v = w_db w" "w_arrivals v = w_arrivals w"
    and eq: "Submit roots request w = (case catalogue_Command (w_commands w) (sub_CommandKey request) of
       Inl e \<Rightarrow> (Inl e, w)
     | Inr command \<Rightarrow> (case task_workdir roots request (w_db w) of
         Inl e \<Rightarrow> (Inl e, w)
       | Inr workdir \<Rightarrow> (case Tasks_Create (new_task request command workdir i (time_of w)) (w_db w) of
           Inl e \<Rightarrow> (Inl e, v)
         | Inr d \<Rightarrow> (Inr (new_task request command workdir i (time_of w)),
             v\<lparr>w_db := d, w_arrivals := signals_signal (cmd_Resource command) (w_arrivals w)\<rparr>))))"
    by (rule Submit_eq)
  obtain command workdir where
    c: "catalogue_Command (w_commands w) (sub_CommandKey request) = Inr command"
    and d: "task_workdir roots request (w_db w) = Inr workdir"
    and t: "task = new_task request command workdir i (time_of w)"
    and x: "Tasks_Create task (w_db w) = Inr (w_db w')"
    and s: "w_arrivals w' = signals_signal (cmd_Resource command) (w_arrivals w)"
    using assms Inr eq by (auto split: sum.splits)
  from c obtain declared where declared: "map_of (w_commands w) (sub_CommandKey request) = Some declared"
    "command = commandOf (sub_CommandKey request) declared" by (auto simp: catalogue_Command_Inr)
  have "n \<in> set (ch_closed (w_arrivals w'))" if "map_of (ch_open (w_arrivals w)) (cmd_Resource command) = Some n" for n
    using that s by (simp add: signals_signal_def)
  moreover have "w_db w' = (w_db w)\<lparr>tasks := tasks (w_db w) @ [task_row_of task]\<rparr>"
    using x by (simp add: Tasks_Create_Inr)
  ultimately show ?thesis using Inr declared confined [OF d] by (simp add: t new_task_def commandOf_def)
qed

subsection \<open>Finishing\<close>














end
