(* ===== verification/DirectMail.thy ===== *)
theory DirectMail
  imports MessagingFacts Registry
begin

section \<open>A message to one agent arrives\<close>

text \<open>Shared by the services that tell agents something in their own name: when the identifiers to
  come are fresh and the agent is active, the message is in its mailbox afterwards, and the
  conditions hold for the next one.\<close>

text \<open>What the next \<open>n\<close> identifiers promise: none is taken and no two are equal.\<close>

definition fresh_ids :: "nat \<Rightarrow> world \<Rightarrow> bool" where
  "fresh_ids n w \<longleftrightarrow> (\<forall>k \<in> {w_drawn w..<w_drawn w + n}. \<not> message_exists (w_db w) (msg_id_at w k)) \<and>
     inj_on (msg_id_at w) {w_drawn w..<w_drawn w + n}"

lemma fresh_ids_next:
  assumes "fresh_ids (Suc n) w" and "msg_id_at w' = msg_id_at w" and "w_drawn w' = Suc (w_drawn w)"
    and "\<And>i. message_exists (w_db w') i \<Longrightarrow> message_exists (w_db w) i \<or> i = msg_id_at w (w_drawn w)"
  shows "fresh_ids n w'"
proof -
  have new: "\<not> message_exists (w_db w) (msg_id_at w k)" if "k \<in> {w_drawn w..<w_drawn w + Suc n}" for k
    using assms(1) that unfolding fresh_ids_def by blast
  have inj: "inj_on (msg_id_at w) {w_drawn w..<w_drawn w + Suc n}" using assms(1) by (simp add: fresh_ids_def)
  have "\<not> message_exists (w_db w') (msg_id_at w k)" if k: "k \<in> {Suc (w_drawn w)..<Suc (w_drawn w) + n}" for k
  proof
    assume "message_exists (w_db w') (msg_id_at w k)"
    with assms(4) new [of k] k have "msg_id_at w k = msg_id_at w (w_drawn w)" by fastforce
    with inj_onD [OF inj, of k "w_drawn w"] k show False by simp
  qed
  moreover have "inj_on (msg_id_at w) {Suc (w_drawn w)..<Suc (w_drawn w) + n}"
    using inj by (rule inj_on_subset) auto
  ultimately show ?thesis by (simp add: fresh_ids_def assms(2,3))
qed

definition named_roster :: "db \<Rightarrow> bool" where
  "named_roster d \<longleftrightarrow> roster_ok d \<and> (\<forall>r \<in> set (agents d). agents_name r \<noteq> [] \<and> agents_id r \<noteq> [])"

lemma FindForDelivery_active:
  assumes "roster_ok d" and "r \<in> set (agents d)" and "agents_state r = AgentActive"
  shows "FindForDelivery (agents_name r) d = Inr (scanAgent r)"
proof -
  let ?k = "\<lambda>r. (if agents_state r = AgentActive then 0 else 1 :: int, - agents_registered_at r)"
  let ?rows = "filter (\<lambda>s. agents_name s = agents_name r \<and> agents_state s \<noteq> AgentDeregistered) (agents d)"
  have r: "r \<in> set ?rows" using assms by simp
  then have "r \<in> set (sort_key ?k ?rows)" by simp
  then obtain s rest where sorted: "sort_key ?k ?rows = s # rest" by (cases "sort_key ?k ?rows") simp_all
  have s: "s \<in> set ?rows" using sorted by (rule sort_key_head_in)
  have "?k s \<le> ?k r" using sorted r by (rule sort_key_head_le)
  then have "agents_state s = AgentActive" using assms(3) by (auto split: if_splits)
  with s assms distinct_key_eq [of agents_name "filter (\<lambda>r. agents_state r = AgentActive) (agents d)" s r]
  have "s = r" by (simp add: roster_ok_def)
  then show ?thesis by (simp add: FindForDelivery_def first_where_def sorted)
qed

lemma direct_message:
  assumes roster: "named_roster (w_db w)" and mail: "mail_ok (w_db w)" and ids: "fresh_ids (Suc n) w"
    and sender: "fromID \<noteq> []" and kind: "nameSyntax kind" and body: "json_Valid body"
    and r: "r \<in> set (agents (w_db w))" "agents_state r = AgentActive"
  shows "\<exists>sent w'. Send mopts \<lparr>snd_FromAgentID = fromID, snd_ToAgentName = agents_name r, snd_Topic = [],
      snd_Kind = kind, snd_Body = body\<rparr> w = (Inr sent, w') \<and> agents (w_db w') = agents (w_db w) \<and>
    mail_ok (w_db w') \<and> fresh_ids n w' \<and> (\<forall>a. mailbox (w_db w) a \<subseteq> mailbox (w_db w') a) \<and>
    (\<exists>m \<in> mailbox (w_db w') (agents_id r). messages_from_agent_id m = fromID \<and>
       messages_kind m = kind \<and> messages_body m = body)"
proof -
  let ?req = "\<lparr>snd_FromAgentID = fromID, snd_ToAgentName = agents_name r, snd_Topic = [],
    snd_Kind = kind, snd_Body = body\<rparr>"
  have row: "agents_name r \<noteq> []" "agents_id r \<noteq> []" using roster r by (auto simp: named_roster_def)
  have res: "resolveRecipients ?req (snd_FromAgentID ?req) (w_db w) = Inr [agents_id r]"
    using roster r row by (simp add: resolveRecipients_def FindForDelivery_active named_roster_def)
  have wf: "well_formed_request ?req"
    using kind body by (simp add: well_formed_request_def json_Valid_nonempty)
  have fresh: "\<not> message_exists (w_db w) (msg_id_at w (w_drawn w))" using ids by (simp add: fresh_ids_def)
  obtain sent w' where sent: "Send mopts ?req w = (Inr sent, w')" "sent_RecipientIDs sent = [agents_id r]"
    "messages_id (message_row_of (sent_Message sent)) = msg_id_at w (w_drawn w)"
    "messages (w_db w') = messages (w_db w) @ [message_row_of (sent_Message sent)]"
    "agents (w_db w') = agents (w_db w)" "w_entropy w' = w_entropy w" "w_drawn w' = Suc (w_drawn w)"
    using Send_direct_succeeds [OF mail wf _ _ _ res row(2) fresh, of mopts] sender row by auto
  have at: "msg_id_at w' = msg_id_at w" using sent(6) by (simp add: fun_eq_iff msg_id_at_def)
  have "fresh_ids n w'"
    using sent(3,4) by (intro fresh_ids_next [OF ids at sent(7)]) (auto simp: message_exists_def exists_where_iff)
  moreover let ?m = "message_row_of (sent_Message sent)"
  have "messages_from_agent_id ?m = fromID \<and> messages_kind ?m = kind \<and> messages_body ?m = body"
    using sent(1) by (rule Send_Inr) (auto simp: message_row_of_def Let_def draft_of_def)
  moreover have "?m \<in> mailbox (w_db w') (agents_id r)" "\<forall>a. mailbox (w_db w) a \<subseteq> mailbox (w_db w') a"
    using sent(2) Send_mailbox [OF mail sent(1)] by auto
  ultimately show ?thesis
    using sent(1,5) Send_mail_ok [OF mail sent(1)] by blast
qed

end
