(* ===== verification/MailScenario.thy ===== *)
theory MailScenario
  imports Scenario DirectMail
begin

section \<open>Concrete states in which mail can be sent\<close>

text \<open>The sample state has named agents, an empty mailbox table and fresh identifiers.\<close>

definition sample_mail :: messaging_options where
  "sample_mail = \<lparr>mo_DefaultTimeToLive = 0, mo_Retention = Minute, mo_Notifier = True\<rparr>"

lemma sample_named: "named_roster (w_db sample_world)"
  by (simp add: named_roster_def roster_ok_def sample_world_def empty_db_def start_world_def an_agent_def)

lemma sample_mail_ok': "mail_ok (w_db sample_world)"
  by (simp add: mail_ok_def sample_world_def empty_db_def start_world_def)

lemma sample_ids: "msg_id_at sample_world 0 \<noteq> msg_id_at sample_world 1"
  by code_simp

lemma sample_fresh: "fresh_ids 2 sample_world"
proof -
  have "{w_drawn sample_world..<w_drawn sample_world + 2} = {0, 1}"
    by (auto simp: sample_world_def start_world_def)
  moreover have "\<not> message_exists (w_db sample_world) i" for i
    by (simp add: sample_world_def empty_db_def message_exists_def exists_where_def)
  ultimately show ?thesis using sample_ids by (simp add: fresh_ids_def)
qed

end
