(* ===== verification/StoreReports.thy ===== *)
theory StoreReports
  imports StoreMessages
begin

section \<open>Report requests and answers in SQLite (\<open>reports.go\<close>)\<close>

text \<open>The column of the asked agents holds the list whose JSON text the source stores.\<close>

definition request_row_of :: "ReportRequest \<Rightarrow> report_requests_row" where
  "request_row_of q = \<lparr>report_requests_id = rq_ID q, report_requests_requester_id = rq_RequesterID q,
     report_requests_question = rq_Question q, report_requests_asked_agent_ids = rq_AskedAgentIDs q,
     report_requests_created_at = requireMicros (rq_CreatedAt q),
     report_requests_deadline = requireMicros (rq_Deadline q)\<rparr>"

definition request_exists :: "db \<Rightarrow> string \<Rightarrow> bool" where
  "request_exists d i = exists_where (\<lambda>r. report_requests_id r = i) (report_requests d)"

definition CreateRequest :: "ReportRequest \<Rightarrow> db \<Rightarrow> db res" where
  "CreateRequest q d =
     (if rq_ID q = [] \<or> rq_RequesterID q = [] then Inl ErrInvalidArgument
      else translated (constrained True (\<not> request_exists d (rq_ID q)) True
        (d\<lparr>report_requests := report_requests d @ [request_row_of q]\<rparr>)))"

definition scanRequest :: "report_requests_row \<Rightarrow> ReportRequest" where
  "scanRequest r = \<lparr>rq_ID = report_requests_id r, rq_RequesterID = report_requests_requester_id r,
     rq_Question = report_requests_question r, rq_AskedAgentIDs = report_requests_asked_agent_ids r,
     rq_CreatedAt = fromRequiredMicros (report_requests_created_at r),
     rq_Deadline = fromRequiredMicros (report_requests_deadline r)\<rparr>"

definition RequestByID :: "string \<Rightarrow> db \<Rightarrow> ReportRequest res" where
  "RequestByID requestID d =
     fetch scanRequest (first_where (\<lambda>r. report_requests_id r = requestID) (report_requests d))"

definition report_row_of :: "Report \<Rightarrow> reports_row" where
  "report_row_of p = \<lparr>reports_request_id = rep_RequestID p, reports_agent_id = rep_AgentID p,
     reports_body = rep_Body p, reports_created_at = requireMicros (rep_CreatedAt p)\<rparr>"

definition report_of :: "string \<Rightarrow> string \<Rightarrow> reports_row \<Rightarrow> bool" where
  "report_of requestID agentID r \<longleftrightarrow> reports_request_id r = requestID \<and> reports_agent_id r = agentID"

text \<open>The upsert replaces an earlier answer of the same agent.\<close>

definition AddReport :: "Report \<Rightarrow> db \<Rightarrow> db res" where
  "AddReport p d = translated (constrained True True (request_exists d (rep_RequestID p))
     (if exists_where (report_of (rep_RequestID p) (rep_AgentID p)) (reports d)
      then d\<lparr>reports := update_where (report_of (rep_RequestID p) (rep_AgentID p))
               (\<lambda>r. r\<lparr>reports_body := rep_Body p, reports_created_at := requireMicros (rep_CreatedAt p)\<rparr>) (reports d)\<rparr>
      else d\<lparr>reports := reports d @ [report_row_of p]\<rparr>))"

definition scanReport :: "reports_row \<Rightarrow> Report" where
  "scanReport r = \<lparr>rep_RequestID = reports_request_id r, rep_AgentID = reports_agent_id r,
     rep_Body = reports_body r, rep_CreatedAt = fromRequiredMicros (reports_created_at r)\<rparr>"

definition ReportsFor :: "string \<Rightarrow> db \<Rightarrow> Report list res" where
  "ReportsFor requestID d = Inr (map scanReport
     (sort_key (\<lambda>r. (reports_created_at r, reports_agent_id r))
        (filter (\<lambda>r. reports_request_id r = requestID) (reports d))))"

end
