(* ===== verification/Reporting.thy ===== *)
theory Reporting
  imports StoreReports Messaging Registry WaitLoop
begin

section \<open>Asking every agent what it is doing (\<open>internal/service/reporting\<close>)\<close>

text \<open>
  A request is stored with the agents it asks, and goes out to each as an ordinary message.
  Collection waits until everybody answered or the deadline passes; whoever did not answer is
  silent. \<open>w_replies\<close> are the wake-up channels of the collectors.
\<close>

definition MessageKind :: string where
  "MessageKind = ''report-request''"

definition DefaultDeadline :: duration where
  "DefaultDeadline = 30 * Second"

subsection \<open>Arrivals\<close>

definition arrivals_watch :: "string \<Rightarrow> channels \<Rightarrow> nat \<times> channels" where
  "arrivals_watch requestID c = (case map_of (ch_open c) requestID of
      Some channel \<Rightarrow> (channel, c)
    | None \<Rightarrow> (ch_next c, c\<lparr>ch_open := (requestID, ch_next c) # ch_open c, ch_next := Suc (ch_next c)\<rparr>))"

definition arrivals_signal :: "string \<Rightarrow> channels \<Rightarrow> channels" where
  "arrivals_signal requestID c = (case map_of (ch_open c) requestID of
      Some channel \<Rightarrow> c\<lparr>ch_closed := channel # ch_closed c,
                         ch_open := filter (\<lambda>p. fst p \<noteq> requestID) (ch_open c)\<rparr>
    | None \<Rightarrow> c)"

interpretation arrivals: wakeups arrivals_watch arrivals_signal "\<lambda>c. map_of (ch_open c)"
    "\<lambda>c n. n \<in> set (ch_closed c)" channels_ok
proof -
  have "arrivals_watch = watch" "arrivals_signal = signal"
    by (simp_all add: fun_eq_iff arrivals_watch_def watch_def arrivals_signal_def signal_def)
  then show "wakeups arrivals_watch arrivals_signal (\<lambda>c. map_of (ch_open c)) (\<lambda>c n. n \<in> set (ch_closed c)) channels_ok"
    by (simp add: waiters.wakeups_axioms)
qed

definition watch_replies :: "string \<Rightarrow> nat action" where
  "watch_replies key = (\<lambda>w. case arrivals_watch key (w_replies w) of (n, c) \<Rightarrow> (Inr n, w\<lparr>w_replies := c\<rparr>))"

definition signal_replies :: "string \<Rightarrow> unit action" where
  "signal_replies key = (\<lambda>w. (Inr (), w\<lparr>w_replies := arrivals_signal key (w_replies w)\<rparr>))"

subsection \<open>Asking\<close>

definition reporting_audit :: "string \<Rightarrow> string \<Rightarrow> string \<Rightarrow> unit action" where
  "reporting_audit actor target detail =
     bindE now (\<lambda>at.
     bindE (attemptE (exec (Audit_Append (entry_of actor AuditReportRequested target detail at)))) (\<lambda>_. returnE ()))"

definition question_body :: "ReportRequest \<Rightarrow> string" where
  "question_body request = json_object
     [(''request_id'', rq_ID request), (''question'', rq_Question request),
      (''deadline'', FormatRFC3339 (rq_Deadline request)), (''reply_with'', ''report.submit'')]"

text \<open>An agent that cannot be addressed, or reached, is skipped with a warning.\<close>

definition ask :: "messaging_options \<Rightarrow> ReportRequest \<Rightarrow> string \<Rightarrow> unit action" where
  "ask mopts request agentID =
     bindE (attemptE (ByID agentID)) (\<lambda>r. case r of
       Inl _ \<Rightarrow> returnE ()
     | Inr agent \<Rightarrow>
         bindE (attemptE (Send mopts \<lparr>snd_FromAgentID = rq_RequesterID request,
           snd_ToAgentName = agent_Name agent, snd_Topic = [], snd_Kind = MessageKind,
           snd_Body = question_body request\<rparr>)) (\<lambda>_. returnE ()))"

definition deliver :: "messaging_options \<Rightarrow> ReportRequest \<Rightarrow> unit action" where
  "deliver mopts request = forE (rq_AskedAgentIDs request) (ask mopts request)"

text \<open>What \<open>Request\<close> does once the request is put together.\<close>

definition publish :: "messaging_options \<Rightarrow> ReportRequest \<Rightarrow> ReportRequest action" where
  "publish mopts request =
     bindE (exec (CreateRequest request)) (\<lambda>_.
     bindE (reporting_audit (rq_RequesterID request) (rq_ID request)
              (''asked '' @ itoa (int (length (rq_AskedAgentIDs request))) @ '' agent(s): '' @ rq_Question request)) (\<lambda>_.
     if length (rq_AskedAgentIDs request) = 0 then returnE request
     else bindE (deliver mopts request) (\<lambda>_. returnE request)))"

definition Request :: "registry_options \<Rightarrow> messaging_options \<Rightarrow> string \<Rightarrow> string \<Rightarrow> duration \<Rightarrow>
    ReportRequest action" where
  "Request ropts mopts requesterID question deadline0 =
     (if question = [] then throwE ErrInvalidArgument
      else
      let deadline = (if deadline0 \<le> 0 then DefaultDeadline else deadline0) in
      bindE (Active ropts) (\<lambda>present.
      let asked = map agent_ID (filter (\<lambda>a. agent_ID a \<noteq> requesterID \<and> \<not> agent_Internal a) present) in
      bindE now (\<lambda>at.
      bindE (newID ''report'') (\<lambda>requestID.
      publish mopts \<lparr>rq_ID = requestID, rq_RequesterID = requesterID, rq_Question = question,
            rq_AskedAgentIDs = asked, rq_CreatedAt = at, rq_Deadline = at + deadline\<rparr>))))"

subsection \<open>Answering and collecting\<close>

definition Submit_report :: "string \<Rightarrow> string \<Rightarrow> string \<Rightarrow> unit action" where
  "Submit_report requestID agentID body =
     (if body = [] then throwE ErrInvalidArgument
      else
      bindE (query (RequestByID requestID)) (\<lambda>request.
      bindE now (\<lambda>at.
      bindE (exec (AddReport \<lparr>rep_RequestID = rq_ID request, rep_AgentID = agentID, rep_Body = body,
               rep_CreatedAt = at\<rparr>)) (\<lambda>_.
      signal_replies requestID))))"

definition snapshot :: "ReportRequest \<Rightarrow> db \<Rightarrow> (ReportCollection \<times> bool) res" where
  "snapshot request d = (case ReportsFor (rq_ID request) d of
      Inl e \<Rightarrow> Inl e
    | Inr found \<Rightarrow>
        (let answered = map rep_AgentID found;
             silent = filter (\<lambda>agentID. \<not> List.member answered agentID) (rq_AskedAgentIDs request)
         in Inr (\<lparr>rc_Request = request, rc_Reports = found, rc_SilentAgentIDs = silent\<rparr>, length silent = 0)))"

definition Snapshot :: "string \<Rightarrow> ReportCollection action" where
  "Snapshot requestID =
     bindE (query (RequestByID requestID)) (\<lambda>request.
     bindE (query (snapshot request)) (\<lambda>(collection, _). returnE collection))"

text \<open>One round: the channel, what there is, and whether to stop (everybody answered, or the
  deadline passed).\<close>

definition collect_round :: "ReportRequest \<Rightarrow> (nat \<times> ReportCollection \<times> bool) action" where
  "collect_round request =
     bindE (watch_replies (rq_ID request)) (\<lambda>channel.
     bindE (query (snapshot request)) (\<lambda>(collection, complete).
     if complete then returnE (channel, collection, True)
     else bindE now (\<lambda>at. returnE (channel, collection, rq_Deadline request - at \<le> 0))))"

text \<open>When the caller's context ends it gets what was read last. The timer fires after the rest of
  the deadline or the recheck interval, whichever is shorter. \<open>None\<close> means the pauses ran out
  while the collector was still parked.\<close>

function collect_loop :: "interlude list \<Rightarrow> ReportRequest \<Rightarrow> world \<Rightarrow> ReportCollection res option \<times> world"
  and collect_parked :: "interlude list \<Rightarrow> nat \<Rightarrow> ReportCollection \<Rightarrow> ReportRequest \<Rightarrow> world \<Rightarrow>
    ReportCollection res option \<times> world" where
  "collect_loop ps request w = (case collect_round request w of
      (Inl e, w1) \<Rightarrow> (Some (Inl e), w1)
    | (Inr (channel, collection, stop), w1) \<Rightarrow>
        if stop then (Some (Inr collection), w1) else collect_parked ps channel collection request w1)"
| "collect_parked [] channel collection request w = (None, w)"
| "collect_parked ((others, why) # ps) channel collection request w = (case why of
      ChannelClosed \<Rightarrow> if channel \<in> set (ch_closed (w_replies (others w)))
                 then collect_loop ps request (others w)
                 else collect_parked ps channel collection request (others w)
    | ContextEnded _ \<Rightarrow> (Some (Inr collection), others w)
    | Recheck \<Rightarrow> collect_loop ps request (others w))"
  by pat_completeness auto
termination
  by (relation "measure (case_sum (\<lambda>(ps, _). Suc (2 * length ps)) (\<lambda>(ps, _). 2 * length ps))") auto

declare collect_loop.simps [simp del] collect_parked.simps [simp del]

definition Collect_reports :: "interlude list \<Rightarrow> string \<Rightarrow> world \<Rightarrow> ReportCollection res option \<times> world" where
  "Collect_reports ps requestID w = (case query (RequestByID requestID) w of
      (Inl e, w1) \<Rightarrow> (Some (Inl e), w1)
    | (Inr request, w1) \<Rightarrow> collect_loop ps request w1)"

end
