(* ===== verification/ReportingFacts.thy ===== *)
theory ReportingFacts
  imports Reporting DirectMail
begin

section \<open>Answers, silence, and the question reaching everybody\<close>

subsection \<open>Snapshots\<close>

lemma ReportsFor_agents:
  "ReportsFor i d = Inr found \<Longrightarrow> set (map rep_AgentID found) = {reports_agent_id r |r. r \<in> set (reports d) \<and> reports_request_id r = i}"
proof -
  assume "ReportsFor i d = Inr found"
  then have "map rep_AgentID found = map reports_agent_id
      (sort_key (\<lambda>r. (reports_created_at r, reports_agent_id r)) (filter (\<lambda>r. reports_request_id r = i) (reports d)))"
    by (auto simp: ReportsFor_def scanReport_def)
  then show ?thesis by (simp add: setcompr_eq_image)
qed

text \<open>What a snapshot says: who answered, and who of the asked did not.\<close>

lemma snapshot_parts:
  assumes "snapshot request d = Inr (c, complete)"
  shows "rc_Request c = request \<and> ReportsFor (rq_ID request) d = Inr (rc_Reports c) \<and>
    rc_SilentAgentIDs c = filter (\<lambda>a. a \<notin> set (map rep_AgentID (rc_Reports c))) (rq_AskedAgentIDs request) \<and>
    (complete \<longleftrightarrow> rc_SilentAgentIDs c = [])"
  using assms by (auto simp: snapshot_def Let_def split: sum.splits)

lemma snapshot_total: "\<exists>c complete. snapshot request d = Inr (c, complete)"
  by (simp add: snapshot_def ReportsFor_def Let_def)

definition stops_at :: "ReportRequest \<Rightarrow> world \<Rightarrow> ReportCollection \<Rightarrow> bool \<Rightarrow> bool" where
  "stops_at request v c late \<longleftrightarrow> (\<exists>complete. snapshot request (w_db v) = Inr (c, complete)) \<and>
     (late \<or> rc_SilentAgentIDs c = [] \<or> rq_Deadline request \<le> time_of v)"

lemma collect_round_run:
  assumes "collect_round request w = (r, w1)"
  obtains channel c stop v where "r = Inr (channel, c, stop)" "stops_at request v c (\<not> stop)"
proof -
  obtain channel chans where wt: "arrivals_watch (rq_ID request) (w_replies w) = (channel, chans)" by force
  let ?v = "w\<lparr>w_replies := chans\<rparr>"
  obtain c complete where snap: "snapshot request (w_db w) = Inr (c, complete)" using snapshot_total by blast
  have "r = Inr (channel, c, complete \<or> rq_Deadline request - time_of ?v \<le> 0)"
    using assms by (auto simp: collect_round_def watch_replies_def wt bindE_def snap time_of_def split: if_splits)
  moreover have "stops_at request ?v c (\<not> (complete \<or> rq_Deadline request - time_of ?v \<le> 0))"
    using snap snapshot_parts [OF snap] by (auto simp: stops_at_def)
  ultimately show thesis by (rule that)
qed

definition context_ended :: "interlude list \<Rightarrow> bool" where
  "context_ended ps \<longleftrightarrow> (\<exists>f ce. (f, ContextEnded ce) \<in> set ps)"

lemma collect_result:
  "collect_loop ps request w = (Some r, w') \<Longrightarrow> \<exists>c v. r = Inr c \<and> stops_at request v c (context_ended ps)"
  "collect_parked ps channel seen request w = (Some r, w') \<Longrightarrow> (\<exists>v. stops_at request v seen True) \<Longrightarrow>
     \<exists>c v. r = Inr c \<and> stops_at request v c (context_ended ps)"
proof (induction ps request w and ps channel seen request w rule: collect_loop_collect_parked.induct)
  case (1 ps request w)
  obtain q w1 where q: "collect_round request w = (q, w1)" by force
  from q obtain channel c stop v where c: "q = Inr (channel, c, stop)" "stops_at request v c (\<not> stop)"
    by (rule collect_round_run)
  show ?case
  proof (cases stop)
    case True
    with 1(2) q c have "r = Inr c" by (simp add: collect_loop.simps)
    moreover from c(2) True have "stops_at request v c (context_ended ps)" by (auto simp: stops_at_def)
    ultimately show ?thesis by blast
  next
    case False
    with 1(2) q c have run: "collect_parked ps channel c request w1 = (Some r, w')" by (simp add: collect_loop.simps)
    have "\<exists>v. stops_at request v c True" using c(2) False by (auto simp: stops_at_def)
    with 1(1) [OF q [symmetric, unfolded c(1)] refl refl refl False run] show ?thesis by blast
  qed
next
  case (2 channel seen request w)
  then show ?case by (simp add: collect_parked.simps)
next
  case (3 others why ps channel seen request w)
  have more: "context_ended ps \<Longrightarrow> context_ended ((others, why) # ps)" by (auto simp: context_ended_def)
  have grow: "\<exists>c v. r = Inr c \<and> stops_at request v c (context_ended ps) \<Longrightarrow>
      \<exists>c v. r = Inr c \<and> stops_at request v c (context_ended ((others, why) # ps))"
    using more by (auto simp: stops_at_def)
  show ?case
  proof (cases why)
    case ChannelClosed
    then show ?thesis
      using 3(1) [OF ChannelClosed] 3(2) [OF ChannelClosed] 3(4,5) grow
      by (auto simp: collect_parked.simps split: if_splits)
  next
    case (ContextEnded ce)
    with 3(4) have "r = Inr seen" by (simp add: collect_parked.simps)
    moreover have "context_ended ((others, why) # ps)" using ContextEnded by (auto simp: context_ended_def)
    ultimately show ?thesis using 3(5) by (auto simp: stops_at_def)
  next
    case Recheck
    with 3(3) [OF Recheck] 3(4) grow show ?thesis by (simp add: collect_parked.simps)
  qed
qed

subsection \<open>The question reaches everybody asked\<close>

definition asked_by :: "ReportRequest \<Rightarrow> messages_row \<Rightarrow> bool" where
  "asked_by request m \<longleftrightarrow> messages_from_agent_id m = rq_RequesterID request \<and>
     messages_kind m = MessageKind \<and> messages_body m = question_body request"

lemma ask_one:
  assumes roster: "named_roster (w_db w)" and mail: "mail_ok (w_db w)" and ids: "fresh_ids (Suc n) w"
    and sender: "rq_RequesterID request \<noteq> []"
    and r: "r \<in> set (agents (w_db w))" "agents_state r = AgentActive"
  shows "\<exists>w'. ask mopts request (agents_id r) w = (Inr (), w') \<and> agents (w_db w') = agents (w_db w) \<and>
    mail_ok (w_db w') \<and> fresh_ids n w' \<and> (\<forall>a. mailbox (w_db w) a \<subseteq> mailbox (w_db w') a) \<and>
    (\<exists>m \<in> mailbox (w_db w') (agents_id r). asked_by request m)"
proof -
  have row: "agents_name r \<noteq> []" "agents_id r \<noteq> []" using roster r by (auto simp: named_roster_def)
  have byid: "ByID (agents_id r) w = (Inr (scanAgent r), w)"
    using roster r(1) by (simp add: ByID_def Agents_ByID_def named_roster_def roster_ok_def agents_table.find_by_key)
  have kind: "nameSyntax MessageKind" by code_simp
  have body: "json_Valid (question_body request)" by (simp add: question_body_def json_object_valid)
  from direct_message [OF roster mail ids sender kind body r, of mopts] byid show ?thesis
    by (auto simp: ask_def scanAgent_def asked_by_def)
qed

lemma deliver_all:
  assumes "named_roster (w_db w)" "mail_ok (w_db w)" "fresh_ids (length asked) w" "rq_RequesterID request \<noteq> []"
    and "\<forall>a \<in> set asked. \<exists>r \<in> set (agents (w_db w)). agents_id r = a \<and> agents_state r = AgentActive"
  shows "\<exists>w'. forE asked (ask mopts request) w = (Inr (), w') \<and> agents (w_db w') = agents (w_db w) \<and>
    (\<forall>a. mailbox (w_db w) a \<subseteq> mailbox (w_db w') a) \<and>
    (\<forall>a \<in> set asked. \<exists>m \<in> mailbox (w_db w') a. asked_by request m)"
  using assms
proof (induction asked arbitrary: w)
  case Nil
  then show ?case by simp
next
  case (Cons a asked)
  from Cons.prems(5) obtain r where r: "r \<in> set (agents (w_db w))" "agents_id r = a" "agents_state r = AgentActive"
    by auto
  from ask_one [OF Cons.prems(1,2) Cons.prems(3) [unfolded list.size(4) add_Suc_right add_0_right] Cons.prems(4) r(1,3), of mopts] r(2) obtain w1 where
    one: "ask mopts request a w = (Inr (), w1)" "agents (w_db w1) = agents (w_db w)" "mail_ok (w_db w1)"
      "fresh_ids (length asked) w1" "\<forall>b. mailbox (w_db w) b \<subseteq> mailbox (w_db w1) b"
      "\<exists>m \<in> mailbox (w_db w1) a. asked_by request m" by blast
  have "named_roster (w_db w1)" using Cons.prems(1) one(2) by (simp add: named_roster_def roster_ok_def)
  from Cons.IH [OF this one(3,4) Cons.prems(4)] Cons.prems(5) one(2) obtain w2 where
    two: "forE asked (ask mopts request) w1 = (Inr (), w2)" "agents (w_db w2) = agents (w_db w1)"
      "\<forall>b. mailbox (w_db w1) b \<subseteq> mailbox (w_db w2) b"
      "\<forall>b \<in> set asked. \<exists>m \<in> mailbox (w_db w2) b. asked_by request m" by auto
  have "forE (a # asked) (ask mopts request) w = (Inr (), w2)" using one(1) two(1) by simp
  with one two show ?case by (intro exI [of _ w2]) (auto, blast+)
qed

lemma reporting_audit_run:
  obtains v where "reporting_audit actor target detail w = (Inr (), v)" "agents (w_db v) = agents (w_db w)"
    "same_mail (w_db w) (w_db v)" "w_entropy v = w_entropy w" "w_drawn v = w_drawn w"
proof -
  let ?e = "Audit_Append (entry_of actor AuditReportRequested target detail (time_of w)) (w_db w)"
  show thesis
  proof (cases ?e)
    case (Inl e)
    then show ?thesis
      by (intro that [of "w\<lparr>w_ticks := Suc (w_ticks w)\<rparr>"])
        (simp_all add: reporting_audit_def bindE_def attemptE_def exec_def same_mail_def)
  next
    case (Inr d)
    then have "agents d = agents (w_db w)" "same_mail (w_db w) d"
      by (auto simp: Audit_Append_def same_mail_def split: if_splits)
    with Inr show ?thesis
      by (intro that [of "w\<lparr>w_ticks := Suc (w_ticks w), w_db := d\<rparr>"])
        (simp_all add: reporting_audit_def bindE_def attemptE_def exec_def same_mail_def)
  qed
qed

definition present_at :: "registry_options \<Rightarrow> instant \<Rightarrow> agents_row \<Rightarrow> bool" where
  "present_at ropts at r \<longleftrightarrow> agents_state r = AgentActive \<and> agents_internal r = 0 \<and>
     at - fromRequiredMicros (agents_last_heartbeat_at r) \<le> ro_TimeToLive ropts"

lemma Request_Inr:
  assumes "Request ropts mopts rq question deadline w = (Inr request, w')"
  obtains v where "rq_RequesterID request = rq" "rq \<noteq> []" "rq_Question request = question"
    "set (rq_AskedAgentIDs request) = agents_id ` {r \<in> set (agents (w_db w)). present_at ropts (time_of w) r \<and> agents_id r \<noteq> rq}"
    "agents (w_db v) = agents (w_db w)" "same_mail (w_db w) (w_db v)" "w_entropy v = w_entropy w"
    "w_drawn v = Suc (w_drawn w)"
    "if rq_AskedAgentIDs request = [] then w' = v else deliver mopts request v = (Inr (), w')"
proof -
  obtain ms rnd where ent: "w_entropy w (w_drawn w) = (ms, rnd)" by force
  define found where "found = filter (\<lambda>a. IsAlive a (time_of w) (ro_TimeToLive ropts))
    (map scanAgent (sort_key (\<lambda>r. (agents_registered_at r, agents_id r))
      (filter (agent_matches \<lparr>agf_States = [AgentActive], agf_Kinds = []\<rparr>) (agents (w_db w)))))"
  define asked where "asked = map agent_ID (filter (\<lambda>a. agent_ID a \<noteq> rq \<and> \<not> agent_Internal a) found)"
  define w1 where "w1 = w\<lparr>w_ticks := Suc (w_ticks w)\<rparr>"
  define w2 where "w2 = w1\<lparr>w_ticks := Suc (w_ticks w1), w_drawn := Suc (w_drawn w1)\<rparr>"
  define q where "q = \<lparr>rq_ID = New ''report'' ms rnd, rq_RequesterID = rq, rq_Question = question,
    rq_AskedAgentIDs = asked, rq_CreatedAt = time_of w1,
    rq_Deadline = time_of w1 + (if deadline \<le> 0 then DefaultDeadline else deadline)\<rparr>"
  have act: "Active ropts w = (Inr found, w1)"
    by (simp add: Active_def List_agents_def Agents_List_def found_def w1_def)
  have ids: "newID ''report'' (w1\<lparr>w_ticks := Suc (w_ticks w1)\<rparr>) = (Inr (rq_ID q), w2)"
    by (simp add: newID_def w1_def w2_def q_def ent)
  have ne: "question \<noteq> []" using assms by (auto simp: Request_def)
  then have "Request ropts mopts rq question deadline w = publish mopts q w2"
    by (simp add: Request_def act Let_def ids asked_def q_def)
  with assms have run: "publish mopts q w2 = (Inr request, w')" by simp
  then obtain d where d: "CreateRequest q (w_db w2) = Inr d"
    by (auto simp: publish_def bindE_Inr exec_Inr)
  have db: "w_db w2 = w_db w" by (simp add: w2_def w1_def)
  have d': "agents d = agents (w_db w)" "same_mail (w_db w) d" and rqne: "rq \<noteq> []"
    using d unfolding db by (auto simp: CreateRequest_def translated_constrained same_mail_def q_def split: if_splits)
  let ?detail = "''asked '' @ itoa (int (length (rq_AskedAgentIDs q))) @ '' agent(s): '' @ rq_Question q"
  obtain v where v: "reporting_audit (rq_RequesterID q) (rq_ID q) ?detail (w2\<lparr>w_db := d\<rparr>) = (Inr (), v)"
      "agents (w_db v) = agents d" "same_mail d (w_db v)" "w_entropy v = w_entropy w" "w_drawn v = Suc (w_drawn w)"
    using reporting_audit_run [of "rq_RequesterID q" "rq_ID q" ?detail "w2\<lparr>w_db := d\<rparr>"] by (auto simp: w2_def w1_def)
  have rest: "(if length (rq_AskedAgentIDs q) = 0 then returnE q else bindE (deliver mopts q) (\<lambda>_. returnE q)) v = (Inr request, w')"
    using run d v(1) by (simp add: publish_def exec_def)
  have request: "request = q"
    using rest by (auto simp: bindE_Inr split: if_splits)
  have "set asked = agents_id ` {r \<in> set (agents (w_db w)). present_at ropts (time_of w) r \<and> agents_id r \<noteq> rq}"
  proof -
    have "asked = map agents_id (filter (\<lambda>r. IsAlive (scanAgent r) (time_of w) (ro_TimeToLive ropts) \<and>
        agents_id r \<noteq> rq \<and> agents_internal r = 0) (sort_key (\<lambda>r. (agents_registered_at r, agents_id r))
      (filter (agent_matches \<lparr>agf_States = [AgentActive], agf_Kinds = []\<rparr>) (agents (w_db w)))))"
      by (simp add: asked_def found_def filter_map comp_def scanAgent_def)
    then show ?thesis
      by (simp add: agent_matches_def [abs_def] IsAlive_def present_at_def scanAgent_def conj_commute conj_left_commute cong: conj_cong)
  qed
  then show thesis
    using v d' rqne rest request
    by (intro that [of v])
      (auto simp: q_def same_mail_def bindE_Inr split: if_splits)
qed

end
