(* ===== verification/ReportingProperties.thy ===== *)
theory ReportingProperties
  imports MailScenario ReportingFacts
begin

section \<open>Properties of the reporting service\<close>

text \<open>C18: A request asks exactly the agents that are present: active, not part of the daemon itself,
  heard from within the time to live, and not the requester. Every one of them has the question in its
  mailbox afterwards, from the requester. This rests on the registry's unique names, because the
  question is addressed by name, and on message identifiers being fresh.\<close>

theorem request_reaches_everybody:
  assumes "Request ropts mopts rq question deadline w = (Inr request, w')"
    and roster: "named_roster (w_db w)" and mail: "mail_ok (w_db w)" and ids: "fresh_ids (Suc (length (rq_AskedAgentIDs request))) w"
  shows "set (rq_AskedAgentIDs request) =
      agents_id ` {r \<in> set (agents (w_db w)). present_at ropts (time_of w) r \<and> agents_id r \<noteq> rq} \<and>
    (\<forall>a \<in> set (rq_AskedAgentIDs request). \<exists>m \<in> mailbox (w_db w') a. asked_by request m)"
  using assms(1)
proof (rule Request_Inr)
  fix v
  assume rq: "rq_RequesterID request = rq" "rq \<noteq> []"
    and asked: "set (rq_AskedAgentIDs request) =
      agents_id ` {r \<in> set (agents (w_db w)). present_at ropts (time_of w) r \<and> agents_id r \<noteq> rq}"
    and v: "agents (w_db v) = agents (w_db w)" "same_mail (w_db w) (w_db v)" "w_entropy v = w_entropy w"
      "w_drawn v = Suc (w_drawn w)"
    and rest: "if rq_AskedAgentIDs request = [] then w' = v else deliver mopts request v = (Inr (), w')"
  have at: "msg_id_at v = msg_id_at w" using v(3) by (simp add: fun_eq_iff msg_id_at_def)
  have exists: "message_exists (w_db v) i = message_exists (w_db w) i" for i
    using v(2) by (simp add: same_mail_def message_exists_def)
  have "named_roster (w_db v)" using roster v(1) by (simp add: named_roster_def roster_ok_def)
  moreover have "mail_ok (w_db v)" using mail mail_ok_same [OF v(2)] by simp
  moreover have "fresh_ids (length (rq_AskedAgentIDs request)) v"
    using exists by (intro fresh_ids_next [OF ids at v(4)]) simp
  moreover have "\<forall>a \<in> set (rq_AskedAgentIDs request). \<exists>r \<in> set (agents (w_db v)). agents_id r = a \<and> agents_state r = AgentActive"
    unfolding asked v(1) by (auto simp: present_at_def)
  ultimately obtain z where z: "forE (rq_AskedAgentIDs request) (ask mopts request) v = (Inr (), z)"
      "\<forall>a \<in> set (rq_AskedAgentIDs request). \<exists>m \<in> mailbox (w_db z) a. asked_by request m"
    using deliver_all [where w = v and request = request and asked = "rq_AskedAgentIDs request" and mopts = mopts] rq
    by blast
  have "z = w'" if "rq_AskedAgentIDs request \<noteq> []"
    using rest that z(1) by (simp add: deliver_def)
  with z(2) asked show ?thesis by (cases "rq_AskedAgentIDs request = []") simp_all
qed

definition sample_registry :: registry_options where
  "sample_registry = New_registry (90 * Second) [] None"

definition requested_world :: world where
  "requested_world = snd (Request sample_registry sample_mail ''agent_a'' ''status?'' 0 sample_world)"

lemma requested: "case fst (Request sample_registry sample_mail ''agent_a'' ''status?'' 0 sample_world) of
    Inr request \<Rightarrow> rq_AskedAgentIDs request = [''agent_b''] | Inl _ \<Rightarrow> False"
  by code_simp

lemma requested_run: "\<exists>request. Request sample_registry sample_mail ''agent_a'' ''status?'' 0 sample_world = (Inr request, requested_world) \<and>
    rq_AskedAgentIDs request = [''agent_b'']"
  using requested by (cases "Request sample_registry sample_mail ''agent_a'' ''status?'' 0 sample_world")
    (auto simp: requested_world_def split: sum.splits)

theorem request_reaches_everybody_witness:
  "\<exists>request. Request sample_registry sample_mail ''agent_a'' ''status?'' 0 sample_world = (Inr request, requested_world) \<and>
     (\<exists>m \<in> mailbox (w_db requested_world) ''agent_b''. asked_by request m)"
proof -
  obtain request where run: "Request sample_registry sample_mail ''agent_a'' ''status?'' 0 sample_world = (Inr request, requested_world)"
    and asked: "rq_AskedAgentIDs request = [''agent_b'']" using requested_run by blast
  have "fresh_ids (Suc (length (rq_AskedAgentIDs request))) sample_world"
    using sample_fresh by (simp add: asked numeral_2_eq_2)
  from request_reaches_everybody [OF run sample_named sample_mail_ok' this] asked run show ?thesis by auto
qed

subsection \<open>Answering and collecting\<close>

text \<open>What a collection returns is a reading of the answers at some moment: the agents that answered
  are those with a report of the request, the silent ones are exactly the asked ones without one, in
  the order they were asked. It stops short of everybody's answer only when the deadline has passed
  or the caller's context ended, and it never fails for a request that exists.\<close>

theorem collect_outcome:
  assumes "Collect_reports ps requestID w = (Some r, w')"
  shows "case r of
      Inl e \<Rightarrow> RequestByID requestID (w_db w) = Inl e
    | Inr c \<Rightarrow> \<exists>v. RequestByID requestID (w_db w) = Inr (rc_Request c) \<and>
        set (map rep_AgentID (rc_Reports c)) =
          {reports_agent_id x |x. x \<in> set (reports (w_db v)) \<and> reports_request_id x = rq_ID (rc_Request c)} \<and>
        rc_SilentAgentIDs c = filter (\<lambda>a. a \<notin> {reports_agent_id x |x. x \<in> set (reports (w_db v)) \<and>
          reports_request_id x = rq_ID (rc_Request c)}) (rq_AskedAgentIDs (rc_Request c)) \<and>
        (rc_SilentAgentIDs c = [] \<or> rq_Deadline (rc_Request c) \<le> time_of v \<or> context_ended ps)"
proof (cases "RequestByID requestID (w_db w)")
  case (Inl e)
  with assms have "r = Inl e" by (simp add: Collect_reports_def)
  with Inl show ?thesis by simp
next
  case (Inr request)
  with assms have "collect_loop ps request w = (Some r, w')" by (simp add: Collect_reports_def)
  from collect_result(1) [OF this] obtain c v complete where r: "r = Inr c"
    and snap: "snapshot request (w_db v) = Inr (c, complete)"
    and stop: "context_ended ps \<or> rc_SilentAgentIDs c = [] \<or> rq_Deadline request \<le> time_of v"
    by (auto simp: stops_at_def)
  note parts = snapshot_parts [OF snap]
  have "set (map rep_AgentID (rc_Reports c)) =
      {reports_agent_id x |x. x \<in> set (reports (w_db v)) \<and> reports_request_id x = rq_ID request}"
    using parts by (intro ReportsFor_agents) simp
  with parts stop Inr r show ?thesis by (simp del: set_map) blast
qed

definition answering :: "interlude list" where
  "answering = [(\<lambda>w. snd (Submit_report ''report_1'' ''agent_b'' ''ok'' w), ChannelClosed)]"

lemma filter_by_key:
  "distinct (map k rows) \<Longrightarrow> r \<in> set rows \<Longrightarrow> filter (\<lambda>s. k s = k r) rows = [r]"
  by (induction rows) (auto simp: filter_empty_conv, metis image_eqI)

text \<open>The answers of one agent to one request after an upsert: one, with the new text.\<close>

lemma AddReport_replaces:
  assumes "AddReport p d = Inr d'"
    and "distinct (map (\<lambda>r. (reports_request_id r, reports_agent_id r)) (reports d))"
  shows "\<exists>row. filter (report_of (rep_RequestID p) (rep_AgentID p)) (reports d') = [row] \<and>
    reports_body row = rep_Body p \<and> reports_agent_id row = rep_AgentID p"
proof (cases "exists_where (report_of (rep_RequestID p) (rep_AgentID p)) (reports d)")
  case False
  then have "reports d' = reports d @ [report_row_of p]"
    using assms(1) by (auto simp: AddReport_def translated_constrained)
  with False show ?thesis
    by (auto simp: exists_where_iff filter_empty_conv report_of_def report_row_of_def)
next
  case True
  let ?key = "\<lambda>r. (reports_request_id r, reports_agent_id r)"
  let ?f = "\<lambda>r. r\<lparr>reports_body := rep_Body p, reports_created_at := requireMicros (rep_CreatedAt p)\<rparr>"
  let ?P = "report_of (rep_RequestID p) (rep_AgentID p)"
  from True obtain r where r: "r \<in> set (reports d)" "?P r" by (auto simp: exists_where_iff)
  have eq: "reports d' = update_where ?P ?f (reports d)"
    using True assms(1) by (auto simp: AddReport_def translated_constrained)
  have "filter ?P (reports d) = filter (\<lambda>s. ?key s = ?key r) (reports d)"
    using r(2) by (intro filter_cong) (auto simp: report_of_def)
  also have "\<dots> = [r]" using assms(2) r(1) by (rule filter_by_key)
  finally have "filter ?P (reports d) = [r]" .
  moreover have "filter ?P (update_where ?P ?f rows) = map ?f (filter ?P rows)" for rows
    by (induction rows) (auto simp: update_where_def report_of_def)
  ultimately show ?thesis using r(2) by (auto simp: eq report_of_def)
qed

text \<open>An answer counts at once: the next snapshot has exactly one report of that agent, with the text
  submitted last, the agent is not silent, and whoever is collecting is woken.\<close>

theorem answer_is_collected:
  assumes "Submit_report requestID agentID body w = (Inr (), w')"
    and "distinct (map (\<lambda>r. (reports_request_id r, reports_agent_id r)) (reports (w_db w)))"
  shows "(\<exists>c. Snapshot requestID w' = (Inr c, w') \<and>
      map rep_Body (filter (\<lambda>p. rep_AgentID p = agentID) (rc_Reports c)) = [body] \<and>
      agentID \<notin> set (rc_SilentAgentIDs c)) \<and>
    (\<forall>n. map_of (ch_open (w_replies w)) requestID = Some n \<longrightarrow> n \<in> set (ch_closed (w_replies w')))"
proof -
  obtain request d where request: "RequestByID requestID (w_db w) = Inr request"
    and add: "AddReport \<lparr>rep_RequestID = rq_ID request, rep_AgentID = agentID, rep_Body = body,
      rep_CreatedAt = time_of w\<rparr> (w_db w) = Inr d"
    and w': "w' = w\<lparr>w_ticks := Suc (w_ticks w), w_db := d, w_replies := arrivals_signal requestID (w_replies w)\<rparr>"
    using assms(1) by (auto simp: Submit_report_def bindE_Inr exec_Inr signal_replies_def split: if_splits)
  from AddReport_replaces [OF add assms(2)] obtain row where
    row: "filter (report_of (rq_ID request) agentID) (reports d) = [row]" "reports_body row = body" by auto
  have "report_requests d = report_requests (w_db w)"
    using add by (auto simp: AddReport_def translated_constrained)
  with request have request': "RequestByID requestID d = Inr request" by (simp add: RequestByID_def)
  obtain c complete where snap: "snapshot request d = Inr (c, complete)" using snapshot_total by blast
  note parts = snapshot_parts [OF snap]
  have reports: "rc_Reports c = map scanReport (sort_key (\<lambda>r. (reports_created_at r, reports_agent_id r))
      (filter (\<lambda>r. reports_request_id r = rq_ID request) (reports d)))"
    using parts by (auto simp: ReportsFor_def)
  have "filter (\<lambda>p. rep_AgentID p = agentID) (rc_Reports c) = map scanReport (sort_key (\<lambda>r. (reports_created_at r, reports_agent_id r))
      (filter (\<lambda>r. reports_agent_id r = agentID) (filter (\<lambda>r. reports_request_id r = rq_ID request) (reports d))))"
    by (simp add: reports filter_map comp_def scanReport_def filter_sort)
  also have "filter (\<lambda>r. reports_agent_id r = agentID) (filter (\<lambda>r. reports_request_id r = rq_ID request) (reports d)) = [row]"
    using row(1) by (simp add: report_of_def [abs_def] conj_commute)
  finally have one: "map rep_Body (filter (\<lambda>p. rep_AgentID p = agentID) (rc_Reports c)) = [body]"
    using row(2) by (simp add: scanReport_def)
  then have "agentID \<in> set (map rep_AgentID (rc_Reports c))"
    by (metis (mono_tags, lifting) filter_empty_conv image_eqI list.map_disc_iff list.set_map not_Cons_self2)
  then have "agentID \<notin> set (rc_SilentAgentIDs c)" using parts by simp
  moreover have "Snapshot requestID w' = (Inr c, w')"
    by (simp add: Snapshot_def w' request' snap)
  moreover have "n \<in> set (ch_closed (w_replies w'))" if "map_of (ch_open (w_replies w)) requestID = Some n" for n
    using that by (simp add: w' arrivals_signal_def)
  ultimately show ?thesis using one by (intro conjI exI [of _ c] allI impI)
qed

end
