(* ===== verification/StoreWatches.thy ===== *)
theory StoreWatches
  imports StoreAgents
begin

section \<open>Watched pull requests in SQLite (\<open>watches.go\<close>)\<close>

text \<open>
  A watch is unique by identifier and by pull request. Deleting one takes its subscribers and its
  events with it. The snapshot column holds the observation whose JSON text the source stores, so
  reading it back always succeeds. Event numbers only grow: the column is \<^verbatim>\<open>AUTOINCREMENT\<close>.
\<close>

type_synonym PRWatch = "PullRequest Watch"

definition defaultEventLimit :: int where
  "defaultEventLimit = 50"

definition watch_row_of :: "PRWatch \<Rightarrow> watches_row" where
  "watch_row_of t = \<lparr>watches_id = wt_ID t, watches_owner = wt_Owner t, watches_repository = wt_Repository t,
     watches_number = wt_Number t, watches_account = wt_Account t, watches_snapshot = wt_Snapshot t,
     watches_state = wt_State t, watches_draft = boolToInt (wt_Draft t), watches_title = wt_Title t,
     watches_checks_state = wt_ChecksState t, watches_unresolved = wt_Unresolved t,
     watches_observed_at = toMicros (wt_ObservedAt t), watches_failures = wt_Failures t,
     watches_last_error = wt_LastError t, watches_last_error_at = toMicros (wt_LastErrorAt t),
     watches_next_poll_at = requireMicros (wt_NextPollAt t),
     watches_created_at = requireMicros (wt_CreatedAt t)\<rparr>"

definition on_pull_request :: "string \<Rightarrow> string \<Rightarrow> int \<Rightarrow> watches_row \<Rightarrow> bool" where
  "on_pull_request owner repository number r \<longleftrightarrow>
     watches_owner r = owner \<and> watches_repository r = repository \<and> watches_number r = number"

definition Watches_Create :: "PRWatch \<Rightarrow> db \<Rightarrow> db res" where
  "Watches_Create t d = (case Watch_Validate t of
      Inl e \<Rightarrow> Inl e
    | Inr _ \<Rightarrow> translated (constrained True
        (\<not> watch_exists d (wt_ID t) \<and>
         \<not> exists_where (on_pull_request (wt_Owner t) (wt_Repository t) (wt_Number t)) (watches d))
        True (d\<lparr>watches := watches d @ [watch_row_of t]\<rparr>)))"

definition scanWatch :: "watches_row \<Rightarrow> PRWatch" where
  "scanWatch r = \<lparr>wt_ID = watches_id r, wt_Owner = watches_owner r, wt_Repository = watches_repository r,
     wt_Number = watches_number r, wt_Account = watches_account r, wt_Snapshot = watches_snapshot r,
     wt_Title = watches_title r, wt_State = watches_state r, wt_Draft = (watches_draft r \<noteq> 0),
     wt_ChecksState = watches_checks_state r, wt_Unresolved = watches_unresolved r,
     wt_ObservedAt = fromMicros (watches_observed_at r), wt_Failures = watches_failures r,
     wt_LastError = watches_last_error r, wt_LastErrorAt = fromMicros (watches_last_error_at r),
     wt_NextPollAt = fromRequiredMicros (watches_next_poll_at r),
     wt_CreatedAt = fromRequiredMicros (watches_created_at r)\<rparr>"

definition Watches_ByID :: "string \<Rightarrow> db \<Rightarrow> PRWatch res" where
  "Watches_ByID watchID d = fetch scanWatch (first_where (\<lambda>r. watches_id r = watchID) (watches d))"

definition ByReference :: "string \<Rightarrow> string \<Rightarrow> int \<Rightarrow> db \<Rightarrow> PRWatch res" where
  "ByReference owner repository number d =
     fetch scanWatch (first_where (on_pull_request owner repository number) (watches d))"

definition collectWatches :: "watches_row list \<Rightarrow> PRWatch list res" where
  "collectWatches rows = Inr (map scanWatch rows)"

definition Watches_List :: "db \<Rightarrow> PRWatch list res" where
  "Watches_List d = collectWatches (sort_key (\<lambda>r. (watches_created_at r, watches_id r)) (watches d))"

definition ListForAgent :: "string \<Rightarrow> db \<Rightarrow> PRWatch list res" where
  "ListForAgent agentID d = collectWatches (sort_key (\<lambda>r. (watches_created_at r, watches_id r))
     [w. w \<leftarrow> watches d, s \<leftarrow> watch_subscribers d,
         watch_subscribers_watch_id s = watches_id w \<and> watch_subscribers_agent_id s = agentID])"

definition Due :: "instant \<Rightarrow> int \<Rightarrow> db \<Rightarrow> PRWatch list res" where
  "Due at limit0 d =
     (let limit = (if limit0 \<le> 0 then 20 else limit0)
      in collectWatches (take (nat limit) (sort_key watches_next_poll_at
           (filter (\<lambda>r. watches_next_poll_at r \<le> requireMicros at) (watches d)))))"

definition RecordObservation :: "PRWatch \<Rightarrow> db \<Rightarrow> db res" where
  "RecordObservation t d = affectedOrNotFound (Inr
     (count_where (\<lambda>r. watches_id r = wt_ID t) (watches d),
      d\<lparr>watches := update_where (\<lambda>r. watches_id r = wt_ID t)
          (\<lambda>r. r\<lparr>watches_account := wt_Account t, watches_snapshot := wt_Snapshot t,
                 watches_state := wt_State t, watches_draft := boolToInt (wt_Draft t),
                 watches_title := wt_Title t, watches_checks_state := wt_ChecksState t,
                 watches_unresolved := wt_Unresolved t,
                 watches_observed_at := Some (requireMicros (wt_ObservedAt t)),
                 watches_failures := 0, watches_last_error := [],
                 watches_next_poll_at := requireMicros (wt_NextPollAt t)\<rparr>) (watches d)\<rparr>))"

definition RecordFailure :: "string \<Rightarrow> string \<Rightarrow> instant \<Rightarrow> instant \<Rightarrow> db \<Rightarrow> db res" where
  "RecordFailure watchID reason at nextPollAt d = affectedOrNotFound (Inr
     (count_where (\<lambda>r. watches_id r = watchID) (watches d),
      d\<lparr>watches := update_where (\<lambda>r. watches_id r = watchID)
          (\<lambda>r. r\<lparr>watches_failures := watches_failures r + 1, watches_last_error := reason,
                 watches_last_error_at := Some (requireMicros at),
                 watches_next_poll_at := requireMicros nextPollAt\<rparr>) (watches d)\<rparr>))"

definition Watches_Delete :: "string \<Rightarrow> db \<Rightarrow> db res" where
  "Watches_Delete watchID d = affectedOrNotFound (Inr
     (count_where (\<lambda>r. watches_id r = watchID) (watches d),
      d\<lparr>watches := delete_where (\<lambda>r. watches_id r = watchID) (watches d),
        watch_subscribers := delete_where (\<lambda>s. watch_subscribers_watch_id s = watchID) (watch_subscribers d),
        watch_events := delete_where (\<lambda>e. watch_events_watch_id e = watchID) (watch_events d)\<rparr>))"

definition subscriber_of :: "string \<Rightarrow> string \<Rightarrow> watch_subscribers_row \<Rightarrow> bool" where
  "subscriber_of watchID agentID s \<longleftrightarrow>
     watch_subscribers_watch_id s = watchID \<and> watch_subscribers_agent_id s = agentID"

text \<open>\<^verbatim>\<open>INSERT OR IGNORE\<close> passes over a row that is there; a missing agent or watch still fails.\<close>

definition Watches_Subscribe :: "string \<Rightarrow> string \<Rightarrow> instant \<Rightarrow> db \<Rightarrow> db res" where
  "Watches_Subscribe watchID agentID at d =
     (if exists_where (subscriber_of watchID agentID) (watch_subscribers d) then Inr d
      else translated (constrained True True (watch_exists d watchID \<and> agent_exists d agentID)
        (d\<lparr>watch_subscribers := watch_subscribers d @
           [\<lparr>watch_subscribers_watch_id = watchID, watch_subscribers_agent_id = agentID,
             watch_subscribers_subscribed_at = requireMicros at\<rparr>]\<rparr>)))"

definition Watches_Unsubscribe :: "string \<Rightarrow> string \<Rightarrow> db \<Rightarrow> db res" where
  "Watches_Unsubscribe watchID agentID d =
     Inr (d\<lparr>watch_subscribers := delete_where (subscriber_of watchID agentID) (watch_subscribers d)\<rparr>)"

definition Watches_Subscribers :: "string \<Rightarrow> db \<Rightarrow> string list res" where
  "Watches_Subscribers watchID d = Inr (map watch_subscribers_agent_id
     (sort_key (\<lambda>s. (watch_subscribers_subscribed_at s, watch_subscribers_agent_id s))
       (filter (\<lambda>s. watch_subscribers_watch_id s = watchID) (watch_subscribers d))))"

definition AppendEvent :: "WatchEvent \<Rightarrow> db \<Rightarrow> db res" where
  "AppendEvent v d =
     (if we_WatchID v = [] \<or> we_Kind v = NoWatchEventKind then Inl ErrInvalidArgument
      else translated (constrained True True (watch_exists d (we_WatchID v))
        (d\<lparr>watch_events_seq := watch_events_seq d + 1,
           watch_events := watch_events d @
             [\<lparr>watch_events_id = watch_events_seq d + 1, watch_events_watch_id = we_WatchID v,
               watch_events_kind = we_Kind v, watch_events_summary = we_Summary v,
               watch_events_at = requireMicros (we_At v)\<rparr>]\<rparr>)))"

definition scanEvent :: "watch_events_row \<Rightarrow> WatchEvent" where
  "scanEvent e = \<lparr>we_ID = watch_events_id e, we_WatchID = watch_events_watch_id e,
     we_Kind = watch_events_kind e, we_Summary = watch_events_summary e,
     we_At = fromRequiredMicros (watch_events_at e)\<rparr>"

definition Events :: "string \<Rightarrow> int \<Rightarrow> db \<Rightarrow> WatchEvent list res" where
  "Events watchID limit0 d =
     (let limit = (if limit0 \<le> 0 then defaultEventLimit else limit0)
      in Inr (map scanEvent (take (nat limit) (rev (sort_key watch_events_id
           (filter (\<lambda>e. watch_events_watch_id e = watchID) (watch_events d)))))))"

end
