(* ===== verification/Changes.thy ===== *)
theory Changes
  imports PullRequest
begin

section \<open>What changed between two observations (\<open>internal/service/prwatch/changes.go\<close>)\<close>

text \<open>
  One line per change, in the order the source reports them: state, checks, branch, comments,
  reviews, review conversations. The event's watch and time are filled in by the watcher; here
  they are the zero values of the Go literal.
\<close>

definition change :: "WatchEventKind \<Rightarrow> string \<Rightarrow> WatchEvent" where
  "change kind summary = \<lparr>we_ID = 0, we_WatchID = [], we_Kind = kind, we_Summary = summary, we_At = zeroTime\<rparr>"

definition shorten :: "string \<Rightarrow> string" where
  "shorten sha = (if length sha \<le> 7 then sha else take 7 sha)"

definition summary_limit :: nat where
  "summary_limit = 140"

definition firstLine :: "string \<Rightarrow> string" where
  "firstLine body =
     (let trimmed = TrimSpace body;
          line = (case cut_at newline trimmed of (line, _, found) \<Rightarrow> if found then TrimSpace line else trimmed)
      in if length line > summary_limit then take summary_limit line @ ellipsis else line)"

definition describeState :: "PullRequest \<Rightarrow> string" where
  "describeState p =
     (if pr_State p = ''merged'' then ''merged''
      else if pr_State p = ''closed'' then ''closed without merging''
      else if pr_State p = ''open'' then (if pr_Draft p then ''reopened as a draft'' else ''reopened'')
      else pr_State p)"

definition stateChange :: "PullRequest \<Rightarrow> PullRequest \<Rightarrow> WatchEvent option" where
  "stateChange before after =
     (if pr_State before \<noteq> pr_State after then
        Some (change WatchState (describeState after @ '' (was '' @ pr_State before @ '')''))
      else if pr_Draft before \<noteq> pr_Draft after then
        (if pr_Draft after then Some (change WatchState ''marked as a draft'')
         else Some (change WatchState ''marked ready for review''))
      else None)"

definition checksChange :: "PullRequest \<Rightarrow> PullRequest \<Rightarrow> WatchEvent option" where
  "checksChange before after =
     (let state = cs_State (pr_Checks after) in
      if cs_State (pr_Checks before) = state then None
      else if state = ''failure'' then
        Some (change WatchChecks (''CI failed: '' @ Join (map chk_Name (Failing (pr_Checks after))) '', ''))
      else if state = ''success'' then
        Some (change WatchChecks (''CI passed ('' @ itoa (cs_Total (pr_Checks after)) @ '' checks)''))
      else if state = ''pending'' then Some (change WatchChecks ''CI is running'')
      else Some (change WatchChecks (''CI state is now '' @ state)))"

definition commitChange :: "PullRequest \<Rightarrow> PullRequest \<Rightarrow> WatchEvent option" where
  "commitChange before after =
     (if pr_HeadSHA before \<noteq> pr_HeadSHA after \<and> pr_HeadSHA after \<noteq> []
      then Some (change WatchCommits (''pushed: the branch is now at '' @ shorten (pr_HeadSHA after)))
      else None)"

definition commentChanges :: "PullRequest \<Rightarrow> PullRequest \<Rightarrow> WatchEvent list" where
  "commentChanges before after =
     (let seen = map cm_ID (pr_Comments before) in
      map (\<lambda>c. change WatchComment (cm_Author c @ '' commented: '' @ firstLine (cm_Body c)))
        (filter (\<lambda>c. \<not> List.member seen (cm_ID c)) (pr_Comments after)))"

definition describeReview :: "string \<Rightarrow> string" where
  "describeReview state =
     (if state = ''approved'' then ''approved''
      else if state = ''changes_requested'' then ''requested changes on''
      else if state = ''dismissed'' then ''had a review dismissed on''
      else ''reviewed'')"

definition reviewChanges :: "PullRequest \<Rightarrow> PullRequest \<Rightarrow> WatchEvent list" where
  "reviewChanges before after =
     (let seen = map rv_ID (pr_Reviews before) in
      map (\<lambda>v. change WatchReview (rv_Author v @ '' '' @ describeReview (rv_State v) @ '' the pull request''))
        (filter (\<lambda>v. \<not> List.member seen (rv_ID v) \<and> \<not> (rv_State v = ''commented'' \<or> rv_State v = []))
          (pr_Reviews after)))"

definition location :: "ReviewThread \<Rightarrow> string" where
  "location t =
     (if th_Path t = [] then ''the pull request''
      else if th_Line t > 0 then th_Path t @ '':'' @ itoa (th_Line t)
      else th_Path t)"

text \<open>A later conversation with the same identifier replaces an earlier one in the Go map.\<close>

definition previous_thread :: "PullRequest \<Rightarrow> string \<Rightarrow> ReviewThread option" where
  "previous_thread before i = map_of (rev (map (\<lambda>t. (th_ID t, t)) (pr_Threads before))) i"

definition threadChange :: "PullRequest \<Rightarrow> ReviewThread \<Rightarrow> WatchEvent list" where
  "threadChange before t = (case previous_thread before (th_ID t) of
      None \<Rightarrow> [change WatchThread (''new review comment on '' @ location t @ '': '' @ Thread_Summary t)]
    | Some known \<Rightarrow>
        if \<not> th_Resolved known \<and> th_Resolved t then
          [change WatchThread (''review comment resolved on '' @ location t @ '': '' @ Thread_Summary t)]
        else if th_Resolved known \<and> \<not> th_Resolved t then
          [change WatchThread (''review comment reopened on '' @ location t @ '': '' @ Thread_Summary t)]
        else if length (th_Comments t) > length (th_Comments known) then
          (let latest = last (th_Comments t) in
           [change WatchThread (cm_Author latest @ '' replied on '' @ location t @ '': '' @ firstLine (cm_Body latest))])
        else [])"

definition threadChanges :: "PullRequest \<Rightarrow> PullRequest \<Rightarrow> WatchEvent list" where
  "threadChanges before after = concat (map (threadChange before) (pr_Threads after))"

definition changesBetween :: "PullRequest \<Rightarrow> PullRequest \<Rightarrow> bool \<Rightarrow> WatchEvent list" where
  "changesBetween before after is_first =
     (if is_first then []
      else (case stateChange before after of None \<Rightarrow> [] | Some v \<Rightarrow> [v]) @
           (case checksChange before after of None \<Rightarrow> [] | Some v \<Rightarrow> [v]) @
           (case commitChange before after of None \<Rightarrow> [] | Some v \<Rightarrow> [v]) @
           commentChanges before after @
           reviewChanges before after @
           threadChanges before after)"

end
