(* ===== verification/PRWatch.thy ===== *)
theory PRWatch
  imports StoreWatches Changes Messaging Registry WaitLoop
begin

section \<open>Keeping an eye on pull requests (\<open>internal/service/prwatch/prwatch.go\<close>)\<close>

text \<open>
  GitHub, read through the command line of another program, is a parameter: what it answers may
  depend on the moment (the clock readings so far), the login, and the pull request. Its error says
  whether the pull request was not found; any other failure is an outage. \<open>w_refreshed\<close> are the
  channels of whoever waits for a watch to be polled, \<open>w_jitter\<close> the random source of the backoff.
\<close>

datatype forge_err = PRNotFound string | ForgeFailed string

record forge =
  fg_PullRequest :: "nat \<Rightarrow> string \<Rightarrow> string \<Rightarrow> string \<Rightarrow> int \<Rightarrow> forge_err + PullRequest"
  fg_Accounts :: "nat \<Rightarrow> forge_err + string list"

fun forge_text :: "forge_err \<Rightarrow> string" where
  "forge_text (PRNotFound t) = t"
| "forge_text (ForgeFailed t) = t"

fun forge_error :: "forge_err \<Rightarrow> err" where
  "forge_error (PRNotFound t) = ErrGitHubNotFound t"
| "forge_error (ForgeFailed t) = OtherError t"

definition PRMessageKind :: string where
  "PRMessageKind = ''pr-update''"

definition DefaultInterval :: duration where
  "DefaultInterval = Minute"

definition DefaultSettledInterval :: duration where
  "DefaultSettledInterval = 30 * Minute"

definition DefaultFreshFor :: duration where
  "DefaultFreshFor = 5 * Minute"

definition maxBackoff :: duration where
  "maxBackoff = 15 * Minute"

definition pollBatch :: int where
  "pollBatch = 10"

record watch_options =
  pw_Interval :: duration
  pw_SettledInterval :: duration
  pw_FreshFor :: duration

definition New_watcher :: "watch_options \<Rightarrow> watch_options" where
  "New_watcher o0 = \<lparr>pw_Interval = (if pw_Interval o0 \<le> 0 then DefaultInterval else pw_Interval o0),
     pw_SettledInterval = (if pw_SettledInterval o0 \<le> 0 then DefaultSettledInterval else pw_SettledInterval o0),
     pw_FreshFor = (if pw_FreshFor o0 \<le> 0 then DefaultFreshFor else pw_FreshFor o0)\<rparr>"

subsection \<open>Signals\<close>

definition refreshed_watch :: "string \<Rightarrow> channels \<Rightarrow> nat \<times> channels" where
  "refreshed_watch key c = (case map_of (ch_open c) key of
      Some channel \<Rightarrow> (channel, c)
    | None \<Rightarrow> (ch_next c, c\<lparr>ch_open := (key, ch_next c) # ch_open c, ch_next := Suc (ch_next c)\<rparr>))"

definition refreshed_signal :: "string \<Rightarrow> channels \<Rightarrow> channels" where
  "refreshed_signal key c = (case map_of (ch_open c) key of
      Some channel \<Rightarrow> c\<lparr>ch_closed := channel # ch_closed c,
                         ch_open := filter (\<lambda>p. fst p \<noteq> key) (ch_open c)\<rparr>
    | None \<Rightarrow> c)"

interpretation refreshed: wakeups refreshed_watch refreshed_signal "\<lambda>c. map_of (ch_open c)"
    "\<lambda>c n. n \<in> set (ch_closed c)" channels_ok
proof -
  have "refreshed_watch = watch" "refreshed_signal = signal"
    by (simp_all add: fun_eq_iff refreshed_watch_def watch_def refreshed_signal_def signal_def)
  then show "wakeups refreshed_watch refreshed_signal (\<lambda>c. map_of (ch_open c)) (\<lambda>c n. n \<in> set (ch_closed c)) channels_ok"
    by (simp add: waiters.wakeups_axioms)
qed

definition watch_refreshed :: "string \<Rightarrow> nat action" where
  "watch_refreshed key = (\<lambda>w. case refreshed_watch key (w_refreshed w) of (n, c) \<Rightarrow> (Inr n, w\<lparr>w_refreshed := c\<rparr>))"

definition signal_refreshed :: "string \<Rightarrow> unit action" where
  "signal_refreshed key = (\<lambda>w. (Inr (), w\<lparr>w_refreshed := refreshed_signal key (w_refreshed w)\<rparr>))"

subsection \<open>Telling the subscribers\<close>

fun kind_text :: "WatchEventKind \<Rightarrow> string" where
  "kind_text WatchChecks = ''checks''"
| "kind_text WatchState = ''state''"
| "kind_text WatchComment = ''comment''"
| "kind_text WatchReview = ''review''"
| "kind_text WatchThread = ''thread''"
| "kind_text WatchCommits = ''commits''"
| "kind_text WatchUnreachable = ''unreachable''"
| "kind_text WatchRecovered = ''recovered''"
| "kind_text NoWatchEventKind = []"

definition SetSender :: "string \<Rightarrow> unit action" where
  "SetSender agentID = (\<lambda>w. (Inr (), w\<lparr>w_senderID := agentID\<rparr>))"

definition sender :: "string \<Rightarrow> string action" where
  "sender fallback = (\<lambda>w. (Inr (if w_senderID w = [] then fallback else w_senderID w), w))"

definition change_body :: "PRWatch \<Rightarrow> WatchEvent \<Rightarrow> string" where
  "change_body t event = json_object
     [(''watch_id'', wt_ID t), (''reference'', Watch_Reference t), (''kind'', kind_text (we_Kind event)),
      (''text'', Watch_Reference t @ '': '' @ we_Summary event), (''state'', wt_State t)]"

text \<open>A subscriber that has gone, or cannot be reached, is passed over.\<close>

definition tell :: "messaging_options \<Rightarrow> string \<Rightarrow> string \<Rightarrow> unit action" where
  "tell mopts body subscriber =
     bindE (attemptE (ByID subscriber)) (\<lambda>r. case r of
       Inl _ \<Rightarrow> returnE ()
     | Inr agent \<Rightarrow>
         bindE (sender subscriber) (\<lambda>fromID.
         bindE (attemptE (Send mopts \<lparr>snd_FromAgentID = fromID, snd_ToAgentName = agent_Name agent,
           snd_Topic = [], snd_Kind = PRMessageKind, snd_Body = body\<rparr>)) (\<lambda>_. returnE ())))"

text \<open>\<open>None\<close> is a watcher without a messaging service.\<close>

definition notify_watchers :: "messaging_options option \<Rightarrow> PRWatch \<Rightarrow> WatchEvent \<Rightarrow> unit action" where
  "notify_watchers messaging t event = (case messaging of
      None \<Rightarrow> returnE ()
    | Some mopts \<Rightarrow>
        bindE (attemptE (query (Watches_Subscribers (wt_ID t)))) (\<lambda>r. case r of
          Inl _ \<Rightarrow> returnE ()
        | Inr subscribers \<Rightarrow>
            if length subscribers = 0 then returnE ()
            else forE subscribers (tell mopts (change_body t event))))"

definition dated :: "WatchEvent \<Rightarrow> WatchEvent action" where
  "dated event =
     (if IsZero (we_At event) then bindE now (\<lambda>at. returnE (event\<lparr>we_At := at\<rparr>)) else returnE event)"

definition record_change :: "messaging_options option \<Rightarrow> PRWatch \<Rightarrow> WatchEvent \<Rightarrow> unit action" where
  "record_change messaging t event0 =
     bindE (dated (event0\<lparr>we_WatchID := wt_ID t\<rparr>)) (\<lambda>event.
     bindE (attemptE (exec (AppendEvent event))) (\<lambda>r. case r of
       Inl _ \<Rightarrow> returnE ()
     | Inr _ \<Rightarrow> notify_watchers messaging t event))"

subsection \<open>Reading\<close>

text \<open>Each login but the one tried before, until one answers or there is an outage.\<close>

fun other_logins :: "(string \<Rightarrow> forge_err + PullRequest) \<Rightarrow> string \<Rightarrow> forge_err \<Rightarrow> string list \<Rightarrow>
    forge_err + (PullRequest \<times> string)" where
  "other_logins ask tried gone [] = Inl gone"
| "other_logins ask tried gone (account # rest) =
     (if account = tried then other_logins ask tried gone rest
      else (case ask account of
          Inr observation \<Rightarrow> Inr (observation, account)
        | Inl (ForgeFailed t) \<Rightarrow> Inl (ForgeFailed t)
        | Inl (PRNotFound _) \<Rightarrow> other_logins ask tried gone rest))"

definition active_login :: "(string \<Rightarrow> forge_err + PullRequest) \<Rightarrow> forge_err + string list \<Rightarrow> string \<Rightarrow>
    forge_err + (PullRequest \<times> string)" where
  "active_login ask logins tried = (case ask [] of
      Inr observation \<Rightarrow> Inr (observation, [])
    | Inl (ForgeFailed t) \<Rightarrow> Inl (ForgeFailed t)
    | Inl (PRNotFound t) \<Rightarrow> (case logins of
          Inl _ \<Rightarrow> Inl (PRNotFound t)
        | Inr accounts \<Rightarrow>
            if length accounts \<le> 1 then Inl (PRNotFound t)
            else other_logins ask tried (PRNotFound (t @
                ('' (tried every github login this machine is signed in to: '' @ Join accounts '', '' @ '')''))) accounts))"

definition read_watch :: "forge \<Rightarrow> nat \<Rightarrow> PRWatch \<Rightarrow> forge_err + (PullRequest \<times> string)" where
  "read_watch fg moment t =
     (let ask = (\<lambda>account. fg_PullRequest fg moment account (wt_Owner t) (wt_Repository t) (wt_Number t));
          anew = active_login ask (fg_Accounts fg moment) (wt_Account t)
      in if wt_Account t \<noteq> [] then (case ask (wt_Account t) of
             Inr observation \<Rightarrow> Inr (observation, wt_Account t)
           | Inl (ForgeFailed e) \<Rightarrow> Inl (ForgeFailed e)
           | Inl (PRNotFound _) \<Rightarrow> anew)
         else anew)"

text \<open>The zero value of the Go type, with what was stored and whether there was anything.\<close>

definition no_pull_request :: PullRequest where
  "no_pull_request = \<lparr>pr_Owner = [], pr_Repository = [], pr_Number = 0, pr_Title = [], pr_URL = [],
     pr_Author = [], pr_State = [], pr_Draft = False, pr_Mergeable = [], pr_HeadSHA = [],
     pr_UpdatedAt = zeroTime, pr_Checks = \<lparr>cs_State = [], cs_Total = 0, cs_Passed = 0, cs_Failed = 0,
     cs_Pending = 0, cs_Checks = []\<rparr>, pr_Comments = [], pr_Reviews = [], pr_Threads = []\<rparr>"

definition Snapshot_of :: "PRWatch \<Rightarrow> PullRequest \<times> bool" where
  "Snapshot_of t = (case wt_Snapshot t of None \<Rightarrow> (no_pull_request, False) | Some p \<Rightarrow> (p, True))"

definition Stale :: "watch_options \<Rightarrow> PRWatch \<Rightarrow> bool action" where
  "Stale opts t = bindE now (\<lambda>at. returnE (Watch_Stale t at (pw_FreshFor opts)))"

subsection \<open>When to look again\<close>

definition intervalFor :: "watch_options \<Rightarrow> PullRequest \<Rightarrow> duration" where
  "intervalFor opts p =
     (if pr_State p = ''merged'' \<or> pr_State p = ''closed'' then pw_SettledInterval opts else pw_Interval opts)"

fun doubled :: "nat \<Rightarrow> duration \<Rightarrow> duration" where
  "doubled 0 wait = wait"
| "doubled (Suc n) wait = (if wait * 2 \<ge> maxBackoff then maxBackoff else doubled n (wait * 2))"

text \<open>A random number below a quarter of the wait comes on top; the source's generator panics when
  there is none, for an interval under four nanoseconds.\<close>

definition backoffFor :: "watch_options \<Rightarrow> int \<Rightarrow> duration action" where
  "backoffFor opts failures = (\<lambda>w.
     let wait = doubled (nat (failures - 1)) (pw_Interval opts);
         quarter = quot wait 4
     in if quarter \<le> 0 then (Inl (OtherError ''panic: invalid argument to Int64N''), w)
        else (Inr (wait + int (w_jitter w (w_jittered w)) mod quarter), w\<lparr>w_jittered := Suc (w_jittered w)\<rparr>))"

definition tickInterval :: "watch_options \<Rightarrow> duration" where
  "tickInterval opts = (let tick = quot (pw_Interval opts) 4 in if tick < Second then Second else tick)"

subsection \<open>Polling\<close>

text \<open>Always ends in an error: the cause, or the store's.\<close>

definition recordFailure :: "watch_options \<Rightarrow> messaging_options option \<Rightarrow> PRWatch \<Rightarrow> forge_err \<Rightarrow> 'a action" where
  "recordFailure opts messaging t cause =
     bindE now (\<lambda>at.
     bindE (backoffFor opts (wt_Failures t + 1)) (\<lambda>wait.
     bindE (exec (RecordFailure (wt_ID t) (forge_text cause) at (at + wait))) (\<lambda>_.
     bindE (if wt_Failures t = 0
            then record_change messaging t ((change WatchUnreachable
                   (''github could not be reached: '' @ firstLine (forge_text cause)))\<lparr>we_At := at\<rparr>)
            else returnE ()) (\<lambda>_.
     bindE (signal_refreshed (wt_ID t)) (\<lambda>_.
     throwE (forge_error cause))))))"

definition with_observation :: "watch_options \<Rightarrow> PRWatch \<Rightarrow> PullRequest \<Rightarrow> string \<Rightarrow> instant \<Rightarrow> PRWatch" where
  "with_observation opts t observation account at = t\<lparr>wt_Account := account,
     wt_Snapshot := Some observation, wt_Title := pr_Title observation, wt_State := pr_State observation,
     wt_Draft := pr_Draft observation, wt_ChecksState := cs_State (pr_Checks observation),
     wt_Unresolved := UnresolvedThreads observation, wt_ObservedAt := at, wt_Failures := 0,
     wt_LastError := [], wt_NextPollAt := at + intervalFor opts observation\<rparr>"

definition recovery :: "PRWatch \<Rightarrow> instant \<Rightarrow> WatchEvent" where
  "recovery t at = (change WatchRecovered
     (''github is answering again (after '' @ itoa (wt_Failures t) @ '' failed attempts)''))\<lparr>we_At := at\<rparr>"

definition observe :: "watch_options \<Rightarrow> messaging_options option \<Rightarrow> PRWatch \<Rightarrow> PullRequest \<Rightarrow> string \<Rightarrow>
    PRWatch action" where
  "observe opts messaging t observation account =
     bindE now (\<lambda>at.
     let (previous, hadPrevious) = Snapshot_of t;
         updated = with_observation opts t observation account at
     in
     bindE (exec (RecordObservation updated)) (\<lambda>_.
     bindE (if wt_Failures t > 0 then record_change messaging updated (recovery t at) else returnE ()) (\<lambda>_.
     bindE (forE (changesBetween previous observation (\<not> hadPrevious))
              (\<lambda>c. record_change messaging updated (c\<lparr>we_At := at\<rparr>))) (\<lambda>_.
     bindE (signal_refreshed (wt_ID t)) (\<lambda>_.
     returnE updated)))))"

definition poll :: "watch_options \<Rightarrow> forge \<Rightarrow> messaging_options option \<Rightarrow> PRWatch \<Rightarrow> PRWatch action" where
  "poll opts fg messaging t = (\<lambda>w. case read_watch fg (w_ticks w) t of
      Inl cause \<Rightarrow> recordFailure opts messaging t cause w
    | Inr (observation, account) \<Rightarrow> observe opts messaging t observation account w)"

definition Refresh :: "watch_options \<Rightarrow> forge \<Rightarrow> messaging_options option \<Rightarrow> string \<Rightarrow> PRWatch action" where
  "Refresh opts fg messaging watchID =
     bindE (query (Watches_ByID watchID)) (\<lambda>t. poll opts fg messaging t)"

text \<open>\<open>ended n\<close> says whether the context had ended before the \<open>n\<close>-th poll.\<close>

fun sweep_each :: "watch_options \<Rightarrow> forge \<Rightarrow> messaging_options option \<Rightarrow> (nat \<Rightarrow> bool) \<Rightarrow> nat \<Rightarrow>
    PRWatch list \<Rightarrow> nat action" where
  "sweep_each opts fg messaging ended polled [] = returnE polled"
| "sweep_each opts fg messaging ended polled (t # rest) =
     (if ended polled then returnE polled
      else bindE (attemptE (poll opts fg messaging t)) (\<lambda>_.
           sweep_each opts fg messaging ended (polled + 1) rest))"

definition Sweep :: "watch_options \<Rightarrow> forge \<Rightarrow> messaging_options option \<Rightarrow> (nat \<Rightarrow> bool) \<Rightarrow> nat action" where
  "Sweep opts fg messaging ended =
     bindE now (\<lambda>at.
     bindE (attemptE (query (Due at pollBatch))) (\<lambda>r. case r of
       Inl _ \<Rightarrow> returnE 0
     | Inr due \<Rightarrow> sweep_each opts fg messaging ended 0 due))"

subsection \<open>Watching\<close>

fun github_not_found :: "err \<Rightarrow> bool" where
  "github_not_found (ErrGitHubNotFound _) = True"
| "github_not_found _ = False"

definition find_or_create :: "string \<Rightarrow> string \<Rightarrow> int \<Rightarrow> instant \<Rightarrow> PRWatch action" where
  "find_or_create owner repository number at =
     bindE (attemptE (query (ByReference owner repository number))) (\<lambda>found. case found of
       Inr t \<Rightarrow> returnE t
     | Inl e \<Rightarrow>
         if e = ErrNotFound then
           bindE (newID ''watch'') (\<lambda>watchID.
           let t = \<lparr>wt_ID = watchID, wt_Owner = owner, wt_Repository = repository, wt_Number = number,
                 wt_Account = [], wt_Snapshot = None, wt_Title = [], wt_State = ''unknown'', wt_Draft = False,
                 wt_ChecksState = ''unknown'', wt_Unresolved = 0, wt_ObservedAt = zeroTime, wt_Failures = 0,
                 wt_LastError = [], wt_LastErrorAt = zeroTime, wt_NextPollAt = at, wt_CreatedAt = at\<rparr>
           in bindE (exec (Watches_Create t)) (\<lambda>_. returnE t))
         else throwE e)"

definition Watch_pr :: "watch_options \<Rightarrow> forge \<Rightarrow> messaging_options option \<Rightarrow> string \<Rightarrow> string \<Rightarrow> string \<Rightarrow> int \<Rightarrow>
    PRWatch action" where
  "Watch_pr opts fg messaging agentID owner repository number =
     bindE now (\<lambda>at.
     bindE (find_or_create owner repository number at) (\<lambda>t.
     bindE (exec (Watches_Subscribe (wt_ID t) agentID at)) (\<lambda>_.
     bindE (attemptE (Refresh opts fg messaging (wt_ID t))) (\<lambda>r. case r of
       Inr refreshed \<Rightarrow> returnE refreshed
     | Inl e \<Rightarrow>
         if github_not_found e then
           bindE (attemptE (exec (Watches_Delete (wt_ID t)))) (\<lambda>_. throwE e)
         else query (Watches_ByID (wt_ID t))))))"

definition Unwatch :: "string \<Rightarrow> string \<Rightarrow> unit action" where
  "Unwatch agentID watchID = exec (Watches_Unsubscribe watchID agentID)"

definition Forget :: "string \<Rightarrow> unit action" where
  "Forget watchID = exec (Watches_Delete watchID)"

definition Watch_by_id :: "string \<Rightarrow> PRWatch action" where
  "Watch_by_id watchID = query (Watches_ByID watchID)"

definition Watch_by_reference :: "string \<Rightarrow> string \<Rightarrow> int \<Rightarrow> PRWatch action" where
  "Watch_by_reference owner repository number = query (ByReference owner repository number)"

definition Watches_of :: "string \<Rightarrow> PRWatch list action" where
  "Watches_of agentID = query (ListForAgent agentID)"

definition All_watches :: "PRWatch list action" where
  "All_watches = query Watches_List"

definition Watch_events :: "string \<Rightarrow> int \<Rightarrow> WatchEvent list action" where
  "Watch_events watchID limit = query (Events watchID limit)"

definition Watch_subscribers :: "string \<Rightarrow> string list action" where
  "Watch_subscribers watchID = query (Watches_Subscribers watchID)"

text \<open>There is no safety-net timer here: only the channel or the end of the context wakes the caller.\<close>

fun await_parked :: "interlude list \<Rightarrow> nat \<Rightarrow> string \<Rightarrow> world \<Rightarrow> PRWatch res option \<times> world" where
  "await_parked [] channel watchID w = (None, w)"
| "await_parked ((others, why) # ps) channel watchID w = (case why of
      ContextEnded ce \<Rightarrow> (Some (Inl (ContextDone ce)), others w)
    | _ \<Rightarrow> if channel \<in> set (ch_closed (w_refreshed (others w)))
          then (case query (Watches_ByID watchID) (others w) of (r, v) \<Rightarrow> (Some r, v))
          else await_parked ps channel watchID (others w))"

definition Await_watch :: "interlude list \<Rightarrow> string \<Rightarrow> world \<Rightarrow> PRWatch res option \<times> world" where
  "Await_watch ps watchID w = (case watch_refreshed watchID w of
      (Inl e, v) \<Rightarrow> (Some (Inl e), v)
    | (Inr channel, v) \<Rightarrow> await_parked ps channel watchID v)"

end
