(* ===== verification/PRWatchFacts.thy ===== *)
theory PRWatchFacts
  imports PRWatch DirectMail
begin

section \<open>What a poll leaves behind\<close>

text \<open>The closed form of the backoff, the changes between observations, and the effect of a poll on
  the tables of the watcher. Sending messages does not touch those tables.\<close>

subsection \<open>Backoff\<close>

lemma doubled_closed: "0 < wait \<Longrightarrow> doubled n wait = (if n = 0 then wait else min (wait * 2 ^ n) maxBackoff)"
proof (induction n wait rule: doubled.induct)
  case (2 n wait)
  have grow: "wait * 2 * 1 \<le> wait * 2 * 2 ^ n" using 2(2) by (intro mult_left_mono) simp_all
  show ?case
  proof (cases "wait * 2 \<ge> maxBackoff")
    case True
    with grow have "min (wait * 2 ^ Suc n) maxBackoff = maxBackoff" by (simp add: mult.assoc)
    with True show ?thesis by simp
  next
    case False
    with 2 show ?thesis by (simp add: mult.assoc)
  qed
qed simp

definition backoff_base :: "watch_options \<Rightarrow> int \<Rightarrow> duration" where
  "backoff_base opts failures =
     (if failures \<le> 0 then pw_Interval opts else min (pw_Interval opts * 2 ^ nat failures) maxBackoff)"

lemma backoffFor_run:
  assumes "4 \<le> pw_Interval opts"
  shows "\<exists>wait. backoffFor opts (failures + 1) w = (Inr wait, w\<lparr>w_jittered := Suc (w_jittered w)\<rparr>) \<and>
    backoff_base opts failures \<le> wait \<and> wait < backoff_base opts failures + backoff_base opts failures div 4"
proof -
  let ?base = "backoff_base opts failures"
  have base: "doubled (nat failures) (pw_Interval opts) = ?base"
    using assms by (simp add: doubled_closed backoff_base_def)
  have "pw_Interval opts * 1 \<le> pw_Interval opts * 2 ^ n" for n
    using assms by (intro mult_left_mono) simp_all
  with assms have four: "4 \<le> ?base"
    by (auto simp: backoff_base_def maxBackoff_def intro: order_trans)
  then have quarter: "quot ?base 4 = ?base div 4" "0 < ?base div 4" by (auto simp: quot_nonneg)
  with four have "0 \<le> int j mod (?base div 4)" "int j mod (?base div 4) < ?base div 4" for j
    by simp_all
  with quarter show ?thesis by (simp add: backoffFor_def base Let_def)
qed

lemma backoff_bounds:
  assumes "0 < pw_Interval opts"
  shows "min (pw_Interval opts) maxBackoff \<le> backoff_base opts failures"
    and "backoff_base opts failures \<le> max (pw_Interval opts) maxBackoff"
proof -
  have "pw_Interval opts * 1 \<le> pw_Interval opts * 2 ^ nat failures"
    using assms by (intro mult_left_mono) simp_all
  then show "min (pw_Interval opts) maxBackoff \<le> backoff_base opts failures"
    by (auto simp: backoff_base_def min_le_iff_disj)
  show "backoff_base opts failures \<le> max (pw_Interval opts) maxBackoff" by (auto simp: backoff_base_def)
qed

subsection \<open>Silence means nothing happened\<close>

definition nothing_happened :: "PullRequest \<Rightarrow> PullRequest \<Rightarrow> bool" where
  "nothing_happened before after \<longleftrightarrow>
     pr_State after = pr_State before \<and> pr_Draft after = pr_Draft before \<and>
     cs_State (pr_Checks after) = cs_State (pr_Checks before) \<and>
     (pr_HeadSHA after = pr_HeadSHA before \<or> pr_HeadSHA after = []) \<and>
     (\<forall>c \<in> set (pr_Comments after). cm_ID c \<in> cm_ID ` set (pr_Comments before)) \<and>
     (\<forall>v \<in> set (pr_Reviews after). rv_ID v \<in> rv_ID ` set (pr_Reviews before) \<or> rv_State v \<in> {''commented'', []}) \<and>
     (\<forall>t \<in> set (pr_Threads after). \<exists>known. previous_thread before (th_ID t) = Some known \<and>
        th_Resolved t = th_Resolved known \<and> length (th_Comments t) \<le> length (th_Comments known))"

lemma threadChange_Nil: "threadChange before t = [] \<longleftrightarrow> (\<exists>known. previous_thread before (th_ID t) = Some known \<and>
    th_Resolved t = th_Resolved known \<and> length (th_Comments t) \<le> length (th_Comments known))"
  by (auto simp: threadChange_def Let_def split: option.split)

lemma changes_Nil: "changesBetween before after False = [] \<longleftrightarrow> nothing_happened before after"
proof -
  have "commentChanges before after = [] \<longleftrightarrow>
      (\<forall>c \<in> set (pr_Comments after). cm_ID c \<in> cm_ID ` set (pr_Comments before))"
    by (auto simp: commentChanges_def filter_empty_conv)
  moreover have "reviewChanges before after = [] \<longleftrightarrow>
      (\<forall>v \<in> set (pr_Reviews after). rv_ID v \<in> rv_ID ` set (pr_Reviews before) \<or> rv_State v \<in> {''commented'', []})"
    by (auto simp: reviewChanges_def filter_empty_conv)
  moreover have "threadChanges before after = [] \<longleftrightarrow> (\<forall>t \<in> set (pr_Threads after). threadChange before t = [])"
    by (simp add: threadChanges_def)
  moreover have "stateChange before after = None \<longleftrightarrow> pr_State after = pr_State before \<and> pr_Draft after = pr_Draft before"
    by (auto simp: stateChange_def)
  moreover have "checksChange before after = None \<longleftrightarrow> cs_State (pr_Checks after) = cs_State (pr_Checks before)"
    by (auto simp: checksChange_def Let_def)
  moreover have "commitChange before after = None \<longleftrightarrow> pr_HeadSHA after = pr_HeadSHA before \<or> pr_HeadSHA after = []"
    by (auto simp: commitChange_def)
  moreover have "changesBetween before after False = [] \<longleftrightarrow> stateChange before after = None \<and>
      checksChange before after = None \<and> commitChange before after = None \<and>
      commentChanges before after = [] \<and> reviewChanges before after = [] \<and> threadChanges before after = []"
    by (simp add: changesBetween_def split: option.split)
  ultimately show ?thesis
    by (simp only: nothing_happened_def threadChange_Nil conj_assoc)
qed

lemma nothing_happened_refl: "distinct (map th_ID (pr_Threads p)) \<Longrightarrow> nothing_happened p p"
proof -
  assume d: "distinct (map th_ID (pr_Threads p))"
  have "previous_thread p (th_ID t) = Some t" if "t \<in> set (pr_Threads p)" for t
  proof -
    have "distinct (map fst (rev (map (\<lambda>t. (th_ID t, t)) (pr_Threads p))))"
      using d by (simp add: comp_def flip: rev_map)
    then show ?thesis using that by (simp add: previous_thread_def)
  qed
  then show ?thesis by (auto simp: nothing_happened_def)
qed

subsection \<open>Sending is apart from watching\<close>

definition watching :: "db \<Rightarrow> agents_row list \<times> watches_row list \<times> watch_subscribers_row list \<times> watch_events_row list \<times> int" where
  "watching d = (agents d, watches d, watch_subscribers d, watch_events d, watch_events_seq d)"

definition apart :: "world \<Rightarrow> world \<Rightarrow> bool" where
  "apart w w' \<longleftrightarrow> watching (w_db w') = watching (w_db w) \<and> w_refreshed w' = w_refreshed w"

interpretation apart: effect_order apart
  by unfold_locales (auto simp: apart_def)

lemma apart_now: "conforms apart now"
  by (simp add: conforms_def apart_def)

lemma apart_newID: "conforms apart (newID kind)"
  by (simp add: conforms_def apart_def newID_def split: prod.split)

lemma apart_query: "conforms apart (query q)"
  by (simp add: conforms_def apart_def)

lemma apart_exec: "(\<And>d d'. x d = Inr d' \<Longrightarrow> watching d' = watching d) \<Longrightarrow> conforms apart (exec x)"
  by (auto simp: conforms_def apart_def exec_def split: sum.split)

lemma apart_transaction: "conforms apart fn \<Longrightarrow> conforms apart (transaction fn)"
proof (rule conformsI)
  fix w r w'
  assume fn: "conforms apart fn" and run: "transaction fn w = (r, w')"
  obtain q v where q: "fn w = (q, v)" by force
  from conformsD [OF fn q] run q show "apart w w'"
    by (auto simp: apart_def InTransaction_def split: sum.splits)
qed

lemmas apart_intros = apart.resp_intros apart_now apart_newID apart_query apart_transaction

lemma watching_insert: "watching (insert_delivery m r d) = watching d"
  by (simp add: insert_delivery_def watching_def)

lemma watching_Append: "Messages_Append m rs d = Inr d' \<Longrightarrow> watching d' = watching d"
proof -
  have fold: "watching (fold (insert_delivery i) rs d) = watching d" for i d
    by (induction rs arbitrary: d) (simp_all add: watching_insert)
  assume "Messages_Append m rs d = Inr d'"
  then have "d' = fold (insert_delivery (msg_ID m)) rs (d\<lparr>messages := messages d @ [message_row_of m]\<rparr>)"
    by (auto simp: Messages_Append_def translated_constrained split: sum.splits if_splits)
  then have "watching d' = watching (d\<lparr>messages := messages d @ [message_row_of m]\<rparr>)" by (simp add: fold)
  then show ?thesis by (simp add: watching_def)
qed

lemma watching_Audit: "Audit_Append e d = Inr d' \<Longrightarrow> watching d' = watching d"
  by (auto simp: Audit_Append_def watching_def split: if_splits)

lemma apart_Broadcast: "conforms apart (Broadcast a m ps)"
  by (simp add: conforms_def apart_def Broadcast_def)

lemma apart_notify_each: "conforms apart (notify_each m rs)"
proof (induction rs)
  case Nil
  show ?case unfolding notify_each.simps by (rule apart.resp_return)
next
  case (Cons r rs)
  show ?case unfolding notify_each.simps by (intro apart_intros apart_Broadcast Cons.IH)
qed

lemma apart_Send: "conforms apart (Send mopts request)"
  unfolding Send_def store_message_def notify_def Let_def
  by (auto split: prod.split intro!: apart_intros apart_exec apart_notify_each
      dest: watching_Append watching_Audit)

lemma apart_sender: "conforms apart (sender fallback)"
  by (simp add: conforms_def apart_def sender_def)

lemma apart_notify: "conforms apart (notify_watchers messaging t event)"
  unfolding notify_watchers_def tell_def ByID_def
  by (auto split: option.split sum.split intro!: apart_intros apart_Send apart_sender)

subsection \<open>Events\<close>

definition event_row :: "string \<Rightarrow> instant \<Rightarrow> int \<Rightarrow> WatchEvent \<Rightarrow> watch_events_row" where
  "event_row watchID at n c = \<lparr>watch_events_id = n, watch_events_watch_id = watchID,
     watch_events_kind = we_Kind c, watch_events_summary = we_Summary c, watch_events_at = requireMicros at\<rparr>"

fun event_rows :: "string \<Rightarrow> instant \<Rightarrow> int \<Rightarrow> WatchEvent list \<Rightarrow> watch_events_row list" where
  "event_rows watchID at n [] = []"
| "event_rows watchID at n (c # cs) = event_row watchID at (n + 1) c # event_rows watchID at (n + 1) cs"

text \<open>The tables after some events were logged, as a function of the tables before.\<close>

definition logged :: "string \<Rightarrow> instant \<Rightarrow> WatchEvent list \<Rightarrow> db \<Rightarrow> db \<Rightarrow> bool" where
  "logged watchID at cs d d' \<longleftrightarrow> agents d' = agents d \<and> watches d' = watches d \<and>
     watch_subscribers d' = watch_subscribers d \<and>
     watch_events d' = watch_events d @ event_rows watchID at (watch_events_seq d) cs \<and>
     watch_events_seq d' = watch_events_seq d + int (length cs)"

lemma logged_Nil: "watching d' = watching d \<Longrightarrow> logged i at [] d d'"
  by (simp add: logged_def watching_def)

lemma logged_Cons: "logged i at [c] d d1 \<Longrightarrow> logged i at cs d1 d' \<Longrightarrow> logged i at (c # cs) d d'"
  by (simp add: logged_def)

lemma logged_exists: "logged i at cs d d' \<Longrightarrow> watch_exists d' j = watch_exists d j"
  by (simp add: logged_def watch_exists_def)

lemma record_run:
  assumes "watch_exists (w_db w) (wt_ID t)" and "wt_ID t \<noteq> []" and "we_Kind c \<noteq> NoWatchEventKind"
    and "at \<noteq> zeroTime"
  shows "\<exists>w'. record_change messaging t (c\<lparr>we_At := at\<rparr>) w = (Inr (), w') \<and>
    logged (wt_ID t) at [c] (w_db w) (w_db w') \<and> w_refreshed w' = w_refreshed w"
proof -
  let ?e = "c\<lparr>we_At := at, we_WatchID := wt_ID t\<rparr>"
  let ?d = "(w_db w)\<lparr>watch_events_seq := watch_events_seq (w_db w) + 1,
     watch_events := watch_events (w_db w) @ [event_row (wt_ID t) at (watch_events_seq (w_db w) + 1) c]\<rparr>"
  have log: "AppendEvent ?e (w_db w) = Inr ?d"
    using assms(1-3) by (simp add: AppendEvent_def translated_constrained event_row_def)
  have "\<exists>w'. notify_watchers messaging t ?e (w\<lparr>w_db := ?d\<rparr>) = (Inr (), w')"
  proof -
    have each: "\<exists>v. forE ss (tell mopts body) u = (Inr (), v)" for ss mopts body u
    proof (induction ss arbitrary: u)
      case (Cons s ss)
      have "\<exists>v. tell mopts body s u = (Inr (), v)"
        by (auto simp: tell_def bindE_def sender_def attemptE_def split: prod.split sum.split)
      with Cons show ?case by (metis bindE_ok forE.simps(2))
    qed simp
    show ?thesis
      using each by (auto simp: notify_watchers_def Watches_Subscribers_def bindE_def attemptE_def
          split: option.split)
  qed
  then obtain w' where told: "notify_watchers messaging t ?e (w\<lparr>w_db := ?d\<rparr>) = (Inr (), w')" by blast
  have "apart (w\<lparr>w_db := ?d\<rparr>) w'" using told by (rule conformsD [OF apart_notify])
  then have "logged (wt_ID t) at [c] (w_db w) (w_db w')" "w_refreshed w' = w_refreshed w"
    by (simp_all add: apart_def logged_def watching_def)
  moreover have "record_change messaging t (c\<lparr>we_At := at\<rparr>) w = (Inr (), w')"
    using assms(4) log told by (simp add: record_change_def dated_def IsZero_def exec_def bindE_def attemptE_def)
  ultimately show ?thesis by blast
qed

lemma record_all:
  assumes "watch_exists (w_db w) (wt_ID t)" and "wt_ID t \<noteq> []" and "at \<noteq> zeroTime"
    and "\<forall>c \<in> set cs. we_Kind c \<noteq> NoWatchEventKind"
  shows "\<exists>w'. forE cs (\<lambda>c. record_change messaging t (c\<lparr>we_At := at\<rparr>)) w = (Inr (), w') \<and>
    logged (wt_ID t) at cs (w_db w) (w_db w') \<and> w_refreshed w' = w_refreshed w"
  using assms
proof (induction cs arbitrary: w)
  case Nil
  then show ?case by (simp add: logged_Nil)
next
  case (Cons c cs)
  from Cons.prems have "we_Kind c \<noteq> NoWatchEventKind" by simp
  from record_run [OF Cons.prems(1,2) this Cons.prems(3), of messaging] obtain w1 where
    one: "record_change messaging t (c\<lparr>we_At := at\<rparr>) w = (Inr (), w1)"
      "logged (wt_ID t) at [c] (w_db w) (w_db w1)" "w_refreshed w1 = w_refreshed w" by blast
  have "watch_exists (w_db w1) (wt_ID t)" using Cons.prems(1) logged_exists [OF one(2)] by simp
  from Cons.IH [OF this Cons.prems(2,3)] Cons.prems(4) obtain w' where
    rest: "forE cs (\<lambda>c. record_change messaging t (c\<lparr>we_At := at\<rparr>)) w1 = (Inr (), w')"
      "logged (wt_ID t) at cs (w_db w1) (w_db w')" "w_refreshed w' = w_refreshed w1" by auto
  then show ?case using one by (auto intro: logged_Cons)
qed

lemma changes_have_a_kind: "c \<in> set (changesBetween before after is_first) \<Longrightarrow> we_Kind c \<noteq> NoWatchEventKind"
proof -
  have kinds: "we_Kind (change k s) = k" for k s by (simp add: change_def)
  have 1: "stateChange before after = Some c \<Longrightarrow> we_Kind c = WatchState" for c
    by (auto simp: stateChange_def kinds split: if_splits)
  have 2: "checksChange before after = Some c \<Longrightarrow> we_Kind c = WatchChecks" for c
    by (auto simp: checksChange_def Let_def kinds split: if_splits)
  have 3: "commitChange before after = Some c \<Longrightarrow> we_Kind c = WatchCommits" for c
    by (auto simp: commitChange_def kinds split: if_splits)
  have 4: "c \<in> set (commentChanges before after) \<Longrightarrow> we_Kind c = WatchComment"
    by (auto simp: commentChanges_def kinds)
  have 5: "c \<in> set (reviewChanges before after) \<Longrightarrow> we_Kind c = WatchReview"
    by (auto simp: reviewChanges_def kinds)
  have 6: "c \<in> set (threadChange before t) \<Longrightarrow> we_Kind c = WatchThread" for t
    by (auto simp: threadChange_def Let_def kinds split: if_splits option.splits)
  assume "c \<in> set (changesBetween before after is_first)"
  then show ?thesis
    using 1 2 3 4 5 6 by (fastforce simp: changesBetween_def threadChanges_def split: if_splits option.splits)
qed

subsection \<open>A poll\<close>

definition observed_row :: "watch_options \<Rightarrow> PullRequest \<Rightarrow> string \<Rightarrow> instant \<Rightarrow> watches_row \<Rightarrow> watches_row" where
  "observed_row opts p account at r = r\<lparr>watches_account := account, watches_snapshot := Some p,
     watches_state := pr_State p, watches_draft := boolToInt (pr_Draft p), watches_title := pr_Title p,
     watches_checks_state := cs_State (pr_Checks p), watches_unresolved := UnresolvedThreads p,
     watches_observed_at := Some (requireMicros at), watches_failures := 0, watches_last_error := [],
     watches_next_poll_at := requireMicros (at + intervalFor opts p)\<rparr>"

definition failed_row :: "string \<Rightarrow> instant \<Rightarrow> duration \<Rightarrow> watches_row \<Rightarrow> watches_row" where
  "failed_row reason at wait r = r\<lparr>watches_failures := watches_failures r + 1, watches_last_error := reason,
     watches_last_error_at := Some (requireMicros at), watches_next_poll_at := requireMicros (at + wait)\<rparr>"

definition poll_events :: "PRWatch \<Rightarrow> PullRequest \<Rightarrow> instant \<Rightarrow> WatchEvent list" where
  "poll_events t p at = (if wt_Failures t > 0 then [recovery t at] else []) @
     (case wt_Snapshot t of None \<Rightarrow> [] | Some previous \<Rightarrow> changesBetween previous p False)"

definition failure_events :: "PRWatch \<Rightarrow> forge_err \<Rightarrow> WatchEvent list" where
  "failure_events t cause = (if wt_Failures t = 0
     then [change WatchUnreachable (''github could not be reached: '' @ firstLine (forge_text cause))] else [])"

definition wakes :: "string \<Rightarrow> world \<Rightarrow> world \<Rightarrow> bool" where
  "wakes key w w' \<longleftrightarrow> w_refreshed w' = refreshed_signal key (w_refreshed w)"

lemma wakes_parked: "wakes key w w' \<Longrightarrow> map_of (ch_open (w_refreshed w)) key = Some n \<Longrightarrow>
    n \<in> set (ch_closed (w_refreshed w'))"
  by (simp add: wakes_def refreshed_signal_def)

lemma updated_exists: "(\<And>r. watches_id (f r) = watches_id r) \<Longrightarrow>
    watch_exists (d\<lparr>watches := update_where P f (watches d)\<rparr>) i = watch_exists d i"
  by (auto simp: watch_exists_def exists_where_def update_where_def list_ex_iff)

lemma exists_counted: "watch_exists d i \<Longrightarrow> count_where (\<lambda>r. watches_id r = i) (watches d) \<noteq> 0"
  by (simp add: watch_exists_def count_where_zero)

text \<open>A poll that GitHub answered stores the observation, logs its events and signals.\<close>

definition observed_world :: "watch_options \<Rightarrow> PRWatch \<Rightarrow> PullRequest \<Rightarrow> string \<Rightarrow> world \<Rightarrow> world" where
  "observed_world opts t p account w = w\<lparr>w_ticks := Suc (w_ticks w), w_db := (w_db w)\<lparr>watches :=
     update_where (\<lambda>r. watches_id r = wt_ID t) (observed_row opts p account (time_of w)) (watches (w_db w))\<rparr>\<rparr>"

lemma observe_eq:
  assumes ex: "watch_exists (w_db w) (wt_ID t)"
    and log: "forE (poll_events t p (time_of w))
      (\<lambda>c. record_change messaging (with_observation opts t p account (time_of w)) (c\<lparr>we_At := time_of w\<rparr>))
      (observed_world opts t p account w) = (Inr (), v)"
  shows "observe opts messaging t p account w = (Inr (with_observation opts t p account (time_of w)),
    v\<lparr>w_refreshed := refreshed_signal (wt_ID t) (w_refreshed v)\<rparr>)"
proof -
  let ?at = "time_of w" and ?w1 = "w\<lparr>w_ticks := Suc (w_ticks w)\<rparr>"
  let ?t = "with_observation opts t p account ?at" and ?w2 = "observed_world opts t p account w"
  let ?log1 = "\<lambda>c. record_change messaging ?t (c\<lparr>we_At := ?at\<rparr>)"
  have rec: "exec (RecordObservation ?t) ?w1 = (Inr (), ?w2)"
    using exists_counted [OF ex]
    by (simp add: exec_def RecordObservation_def affectedOrNotFound_def observed_world_def with_observation_def
        observed_row_def [abs_def])
  obtain previous had where snap: "Snapshot_of t = (previous, had)" by force
  let ?cs = "case wt_Snapshot t of None \<Rightarrow> [] | Some previous \<Rightarrow> changesBetween previous p False"
  have cs: "changesBetween previous p (\<not> had) = ?cs"
    using snap by (auto simp: Snapshot_of_def changesBetween_def split: option.splits)
  from log obtain v1 where one: "forE (if wt_Failures t > 0 then [recovery t ?at] else []) ?log1 ?w2 = (Inr (), v1)"
    and two: "forE ?cs ?log1 v1 = (Inr (), v)"
    by (auto simp: poll_events_def forE_append bindE_Inr simp del: forE.simps)
  have "recovery t ?at\<lparr>we_At := ?at\<rparr> = recovery t ?at" by (simp add: recovery_def)
  with one have "(if wt_Failures t > 0 then record_change messaging ?t (recovery t ?at) else returnE ()) ?w2
      = (Inr (), v1)" by (auto simp: bindE_def split: if_splits prod.splits sum.splits)
  then show ?thesis
    using rec two by (simp add: observe_def Let_def snap cs signal_refreshed_def split del: if_split)
qed

lemma poll_events_kinds: "\<forall>c \<in> set (poll_events t p at). we_Kind c \<noteq> NoWatchEventKind"
  using changes_have_a_kind by (auto simp: poll_events_def recovery_def change_def split: option.splits)

lemma observe_run:
  assumes ex: "watch_exists (w_db w) (wt_ID t)" and id: "wt_ID t \<noteq> []" and clock: "time_of w \<noteq> zeroTime"
  shows "\<exists>w'. observe opts messaging t p account w = (Inr (with_observation opts t p account (time_of w)), w') \<and>
    watches (w_db w') = update_where (\<lambda>r. watches_id r = wt_ID t) (observed_row opts p account (time_of w))
      (watches (w_db w)) \<and>
    watch_subscribers (w_db w') = watch_subscribers (w_db w) \<and>
    watch_events (w_db w') = watch_events (w_db w) @
      event_rows (wt_ID t) (time_of w) (watch_events_seq (w_db w)) (poll_events t p (time_of w)) \<and>
    wakes (wt_ID t) w w'"
proof -
  let ?w2 = "observed_world opts t p account w" and ?t = "with_observation opts t p account (time_of w)"
  have tid: "wt_ID ?t = wt_ID t" by (simp add: with_observation_def)
  have ex2: "watch_exists (w_db ?w2) (wt_ID ?t)"
    using ex by (simp add: observed_world_def tid updated_exists observed_row_def)
  have id2: "wt_ID ?t \<noteq> []" using id tid by simp
  from record_all [OF ex2 id2 clock poll_events_kinds [of t p "time_of w"], of messaging] obtain v where
    log: "forE (poll_events t p (time_of w)) (\<lambda>c. record_change messaging ?t (c\<lparr>we_At := time_of w\<rparr>)) ?w2 = (Inr (), v)"
      "logged (wt_ID ?t) (time_of w) (poll_events t p (time_of w)) (w_db ?w2) (w_db v)"
      "w_refreshed v = w_refreshed ?w2"
    by blast
  from observe_eq [OF ex log(1)] log(2,3) show ?thesis
    by (simp add: logged_def observed_world_def wakes_def tid)
qed

lemma recordFailure_run:
  assumes ex: "watch_exists (w_db w) (wt_ID t)" and id: "wt_ID t \<noteq> []" and clock: "time_of w \<noteq> zeroTime"
    and interval: "4 \<le> pw_Interval opts"
  shows "\<exists>w' wait. recordFailure opts messaging t cause w = (Inl (forge_error cause), w') \<and>
    backoff_base opts (wt_Failures t) \<le> wait \<and>
    wait < backoff_base opts (wt_Failures t) + backoff_base opts (wt_Failures t) div 4 \<and>
    watches (w_db w') = update_where (\<lambda>r. watches_id r = wt_ID t) (failed_row (forge_text cause) (time_of w) wait)
      (watches (w_db w)) \<and>
    watch_subscribers (w_db w') = watch_subscribers (w_db w) \<and>
    watch_events (w_db w') = watch_events (w_db w) @
      event_rows (wt_ID t) (time_of w) (watch_events_seq (w_db w)) (failure_events t cause) \<and>
    wakes (wt_ID t) w w'"
proof -
  let ?at = "time_of w" and ?w1 = "w\<lparr>w_ticks := Suc (w_ticks w)\<rparr>"
  from backoffFor_run [OF interval, of "wt_Failures t" ?w1] obtain wait where
    wait: "backoffFor opts (wt_Failures t + 1) ?w1 = (Inr wait, ?w1\<lparr>w_jittered := Suc (w_jittered w)\<rparr>)"
      "backoff_base opts (wt_Failures t) \<le> wait"
      "wait < backoff_base opts (wt_Failures t) + backoff_base opts (wt_Failures t) div 4" by auto
  define d1 where "d1 = (w_db w)\<lparr>watches := update_where (\<lambda>r. watches_id r = wt_ID t)
      (failed_row (forge_text cause) ?at wait) (watches (w_db w))\<rparr>"
  have rec: "RecordFailure (wt_ID t) (forge_text cause) ?at (?at + wait) (w_db w) = Inr d1"
    using exists_counted [OF ex]
    by (simp add: RecordFailure_def affectedOrNotFound_def d1_def failed_row_def [abs_def])
  let ?w2 = "?w1\<lparr>w_jittered := Suc (w_jittered w), w_db := d1\<rparr>"
  have ex1: "watch_exists (w_db ?w2) (wt_ID t)"
    using ex by (simp add: d1_def updated_exists failed_row_def)
  let ?cs = "failure_events t cause"
  have "\<forall>c \<in> set ?cs. we_Kind c \<noteq> NoWatchEventKind" by (simp add: failure_events_def change_def)
  from record_all [OF ex1 id clock this, of messaging] obtain w3 where
    one: "forE ?cs (\<lambda>c. record_change messaging t (c\<lparr>we_At := ?at\<rparr>)) ?w2 = (Inr (), w3)"
      "logged (wt_ID t) ?at ?cs d1 (w_db w3)" "w_refreshed w3 = w_refreshed w" by auto
  from one(1) have rec3: "(if wt_Failures t = 0
            then record_change messaging t ((change WatchUnreachable
                   (''github could not be reached: '' @ firstLine (forge_text cause)))\<lparr>we_At := ?at\<rparr>)
            else returnE ()) ?w2 = (Inr (), w3)"
    by (auto simp: failure_events_def bindE_def split: if_splits prod.splits sum.splits)
  let ?w4 = "w3\<lparr>w_refreshed := refreshed_signal (wt_ID t) (w_refreshed w3)\<rparr>"
  have "recordFailure opts messaging t cause w = (Inl (forge_error cause), ?w4)"
    using rec3 rec wait(1) by (simp add: recordFailure_def bindE_def exec_def signal_refreshed_def)
  then show ?thesis
    using one(2,3) wait(2,3) by (intro exI [of _ ?w4] exI [of _ wait]) (simp add: logged_def d1_def wakes_def)
qed

subsection \<open>Every subscriber hears of every change\<close>

definition subscribers_of :: "db \<Rightarrow> string \<Rightarrow> string list" where
  "subscribers_of d watchID = map watch_subscribers_agent_id
     (sort_key (\<lambda>s. (watch_subscribers_subscribed_at s, watch_subscribers_agent_id s))
       (filter (\<lambda>s. watch_subscribers_watch_id s = watchID) (watch_subscribers d)))"

lemma set_subscribers_of: "set (subscribers_of d i) =
    watch_subscribers_agent_id ` {s \<in> set (watch_subscribers d). watch_subscribers_watch_id s = i}"
  by (simp add: subscribers_of_def)

definition active_agent :: "db \<Rightarrow> string \<Rightarrow> bool" where
  "active_agent d a \<longleftrightarrow> (\<exists>r \<in> set (agents d). agents_id r = a \<and> agents_state r = AgentActive)"

text \<open>What sending needs, and what it keeps for the next message.\<close>

definition can_send :: "nat \<Rightarrow> world \<Rightarrow> bool" where
  "can_send n w \<longleftrightarrow> named_roster (w_db w) \<and> mail_ok (w_db w) \<and> fresh_ids n w"

definition has_update :: "db \<Rightarrow> string \<Rightarrow> string \<Rightarrow> bool" where
  "has_update d body a \<longleftrightarrow> (\<exists>m \<in> mailbox d a. messages_kind m = PRMessageKind \<and> messages_body m = body)"

definition keeps_mail :: "world \<Rightarrow> world \<Rightarrow> bool" where
  "keeps_mail w w' \<longleftrightarrow> agents (w_db w') = agents (w_db w) \<and> (\<forall>a. mailbox (w_db w) a \<subseteq> mailbox (w_db w') a)"

lemma keeps_mail_trans: "keeps_mail u v \<Longrightarrow> keeps_mail v w \<Longrightarrow> keeps_mail u w"
  by (auto simp: keeps_mail_def)

lemma keeps_active: "keeps_mail w w' \<Longrightarrow> active_agent (w_db w') a = active_agent (w_db w) a"
  by (simp add: keeps_mail_def active_agent_def)

lemma keeps_update: "keeps_mail w w' \<Longrightarrow> has_update (w_db w) body a \<Longrightarrow> has_update (w_db w') body a"
  by (auto simp: keeps_mail_def has_update_def)

lemma can_send_elsewhere:
  assumes "same_mail (w_db w) (w_db w')" and "agents (w_db w') = agents (w_db w)"
    and "w_entropy w' = w_entropy w" and "w_drawn w' = w_drawn w"
  shows "can_send n w' = can_send n w" and "keeps_mail w w'"
proof -
  have "msg_id_at w' = msg_id_at w" using assms(3) by (simp add: fun_eq_iff msg_id_at_def)
  then show "can_send n w' = can_send n w"
    using assms mail_ok_same [OF assms(1)]
    by (simp add: can_send_def named_roster_def roster_ok_def fresh_ids_def message_exists_def same_mail_def)
  show "keeps_mail w w'" using assms(2) mailbox_same [OF assms(1)] by (simp add: keeps_mail_def)
qed

lemma PRMessageKind_ok: "nameSyntax PRMessageKind"
  by code_simp

lemma tell_one:
  assumes can: "can_send (Suc n) w" and a: "active_agent (w_db w) a" and body: "json_Valid body"
  shows "\<exists>w'. tell mopts body a w = (Inr (), w') \<and> can_send n w' \<and> keeps_mail w w' \<and> has_update (w_db w') body a"
proof -
  from a obtain r where r: "r \<in> set (agents (w_db w))" "agents_id r = a" "agents_state r = AgentActive"
    by (auto simp: active_agent_def)
  have roster: "named_roster (w_db w)" and mail: "mail_ok (w_db w)" and ids: "fresh_ids (Suc n) w"
    using can by (simp_all add: can_send_def)
  let ?from = "if w_senderID w = [] then a else w_senderID w"
  have from_ok: "?from \<noteq> []" using roster r by (auto simp: named_roster_def)
  have byid: "ByID a w = (Inr (scanAgent r), w)"
    using roster r(1,2) by (auto simp: ByID_def Agents_ByID_def named_roster_def roster_ok_def agents_table.find_by_key)
  from direct_message [OF roster mail ids from_ok PRMessageKind_ok body r(1,3), of mopts] obtain sent w' where
    sent: "Send mopts \<lparr>snd_FromAgentID = ?from, snd_ToAgentName = agents_name r, snd_Topic = [],
        snd_Kind = PRMessageKind, snd_Body = body\<rparr> w = (Inr sent, w')"
      "agents (w_db w') = agents (w_db w)" "mail_ok (w_db w')" "fresh_ids n w'"
      "\<forall>a. mailbox (w_db w) a \<subseteq> mailbox (w_db w') a"
      "\<exists>m \<in> mailbox (w_db w') (agents_id r). messages_from_agent_id m = ?from \<and>
         messages_kind m = PRMessageKind \<and> messages_body m = body" by blast
  have "tell mopts body a w = (Inr (), w')"
    using sent(1) by (simp add: tell_def byid sender_def scanAgent_def split del: if_split)
  moreover have "can_send n w'" using roster sent(2-4) by (simp add: can_send_def named_roster_def roster_ok_def)
  moreover have "keeps_mail w w'" using sent(2,5) by (simp add: keeps_mail_def)
  moreover have "has_update (w_db w') body a" using sent(6) r(2) by (auto simp: has_update_def)
  ultimately show ?thesis by blast
qed

lemma tell_all:
  assumes "can_send (length ss + n) w" and "\<forall>a \<in> set ss. active_agent (w_db w) a" and "json_Valid body"
  shows "\<exists>w'. forE ss (tell mopts body) w = (Inr (), w') \<and> can_send n w' \<and> keeps_mail w w' \<and>
    (\<forall>a \<in> set ss. has_update (w_db w') body a)"
  using assms
proof (induction ss arbitrary: w)
  case Nil
  then show ?case by (simp add: keeps_mail_def)
next
  case (Cons a ss)
  have "can_send (Suc (length ss + n)) w" "active_agent (w_db w) a" using Cons.prems by simp_all
  from tell_one [OF this Cons.prems(3), of mopts] obtain w1 where
    one: "tell mopts body a w = (Inr (), w1)" "can_send (length ss + n) w1" "keeps_mail w w1"
      "has_update (w_db w1) body a" by blast
  have "\<forall>a \<in> set ss. active_agent (w_db w1) a" using Cons.prems(2) keeps_active [OF one(3)] by simp
  from Cons.IH [OF one(2) this Cons.prems(3)] obtain w' where
    rest: "forE ss (tell mopts body) w1 = (Inr (), w')" "can_send n w'" "keeps_mail w1 w'"
      "\<forall>a \<in> set ss. has_update (w_db w') body a" by blast
  moreover have "has_update (w_db w') body a" using rest(3) one(4) by (rule keeps_update)
  ultimately show ?case using one(1) keeps_mail_trans [OF one(3) rest(3)] by simp
qed

lemma change_body_valid: "json_Valid (change_body t c)"
  by (simp add: change_body_def json_object_valid)

lemma change_body_at: "change_body t (c\<lparr>we_At := at, we_WatchID := i\<rparr>) = change_body t c"
  by (simp add: change_body_def)

lemma record_tells:
  assumes ex: "watch_exists (w_db w) (wt_ID t)" "wt_ID t \<noteq> []" "we_Kind c \<noteq> NoWatchEventKind" "at \<noteq> zeroTime"
    and can: "can_send (length (subscribers_of (w_db w) (wt_ID t)) + n) w"
    and active: "\<forall>a \<in> set (subscribers_of (w_db w) (wt_ID t)). active_agent (w_db w) a"
  shows "\<exists>w'. record_change (Some mopts) t (c\<lparr>we_At := at\<rparr>) w = (Inr (), w') \<and> can_send n w' \<and> keeps_mail w w' \<and>
    (\<forall>a \<in> set (subscribers_of (w_db w) (wt_ID t)). has_update (w_db w') (change_body t c) a)"
proof -
  let ?e = "c\<lparr>we_At := at, we_WatchID := wt_ID t\<rparr>" and ?ss = "subscribers_of (w_db w) (wt_ID t)"
  let ?d = "(w_db w)\<lparr>watch_events_seq := watch_events_seq (w_db w) + 1,
     watch_events := watch_events (w_db w) @ [event_row (wt_ID t) at (watch_events_seq (w_db w) + 1) c]\<rparr>"
  let ?w1 = "w\<lparr>w_db := ?d\<rparr>"
  have log: "AppendEvent ?e (w_db w) = Inr ?d"
    using ex(1-3) by (simp add: AppendEvent_def translated_constrained event_row_def)
  have same: "keeps_mail w ?w1" and can1: "can_send (length ?ss + n) ?w1"
    using can can_send_elsewhere [of w ?w1] by (simp_all add: same_mail_def)
  have act1: "\<forall>a \<in> set ?ss. active_agent (w_db ?w1) a" using active keeps_active [OF same] by simp
  from tell_all [OF can1 act1 change_body_valid [of t c], of mopts] obtain w' where
    told: "forE ?ss (tell mopts (change_body t c)) ?w1 = (Inr (), w')" "can_send n w'" "keeps_mail ?w1 w'"
      "\<forall>a \<in> set ?ss. has_update (w_db w') (change_body t c) a" by blast
  have "notify_watchers (Some mopts) t ?e ?w1 = (Inr (), w')"
  proof -
    have "Watches_Subscribers (wt_ID t) (w_db ?w1) = Inr ?ss"
      by (simp add: Watches_Subscribers_def subscribers_of_def)
    moreover have "(if ss = [] then returnE () else forE ss f) = forE ss f" for ss :: "string list" and f :: "string \<Rightarrow> unit action"
      by (cases ss) simp_all
    ultimately show ?thesis using told(1) by (simp add: notify_watchers_def change_body_at split del: if_split)
  qed
  then have "record_change (Some mopts) t (c\<lparr>we_At := at\<rparr>) w = (Inr (), w')"
    using ex(4) log by (simp add: record_change_def dated_def IsZero_def exec_def bindE_def attemptE_def)
  with told keeps_mail_trans [OF same told(3)] show ?thesis by blast
qed

lemma record_all_tells:
  assumes "watch_exists (w_db w) (wt_ID t)" and "wt_ID t \<noteq> []" and "at \<noteq> zeroTime"
    and "\<forall>c \<in> set cs. we_Kind c \<noteq> NoWatchEventKind"
    and "can_send (length cs * length (subscribers_of (w_db w) (wt_ID t))) w"
    and "\<forall>a \<in> set (subscribers_of (w_db w) (wt_ID t)). active_agent (w_db w) a"
  shows "\<exists>w'. forE cs (\<lambda>c. record_change (Some mopts) t (c\<lparr>we_At := at\<rparr>)) w = (Inr (), w') \<and> keeps_mail w w' \<and>
    (\<forall>c \<in> set cs. \<forall>a \<in> set (subscribers_of (w_db w) (wt_ID t)). has_update (w_db w') (change_body t c) a)"
  using assms
proof (induction cs arbitrary: w)
  case Nil
  then show ?case by (simp add: keeps_mail_def)
next
  case (Cons c cs)
  let ?ss = "subscribers_of (w_db w) (wt_ID t)"
  have kind: "we_Kind c \<noteq> NoWatchEventKind"
    and can: "can_send (length ?ss + length cs * length ?ss) w" using Cons.prems(4,5) by simp_all
  from record_tells [OF Cons.prems(1,2) kind Cons.prems(3) can Cons.prems(6), of mopts] obtain w1 where
    one: "record_change (Some mopts) t (c\<lparr>we_At := at\<rparr>) w = (Inr (), w1)"
      "can_send (length cs * length ?ss) w1" "keeps_mail w w1"
      "\<forall>a \<in> set ?ss. has_update (w_db w1) (change_body t c) a" by blast
  have log: "logged (wt_ID t) at [c] (w_db w) (w_db w1)"
    using record_run [OF Cons.prems(1,2) kind Cons.prems(3), of "Some mopts"] one(1) by auto
  then have subs: "subscribers_of (w_db w1) (wt_ID t) = ?ss" by (simp add: logged_def subscribers_of_def)
  have "watch_exists (w_db w1) (wt_ID t)" using Cons.prems(1) logged_exists [OF log] by simp
  from Cons.IH [OF this Cons.prems(2,3), unfolded subs] Cons.prems(4,6) one(2) keeps_active [OF one(3)] obtain w' where
    rest: "forE cs (\<lambda>c. record_change (Some mopts) t (c\<lparr>we_At := at\<rparr>)) w1 = (Inr (), w')" "keeps_mail w1 w'"
      "\<forall>c \<in> set cs. \<forall>a \<in> set ?ss. has_update (w_db w') (change_body t c) a" by auto
  have "\<forall>a \<in> set ?ss. has_update (w_db w') (change_body t c) a"
    using one(4) keeps_update [OF rest(2)] by blast
  with one(1) rest keeps_mail_trans [OF one(3) rest(2)] show ?case by auto
qed

lemma observe_tells:
  assumes ex: "watch_exists (w_db w) (wt_ID t)" "wt_ID t \<noteq> []" and clock: "time_of w \<noteq> zeroTime"
    and can: "can_send (length (poll_events t p (time_of w)) * length (subscribers_of (w_db w) (wt_ID t))) w"
    and active: "\<forall>a \<in> set (subscribers_of (w_db w) (wt_ID t)). active_agent (w_db w) a"
  shows "\<exists>r w'. observe opts (Some mopts) t p account w = (Inr r, w') \<and>
    (\<forall>c \<in> set (poll_events t p (time_of w)). \<forall>a \<in> set (subscribers_of (w_db w) (wt_ID t)).
       has_update (w_db w') (change_body (with_observation opts t p account (time_of w)) c) a)"
proof -
  let ?w2 = "observed_world opts t p account w" and ?t = "with_observation opts t p account (time_of w)"
  have tid: "wt_ID ?t = wt_ID t" by (simp add: with_observation_def)
  have ex2: "watch_exists (w_db ?w2) (wt_ID ?t)"
    using ex by (simp add: observed_world_def tid updated_exists observed_row_def)
  have subs: "subscribers_of (w_db ?w2) (wt_ID ?t) = subscribers_of (w_db w) (wt_ID t)"
    by (simp add: observed_world_def subscribers_of_def tid)
  have same: "can_send n ?w2 = can_send n w" "keeps_mail w ?w2" for n
    by (rule can_send_elsewhere, simp_all add: observed_world_def same_mail_def)+
  have id2: "wt_ID ?t \<noteq> []" using ex(2) tid by simp
  from record_all_tells [OF ex2 id2 clock poll_events_kinds [of t p "time_of w"], unfolded subs, of mopts]
    can active same(1) keeps_active [OF same(2)] obtain v where
    log: "forE (poll_events t p (time_of w)) (\<lambda>c. record_change (Some mopts) ?t (c\<lparr>we_At := time_of w\<rparr>)) ?w2 = (Inr (), v)"
      "\<forall>c \<in> set (poll_events t p (time_of w)). \<forall>a \<in> set (subscribers_of (w_db w) (wt_ID t)).
         has_update (w_db v) (change_body ?t c) a" by auto
  from observe_eq [OF ex(1) log(1)] log(2) show ?thesis by auto
qed

end
