(* ===== verification/PRWatchProperties.thy ===== *)
theory PRWatchProperties
  imports MailScenario PRWatchFacts
begin

section \<open>Properties of the pull request watcher\<close>

subsection \<open>A poll\<close>

lemma found_watch:
  assumes "Watches_ByID watchID d = Inr t"
  shows "wt_ID t = watchID" and "watch_exists d (wt_ID t)"
proof -
  from assms obtain r where r: "r \<in> set (watches d)" "watches_id r = watchID" "t = scanWatch r"
    by (auto simp: Watches_ByID_def fetch_Inr dest: first_where_Some)
  then show "wt_ID t = watchID" by (simp add: scanWatch_def)
  with r show "watch_exists d (wt_ID t)" by (auto simp: watch_exists_def exists_where_iff)
qed

subsection \<open>A concrete watch\<close>

definition open_pr :: PullRequest where
  "open_pr = no_pull_request\<lparr>pr_Owner := ''o'', pr_Repository := ''r'', pr_Number := 1, pr_State := ''open''\<rparr>"

definition merged_pr :: PullRequest where
  "merged_pr = open_pr\<lparr>pr_State := ''merged''\<rparr>"

definition a_watch :: watches_row where
  "a_watch = \<lparr>watches_id = ''watch_1'', watches_owner = ''o'', watches_repository = ''r'', watches_number = 1,
     watches_account = [], watches_snapshot = Some open_pr, watches_state = ''open'', watches_draft = 0,
     watches_title = [], watches_checks_state = ''unknown'', watches_unresolved = 0,
     watches_observed_at = Some 0, watches_failures = 0, watches_last_error = [],
     watches_last_error_at = None, watches_next_poll_at = 0, watches_created_at = 0\<rparr>"

definition watched_world :: world where
  "watched_world = sample_world\<lparr>w_db := (w_db sample_world)\<lparr>watches := [a_watch],
     watch_subscribers := [\<lparr>watch_subscribers_watch_id = ''watch_1'', watch_subscribers_agent_id = ''agent_b'',
       watch_subscribers_subscribed_at = 0\<rparr>]\<rparr>\<rparr>"

definition always :: "forge_err + PullRequest \<Rightarrow> forge" where
  "always answer = \<lparr>fg_PullRequest = (\<lambda>_ _ _ _ _. answer), fg_Accounts = (\<lambda>_. Inr [])\<rparr>"

definition default_options :: watch_options where
  "default_options = New_watcher \<lparr>pw_Interval = 0, pw_SettledInterval = 0, pw_FreshFor = 0\<rparr>"

lemma watched:
  "Watches_ByID ''watch_1'' (w_db watched_world) = Inr (scanWatch a_watch)"
  "time_of watched_world \<noteq> zeroTime" "watch_events (w_db watched_world) = []"
  "watch_events_seq (w_db watched_world) = 0"
  by (simp_all add: watched_world_def Watches_ByID_def first_where_def a_watch_def sample_world_def
      start_world_def time_of_def zeroTime_def empty_db_def)

lemma time_watched: "time_of watched_world = 0"
  by (simp add: watched_world_def sample_world_def start_world_def time_of_def)

lemma always_read: "read_watch (always (Inr p)) n (scanWatch a_watch) = Inr (p, [])"
  "read_watch (always (Inl (ForgeFailed e))) n (scanWatch a_watch) = Inl (ForgeFailed e)"
  by (simp_all add: read_watch_def always_def scanWatch_def a_watch_def active_login_def)

lemma merged_events: "poll_events (scanWatch a_watch) merged_pr at = [change WatchState ''merged (was open)'']"
  by (simp add: poll_events_def scanWatch_def a_watch_def changesBetween_def merged_pr_def open_pr_def
      no_pull_request_def stateChange_def checksChange_def commitChange_def commentChanges_def reviewChanges_def
      threadChanges_def describeState_def)

text \<open>C19: When GitHub answers, a refresh stores the observation in full in exactly the watch it is
  about, clears its failures and sets the next poll by the state of the pull request; it logs exactly
  the recovery, when there had been failures, and the changes since the last observation, in order and
  with fresh numbers; and it wakes whoever waits for that watch.\<close>

theorem successful_poll:
  assumes "Watches_ByID watchID (w_db w) = Inr t" and "watchID \<noteq> []" and "time_of w \<noteq> zeroTime"
    and "read_watch fg (w_ticks w) t = Inr (p, account)"
  shows "\<exists>w'. Refresh opts fg messaging watchID w = (Inr (with_observation opts t p account (time_of w)), w') \<and>
    watches (w_db w') = update_where (\<lambda>r. watches_id r = watchID) (observed_row opts p account (time_of w))
      (watches (w_db w)) \<and>
    watch_subscribers (w_db w') = watch_subscribers (w_db w) \<and>
    watch_events (w_db w') = watch_events (w_db w) @
      event_rows watchID (time_of w) (watch_events_seq (w_db w)) (poll_events t p (time_of w)) \<and>
    (\<forall>n. map_of (ch_open (w_refreshed w)) watchID = Some n \<longrightarrow> n \<in> set (ch_closed (w_refreshed w')))"
proof -
  have id: "wt_ID t = watchID" and ex: "watch_exists (w_db w) (wt_ID t)" using assms(1) by (rule found_watch)+
  have "Refresh opts fg messaging watchID w = observe opts messaging t p account w"
    using assms(1,4) by (simp add: Refresh_def poll_def bindE_def)
  with observe_run [OF ex _ assms(3), of opts messaging p account] assms(2) id show ?thesis
    by (auto dest: wakes_parked)
qed

theorem successful_poll_witness:
  "\<exists>w'. Refresh default_options (always (Inr merged_pr)) None ''watch_1'' watched_world =
       (Inr (with_observation default_options (scanWatch a_watch) merged_pr [] 0), w') \<and>
     watch_events (w_db w') = [event_row ''watch_1'' 0 1 (change WatchState ''merged (was open)'')]"
  using successful_poll [OF watched(1) _ watched(2) always_read(1), of default_options merged_pr None]
  by (auto simp: merged_events watched(3,4) time_watched)

text \<open>C20: When GitHub cannot be read, a refresh returns the cause and leaves the last observation of every
  watch as it was: in the watch it is about only the failure count, the reason and the time of the next
  poll change. The wait before that poll is the interval doubled once per earlier failure up to the
  cap, and less than a quarter more. Subscribers and earlier events stay; the outage is logged when it
  begins and not again.\<close>

theorem failed_poll:
  assumes "Watches_ByID watchID (w_db w) = Inr t" and "watchID \<noteq> []" and "time_of w \<noteq> zeroTime"
    and "read_watch fg (w_ticks w) t = Inl cause" and "4 \<le> pw_Interval opts"
  shows "\<exists>w' wait. Refresh opts fg messaging watchID w = (Inl (forge_error cause), w') \<and>
    backoff_base opts (wt_Failures t) \<le> wait \<and>
    wait < backoff_base opts (wt_Failures t) + backoff_base opts (wt_Failures t) div 4 \<and>
    watches (w_db w') = update_where (\<lambda>r. watches_id r = watchID) (failed_row (forge_text cause) (time_of w) wait)
      (watches (w_db w)) \<and>
    map watches_snapshot (watches (w_db w')) = map watches_snapshot (watches (w_db w)) \<and>
    watch_subscribers (w_db w') = watch_subscribers (w_db w) \<and>
    watch_events (w_db w') = watch_events (w_db w) @
      event_rows watchID (time_of w) (watch_events_seq (w_db w)) (failure_events t cause)"
proof -
  have id: "wt_ID t = watchID" and ex: "watch_exists (w_db w) (wt_ID t)" using assms(1) by (rule found_watch)+
  have "Refresh opts fg messaging watchID w = recordFailure opts messaging t cause w"
    using assms(1,4) by (simp add: Refresh_def poll_def bindE_def)
  moreover have "map watches_snapshot (update_where P (failed_row reason at wait) rows) = map watches_snapshot rows"
    for P reason at wait rows by (simp add: failed_row_def)
  moreover have "wt_ID t \<noteq> []" using assms(2) id by simp
  from recordFailure_run [OF ex this assms(3,5), of messaging cause] obtain w' wait where
    "(recordFailure opts messaging t cause :: PRWatch action) w = (Inl (forge_error cause), w')"
    "backoff_base opts (wt_Failures t) \<le> wait"
    "wait < backoff_base opts (wt_Failures t) + backoff_base opts (wt_Failures t) div 4"
    "watches (w_db w') = update_where (\<lambda>r. watches_id r = wt_ID t) (failed_row (forge_text cause) (time_of w) wait)
      (watches (w_db w))"
    "watch_subscribers (w_db w') = watch_subscribers (w_db w)"
    "watch_events (w_db w') = watch_events (w_db w) @
      event_rows (wt_ID t) (time_of w) (watch_events_seq (w_db w)) (failure_events t cause)" by auto
  ultimately show ?thesis using id by (intro exI [of _ w'] exI [of _ wait]) simp
qed

theorem failed_poll_witness:
  "\<exists>w' :: world. Refresh default_options (always (Inl (ForgeFailed ''down''))) None ''watch_1'' watched_world =
       (Inl (OtherError ''down''), w') \<and>
     map watches_snapshot (watches (w_db w')) = [Some open_pr]"
proof -
  have "4 \<le> pw_Interval default_options" by (simp add: default_options_def New_watcher_def DefaultInterval_def)
  from failed_poll [OF watched(1) _ watched(2) always_read(2) [of "''down''"] this, where messaging = None]
  obtain w' where "Refresh default_options (always (Inl (ForgeFailed ''down''))) None ''watch_1'' watched_world =
      (Inl (forge_error (ForgeFailed ''down'')), w')"
    "map watches_snapshot (watches (w_db w')) = map watches_snapshot (watches (w_db watched_world))" by blast
  moreover have "map watches_snapshot (watches (w_db watched_world)) = [Some open_pr]"
    by (simp add: watched_world_def a_watch_def)
  ultimately show ?thesis by simp
qed




text \<open>Silence means that nothing happened: a refresh that reads the pull request logs no event
  exactly when the watch had not been failing and either this is the first observation or the state,
  the draft mark, the checks and the head are as they were, every comment and every review with a
  verdict was there, and every review conversation was there with as many replies and the same
  resolution.\<close>

theorem silence_means_nothing_happened:
  assumes "Watches_ByID watchID (w_db w) = Inr t" and "watchID \<noteq> []" and "time_of w \<noteq> zeroTime"
    and "read_watch fg (w_ticks w) t = Inr (p, account)"
    and "Refresh opts fg messaging watchID w = (r, w')"
  shows "watch_events (w_db w') = watch_events (w_db w) \<longleftrightarrow>
    wt_Failures t \<le> 0 \<and> (\<forall>previous. wt_Snapshot t = Some previous \<longrightarrow> nothing_happened previous p)"
proof -
  have id: "wt_ID t = watchID" and ex: "watch_exists (w_db w) (wt_ID t)" using assms(1) by (rule found_watch)+
  have "Refresh opts fg messaging watchID w = observe opts messaging t p account w"
    using assms(1,4) by (simp add: Refresh_def poll_def bindE_def)
  with observe_run [OF ex _ assms(3), of opts messaging p account] assms(2,5) id
  have "watch_events (w_db w') = watch_events (w_db w) @
      event_rows watchID (time_of w) (watch_events_seq (w_db w)) (poll_events t p (time_of w))" by auto
  moreover have "event_rows i at n cs = [] \<longleftrightarrow> cs = []" for i at n cs by (cases cs) simp_all
  moreover have "poll_events t p at = [] \<longleftrightarrow>
      wt_Failures t \<le> 0 \<and> (\<forall>previous. wt_Snapshot t = Some previous \<longrightarrow> nothing_happened previous p)" for at
    by (auto simp: poll_events_def changes_Nil split: option.splits)
  ultimately show ?thesis by simp
qed

end
