(* ===== verification/Parsing.thy ===== *)
theory Parsing
  imports PullRequest
begin

section \<open>Reading numbers, durations and pull request references\<close>

text \<open>
  The text parsers of the standard library the program calls (\<^verbatim>\<open>strconv.Atoi\<close>, \<^verbatim>\<open>time.ParseDuration\<close>,
  searching and replacing in strings) and \<open>ParseReference\<close> of \<open>internal/github/pullrequest.go\<close>.
  The fraction of a duration is computed exactly, rounded towards zero; the library uses floating
  point, which differs by at most a nanosecond below the nanosecond digits.
\<close>

subsection \<open>Searching and replacing\<close>

fun Index :: "string \<Rightarrow> string \<Rightarrow> nat option" where
  "Index [] sub = (if sub = [] then Some 0 else None)"
| "Index (c # s) sub = (if HasPrefix (c # s) sub then Some 0 else map_option Suc (Index s sub))"

fun IndexAny :: "string \<Rightarrow> string \<Rightarrow> nat option" where
  "IndexAny [] chars = None"
| "IndexAny (c # s) chars = (if List.member chars c then Some 0 else map_option Suc (IndexAny s chars))"

text \<open>\<^verbatim>\<open>strings.ReplaceAll\<close> of a non-empty text.\<close>

function ReplaceAll :: "string \<Rightarrow> string \<Rightarrow> string \<Rightarrow> string" where
  "ReplaceAll [] old new = []"
| "ReplaceAll (c # s) old new =
     (if old \<noteq> [] \<and> HasPrefix (c # s) old then new @ ReplaceAll (drop (length old) (c # s)) old new
      else c # ReplaceAll s old new)"
  by pat_completeness auto
termination by (relation "measure (\<lambda>(s, _, _). length s)") auto

definition TrimSuffix :: "string \<Rightarrow> string \<Rightarrow> string" where
  "TrimSuffix s p = (if HasPrefix (rev s) (rev p) then take (length s - length p) s else s)"

subsection \<open>Numbers\<close>

definition digit_value :: "char \<Rightarrow> int" where
  "digit_value c = int (of_char c) - 48"

definition decimal_digit :: "char \<Rightarrow> bool" where
  "decimal_digit c \<longleftrightarrow> CHR ''0'' \<le> c \<and> c \<le> CHR ''9''"

definition decimal :: "string \<Rightarrow> int" where
  "decimal ds = foldl (\<lambda>n c. 10 * n + digit_value c) 0 ds"

definition MaxInt64 :: int where
  "MaxInt64 = 2 ^ 63 - 1"

text \<open>\<^verbatim>\<open>strconv.Atoi\<close>: an optional sign and decimal digits that fit 64 bits.\<close>

definition Atoi :: "string \<Rightarrow> int option" where
  "Atoi s =
     (let negative = (s \<noteq> [] \<and> hd s = CHR ''-'');
          ds = (if s \<noteq> [] \<and> (hd s = CHR ''-'' \<or> hd s = CHR ''+'') then tl s else s);
          n = (if negative then - decimal ds else decimal ds)
      in if ds = [] \<or> \<not> list_all decimal_digit ds then None
         else if n > MaxInt64 \<or> n < - MaxInt64 - 1 then None
         else Some n)"

subsection \<open>Durations\<close>

definition unit_value :: "string \<Rightarrow> int option" where
  "unit_value u = map_of
     [(''ns'', 1), (''us'', 1000), ([CHR 0xC2, CHR 0xB5, CHR ''s''], 1000), ([CHR 0xCE, CHR 0xBC, CHR ''s''], 1000),
      (''ms'', 1000000), (''s'', 1000000000), (''m'', 60000000000), (''h'', 3600000000000)] u"

definition not_number :: "char \<Rightarrow> bool" where
  "not_number c \<longleftrightarrow> c \<noteq> CHR ''.'' \<and> \<not> decimal_digit c"

text \<open>One number with its unit: the value, and the rest of the text. \<open>2 ^ 63\<close> bounds every part.\<close>

definition duration_part :: "string \<Rightarrow> (int \<times> string) option" where
  "duration_part s =
     (let whole = takeWhile decimal_digit s; s1 = dropWhile decimal_digit s;
          dot = (s1 \<noteq> [] \<and> hd s1 = CHR ''.'');
          fraction = (if dot then takeWhile decimal_digit (tl s1) else []);
          s2 = (if dot then dropWhile decimal_digit (tl s1) else s1);
          u = takeWhile not_number s2; s3 = dropWhile not_number s2
      in if whole = [] \<and> fraction = [] then None
         else if u = [] then None
         else (case unit_value u of
             None \<Rightarrow> None
           | Some scale \<Rightarrow>
               let v = decimal whole * scale + decimal fraction * scale div 10 ^ length fraction
               in if decimal whole > 2 ^ 63 div scale \<or> v > 2 ^ 63 then None else Some (v, s3)))"

lemma duration_part_shorter: "duration_part s = Some (v, rest) \<Longrightarrow> length rest < length s"
proof -
  assume part: "duration_part s = Some (v, rest)"
  let ?s1 = "dropWhile decimal_digit s"
  let ?dot = "?s1 \<noteq> [] \<and> hd ?s1 = CHR ''.''"
  let ?s2 = "if ?dot then dropWhile decimal_digit (tl ?s1) else ?s1"
  from part have rest: "rest = dropWhile not_number ?s2" and u: "takeWhile not_number ?s2 \<noteq> []"
    by (auto simp: duration_part_def Let_def split: if_splits option.splits)
  have "length ?s2 \<le> length ?s1"
    using length_dropWhile_le [of decimal_digit "tl ?s1"] by auto
  also have "\<dots> \<le> length s" by (rule length_dropWhile_le)
  finally have "length ?s2 \<le> length s" .
  moreover have "length (takeWhile not_number ?s2) + length rest = length ?s2"
    unfolding rest by (metis length_append takeWhile_dropWhile_id)
  moreover have "0 < length (takeWhile not_number ?s2)" using u by simp
  ultimately show ?thesis by linarith
qed

function duration_sum :: "string \<Rightarrow> int \<Rightarrow> int option" where
  "duration_sum s acc = (if s = [] then Some acc
     else (case duration_part s of
         None \<Rightarrow> None
       | Some (v, rest) \<Rightarrow> if acc + v > 2 ^ 63 then None else duration_sum rest (acc + v)))"
  by pat_completeness auto
termination by (relation "measure (\<lambda>(s, _). length s)") (auto simp: duration_part_shorter)

declare duration_sum.simps [simp del]

definition ParseDuration :: "string \<Rightarrow> duration option" where
  "ParseDuration text =
     (let negative = (text \<noteq> [] \<and> hd text = CHR ''-'');
          s = (if text \<noteq> [] \<and> (hd text = CHR ''-'' \<or> hd text = CHR ''+'') then tl text else text)
      in if s = ''0'' then Some 0
         else if s = [] then None
         else (case duration_sum s 0 of
             None \<Rightarrow> None
           | Some d \<Rightarrow> if negative then Some (- d) else if d > MaxInt64 then None else Some d))"

subsection \<open>Timestamps\<close>

text \<open>\<^verbatim>\<open>time.Parse(time.RFC3339, ...)\<close>: the inverse of \<open>civil_from_days\<close>, and the library's reading of
  the layout, which takes an hour of one digit, a fraction after a point or a comma, and offsets of
  24 hours and 60 minutes.\<close>

definition days_from_civil :: "int \<Rightarrow> int \<Rightarrow> int \<Rightarrow> int" where
  "days_from_civil y0 m d =
     (let y = (if m \<le> 2 then y0 - 1 else y0);
          era = y div 400;
          yoe = y mod 400;
          doy = (153 * (if m > 2 then m - 3 else m + 9) + 2) div 5 + d - 1;
          doe = yoe * 365 + yoe div 4 - yoe div 100 + doy
      in era * 146097 + doe - 719468)"

definition leap_year :: "int \<Rightarrow> bool" where
  "leap_year y \<longleftrightarrow> y mod 4 = 0 \<and> (y mod 100 \<noteq> 0 \<or> y mod 400 = 0)"

definition days_in :: "int \<Rightarrow> int \<Rightarrow> int" where
  "days_in y m = (if m = 2 then (if leap_year y then 29 else 28) else if m \<in> {4, 6, 9, 11} then 30 else 31)"

text \<open>Readers of a prefix: the number of so many digits, one character, an hour, a fraction.\<close>

definition fixed_number :: "nat \<Rightarrow> string \<Rightarrow> (int \<times> string) option" where
  "fixed_number n s =
     (if length (take n s) = n \<and> list_all decimal_digit (take n s) then Some (decimal (take n s), drop n s) else None)"

definition expect :: "char \<Rightarrow> string \<Rightarrow> string option" where
  "expect c s = (if HasPrefix s [c] then Some (tl s) else None)"

definition hour_number :: "string \<Rightarrow> (int \<times> string) option" where
  "hour_number s = (case fixed_number 2 s of Some r \<Rightarrow> Some r | None \<Rightarrow> fixed_number 1 s)"

definition nanoseconds :: "string \<Rightarrow> int \<times> string" where
  "nanoseconds s =
     (case s of
        c # d # _ \<Rightarrow>
          if (c = CHR ''.'' \<or> c = CHR '','') \<and> decimal_digit d
          then (let ds = takeWhile decimal_digit (tl s); kept = take 9 ds
                in (decimal kept * 10 ^ (9 - length kept), dropWhile decimal_digit (tl s)))
          else (0, s)
      | _ \<Rightarrow> (0, s))"

definition zone_offset :: "string \<Rightarrow> (int \<times> string) option" where
  "zone_offset s =
     (if HasPrefix s ''Z'' then Some (0, tl s)
      else if length s < 6 \<or> s ! 3 \<noteq> CHR '':'' \<or> hd s \<notin> {CHR ''+'', CHR ''-''} then None
      else (case (fixed_number 2 (take 2 (drop 1 s)), fixed_number 2 (take 2 (drop 4 s))) of
          (Some (h, _), Some (m, _)) \<Rightarrow>
            if h > 24 \<or> m > 60 then None
            else Some ((if hd s = CHR ''-'' then - 1 else 1) * (h * 60 + m) * 60, drop 6 s)
        | _ \<Rightarrow> None))"

definition ParseRFC3339 :: "string \<Rightarrow> instant option" where
  "ParseRFC3339 s0 =
     Option.bind (fixed_number 4 s0) (\<lambda>(y, s1).
     Option.bind (expect (CHR ''-'') s1) (\<lambda>s2.
     Option.bind (fixed_number 2 s2) (\<lambda>(m, s3).
     Option.bind (expect (CHR ''-'') s3) (\<lambda>s4.
     Option.bind (fixed_number 2 s4) (\<lambda>(d, s5).
     Option.bind (expect (CHR ''T'') s5) (\<lambda>s6.
     Option.bind (hour_number s6) (\<lambda>(hh, s7).
     Option.bind (expect (CHR '':'') s7) (\<lambda>s8.
     Option.bind (fixed_number 2 s8) (\<lambda>(mm, s9).
     Option.bind (expect (CHR '':'') s9) (\<lambda>s10.
     Option.bind (fixed_number 2 s10) (\<lambda>(ss, s11).
     case nanoseconds s11 of (ns, s12) \<Rightarrow>
     Option.bind (zone_offset s12) (\<lambda>(offset, rest).
     if m < 1 \<or> m > 12 \<or> hh > 23 \<or> mm > 59 \<or> ss > 59 \<or> rest \<noteq> [] \<or> d < 1 \<or> d > days_in y m then None
     else Some ((days_from_civil y m d * 86400 + hh * 3600 + mm * 60 + ss - offset) * Second + ns)))))))))))))"

subsection \<open>References to pull requests\<close>

text \<open>The part of a pasted address after the host, cut after the number.\<close>

definition from_address :: "string \<Rightarrow> string" where
  "from_address path =
     (let v = TrimSuffix (ReplaceAll path ''/pull/'' ''#'') ''/''
      in case Index v ''#'' of
           None \<Rightarrow> v
         | Some hash \<Rightarrow> (case IndexAny (drop hash v) ''/?'' of
             None \<Rightarrow> v
           | Some stop \<Rightarrow> if stop > 0 then take (hash + stop) v else v))"

definition ParseReference :: "string \<Rightarrow> (string \<times> string \<times> int) option" where
  "ParseReference reference =
     (let trimmed = TrimSpace reference;
          v = (case Index trimmed ''github.com/'' of
                 None \<Rightarrow> trimmed
               | Some i \<Rightarrow> from_address (drop (i + length ''github.com/'') trimmed))
      in case cut_at (CHR ''#'') v of (path, digits, found) \<Rightarrow>
           if \<not> found then None
           else (case cut_at (CHR ''/'') path of (owner, repository, found) \<Rightarrow>
             if \<not> found \<or> owner = [] \<or> repository = [] then None
             else (case Atoi digits of
                 None \<Rightarrow> None
               | Some number \<Rightarrow> if number \<le> 0 then None else Some (owner, repository, number))))"

subsection \<open>Laws\<close>

lemma decimal_snoc: "decimal (ds @ [c]) = 10 * decimal ds + digit_value c"
  by (simp add: decimal_def)

lemma digit_facts: "n < 10 \<Longrightarrow> digit_value (digit n) = int n \<and> decimal_digit (digit n)"
proof -
  assume "n < 10"
  then have "n \<in> {0, 1, 2, 3, 4, 5, 6, 7, 8, 9}" by auto
  then show ?thesis
    by (auto simp: digit_def digit_value_def decimal_digit_def less_eq_char_def numeral_eq_Suc)
qed

lemma digits10_decimal: "0 \<le> n \<Longrightarrow> decimal (digits10 n) = n \<and> list_all decimal_digit (digits10 n) \<and> digits10 n \<noteq> []"
proof (induction n rule: digits10.induct)
  case (1 n)
  show ?case
  proof (cases "n < 10")
    case True
    with 1(2) digit_facts [of "nat n"] show ?thesis by (simp add: digits10.simps [of n] decimal_def)
  next
    case False
    have "digit_value (digit (nat (n mod 10))) = n mod 10 \<and> decimal_digit (digit (nat (n mod 10)))"
      using digit_facts [of "nat (n mod 10)"] by simp
    with False 1 show ?thesis by (simp add: digits10.simps [of n] decimal_snoc)
  qed
qed

lemma Atoi_itoa:
  assumes "0 \<le> n" and "n \<le> MaxInt64"
  shows "Atoi (itoa n) = Some n"
proof -
  have d: "decimal (digits10 n) = n" "list_all decimal_digit (digits10 n)" "digits10 n \<noteq> []"
    using digits10_decimal [OF assms(1)] by simp_all
  then have "decimal_digit (hd (digits10 n))" by (metis list.pred_set list.set_sel(1))
  then have "hd (digits10 n) \<noteq> CHR ''-''" "hd (digits10 n) \<noteq> CHR ''+''"
    by (auto simp: decimal_digit_def less_eq_char_def)
  then show ?thesis using d assms by (simp add: Atoi_def itoa_def MaxInt64_def)
qed

end
