(* ===== verification/JsonDecode.thy ===== *)
theory JsonDecode
  imports Json Parsing "HOL-Library.AList"
begin

section \<open>Reading JSON objects into structs (\<^verbatim>\<open>json.Unmarshal\<close>)\<close>

text \<open>
  The program decodes requests and their parameters into flat structs whose fields are strings,
  numbers, truth decoded, lists of strings and raw JSON. A text the scanner of theory \<open>Json\<close> accepts is
  cut at its top-level commas and colons; each member goes to the field with its name, or to the one
  that differs only in case, and a later member overwrites an earlier one. A list given twice is
  replaced as a whole.
\<close>

subsection \<open>Strings\<close>

definition hex_value :: "char \<Rightarrow> nat" where
  "hex_value c =
     (if is_digit c then of_char c - 48
      else if CHR ''a'' \<le> c \<and> c \<le> CHR ''f'' then of_char c - 87 else of_char c - 55)"

text \<open>The four digits of a Unicode escape at the start of a text; \<open>None\<close> when there is no escape.\<close>

fun unicode_escape :: "string \<Rightarrow> nat option" where
  "unicode_escape (b # u # p # q # r # s # rest) =
     (if b = CHR 0x5C \<and> u = CHR ''u'' \<and> list_all is_hex [p, q, r, s]
      then Some (((hex_value p * 16 + hex_value q) * 16 + hex_value r) * 16 + hex_value s) else None)"
| "unicode_escape _ = None"

definition is_surrogate :: "nat \<Rightarrow> bool" where
  "is_surrogate r \<longleftrightarrow> 0xD800 \<le> r \<and> r < 0xE000"

definition rune_error :: nat where
  "rune_error = 0xFFFD"

text \<open>\<^verbatim>\<open>utf16.DecodeRune\<close>.\<close>

definition surrogate_pair :: "nat \<Rightarrow> nat option \<Rightarrow> nat option" where
  "surrogate_pair r1 second = (case second of None \<Rightarrow> None
     | Some r2 \<Rightarrow> if 0xD800 \<le> r1 \<and> r1 < 0xDC00 \<and> 0xDC00 \<le> r2 \<and> r2 < 0xE000
                 then Some ((r1 - 0xD800) * 1024 + (r2 - 0xDC00) + 0x10000) else None)"

definition utf8_encode :: "nat \<Rightarrow> string" where
  "utf8_encode r =
     (if r < 0x80 then [char_of r]
      else if r < 0x800 then [char_of (0xC0 + r div 64), char_of (0x80 + r mod 64)]
      else if r < 0x10000 then
        [char_of (0xE0 + r div 4096), char_of (0x80 + r div 64 mod 64), char_of (0x80 + r mod 64)]
      else [char_of (0xF0 + r div 262144), char_of (0x80 + r div 4096 mod 64),
            char_of (0x80 + r div 64 mod 64), char_of (0x80 + r mod 64)])"

definition simple_escape :: "char \<Rightarrow> char" where
  "simple_escape e =
     (if e = CHR ''b'' then CHR 0x08 else if e = CHR ''f'' then CHR 0x0C else if e = CHR ''n'' then CHR 0x0A
      else if e = CHR ''r'' then CHR 0x0D else if e = CHR ''t'' then CHR 0x09 else e)"

text \<open>What is between the quotes. Bytes that are not UTF-8 become the replacement character.\<close>

function unquote_body :: "string \<Rightarrow> string" where
  "unquote_body [] = []"
| "unquote_body (c # cs) =
     (if c = CHR 0x5C then
        (case cs of
           [] \<Rightarrow> []
         | e # rest \<Rightarrow>
             if e = CHR ''u'' then
               (case unicode_escape (c # cs) of
                  None \<Rightarrow> []
                | Some r \<Rightarrow>
                    if is_surrogate r then
                      (case surrogate_pair r (unicode_escape (drop 4 rest)) of
                         Some pair \<Rightarrow> utf8_encode pair @ unquote_body (drop 10 rest)
                       | None \<Rightarrow> utf8_encode rune_error @ unquote_body (drop 4 rest))
                    else utf8_encode r @ unquote_body (drop 4 rest))
             else simple_escape e # unquote_body rest)
      else if c < CHR 0x80 then c # unquote_body cs
      else (let n = rune_rest c cs in
        if n = 0 then utf8_encode rune_error @ unquote_body cs
        else (c # take n cs) @ unquote_body (drop n cs)))"
  by pat_completeness auto
termination by (relation "measure length") (auto simp: le_imp_less_Suc)

declare unquote_body.simps [simp del]

definition unquote :: "string \<Rightarrow> string" where
  "unquote literal = unquote_body (butlast (tl literal))"

subsection \<open>Members\<close>

definition json_trim :: "string \<Rightarrow> string" where
  "json_trim s = rev (dropWhile json_space (rev (dropWhile json_space s)))"

datatype quoting = Outside | Inside | Escaped

fun quoting_after :: "quoting \<Rightarrow> char \<Rightarrow> quoting" where
  "quoting_after Outside c = (if c = CHR 0x22 then Inside else Outside)"
| "quoting_after Inside c = (if c = CHR 0x5C then Escaped else if c = CHR 0x22 then Outside else Inside)"
| "quoting_after Escaped c = Inside"

definition depth_after :: "nat \<Rightarrow> quoting \<Rightarrow> char \<Rightarrow> nat" where
  "depth_after depth q c =
     (if q \<noteq> Outside then depth
      else if c = CHR ''{'' \<or> c = CHR ''['' then depth + 1
      else if c = CHR ''}'' \<or> c = CHR '']'' then depth - 1 else depth)"

fun prepend :: "char \<Rightarrow> string list \<Rightarrow> string list" where
  "prepend c [] = [[c]]"
| "prepend c (p # ps) = (c # p) # ps"

text \<open>The parts of a text between the separators outside strings, objects and arrays.\<close>

fun split_top :: "char \<Rightarrow> nat \<Rightarrow> quoting \<Rightarrow> string \<Rightarrow> string list" where
  "split_top sep depth q [] = [[]]"
| "split_top sep depth q (c # cs) =
     (if q = Outside \<and> depth = 0 \<and> c = sep then [] # split_top sep 0 Outside cs
      else prepend c (split_top sep (depth_after depth q c) (quoting_after q c) cs))"

definition elements_of :: "string \<Rightarrow> string list" where
  "elements_of bracketed = (let inside = json_trim (butlast (tl bracketed))
     in if inside = [] then [] else map json_trim (split_top (CHR '','') 0 Outside inside))"

definition member_of :: "string \<Rightarrow> string \<times> string" where
  "member_of m = (case split_top (CHR '':'') 0 Outside m of
      [key, val] \<Rightarrow> (unquote (json_trim key), json_trim val) | _ \<Rightarrow> ([], []))"

subsection \<open>Fields\<close>

datatype field_kind = StringField | IntField | BoolField | RawField | StringsField

datatype field_value =
  StringV string | IntV int | BoolV bool | RawV string | StringsV "string list"

fun zero_value :: "field_kind \<Rightarrow> field_value" where
  "zero_value StringField = StringV []"
| "zero_value IntField = IntV 0"
| "zero_value BoolField = BoolV False"
| "zero_value RawField = RawV []"
| "zero_value StringsField = StringsV []"

definition string_value :: "string \<Rightarrow> string option" where
  "string_value raw =
     (if raw = ''null'' then Some [] else if HasPrefix raw [CHR 0x22] then Some (unquote raw) else None)"

fun all_some :: "'a option list \<Rightarrow> 'a list option" where
  "all_some [] = Some []"
| "all_some (None # xs) = None"
| "all_some (Some x # xs) = map_option ((#) x) (all_some xs)"

text \<open>\<^verbatim>\<open>null\<close> leaves a string, a number and a truth value as they were, empties a list, and is kept by
  raw JSON.\<close>

fun decode_value :: "field_kind \<Rightarrow> string \<Rightarrow> field_value \<Rightarrow> field_value option" where
  "decode_value StringField raw old = (if raw = ''null'' then Some old else map_option StringV (string_value raw))"
| "decode_value IntField raw old = (if raw = ''null'' then Some old else map_option IntV (Atoi raw))"
| "decode_value BoolField raw old =
     (if raw = ''null'' then Some old else if raw = ''true'' then Some (BoolV True)
      else if raw = ''false'' then Some (BoolV False) else None)"
| "decode_value RawField raw old = Some (RawV raw)"
| "decode_value StringsField raw old =
     (if raw = ''null'' then Some (StringsV [])
      else if HasPrefix raw ''['' then map_option StringsV (all_some (map string_value (elements_of raw)))
      else None)"

text \<open>Case folding of field names; the long s and the Kelvin sign fold to letters.\<close>

fun fold_name :: "string \<Rightarrow> string" where
  "fold_name [] = []"
| "fold_name (c # cs) =
     (if c = CHR 0xC5 \<and> HasPrefix cs [CHR 0xBF] then CHR ''S'' # fold_name (drop 1 cs)
      else if c = CHR 0xE2 \<and> HasPrefix cs [CHR 0x84, CHR 0xAA] then CHR ''K'' # fold_name (drop 2 cs)
      else if CHR ''a'' \<le> c \<and> c \<le> CHR ''z'' then char_of (of_char c - 32 :: nat) # fold_name cs
      else c # fold_name cs)"

type_synonym fields = "(string \<times> field_kind) list"
type_synonym decoded = "(string \<times> field_value) list"

definition field_named :: "fields \<Rightarrow> string \<Rightarrow> (string \<times> field_kind) option" where
  "field_named fs key = (case List.find (\<lambda>f. fst f = key) fs of
      Some f \<Rightarrow> Some f | None \<Rightarrow> List.find (\<lambda>f. fold_name (fst f) = fold_name key) fs)"

fun decode_members :: "bool \<Rightarrow> fields \<Rightarrow> (string \<times> string) list \<Rightarrow> decoded \<Rightarrow> decoded option" where
  "decode_members strict fs [] vs = Some vs"
| "decode_members strict fs ((key, raw) # ms) vs = (case field_named fs key of
      None \<Rightarrow> if strict then None else decode_members strict fs ms vs
    | Some (name, kind) \<Rightarrow>
        (case decode_value kind raw (the (map_of vs name)) of
           None \<Rightarrow> None
         | Some v \<Rightarrow> decode_members strict fs ms (AList.update name v vs)))"

text \<open>\<open>strict\<close> is \<^verbatim>\<open>DisallowUnknownFields\<close>. \<open>None\<close> is any error.\<close>

definition decode_struct :: "bool \<Rightarrow> fields \<Rightarrow> string \<Rightarrow> decoded option" where
  "decode_struct strict fs text =
     (let s = json_trim text; zeros = map (\<lambda>(name, kind). (name, zero_value kind)) fs
      in if \<not> json_Valid text then None
         else if s = ''null'' then Some zeros
         else if HasPrefix s ''{'' then decode_members strict fs (map member_of (elements_of s)) zeros
         else None)"

definition string_at :: "decoded \<Rightarrow> string \<Rightarrow> string" where
  "string_at vs name = (case map_of vs name of Some (StringV s) \<Rightarrow> s | _ \<Rightarrow> [])"

definition int_at :: "decoded \<Rightarrow> string \<Rightarrow> int" where
  "int_at vs name = (case map_of vs name of Some (IntV i) \<Rightarrow> i | _ \<Rightarrow> 0)"

definition bool_at :: "decoded \<Rightarrow> string \<Rightarrow> bool" where
  "bool_at vs name = (case map_of vs name of Some (BoolV b) \<Rightarrow> b | _ \<Rightarrow> False)"

definition raw_at :: "decoded \<Rightarrow> string \<Rightarrow> string" where
  "raw_at vs name = (case map_of vs name of Some (RawV r) \<Rightarrow> r | _ \<Rightarrow> [])"

definition strings_at :: "decoded \<Rightarrow> string \<Rightarrow> string list" where
  "strings_at vs name = (case map_of vs name of Some (StringsV xs) \<Rightarrow> xs | _ \<Rightarrow> [])"

end
