(* ===== verification/ParsingProperties.thy ===== *)
theory ParsingProperties
  imports JsonDecode
begin

section \<open>Properties of the parsers\<close>

subsection \<open>Plain text\<close>

definition plain_char :: "char \<Rightarrow> bool" where
  "plain_char c \<longleftrightarrow> c < CHR 0x80 \<and> \<not> is_space c"

lemma wide_high: "list_all (\<lambda>p. p \<noteq> [] \<and> \<not> hd p < CHR 0x80) (wide_spaces @ map rev wide_spaces)"
  by code_simp

lemma not_leading:
  assumes "plain_char c" and "list_all (\<lambda>p. p \<noteq> [] \<and> \<not> hd p < CHR 0x80) wide"
  shows "leading_space wide (c # s) = 0"
proof -
  have "\<not> HasPrefix (c # s) p" if "p \<in> set wide" for p
  proof
    assume "HasPrefix (c # s) p"
    moreover from that assms(2) have "p \<noteq> []" "\<not> hd p < CHR 0x80" by (auto simp: list_all_iff)
    ultimately show False using assms(1) by (cases p) (auto simp: HasPrefix_def plain_char_def)
  qed
  then have "List.find (HasPrefix (c # s)) wide = None" by (auto simp: find_None_iff)
  with assms(1) show ?thesis by (simp add: leading_space_def plain_char_def)
qed

lemma TrimSpace_plain: "list_all plain_char s \<Longrightarrow> TrimSpace s = s"
proof -
  assume plain: "list_all plain_char s"
  have t: "trim_left wide u = u" if "list_all plain_char u" "list_all (\<lambda>p. p \<noteq> [] \<and> \<not> hd p < CHR 0x80) wide" for wide u
  proof (cases u)
    case Nil
    then show ?thesis by (simp add: trim_left.simps leading_space_def)
  next
    case (Cons c v)
    with that not_leading [of c wide v] show ?thesis by (simp add: trim_left.simps)
  qed
  from wide_high have w: "list_all (\<lambda>p. p \<noteq> [] \<and> \<not> hd p < CHR 0x80) wide_spaces"
      "list_all (\<lambda>p. p \<noteq> [] \<and> \<not> hd p < CHR 0x80) (map rev wide_spaces)" by simp_all
  from plain have "list_all plain_char (rev s)" by (simp add: list_all_iff)
  with t [OF plain w(1)] t [OF _ w(2)] show ?thesis by (simp add: TrimSpace_def)
qed

subsection \<open>Searching and replacing\<close>

lemma Index_Some: "Index s sub = Some i \<Longrightarrow> \<exists>a b. s = a @ sub @ b \<and> length a = i"
proof (induction s arbitrary: i)
  case Nil
  then show ?case by (auto split: if_splits)
next
  case (Cons c s)
  show ?case
  proof (cases "HasPrefix (c # s) sub")
    case True
    with Cons.prems have "i = 0" by simp
    with True have "c # s = [] @ sub @ drop (length sub) (c # s)"
      unfolding HasPrefix_def by (metis append_Nil append_take_drop_id)
    with \<open>i = 0\<close> show ?thesis by (metis list.size(3))
  next
    case False
    with Cons.prems obtain j where j: "i = Suc j" "Index s sub = Some j" by auto
    from Cons.IH [OF j(2)] obtain a b where "s = a @ sub @ b" "length a = j" by blast
    with j have "c # s = (c # a) @ sub @ b \<and> length (c # a) = i" by simp
    then show ?thesis by blast
  qed
qed

lemma Index_char: "c \<notin> set a \<Longrightarrow> Index (a @ c # b) [c] = Some (length a)"
  by (induction a) (auto simp: HasPrefix_def)

lemma IndexAny_None: "list_all (\<lambda>c. \<not> List.member chars c) s \<Longrightarrow> IndexAny s chars = None"
  by (induction s) auto

lemma ReplaceAll_skip: "old = x # xs \<Longrightarrow> x \<notin> set a \<Longrightarrow> ReplaceAll (a @ s) old new = a @ ReplaceAll s old new"
  by (induction a) (auto simp: HasPrefix_def)

lemma ReplaceAll_none: "x \<notin> set a \<Longrightarrow> ReplaceAll a (x # xs) new = a"
  using ReplaceAll_skip [of "x # xs" x xs a "[]" new] by simp

subsection \<open>References to pull requests\<close>

definition login_char :: "char \<Rightarrow> bool" where
  "login_char c \<longleftrightarrow> decimal_digit c \<or> c = CHR ''-'' \<or>
     list_ex (\<lambda>(low, high). low \<le> c \<and> c \<le> high) [(CHR ''a'', CHR ''z''), (CHR ''A'', CHR ''Z'')]"

definition repository_char :: "char \<Rightarrow> bool" where
  "repository_char c \<longleftrightarrow> login_char c \<or> c = CHR ''.'' \<or> c = CHR ''_''"

lemma char_facts:
  "repository_char c \<Longrightarrow> plain_char c \<and> c \<noteq> CHR ''/'' \<and> c \<noteq> CHR ''#'' \<and> c \<noteq> CHR ''?''"
  "login_char c \<Longrightarrow> repository_char c \<and> c \<noteq> CHR ''.''"
  by (auto simp: repository_char_def login_char_def plain_char_def is_space_def decimal_digit_def less_eq_char_def
      less_char_def)

lemma digits_repository: "0 \<le> n \<Longrightarrow> list_all repository_char (itoa n) \<and> itoa n \<noteq> []"
  using digits10_decimal [of n] by (auto simp: itoa_def list_all_iff repository_char_def login_char_def)

lemma no_special:
  "list_all repository_char s \<Longrightarrow> CHR ''/'' \<notin> set s \<and> CHR ''#'' \<notin> set s \<and> CHR ''?'' \<notin> set s"
  using char_facts(1) by (fastforce simp: list_all_iff)

lemma login_repository: "list_all login_char s \<Longrightarrow> list_all repository_char s \<and> CHR ''.'' \<notin> set s"
  using char_facts(2) by (fastforce simp: list_all_iff)

lemma parse_plain:
  assumes owner: "list_all login_char owner" "owner \<noteq> []" and repo: "list_all repository_char repo" "repo \<noteq> []"
    and n: "0 < n" "n \<le> MaxInt64"
  shows "cut_at (CHR ''#'') (owner @ ''/'' @ repo @ ''#'' @ itoa n) = (owner @ ''/'' @ repo, itoa n, True)"
    and "cut_at (CHR ''/'') (owner @ ''/'' @ repo) = (owner, repo, True)"
    and "Atoi (itoa n) = Some n"
proof -
  have "CHR ''#'' \<notin> set (owner @ ''/'' @ repo)" and s: "CHR ''/'' \<notin> set owner"
    using owner(1) repo(1) char_facts by (auto simp: list_all_iff)
  then show "cut_at (CHR ''#'') (owner @ ''/'' @ repo @ ''#'' @ itoa n) = (owner @ ''/'' @ repo, itoa n, True)"
    using cut_at_found [of "CHR ''#''" "owner @ ''/'' @ repo" "itoa n"] by simp
  show "cut_at (CHR ''/'') (owner @ ''/'' @ repo) = (owner, repo, True)" using cut_at_found [OF s] by simp
  show "Atoi (itoa n) = Some n" using Atoi_itoa n by simp
qed

lemma no_host:
  assumes "list_all login_char owner" and "list_all repository_char repo" and "0 \<le> n"
  shows "Index (owner @ ''/'' @ repo @ ''#'' @ itoa n) ''github.com/'' = None"
proof (rule ccontr)
  assume "Index (owner @ ''/'' @ repo @ ''#'' @ itoa n) ''github.com/'' \<noteq> None"
  then obtain i where "Index (owner @ ''/'' @ repo @ ''#'' @ itoa n) ''github.com/'' = Some i" by blast
  from Index_Some [OF this] obtain a b where eq: "owner @ ''/'' @ repo @ ''#'' @ itoa n = a @ ''github.com/'' @ b" by blast
  have one: "CHR ''/'' \<notin> set owner" "CHR ''/'' \<notin> set (repo @ ''#'' @ itoa n)"
    using no_special [of owner] no_special [of repo] no_special [of "itoa n"] login_repository [OF assms(1)] assms(2)
      digits_repository [OF assms(3)] by auto
  have "owner @ CHR ''/'' # (repo @ ''#'' @ itoa n) = (a @ ''github.com'') @ CHR ''/'' # b" using eq by simp
  then have "owner = a @ ''github.com''"
    using one by (metis append_Cons_eq_iff in_set_conv_decomp)
  then have "CHR ''.'' \<in> set owner" by simp
  with login_repository [OF assms(1)] show False by simp
qed

lemma from_address_plain:
  assumes owner: "list_all login_char owner" and repo: "list_all repository_char repo" "repo \<noteq> ''pull''" and n: "0 \<le> n"
  shows "from_address (owner @ ''/'' @ repo @ ''/pull/'' @ itoa n) = owner @ ''/'' @ repo @ ''#'' @ itoa n"
proof -
  have free: "CHR ''/'' \<notin> set owner" "CHR ''/'' \<notin> set repo" "CHR ''/'' \<notin> set (itoa n)"
    and hash: "CHR ''#'' \<notin> set (owner @ ''/'' @ repo)"
    and dig: "list_all (\<lambda>c. \<not> List.member ''/?'' c) (''#'' @ itoa n)"
    using no_special [of owner] no_special [of repo] no_special [of "itoa n"] login_repository [OF owner] repo
      digits_repository [OF n] by (auto simp: list_all_iff)
  have np: "\<not> HasPrefix (''/'' @ repo @ ''/pull/'' @ itoa n) ''/pull/''"
  proof
    assume "HasPrefix (''/'' @ repo @ ''/pull/'' @ itoa n) ''/pull/''"
    then have "take 5 (repo @ ''/pull/'' @ itoa n) = ''pull/''" by (simp add: HasPrefix_def eval_nat_numeral)
    then obtain z where "repo @ CHR ''/'' # ''pull/'' @ itoa n = ''pull'' @ CHR ''/'' # z"
      by (metis append.assoc append_Cons append_Nil append_take_drop_id)
    moreover have "CHR ''/'' \<notin> set ''pull''" by simp
    ultimately have "repo = ''pull''" using free(2)
      by (metis append_eq_append_conv_if cut_at_found prod.inject)
    with repo(2) show False by simp
  qed
  have "ReplaceAll (owner @ ''/'' @ repo @ ''/pull/'' @ itoa n) ''/pull/'' ''#'' =
      owner @ ReplaceAll (''/'' @ repo @ ''/pull/'' @ itoa n) ''/pull/'' ''#''"
    by (rule ReplaceAll_skip) (use free in auto)
  also have "ReplaceAll (''/'' @ repo @ ''/pull/'' @ itoa n) ''/pull/'' ''#'' =
      ''/'' @ ReplaceAll (repo @ ''/pull/'' @ itoa n) ''/pull/'' ''#''"
    using np by simp
  also have "ReplaceAll (repo @ ''/pull/'' @ itoa n) ''/pull/'' ''#'' = repo @ ReplaceAll (''/pull/'' @ itoa n) ''/pull/'' ''#''"
    by (rule ReplaceAll_skip) (use free in auto)
  also have "ReplaceAll (''/pull/'' @ itoa n) ''/pull/'' ''#'' = ''#'' @ itoa n"
    using free(3) by (simp add: HasPrefix_def ReplaceAll_none)
  finally have rep: "ReplaceAll (owner @ ''/'' @ repo @ ''/pull/'' @ itoa n) ''/pull/'' ''#'' = owner @ ''/'' @ repo @ ''#'' @ itoa n" .
  have "\<not> HasPrefix (rev (owner @ ''/'' @ repo @ ''#'' @ itoa n)) (rev ''/'')"
    using digits_repository [OF n] free(3) by (cases "itoa n" rule: rev_cases) (auto simp: HasPrefix_def)
  then have tr: "TrimSuffix (owner @ ''/'' @ repo @ ''#'' @ itoa n) ''/'' = owner @ ''/'' @ repo @ ''#'' @ itoa n"
    by (simp add: TrimSuffix_def)
  have "Index (owner @ ''/'' @ repo @ ''#'' @ itoa n) ''#'' = Some (length (owner @ ''/'' @ repo))"
    using Index_char [OF hash, of "itoa n"] by simp
  moreover have "IndexAny (drop (length (owner @ ''/'' @ repo)) (owner @ ''/'' @ repo @ ''#'' @ itoa n)) ''/?'' = None"
    using IndexAny_None [OF dig] by simp
  ultimately show ?thesis unfolding from_address_def rep tr by simp
qed

lemma from_pull:
  assumes "list_all login_char owner" and "0 \<le> n"
  shows "from_address (owner @ ''/pull/pull/'' @ itoa n) = owner @ ''#pull''"
proof -
  have free: "CHR ''/'' \<notin> set owner" "CHR ''#'' \<notin> set owner" "CHR ''/'' \<notin> set (itoa n)" "itoa n \<noteq> []"
    using no_special [of owner] no_special [of "itoa n"] login_repository [OF assms(1)] digits_repository [OF assms(2)] by auto
  have "ReplaceAll (owner @ ''/pull/pull/'' @ itoa n) ''/pull/'' ''#'' = owner @ ReplaceAll (''/pull/pull/'' @ itoa n) ''/pull/'' ''#''"
    by (rule ReplaceAll_skip) (use free in auto)
  also have "ReplaceAll (''/pull/pull/'' @ itoa n) ''/pull/'' ''#'' = ''#pull/'' @ itoa n"
  proof -
    have "\<not> HasPrefix (CHR ''/'' # itoa n) ''/pull/''"
    proof
      assume "HasPrefix (CHR ''/'' # itoa n) ''/pull/''"
      then have "take 5 (itoa n) = ''pull/''" by (simp add: HasPrefix_def eval_nat_numeral)
      then have "CHR ''/'' \<in> set (take 5 (itoa n))" by simp
      with free(3) show False by (blast dest: in_set_takeD)
    qed
    then have "ReplaceAll (CHR ''/'' # itoa n) ''/pull/'' ''#'' = CHR ''/'' # itoa n"
      using ReplaceAll_none [OF free(3), of "''pull/''" "''#''"] by simp
    moreover have "ReplaceAll (''pull'' @ CHR ''/'' # itoa n) ''/pull/'' ''#'' =
        ''pull'' @ ReplaceAll (CHR ''/'' # itoa n) ''/pull/'' ''#''"
      by (rule ReplaceAll_skip) auto
    ultimately show ?thesis by (simp add: HasPrefix_def)
  qed
  finally have rep: "ReplaceAll (owner @ ''/pull/pull/'' @ itoa n) ''/pull/'' ''#'' = owner @ ''#pull/'' @ itoa n" .
  have "TrimSuffix (owner @ ''#pull/'' @ itoa n) ''/'' = owner @ ''#pull/'' @ itoa n"
    using free(3,4) by (cases "itoa n" rule: rev_cases) (auto simp: HasPrefix_def TrimSuffix_def)
  moreover have "Index (owner @ ''#pull/'' @ itoa n) ''#'' = Some (length owner)"
    using Index_char [OF free(2), of "''pull/'' @ itoa n"] by simp
  moreover have "IndexAny (''#pull/'' @ itoa n) ''/?'' = Some 5" by simp
  ultimately show ?thesis unfolding from_address_def rep by simp
qed

definition no_pr :: PullRequest where
  "no_pr = \<lparr>pr_Owner = [], pr_Repository = [], pr_Number = 0, pr_Title = [], pr_URL = [],
     pr_Author = [], pr_State = [], pr_Draft = False, pr_Mergeable = [], pr_HeadSHA = [],
     pr_UpdatedAt = zeroTime, pr_Checks = \<lparr>cs_State = [], cs_Total = 0, cs_Passed = 0, cs_Failed = 0,
     cs_Pending = 0, cs_Checks = []\<rparr>, pr_Comments = [], pr_Reviews = [], pr_Threads = []\<rparr>"

text \<open>C26: A pull request is named and read back: the reference the daemon writes and the address a browser
  shows both parse to the owner, the repository and the number they were made from, for every owner
  and repository name GitHub allows and every positive number of 64 bits. The one exception is the
  address of a repository called \<^verbatim>\<open>pull\<close>, which is refused.\<close>

theorem reference_reads_back:
  assumes "list_all login_char (pr_Owner p)" and "pr_Owner p \<noteq> []"
    and "list_all repository_char (pr_Repository p)" and "pr_Repository p \<noteq> []"
    and "0 < pr_Number p" and "pr_Number p \<le> MaxInt64"
  shows "ParseReference (PullRequest_Reference p) = Some (pr_Owner p, pr_Repository p, pr_Number p) \<and>
    ParseReference (''https://github.com/'' @ pr_Owner p @ ''/'' @ pr_Repository p @ ''/pull/'' @ itoa (pr_Number p)) =
      (if pr_Repository p = ''pull'' then None else Some (pr_Owner p, pr_Repository p, pr_Number p))"
proof -
  let ?o = "pr_Owner p" and ?r = "pr_Repository p" and ?n = "pr_Number p"
  let ?ref = "?o @ ''/'' @ ?r @ ''#'' @ itoa ?n" and ?path = "?o @ ''/'' @ ?r @ ''/pull/'' @ itoa ?n"
  have n: "0 \<le> ?n" using assms(5) by simp
  have plain: "list_all plain_char ?o" "list_all plain_char ?r" "list_all plain_char (itoa ?n)"
    using assms(1,3) login_repository digits_repository [OF n] char_facts(1) by (auto simp: list_all_iff)
  have more: "list_all plain_char ''/''" "list_all plain_char ''#''" "list_all plain_char ''/pull/''"
    "list_all plain_char ''https://github.com/''" by code_simp+
  have trim: "TrimSpace ?ref = ?ref" "TrimSpace (''https://github.com/'' @ ?path) = ''https://github.com/'' @ ?path"
    using plain more by (intro TrimSpace_plain; simp)+
  note parts = parse_plain [OF assms(1-6)]
  have host: "Index (''https://github.com/'' @ ?path) ''github.com/'' = Some 8" by (simp add: HasPrefix_def)
  have split: "(case cut_at (CHR ''#'') ?ref of (path, digits, found) \<Rightarrow>
        if \<not> found then None
        else (case cut_at (CHR ''/'') path of (owner, repository, found) \<Rightarrow>
             if \<not> found \<or> owner = [] \<or> repository = [] then None
             else (case Atoi digits of None \<Rightarrow> None
                | Some number \<Rightarrow> if number \<le> 0 then None else Some (owner, repository, number)))) = Some (?o, ?r, ?n)"
    using parts assms(2,4,5) by simp
  have "ParseReference (PullRequest_Reference p) = Some (?o, ?r, ?n)"
    using trim(1) no_host [OF assms(1,3) n] split by (simp add: ParseReference_def PullRequest_Reference_def)
  moreover have "ParseReference (''https://github.com/'' @ ?path) = Some (?o, ?r, ?n)" if "?r \<noteq> ''pull''"
    using split unfolding ParseReference_def trim(2) host Let_def option.case
    by (simp add: from_address_plain [OF assms(1,3) that n, simplified])
  moreover have "ParseReference (''https://github.com/'' @ ?path) = None" if r: "?r = ''pull''"
  proof -
    have "CHR ''#'' \<notin> set ?o" "CHR ''/'' \<notin> set ?o" using no_special login_repository [OF assms(1)] by blast+
    then have "cut_at (CHR ''#'') (?o @ ''#pull'') = (?o, ''pull'', True)" "cut_at (CHR ''/'') ?o = (?o, [], False)"
      using cut_at_found [of "CHR ''#''" ?o "''pull''"] by (simp_all add: cut_at_not_found)
    then show ?thesis unfolding ParseReference_def trim(2) host Let_def option.case
      using from_pull [OF assms(1) n] r by simp
  qed
  ultimately show ?thesis by simp
qed

theorem reference_reads_back_witness:
  "ParseReference (PullRequest_Reference (no_pr\<lparr>pr_Owner := ''sadeq-n-yazdi'', pr_Repository := ''lac'', pr_Number := 12\<rparr>)) =
     Some (''sadeq-n-yazdi'', ''lac'', 12)"
proof -
  let ?p = "no_pr\<lparr>pr_Owner := ''sadeq-n-yazdi'', pr_Repository := ''lac'', pr_Number := 12\<rparr>"
  have "list_all login_char (pr_Owner ?p)" "list_all repository_char (pr_Repository ?p)"
    by (simp_all add: login_char_def repository_char_def less_eq_char_def decimal_digit_def)
  with reference_reads_back [of ?p] show ?thesis by (simp add: MaxInt64_def)
qed

end
