(* ===== verification/Protocol.thy ===== *)
theory Protocol
  imports JsonDecode WaitLoop
begin

section \<open>JSON-RPC (\<open>internal/transport/jsonrpc\<close>)\<close>

text \<open>
  Requests, responses and error codes (\<open>protocol.go\<close>), the table of methods (\<open>router.go\<close>), what a
  connection keeps (\<open>session.go\<close>) and how the server reads, runs and answers requests
  (\<open>server.go\<close>). Error messages are left out, as everywhere; results are values of type \<open>'r\<close>.
\<close>

subsection \<open>Protocol (\<open>protocol.go\<close>)\<close>

definition Version :: string where "Version = ''2.0''"

definition CodeParseError :: int where "CodeParseError = - 32700"
definition CodeInvalidRequest :: int where "CodeInvalidRequest = - 32600"
definition CodeMethodNotFound :: int where "CodeMethodNotFound = - 32601"
definition CodeInvalidParams :: int where "CodeInvalidParams = - 32602"
definition CodeInternalError :: int where "CodeInternalError = - 32603"
definition CodeUnauthorised :: int where "CodeUnauthorised = - 32000"
definition CodeNotFound :: int where "CodeNotFound = - 32001"
definition CodeAlreadyExists :: int where "CodeAlreadyExists = - 32002"
definition CodeConflict :: int where "CodeConflict = - 32003"
definition CodeCapacityReached :: int where "CodeCapacityReached = - 32004"
definition CodeShuttingDown :: int where "CodeShuttingDown = - 32005"

text \<open>What a handler fails with: a domain error, or a wire error that already has its code.\<close>

datatype api_err = Domain err | Wire int

record Request =
  req_JSONRPC :: string
  req_ID :: string
  req_Method :: string
  req_Params :: string

record 'r Response =
  rsp_ID :: string
  rsp_Result :: "'r option"
  rsp_Error :: "int option"

definition IsNotification :: "Request \<Rightarrow> bool" where
  "IsNotification r \<longleftrightarrow> length (req_ID r) = 0 \<or> req_ID r = ''null''"

fun errorFrom :: "api_err \<Rightarrow> int" where
  "errorFrom (Wire code) = code"
| "errorFrom (Domain e) = (case e of
      ErrUnauthorised \<Rightarrow> CodeUnauthorised
    | ErrNotFound \<Rightarrow> CodeNotFound
    | ErrAlreadyExists \<Rightarrow> CodeAlreadyExists
    | ErrConflict \<Rightarrow> CodeConflict
    | ErrCapacityReached \<Rightarrow> CodeCapacityReached
    | ErrInvalidArgument \<Rightarrow> CodeInvalidParams
    | _ \<Rightarrow> CodeInternalError)"

definition Request_fields :: fields where
  "Request_fields = [(''jsonrpc'', StringField), (''id'', RawField), (''method'', StringField), (''params'', RawField)]"

definition read_request :: "string \<Rightarrow> Request option" where
  "read_request line = map_option (\<lambda>vs. \<lparr>req_JSONRPC = string_at vs ''jsonrpc'', req_ID = raw_at vs ''id'',
     req_Method = string_at vs ''method'', req_Params = raw_at vs ''params''\<rparr>) (decode_struct False Request_fields line)"

text \<open>The parameters are one JSON value, a part of the request. Without any, the struct keeps its
  zero values, which an empty list of members stands for.\<close>

definition ParseParams :: "fields \<Rightarrow> string \<Rightarrow> api_err + decoded" where
  "ParseParams fs params =
     (if length params = 0 then Inr []
      else (case decode_struct True fs params of
          None \<Rightarrow> Inl (Wire CodeInvalidParams)
        | Some vs \<Rightarrow> Inr vs))"

subsection \<open>The router (\<open>router.go\<close>)\<close>

type_synonym 'h router = "(string \<times> 'h) list"

text \<open>\<open>None\<close> is the panic; a missing handler is a nil function.\<close>

definition Router_Register :: "string \<Rightarrow> 'h option \<Rightarrow> 'h router \<Rightarrow> 'h router option" where
  "Router_Register name handler r =
     (case handler of None \<Rightarrow> None
      | Some h \<Rightarrow> if name = [] then None
                 else if map_of r name \<noteq> None then None
                 else Some (r @ [(name, h)]))"

definition Methods :: "'h router \<Rightarrow> string list" where
  "Methods r = sort (map fst r)"

definition handlerFor :: "'h router \<Rightarrow> string \<Rightarrow> 'h option" where
  "handlerFor r name = map_of r name"

subsection \<open>Sessions (\<open>session.go\<close>)\<close>

record session =
  ss_agentID :: string
  ss_values :: "(string \<times> string) list"
  ss_closed :: bool

definition newSession :: session where
  "newSession = \<lparr>ss_agentID = [], ss_values = [], ss_closed = False\<rparr>"

definition SetAgentID :: "string \<Rightarrow> session \<Rightarrow> session" where
  "SetAgentID agentID s = s\<lparr>ss_agentID := agentID\<rparr>"

definition Session_Set :: "string \<Rightarrow> string \<Rightarrow> session \<Rightarrow> session" where
  "Session_Set key v s = s\<lparr>ss_values := AList.update key v (ss_values s)\<rparr>"

definition Session_Get :: "string \<Rightarrow> session \<Rightarrow> string option" where
  "Session_Get key s = map_of (ss_values s) key"

definition session_close :: "session \<Rightarrow> session" where
  "session_close s = s\<lparr>ss_closed := True\<rparr>"

text \<open>A frame goes out unless the session is closed; whether the connection takes it is not known here.\<close>

definition session_write :: "session \<Rightarrow> 'f \<Rightarrow> 'f list \<Rightarrow> 'f list" where
  "session_write s frame sent = (if ss_closed s then sent else sent @ [frame])"

subsection \<open>Running one call (\<open>server.go\<close>)\<close>

text \<open>A handler may park; the pauses say what happens meanwhile. It reads the session it is called on,
  and may change whom it belongs to. No outcome means that the pauses ran out.\<close>

type_synonym 'r handler = "interlude list \<Rightarrow> session \<Rightarrow> string \<Rightarrow> world \<Rightarrow> (api_err + 'r) option \<times> session \<times> world"

definition respond :: "string \<Rightarrow> (int + 'r) \<Rightarrow> 'r Response option" where
  "respond requestID outcome =
     (if length requestID = 0 \<or> requestID = ''null'' then None
      else Some \<lparr>rsp_ID = requestID,
        rsp_Result = (case outcome of Inl _ \<Rightarrow> None | Inr r \<Rightarrow> Some r),
        rsp_Error = (case outcome of Inl c \<Rightarrow> Some c | Inr _ \<Rightarrow> None)\<rparr>)"

definition respondUnattributed :: "int \<Rightarrow> 'r Response" where
  "respondUnattributed code = \<lparr>rsp_ID = ''null'', rsp_Result = None, rsp_Error = Some code\<rparr>"

definition validateRequest :: "Request \<Rightarrow> int option" where
  "validateRequest r =
     (if req_JSONRPC r \<noteq> Version then Some CodeInvalidRequest
      else if req_Method r = [] then Some CodeInvalidRequest
      else None)"

definition dispatch :: "'r handler router \<Rightarrow> interlude list \<Rightarrow> session \<Rightarrow> Request \<Rightarrow> world \<Rightarrow>
    (int + 'r) option \<times> session \<times> world" where
  "dispatch r ps s request w = (case handlerFor r (req_Method request) of
      None \<Rightarrow> (Some (Inl CodeMethodNotFound), s, w)
    | Some handler \<Rightarrow> (case handler ps s (req_Params request) w of (outcome, s', w') \<Rightarrow>
        (map_option (\<lambda>o1. case o1 of Inl e \<Rightarrow> Inl (errorFrom e) | Inr x \<Rightarrow> Inr x) outcome, s', w')))"

end
