(* ===== verification/Wire.thy ===== *)
theory Wire
  imports Protocol PRWatch Leasing Dispatch Reporting
begin

section \<open>Wire shapes (\<open>internal/api/views.go\<close> and the parameter and result types beside the handlers)\<close>

text \<open>
  The parameters of a method are a list of field names and kinds; a handler reads the decoded values
  by name. Results are one datatype with the views as records; rendering them as JSON is left to the
  encoder. Views are built from domain values only, so what a view has no field for (a token hash)
  cannot go out.
\<close>

subsection \<open>Parameters\<close>

definition RegisterParams :: fields where
  "RegisterParams = [(''name'', StringField), (''kind'', StringField), (''workdir'', StringField), (''pid'', IntField)]"

definition AuthenticateParams :: fields where "AuthenticateParams = [(''token'', StringField)]"
definition AgentListParams :: fields where
  "AgentListParams = [(''states'', StringsField), (''kinds'', StringsField)]"
definition AgentParams :: fields where "AgentParams = [(''agent'', StringField)]"
definition SendParams :: fields where
  "SendParams = [(''to'', StringField), (''topic'', StringField), (''kind'', StringField), (''body'', RawField)]"
definition InboxParams :: fields where "InboxParams = [(''limit'', IntField)]"
definition AcknowledgeParams :: fields where "AcknowledgeParams = [(''message_ids'', StringsField)]"
definition TopicParams :: fields where "TopicParams = [(''topic'', StringField)]"
definition LogParams :: fields where
  "LogParams = [(''agent'', StringField), (''topic'', StringField), (''since'', StringField), (''limit'', IntField)]"
definition DefineResourceParams :: fields where
  "DefineResourceParams = [(''name'', StringField), (''capacity'', IntField), (''lease_time_to_live'', StringField),
     (''description'', StringField)]"
definition ResourceNameParams :: fields where "ResourceNameParams = [(''resource'', StringField)]"
definition AcquireParams :: fields where
  "AcquireParams = [(''resource'', StringField), (''priority'', IntField), (''reason'', StringField),
     (''metadata'', RawField), (''no_wait'', BoolField), (''timeout'', StringField)]"
definition LeaseParams :: fields where "LeaseParams = [(''lease_id'', StringField)]"
definition ReleaseParams :: fields where
  "ReleaseParams = [(''lease_id'', StringField), (''force'', BoolField)]"
definition QueueCancelParams :: fields where
  "QueueCancelParams = [(''entry_id'', StringField), (''force'', BoolField)]"
definition TaskSubmitParams :: fields where
  "TaskSubmitParams = [(''command'', StringField), (''workdir'', StringField), (''wait'', BoolField),
     (''timeout'', StringField)]"
definition TaskClaimParams :: fields where
  "TaskClaimParams = [(''resource'', StringField), (''lease_id'', StringField), (''no_wait'', BoolField)]"
definition TaskWaitParams :: fields where "TaskWaitParams = [(''resource'', StringField)]"
definition TaskOutputParams :: fields where
  "TaskOutputParams = [(''task_id'', StringField), (''chunk'', StringField)]"
definition TaskCompleteParams :: fields where
  "TaskCompleteParams = [(''task_id'', StringField), (''exit_code'', IntField), (''failure'', StringField)]"
definition TaskIDParams :: fields where
  "TaskIDParams = [(''task_id'', StringField), (''wait'', BoolField)]"
definition TaskListParams :: fields where "TaskListParams = [(''limit'', IntField)]"
definition ReportRequestParams :: fields where
  "ReportRequestParams = [(''question'', StringField), (''deadline'', StringField), (''wait'', BoolField)]"
definition ReportSubmitParams :: fields where
  "ReportSubmitParams = [(''request_id'', StringField), (''body'', StringField)]"
definition ReportCollectParams :: fields where
  "ReportCollectParams = [(''request_id'', StringField), (''wait'', BoolField)]"
definition WatchParams :: fields where "WatchParams = [(''pull_request'', StringField)]"
definition WatchIDParams :: fields where
  "WatchIDParams = [(''watch_id'', StringField), (''pull_request'', StringField), (''wait'', BoolField),
     (''refresh'', BoolField)]"
definition WatchListParams :: fields where "WatchListParams = [(''all'', BoolField)]"

subsection \<open>Views\<close>

record CapabilitiesView =
  cv_Resources :: "string list"
  cv_CanBroadcast :: bool
  cv_CanDefineResources :: bool
  cv_CanRequestReports :: bool

record AgentView =
  av_ID :: string
  av_Name :: string
  av_Kind :: string
  av_Workdir :: string
  av_ProcessID :: int
  av_Internal :: bool
  av_State :: string
  av_Capabilities :: CapabilitiesView
  av_RegisteredAt :: string
  av_LastHeartbeatAt :: string

record MessageView =
  mv_ID :: string
  mv_From :: string
  mv_FromName :: string
  mv_To :: string
  mv_Topic :: string
  mv_Kind :: string
  mv_Body :: string
  mv_CreatedAt :: string

record LoggedMessageView =
  lm_Message :: MessageView
  lm_Recipients :: "string list"
  lm_Delivered :: nat
  lm_Acknowledged :: nat

record ResourceView =
  rsv_Name :: string
  rsv_Capacity :: int
  rsv_Held :: int
  rsv_Free :: int
  rsv_Waiting :: int
  rsv_LeaseTimeToLive :: string
  rsv_Description :: string

record LeaseView =
  lv_ID :: string
  lv_Resource :: string
  lv_AgentID :: string
  lv_AcquiredAt :: string
  lv_ExpiresAt :: string
  lv_RenewAfterSeconds :: int

record QueueEntryView =
  qv_ID :: string
  qv_Resource :: string
  qv_AgentID :: string
  qv_AgentName :: string
  qv_Priority :: int
  qv_Reason :: string
  qv_RequestedAt :: string
  qv_Position :: nat

record HolderView =
  hv_Lease :: LeaseView
  hv_AgentName :: string
  hv_Reason :: string

record TaskView =
  tv_ID :: string
  tv_Command :: string
  tv_Resource :: string
  tv_Workdir :: string
  tv_Requester :: string
  tv_Worker :: string
  tv_State :: string
  tv_ExitCode :: int
  tv_Output :: string
  tv_Failure :: string
  tv_SubmittedAt :: string
  tv_StartedAt :: string
  tv_FinishedAt :: string

record CommandView =
  cmv_Key :: string
  cmv_Resource :: string
  cmv_Description :: string
  cmv_Run :: "string list"
  cmv_TimeLimit :: string

record ReportView =
  rpv_AgentID :: string
  rpv_AgentName :: string
  rpv_Body :: string
  rpv_CreatedAt :: string

record ReportCollectionResult =
  rcr_RequestID :: string
  rcr_Question :: string
  rcr_Asked :: nat
  rcr_Reports :: "ReportView list"
  rcr_Silent :: "string list"
  rcr_Complete :: bool

record WatchView =
  wv_ID :: string
  wv_Reference :: string
  wv_Title :: string
  wv_URL :: string
  wv_State :: string
  wv_Draft :: bool
  wv_Checks :: string
  wv_Unresolved :: int
  wv_ObservedAt :: string
  wv_Stale :: bool
  wv_LastError :: string
  wv_Failures :: int

record PullCommentView =
  pcv_Author :: string
  pcv_Body :: string
  pcv_CreatedAt :: string

record ThreadView =
  thv_ID :: string
  thv_Path :: string
  thv_Line :: int
  thv_Resolved :: bool
  thv_Outdated :: bool
  thv_Comments :: "PullCommentView list"

record WatchEventView =
  wev_ID :: int
  wev_Kind :: string
  wev_Summary :: string
  wev_At :: string

record WatchDetail =
  wd_Watch :: WatchView
  wd_Checks :: "Check list"
  wd_Threads :: "ThreadView list"
  wd_Comments :: "PullCommentView list"
  wd_Changes :: "WatchEventView list"

record ReloadOutcome =
  rlo_Source :: string
  rlo_Applied :: "string list"
  rlo_Deferred :: "string list"

subsection \<open>Results\<close>

datatype Result =
    RegisterResult AgentView string
  | AuthenticateResult AgentView
  | HeartbeatResult int
  | AgentListResult "AgentView list"
  | DeregisterResult nat
  | ReleasedResult nat
  | CancelledResult nat
  | ReloadResult ReloadOutcome
  | SendResult string nat nat
  | InboxResult "MessageView list"
  | AcknowledgeResult nat
  | TopicResult string
  | LogResult "LoggedMessageView list"
  | ResourceResult ResourceView
  | ResourceListResult "ResourceView list"
  | LeaseResult LeaseView
  | ReleaseResult bool
  | HeldResult "LeaseView list"
  | QueueStatusResult ResourceView "HolderView list" "QueueEntryView list"
  | QueueCancelResult bool
  | TaskCommandsResult "CommandView list"
  | TaskResult TaskView
  | TaskWaitResult bool
  | TaskClaimResult TaskView "string list" string
  | TaskOutputResult bool
  | TaskListResult "TaskView list"
  | CollectionResult ReportCollectionResult
  | ReportSubmitResult bool
  | WatchResult WatchView
  | WatchStatusResult WatchDetail
  | WatchListResult "WatchView list"
  | UnwatchResult bool
  | PongResult string
  | InfoResult string string string string int "string list"

subsection \<open>Views of domain values (\<open>views.go\<close>)\<close>

definition formatTime :: "instant \<Rightarrow> string" where
  "formatTime at = (if IsZero at then [] else FormatRFC3339Nano at)"

fun agent_state_text :: "AgentState \<Rightarrow> string" where
  "agent_state_text AgentActive = ''active''"
| "agent_state_text AgentStale = ''stale''"
| "agent_state_text AgentDeregistered = ''deregistered''"
| "agent_state_text (OtherAgentState s) = s"

definition agent_state_of :: "string \<Rightarrow> AgentState" where
  "agent_state_of s = (if s = ''active'' then AgentActive else if s = ''stale'' then AgentStale
     else if s = ''deregistered'' then AgentDeregistered else OtherAgentState s)"

fun task_state_text :: "TaskState \<Rightarrow> string" where
  "task_state_text TaskQueued = ''queued''"
| "task_state_text TaskRunning = ''running''"
| "task_state_text TaskSucceeded = ''succeeded''"
| "task_state_text TaskFailed = ''failed''"
| "task_state_text TaskCancelled = ''cancelled''"
| "task_state_text (OtherTaskState s) = s"

definition viewOfAgent :: "Agent \<Rightarrow> AgentView" where
  "viewOfAgent a = \<lparr>av_ID = agent_ID a, av_Name = agent_Name a, av_Kind = agent_Kind a,
     av_Workdir = agent_Workdir a, av_ProcessID = agent_ProcessID a, av_Internal = agent_Internal a,
     av_State = agent_state_text (agent_State a),
     av_Capabilities = \<lparr>cv_Resources = cap_Resources (agent_Capabilities a),
       cv_CanBroadcast = cap_CanBroadcast (agent_Capabilities a),
       cv_CanDefineResources = cap_CanDefineResources (agent_Capabilities a),
       cv_CanRequestReports = cap_CanRequestReports (agent_Capabilities a)\<rparr>,
     av_RegisteredAt = formatTime (agent_RegisteredAt a),
     av_LastHeartbeatAt = formatTime (agent_LastHeartbeatAt a)\<rparr>"

definition viewsOfAgents :: "Agent list \<Rightarrow> AgentView list" where
  "viewsOfAgents found = map viewOfAgent found"

definition viewOfMessage :: "Message \<Rightarrow> string \<Rightarrow> MessageView" where
  "viewOfMessage m senderName = \<lparr>mv_ID = msg_ID m, mv_From = msg_FromAgentID m, mv_FromName = senderName,
     mv_To = msg_ToAgentID m, mv_Topic = msg_Topic m, mv_Kind = msg_Kind m, mv_Body = msg_Body m,
     mv_CreatedAt = formatTime (msg_CreatedAt m)\<rparr>"

definition viewOfResource :: "ResourceStatus \<Rightarrow> ResourceView" where
  "viewOfResource s = \<lparr>rsv_Name = res_Name (rs_Resource s), rsv_Capacity = res_Capacity (rs_Resource s),
     rsv_Held = rs_ActiveLeases s, rsv_Free = Free s, rsv_Waiting = rs_Waiting s,
     rsv_LeaseTimeToLive = FormatDuration (res_LeaseTimeToLive (rs_Resource s)),
     rsv_Description = res_Description (rs_Resource s)\<rparr>"

definition viewOfLease :: "Lease \<Rightarrow> LeaseView" where
  "viewOfLease l = (let lifetime = lease_ExpiresAt l - lease_AcquiredAt l in
     \<lparr>lv_ID = lease_ID l, lv_Resource = lease_ResourceName l, lv_AgentID = lease_AgentID l,
      lv_AcquiredAt = formatTime (lease_AcquiredAt l), lv_ExpiresAt = formatTime (lease_ExpiresAt l),
      lv_RenewAfterSeconds = quot (quot lifetime 2) Second\<rparr>)"

definition viewOfCommand :: "Command \<Rightarrow> CommandView" where
  "viewOfCommand c = \<lparr>cmv_Key = cmd_Key c, cmv_Resource = cmd_Resource c, cmv_Description = cmd_Description c,
     cmv_Run = cmd_Run c, cmv_TimeLimit = (if cmd_TimeLimit c > 0 then FormatDuration (cmd_TimeLimit c) else [])\<rparr>"

definition viewsOfPullComments :: "Comment list \<Rightarrow> PullCommentView list" where
  "viewsOfPullComments comments = map (\<lambda>c. \<lparr>pcv_Author = cm_Author c, pcv_Body = cm_Body c,
     pcv_CreatedAt = formatTime (cm_CreatedAt c)\<rparr>) comments"

subsection \<open>Views that look names up\<close>

text \<open>An agent that cannot be found has no name.\<close>

definition nameOf :: "string \<Rightarrow> string action" where
  "nameOf agentID = bindE (attemptE (ByID agentID)) (\<lambda>r. case r of
      Inl _ \<Rightarrow> returnE [] | Inr agent \<Rightarrow> returnE (agent_Name agent))"

definition name_or_id :: "string \<Rightarrow> string action" where
  "name_or_id agentID = bindE (nameOf agentID) (\<lambda>name. returnE (if name = [] then agentID else name))"

definition view_of_pending :: "Message \<Rightarrow> MessageView action" where
  "view_of_pending m = bindE (nameOf (msg_FromAgentID m)) (\<lambda>name. returnE (viewOfMessage m name))"

definition viewOfRecord :: "MessageRecord \<Rightarrow> LoggedMessageView action" where
  "viewOfRecord r =
     bindE (mapE (mr_RecipientIDs r) name_or_id) (\<lambda>recipients.
     bindE (view_of_pending (mr_Message r)) (\<lambda>m.
     returnE \<lparr>lm_Message = m, lm_Recipients = recipients, lm_Delivered = mr_DeliveredCount r,
        lm_Acknowledged = mr_AcknowledgedCount r\<rparr>))"

definition viewOfTask :: "Task \<Rightarrow> TaskView action" where
  "viewOfTask t =
     bindE (nameOf (task_RequesterID t)) (\<lambda>requester.
     bindE (nameOf (task_WorkerID t)) (\<lambda>worker.
     returnE \<lparr>tv_ID = task_ID t, tv_Command = task_CommandKey t, tv_Resource = task_ResourceName t,
       tv_Workdir = task_Workdir t, tv_Requester = requester, tv_Worker = worker,
       tv_State = task_state_text (task_State t), tv_ExitCode = task_ExitCode t, tv_Output = task_Output t,
       tv_Failure = task_Failure t, tv_SubmittedAt = formatTime (task_SubmittedAt t),
       tv_StartedAt = formatTime (task_StartedAt t), tv_FinishedAt = formatTime (task_FinishedAt t)\<rparr>))"

definition view_of_entry :: "nat \<times> QueueEntry \<Rightarrow> QueueEntryView action" where
  "view_of_entry = (\<lambda>(position, e). bindE (nameOf (qe_AgentID e)) (\<lambda>name.
     returnE \<lparr>qv_ID = qe_ID e, qv_Resource = qe_ResourceName e, qv_AgentID = qe_AgentID e, qv_AgentName = name,
       qv_Priority = qe_Priority e, qv_Reason = qe_Reason e, qv_RequestedAt = formatTime (qe_RequestedAt e),
       qv_Position = position + 1\<rparr>))"

definition view_of_holding :: "Holding \<Rightarrow> HolderView action" where
  "view_of_holding h = bindE (nameOf (lease_AgentID (hold_Lease h))) (\<lambda>name.
     returnE \<lparr>hv_Lease = viewOfLease (hold_Lease h), hv_AgentName = name, hv_Reason = hold_Reason h\<rparr>)"

definition view_of_report :: "Report \<Rightarrow> ReportView action" where
  "view_of_report r = bindE (nameOf (rep_AgentID r)) (\<lambda>name.
     returnE \<lparr>rpv_AgentID = rep_AgentID r, rpv_AgentName = name, rpv_Body = rep_Body r,
       rpv_CreatedAt = FormatRFC3339Nano (rep_CreatedAt r)\<rparr>)"

definition viewOfCollection :: "ReportCollection \<Rightarrow> ReportCollectionResult action" where
  "viewOfCollection c =
     bindE (mapE (rc_Reports c) view_of_report) (\<lambda>reports.
     bindE (mapE (rc_SilentAgentIDs c) name_or_id) (\<lambda>silent.
     returnE \<lparr>rcr_RequestID = rq_ID (rc_Request c), rcr_Question = rq_Question (rc_Request c),
       rcr_Asked = length (rq_AskedAgentIDs (rc_Request c)), rcr_Reports = reports, rcr_Silent = silent,
       rcr_Complete = (length silent = 0)\<rparr>))"

definition viewOfWatch :: "watch_options \<Rightarrow> PRWatch \<Rightarrow> WatchView action" where
  "viewOfWatch opts t =
     bindE (Stale opts t) (\<lambda>stale.
     returnE \<lparr>wv_ID = wt_ID t, wv_Reference = Watch_Reference t, wv_Title = wt_Title t,
       wv_URL = (case Snapshot_of t of (p, known) \<Rightarrow> if known then pr_URL p else []),
       wv_State = wt_State t, wv_Draft = wt_Draft t, wv_Checks = wt_ChecksState t,
       wv_Unresolved = wt_Unresolved t, wv_ObservedAt = formatTime (wt_ObservedAt t), wv_Stale = stale,
       wv_LastError = wt_LastError t, wv_Failures = wt_Failures t\<rparr>)"

definition view_of_thread :: "ReviewThread \<Rightarrow> ThreadView" where
  "view_of_thread th = \<lparr>thv_ID = th_ID th, thv_Path = th_Path th, thv_Line = th_Line th,
     thv_Resolved = th_Resolved th, thv_Outdated = th_Outdated th,
     thv_Comments = viewsOfPullComments (th_Comments th)\<rparr>"

definition view_of_event :: "WatchEvent \<Rightarrow> WatchEventView" where
  "view_of_event e = \<lparr>wev_ID = we_ID e, wev_Kind = kind_text (we_Kind e), wev_Summary = we_Summary e,
     wev_At = formatTime (we_At e)\<rparr>"

text \<open>Events that cannot be read are left out.\<close>

definition detailOf :: "watch_options \<Rightarrow> PRWatch \<Rightarrow> WatchDetail action" where
  "detailOf opts t =
     bindE (viewOfWatch opts t) (\<lambda>view.
     let (p, known) = Snapshot_of t in
     bindE (attemptE (Watch_events (wt_ID t) 20)) (\<lambda>r.
     returnE \<lparr>wd_Watch = view,
       wd_Checks = (if known then cs_Checks (pr_Checks p) else []),
       wd_Threads = (if known then map view_of_thread (pr_Threads p) else []),
       wd_Comments = (if known then viewsOfPullComments (pr_Comments p) else []),
       wd_Changes = (case r of Inl _ \<Rightarrow> [] | Inr events \<Rightarrow> map view_of_event events)\<rparr>))"

end
