(* ===== verification/Api.thy ===== *)
theory Api
  imports Wire
begin

section \<open>The methods of the daemon (\<open>internal/api\<close>, \<open>internal/daemon/methods.go\<close>)\<close>

text \<open>
  Each handler decodes its parameters, checks what the caller may do and hands off to a service. A
  handler that can park takes the pauses of its wait; the others are plain operations. What the
  daemon was built with is a record; the reloading of the configuration is a function of it.
\<close>

record services =
  sv_mac :: keyed_hash
  sv_secret :: string
  sv_registry :: registry_options
  sv_lease_ttl :: duration
  sv_messaging :: messaging_options
  sv_roots :: "string list"
  sv_watch :: watch_options
  sv_forge :: forge
  sv_watcher :: bool
  sv_notifier :: bool
  sv_reload :: "ReloadOutcome action option"
  sv_version :: string
  sv_commit :: string
  sv_startedAt :: instant

subsection \<open>Operations and waits\<close>

type_synonym 'a api = "(world, api_err, 'a) op"
type_synonym 'a waiting = "world \<Rightarrow> (api_err + 'a) option \<times> world"

definition domain :: "'a action \<Rightarrow> 'a api" where
  "domain m = (\<lambda>w. case m w of (Inl e, v) \<Rightarrow> (Inl (Domain e), v) | (Inr x, v) \<Rightarrow> (Inr x, v))"

definition failing :: "err \<Rightarrow> 'a api" where
  "failing e = throwE (Domain e)"

definition params_of :: "fields \<Rightarrow> string \<Rightarrow> decoded api" where
  "params_of fs params = liftE (ParseParams fs params)"

definition first_do :: "'a api \<Rightarrow> ('a \<Rightarrow> 'b waiting) \<Rightarrow> 'b waiting" where
  "first_do m f = (\<lambda>w. case m w of (Inl e, v) \<Rightarrow> (Some (Inl e), v) | (Inr x, v) \<Rightarrow> f x v)"

definition at_once :: "'a api \<Rightarrow> 'a waiting" where
  "at_once m = (\<lambda>w. case m w of (r, v) \<Rightarrow> (Some r, v))"

definition then_do :: "(world \<Rightarrow> 'a res option \<times> world) \<Rightarrow> ('a \<Rightarrow> 'b api) \<Rightarrow> 'b waiting" where
  "then_do m f = (\<lambda>w. case m w of
      (None, v) \<Rightarrow> (None, v)
    | (Some (Inl e), v) \<Rightarrow> (Some (Inl (Domain e)), v)
    | (Some (Inr x), v) \<Rightarrow> at_once (f x) v)"

text \<open>A handler that knows who is calling, and the wrapper that finds out. The agent is the one of
  the connection.\<close>

type_synonym call = "Agent \<Rightarrow> interlude list \<Rightarrow> string \<Rightarrow> Result waiting"

definition simply :: "(Agent \<Rightarrow> string \<Rightarrow> Result api) \<Rightarrow> call" where
  "simply h = (\<lambda>caller ps params. at_once (h caller params))"

definition caller_of :: "string \<Rightarrow> Agent api" where
  "caller_of agentID =
     (if agentID = [] then failing ErrUnauthorised
      else bindE (domain (ByID agentID)) (\<lambda>caller.
           if agent_State caller = AgentDeregistered then failing ErrUnauthorised else returnE caller))"

definition authenticated :: "call \<Rightarrow> Result handler" where
  "authenticated h = (\<lambda>ps s params w.
     case first_do (caller_of (ss_agentID s)) (\<lambda>caller. h caller ps params) w of (r, v) \<Rightarrow> (r, s, v))"

text \<open>The two methods that establish who the connection belongs to.\<close>

definition establishing :: "(string \<Rightarrow> (string \<times> Result) api) \<Rightarrow> Result handler" where
  "establishing h = (\<lambda>ps s params w. case h params w of
      (Inl e, v) \<Rightarrow> (Some (Inl e), s, v)
    | (Inr (agentID, result), v) \<Rightarrow> (Some (Inr result), SetAgentID agentID s, v))"

definition anonymous :: "Result api \<Rightarrow> Result handler" where
  "anonymous h = (\<lambda>ps s params w. case h w of (r, v) \<Rightarrow> (Some r, s, v))"

definition allowed :: "Agent \<Rightarrow> Permission \<Rightarrow> string \<Rightarrow> unit api" where
  "allowed caller permission target = domain (Authorise caller permission target)"

subsection \<open>Agents (\<open>agents.go\<close>)\<close>

definition handleRegister :: "services \<Rightarrow> string \<Rightarrow> (string \<times> Result) api" where
  "handleRegister sv params =
     bindE (params_of RegisterParams params) (\<lambda>vs.
     bindE (domain (Register (sv_mac sv) (sv_secret sv) (sv_registry sv)
        \<lparr>reg_Name = string_at vs ''name'', reg_Kind = string_at vs ''kind'',
         reg_Workdir = string_at vs ''workdir'', reg_ProcessID = int_at vs ''pid''\<rparr>)) (\<lambda>registration.
     returnE (agent_ID (registered_Agent registration),
        RegisterResult (viewOfAgent (registered_Agent registration)) (registered_Token registration))))"

definition handleAuthenticate :: "services \<Rightarrow> string \<Rightarrow> (string \<times> Result) api" where
  "handleAuthenticate sv params =
     bindE (params_of AuthenticateParams params) (\<lambda>vs.
     bindE (domain (Authenticate (sv_mac sv) (sv_secret sv) (string_at vs ''token''))) (\<lambda>agent.
     returnE (agent_ID agent, AuthenticateResult (viewOfAgent agent))))"

definition handleHeartbeat :: "services \<Rightarrow> Agent \<Rightarrow> string \<Rightarrow> Result api" where
  "handleHeartbeat sv caller params =
     bindE (domain (Heartbeat (agent_ID caller))) (\<lambda>_.
     returnE (HeartbeatResult (quot (ro_TimeToLive (sv_registry sv)) Second)))"

definition handleAgentList :: "Agent \<Rightarrow> string \<Rightarrow> Result api" where
  "handleAgentList caller params =
     bindE (params_of AgentListParams params) (\<lambda>vs.
     let states = map agent_state_of (strings_at vs ''states'') in
     if \<not> list_all AgentState_Valid states then failing ErrInvalidArgument
     else bindE (domain (List_agents \<lparr>agf_States = (if states = [] then [AgentActive] else states),
            agf_Kinds = strings_at vs ''kinds''\<rparr>)) (\<lambda>found.
          returnE (AgentListResult (viewsOfAgents found))))"

definition handleDeregister :: "Agent \<Rightarrow> string \<Rightarrow> Result api" where
  "handleDeregister caller params =
     bindE (domain (ReleaseEverythingHeldBy (agent_ID caller) (agent_ID caller) ''the agent deregistered'')) (\<lambda>released.
     bindE (domain (Deregister (agent_ID caller))) (\<lambda>_.
     returnE (DeregisterResult released)))"

subsection \<open>The operator's remedies (\<open>admin.go\<close>, \<open>daemon.go\<close>)\<close>

text \<open>An identifier is taken as given; anything else is a name.\<close>

definition agentNamed :: "string \<Rightarrow> Agent api" where
  "agentNamed params =
     bindE (params_of AgentParams params) (\<lambda>vs.
     let agent = string_at vs ''agent'' in
     if agent = [] then failing ErrInvalidArgument
     else if HasPrefix agent ''agent_'' then domain (ByID agent)
     else domain (ByName agent))"

definition handleReleaseAgent :: "Agent \<Rightarrow> string \<Rightarrow> Result api" where
  "handleReleaseAgent caller params =
     bindE (allowed caller PermissionForceRelease []) (\<lambda>_.
     bindE (agentNamed params) (\<lambda>target.
     bindE (domain (ReleaseEverythingHeldBy (agent_ID caller) (agent_ID target)
              (''released by '' @ agent_Name caller))) (\<lambda>released.
     returnE (ReleasedResult released))))"

definition handleFreeResource :: "Agent \<Rightarrow> string \<Rightarrow> Result api" where
  "handleFreeResource caller params =
     bindE (allowed caller PermissionForceRelease []) (\<lambda>_.
     bindE (params_of ResourceNameParams params) (\<lambda>vs.
     bindE (domain (FreeResource (agent_ID caller) (string_at vs ''resource''))) (\<lambda>released.
     returnE (ReleasedResult released))))"

definition handleClearQueue :: "Agent \<Rightarrow> string \<Rightarrow> Result api" where
  "handleClearQueue caller params =
     bindE (allowed caller PermissionForceRelease []) (\<lambda>_.
     bindE (params_of ResourceNameParams params) (\<lambda>vs.
     bindE (domain (ClearQueue (agent_ID caller) (string_at vs ''resource''))) (\<lambda>cancelled.
     returnE (CancelledResult cancelled))))"

definition handleEvict :: "Agent \<Rightarrow> string \<Rightarrow> Result api" where
  "handleEvict caller params =
     bindE (allowed caller PermissionEvict []) (\<lambda>_.
     bindE (agentNamed params) (\<lambda>target.
     if agent_Internal target then failing ErrInvalidArgument
     else
     bindE (domain (ReleaseEverythingHeldBy (agent_ID caller) (agent_ID target)
              (''evicted by '' @ agent_Name caller))) (\<lambda>released.
     bindE (domain (Evict (agent_ID caller) (agent_ID target))) (\<lambda>_.
     returnE (ReleasedResult released)))))"

definition handleDaemonReload :: "services \<Rightarrow> Agent \<Rightarrow> string \<Rightarrow> Result api" where
  "handleDaemonReload sv caller params = (case sv_reload sv of
      None \<Rightarrow> failing (OtherError ''this daemon cannot reload its configuration'')
    | Some reload \<Rightarrow>
        bindE (attemptE (allowed caller PermissionDefineResource ''configuration'')) (\<lambda>r.
        if \<not> succeeded r then failing ErrUnauthorised
        else bindE (domain reload) (\<lambda>outcome. returnE (ReloadResult outcome))))"

subsection \<open>Messages (\<open>messages.go\<close>)\<close>

definition handleSend :: "services \<Rightarrow> Agent \<Rightarrow> string \<Rightarrow> Result api" where
  "handleSend sv caller params =
     bindE (params_of SendParams params) (\<lambda>vs.
     let to = string_at vs ''to''; topic = string_at vs ''topic'' in
     if (to = []) = (topic = []) then failing ErrInvalidArgument
     else
     bindE (if topic \<noteq> [] then allowed caller PermissionBroadcast topic else returnE ()) (\<lambda>_.
     bindE (domain (Send (sv_messaging sv) \<lparr>snd_FromAgentID = agent_ID caller, snd_ToAgentName = to,
        snd_Topic = topic, snd_Kind = string_at vs ''kind'', snd_Body = raw_at vs ''body''\<rparr>)) (\<lambda>sent.
     returnE (SendResult (msg_ID (sent_Message sent)) (length (sent_RecipientIDs sent)) (sent_Notified sent)))))"

definition handleInbox :: "Agent \<Rightarrow> string \<Rightarrow> Result api" where
  "handleInbox caller params =
     bindE (params_of InboxParams params) (\<lambda>vs.
     bindE (domain (Inbox (agent_ID caller) (int_at vs ''limit''))) (\<lambda>found.
     bindE (domain (mapE found view_of_pending)) (\<lambda>views.
     returnE (InboxResult views))))"

definition handleAcknowledge :: "Agent \<Rightarrow> string \<Rightarrow> Result api" where
  "handleAcknowledge caller params =
     bindE (params_of AcknowledgeParams params) (\<lambda>vs.
     if length (strings_at vs ''message_ids'') = 0 then failing ErrInvalidArgument
     else
     bindE (domain (Acknowledge (agent_ID caller) (strings_at vs ''message_ids''))) (\<lambda>acknowledged.
     returnE (AcknowledgeResult acknowledged)))"

definition handleSubscribe :: "Agent \<Rightarrow> string \<Rightarrow> Result api" where
  "handleSubscribe caller params =
     bindE (params_of TopicParams params) (\<lambda>vs.
     bindE (domain (Subscribe (agent_ID caller) (string_at vs ''topic''))) (\<lambda>_.
     returnE (TopicResult (string_at vs ''topic''))))"

definition handleUnsubscribe :: "Agent \<Rightarrow> string \<Rightarrow> Result api" where
  "handleUnsubscribe caller params =
     bindE (params_of TopicParams params) (\<lambda>vs.
     bindE (domain (Unsubscribe (agent_ID caller) (string_at vs ''topic''))) (\<lambda>_.
     returnE (TopicResult (string_at vs ''topic''))))"

definition handleLog :: "Agent \<Rightarrow> string \<Rightarrow> Result api" where
  "handleLog caller params =
     bindE (params_of LogParams params) (\<lambda>vs.
     bindE (allowed caller PermissionReadLog []) (\<lambda>_.
     bindE (if string_at vs ''agent'' = [] then returnE []
            else bindE (domain (ByName (string_at vs ''agent''))) (\<lambda>agent. returnE (agent_ID agent))) (\<lambda>agentID.
     bindE (if string_at vs ''since'' = [] then returnE zeroTime
            else (case ParseRFC3339 (string_at vs ''since'') of
                None \<Rightarrow> failing ErrInvalidArgument | Some since \<Rightarrow> returnE since)) (\<lambda>since.
     bindE (domain (Log \<lparr>mf_AgentID = agentID, mf_Topic = string_at vs ''topic'', mf_Since = since,
        mf_Limit = int_at vs ''limit''\<rparr>)) (\<lambda>found.
     bindE (domain (mapE found viewOfRecord)) (\<lambda>views.
     returnE (LogResult views)))))))"

end
