(* ===== verification/ApiWork.thy ===== *)
theory ApiWork
  imports Api
begin

section \<open>The methods for slots, tasks, reports and pull requests (\<open>internal/api\<close>)\<close>

subsection \<open>Resources, leases and queues (\<open>leases.go\<close>)\<close>

definition parseDuration :: "string \<Rightarrow> duration api" where
  "parseDuration t =
     (if t = [] then returnE 0
      else (case ParseDuration t of
          None \<Rightarrow> failing ErrInvalidArgument
        | Some parsed \<Rightarrow> if parsed < 0 then failing ErrInvalidArgument else returnE parsed))"

definition handleDefineResource :: "services \<Rightarrow> Agent \<Rightarrow> string \<Rightarrow> Result api" where
  "handleDefineResource sv caller params =
     bindE (params_of DefineResourceParams params) (\<lambda>vs.
     bindE (allowed caller PermissionDefineResource (string_at vs ''name'')) (\<lambda>_.
     bindE (parseDuration (string_at vs ''lease_time_to_live'')) (\<lambda>timeToLive.
     bindE (domain (Define (sv_lease_ttl sv) (agent_ID caller)
        \<lparr>res_Name = string_at vs ''name'', res_Capacity = int_at vs ''capacity'', res_LeaseTimeToLive = timeToLive,
         res_Description = string_at vs ''description'', res_CreatedAt = zeroTime\<rparr>)) (\<lambda>_.
     bindE (domain (Status (string_at vs ''name''))) (\<lambda>status.
     returnE (ResourceResult (viewOfResource status)))))))"

definition handleResourceList :: "Agent \<Rightarrow> string \<Rightarrow> Result api" where
  "handleResourceList caller params =
     bindE (domain List_resources) (\<lambda>statuses. returnE (ResourceListResult (map viewOfResource statuses)))"

definition handleResourceStatus :: "Agent \<Rightarrow> string \<Rightarrow> Result api" where
  "handleResourceStatus caller params =
     bindE (params_of ResourceNameParams params) (\<lambda>vs.
     bindE (domain (Status (string_at vs ''resource''))) (\<lambda>status.
     returnE (ResourceResult (viewOfResource status))))"

text \<open>The context of a call has no deadline of its own; without a timeout only the connection can end
  it. What happened during a wake-up that cannot be is part of the next pause.\<close>

fun no_deadline :: "interlude list \<Rightarrow> interlude list" where
  "no_deadline [] = []"
| "no_deadline ((others, why) # ps) =
     (if why = ContextEnded DeadlineExceeded then
        (case no_deadline ps of [] \<Rightarrow> [] | (f, why') # rest \<Rightarrow> (\<lambda>w. f (others w), why') # rest)
      else (others, why) # no_deadline ps)"

definition with_timeout :: "duration \<Rightarrow> interlude list \<Rightarrow> interlude list" where
  "with_timeout timeout ps = (if timeout > 0 then ps else no_deadline ps)"

fun as_pause :: "interlude \<Rightarrow> pause" where
  "as_pause (others, ChannelClosed) = (others, Changed)"
| "as_pause (others, ContextEnded ce) = (others, CtxDone ce)"
| "as_pause (others, Recheck) = (others, TimerFired)"

definition handleAcquire :: "services \<Rightarrow> call" where
  "handleAcquire sv caller ps params =
     first_do (bindE (params_of AcquireParams params) (\<lambda>vs.
               bindE (allowed caller PermissionLease (string_at vs ''resource'')) (\<lambda>_.
               bindE (parseDuration (string_at vs ''timeout'')) (\<lambda>timeout. returnE (vs, timeout))))) (\<lambda>(vs, timeout).
     then_do (Acquire (map as_pause (with_timeout timeout ps))
        \<lparr>aq_AgentID = agent_ID caller, aq_ResourceName = string_at vs ''resource'',
         aq_Priority = int_at vs ''priority'', aq_Reason = string_at vs ''reason'',
         aq_Metadata = raw_at vs ''metadata'', aq_NoWait = bool_at vs ''no_wait''\<rparr>) (\<lambda>lease.
     returnE (LeaseResult (viewOfLease lease))))"

definition handleRenew :: "Agent \<Rightarrow> string \<Rightarrow> Result api" where
  "handleRenew caller params =
     bindE (params_of LeaseParams params) (\<lambda>vs.
     bindE (domain (Renew (agent_ID caller) (string_at vs ''lease_id''))) (\<lambda>lease.
     returnE (LeaseResult (viewOfLease lease))))"

definition handleRelease :: "Agent \<Rightarrow> string \<Rightarrow> Result api" where
  "handleRelease caller params =
     bindE (params_of ReleaseParams params) (\<lambda>vs.
     if \<not> bool_at vs ''force'' then
       bindE (domain (Release (agent_ID caller) (string_at vs ''lease_id''))) (\<lambda>_. returnE (ReleaseResult True))
     else
       bindE (allowed caller PermissionForceRelease []) (\<lambda>_.
       bindE (domain (ForceRelease (agent_ID caller) (string_at vs ''lease_id''))) (\<lambda>_.
       returnE (ReleaseResult True))))"

definition handleHeld :: "Agent \<Rightarrow> string \<Rightarrow> Result api" where
  "handleHeld caller params =
     bindE (domain (Held (agent_ID caller))) (\<lambda>leases. returnE (HeldResult (map viewOfLease leases)))"

definition handleQueueStatus :: "Agent \<Rightarrow> string \<Rightarrow> Result api" where
  "handleQueueStatus caller params =
     bindE (params_of ResourceNameParams params) (\<lambda>vs.
     bindE (domain (Status (string_at vs ''resource''))) (\<lambda>status.
     bindE (domain (Queue (string_at vs ''resource''))) (\<lambda>entries.
     bindE (domain (mapE (enumerate 0 entries) view_of_entry)) (\<lambda>waiting.
     bindE (domain (Holders (string_at vs ''resource''))) (\<lambda>holdings.
     bindE (domain (mapE holdings view_of_holding)) (\<lambda>holders.
     returnE (QueueStatusResult (viewOfResource status) holders waiting)))))))"

definition handleQueueCancel :: "Agent \<Rightarrow> string \<Rightarrow> Result api" where
  "handleQueueCancel caller params =
     bindE (params_of QueueCancelParams params) (\<lambda>vs.
     if bool_at vs ''force'' then
       bindE (allowed caller PermissionForceRelease []) (\<lambda>_.
       bindE (domain (ForceCancel (agent_ID caller) (string_at vs ''entry_id''))) (\<lambda>_.
       returnE (QueueCancelResult True)))
     else
       bindE (domain (Cancel (agent_ID caller) (string_at vs ''entry_id''))) (\<lambda>_.
       returnE (QueueCancelResult True)))"

subsection \<open>Tasks (\<open>tasks.go\<close>)\<close>

definition handleTaskCommands :: "Agent \<Rightarrow> string \<Rightarrow> Result api" where
  "handleTaskCommands caller params =
     bindE (domain Commands) (\<lambda>commands. returnE (TaskCommandsResult (map viewOfCommand commands)))"

definition task_result :: "Task \<Rightarrow> Result api" where
  "task_result t = bindE (domain (viewOfTask t)) (\<lambda>view. returnE (TaskResult view))"

text \<open>The timeout is read after the task has been submitted.\<close>

definition handleTaskSubmit :: "services \<Rightarrow> call" where
  "handleTaskSubmit sv caller ps params =
     first_do (bindE (params_of TaskSubmitParams params) (\<lambda>vs.
               bindE (domain (Submit (sv_roots sv) \<lparr>sub_RequesterID = agent_ID caller,
                  sub_CommandKey = string_at vs ''command'', sub_Workdir = string_at vs ''workdir''\<rparr>)) (\<lambda>t.
               returnE (vs, t)))) (\<lambda>(vs, t).
     if \<not> bool_at vs ''wait'' then at_once (task_result t)
     else first_do (parseDuration (string_at vs ''timeout'')) (\<lambda>timeout.
          then_do (Await (with_timeout timeout ps) (task_ID t)) task_result))"

definition handleTaskWait :: call where
  "handleTaskWait caller ps params =
     first_do (bindE (params_of TaskWaitParams params) (\<lambda>vs.
               bindE (allowed caller PermissionLease (string_at vs ''resource'')) (\<lambda>_. returnE vs))) (\<lambda>vs.
     then_do (WaitForWork (no_deadline ps) (string_at vs ''resource'')) (\<lambda>_.
     returnE (TaskWaitResult True)))"

definition handleTaskClaim :: call where
  "handleTaskClaim caller ps params =
     first_do (bindE (params_of TaskClaimParams params) (\<lambda>vs.
               bindE (allowed caller PermissionLease (string_at vs ''resource'')) (\<lambda>_. returnE vs))) (\<lambda>vs.
     then_do (Claim (no_deadline ps) (string_at vs ''resource'') (agent_ID caller) (string_at vs ''lease_id'')
                (bool_at vs ''no_wait'')) (\<lambda>claimed.
     bindE (domain (viewOfTask (claimed_Task claimed))) (\<lambda>view.
     returnE (TaskClaimResult view (cmd_Run (claimed_Command claimed))
       (if cmd_TimeLimit (claimed_Command claimed) > 0
        then FormatDuration (cmd_TimeLimit (claimed_Command claimed)) else [])))))"

definition OutputNotificationMethod :: string where
  "OutputNotificationMethod = ''task.output''"

text \<open>The chunk goes to the requester's sessions, when the task can be read and there is a notifier.\<close>

definition push_output :: "services \<Rightarrow> string \<Rightarrow> string \<Rightarrow> unit action" where
  "push_output sv taskID chunk =
     bindE (attemptE (Task_by_id taskID)) (\<lambda>r. case r of
       Inl _ \<Rightarrow> returnE ()
     | Inr t \<Rightarrow>
         if \<not> sv_notifier sv then returnE ()
         else bindE now (\<lambda>at.
              bindE (Broadcast (task_RequesterID t) OutputNotificationMethod
                [(''task_id'', task_ID t), (''chunk'', chunk), (''at'', FormatRFC3339Nano at)]) (\<lambda>_.
              returnE ())))"

definition handleTaskOutput :: "services \<Rightarrow> Agent \<Rightarrow> string \<Rightarrow> Result api" where
  "handleTaskOutput sv caller params =
     bindE (params_of TaskOutputParams params) (\<lambda>vs.
     if string_at vs ''task_id'' = [] then failing ErrInvalidArgument
     else
     bindE (domain (AppendOutput (string_at vs ''task_id'') (agent_ID caller) (string_at vs ''chunk''))) (\<lambda>_.
     bindE (domain (push_output sv (string_at vs ''task_id'') (string_at vs ''chunk''))) (\<lambda>_.
     returnE (TaskOutputResult True))))"

definition handleTaskComplete :: "Agent \<Rightarrow> string \<Rightarrow> Result api" where
  "handleTaskComplete caller params =
     bindE (params_of TaskCompleteParams params) (\<lambda>vs.
     if string_at vs ''task_id'' = [] then failing ErrInvalidArgument
     else
     bindE (domain (Complete (string_at vs ''task_id'') (agent_ID caller) (int_at vs ''exit_code'')
              (string_at vs ''failure''))) task_result)"

definition handleTaskStatus :: call where
  "handleTaskStatus caller ps params =
     first_do (params_of TaskIDParams params) (\<lambda>vs.
     if string_at vs ''task_id'' = [] then at_once (failing ErrInvalidArgument)
     else if bool_at vs ''wait'' then then_do (Await (no_deadline ps) (string_at vs ''task_id'')) task_result
     else at_once (bindE (domain (Task_by_id (string_at vs ''task_id''))) task_result))"

definition handleTaskCancel :: "Agent \<Rightarrow> string \<Rightarrow> Result api" where
  "handleTaskCancel caller params =
     bindE (params_of TaskIDParams params) (\<lambda>vs.
     bindE (domain (Cancel_task (string_at vs ''task_id'') (agent_ID caller))) task_result)"

definition handleTaskList :: "Agent \<Rightarrow> string \<Rightarrow> Result api" where
  "handleTaskList caller params =
     bindE (params_of TaskListParams params) (\<lambda>vs.
     bindE (domain (Mine (agent_ID caller) (int_at vs ''limit''))) (\<lambda>tasks0.
     bindE (domain (mapE tasks0 viewOfTask)) (\<lambda>views.
     returnE (TaskListResult views))))"

subsection \<open>Reports (\<open>reports.go\<close>)\<close>

definition collection_result :: "ReportCollection \<Rightarrow> Result api" where
  "collection_result c = bindE (domain (viewOfCollection c)) (\<lambda>view. returnE (CollectionResult view))"

definition handleReportRequest :: "services \<Rightarrow> call" where
  "handleReportRequest sv caller ps params =
     first_do (bindE (params_of ReportRequestParams params) (\<lambda>vs.
               bindE (allowed caller PermissionRequestReports []) (\<lambda>_.
               bindE (parseDuration (string_at vs ''deadline'')) (\<lambda>deadline.
               bindE (domain (Request (sv_registry sv) (sv_messaging sv) (agent_ID caller)
                        (string_at vs ''question'') deadline)) (\<lambda>request.
               returnE (vs, request)))))) (\<lambda>(vs, request).
     if \<not> bool_at vs ''wait'' then at_once (bindE (domain (Snapshot (rq_ID request))) collection_result)
     else then_do (Collect_reports (no_deadline ps) (rq_ID request)) collection_result)"

definition handleReportSubmit :: "Agent \<Rightarrow> string \<Rightarrow> Result api" where
  "handleReportSubmit caller params =
     bindE (params_of ReportSubmitParams params) (\<lambda>vs.
     if string_at vs ''request_id'' = [] then failing ErrInvalidArgument
     else
     bindE (domain (Submit_report (string_at vs ''request_id'') (agent_ID caller) (string_at vs ''body''))) (\<lambda>_.
     returnE (ReportSubmitResult True)))"

definition handleReportCollect :: call where
  "handleReportCollect caller ps params =
     first_do (params_of ReportCollectParams params) (\<lambda>vs.
     if string_at vs ''request_id'' = [] then at_once (failing ErrInvalidArgument)
     else if bool_at vs ''wait''
     then then_do (Collect_reports (no_deadline ps) (string_at vs ''request_id'')) collection_result
     else at_once (bindE (domain (Snapshot (string_at vs ''request_id''))) collection_result))"

subsection \<open>Pull requests (\<open>watches.go\<close>)\<close>

definition not_watching :: "'a api" where
  "not_watching = failing (OtherError ''this daemon is not watching pull requests'')"

definition reference_of :: "string \<Rightarrow> (string \<times> string \<times> int) api" where
  "reference_of text = (case ParseReference text of
      None \<Rightarrow> failing ErrInvalidArgument | Some r \<Rightarrow> returnE r)"

definition handleWatchPullRequest :: "services \<Rightarrow> Agent \<Rightarrow> string \<Rightarrow> Result api" where
  "handleWatchPullRequest sv caller params =
     (if \<not> sv_watcher sv then not_watching
      else
      bindE (params_of WatchParams params) (\<lambda>vs.
      bindE (reference_of (string_at vs ''pull_request'')) (\<lambda>(owner, repository, number).
      bindE (domain (Watch_pr (sv_watch sv) (sv_forge sv) (Some (sv_messaging sv)) (agent_ID caller)
               owner repository number)) (\<lambda>t.
      bindE (domain (viewOfWatch (sv_watch sv) t)) (\<lambda>view.
      returnE (WatchResult view))))))"

definition resolveWatch :: "decoded \<Rightarrow> PRWatch api" where
  "resolveWatch vs =
     (if string_at vs ''watch_id'' \<noteq> [] then domain (Watch_by_id (string_at vs ''watch_id''))
      else if string_at vs ''pull_request'' \<noteq> [] then
        bindE (reference_of (string_at vs ''pull_request'')) (\<lambda>(owner, repository, number).
        domain (Watch_by_reference owner repository number))
      else failing ErrInvalidArgument)"

definition detail_result :: "services \<Rightarrow> PRWatch \<Rightarrow> Result api" where
  "detail_result sv t = bindE (domain (detailOf (sv_watch sv) t)) (\<lambda>d. returnE (WatchStatusResult d))"

text \<open>A failed refresh falls back to what is stored. The watch was read just before, so it is the poll
  that failed, and what it hands back still names the watch.\<close>

definition refreshed_or_stored :: "services \<Rightarrow> PRWatch \<Rightarrow> PRWatch action" where
  "refreshed_or_stored sv t =
     bindE (attemptE (Refresh (sv_watch sv) (sv_forge sv) (Some (sv_messaging sv)) (wt_ID t))) (\<lambda>r. case r of
       Inr refreshed \<Rightarrow> returnE refreshed
     | Inl _ \<Rightarrow> Watch_by_id (wt_ID t))"

definition handleWatchStatus :: "services \<Rightarrow> call" where
  "handleWatchStatus sv caller ps params =
     (if \<not> sv_watcher sv then at_once not_watching
      else
      first_do (bindE (params_of WatchIDParams params) (\<lambda>vs.
                bindE (resolveWatch vs) (\<lambda>t. returnE (vs, t)))) (\<lambda>(vs, t).
      if bool_at vs ''refresh'' then
        at_once (bindE (domain (refreshed_or_stored sv t)) (detail_result sv))
      else if bool_at vs ''wait'' then
        then_do (Await_watch (no_deadline ps) (wt_ID t)) (detail_result sv)
      else at_once (detail_result sv t)))"

definition handleWatchList :: "services \<Rightarrow> Agent \<Rightarrow> string \<Rightarrow> Result api" where
  "handleWatchList sv caller params =
     (if \<not> sv_watcher sv then not_watching
      else
      bindE (params_of WatchListParams params) (\<lambda>vs.
      bindE (domain (if bool_at vs ''all'' then All_watches else Watches_of (agent_ID caller))) (\<lambda>watches0.
      bindE (domain (mapE watches0 (viewOfWatch (sv_watch sv)))) (\<lambda>views.
      returnE (WatchListResult views)))))"

definition handleUnwatch :: "services \<Rightarrow> Agent \<Rightarrow> string \<Rightarrow> Result api" where
  "handleUnwatch sv caller params =
     (if \<not> sv_watcher sv then not_watching
      else
      bindE (params_of WatchIDParams params) (\<lambda>vs.
      bindE (resolveWatch vs) (\<lambda>t.
      bindE (domain (Unwatch (agent_ID caller) (wt_ID t))) (\<lambda>_.
      returnE (UnwatchResult False)))))"

end
