(* ===== verification/ApiMethods.thy ===== *)
theory ApiMethods
  imports ApiWork
begin

section \<open>The table of methods (\<open>api.go\<close>, \<open>internal/daemon/methods.go\<close>)\<close>

definition handlePing :: "Result api" where
  "handlePing = domain (bindE now (\<lambda>at. returnE (PongResult (FormatRFC3339Nano at))))"

definition handleInfo :: "services \<Rightarrow> string list \<Rightarrow> Result api" where
  "handleInfo sv names = domain (bindE now (\<lambda>at.
     returnE (InfoResult (sv_version sv) (sv_commit sv) Version (FormatRFC3339 (sv_startedAt sv))
       (quot (at - sv_startedAt sv) Second) names)))"

text \<open>What \<^verbatim>\<open>registerMethods\<close> adds, then what the API adds, in the source's order.\<close>

definition daemon_methods :: "services \<Rightarrow> string list \<Rightarrow> (string \<times> Result handler) list" where
  "daemon_methods sv names =
     [(''daemon.ping'', anonymous handlePing), (''daemon.info'', anonymous (handleInfo sv names))]"

definition open_methods :: "services \<Rightarrow> (string \<times> Result handler) list" where
  "open_methods sv =
     [(''agent.register'', establishing (handleRegister sv)),
      (''agent.authenticate'', establishing (handleAuthenticate sv))]"

definition api_calls :: "services \<Rightarrow> (string \<times> call) list" where
  "api_calls sv =
     [(''daemon.reload'', simply (handleDaemonReload sv)),
      (''agent.heartbeat'', simply (handleHeartbeat sv)),
      (''agent.list'', simply handleAgentList),
      (''agent.deregister'', simply handleDeregister),
      (''message.send'', simply (handleSend sv)),
      (''message.inbox'', simply handleInbox),
      (''message.ack'', simply handleAcknowledge),
      (''message.log'', simply handleLog),
      (''message.subscribe'', simply handleSubscribe),
      (''message.unsubscribe'', simply handleUnsubscribe),
      (''resource.define'', simply (handleDefineResource sv)),
      (''resource.list'', simply handleResourceList),
      (''resource.status'', simply handleResourceStatus),
      (''lease.acquire'', handleAcquire sv),
      (''lease.renew'', simply handleRenew),
      (''lease.release'', simply handleRelease),
      (''lease.held'', simply handleHeld),
      (''queue.status'', simply handleQueueStatus),
      (''queue.cancel'', simply handleQueueCancel),
      (''admin.release_agent'', simply handleReleaseAgent),
      (''admin.free_resource'', simply handleFreeResource),
      (''admin.clear_queue'', simply handleClearQueue),
      (''admin.evict'', simply handleEvict),
      (''task.commands'', simply handleTaskCommands),
      (''task.submit'', handleTaskSubmit sv),
      (''task.wait'', handleTaskWait),
      (''task.claim'', handleTaskClaim),
      (''task.output'', simply (handleTaskOutput sv)),
      (''task.complete'', simply handleTaskComplete),
      (''task.status'', handleTaskStatus),
      (''task.cancel'', simply handleTaskCancel),
      (''task.list'', simply handleTaskList),
      (''pr.watch'', simply (handleWatchPullRequest sv)),
      (''pr.status'', handleWatchStatus sv),
      (''pr.list'', simply (handleWatchList sv)),
      (''pr.unwatch'', simply (handleUnwatch sv)),
      (''report.request'', handleReportRequest sv),
      (''report.submit'', simply handleReportSubmit),
      (''report.collect'', handleReportCollect)]"

fun register_all :: "(string \<times> 'h) list \<Rightarrow> 'h router \<Rightarrow> 'h router option" where
  "register_all [] r = Some r"
| "register_all ((name, h) # rest) r =
     (case Router_Register name (Some h) r of None \<Rightarrow> None | Some r' \<Rightarrow> register_all rest r')"

definition Api_Register :: "services \<Rightarrow> Result handler router \<Rightarrow> Result handler router option" where
  "Api_Register sv =
     register_all (open_methods sv @ map (\<lambda>(name, c). (name, authenticated c)) (api_calls sv))"

definition build_router :: "services \<Rightarrow> string list \<Rightarrow> Result handler router option" where
  "build_router sv names = Option.bind (register_all (daemon_methods sv names) []) (Api_Register sv)"

text \<open>\<open>daemon.info\<close> reads the names off the router it is registered in; they do not depend on it.\<close>

definition serving :: "services \<Rightarrow> Result handler router option" where
  "serving sv = Option.bind (build_router sv []) (\<lambda>r. build_router sv (Methods r))"

text \<open>One request on a session, and its reply.\<close>

definition answer :: "Result handler router \<Rightarrow> interlude list \<Rightarrow> session \<Rightarrow> Request \<Rightarrow> world \<Rightarrow>
    Result Response option \<times> session \<times> world" where
  "answer r ps s request w = (case dispatch r ps s request w of
      (None, s', w') \<Rightarrow> (None, s', w')
    | (Some outcome, s', w') \<Rightarrow> (respond (req_ID request) outcome, s', w'))"

subsection \<open>Laws\<close>

lemma register_all_distinct:
  "distinct (map fst r @ map fst ms) \<Longrightarrow> [] \<notin> set (map fst ms) \<Longrightarrow> register_all ms r = Some (r @ ms)"
proof (induction ms arbitrary: r)
  case Nil
  show ?case by simp
next
  case (Cons m ms)
  obtain name h where m: "m = (name, h)" by force
  from Cons.prems(1) m have "map_of r name = None" by (auto simp: map_of_eq_None_iff)
  moreover from Cons.prems(2) m have "name \<noteq> []" by auto
  moreover from Cons.prems m Cons.IH [of "r @ [(name, h)]"] have
    "register_all ms (r @ [(name, h)]) = Some (r @ (name, h) # ms)" by auto
  ultimately show ?case using m by (simp add: Router_Register_def)
qed

definition served :: "services \<Rightarrow> string list \<Rightarrow> Result handler router" where
  "served sv names = daemon_methods sv names @ open_methods sv @ map (\<lambda>(name, c). (name, authenticated c)) (api_calls sv)"

definition method_names :: "string list" where
  "method_names = [''admin.clear_queue'', ''admin.evict'', ''admin.free_resource'', ''admin.release_agent'',
     ''agent.authenticate'', ''agent.deregister'', ''agent.heartbeat'', ''agent.list'', ''agent.register'',
     ''daemon.info'', ''daemon.ping'', ''daemon.reload'', ''lease.acquire'', ''lease.held'', ''lease.release'',
     ''lease.renew'', ''message.ack'', ''message.inbox'', ''message.log'', ''message.send'',
     ''message.subscribe'', ''message.unsubscribe'', ''pr.list'', ''pr.status'', ''pr.unwatch'', ''pr.watch'',
     ''queue.cancel'', ''queue.status'', ''report.collect'', ''report.request'', ''report.submit'',
     ''resource.define'', ''resource.list'', ''resource.status'', ''task.cancel'', ''task.claim'',
     ''task.commands'', ''task.complete'', ''task.list'', ''task.output'', ''task.status'', ''task.submit'',
     ''task.wait'']"

lemma fst_wrap: "map fst (map (\<lambda>(name, c). (name, f c)) xs) = map fst xs"
  by (induction xs) auto

lemma served_names: "map fst (served sv names) =
    [''daemon.ping'', ''daemon.info'', ''agent.register'', ''agent.authenticate''] @ map fst (api_calls sv)"
  by (simp add: served_def daemon_methods_def open_methods_def fst_wrap del: map_map)

definition call_names :: "string list" where
  "call_names = [''daemon.reload'', ''agent.heartbeat'', ''agent.list'', ''agent.deregister'', ''message.send'',
     ''message.inbox'', ''message.ack'', ''message.log'', ''message.subscribe'', ''message.unsubscribe'',
     ''resource.define'', ''resource.list'', ''resource.status'', ''lease.acquire'', ''lease.renew'',
     ''lease.release'', ''lease.held'', ''queue.status'', ''queue.cancel'', ''admin.release_agent'',
     ''admin.free_resource'', ''admin.clear_queue'', ''admin.evict'', ''task.commands'', ''task.submit'',
     ''task.wait'', ''task.claim'', ''task.output'', ''task.complete'', ''task.status'', ''task.cancel'',
     ''task.list'', ''pr.watch'', ''pr.status'', ''pr.list'', ''pr.unwatch'', ''report.request'',
     ''report.submit'', ''report.collect'']"

lemma api_call_names: "map fst (api_calls sv) = call_names"
  by (simp only: api_calls_def call_names_def list.map fst_conv)

lemma names_distinct: "distinct ([''daemon.ping'', ''daemon.info'', ''agent.register'', ''agent.authenticate''] @ call_names)"
  by code_simp

lemma names_sorted:
  "sort ([''daemon.ping'', ''daemon.info'', ''agent.register'', ''agent.authenticate''] @ call_names) = method_names"
  by code_simp

lemma names_nonempty: "[] \<notin> set ([''daemon.ping'', ''daemon.info'', ''agent.register'', ''agent.authenticate''] @ call_names)"
  by (simp add: call_names_def)

end
