(* ===== verification/ApiFacts.thy ===== *)
theory ApiFacts
  imports ApiMethods
begin

section \<open>What every call has in common\<close>

subsection \<open>The router\<close>

lemma build_router_eq: "build_router sv names = Some (served sv names)"
proof -
  have d: "distinct (map fst (served sv names))" "[] \<notin> set (map fst (served sv names))"
    unfolding served_names api_call_names by (rule names_distinct, rule names_nonempty)
  have "register_all (daemon_methods sv names) [] = Some (daemon_methods sv names)"
    using register_all_distinct [of "[]" "daemon_methods sv names"] d by (simp add: served_def)
  moreover have "Api_Register sv (daemon_methods sv names) = Some (served sv names)"
    using register_all_distinct [of "daemon_methods sv names"
        "open_methods sv @ map (\<lambda>(name, c). (name, authenticated c)) (api_calls sv)"] d
    by (simp add: Api_Register_def served_def)
  ultimately show ?thesis by (simp add: build_router_def)
qed

lemma Methods_served: "Methods (served sv names) = method_names"
  unfolding Methods_def served_names api_call_names by (rule names_sorted)

lemma serving_eq: "serving sv = Some (served sv method_names)"
  by (simp add: serving_def build_router_eq Methods_served)

definition unguarded :: "string list" where
  "unguarded = [''daemon.ping'', ''daemon.info'', ''agent.register'', ''agent.authenticate'']"

lemma served_set: "set (map fst (served sv names)) = set method_names"
proof -
  have "set method_names = set (Methods (served sv names))" by (simp only: Methods_served)
  then show ?thesis by (simp add: Methods_def)
qed

lemma served_distinct: "distinct (map fst (served sv names))"
  unfolding served_names api_call_names by (rule names_distinct)

lemma handlerFor_None: "handlerFor (served sv names) m = None \<longleftrightarrow> m \<notin> set method_names"
  using served_set [of sv names] by (simp add: handlerFor_def map_of_eq_None_iff)

lemma served_append: "served sv names =
    (daemon_methods sv names @ open_methods sv) @ map (\<lambda>(name, c). (name, authenticated c)) (api_calls sv)"
  by (simp add: served_def)

lemma map_of_wrap: "map_of (map (\<lambda>(name, c). (name, f c)) xs) m = map_option f (map_of xs m)"
  by (induction xs) auto

lemma unguarded_names: "map fst (daemon_methods sv names @ open_methods sv) = unguarded"
  by (simp add: daemon_methods_def open_methods_def unguarded_def)

lemma handlerFor_guarded:
  assumes "m \<notin> set unguarded"
  shows "handlerFor (served sv names) m = map_option authenticated (map_of (api_calls sv) m)"
proof -
  have "map_of (daemon_methods sv names @ open_methods sv) m = None"
    unfolding map_of_eq_None_iff using assms unguarded_names [of sv names] by (metis set_map)
  then have "m \<notin> dom (map_of (daemon_methods sv names @ open_methods sv))" by auto
  then show ?thesis
    unfolding handlerFor_def served_append map_of_append map_of_wrap
    by (simp add: map_add_dom_app_simps split: option.split)
qed

lemma handlerFor_call:
  assumes "(m, c) \<in> set (api_calls sv)"
  shows "handlerFor (served sv names) m = Some (authenticated c)"
  unfolding handlerFor_def
proof (rule map_of_is_SomeI [OF served_distinct])
  show "(m, authenticated c) \<in> set (served sv names)"
    using assms by (force simp: served_def)
qed

lemma handlerFor_open:
  "handlerFor (served sv names) ''daemon.ping'' = Some (anonymous handlePing)"
  "handlerFor (served sv names) ''daemon.info'' = Some (anonymous (handleInfo sv names))"
  "handlerFor (served sv names) ''agent.register'' = Some (establishing (handleRegister sv))"
  "handlerFor (served sv names) ''agent.authenticate'' = Some (establishing (handleAuthenticate sv))"
  by (simp_all add: handlerFor_def served_def daemon_methods_def open_methods_def)

subsection \<open>Who is calling\<close>

definition standing :: "world \<Rightarrow> string \<Rightarrow> Agent option" where
  "standing w agentID = (if agentID = [] then None else (case Agents_ByID agentID (w_db w) of
      Inl _ \<Rightarrow> None | Inr a \<Rightarrow> if agent_State a = AgentDeregistered then None else Some a))"

lemma caller_of_ok: "standing w i = Some a \<Longrightarrow> caller_of i w = (Inr a, w)"
  by (auto simp: standing_def caller_of_def domain_def ByID_def bindE_def split: if_splits sum.splits)

lemma caller_of_refused: "standing w i = None \<Longrightarrow> \<exists>e. caller_of i w = (Inl e, w) \<and>
    (i = [] \<longrightarrow> e = Domain ErrUnauthorised)"
  by (auto simp: standing_def caller_of_def domain_def ByID_def bindE_def failing_def split: if_splits sum.splits)

lemma first_do_ok [simp]: "m w = (Inr x, v) \<Longrightarrow> first_do m f w = f x v"
  by (simp add: first_do_def)

lemma first_do_err [simp]: "m w = (Inl e, v) \<Longrightarrow> first_do m f w = (Some (Inl e), v)"
  by (simp add: first_do_def)

lemma domain_ok: "m w = (Inr x, v) \<Longrightarrow> domain m w = (Inr x, v)"
  by (simp add: domain_def)

lemma domain_err: "m w = (Inl e, v) \<Longrightarrow> domain m w = (Inl (Domain e), v)"
  by (simp add: domain_def)

lemma authenticated_ok: "standing w (ss_agentID s) = Some a \<Longrightarrow>
    authenticated h ps s params w = (case h a ps params w of (r, v) \<Rightarrow> (r, s, v))"
  by (simp add: authenticated_def caller_of_ok)

lemma authenticated_refused:
  assumes "standing w (ss_agentID s) = None"
  shows "\<exists>e. authenticated h ps s params w = (Some (Inl e), s, w) \<and> (ss_agentID s = [] \<longrightarrow> e = Domain ErrUnauthorised)"
  using caller_of_refused [OF assms] by (auto simp: authenticated_def)

end
