(* ===== verification/ApiWaits.thy ===== *)
theory ApiWaits
  imports ApiFacts
begin

section \<open>Every wait ends with the caller's context\<close>

text \<open>
  A call that parks gives up when its connection goes away: whatever else happens while it waits,
  the end of the context produces an outcome. Each wait loop has the property, the combinators keep
  it, and so every method has it.
\<close>

definition ends_in :: "interlude list \<Rightarrow> bool" where
  "ends_in ps \<longleftrightarrow> (\<exists>f ce. (f, ContextEnded ce) \<in> set ps)"

definition hangs_up :: "interlude list \<Rightarrow> bool" where
  "hangs_up ps \<longleftrightarrow> (\<exists>f. (f, ContextEnded Canceled) \<in> set ps)"

lemma ends_in_Cons: "ends_in ((f, why) # ps) \<longleftrightarrow> (\<exists>ce. why = ContextEnded ce) \<or> ends_in ps"
  by (auto simp: ends_in_def)

lemma wait_loop_ends:
  "ends_in ps \<Longrightarrow> fst (wait_loop ps arm look closed w) \<noteq> None"
  "ends_in ps \<Longrightarrow> fst (wait_parked ps channel arm look closed w) \<noteq> None"
proof (induction ps arm look closed w and ps channel arm look closed w rule: wait_loop_wait_parked.induct)
  case (1 ps arm look closed w)
  then show ?case by (subst wait_loop.simps) (auto split: prod.split sum.split option.split)
next
  case (2 channel arm look closed w)
  then show ?case by (simp add: ends_in_def)
next
  case (3 others why ps channel arm look closed w)
  then show ?case by (cases why) (auto simp: wait_parked.simps ends_in_Cons)
qed

lemma waitForSlot_ends:
  "(\<exists>f ce. (f, CtxDone ce) \<in> set ps) \<Longrightarrow> fst (waitForSlot ps resource entry request w) \<noteq> None"
  "(\<exists>f ce. (f, CtxDone ce) \<in> set ps) \<Longrightarrow> fst (parked ps channel resource entry request w) \<noteq> None"
proof (induction ps resource entry request w and ps channel resource entry request w
    rule: waitForSlot_parked.induct)
  case (1 ps resource entry request w)
  then show ?case by (subst waitForSlot.simps) (auto split: prod.split sum.split option.split)
next
  case (2 channel resource entry request w)
  then show ?case by simp
next
  case (3 others why ps channel resource entry request w)
  then show ?case by (cases why) (auto simp: parked.simps)
qed

lemma collect_loop_ends:
  "ends_in ps \<Longrightarrow> fst (collect_loop ps request w) \<noteq> None"
  "ends_in ps \<Longrightarrow> fst (collect_parked ps channel collection request w) \<noteq> None"
proof (induction ps request w and ps channel collection request w rule: collect_loop_collect_parked.induct)
  case (1 ps request w)
  then show ?case by (subst collect_loop.simps) (auto split: prod.split sum.split)
next
  case (2 channel collection request w)
  then show ?case by (simp add: ends_in_def)
next
  case (3 others why ps channel collection request w)
  then show ?case by (cases why) (auto simp: collect_parked.simps ends_in_Cons)
qed

lemma await_parked_ends: "ends_in ps \<Longrightarrow> fst (await_parked ps channel watchID w) \<noteq> None"
proof (induction ps channel watchID w rule: await_parked.induct)
  case (1 channel watchID w)
  then show ?case by (simp add: ends_in_def)
next
  case (2 others why ps channel watchID w)
  then show ?case by (cases why) (auto simp: ends_in_Cons split: prod.split)
qed

subsection \<open>The services' waits\<close>

lemma Acquire_ends: "ends_in ps \<Longrightarrow> fst (Acquire (map as_pause ps) request w) \<noteq> None"
proof -
  assume "ends_in ps"
  then obtain f ce where "(f, ContextEnded ce) \<in> set ps" by (auto simp: ends_in_def)
  then have "as_pause (f, ContextEnded ce) \<in> set (map as_pause ps)" by (metis image_eqI set_map)
  then have e: "\<exists>f ce. (f, CtxDone ce) \<in> set (map as_pause ps)" by auto
  show ?thesis
  proof (cases "joinQueue request w")
    case (Pair r v)
    show ?thesis
    proof (cases r)
      case (Inl err)
      with Pair show ?thesis by (simp add: Acquire_def)
    next
      case (Inr p)
      obtain resource entry where p: "p = (resource, entry)" by force
      from waitForSlot_ends(1) [OF e] obtain out u where
        "waitForSlot (map as_pause ps) resource entry request v = (Some out, u)"
        by (metis option.exhaust prod.collapse)
      with Pair Inr p show ?thesis by (simp add: Acquire_def split: sum.split)
    qed
  qed
qed

lemma Await_ends: "ends_in ps \<Longrightarrow> fst (Await ps taskID w) \<noteq> None"
  unfolding Await_def by (rule wait_loop_ends(1))

lemma WaitForWork_ends: "ends_in ps \<Longrightarrow> fst (WaitForWork ps name w) \<noteq> None"
  unfolding WaitForWork_def by (rule wait_loop_ends(1))

lemma Claim_ends: "ends_in ps \<Longrightarrow> fst (Claim ps name worker leaseID noWait w) \<noteq> None"
  unfolding Claim_def using wait_loop_ends(1) by (auto split: prod.split sum.split)

lemma Collect_reports_ends: "ends_in ps \<Longrightarrow> fst (Collect_reports ps requestID w) \<noteq> None"
  unfolding Collect_reports_def using collect_loop_ends(1) by (auto split: prod.split sum.split)

lemma Await_watch_ends: "ends_in ps \<Longrightarrow> fst (Await_watch ps watchID w) \<noteq> None"
  unfolding Await_watch_def using await_parked_ends by (auto split: prod.split sum.split)

subsection \<open>The handlers\<close>

lemma no_deadline_hangs_up: "hangs_up ps \<Longrightarrow> hangs_up (no_deadline ps)"
proof (induction ps rule: no_deadline.induct)
  case 1
  then show ?case by simp
next
  case (2 others why ps)
  show ?case
  proof (cases "why = ContextEnded DeadlineExceeded")
    case True
    with 2(3) have "hangs_up ps" by (auto simp: hangs_up_def)
    with 2(1) [OF True] have h: "hangs_up (no_deadline ps)" by simp
    then obtain f why' rest where eq: "no_deadline ps = (f, why') # rest"
      by (cases "no_deadline ps") (auto simp: hangs_up_def)
    with h have "hangs_up ((\<lambda>w. f (others w), why') # rest)" by (auto simp: hangs_up_def)
    with True eq show ?thesis by simp
  next
    case False
    with 2(3) have "why = ContextEnded Canceled \<or> hangs_up ps" by (auto simp: hangs_up_def)
    with 2(2) [OF False] have "why = ContextEnded Canceled \<or> hangs_up (no_deadline ps)" by auto
    with False show ?thesis by (auto simp: hangs_up_def)
  qed
qed

lemma hangs_up_ends: "hangs_up ps \<Longrightarrow> ends_in ps"
  by (auto simp: hangs_up_def ends_in_def)

lemma no_deadline_ends: "hangs_up ps \<Longrightarrow> ends_in (no_deadline ps)"
  by (rule hangs_up_ends) (rule no_deadline_hangs_up)

lemma with_timeout_ends: "hangs_up ps \<Longrightarrow> ends_in (with_timeout timeout ps)"
  by (simp add: with_timeout_def no_deadline_ends hangs_up_ends)

named_theorems ends_intros \<open>rules for calls that have an outcome\<close>

definition has_outcome :: "'a waiting \<Rightarrow> bool" where
  "has_outcome m \<longleftrightarrow> (\<forall>w. fst (m w) \<noteq> None)"

lemma has_outcome_at_once [ends_intros]: "has_outcome (at_once m)"
  by (simp add: has_outcome_def at_once_def split: prod.split)

lemma has_outcome_first_do [ends_intros]: "(\<And>x. has_outcome (f x)) \<Longrightarrow> has_outcome (first_do m f)"
  by (simp add: has_outcome_def first_do_def split: prod.split sum.split)

lemma has_outcome_then_do [ends_intros]: "(\<And>w. fst (m w) \<noteq> None) \<Longrightarrow> has_outcome (then_do m f)"
proof -
  assume m: "\<And>w. fst (m w) \<noteq> None"
  show ?thesis unfolding has_outcome_def
  proof
    fix w
    obtain r v where "m w = (Some r, v)" using m [of w] by (metis option.exhaust prod.collapse)
    then show "fst (then_do m f w) \<noteq> None"
      by (cases r) (simp_all add: then_do_def at_once_def split: prod.split)
  qed
qed

lemma has_outcome_if [ends_intros]: "(b \<Longrightarrow> has_outcome m) \<Longrightarrow> (\<not> b \<Longrightarrow> has_outcome n) \<Longrightarrow> has_outcome (if b then m else n)"
  by simp

lemma has_outcome_split [ends_intros]: "(\<And>x y. p = (x, y) \<Longrightarrow> has_outcome (f x y)) \<Longrightarrow> has_outcome (case p of (x, y) \<Rightarrow> f x y)"
  by (cases p) simp

lemmas service_ends = Acquire_ends Await_ends WaitForWork_ends Claim_ends Collect_reports_ends Await_watch_ends

lemmas pause_ends = no_deadline_ends with_timeout_ends

lemma simply_outcome: "has_outcome (simply h caller ps params)"
  by (simp add: simply_def has_outcome_at_once)

lemma blocking_outcome:
  assumes "hangs_up ps"
  shows "has_outcome (handleAcquire sv caller ps params)"
    "has_outcome (handleTaskSubmit sv caller ps params)"
    "has_outcome (handleTaskWait caller ps params)"
    "has_outcome (handleTaskClaim caller ps params)"
    "has_outcome (handleTaskStatus caller ps params)"
    "has_outcome (handleReportRequest sv caller ps params)"
    "has_outcome (handleReportCollect caller ps params)"
    "has_outcome (handleWatchStatus sv caller ps params)"
  unfolding handleAcquire_def handleTaskSubmit_def handleTaskWait_def handleTaskClaim_def handleTaskStatus_def
    handleReportRequest_def handleReportCollect_def handleWatchStatus_def
  using assms
  by (intro ends_intros service_ends pause_ends; assumption)+

lemma call_outcome: "(m, c) \<in> set (api_calls sv) \<Longrightarrow> hangs_up ps \<Longrightarrow> has_outcome (c caller ps params)"
  unfolding api_calls_def by (auto simp: simply_outcome blocking_outcome)

end
