(* ===== verification/Connection.thy ===== *)
theory Connection
  imports Protocol "HOL-Library.Multiset"
begin

section \<open>One connection and the calls on it (\<open>internal/transport/jsonrpc/server.go\<close>)\<close>

text \<open>
  The reading loop of a connection, the handlers it starts and the shutdown of the server as a step
  relation: the client sends lines, the loop takes one line at a time, calls finish in any order with
  any outcome, the server stops taking calls, the client goes away. A run records the frames read.
\<close>

definition maxConcurrentCallsPerSession :: nat where
  "maxConcurrentCallsPerSession = 64"

definition maxFrameSize :: int where
  "maxFrameSize = 4 * 2 ^ 20"

subsection \<open>Frames\<close>

datatype frame = Blank | TooLong | Malformed | Rejected Request int | Accepted Request

text \<open>The scanner's buffer holds a line with its line end, so a line of the limit's size is too long.\<close>

definition read_frame :: "string \<Rightarrow> frame" where
  "read_frame line =
     (if int (length line) \<ge> maxFrameSize then TooLong
      else if length (TrimSpace line) = 0 then Blank
      else (case read_request (TrimSpace line) of
          None \<Rightarrow> Malformed
        | Some request \<Rightarrow> (case validateRequest request of
              Some code \<Rightarrow> Rejected request code
            | None \<Rightarrow> Accepted request)))"

subsection \<open>The connection\<close>

record 'r connection =
  cn_unread :: "string list"
  cn_running :: "Request list"
  cn_sent :: "'r Response list"
  cn_session :: session
  cn_reading :: bool

definition new_connection :: "'r connection" where
  "new_connection = \<lparr>cn_unread = [], cn_running = [], cn_sent = [], cn_session = newSession, cn_reading = True\<rparr>"

definition write_response :: "'r Response option \<Rightarrow> 'r connection \<Rightarrow> 'r connection" where
  "write_response response c = (case response of
      None \<Rightarrow> c | Some frame \<Rightarrow> c\<lparr>cn_sent := session_write (cn_session c) frame (cn_sent c)\<rparr>)"

text \<open>However the loop ends, it closes the session.\<close>

definition end_reading :: "'r connection \<Rightarrow> 'r connection" where
  "end_reading c = c\<lparr>cn_reading := False, cn_session := session_close (cn_session c)\<rparr>"

definition hang_up :: "int \<Rightarrow> 'r connection \<Rightarrow> 'r connection" where
  "hang_up code c = end_reading (write_response (Some (respondUnattributed code)) c)"

definition begin_call :: "Request \<Rightarrow> 'r connection \<Rightarrow> 'r connection" where
  "begin_call request c = c\<lparr>cn_running := cn_running c @ [request]\<rparr>"

definition has_room :: "'r connection \<Rightarrow> bool" where
  "has_room c \<longleftrightarrow> length (cn_running c) < maxConcurrentCallsPerSession"

text \<open>What the loop does with a frame; \<open>stopped\<close> says whether the server is shutting down. A request waits
  for room first, and so does one that will be refused because of the shutdown.\<close>

fun take_frame :: "bool \<Rightarrow> frame \<Rightarrow> 'r connection \<Rightarrow> 'r connection option" where
  "take_frame stopped Blank c = Some c"
| "take_frame stopped TooLong c = Some (hang_up CodeInvalidRequest c)"
| "take_frame stopped Malformed c = Some (hang_up CodeParseError c)"
| "take_frame stopped (Rejected request code) c = Some (write_response (respond (req_ID request) (Inl code)) c)"
| "take_frame stopped (Accepted request) c =
     (if \<not> has_room c then None
      else if stopped then Some (write_response (respond (req_ID request) (Inl CodeShuttingDown)) c)
      else Some (begin_call request c))"

definition finish_call :: "nat \<Rightarrow> (int + 'r) \<Rightarrow> 'r connection \<Rightarrow> 'r connection" where
  "finish_call i outcome c =
     (let request = cn_running c ! i
      in write_response (respond (req_ID request) outcome)
           (c\<lparr>cn_running := take i (cn_running c) @ drop (Suc i) (cn_running c)\<rparr>))"

inductive connection_run :: "bool \<Rightarrow> frame list \<Rightarrow> 'r connection \<Rightarrow> bool" where
  opened: "connection_run False [] new_connection"
| arrives: "connection_run stopped fs c \<Longrightarrow> connection_run stopped fs (c\<lparr>cn_unread := cn_unread c @ [line]\<rparr>)"
| reads: "connection_run stopped fs c \<Longrightarrow> cn_reading c \<Longrightarrow> cn_unread c = line # rest \<Longrightarrow>
    take_frame stopped (read_frame line) (c\<lparr>cn_unread := rest\<rparr>) = Some c' \<Longrightarrow>
    connection_run stopped (fs @ [read_frame line]) c'"
| finishes: "connection_run stopped fs c \<Longrightarrow> i < length (cn_running c) \<Longrightarrow>
    connection_run stopped fs (finish_call i outcome c)"
| disconnects: "connection_run stopped fs c \<Longrightarrow> connection_run stopped fs (end_reading c)"
| stops: "connection_run stopped fs c \<Longrightarrow> connection_run True fs c"

inductive_cases connection_runE: "connection_run stopped fs c"

subsection \<open>Who is owed an answer\<close>

definition wanting :: "Request list \<Rightarrow> string multiset" where
  "wanting rs = mset (map req_ID (filter (\<lambda>r. \<not> IsNotification r) rs))"

fun requests_in :: "frame list \<Rightarrow> Request list" where
  "requests_in [] = []"
| "requests_in (Rejected r code # fs) = r # requests_in fs"
| "requests_in (Accepted r # fs) = r # requests_in fs"
| "requests_in (_ # fs) = requests_in fs"

definition answered :: "'r connection \<Rightarrow> string multiset" where
  "answered c = mset (map rsp_ID (cn_sent c))"

definition one_sided :: "'r Response \<Rightarrow> bool" where
  "one_sided response \<longleftrightarrow> (rsp_Result response = None) \<noteq> (rsp_Error response = None)"

lemma requests_in_append: "requests_in (fs @ gs) = requests_in fs @ requests_in gs"
  by (induction fs rule: requests_in.induct) auto

lemma wanting_append: "wanting (rs @ qs) = wanting rs + wanting qs"
  by (simp add: wanting_def)

lemma wanting_split:
  assumes "i < length rs"
  shows "wanting (take i rs @ drop (Suc i) rs) + wanting [rs ! i] = wanting rs"
proof -
  have "wanting rs = wanting (take i rs @ rs ! i # drop (Suc i) rs)" by (simp add: assms id_take_nth_drop [symmetric])
  also have "\<dots> = wanting (take i rs) + wanting (rs ! i # drop (Suc i) rs)" by (rule wanting_append)
  also have "wanting (rs ! i # drop (Suc i) rs) = wanting ([rs ! i] @ drop (Suc i) rs)" by simp
  also have "\<dots> = wanting [rs ! i] + wanting (drop (Suc i) rs)" by (rule wanting_append)
  finally show ?thesis by (simp add: wanting_append ac_simps)
qed

lemma respond_wanted: "(case respond (req_ID r) outcome of None \<Rightarrow> {#} | Some x \<Rightarrow> {#rsp_ID x#}) = wanting [r]"
  by (simp add: respond_def wanting_def IsNotification_def)

lemma respond_one_sided: "respond i outcome = Some x \<Longrightarrow> one_sided x"
  by (auto simp: respond_def one_sided_def split: if_splits sum.splits)

lemma write_response_sel [simp]:
  "cn_running (write_response x c) = cn_running c"
  "cn_session (write_response x c) = cn_session c"
  "cn_reading (write_response x c) = cn_reading c"
  "cn_unread (write_response x c) = cn_unread c"
  by (simp_all add: write_response_def split: option.split)

lemma answered_write:
  "answered (write_response x c) = answered c +
     (if ss_closed (cn_session c) then {#} else (case x of None \<Rightarrow> {#} | Some r \<Rightarrow> {#rsp_ID r#}))"
  by (simp add: answered_def write_response_def session_write_def split: option.split)

lemma sent_write: "y \<in> set (cn_sent (write_response x c)) \<Longrightarrow> y \<in> set (cn_sent c) \<or> x = Some y"
  by (auto simp: write_response_def session_write_def split: option.splits if_splits)

text \<open>The invariant of a connection that has read the frames \<open>fs\<close>.\<close>

definition accounted :: "frame list \<Rightarrow> 'r connection \<Rightarrow> bool" where
  "accounted fs c \<longleftrightarrow>
     length (cn_running c) \<le> maxConcurrentCallsPerSession \<and>
     (\<forall>x \<in> set (cn_sent c). one_sided x) \<and>
     ss_closed (cn_session c) = (\<not> cn_reading c) \<and>
     (cn_reading c \<longrightarrow> answered c + wanting (cn_running c) = wanting (requests_in fs)) \<and>
     answered c + wanting (cn_running c) \<subseteq># add_mset ''null'' (wanting (requests_in fs))"

lemma accounted_end: "accounted fs c \<Longrightarrow> accounted fs (end_reading c)"
  by (simp add: accounted_def end_reading_def session_close_def answered_def)

lemma accounted_hang_up:
  assumes "accounted fs c" and "cn_reading c" and "requests_in [f] = []"
  shows "accounted (fs @ [f]) (hang_up code c)"
proof -
  have "answered (hang_up code c) = add_mset ''null'' (answered c)"
    using assms(1,2) by (simp add: hang_up_def end_reading_def answered_def write_response_def session_write_def
        accounted_def respondUnattributed_def)
  moreover have "one_sided x" if "x \<in> set (cn_sent (hang_up code c))" for x
    using that assms(1) sent_write [of x "Some (respondUnattributed code)" c]
    by (auto simp: hang_up_def end_reading_def accounted_def respondUnattributed_def one_sided_def)
  ultimately show ?thesis
    using assms by (auto simp: accounted_def hang_up_def end_reading_def session_close_def requests_in_append)
qed

lemma accounted_reply:
  assumes "accounted fs c" and "cn_reading c" and "requests_in [f] = [r]"
  shows "accounted (fs @ [f]) (write_response (respond (req_ID r) outcome) c)"
proof -
  have "answered (write_response (respond (req_ID r) outcome) c) = answered c + wanting [r]"
    using assms(1,2) respond_wanted [of r outcome] by (simp add: answered_write accounted_def)
  moreover have "one_sided x" if "x \<in> set (cn_sent (write_response (respond (req_ID r) outcome) c))" for x
    using sent_write [OF that] assms(1) respond_one_sided by (auto simp: accounted_def)
  ultimately show ?thesis
    using assms by (auto simp: accounted_def requests_in_append wanting_append ac_simps)
qed

lemma accounted_take_frame:
  assumes "accounted fs c" and "cn_reading c" and "take_frame stopped f c = Some c'"
  shows "accounted (fs @ [f]) c'"
proof (cases f)
  case Blank
  with assms show ?thesis by (auto simp: accounted_def requests_in_append)
next
  case TooLong
  with assms show ?thesis by (auto intro: accounted_hang_up)
next
  case Malformed
  with assms show ?thesis by (auto intro: accounted_hang_up)
next
  case (Rejected r code)
  with assms show ?thesis by (auto intro: accounted_reply)
next
  case (Accepted r)
  show ?thesis
  proof (cases stopped)
    case True
    with Accepted assms show ?thesis by (auto intro: accounted_reply split: if_splits)
  next
    case False
    with Accepted assms(3) have c': "c' = begin_call r c" and room: "has_room c" by (auto split: if_splits)
    have "answered c' = answered c" "wanting (cn_running c') = wanting (cn_running c) + wanting [r]"
      by (simp_all add: c' begin_call_def answered_def wanting_append)
    with assms(1,2) Accepted room show ?thesis
      by (auto simp: accounted_def c' begin_call_def has_room_def requests_in_append wanting_append ac_simps)
  qed
qed

lemma accounted_finish:
  assumes "accounted fs c" and "i < length (cn_running c)"
  shows "accounted fs (finish_call i outcome c)"
proof -
  let ?r = "cn_running c ! i"
  let ?c = "c\<lparr>cn_running := take i (cn_running c) @ drop (Suc i) (cn_running c)\<rparr>"
  have f: "finish_call i outcome c = write_response (respond (req_ID ?r) outcome) ?c"
    by (simp add: finish_call_def Let_def)
  have ans: "answered (finish_call i outcome c) = answered c + (if ss_closed (cn_session c) then {#} else wanting [?r])"
    unfolding f answered_write using respond_wanted [of ?r outcome] by (simp add: answered_def)
  have run: "wanting (cn_running (finish_call i outcome c)) + wanting [?r] = wanting (cn_running c)"
    unfolding f using wanting_split [OF assms(2)] by simp
  have one: "one_sided x" if "x \<in> set (cn_sent (finish_call i outcome c))" for x
    using that sent_write [of x "respond (req_ID ?r) outcome" ?c] assms(1) respond_one_sided
    unfolding f by (auto simp: accounted_def)
  have len: "length (cn_running (finish_call i outcome c)) \<le> maxConcurrentCallsPerSession"
    unfolding f using assms by (auto simp: accounted_def)
  have le: "answered (finish_call i outcome c) + wanting (cn_running (finish_call i outcome c)) \<subseteq>#
      answered c + wanting (cn_running c)"
    unfolding ans run [symmetric] by simp
  have eq: "\<not> ss_closed (cn_session c) \<Longrightarrow> answered (finish_call i outcome c) + wanting (cn_running (finish_call i outcome c)) =
      answered c + wanting (cn_running c)"
    unfolding ans run [symmetric] by (simp add: ac_simps)
  from assms(1) one len le eq show ?thesis
    unfolding accounted_def by (auto simp: f intro: subset_mset.order_trans)
qed

lemma run_accounted: "connection_run stopped fs c \<Longrightarrow> accounted fs c"
proof (induction rule: connection_run.induct)
  case opened
  show ?case
    by (simp add: accounted_def new_connection_def newSession_def answered_def wanting_def maxConcurrentCallsPerSession_def)
next
  case (arrives stopped fs c line)
  then show ?case by (simp add: accounted_def answered_def)
next
  case (reads stopped fs c line rest c')
  then have "accounted fs (c\<lparr>cn_unread := rest\<rparr>)" by (simp add: accounted_def answered_def)
  with reads show ?case by (intro accounted_take_frame) simp_all
next
  case (finishes stopped fs c i outcome)
  then show ?case by (intro accounted_finish)
next
  case (disconnects stopped fs c)
  then show ?case by (intro accounted_end)
next
  case (stops stopped fs c)
  then show ?case by simp
qed

end
