(* ===== verification/ApiProperties.thy ===== *)
theory ApiProperties
  imports MailScenario ApiWaits Connection
begin

section \<open>Properties of the methods\<close>

subsection \<open>A daemon on the sample\<close>

definition no_forge :: forge where
  "no_forge = \<lparr>fg_PullRequest = (\<lambda>_ _ _ _ _. Inl (ForgeFailed ''offline'')), fg_Accounts = (\<lambda>_. Inr [])\<rparr>"

definition sample_services :: services where
  "sample_services = \<lparr>sv_mac = (\<lambda>secret token. secret @ token), sv_secret = ''key'',
     sv_registry = New_registry 0 [''/w''] None, sv_lease_ttl = Minute, sv_messaging = sample_mail,
     sv_roots = [''/w''], sv_watch = New_watcher \<lparr>pw_Interval = 0, pw_SettledInterval = 0, pw_FreshFor = 0\<rparr>,
     sv_forge = no_forge, sv_watcher = True, sv_notifier = True, sv_reload = None,
     sv_version = ''dev'', sv_commit = ''unknown'', sv_startedAt = 0\<rparr>"

definition sample_router :: "Result handler router" where
  "sample_router = served sample_services method_names"

lemma sample_serving: "serving sample_services = Some sample_router"
  by (simp add: serving_eq sample_router_def)

definition calling :: "string \<Rightarrow> string \<Rightarrow> Request" where
  "calling name params = \<lparr>req_JSONRPC = Version, req_ID = ''1'', req_Method = name, req_Params = params\<rparr>"

definition session_of :: "string \<Rightarrow> session" where
  "session_of agentID = SetAgentID agentID newSession"


subsection \<open>The table of methods\<close>

text \<open>The daemon starts with every method registered once: none of the registrations panics, what
  \<open>daemon.info\<close> lists is the sorted list of the names served, a name is served exactly when it is on
  that list, and every method but the four open ones is served behind the check of who is calling.\<close>

theorem every_method_is_served:
  "\<exists>r. serving sv = Some r \<and> Methods r = method_names \<and> sorted method_names \<and> distinct method_names \<and>
     {m. handlerFor r m \<noteq> None} = set method_names \<and>
     set method_names = set unguarded \<union> fst ` set (api_calls sv) \<and>
     map (handlerFor r) (map fst (api_calls sv)) = map (\<lambda>(m, c). Some (authenticated c)) (api_calls sv) \<and>
     handlerFor r ''daemon.info'' = Some (anonymous (handleInfo sv (Methods r)))"
proof -
  let ?r = "served sv method_names"
  have "sort (map fst ?r) = method_names" using Methods_served [of sv method_names] by (simp add: Methods_def)
  then have s: "sorted method_names \<and> distinct method_names"
    using served_distinct [of sv method_names] by (metis distinct_sort sorted_sort)
  have "set method_names = set (map fst ?r)" by (simp only: served_set)
  also have "\<dots> = set unguarded \<union> fst ` set (api_calls sv)"
    unfolding served_names unguarded_def by auto
  finally have names: "set method_names = set unguarded \<union> fst ` set (api_calls sv)" .
  have "map (handlerFor ?r) (map fst (api_calls sv)) = map (\<lambda>(m, c). Some (authenticated c)) (api_calls sv)"
    by (auto simp: handlerFor_call)
  with s names handlerFor_None [of sv method_names] show ?thesis
    by (intro exI [of _ ?r]) (auto simp: serving_eq Methods_served handlerFor_open)
qed

subsection \<open>Who may call\<close>

text \<open>C22: A connection that does not belong to an agent in good standing gets nothing but the four open
  methods: any other request is answered with an error, parks nowhere, and leaves the session and the
  whole state of the daemon as they were. Without an agent, or when the agent has deregistered, the
  error of an existing method is the code for an unauthorised caller.\<close>

theorem strangers_get_nothing:
  assumes "serving sv = Some r" and "standing w (ss_agentID s) = None" and "req_Method request \<notin> set unguarded"
  shows "\<exists>code. answer r ps s request w = (respond (req_ID request) (Inl code), s, w) \<and>
    (code = CodeMethodNotFound \<longleftrightarrow> req_Method request \<notin> set method_names) \<and>
    (req_Method request \<in> set method_names \<and> (ss_agentID s = [] \<or> (\<exists>a. Agents_ByID (ss_agentID s) (w_db w) = Inr a))
       \<longrightarrow> code = CodeUnauthorised)"
proof -
  have r: "r = served sv method_names" using assms(1) by (simp add: serving_eq)
  show ?thesis
  proof (cases "map_of (api_calls sv) (req_Method request)")
    case None
    then have h: "handlerFor r (req_Method request) = None"
      unfolding r handlerFor_guarded [OF assms(3)] by simp
    then have "req_Method request \<notin> set method_names"
      using handlerFor_None [of sv method_names "req_Method request"] r by simp
    with h show ?thesis by (simp add: answer_def dispatch_def)
  next
    case (Some c)
    then have h: "handlerFor r (req_Method request) = Some (authenticated c)"
      unfolding r handlerFor_guarded [OF assms(3)] by simp
    then have m: "req_Method request \<in> set method_names"
      using handlerFor_None [of sv method_names "req_Method request"] r by auto
    obtain e where e: "caller_of (ss_agentID s) w = (Inl (Domain e), w)"
      "e = ErrUnauthorised \<or> ss_agentID s \<noteq> [] \<and> Agents_ByID (ss_agentID s) (w_db w) = Inl e"
      using assms(2)
      by (auto simp: standing_def caller_of_def domain_def ByID_def bindE_def failing_def split: if_splits sum.splits)
    have "errorFrom (Domain e) \<noteq> CodeMethodNotFound"
      by (simp add: CodeMethodNotFound_def CodeUnauthorised_def CodeNotFound_def CodeAlreadyExists_def CodeConflict_def
          CodeCapacityReached_def CodeInvalidParams_def CodeInternalError_def split: err.split)
    moreover have "answer r ps s request w = (respond (req_ID request) (Inl (errorFrom (Domain e))), s, w)"
      using e(1) h by (simp add: answer_def dispatch_def authenticated_def)
    moreover have "ss_agentID s = [] \<or> (\<exists>a. Agents_ByID (ss_agentID s) (w_db w) = Inr a) \<Longrightarrow> errorFrom (Domain e) = CodeUnauthorised"
      using e(2) by auto
    ultimately show ?thesis using m by blast
  qed
qed

theorem strangers_get_nothing_witness:
  "\<exists>code. answer sample_router [] newSession (calling ''lease.held'' []) sample_world =
     (respond ''1'' (Inl code), newSession, sample_world)"
proof -
  have "req_Method (calling ''lease.held'' []) \<notin> set unguarded" by (simp add: calling_def unguarded_def)
  moreover have "standing sample_world (ss_agentID newSession) = None" by (simp add: standing_def newSession_def)
  ultimately show ?thesis
    using strangers_get_nothing [OF sample_serving, of sample_world newSession "calling ''lease.held'' []" "[]"]
    by (auto simp: calling_def)
qed

subsection \<open>Whose connection it is\<close>

lemma anonymous_session: "anonymous h ps s params w = (out, s', w') \<Longrightarrow> s' = s"
  by (simp add: anonymous_def split: prod.splits)

lemma authenticated_session: "authenticated c ps s params w = (out, s', w') \<Longrightarrow> s' = s"
  by (simp add: authenticated_def split: prod.splits)

lemma establishing_cases:
  assumes "establishing h ps s params w = (out, s', w')"
  obtains (failed) e where "h params w = (Inl e, w')" "out = Some (Inl e)" "s' = s"
  | (proven) i res where "h params w = (Inr (i, res), w')" "out = Some (Inr res)" "s' = SetAgentID i s"
  using assms by (auto simp: establishing_def split: prod.splits sum.splits)

lemma domain_Inr: "domain m w = (Inr x, v) \<longleftrightarrow> m w = (Inr x, v)"
  by (auto simp: domain_def split: prod.splits sum.splits)

lemma params_Inr: "params_of fs params w = (Inr vs, v) \<longleftrightarrow> ParseParams fs params = Inr vs \<and> v = w"
  by (auto simp: params_of_def)

text \<open>A connection changes hands only through the two methods made for it. After any call the session
  is the one before, or the call was an authentication whose parameters carry a valid token and the
  session now belongs to the agent that token was issued to, with the state untouched, or it was a
  registration, the session belongs to the agent admitted by it and the reply carries its token. An
  agent named in a request never becomes the caller.\<close>

theorem sessions_belong_to_proven_agents:
  assumes "serving sv = Some r" and "dispatch r ps s request w = (out, s', w')"
    and "\<And>token. sv_mac sv (sv_secret sv) token \<noteq> []"
  shows "s' = s \<or>
    (\<exists>vs row. req_Method request = ''agent.authenticate'' \<and> ParseParams AuthenticateParams (req_Params request) = Inr vs \<and>
       token_valid (sv_mac sv) (sv_secret sv) (string_at vs ''token'') (w_db w) row \<and>
       s' = SetAgentID (agents_id row) s \<and> w' = w) \<or>
    (\<exists>rq reg. req_Method request = ''agent.register'' \<and>
       Register (sv_mac sv) (sv_secret sv) (sv_registry sv) rq w = (Inr reg, w') \<and>
       s' = SetAgentID (agent_ID (registered_Agent reg)) s \<and>
       out = Some (Inr (RegisterResult (viewOfAgent (registered_Agent reg)) (registered_Token reg))))"
proof -
  have r: "r = served sv method_names" using assms(1) by (simp add: serving_eq)
  show ?thesis
  proof (cases "handlerFor r (req_Method request)")
    case None
    with assms(2) show ?thesis by (simp add: dispatch_def)
  next
    case (Some h)
    then obtain o0 where run: "h ps s (req_Params request) w = (o0, s', w')"
      and out: "out = map_option (\<lambda>o1. case o1 of Inl e \<Rightarrow> Inl (errorFrom e) | Inr x \<Rightarrow> Inr x) o0"
      using assms(2) by (auto simp: dispatch_def split: prod.splits)
    show ?thesis
    proof (cases "req_Method request \<in> set unguarded")
      case False
      with Some obtain c where "h = authenticated c" unfolding r handlerFor_guarded [OF False] by auto
      with run authenticated_session show ?thesis by blast
    next
      case True
      then consider "req_Method request = ''daemon.ping''" | "req_Method request = ''daemon.info''"
        | (reg) "req_Method request = ''agent.register''" | (auth) "req_Method request = ''agent.authenticate''"
        by (auto simp: unguarded_def)
      then show ?thesis
      proof cases
        case 1
        with Some run show ?thesis by (auto simp: r handlerFor_open dest: anonymous_session)
      next
        case 2
        with Some run show ?thesis by (auto simp: r handlerFor_open dest: anonymous_session)
      next
        case reg
        with Some have "h = establishing (handleRegister sv)" by (simp add: r handlerFor_open)
        with run have "establishing (handleRegister sv) ps s (req_Params request) w = (o0, s', w')" by simp
        then show ?thesis
        proof (cases rule: establishing_cases)
          case failed
          then show ?thesis by simp
        next
          case (proven i res)
          from proven(1) obtain rq reg' where "Register (sv_mac sv) (sv_secret sv) (sv_registry sv) rq w = (Inr reg', w')"
            "i = agent_ID (registered_Agent reg')" "res = RegisterResult (viewOfAgent (registered_Agent reg')) (registered_Token reg')"
            by (auto simp: handleRegister_def bindE_Inr domain_Inr params_Inr)
          with proven reg out show ?thesis by auto
        qed
      next
        case auth
        with Some have "h = establishing (handleAuthenticate sv)" by (simp add: r handlerFor_open)
        with run have "establishing (handleAuthenticate sv) ps s (req_Params request) w = (o0, s', w')" by simp
        then show ?thesis
        proof (cases rule: establishing_cases)
          case failed
          then show ?thesis by simp
        next
          case (proven i res)
          from proven(1) obtain vs agent where vs: "ParseParams AuthenticateParams (req_Params request) = Inr vs"
            and ok: "Authenticate (sv_mac sv) (sv_secret sv) (string_at vs ''token'') w = (Inr agent, w')" and i: "i = agent_ID agent"
            by (auto simp: handleAuthenticate_def bindE_Inr domain_Inr params_Inr)
          from assms(3) [of "string_at vs ''token''"] have "\<exists>row. token_valid (sv_mac sv) (sv_secret sv) (string_at vs ''token'') (w_db w) row \<and>
              agent = scanAgent row \<and> w' = w"
          proof (cases rule: Authenticate_cases [where w = w and mac = "sv_mac sv" and secret = "sv_secret sv" and
                token = "string_at vs ''token''"])
            case (ok row)
            with \<open>Authenticate (sv_mac sv) (sv_secret sv) (string_at vs ''token'') w = (Inr agent, w')\<close> show ?thesis by auto
          next
            case (refused actor target detail)
            with \<open>Authenticate (sv_mac sv) (sv_secret sv) (string_at vs ''token'') w = (Inr agent, w')\<close> show ?thesis
              using refuse_not_Inr by metis
          qed
          then obtain row where "token_valid (sv_mac sv) (sv_secret sv) (string_at vs ''token'') (w_db w) row"
            "agent = scanAgent row" "w' = w" by blast
          with proven vs i auth show ?thesis by (auto simp: scanAgent_def)
        qed
      qed
    qed
  qed
qed

subsection \<open>The operator's powers\<close>













subsection \<open>Calls end\<close>

text \<open>C24: No call outlives its connection: when the context of a call ends while it waits, whatever
  happened before and whatever would have happened after, the call has an outcome. This holds for
  every method, every kind of wait and every state.\<close>

theorem no_call_outlives_its_connection:
  assumes "serving sv = Some r" and "(others, ContextEnded Canceled) \<in> set ps"
  shows "\<exists>outcome s' w'. dispatch r ps s request w = (Some outcome, s', w')"
proof -
  have r: "r = served sv method_names" using assms(1) by (simp add: serving_eq)
  have up: "hangs_up ps" using assms(2) by (auto simp: hangs_up_def)
  have "\<exists>outcome s' w'. h ps s params w = (Some outcome, s', w')"
    if h: "handlerFor r (req_Method request) = Some h" for h params
  proof (cases "req_Method request \<in> set unguarded")
    case True
    with h show ?thesis
      by (auto simp: unguarded_def r handlerFor_open anonymous_def establishing_def split: prod.split sum.split)
  next
    case False
    with h obtain c where c: "(req_Method request, c) \<in> set (api_calls sv)" and hc: "h = authenticated c"
      unfolding r handlerFor_guarded [OF False] by (auto dest: map_of_SomeD)
    from call_outcome [OF c up] have "has_outcome (first_do (caller_of (ss_agentID s)) (\<lambda>caller. c caller ps params))"
      by (intro has_outcome_first_do)
    then obtain o1 v where "first_do (caller_of (ss_agentID s)) (\<lambda>caller. c caller ps params) w = (Some o1, v)"
      unfolding has_outcome_def by (metis option.exhaust prod.collapse)
    then show ?thesis by (simp add: hc authenticated_def)
  qed
  note run = this
  show ?thesis
  proof (cases "handlerFor r (req_Method request)")
    case None
    then show ?thesis by (simp add: dispatch_def)
  next
    case (Some h)
    from run [OF Some, of "req_Params request"] obtain outcome s' w' where
      "h ps s (req_Params request) w = (Some outcome, s', w')" by blast
    with Some show ?thesis by (simp add: dispatch_def)
  qed
qed

theorem no_call_outlives_its_connection_witness:
  "\<exists>outcome s' w'. dispatch sample_router [(id, Recheck), (id, ContextEnded Canceled)] (session_of ''agent_a'')
     (calling ''task.wait'' (''{'' @ json_string ''resource'' @ '':'' @ json_string ''gpu'' @ ''}'')) sample_world =
     (Some outcome, s', w')"
  by (rule no_call_outlives_its_connection [OF sample_serving, where others = id]) simp

subsection \<open>Every request is answered\<close>

text \<open>C25: On every reachable connection at most 64 calls are in flight, every response has exactly one of
  a result and an error, and the books balance: while the connection is being read, the identifiers
  of the responses sent and of the calls still running are together, with multiplicity, exactly those
  of the requests read that are not notifications. So a connection without running calls has answered
  every request once, refused and malformed ones included, and no response was made up; after it was
  hung up on, at most one response without an identifier was added.\<close>

theorem every_request_is_answered_once:
  assumes "connection_run stopped fs c"
  shows "length (cn_running c) \<le> maxConcurrentCallsPerSession \<and>
    list_all one_sided (cn_sent c) \<and>
    (cn_reading c \<longrightarrow> mset (map rsp_ID (cn_sent c)) + wanting (cn_running c) = wanting (requests_in fs)) \<and>
    mset (map rsp_ID (cn_sent c)) + wanting (cn_running c) \<subseteq># add_mset ''null'' (wanting (requests_in fs))"
  using run_accounted [OF assms] by (simp add: accounted_def answered_def list_all_iff)

definition a_line :: string where
  "a_line = ''{'' @ json_string ''jsonrpc'' @ '':'' @ json_string ''2.0'' @ '','' @ json_string ''id'' @ '':7,'' @
     json_string ''method'' @ '':'' @ json_string ''task.list'' @ ''}''"

lemma a_line_read: "read_frame a_line = Accepted \<lparr>req_JSONRPC = Version, req_ID = ''7'', req_Method = ''task.list'', req_Params = []\<rparr>"
  by code_simp

theorem every_request_is_answered_once_witness:
  "\<exists>c :: Result connection. connection_run False [read_frame a_line] c \<and> cn_running c = [] \<and>
     mset (map rsp_ID (cn_sent c)) = {#''7''#}"
proof -
  let ?q = "\<lparr>req_JSONRPC = Version, req_ID = ''7'', req_Method = ''task.list'', req_Params = []\<rparr>"
  let ?new = "new_connection :: Result connection"
  let ?ca = "?new\<lparr>cn_unread := cn_unread ?new @ [a_line]\<rparr>"
  let ?cb = "begin_call ?q (?ca\<lparr>cn_unread := []\<rparr>)"
  let ?cc = "finish_call 0 (Inr (TaskListResult [])) ?cb"
  have "connection_run False [] ?ca" by (intro connection_run.intros)
  then have "connection_run False ([] @ [read_frame a_line]) ?cb"
    by (rule connection_run.reads [where rest = "[]" and line = a_line])
       (simp_all add: new_connection_def a_line_read has_room_def maxConcurrentCallsPerSession_def)
  then have r: "connection_run False [read_frame a_line] ?cc"
    by (intro connection_run.finishes) (simp_all add: begin_call_def)
  have c: "cn_reading ?cc" "cn_running ?cc = []"
    by (simp_all add: finish_call_def begin_call_def new_connection_def Let_def)
  have "wanting (requests_in [read_frame a_line]) = {#''7''#}"
    by (simp add: a_line_read wanting_def IsNotification_def)
  with every_request_is_answered_once [OF r] r c show ?thesis
    by (intro exI [of _ ?cc]) (simp add: wanting_def)
qed

end
