(* ===== verification/Config.thy ===== *)
theory Config
  imports Registry Catalogue Parsing
begin

section \<open>The configuration (\<open>internal/config\<close>)\<close>

text \<open>
  Where the daemon keeps its files and how it behaves: the defaults, then the file, the environment
  and the command-line options over them, then validation. What the program asks the operating system
  is a record: environment variables, the home directory and the files. The YAML decoder is a
  parameter: it overlays a text on a configuration, or refuses it. Every validation error is
  \<open>ErrInvalidConfig\<close>; file errors have their own.
\<close>

subsection \<open>Paths (\<open>paths.go\<close>)\<close>

definition maxSocketPathLength :: nat where
  "maxSocketPathLength = 103"

definition maxConfigFileSize :: int where
  "maxConfigFileSize = 2 ^ 20"

definition filepath_Join :: "string list \<Rightarrow> string" where
  "filepath_Join elems =
     (let rest = dropWhile (\<lambda>e. e = []) elems in if rest = [] then [] else Clean (Join rest ''/''))"

definition filepath_Dir :: "string \<Rightarrow> string" where
  "filepath_Dir path = Clean (rev (dropWhile (\<lambda>c. c \<noteq> CHR ''/'') (rev path)))"

text \<open>A file: missing, not to be inspected, or there, with its size, whether only its owner can read it,
  and its text or the error of reading it.\<close>

datatype file_state = NoFile | Unreadable err | AFile int bool "err + string"

record environment =
  env_var :: "string \<Rightarrow> string"
  env_home :: "err + string"
  env_file :: "string \<Rightarrow> file_state"

definition ErrNotExist :: err where
  "ErrNotExist = OtherError ''file does not exist''"

definition checkPrivateFile :: "environment \<Rightarrow> string \<Rightarrow> unit res" where
  "checkPrivateFile env path = (case env_file env path of
      NoFile \<Rightarrow> Inr ()
    | Unreadable e \<Rightarrow> Inl e
    | AFile _ owner_only _ \<Rightarrow> if \<not> owner_only then Inl ErrInvalidConfig else Inr ())"

record Paths =
  pt_ConfigFile :: string
  pt_StateDir :: string
  pt_RuntimeDir :: string

definition environmentDir :: "environment \<Rightarrow> string \<Rightarrow> string \<Rightarrow> string" where
  "environmentDir env variable fallback =
     (if IsAbs (env_var env variable) then Clean (env_var env variable) else fallback)"

definition applicationName :: string where
  "applicationName = ''lac''"

definition DefaultPaths :: "environment \<Rightarrow> Paths res" where
  "DefaultPaths env = (case env_home env of
      Inl e \<Rightarrow> Inl e
    | Inr home \<Rightarrow>
        (let configHome = environmentDir env ''XDG_CONFIG_HOME'' (filepath_Join [home, ''.config'']);
             stateHome = environmentDir env ''XDG_STATE_HOME'' (filepath_Join [home, ''.local'', ''state'']);
             stateDir = filepath_Join [stateHome, applicationName];
             runtime = environmentDir env ''XDG_RUNTIME_DIR'' []
         in Inr \<lparr>pt_ConfigFile = filepath_Join [configHome, applicationName, ''config.yaml''],
              pt_StateDir = stateDir,
              pt_RuntimeDir = (if runtime = [] then filepath_Join [stateDir, ''run'']
                               else filepath_Join [runtime, applicationName])\<rparr>))"

subsection \<open>The configuration (\<open>config.go\<close>, \<open>telegram.go\<close>)\<close>

record CapabilitiesConfig =
  cp_Resources :: "string list"
  cp_CanBroadcast :: bool
  cp_CanDefineResources :: bool
  cp_CanRequestReports :: bool
  cp_CanReadLog :: bool

record ResourceConfig =
  rcf_Name :: string
  rcf_Capacity :: int
  rcf_LeaseTimeToLive :: duration
  rcf_Description :: string

record TelegramConfig =
  tg_Enabled :: bool
  tg_Token :: string
  tg_TokenFile :: string
  tg_AllowedChatIDs :: "int list"
  tg_PollTimeout :: duration
  tg_ReportDeadline :: duration

record Config =
  cf_SocketPath :: string
  cf_DatabasePath :: string
  cf_SecretPath :: string
  cf_AllowedWorkdirRoots :: "string list"
  cf_AgentTimeToLive :: duration
  cf_DefaultLeaseTimeToLive :: duration
  cf_ShutdownGrace :: duration
  cf_RestartDelay :: duration
  cf_DefaultAgentName :: string
  cf_MessageRetention :: duration
  cf_LogLevel :: string
  cf_Resources :: "ResourceConfig list"
  cf_Capabilities :: CapabilitiesConfig
  cf_Operators :: "string list"
  cf_Telegram :: TelegramConfig
  cf_WorkerCommands :: worker_commands

record Options =
  opt_ConfigPath :: string
  opt_SocketPath :: string
  opt_DatabasePath :: string
  opt_LogLevel :: string

definition CapabilitiesFor :: "Config \<Rightarrow> string \<Rightarrow> Capabilities" where
  "CapabilitiesFor c agentName =
     (let policy = \<lparr>cap_Resources = cp_Resources (cf_Capabilities c),
            cap_CanBroadcast = cp_CanBroadcast (cf_Capabilities c),
            cap_CanDefineResources = cp_CanDefineResources (cf_Capabilities c),
            cap_CanRequestReports = cp_CanRequestReports (cf_Capabilities c),
            cap_CanReadLog = cp_CanReadLog (cf_Capabilities c)\<rparr>
      in if List.member (cf_Operators c) agentName
         then policy\<lparr>cap_Resources := [WildcardResource], cap_CanBroadcast := True, cap_CanDefineResources := True,
                cap_CanRequestReports := True, cap_CanReadLog := True\<rparr>
         else policy)"

text \<open>A declared resource, with the daemon's time to live when it has none of its own.\<close>

definition Resource_of :: "ResourceConfig \<Rightarrow> duration \<Rightarrow> Resource" where
  "Resource_of r ttl = \<lparr>res_Name = rcf_Name r, res_Capacity = rcf_Capacity r,
     res_LeaseTimeToLive = (if rcf_LeaseTimeToLive r = 0 then ttl else rcf_LeaseTimeToLive r),
     res_Description = rcf_Description r, res_CreatedAt = zeroTime\<rparr>"

definition defaults :: "Paths \<Rightarrow> Config" where
  "defaults paths = \<lparr>cf_SocketPath = filepath_Join [pt_RuntimeDir paths, ''lacd.sock''],
     cf_DatabasePath = filepath_Join [pt_StateDir paths, ''lac.db''],
     cf_SecretPath = filepath_Join [pt_StateDir paths, ''secret.key''],
     cf_AllowedWorkdirRoots = [], cf_AgentTimeToLive = 90 * Second, cf_DefaultLeaseTimeToLive = 15 * Minute,
     cf_ShutdownGrace = 5 * Second, cf_RestartDelay = 5 * Second, cf_DefaultAgentName = [],
     cf_MessageRetention = 24 * 60 * Minute, cf_LogLevel = ''info'', cf_Resources = [],
     cf_Capabilities = \<lparr>cp_Resources = [WildcardResource], cp_CanBroadcast = True, cp_CanDefineResources = False,
       cp_CanRequestReports = False, cp_CanReadLog = False\<rparr>,
     cf_Operators = [''operator'', ''telegram''],
     cf_Telegram = \<lparr>tg_Enabled = False, tg_Token = [], tg_TokenFile = [], tg_AllowedChatIDs = [],
       tg_PollTimeout = 0, tg_ReportDeadline = 0\<rparr>,
     cf_WorkerCommands = []\<rparr>"

definition configFilePath :: "environment \<Rightarrow> Options \<Rightarrow> Paths \<Rightarrow> string \<times> bool" where
  "configFilePath env opts paths =
     (if opt_ConfigPath opts \<noteq> [] then (opt_ConfigPath opts, True)
      else if env_var env ''LAC_CONFIG'' \<noteq> [] then (env_var env ''LAC_CONFIG'', True)
      else (pt_ConfigFile paths, False))"

definition SourcePath :: "environment \<Rightarrow> Options \<Rightarrow> string \<times> bool" where
  "SourcePath env opts = (case DefaultPaths env of
      Inl _ \<Rightarrow> ([], False)
    | Inr paths \<Rightarrow> (case configFilePath env opts paths of (path, _) \<Rightarrow>
        (path, case env_file env path of AFile _ _ _ \<Rightarrow> True | _ \<Rightarrow> False)))"

text \<open>Reading the file (\<open>file.go\<close>). Only a missing file at the default place is no error.\<close>

definition readConfigFile :: "environment \<Rightarrow> string \<Rightarrow> string res" where
  "readConfigFile env path = (case env_file env path of
      NoFile \<Rightarrow> Inl ErrNotExist
    | Unreadable e \<Rightarrow> Inl e
    | AFile bytes _ contents \<Rightarrow> if bytes > maxConfigFileSize then Inl ErrInvalidConfig else contents)"

type_synonym yaml = "string \<Rightarrow> Config \<Rightarrow> Config option"

definition applyFile :: "yaml \<Rightarrow> environment \<Rightarrow> Config \<Rightarrow> string \<Rightarrow> bool \<Rightarrow> Config res" where
  "applyFile decode env c path explicit = (case readConfigFile env path of
      Inl e \<Rightarrow> if e = ErrNotExist \<and> \<not> explicit then Inr c else Inl e
    | Inr contents \<Rightarrow> (case checkPrivateFile env path of
          Inl e \<Rightarrow> Inl e
        | Inr _ \<Rightarrow> (case decode contents c of None \<Rightarrow> Inl ErrInvalidConfig | Some c' \<Rightarrow> Inr c')))"

definition overlayString :: "string \<Rightarrow> string \<Rightarrow> string" where
  "overlayString target v = (if v \<noteq> [] then v else target)"

definition applyEnvironment :: "environment \<Rightarrow> Config \<Rightarrow> Config" where
  "applyEnvironment env c = c\<lparr>
     cf_SocketPath := overlayString (cf_SocketPath c) (env_var env ''LAC_SOCKET''),
     cf_DatabasePath := overlayString (cf_DatabasePath c) (env_var env ''LAC_DATABASE''),
     cf_SecretPath := overlayString (cf_SecretPath c) (env_var env ''LAC_SECRET''),
     cf_LogLevel := overlayString (cf_LogLevel c) (env_var env ''LAC_LOG_LEVEL'')\<rparr>"

definition applyOptions :: "Options \<Rightarrow> Config \<Rightarrow> Config" where
  "applyOptions opts c = c\<lparr>
     cf_SocketPath := overlayString (cf_SocketPath c) (opt_SocketPath opts),
     cf_DatabasePath := overlayString (cf_DatabasePath c) (opt_DatabasePath opts),
     cf_LogLevel := overlayString (cf_LogLevel c) (opt_LogLevel opts)\<rparr>"

subsection \<open>Validation\<close>

definition ResolveToken :: "environment \<Rightarrow> TelegramConfig \<Rightarrow> string res" where
  "ResolveToken env t =
     (if TrimSpace (env_var env ''LAC_TELEGRAM_TOKEN'') \<noteq> [] then Inr (TrimSpace (env_var env ''LAC_TELEGRAM_TOKEN''))
      else if tg_TokenFile t \<noteq> [] then
        (if \<not> IsAbs (tg_TokenFile t) then Inl ErrInvalidConfig
         else (case checkPrivateFile env (tg_TokenFile t) of
             Inl e \<Rightarrow> Inl e
           | Inr _ \<Rightarrow> (case env_file env (tg_TokenFile t) of
                 NoFile \<Rightarrow> Inl ErrNotExist
               | Unreadable e \<Rightarrow> Inl e
               | AFile _ _ (Inl e) \<Rightarrow> Inl e
               | AFile _ _ (Inr contents) \<Rightarrow> Inr (TrimSpace contents))))
      else Inr (TrimSpace (tg_Token t)))"

definition Telegram_validate :: "environment \<Rightarrow> TelegramConfig \<Rightarrow> unit res" where
  "Telegram_validate env t =
     (if \<not> tg_Enabled t then Inr ()
      else (case ResolveToken env t of
          Inl e \<Rightarrow> Inl e
        | Inr token \<Rightarrow> first_error
            [check (token \<noteq> []) ErrInvalidConfig,
             check (length (tg_AllowedChatIDs t) \<noteq> 0) ErrInvalidConfig,
             check (\<not> tg_PollTimeout t < 0) ErrInvalidConfig]))"

definition as_config_error :: "unit res \<Rightarrow> unit res" where
  "as_config_error r = check (succeeded r) ErrInvalidConfig"

fun resources_valid :: "duration \<Rightarrow> string list \<Rightarrow> ResourceConfig list \<Rightarrow> unit res" where
  "resources_valid ttl seen [] = Inr ()"
| "resources_valid ttl seen (declared # rest) =
     (if \<not> succeeded (Resource_Validate (Resource_of declared ttl)) then Inl ErrInvalidConfig
      else if List.member seen (rcf_Name declared) then Inl ErrInvalidConfig
      else resources_valid ttl (rcf_Name declared # seen) rest)"

definition validateResources :: "Config \<Rightarrow> unit res" where
  "validateResources c = resources_valid (cf_DefaultLeaseTimeToLive c) [] (cf_Resources c)"

definition Validate :: "environment \<Rightarrow> Config \<Rightarrow> unit res" where
  "Validate env c = first_error (
     map (\<lambda>path. check (IsAbs path) ErrInvalidConfig) [cf_SocketPath c, cf_DatabasePath c, cf_SecretPath c] @
     [check (length (cf_SocketPath c) \<le> maxSocketPathLength) ErrInvalidConfig] @
     map (\<lambda>root. check (IsAbs root) ErrInvalidConfig) (cf_AllowedWorkdirRoots c) @
     map (\<lambda>d. check (\<not> d \<le> 0) ErrInvalidConfig)
       [cf_AgentTimeToLive c, cf_DefaultLeaseTimeToLive c, cf_ShutdownGrace c, cf_RestartDelay c] @
     map (\<lambda>name. as_config_error (ValidateName name)) (cf_Operators c) @
     [if cf_DefaultAgentName c \<noteq> [] then as_config_error (ValidateName (cf_DefaultAgentName c)) else Inr ()] @
     map (\<lambda>r. if r = WildcardResource then Inr () else as_config_error (ValidateName r)) (cp_Resources (cf_Capabilities c)) @
     [check (List.member [''debug'', ''info'', ''warn'', ''error''] (cf_LogLevel c)) ErrInvalidConfig,
      Telegram_validate env (cf_Telegram c),
      validateCommands (cf_WorkerCommands c),
      validateResources c])"

definition Load :: "yaml \<Rightarrow> environment \<Rightarrow> Options \<Rightarrow> Config res" where
  "Load decode env opts = (case DefaultPaths env of
      Inl e \<Rightarrow> Inl e
    | Inr paths \<Rightarrow> (case configFilePath env opts paths of (path, explicit) \<Rightarrow>
        (case applyFile decode env (defaults paths) path explicit of
           Inl e \<Rightarrow> Inl e
         | Inr c0 \<Rightarrow> (let c = applyOptions opts (applyEnvironment env c0)
             in case Validate env c of Inl e \<Rightarrow> Inl e | Inr _ \<Rightarrow> Inr c))))"

definition LockPath :: "Config \<Rightarrow> string" where
  "LockPath c = filepath_Join [filepath_Dir (cf_DatabasePath c), ''lacd.lock'']"

definition WorkdirRoots :: "environment \<Rightarrow> Config \<Rightarrow> string list res" where
  "WorkdirRoots env c =
     (if length (cf_AllowedWorkdirRoots c) > 0 then Inr (cf_AllowedWorkdirRoots c)
      else (case env_home env of Inl e \<Rightarrow> Inl e | Inr home \<Rightarrow> Inr [home]))"

subsection \<open>Durations as text\<close>

text \<open>A plain number is a count of seconds; the product wraps at 64 bits.\<close>

definition wrap64 :: "int \<Rightarrow> int" where
  "wrap64 i = (i + 2 ^ 63) mod 2 ^ 64 - 2 ^ 63"

definition Config_ParseDuration :: "string \<Rightarrow> duration res" where
  "Config_ParseDuration t = (case Atoi t of
      Some seconds \<Rightarrow> Inr (wrap64 (seconds * Second))
    | None \<Rightarrow> (case ParseDuration t of None \<Rightarrow> Inl ErrInvalidConfig | Some d \<Rightarrow> Inr d))"

definition UnmarshalYAML :: "string option \<Rightarrow> int option \<Rightarrow> duration res" where
  "UnmarshalYAML as_text as_number = (case as_text of
      Some t \<Rightarrow> (case ParseDuration t of None \<Rightarrow> Inl ErrInvalidConfig | Some d \<Rightarrow> Inr d)
    | None \<Rightarrow> (case as_number of
          None \<Rightarrow> Inl ErrInvalidConfig | Some seconds \<Rightarrow> Inr (wrap64 (seconds * Second))))"

end
