(* ===== verification/Daemon.thy ===== *)
theory Daemon
  imports Config Wire
begin

section \<open>Housekeeping and reloading (\<open>internal/daemon/services.go\<close>, \<open>internal/daemon/reload.go\<close>)\<close>

text \<open>
  What the daemon does by itself: the resources it defines at start-up, the sweep that reclaims what
  crashed agents left behind, and the reloading of a changed configuration file. Logging is left out;
  the settings the services read live are the configured commands in the state.
\<close>

subsection \<open>Start-up (\<open>services.go\<close>, \<open>daemon.go\<close>)\<close>

fun define_each :: "duration \<Rightarrow> ResourceConfig list \<Rightarrow> unit action" where
  "define_each ttl [] = returnE ()"
| "define_each ttl (declared # rest) =
     bindE (\<lambda>w. exec (Resources_Define (time_of w) (Resource_of declared ttl)) w) (\<lambda>_. define_each ttl rest)"

definition defineConfiguredResources :: "Config \<Rightarrow> unit action" where
  "defineConfiguredResources c = define_each (cf_DefaultLeaseTimeToLive c) (cf_Resources c)"

subsection \<open>Housekeeping\<close>

definition housekeepingInterval :: duration where
  "housekeepingInterval = 10 * Second"

text \<open>One agent that went stale: its slots and its place in the queues, then its tasks.\<close>

definition reclaim_from :: "Agent \<Rightarrow> unit action" where
  "reclaim_from agent =
     bindE (attemptE (ReleaseEverythingHeldBy SystemActor (agent_ID agent) ''the agent went stale'')) (\<lambda>r.
     if \<not> succeeded r then returnE ()
     else bindE (attemptE (ReleaseAbandoned (agent_ID agent))) (\<lambda>_. returnE ()))"

definition runHousekeeping :: "registry_options \<Rightarrow> messaging_options \<Rightarrow> unit action" where
  "runHousekeeping ropts mopts =
     bindE (attemptE ReapExpired) (\<lambda>_.
     bindE (attemptE (ReapStale ropts)) (\<lambda>r. case r of
       Inl _ \<Rightarrow> returnE ()
     | Inr stale \<Rightarrow>
         bindE (forE stale reclaim_from) (\<lambda>_.
         bindE (attemptE (Prune mopts)) (\<lambda>_. returnE ()))))"

subsection \<open>What a reload applies (\<open>reload.go\<close>)\<close>

definition sameStrings :: "string list \<Rightarrow> string list \<Rightarrow> bool" where
  "sameStrings before after \<longleftrightarrow> before = after"

definition sameTelegram :: "TelegramConfig \<Rightarrow> TelegramConfig \<Rightarrow> bool" where
  "sameTelegram before after \<longleftrightarrow>
     tg_Enabled before = tg_Enabled after \<and> tg_Token before = tg_Token after \<and>
     tg_TokenFile before = tg_TokenFile after \<and> tg_PollTimeout before = tg_PollTimeout after \<and>
     tg_ReportDeadline before = tg_ReportDeadline after \<and> tg_AllowedChatIDs before = tg_AllowedChatIDs after"

definition sameCapabilities :: "CapabilitiesConfig \<Rightarrow> CapabilitiesConfig \<Rightarrow> bool" where
  "sameCapabilities before after \<longleftrightarrow>
     cp_CanBroadcast before = cp_CanBroadcast after \<and> cp_CanDefineResources before = cp_CanDefineResources after \<and>
     cp_CanRequestReports before = cp_CanRequestReports after \<and> sameStrings (cp_Resources before) (cp_Resources after)"

definition sameCommands :: "worker_commands \<Rightarrow> worker_commands \<Rightarrow> bool" where
  "sameCommands before after \<longleftrightarrow> length before = length after \<and>
     list_all (\<lambda>(key, command). case map_of after key of
        None \<Rightarrow> False
      | Some other \<Rightarrow> cc_Resource other = cc_Resource command \<and> cc_Description other = cc_Description command \<and>
          cc_TimeLimit other = cc_TimeLimit command \<and> sameStrings (cc_Run command) (cc_Run other)) before"

definition findResource :: "ResourceConfig list \<Rightarrow> string \<Rightarrow> ResourceConfig option" where
  "findResource declared name = List.find (\<lambda>r. rcf_Name r = name) declared"

definition unchanged :: "Config \<Rightarrow> Config \<Rightarrow> ResourceConfig \<Rightarrow> bool" where
  "unchanged previous upd declared = (case findResource (cf_Resources previous) (rcf_Name declared) of
      None \<Rightarrow> False
    | Some existing \<Rightarrow> Resource_of existing (cf_DefaultLeaseTimeToLive previous) =
                       Resource_of declared (cf_DefaultLeaseTimeToLive upd))"

text \<open>A resource that cannot be defined is passed over.\<close>

fun apply_each :: "duration \<Rightarrow> Config \<Rightarrow> Config \<Rightarrow> ResourceConfig list \<Rightarrow> nat \<Rightarrow> nat action" where
  "apply_each ttl previous upd [] changed = returnE changed"
| "apply_each ttl previous upd (declared # rest) changed =
     (if unchanged previous upd declared then apply_each ttl previous upd rest changed
      else bindE (attemptE (Define ttl SystemActor (Resource_of declared (cf_DefaultLeaseTimeToLive upd)))) (\<lambda>r.
           apply_each ttl previous upd rest (if succeeded r then changed + 1 else changed)))"

definition applyResources :: "duration \<Rightarrow> Config \<Rightarrow> Config \<Rightarrow> string action" where
  "applyResources ttl previous upd =
     bindE (apply_each ttl previous upd (cf_Resources upd) 0) (\<lambda>changed.
     returnE (if changed = 0 then [] else ''resources ('' @ itoa (int changed) @ '')''))"

definition deferred_settings :: "Config \<Rightarrow> Config \<Rightarrow> string list" where
  "deferred_settings previous upd =
     map fst (filter (\<lambda>(name, before, after). before \<noteq> after)
       [(''socket_path'', cf_SocketPath previous, cf_SocketPath upd),
        (''database_path'', cf_DatabasePath previous, cf_DatabasePath upd),
        (''secret_path'', cf_SecretPath previous, cf_SecretPath upd)]) @
     (if \<not> sameTelegram (cf_Telegram previous) (cf_Telegram upd) then [''telegram''] else [])"

definition applied_settings :: "Config \<Rightarrow> Config \<Rightarrow> string list" where
  "applied_settings previous upd =
     (if \<not> sameStrings (cf_Operators previous) (cf_Operators upd) \<or>
         \<not> sameCapabilities (cf_Capabilities previous) (cf_Capabilities upd) then [''capabilities''] else []) @
     (if \<not> sameCommands (cf_WorkerCommands previous) (cf_WorkerCommands upd) then [''commands''] else []) @
     (if cf_LogLevel previous \<noteq> cf_LogLevel upd then [''log_level''] else [])"

text \<open>The daemon's configuration and its state; the catalogue reads the commands of the configuration.\<close>

record daemon =
  dm_configuration :: Config
  dm_world :: world

definition settings_installed :: "Config \<Rightarrow> daemon \<Rightarrow> daemon" where
  "settings_installed upd dm = dm\<lparr>dm_configuration := upd,
     dm_world := (dm_world dm)\<lparr>w_commands := cf_WorkerCommands upd\<rparr>\<rparr>"

definition daemon_apply :: "duration \<Rightarrow> Config \<Rightarrow> daemon \<Rightarrow> (string list \<times> string list) \<times> daemon" where
  "daemon_apply ttl upd dm =
     (let previous = dm_configuration dm;
          installed = settings_installed upd dm;
          (r, w) = applyResources ttl previous upd (dm_world installed);
          applied = (case r of Inl _ \<Rightarrow> [] | Inr s \<Rightarrow> if s \<noteq> [] then [s] else [])
      in ((applied @ applied_settings previous upd, deferred_settings previous upd),
          installed\<lparr>dm_world := w\<rparr>))"

text \<open>\<open>loaded\<close> is what reading the file again gives, \<open>path\<close> where it is.\<close>

definition Reload :: "duration \<Rightarrow> Config res \<Rightarrow> string \<Rightarrow> daemon \<Rightarrow> ReloadOutcome res \<times> daemon" where
  "Reload ttl loaded path dm = (case loaded of
      Inl e \<Rightarrow> (Inl e, dm)
    | Inr upd \<Rightarrow> (case daemon_apply ttl upd dm of ((applied, deferred), dm') \<Rightarrow>
        (Inr \<lparr>rlo_Source = path, rlo_Applied = applied, rlo_Deferred = deferred\<rparr>, dm')))"

definition configPath :: "environment \<Rightarrow> Options \<Rightarrow> string" where
  "configPath env source = (case SourcePath env source of (path, exists) \<Rightarrow> if \<not> exists then [] else path)"

subsection \<open>Watching the file\<close>

text \<open>A fingerprint is a digest of the contents, or says the file could not be read. The zero value is
  the candidate before there is one. The digest function is a parameter.\<close>

record fingerprint =
  fp_digest :: string
  fp_missing :: bool

definition no_digest :: string where
  "no_digest = replicate 32 (CHR 0x00)"

definition no_fingerprint :: fingerprint where
  "no_fingerprint = \<lparr>fp_digest = no_digest, fp_missing = False\<rparr>"

definition fingerprintOf :: "(string \<Rightarrow> string) \<Rightarrow> file_state \<Rightarrow> fingerprint" where
  "fingerprintOf digest f = (case f of
      AFile _ _ (Inr contents) \<Rightarrow> \<lparr>fp_digest = digest contents, fp_missing = False\<rparr>
    | _ \<Rightarrow> \<lparr>fp_digest = no_digest, fp_missing = True\<rparr>)"

definition stableChecks :: nat where
  "stableChecks = 3"

record watching =
  wc_loaded :: fingerprint
  wc_candidate :: fingerprint
  wc_quietReads :: nat

definition watching_from :: "fingerprint \<Rightarrow> watching" where
  "watching_from loaded = \<lparr>wc_loaded = loaded, wc_candidate = no_fingerprint, wc_quietReads = 0\<rparr>"

text \<open>One tick: the new state, and whether a reload was attempted; \<open>works\<close> says whether it succeeds.\<close>

definition watch_tick :: "fingerprint \<times> bool \<Rightarrow> watching \<Rightarrow> watching \<times> bool" where
  "watch_tick = (\<lambda>(current, works) s.
     if current = wc_loaded s then (s\<lparr>wc_candidate := no_fingerprint, wc_quietReads := 0\<rparr>, False)
     else if current = wc_candidate s then
       (let quietReads = wc_quietReads s + 1
        in if quietReads < stableChecks then (s\<lparr>wc_quietReads := quietReads\<rparr>, False)
           else if \<not> works then (s\<lparr>wc_candidate := no_fingerprint, wc_quietReads := 0\<rparr>, True)
           else (\<lparr>wc_loaded = current, wc_candidate = no_fingerprint, wc_quietReads = 0\<rparr>, True))
     else (s\<lparr>wc_candidate := current, wc_quietReads := 1\<rparr>, False))"

text \<open>The states before each tick and whether it reloaded.\<close>

fun watch_ticks :: "(fingerprint \<times> bool) list \<Rightarrow> watching \<Rightarrow> (watching \<times> bool) list" where
  "watch_ticks [] s = []"
| "watch_ticks (r # rs) s = (case watch_tick r s of (s', reloaded) \<Rightarrow> (s, reloaded) # watch_ticks rs s')"

end
