(* ===== verification/DaemonFacts.thy ===== *)
theory DaemonFacts
  imports Daemon LeasingBulk
begin

section \<open>Facts about the daemon\<close>

text \<open>
  Lemmas about the watch on the configuration file, about validation and about the operations of a
  reload and of a sweep, for the properties of the daemon.
\<close>

subsection \<open>The watch on the configuration file\<close>

definition watched :: "(fingerprint \<times> bool) list \<Rightarrow> watching \<Rightarrow> watching" where
  "watched rs s = foldl (\<lambda>s r. fst (watch_tick r s)) s rs"

lemma watched_simps [simp]:
  "watched [] s = s" "watched (r # rs) s = watched rs (fst (watch_tick r s))"
  "watched (rs @ [r]) s = fst (watch_tick r (watched rs s))"
  by (simp_all add: watched_def)

lemma length_watch_ticks [simp]: "length (watch_ticks rs s) = length rs"
  by (induction rs arbitrary: s) (simp_all split: prod.split)

lemma watch_ticks_nth:
  "i < length rs \<Longrightarrow> watch_ticks rs s ! i =
     (watched (take i rs) s, snd (watch_tick (rs ! i) (watched (take i rs) s)))"
proof (induction rs arbitrary: i s)
  case (Cons r rs)
  show ?case
  proof (cases i)
    case (Suc j)
    with Cons.prems Cons.IH [of j "fst (watch_tick r s)"] show ?thesis by (simp add: case_prod_beta)
  qed (simp split: prod.split)
qed simp

lemma watched_take_Suc: "i < length rs \<Longrightarrow>
    watched (take (Suc i) rs) s = fst (watch_tick (rs ! i) (watched (take i rs) s))"
  by (simp add: take_Suc_conv_app_nth)

text \<open>The quiet reads counted are the last readings taken, all of the candidate, which is not what is
  loaded.\<close>

definition settling :: "(fingerprint \<times> bool) list \<Rightarrow> watching \<Rightarrow> bool" where
  "settling before s \<longleftrightarrow> wc_quietReads s < stableChecks \<and>
     (\<exists>older. map fst before = older @ replicate (wc_quietReads s) (wc_candidate s)) \<and>
     (wc_quietReads s = 0 \<longrightarrow> wc_candidate s = no_fingerprint) \<and>
     (0 < wc_quietReads s \<longrightarrow> wc_candidate s \<noteq> wc_loaded s)"

lemma settling_step:
  assumes "settling before s"
  shows "settling (before @ [r]) (fst (watch_tick r s))"
proof -
  obtain current works where r: "r = (current, works)" by (cases r)
  from assms obtain older where "map fst before = older @ replicate (wc_quietReads s) (wc_candidate s)"
    by (auto simp: settling_def)
  then have again: "\<exists>older. map fst (before @ [r]) = older @ replicate (Suc (wc_quietReads s)) (wc_candidate s)"
    if "current = wc_candidate s" using that by (simp add: r replicate_append_same [symmetric])
  have once: "\<exists>older. map fst (before @ [r]) = older @ replicate (Suc 0) current"
    by (simp add: r)
  show ?thesis
    using assms again once unfolding settling_def r watch_tick_def Let_def
    by (auto simp: stableChecks_def)
qed

lemma watched_settling: "settling rs (watched rs (watching_from l))"
proof (induction rs rule: rev_induct)
  case Nil
  show ?case by (simp add: settling_def watching_from_def stableChecks_def)
next
  case (snoc r rs)
  then show ?case by (simp add: settling_step)
qed

lemma reload_tick: "snd (watch_tick r s) \<longleftrightarrow>
    fst r \<noteq> wc_loaded s \<and> fst r = wc_candidate s \<and> stableChecks \<le> wc_quietReads s + 1"
  by (cases r) (auto simp: watch_tick_def Let_def)

lemma loaded_tick: "wc_loaded (fst (watch_tick r s)) =
    (if snd (watch_tick r s) \<and> snd r then fst r else wc_loaded s)"
  by (cases r) (auto simp: watch_tick_def Let_def)

lemma three_ticks:
  assumes "fst r \<noteq> wc_loaded s" and "wc_quietReads s < stableChecks" and "fst q = fst r" and "fst p = fst r"
  shows "snd (watch_tick r s) \<or> snd (watch_tick q (fst (watch_tick r s))) \<or>
    snd (watch_tick p (fst (watch_tick q (fst (watch_tick r s)))))"
proof -
  obtain c x y z where r: "r = (c, x)" "q = (c, y)" "p = (c, z)"
    using assms(3,4) by (metis prod.collapse)
  show ?thesis
  proof (cases "c = wc_candidate s")
    case True
    then show ?thesis
      using assms unfolding r by (cases "wc_quietReads s = 0"; cases "wc_quietReads s = 1"; cases x; cases y)
        (simp_all add: watch_tick_def Let_def stableChecks_def)
  next
    case False
    then show ?thesis using assms unfolding r by (simp add: watch_tick_def Let_def stableChecks_def)
  qed
qed

subsection \<open>Validation\<close>

lemma first_error_Inr: "first_error cs = Inr () \<longleftrightarrow> (\<forall>c \<in> set cs. c = Inr ())"
proof -
  have "succeeded c \<longleftrightarrow> c = Inr ()" for c :: "unit res" by (cases c) auto
  then show ?thesis by (simp add: first_error_ok)
qed

lemma check_Inr [simp]: "check b e = Inr u \<longleftrightarrow> b"
  by (auto simp: check_def)

lemma as_config_error_Inr [simp]: "as_config_error r = Inr u \<longleftrightarrow> r = Inr ()"
  by (cases r) (auto simp: as_config_error_def)

lemma resources_valid_Inr: "resources_valid ttl seen rs = Inr u \<longleftrightarrow>
    (\<forall>r \<in> set rs. Resource_Validate (Resource_of r ttl) = Inr ()) \<and> distinct (map rcf_Name rs) \<and>
    set (map rcf_Name rs) \<inter> set seen = {}"
proof (induction rs arbitrary: seen)
  case (Cons r rs)
  have "succeeded (Resource_Validate (Resource_of r ttl)) \<longleftrightarrow> Resource_Validate (Resource_of r ttl) = Inr ()"
    by (cases "Resource_Validate (Resource_of r ttl)") auto
  with Cons show ?case by (auto)
qed simp

subsection \<open>What a reload may change in the database\<close>

definition only_resources :: "db \<Rightarrow> db \<Rightarrow> bool" where
  "only_resources d d' \<longleftrightarrow> d'\<lparr>resources := resources d, audit_log := audit_log d, audit_log_seq := audit_log_seq d\<rparr> = d"

interpretation definitions: db_order only_resources
proof unfold_locales
  show "only_resources d d" for d by (simp add: only_resources_def)
  show "only_resources d1 d3" if "only_resources d1 d2" "only_resources d2 d3" for d1 d2 d3
    using that unfolding only_resources_def by (cases d1; cases d2; cases d3) simp
qed

definition catalogue_kept :: "world \<Rightarrow> world \<Rightarrow> bool" where
  "catalogue_kept w w' \<longleftrightarrow> w_commands w' = w_commands w"

interpretation kept: effect_order catalogue_kept
  by unfold_locales (auto simp: catalogue_kept_def)

lemma kept_steps: "conforms catalogue_kept now" "conforms catalogue_kept (exec x)"
  "conforms catalogue_kept (signal_resource r)" "conforms catalogue_kept (\<lambda>w. exec (f w) w)"
  by (simp_all add: conforms_def catalogue_kept_def exec_apply signal_resource_def split: sum.split)

lemma kept_Define: "conforms catalogue_kept (Define ttl actor r)"
  unfolding Define_def audit_def Let_def by (auto intro!: kept.resp_intros kept_steps)

lemma resources_exec_define: "conforms (db_rel only_resources) (\<lambda>w. exec (Resources_Define (time_of w) r) w)"
  by (auto simp: conforms_def db_rel_def exec_apply Resources_Define_def Let_def translated_constrained
      only_resources_def split: sum.split if_splits)

lemma resources_Define: "conforms (db_rel only_resources) (Define ttl actor r)"
proof -
  have a: "conforms (db_rel only_resources) (exec (Audit_Append e))" for e
    by (rule definitions.conf_exec) (simp add: only_resources_def Audit_Append_Inr)
  have s: "conforms (db_rel only_resources) (signal_resource n)" for n
    by (rule definitions.conf_same_db) simp
  show ?thesis
    unfolding Define_def audit_def Let_def by (auto intro!: definitions.conf_intros resources_exec_define a s)
qed

subsection \<open>The capacity a definition gives\<close>

lemma first_where_update:
  assumes "\<And>r. k r = m \<Longrightarrow> k (f r) = m"
  shows "first_where (\<lambda>r. k r = n) (update_where (\<lambda>r. k r = m) f rows) =
     (if n = m then map_option f (first_where (\<lambda>r. k r = n) rows) else first_where (\<lambda>r. k r = n) rows)"
  using assms by (induction rows) (auto simp: first_where_def update_where_def)

lemma capacity_defined:
  assumes "Resources_Define wall r d = Inr d'"
  shows "capacity_of n d' = (if n = res_Name r then Some (res_Capacity r) else capacity_of n d)"
proof -
  from Define_Inr(8) [OF assms] obtain c where c: "resources d' = (if resource_exists d (res_Name r)
       then update_where (\<lambda>s. resources_name s = res_Name r)
              (\<lambda>s. (resource_row_of r c)\<lparr>resources_created_at := resources_created_at s\<rparr>) (resources d)
       else resources d @ [resource_row_of r c])" by blast
  show ?thesis
  proof (cases "resource_exists d (res_Name r)")
    case True
    then obtain s where "first_where (\<lambda>s. resources_name s = res_Name r) (resources d) = Some s"
      by (cases "first_where (\<lambda>s. resources_name s = res_Name r) (resources d)")
        (auto simp: resource_exists_def exists_where_iff first_where_None)
    with True c show ?thesis
      by (simp add: capacity_of_def first_where_update resource_row_of_def option.map_comp comp_def)
  next
    case False
    then have none: "first_where (\<lambda>s. resources_name s = res_Name r) (resources d) = None"
      by (auto simp: resource_exists_def exists_where_iff first_where_None)
    have app: "first_where P (xs @ [y]) = (case first_where P xs of None \<Rightarrow> if P y then Some y else None | Some z \<Rightarrow> Some z)"
      for P :: "resources_row \<Rightarrow> bool" and xs y by (induction xs) (auto simp: first_where_def)
    from False c none show ?thesis
      by (auto simp: capacity_of_def app resource_row_of_def split: option.split)
  qed
qed

lemma Define_capacity:
  assumes "Resource_Validate r = Inr ()" and "0 < Microseconds (res_LeaseTimeToLive r)"
  shows "\<exists>w'. Define ttl actor r w = (Inr (), w') \<and>
    (\<forall>n. capacity_of n (w_db w') = (if n = res_Name r then Some (res_Capacity r) else capacity_of n (w_db w)))"
proof -
  have v: "1 \<le> res_Capacity r" "\<not> res_LeaseTimeToLive r \<le> 0"
    using assms(1) by (auto simp: Resource_Validate_def first_error_Inr)
  let ?pre = "if IsZero (res_CreatedAt r) then bindE now (\<lambda>at. returnE (r\<lparr>res_CreatedAt := at\<rparr>)) else returnE r"
  obtain r' v1 where pre: "?pre w = (Inr r', v1)" "w_db v1 = w_db w" "res_Name r' = res_Name r"
      "res_Capacity r' = res_Capacity r" "res_LeaseTimeToLive r' = res_LeaseTimeToLive r"
    by (cases "IsZero (res_CreatedAt r)") auto
  with assms have "Resource_Validate r' = Inr ()" by (simp add: Resource_Validate_def)
  with pre assms(2) v obtain d where d: "Resources_Define (time_of v1) r' (w_db w) = Inr d"
    by (auto simp: Resources_Define_def Let_def translated_constrained resource_row_of_def)
  define v3 where "v3 = snd (audit actor AuditResourceDefined (res_Name r') (''capacity='' @ itoa (res_Capacity r') @
      '' ttl='' @ FormatDuration (res_LeaseTimeToLive r')) (v1\<lparr>w_db := d\<rparr>))"
  have a: "audit actor AuditResourceDefined (res_Name r') (''capacity='' @ itoa (res_Capacity r') @
      '' ttl='' @ FormatDuration (res_LeaseTimeToLive r')) (v1\<lparr>w_db := d\<rparr>) = (Inr (), v3)"
    unfolding v3_def by (simp add: audit_def bindE_apply attemptE_apply)
  have "Define ttl actor r w = signal_resource (res_Name r') v3"
    using pre v d a by (simp add: Define_def bindE_apply exec_apply)
  then have "Define ttl actor r w = (Inr (), snd (signal_resource (res_Name r') v3))"
    by (simp add: signal_resource_def)
  moreover have "resources (w_db (snd (signal_resource (res_Name r') v3))) = resources d"
    using conformsD [OF same_audit a] by (simp add: db_rel_def same_tables_def)
  ultimately show ?thesis
    using capacity_defined [OF d] pre by (auto simp: capacity_of_def)
qed

subsection \<open>Reloading\<close>

lemma Resource_of_sel [simp]:
  "res_Name (Resource_of r ttl) = rcf_Name r" "res_Capacity (Resource_of r ttl) = rcf_Capacity r"
  by (simp_all add: Resource_of_def)

text \<open>A declared resource the store accepts.\<close>

definition definable :: "Config \<Rightarrow> ResourceConfig \<Rightarrow> bool" where
  "definable c r \<longleftrightarrow> Resource_Validate (Resource_of r (cf_DefaultLeaseTimeToLive c)) = Inr () \<and>
     0 < Microseconds (res_LeaseTimeToLive (Resource_of r (cf_DefaultLeaseTimeToLive c)))"

text \<open>The capacity a resource has after a reload: the declared one where the declaration changed.\<close>

definition reloaded_capacity :: "Config \<Rightarrow> Config \<Rightarrow> ResourceConfig list \<Rightarrow> db \<Rightarrow> string \<Rightarrow> int option" where
  "reloaded_capacity previous upd rs d n =
     (case List.find (\<lambda>r. rcf_Name r = n \<and> \<not> unchanged previous upd r) rs of
        Some r \<Rightarrow> Some (rcf_Capacity r)
      | None \<Rightarrow> capacity_of n d)"

lemma find_absent: "n \<notin> rcf_Name ` set rs \<Longrightarrow> List.find (\<lambda>r. rcf_Name r = n \<and> P r) rs = None"
  by (induction rs) auto

lemma apply_each_effect:
  assumes "\<And>r. r \<in> set rs \<Longrightarrow> definable upd r" and "distinct (map rcf_Name rs)"
  shows "\<exists>w'. apply_each ttl previous upd rs k w = (Inr (k + length (filter (\<lambda>r. \<not> unchanged previous upd r) rs)), w') \<and>
    (\<forall>n. capacity_of n (w_db w') = reloaded_capacity previous upd rs (w_db w) n)"
  using assms
proof (induction rs arbitrary: k w)
  case Nil
  show ?case by (simp add: reloaded_capacity_def)
next
  case (Cons r rs)
  show ?case
  proof (cases "unchanged previous upd r")
    case True
    with Cons.IH [of k w] Cons.prems show ?thesis by (simp add: reloaded_capacity_def)
  next
    case False
    from Cons.prems(1) [of r] Define_capacity [of "Resource_of r (cf_DefaultLeaseTimeToLive upd)" ttl SystemActor w]
    obtain v where v: "Define ttl SystemActor (Resource_of r (cf_DefaultLeaseTimeToLive upd)) w = (Inr (), v)"
      "\<And>n. capacity_of n (w_db v) = (if n = rcf_Name r then Some (rcf_Capacity r) else capacity_of n (w_db w))"
      by (auto simp: definable_def)
    from Cons.IH [of "k + 1" v] Cons.prems obtain w' where
      w': "apply_each ttl previous upd rs (k + 1) v = (Inr (k + 1 + length (filter (\<lambda>r. \<not> unchanged previous upd r) rs)), w')"
      "\<And>n. capacity_of n (w_db w') = reloaded_capacity previous upd rs (w_db v) n" by auto
    have "capacity_of n (w_db w') = reloaded_capacity previous upd (r # rs) (w_db w) n" for n
      using w'(2) [of n] v(2) [of n] False Cons.prems(2)
        find_absent [of n rs "\<lambda>r. \<not> unchanged previous upd r"]
      by (auto simp: reloaded_capacity_def split: option.split)
    moreover have "apply_each ttl previous upd (r # rs) k w =
        (Inr (k + length (filter (\<lambda>r. \<not> unchanged previous upd r) (r # rs))), w')"
      using False w'(1) by (simp add: bindE_apply attemptE_apply v(1))
    ultimately show ?thesis by blast
  qed
qed

lemma apply_each_frame:
  "conforms (db_rel only_resources) (apply_each ttl previous upd rs k)"
  "conforms catalogue_kept (apply_each ttl previous upd rs k)"
  by (induction rs arbitrary: k) (auto intro!: definitions.conf_intros resources_Define kept.resp_intros kept_Define)

lemma apply_each_unchanged:
  "(\<And>r. r \<in> set rs \<Longrightarrow> unchanged previous upd r) \<Longrightarrow> apply_each ttl previous upd rs k w = (Inr k, w)"
  by (induction rs) simp_all

text \<open>Installing never fails, whatever the declared resources are.\<close>

lemma apply_each_Inr: "\<exists>n w'. apply_each ttl previous upd rs k w = (Inr n, w')"
  by (induction rs arbitrary: k w) (auto simp: bindE_apply attemptE_apply)

lemma daemon_apply_installs:
  "daemon_apply ttl upd dm = (outcomes, dm') \<Longrightarrow>
     dm_configuration dm' = upd \<and> w_commands (dm_world dm') = cf_WorkerCommands upd"
proof -
  assume d: "daemon_apply ttl upd dm = (outcomes, dm')"
  let ?w = "dm_world (settings_installed upd dm)"
  obtain n w' where e: "apply_each ttl (dm_configuration dm) upd (cf_Resources upd) 0 ?w = (Inr n, w')"
    using apply_each_Inr by blast
  from conformsD [OF apply_each_frame(2) e] have "w_commands w' = cf_WorkerCommands upd"
    by (simp add: catalogue_kept_def settings_installed_def)
  moreover obtain s where "applyResources ttl (dm_configuration dm) upd ?w = (Inr s, w')"
    using e by (auto simp: applyResources_def bindE_apply)
  ultimately show ?thesis using d by (auto simp: daemon_apply_def Let_def settings_installed_def)
qed

lemma daemon_apply_effect:
  assumes "\<And>r. r \<in> set (cf_Resources upd) \<Longrightarrow> definable upd r" and "distinct (map rcf_Name (cf_Resources upd))"
  shows "\<exists>applied dm'. daemon_apply ttl upd dm = ((applied, deferred_settings (dm_configuration dm) upd), dm') \<and>
    dm_configuration dm' = upd \<and> w_commands (dm_world dm') = cf_WorkerCommands upd \<and>
    only_resources (w_db (dm_world dm)) (w_db (dm_world dm')) \<and>
    (\<forall>n. capacity_of n (w_db (dm_world dm')) =
       reloaded_capacity (dm_configuration dm) upd (cf_Resources upd) (w_db (dm_world dm)) n)"
proof -
  let ?p = "dm_configuration dm" and ?w = "dm_world (settings_installed upd dm)"
  have w: "w_db ?w = w_db (dm_world dm)" "w_commands ?w = cf_WorkerCommands upd"
    by (simp_all add: settings_installed_def)
  from apply_each_effect [OF assms, where ttl = ttl and previous = ?p and k = 0 and w = ?w] obtain n w' where
    e: "apply_each ttl ?p upd (cf_Resources upd) 0 ?w = (Inr n, w')"
    "\<forall>n. capacity_of n (w_db w') = reloaded_capacity ?p upd (cf_Resources upd) (w_db ?w) n" by auto
  from conformsD [OF apply_each_frame(1) e(1)] conformsD [OF apply_each_frame(2) e(1)] w
  have f: "only_resources (w_db (dm_world dm)) (w_db w')" "w_commands w' = cf_WorkerCommands upd"
    by (simp_all add: db_rel_def catalogue_kept_def)
  obtain s where "applyResources ttl ?p upd ?w = (Inr s, w')"
    using e(1) by (auto simp: applyResources_def bindE_apply)
  then show ?thesis
    using e(2) f w by (simp add: daemon_apply_def Let_def settings_installed_def)
qed

lemma no_deferred: "deferred_settings previous upd = [] \<longleftrightarrow> cf_SocketPath previous = cf_SocketPath upd \<and>
    cf_DatabasePath previous = cf_DatabasePath upd \<and> cf_SecretPath previous = cf_SecretPath upd \<and>
    cf_Telegram previous = cf_Telegram upd"
  by (cases "cf_Telegram previous"; cases "cf_Telegram upd") (auto simp: deferred_settings_def sameTelegram_def)

lemma unchanged_itself: "distinct (map rcf_Name (cf_Resources c)) \<Longrightarrow> r \<in> set (cf_Resources c) \<Longrightarrow> unchanged c c r"
proof -
  assume d: "distinct (map rcf_Name (cf_Resources c))" and r: "r \<in> set (cf_Resources c)"
  have "List.find (\<lambda>s. rcf_Name s = rcf_Name r) rs = Some r"
    if "distinct (map rcf_Name rs)" "r \<in> set rs" for rs
    using that by (induction rs) (force simp: image_iff)+
  with d r show ?thesis by (simp add: unchanged_def findResource_def)
qed

lemma sameCommands_itself: "distinct (map fst c) \<Longrightarrow> sameCommands c c"
  by (auto simp: sameCommands_def sameStrings_def list_all_iff)

lemma settled_again:
  assumes "distinct (map rcf_Name (cf_Resources (dm_configuration dm)))"
    and "distinct (map fst (cf_WorkerCommands (dm_configuration dm)))"
    and "w_commands (dm_world dm) = cf_WorkerCommands (dm_configuration dm)"
  shows "daemon_apply ttl (dm_configuration dm) dm = (([], []), dm)"
proof -
  let ?c = "dm_configuration dm"
  have i: "settings_installed ?c dm = dm" using assms(3) by (simp add: settings_installed_def)
  have "applyResources ttl ?c ?c (dm_world dm) = (Inr [], dm_world dm)"
    using apply_each_unchanged [where previous = ?c and upd = ?c and k = 0, OF unchanged_itself [OF assms(1)]]
    by (simp add: applyResources_def bindE_apply)
  moreover have "applied_settings ?c ?c = []"
    using sameCommands_itself [OF assms(2)] by (simp add: applied_settings_def sameStrings_def sameCapabilities_def)
  moreover have "deferred_settings ?c ?c = []" by (simp add: no_deferred)
  ultimately show ?thesis by (simp add: daemon_apply_def i)
qed

end
