(* ===== verification/SweepFacts.thy ===== *)
theory SweepFacts
  imports Daemon LeasingBulk RegistryFacts DispatchFacts
begin

section \<open>Facts about housekeeping\<close>

text \<open>
  What a sweep may do to the four tables it touches (\<open>sweeps\<close>), that each of its steps does no more,
  and what a step has achieved for an agent that went stale (\<open>reclaimed\<close>), which no later step undoes.
\<close>

subsection \<open>What a sweep may do\<close>

text \<open>Only agents of \<open>S\<close> go stale, lose their place in a queue or a task, and only they and leases
  that ran out by \<open>us\<close> lose a slot.\<close>

definition agent_fades :: "string set \<Rightarrow> agents_row \<Rightarrow> agents_row \<Rightarrow> bool" where
  "agent_fades S r r' \<longleftrightarrow> r' = r \<or>
     agents_id r' = agents_id r \<and> agents_id r \<in> S \<and> agents_state r' = AgentStale"

definition task_returns :: "string set \<Rightarrow> tasks_row \<Rightarrow> tasks_row \<Rightarrow> bool" where
  "task_returns S r r' \<longleftrightarrow> r' = r \<or> tasks_id r' = tasks_id r \<and>
     tasks_state r = TaskRunning \<and> (\<exists>a \<in> S. tasks_worker_id r = Some a) \<and>
     tasks_state r' = TaskQueued \<and> tasks_worker_id r' = None"

definition lease_swept :: "string set \<Rightarrow> int \<Rightarrow> leases_row \<Rightarrow> leases_row \<Rightarrow> bool" where
  "lease_swept S us r r' \<longleftrightarrow> lease_closes r r' \<and>
     (r' = r \<or> leases_agent_id r \<in> S \<or> leases_expires_at r \<le> us)"

definition entry_swept :: "string set \<Rightarrow> queue_entries_row \<Rightarrow> queue_entries_row \<Rightarrow> bool" where
  "entry_swept S r r' \<longleftrightarrow> entry_closes r r' \<and> (r' = r \<or> queue_entries_agent_id r \<in> S)"

definition sweeps :: "string set \<Rightarrow> int \<Rightarrow> db \<Rightarrow> db \<Rightarrow> bool" where
  "sweeps S us d d' \<longleftrightarrow>
     evolves_in_place (agent_fades S) (agents d) (agents d') \<and>
     evolves_in_place (lease_swept S us) (leases d) (leases d') \<and>
     evolves_in_place (entry_swept S) (queue_entries d) (queue_entries d') \<and>
     evolves_in_place (task_returns S) (tasks d) (tasks d')"

lemma swept_refl [simp]: "agent_fades S r r" "task_returns S t t" "lease_swept S us l l" "entry_swept S e e"
  by (simp_all add: agent_fades_def task_returns_def lease_swept_def entry_swept_def)

lemma agent_fades_trans: "agent_fades S r s \<Longrightarrow> agent_fades S s t \<Longrightarrow> agent_fades S r t"
  by (auto simp: agent_fades_def)

lemma task_returns_trans: "task_returns S r s \<Longrightarrow> task_returns S s t \<Longrightarrow> task_returns S r t"
  by (auto simp: task_returns_def)

lemma lease_swept_trans: "lease_swept S us r s \<Longrightarrow> lease_swept S us s t \<Longrightarrow> lease_swept S us r t"
  unfolding lease_swept_def by (metis lease_closes_trans lease_closes_fields(3,5))

lemma entry_swept_trans: "entry_swept S r s \<Longrightarrow> entry_swept S s t \<Longrightarrow> entry_swept S r t"
  unfolding entry_swept_def by (metis entry_closes_trans entry_closes_fields(3))

interpretation sweeping: db_order "sweeps S us" for S us
proof unfold_locales
  show "sweeps S us d d" for d by (simp add: sweeps_def evolves_in_place_refl)
  show "sweeps S us d1 d3" if "sweeps S us d1 d2" "sweeps S us d2 d3" for d1 d2 d3
    using that unfolding sweeps_def
    by (auto intro: evolves_in_place_trans [OF _ _ agent_fades_trans] evolves_in_place_trans [OF _ _ task_returns_trans]
        evolves_in_place_trans [OF _ _ lease_swept_trans] evolves_in_place_trans [OF _ _ entry_swept_trans])
qed

definition keyed :: "db \<Rightarrow> bool" where
  "keyed d \<longleftrightarrow> distinct (map leases_id (leases d)) \<and> distinct (map queue_entries_id (queue_entries d))"

lemma keyed_sweeps: "sweeps S us d d' \<Longrightarrow> keyed d' = keyed d"
  unfolding sweeps_def keyed_def
  by (auto dest!: evolves_in_place_map [where f = leases_id] evolves_in_place_map [where f = queue_entries_id]
      simp: lease_swept_def entry_swept_def lease_closes_fields entry_closes_fields)

lemma update_in_place:
  "(\<And>r. R r r) \<Longrightarrow> (\<And>r. r \<in> set xs \<Longrightarrow> P r \<Longrightarrow> R r (f r)) \<Longrightarrow> evolves_in_place R xs (update_where P f xs)"
  by (simp add: evolves_in_place_def update_where_def)

subsection \<open>Tables a step leaves alone\<close>

definition work_alone :: "db \<Rightarrow> db \<Rightarrow> bool" where
  "work_alone d d' \<longleftrightarrow> agents d' = agents d \<and> tasks d' = tasks d"

definition leasing_alone :: "db \<Rightarrow> db \<Rightarrow> bool" where
  "leasing_alone d d' \<longleftrightarrow> leases d' = leases d \<and> queue_entries d' = queue_entries d \<and> tasks d' = tasks d"

interpretation work: db_order work_alone by unfold_locales (auto simp: work_alone_def)
interpretation leasing_rows: db_order leasing_alone by unfold_locales (auto simp: leasing_alone_def)

lemma work_alone_exec: "conforms (db_rel work_alone) (exec (Leases_Release i at))"
  "conforms (db_rel work_alone) (exec (ResolveQueueEntry i st at))"
  "conforms (db_rel work_alone) (exec (Audit_Append e))"
  by (rule work.conf_exec; simp add: work_alone_def Release_Inr Resolve_Inr Audit_Append_Inr)+

lemma work_alone_signals: "conforms (db_rel work_alone) (signal_resource r)"
  "conforms (db_rel work_alone) signal_every_resource"
  by (rule work.conf_same_db; simp add: signal_resource_def signal_every_resource_def)+

lemmas work_intros = work.conf_intros work_alone_exec work_alone_signals

lemma work_alone_ops: "conforms (db_rel work_alone) ReapExpired"
  "conforms (db_rel work_alone) (ReleaseEverythingHeldBy actor agent reason)"
  unfolding ReapExpired_def ReleaseEverythingHeldBy_def release_logged_def Let_def audit_in_def
  by (auto intro!: work_intros)

lemma leasing_alone_exec: "conforms (db_rel leasing_alone) (exec (Agents_SetState i st at))"
  "conforms (db_rel leasing_alone) (exec (Audit_Append e))"
  by (rule leasing_rows.conf_exec;
      auto simp: leasing_alone_def Agents_SetState_def affected_updated_Inr Audit_Append_Inr split: if_splits)+

lemma leasing_alone_ReapStale: "conforms (db_rel leasing_alone) (ReapStale opt)"
  unfolding ReapStale_def registry_audit_def
  by (auto intro!: leasing_rows.conf_intros leasing_alone_exec)

subsection \<open>The steps of a sweep\<close>

lemma clock_ReapStale: "conforms clock_forward (ReapStale opt)"
  unfolding ReapStale_def registry_audit_def by (auto intro!: clock_intros)

lemma swept_ReapExpired:
  assumes "keyed (w_db w)"
  shows "sweeps S (requireMicros (time_of w)) (w_db w) (w_db (snd (ReapExpired w))) \<and>
    (\<forall>r \<in> set (leases (w_db (snd (ReapExpired w)))). leases_released_at r = None \<longrightarrow>
       requireMicros (time_of w) < leases_expires_at r)"
proof -
  from ReapExpired_effect [of w] assms obtain n w' where e: "ReapExpired w = (Inr n, w')"
    "leases (w_db w') = close_leases (\<lambda>r. leases_released_at r = None \<and>
        leases_expires_at r \<le> requireMicros (time_of w)) (time_of w) (leases (w_db w))"
    "queue_entries (w_db w') = queue_entries (w_db w)" by (auto simp: keyed_def)
  moreover have "work_alone (w_db w) (w_db w')"
    using conformsD [OF work_alone_ops(1) e(1)] by (simp add: db_rel_def)
  ultimately have "sweeps S (requireMicros (time_of w)) (w_db w) (w_db w')"
    unfolding sweeps_def work_alone_def close_leases_def
    by (auto simp: lease_swept_def lease_closes_def intro!: evolves_in_place_refl evolves_in_place_update)
  moreover have "requireMicros (time_of w) < leases_expires_at r"
    if "r \<in> set (leases (w_db w'))" "leases_released_at r = None" for r
    using that unfolding e(2) close_leases_def set_update_where by (auto split: if_splits)
  ultimately show ?thesis by (simp add: e(1))
qed

lemma registry_audit_Inr: "registry_audit actor action target detail w = (Inr (), snd (registry_audit actor action target detail w))"
  by (simp add: registry_audit_def bindE_apply attemptE_apply)

lemma registry_audit_agents: "agents (w_db (snd (registry_audit actor action target detail w))) = agents (w_db w)"
  by (simp add: registry_audit_def bindE_apply attemptE_apply exec_apply Audit_Append_def split: sum.split)

text \<open>Marking agents that exist never fails.\<close>

lemma mark_stale_loop:
  assumes "\<And>a. a \<in> set gone \<Longrightarrow> agent_exists (w_db w) (agent_ID a)"
  shows "\<exists>w'. forE gone (\<lambda>agent. bindE (exec (Agents_SetState (agent_ID agent) AgentStale at)) (\<lambda>_.
      registry_audit SystemActor AuditAgentWentStale (agent_ID agent) (why agent))) w = (Inr (), w') \<and>
    evolves_in_place (agent_fades (agent_ID ` set gone)) (agents (w_db w)) (agents (w_db w')) \<and>
    (\<forall>r \<in> set (agents (w_db w')). agents_id r \<in> agent_ID ` set gone \<longrightarrow> agents_state r = AgentStale)"
  using assms
proof (induction gone arbitrary: w)
  case Nil
  show ?case by (simp add: evolves_in_place_refl)
next
  case (Cons a gone)
  let ?f = "\<lambda>r. r\<lparr>agents_state := AgentStale,
      agents_last_heartbeat_at := max (agents_last_heartbeat_at r) (requireMicros at)\<rparr>"
  let ?d = "(w_db w)\<lparr>agents := update_where (\<lambda>r. agents_id r = agent_ID a) ?f (agents (w_db w))\<rparr>"
  let ?v = "snd (registry_audit SystemActor AuditAgentWentStale (agent_ID a) (why a) (w\<lparr>w_db := ?d\<rparr>))"
  have "0 < count_where (\<lambda>r. agents_id r = agent_ID a) (agents (w_db w))"
    using Cons.prems [of a] count_where_zero [of "\<lambda>r. agents_id r = agent_ID a" "agents (w_db w)"]
    by (simp add: agent_exists_def)
  then have "Agents_SetState (agent_ID a) AgentStale at (w_db w) = Inr ?d"
    by (simp add: Agents_SetState_def affected_updated_Inr AgentState_Valid_def)
  then have step: "bindE (exec (Agents_SetState (agent_ID a) AgentStale at)) (\<lambda>_.
      registry_audit SystemActor AuditAgentWentStale (agent_ID a) (why a)) w = (Inr (), ?v)"
    by (simp add: bindE_apply exec_apply) (rule registry_audit_Inr)
  have v: "agents (w_db ?v) = update_where (\<lambda>r. agents_id r = agent_ID a) ?f (agents (w_db w))"
    by (simp add: registry_audit_agents)
  have "agent_exists (w_db ?v) (agent_ID b)" if "b \<in> set gone" for b
  proof -
    have ids: "agent_exists d i \<longleftrightarrow> i \<in> set (map agents_id (agents d))" for d i
      by (auto simp: agent_exists_def exists_where_iff)
    from Cons.prems [of b] that show ?thesis unfolding ids v by simp
  qed
  from Cons.IH [OF this] obtain w' where
    rest: "forE gone (\<lambda>agent. bindE (exec (Agents_SetState (agent_ID agent) AgentStale at)) (\<lambda>_.
      registry_audit SystemActor AuditAgentWentStale (agent_ID agent) (why agent))) ?v = (Inr (), w')"
    "evolves_in_place (agent_fades (agent_ID ` set gone)) (agents (w_db ?v)) (agents (w_db w'))"
    "\<forall>r \<in> set (agents (w_db w')). agents_id r \<in> agent_ID ` set gone \<longrightarrow> agents_state r = AgentStale"
    by auto
  let ?S = "agent_ID ` set (a # gone)"
  have more: "agent_fades ?S r s" if "agent_fades (agent_ID ` set gone) r s" for r s
    using that by (auto simp: agent_fades_def)
  have first: "evolves_in_place (agent_fades ?S) (agents (w_db w)) (agents (w_db ?v))"
    unfolding v by (rule evolves_in_place_update) (auto simp: agent_fades_def)
  have later: "evolves_in_place (agent_fades ?S) (agents (w_db ?v)) (agents (w_db w'))"
    using rest(2) more by (auto simp: evolves_in_place_def)
  have "agents_state r = AgentStale" if r: "r \<in> set (agents (w_db w'))" "agents_id r = agent_ID a" for r
  proof -
    from evolves_in_place_back [OF rest(2) r(1)] obtain s where s: "s \<in> set (agents (w_db ?v))"
      "agent_fades (agent_ID ` set gone) s r" by blast
    then have "agents_id s = agent_ID a" using r(2) by (auto simp: agent_fades_def)
    with s(1) have "agents_state s = AgentStale" unfolding v set_update_where by auto
    with s(2) show ?thesis by (auto simp: agent_fades_def)
  qed
  with rest(3) have "\<forall>r \<in> set (agents (w_db w')). agents_id r \<in> ?S \<longrightarrow> agents_state r = AgentStale" by auto
  moreover have "evolves_in_place (agent_fades ?S) (agents (w_db w)) (agents (w_db w'))"
    by (rule evolves_in_place_trans [OF first later agent_fades_trans])
  ultimately show ?case using step rest(1) by (intro exI [of _ w']) simp
qed

text \<open>The agents that were silent for too long when the clock was read.\<close>

definition silent_agents :: "registry_options \<Rightarrow> world \<Rightarrow> Agent list" where
  "silent_agents opt w = projr (StaleBefore (time_of w - ro_TimeToLive opt) (w_db w))"

lemma silent_ids: "agent_ID ` set (silent_agents opt w) = agents_id ` {r \<in> set (agents (w_db w)).
    agents_state r = AgentActive \<and> agents_last_heartbeat_at r < requireMicros (time_of w - ro_TimeToLive opt)}"
  by (auto simp: silent_agents_def StaleBefore_def scanAgent_def image_image)

lemma ReapStale_effect:
  "\<exists>w'. ReapStale opt w = (Inr (silent_agents opt w), w') \<and>
     sweeps (agent_ID ` set (silent_agents opt w)) us (w_db w) (w_db w') \<and>
     (\<forall>r \<in> set (agents (w_db w')). agents_id r \<in> agent_ID ` set (silent_agents opt w) \<longrightarrow> agents_state r = AgentStale)"
proof -
  let ?gone = "silent_agents opt w" and ?v = "w\<lparr>w_ticks := Suc (w_ticks w)\<rparr>"
  have q: "StaleBefore (time_of w - ro_TimeToLive opt) (w_db w) = Inr ?gone"
    by (simp add: silent_agents_def StaleBefore_def)
  have "agent_exists (w_db ?v) (agent_ID a)" if "a \<in> set ?gone" for a
    using imageI [OF that, of agent_ID] unfolding silent_ids by (auto simp: agent_exists_def exists_where_iff)
  from mark_stale_loop [of ?gone ?v, OF this, where at = "time_of w"
      and why = "\<lambda>agent. ''no heartbeat since '' @ FormatRFC3339 (agent_LastHeartbeatAt agent)"] obtain w' where
    loop: "forE ?gone (\<lambda>agent. bindE (exec (Agents_SetState (agent_ID agent) AgentStale (time_of w))) (\<lambda>_.
      registry_audit SystemActor AuditAgentWentStale (agent_ID agent)
        (''no heartbeat since '' @ FormatRFC3339 (agent_LastHeartbeatAt agent)))) ?v = (Inr (), w')"
    "evolves_in_place (agent_fades (agent_ID ` set ?gone)) (agents (w_db w)) (agents (w_db w'))"
    "\<forall>r \<in> set (agents (w_db w')). agents_id r \<in> agent_ID ` set ?gone \<longrightarrow> agents_state r = AgentStale"
    by auto
  from loop(1) q have r: "ReapStale opt w = (Inr ?gone, w')"
    by (simp add: ReapStale_def bindE_apply)
  from conformsD [OF leasing_alone_ReapStale r] loop(2)
  have "sweeps (agent_ID ` set ?gone) us (w_db w) (w_db w')"
    by (simp add: sweeps_def db_rel_def leasing_alone_def evolves_in_place_refl)
  with r loop(3) show ?thesis by blast
qed

lemma requeue_all:
  "fold (requeue reason) ids d = d\<lparr>tasks := update_where (\<lambda>r. tasks_id r \<in> set ids \<and> tasks_state r = TaskRunning)
     (\<lambda>r. r\<lparr>tasks_state := TaskQueued, tasks_worker_id := None, tasks_lease_id := None,
            tasks_started_at := None, tasks_output := [], tasks_failure := reason\<rparr>) (tasks d)\<rparr>"
proof (induction ids arbitrary: d)
  case Nil
  show ?case by (simp add: update_where_False)
next
  case (Cons i ids)
  show ?case
    unfolding fold.simps comp_apply Cons.IH unfolding requeue_def
    by (simp add: update_where_again runs_def) (rule arg_cong [where f = "\<lambda>t. d\<lparr>tasks := t\<rparr>"], rule update_where_cong, auto)
qed

lemma signal_loop: "\<exists>w'. forE ts (\<lambda>task. signal_arrivals (task_ResourceName task)) w = (Inr (), w') \<and>
    w_db w' = w_db w \<and> w_clock w' = w_clock w \<and> w_ticks w' = w_ticks w"
proof (induction ts arbitrary: w)
  case (Cons t ts)
  from Cons.IH [of "snd (signal_arrivals (task_ResourceName t) w)"] show ?case
    by (simp add: signal_arrivals_def bindE_apply)
qed simp

lemma ReleaseAbandoned_effect:
  assumes "distinct (map tasks_id (tasks (w_db w)))"
  shows "\<exists>n w'. ReleaseAbandoned agent w = (Inr n, w') \<and> clock_forward w w' \<and>
     sweeps {agent} us (w_db w) (w_db w') \<and> \<not> exists_where (running_of agent) (tasks (w_db w'))"
proof -
  let ?ids = "map task_ID (map scanTask (filter (running_of agent) (tasks (w_db w))))"
  let ?d = "fold (requeue (requeue_reason (time_of w))) ?ids (w_db w)"
  obtain w' where w': "forE (map scanTask (filter (running_of agent) (tasks (w_db w))))
       (\<lambda>task. signal_arrivals (task_ResourceName task)) (w\<lparr>w_ticks := Suc (w_ticks w), w_db := ?d\<rparr>) = (Inr (), w')"
    "w_db w' = ?d" "w_clock w' = w_clock w" "w_ticks w' = Suc (w_ticks w)"
    using signal_loop [of "map scanTask (filter (running_of agent) (tasks (w_db w)))" "w\<lparr>w_ticks := Suc (w_ticks w), w_db := ?d\<rparr>"]
    by auto
  have "\<exists>n. ReleaseAbandoned agent w = (Inr n, w')"
    using w'(1) by (simp add: ReleaseAbandoned_def bindE_apply execR_def Tasks_ReleaseAbandoned_def runningTasksOf_def)
  then obtain n where n: "ReleaseAbandoned agent w = (Inr n, w')" ..
  have mine: "running_of agent r"
    if "r \<in> set (tasks (w_db w))" "tasks_id r \<in> set ?ids" for r
    using that by (auto dest: distinct_key_eq [OF assms])
  have "task_returns {agent} r (r\<lparr>tasks_state := TaskQueued, tasks_worker_id := None, tasks_lease_id := None,
      tasks_started_at := None, tasks_output := [], tasks_failure := requeue_reason (time_of w)\<rparr>)"
    if "r \<in> set (tasks (w_db w))" "tasks_id r \<in> set ?ids \<and> tasks_state r = TaskRunning" for r
    using mine [of r] that by (simp add: task_returns_def running_of_def)
  then have "evolves_in_place (task_returns {agent}) (tasks (w_db w)) (tasks ?d)"
    unfolding requeue_all by (simp add: update_in_place)
  then have s: "sweeps {agent} us (w_db w) ?d"
    by (simp add: sweeps_def requeue_all evolves_in_place_refl)
  have "\<not> running_of agent r" if "r \<in> set (tasks ?d)" for r
    using that unfolding requeue_all by (auto simp: running_of_def set_update_where)
  then have none: "\<not> exists_where (running_of agent) (tasks ?d)" unfolding exists_where_iff by blast
  show ?thesis
  proof (intro exI conjI)
    show "ReleaseAbandoned agent w = (Inr n, w')" by (fact n)
    show "clock_forward w w'" using w'(3,4) by (simp add: clock_forward_def)
    show "sweeps {agent} us (w_db w) (w_db w')" unfolding w'(2) by (fact s)
    show "\<not> exists_where (running_of agent) (tasks (w_db w'))" unfolding w'(2) by (fact none)
  qed
qed

subsection \<open>What a sweep has achieved\<close>

definition reclaimed :: "string \<Rightarrow> world \<Rightarrow> bool" where
  "reclaimed agent w \<longleftrightarrow>
     \<not> exists_where (\<lambda>r. leases_agent_id r = agent \<and> holds_at (requireMicros (time_of w)) r) (leases (w_db w)) \<and>
     \<not> exists_where (\<lambda>r. queue_entries_agent_id r = agent \<and> queue_entries_state r = QueueWaiting) (queue_entries (w_db w)) \<and>
     \<not> exists_where (running_of agent) (tasks (w_db w))"

lemma nothing_comes_back:
  assumes "sweeps S us (w_db w) (w_db w')" and "mono (w_clock w)" and "clock_forward w w'"
  shows "\<not> exists_where (\<lambda>r. leases_agent_id r = agent \<and> holds_at (requireMicros (time_of w)) r) (leases (w_db w)) \<Longrightarrow>
      \<not> exists_where (\<lambda>r. leases_agent_id r = agent \<and> holds_at (requireMicros (time_of w')) r) (leases (w_db w'))"
    and "\<not> exists_where (\<lambda>r. queue_entries_agent_id r = agent \<and> queue_entries_state r = QueueWaiting) (queue_entries (w_db w)) \<Longrightarrow>
      \<not> exists_where (\<lambda>r. queue_entries_agent_id r = agent \<and> queue_entries_state r = QueueWaiting) (queue_entries (w_db w'))"
    and "\<not> exists_where (running_of agent) (tasks (w_db w)) \<Longrightarrow> \<not> exists_where (running_of agent) (tasks (w_db w'))"
proof -
  have t: "requireMicros (time_of w) \<le> requireMicros (time_of w')"
    by (rule requireMicros_mono [OF clock_forward_time [OF assms(2,3)]])
  have held: "leases_agent_id r = agent \<and> holds_at (requireMicros (time_of w)) r"
    if "lease_swept S us r s" "leases_agent_id s = agent \<and> holds_at (requireMicros (time_of w')) s" for r s
    using that t by (auto simp: lease_swept_def lease_closes_def holds_at_def)
  have waiting: "queue_entries_agent_id r = agent \<and> queue_entries_state r = QueueWaiting"
    if "entry_swept S r s" "queue_entries_agent_id s = agent \<and> queue_entries_state s = QueueWaiting" for r s
    using that by (auto simp: entry_swept_def entry_closes_def)
  have running: "running_of agent r" if "task_returns S r s" "running_of agent s" for r s
    using that by (auto simp: task_returns_def running_of_def)
  note d = assms(1) [unfolded sweeps_def]
  show "\<not> exists_where (\<lambda>r. leases_agent_id r = agent \<and> holds_at (requireMicros (time_of w)) r) (leases (w_db w)) \<Longrightarrow>
      \<not> exists_where (\<lambda>r. leases_agent_id r = agent \<and> holds_at (requireMicros (time_of w')) r) (leases (w_db w'))"
    unfolding exists_where_iff using d held by (meson evolves_in_place_back)
  show "\<not> exists_where (\<lambda>r. queue_entries_agent_id r = agent \<and> queue_entries_state r = QueueWaiting) (queue_entries (w_db w)) \<Longrightarrow>
      \<not> exists_where (\<lambda>r. queue_entries_agent_id r = agent \<and> queue_entries_state r = QueueWaiting) (queue_entries (w_db w'))"
    unfolding exists_where_iff using d waiting by (meson evolves_in_place_back)
  show "\<not> exists_where (running_of agent) (tasks (w_db w)) \<Longrightarrow> \<not> exists_where (running_of agent) (tasks (w_db w'))"
    unfolding exists_where_iff using d running by (meson evolves_in_place_back)
qed

lemma reclaimed_stays:
  "sweeps S us (w_db w) (w_db w') \<Longrightarrow> mono (w_clock w) \<Longrightarrow> clock_forward w w' \<Longrightarrow> reclaimed agent w \<Longrightarrow> reclaimed agent w'"
  unfolding reclaimed_def by (auto dest: nothing_comes_back)

lemma sweeps_mono: "sweeps S us d d' \<Longrightarrow> S \<subseteq> T \<Longrightarrow> sweeps T us d d'"
  unfolding sweeps_def evolves_in_place_def agent_fades_def lease_swept_def entry_swept_def task_returns_def by blast

lemma task_ids_sweeps: "sweeps S us d d' \<Longrightarrow> map tasks_id (tasks d') = map tasks_id (tasks d)"
  unfolding sweeps_def by (auto simp: task_returns_def dest!: evolves_in_place_map [where f = tasks_id])

lemma swept_ReleaseEverything:
  assumes "keyed (w_db w)"
  shows "\<exists>n w'. ReleaseEverythingHeldBy SystemActor agent reason w = (Inr n, w') \<and> clock_forward w w' \<and>
    sweeps {agent} us (w_db w) (w_db w') \<and>
    \<not> exists_where (\<lambda>r. leases_agent_id r = agent \<and> holds_at (requireMicros (time_of w)) r) (leases (w_db w')) \<and>
    \<not> exists_where (\<lambda>r. queue_entries_agent_id r = agent \<and> queue_entries_state r = QueueWaiting) (queue_entries (w_db w'))"
proof -
  from ReleaseEverything_effect [of w SystemActor agent reason] assms obtain n w' where
    e: "ReleaseEverythingHeldBy SystemActor agent reason w = (Inr n, w')"
    "leases (w_db w') = close_leases (\<lambda>r. leases_agent_id r = agent \<and> holds_at (requireMicros (time_of w)) r)
       (time_of w) (leases (w_db w))"
    "queue_entries (w_db w') = cancel_entries (\<lambda>r. queue_entries_agent_id r = agent \<and> queue_entries_state r = QueueWaiting)
       (time_of w) (queue_entries (w_db w))" by (auto simp: keyed_def SystemActor_def)
  have "work_alone (w_db w) (w_db w')"
    using conformsD [OF work_alone_ops(2) e(1)] by (simp add: db_rel_def)
  then have "sweeps {agent} us (w_db w) (w_db w')"
    unfolding sweeps_def e(2,3) work_alone_def close_leases_def cancel_entries_def
    by (auto simp: lease_swept_def lease_closes_def entry_swept_def entry_closes_def holds_at_def
        intro!: evolves_in_place_refl evolves_in_place_update)
  moreover have "\<not> exists_where (\<lambda>r. leases_agent_id r = agent \<and> holds_at (requireMicros (time_of w)) r) (leases (w_db w'))"
    unfolding e(2) close_leases_def by (rule update_where_clears) (auto simp: holds_at_def)
  moreover have "\<not> exists_where (\<lambda>r. queue_entries_agent_id r = agent \<and> queue_entries_state r = QueueWaiting) (queue_entries (w_db w'))"
    unfolding e(3) cancel_entries_def by (rule update_where_clears) auto
  moreover have "clock_forward w w'" by (rule conformsD [OF clock_ops(3) e(1)])
  ultimately show ?thesis using e(1) by blast
qed

lemma reclaim_from_effect:
  assumes "keyed (w_db w)" and "distinct (map tasks_id (tasks (w_db w)))" and "mono (w_clock w)"
  shows "\<exists>w'. reclaim_from a w = (Inr (), w') \<and> clock_forward w w' \<and>
    sweeps {agent_ID a} us (w_db w) (w_db w') \<and> reclaimed (agent_ID a) w'"
proof -
  let ?i = "agent_ID a"
  from swept_ReleaseEverything [OF assms(1), of ?i "''the agent went stale''" us] obtain n v where
    v: "ReleaseEverythingHeldBy SystemActor ?i ''the agent went stale'' w = (Inr n, v)" "clock_forward w v"
    "sweeps {?i} us (w_db w) (w_db v)"
    "\<not> exists_where (\<lambda>r. leases_agent_id r = ?i \<and> holds_at (requireMicros (time_of w)) r) (leases (w_db v))"
    "\<not> exists_where (\<lambda>r. queue_entries_agent_id r = ?i \<and> queue_entries_state r = QueueWaiting) (queue_entries (w_db v))"
    by blast
  from v(3) assms(2) have "distinct (map tasks_id (tasks (w_db v)))" by (simp add: task_ids_sweeps)
  from ReleaseAbandoned_effect [OF this, of ?i us] obtain m w' where
    w': "ReleaseAbandoned ?i v = (Inr m, w')" "clock_forward v w'" "sweeps {?i} us (w_db v) (w_db w')"
    "\<not> exists_where (running_of ?i) (tasks (w_db w'))" by blast
  have mono: "mono (w_clock v)" using assms(3) v(2) by (simp add: clock_forward_def)
  have t: "requireMicros (time_of w) \<le> requireMicros (time_of v)"
    by (rule requireMicros_mono [OF clock_forward_time [OF assms(3) v(2)]])
  have "\<not> exists_where (\<lambda>r. leases_agent_id r = ?i \<and> holds_at (requireMicros (time_of v)) r) (leases (w_db v))"
    using v(4) t by (auto simp: exists_where_iff holds_at_def)
  with nothing_comes_back(1,2) [OF w'(3) mono w'(2)] v(5) w'(4) have "reclaimed ?i w'"
    unfolding reclaimed_def by blast
  moreover have "reclaim_from a w = (Inr (), w')"
    unfolding reclaim_from_def by (simp add: bindE_apply attemptE_apply v(1) w'(1))
  ultimately show ?thesis
    using clock.R_trans [OF v(2) w'(2)] sweeping.Q_trans [OF v(3) w'(3)] by blast
qed

lemma reclaim_loop:
  assumes "keyed (w_db w)" and "distinct (map tasks_id (tasks (w_db w)))" and "mono (w_clock w)"
  shows "\<exists>w'. forE gone reclaim_from w = (Inr (), w') \<and> clock_forward w w' \<and>
    sweeps (agent_ID ` set gone) us (w_db w) (w_db w') \<and> (\<forall>a \<in> set gone. reclaimed (agent_ID a) w')"
  using assms
proof (induction gone arbitrary: w)
  case Nil
  show ?case by (simp add: clock.R_refl sweeping.Q_refl)
next
  case (Cons a gone)
  from reclaim_from_effect [OF Cons.prems, of a us] obtain v where
    v: "reclaim_from a w = (Inr (), v)" "clock_forward w v" "sweeps {agent_ID a} us (w_db w) (w_db v)"
      "reclaimed (agent_ID a) v" by blast
  have mono: "mono (w_clock v)" using Cons.prems(3) v(2) by (simp add: clock_forward_def)
  from v(3) Cons.prems have "keyed (w_db v)" "distinct (map tasks_id (tasks (w_db v)))"
    by (simp_all add: keyed_sweeps task_ids_sweeps)
  from Cons.IH [OF this mono] obtain w' where
    w': "forE gone reclaim_from v = (Inr (), w')" "clock_forward v w'"
    "sweeps (agent_ID ` set gone) us (w_db v) (w_db w')" "\<forall>a \<in> set gone. reclaimed (agent_ID a) w'" by blast
  have "reclaimed (agent_ID a) w'" by (rule reclaimed_stays [OF w'(3) mono w'(2) v(4)])
  moreover have "sweeps (agent_ID ` set (a # gone)) us (w_db w) (w_db w')"
    by (rule sweeping.Q_trans [OF sweeps_mono [OF v(3)] sweeps_mono [OF w'(3)]]) auto
  ultimately show ?case
    using v(1) w'(1,4) clock.R_trans [OF v(2) w'(2)] by (intro exI [of _ w']) auto
qed

lemma Prune_effect: "\<exists>n w'. Prune opt w = (Inr n, w') \<and> clock_forward w w' \<and> sweeps S us (w_db w) (w_db w')"
  by (simp add: Prune_def bindE_apply execR_def PruneExpired_def Let_def clock_forward_def sweeps_def evolves_in_place_refl)

text \<open>The whole sweep. It cannot fail.\<close>

lemma sweep_effect:
  fixes ropts mopts w
  defines "us \<equiv> requireMicros (time_of w)"
  assumes "keyed (w_db w)" and "distinct (map tasks_id (tasks (w_db w)))" and "mono (w_clock w)"
  shows "\<exists>v w'. runHousekeeping ropts mopts w = (Inr (), w') \<and> clock_forward w v \<and> clock_forward v w' \<and>
    agents (w_db v) = agents (w_db w) \<and>
    sweeps (agent_ID ` set (silent_agents ropts v)) us (w_db w) (w_db w') \<and>
    (\<forall>a \<in> set (silent_agents ropts v). reclaimed (agent_ID a) w') \<and>
    (\<forall>r \<in> set (agents (w_db w')). agents_id r \<in> agent_ID ` set (silent_agents ropts v) \<longrightarrow> agents_state r = AgentStale) \<and>
    (\<forall>l \<in> set (leases (w_db w')). leases_released_at l = None \<longrightarrow> us < leases_expires_at l)"
proof -
  obtain r1 v where v: "ReapExpired w = (r1, v)" by fastforce
  let ?S = "agent_ID ` set (silent_agents ropts v)"
  from swept_ReapExpired [OF assms(2)] v have
    s1: "sweeps ?S us (w_db w) (w_db v)"
    "\<forall>r \<in> set (leases (w_db v)). leases_released_at r = None \<longrightarrow> us < leases_expires_at r"
    by (simp_all add: us_def)
  have c1: "clock_forward w v" by (rule conformsD [OF clock_ops(6) v])
  have a1: "agents (w_db v) = agents (w_db w)"
    using conformsD [OF work_alone_ops(1) v] by (simp add: db_rel_def work_alone_def)
  from ReapStale_effect [of ropts v us] obtain v2 where
    v2: "ReapStale ropts v = (Inr (silent_agents ropts v), v2)" "sweeps ?S us (w_db v) (w_db v2)"
    "\<forall>r \<in> set (agents (w_db v2)). agents_id r \<in> ?S \<longrightarrow> agents_state r = AgentStale" by blast
  have c2: "clock_forward v v2" by (rule conformsD [OF clock_ReapStale v2(1)])
  have s2: "sweeps ?S us (w_db w) (w_db v2)" by (rule sweeping.Q_trans [OF s1(1) v2(2)])
  have m2: "mono (w_clock v2)" using assms(4) c1 c2 by (simp add: clock_forward_def)
  from s2 assms(2,3) have "keyed (w_db v2)" "distinct (map tasks_id (tasks (w_db v2)))"
    by (simp_all add: keyed_sweeps task_ids_sweeps)
  from reclaim_loop [OF this m2, of "silent_agents ropts v" us] obtain v3 where
    v3: "forE (silent_agents ropts v) reclaim_from v2 = (Inr (), v3)" "clock_forward v2 v3"
    "sweeps ?S us (w_db v2) (w_db v3)" "\<forall>a \<in> set (silent_agents ropts v). reclaimed (agent_ID a) v3" by blast
  from Prune_effect [of mopts v3 ?S us] obtain n w' where
    w': "Prune mopts v3 = (Inr n, w')" "clock_forward v3 w'" "sweeps ?S us (w_db v3) (w_db w')" by blast
  have m3: "mono (w_clock v3)" using m2 v3(2) by (simp add: clock_forward_def)
  have later: "sweeps ?S us (w_db v2) (w_db w')" "sweeps ?S us (w_db v) (w_db w')"
    using sweeping.Q_trans v2(2) v3(3) w'(3) by blast+
  have "agents_state r = AgentStale" if "r \<in> set (agents (w_db w'))" "agents_id r \<in> ?S" for r
    using v2(3) that evolves_in_place_back [of "agent_fades ?S" "agents (w_db v2)" _ r] later(1)
    by (auto simp: sweeps_def agent_fades_def)
  moreover have "us < leases_expires_at l" if "l \<in> set (leases (w_db w'))" "leases_released_at l = None" for l
    using s1(2) that evolves_in_place_back [of "lease_swept ?S us" "leases (w_db v)" _ l] later(2)
    by (auto simp: sweeps_def lease_swept_def lease_closes_def)
  moreover have "\<forall>a \<in> set (silent_agents ropts v). reclaimed (agent_ID a) w'"
    using reclaimed_stays [OF w'(3) m3 w'(2)] v3(4) by blast
  moreover have "runHousekeeping ropts mopts w = (Inr (), w')"
    by (simp add: runHousekeeping_def bindE_apply attemptE_apply v v2(1) v3(1) w'(1))
  moreover have "clock_forward v w'" using c2 v3(2) w'(2) clock.R_trans by blast
  moreover have "sweeps ?S us (w_db w) (w_db w')" by (rule sweeping.Q_trans [OF s1(1) later(2)])
  ultimately show ?thesis using c1 a1 by blast
qed

end
