(* ===== verification/DaemonProperties.thy ===== *)
theory DaemonProperties
  imports DaemonFacts SweepFacts Scenario
begin

section \<open>Properties of the daemon\<close>

text \<open>
  What a loaded configuration guarantees, when a changed file is read again, what a reload changes,
  and what a sweep reclaims.
\<close>

subsection \<open>Loading\<close>

definition first_set :: "string list \<Rightarrow> string" where
  "first_set vs = (case List.find (\<lambda>v. v \<noteq> []) vs of Some v \<Rightarrow> v | None \<Rightarrow> [])"

text \<open>C27: A configuration the daemon accepts is one it can run on: its files have absolute paths, the
  socket's fits the operating system's limit, every time span is positive, every name it grants powers
  to and every resource is valid, no resource is declared twice, the commands are valid, and an enabled
  Telegram bridge has a token and somebody to talk to. For the socket, the database and the log level
  the command line wins over the environment, the environment over the file and the file over the
  defaults; for the secret the environment wins over the file; everything else is the file's.\<close>

theorem loaded_configuration_is_usable:
  assumes "Load decode env opts = Inr c"
  shows "(\<forall>path \<in> {cf_SocketPath c, cf_DatabasePath c, cf_SecretPath c} \<union> set (cf_AllowedWorkdirRoots c). IsAbs path) \<and>
    length (cf_SocketPath c) \<le> 103 \<and>
    0 < cf_AgentTimeToLive c \<and> 0 < cf_DefaultLeaseTimeToLive c \<and> 0 < cf_ShutdownGrace c \<and> 0 < cf_RestartDelay c \<and>
    (\<forall>name \<in> set (cf_Operators c) \<union> (set (cp_Resources (cf_Capabilities c)) - {WildcardResource}). ValidateName name = Inr ()) \<and>
    (\<forall>r \<in> set (cf_Resources c). Resource_Validate (Resource_of r (cf_DefaultLeaseTimeToLive c)) = Inr ()) \<and>
    distinct (map rcf_Name (cf_Resources c)) \<and> validateCommands (cf_WorkerCommands c) = Inr () \<and>
    (tg_Enabled (cf_Telegram c) \<longrightarrow> tg_AllowedChatIDs (cf_Telegram c) \<noteq> [] \<and>
       (\<exists>token. token \<noteq> [] \<and> ResolveToken env (cf_Telegram c) = Inr token)) \<and>
    (\<exists>paths base. DefaultPaths env = Inr paths \<and>
       (case configFilePath env opts paths of (path, explicit) \<Rightarrow> applyFile decode env (defaults paths) path explicit) = Inr base \<and>
       c = base\<lparr>
         cf_SocketPath := first_set [opt_SocketPath opts, env_var env ''LAC_SOCKET'', cf_SocketPath base],
         cf_DatabasePath := first_set [opt_DatabasePath opts, env_var env ''LAC_DATABASE'', cf_DatabasePath base],
         cf_SecretPath := first_set [env_var env ''LAC_SECRET'', cf_SecretPath base],
         cf_LogLevel := first_set [opt_LogLevel opts, env_var env ''LAC_LOG_LEVEL'', cf_LogLevel base]\<rparr>)"
proof -
  from assms obtain paths base where base: "DefaultPaths env = Inr paths"
    "(case configFilePath env opts paths of (path, explicit) \<Rightarrow> applyFile decode env (defaults paths) path explicit) = Inr base"
    "c = applyOptions opts (applyEnvironment env base)" and valid: "Validate env c = Inr ()"
    by (auto simp: Load_def Let_def split: sum.splits prod.splits)
  have overlaid: "c = base\<lparr>
         cf_SocketPath := first_set [opt_SocketPath opts, env_var env ''LAC_SOCKET'', cf_SocketPath base],
         cf_DatabasePath := first_set [opt_DatabasePath opts, env_var env ''LAC_DATABASE'', cf_DatabasePath base],
         cf_SecretPath := first_set [env_var env ''LAC_SECRET'', cf_SecretPath base],
         cf_LogLevel := first_set [opt_LogLevel opts, env_var env ''LAC_LOG_LEVEL'', cf_LogLevel base]\<rparr>"
    unfolding base(3) applyOptions_def applyEnvironment_def by (simp add: overlayString_def first_set_def)
  note v = valid [unfolded Validate_def first_error_Inr]
  from v have t: "Telegram_validate env (cf_Telegram c) = Inr ()" by simp
  have "tg_AllowedChatIDs (cf_Telegram c) \<noteq> [] \<and> (\<exists>token. token \<noteq> [] \<and> ResolveToken env (cf_Telegram c) = Inr token)"
    if "tg_Enabled (cf_Telegram c)"
    using t that by (auto simp: Telegram_validate_def check_def split: sum.splits if_splits)
  moreover from v have "validateResources c = Inr ()" by simp
  then have "(\<forall>r \<in> set (cf_Resources c). Resource_Validate (Resource_of r (cf_DefaultLeaseTimeToLive c)) = Inr ()) \<and>
      distinct (map rcf_Name (cf_Resources c))"
    by (simp add: validateResources_def resources_valid_Inr)
  moreover have "ValidateName name = Inr ()"
    if "name \<in> set (cf_Operators c) \<union> (set (cp_Resources (cf_Capabilities c)) - {WildcardResource})" for name
  proof -
    from v have "\<forall>x \<in> set (map (\<lambda>n. as_config_error (ValidateName n)) (cf_Operators c)). x = Inr ()"
      "\<forall>x \<in> set (map (\<lambda>r. if r = WildcardResource then Inr () else as_config_error (ValidateName r))
         (cp_Resources (cf_Capabilities c))). x = Inr ()"
      unfolding set_append ball_Un by blast+
    then have "\<forall>n \<in> set (cf_Operators c). ValidateName n = Inr ()"
      "\<forall>r \<in> set (cp_Resources (cf_Capabilities c)). (if r = WildcardResource then Inr () else as_config_error (ValidateName r)) = Inr ()"
      by (simp_all only: set_map ball_simps as_config_error_Inr)
    with that show ?thesis by (metis DiffE UnE as_config_error_Inr singletonI)
  qed
  moreover have "IsAbs path"
    if "path \<in> {cf_SocketPath c, cf_DatabasePath c, cf_SecretPath c} \<union> set (cf_AllowedWorkdirRoots c)" for path
  proof -
    from v have "\<forall>x \<in> set (map (\<lambda>path. check (IsAbs path) ErrInvalidConfig) [cf_SocketPath c, cf_DatabasePath c, cf_SecretPath c]). x = Inr ()"
      "\<forall>x \<in> set (map (\<lambda>root. check (IsAbs root) ErrInvalidConfig) (cf_AllowedWorkdirRoots c)). x = Inr ()"
      unfolding set_append ball_Un by blast+
    with that show ?thesis by auto
  qed
  moreover have "length (cf_SocketPath c) \<le> 103 \<and> 0 < cf_AgentTimeToLive c \<and> 0 < cf_DefaultLeaseTimeToLive c \<and>
      0 < cf_ShutdownGrace c \<and> 0 < cf_RestartDelay c \<and> validateCommands (cf_WorkerCommands c) = Inr ()"
    using v by (simp add: maxSocketPathLength_def not_le)
  ultimately show ?thesis using base(1,2) overlaid by blast
qed

definition bare_environment :: environment where
  "bare_environment = \<lparr>env_var = (\<lambda>v. if v = ''LAC_LOG_LEVEL'' then ''warn'' else []), env_home = Inr ''/home/u'',
     env_file = (\<lambda>_. NoFile)\<rparr>"

definition no_options :: Options where
  "no_options = \<lparr>opt_ConfigPath = [], opt_SocketPath = ''/tmp/s'', opt_DatabasePath = [], opt_LogLevel = []\<rparr>"

definition plain_configuration :: Config where
  "plain_configuration = projr (Load (\<lambda>_ _. None) bare_environment no_options)"

lemma plain_loads: "Load (\<lambda>_ _. None) bare_environment no_options = Inr plain_configuration"
proof -
  have "succeeded (Load (\<lambda>_ _. None) bare_environment no_options)" by code_simp
  then show ?thesis by (cases "Load (\<lambda>_ _. None) bare_environment no_options") (auto simp: plain_configuration_def)
qed

theorem loaded_configuration_is_usable_witness:
  "IsAbs (cf_DatabasePath plain_configuration) \<and> cf_SocketPath plain_configuration = ''/tmp/s'' \<and>
   cf_LogLevel plain_configuration = ''warn''"
proof -
  note usable = loaded_configuration_is_usable [OF plain_loads]
  from usable obtain base where b: "plain_configuration = base\<lparr>
         cf_SocketPath := first_set [opt_SocketPath no_options, env_var bare_environment ''LAC_SOCKET'', cf_SocketPath base],
         cf_DatabasePath := first_set [opt_DatabasePath no_options, env_var bare_environment ''LAC_DATABASE'', cf_DatabasePath base],
         cf_SecretPath := first_set [env_var bare_environment ''LAC_SECRET'', cf_SecretPath base],
         cf_LogLevel := first_set [opt_LogLevel no_options, env_var bare_environment ''LAC_LOG_LEVEL'', cf_LogLevel base]\<rparr>"
    by blast
  have "cf_SocketPath plain_configuration = ''/tmp/s''" "cf_LogLevel plain_configuration = ''warn''"
    using arg_cong [OF b, of cf_SocketPath] arg_cong [OF b, of cf_LogLevel]
    by (simp_all add: first_set_def no_options_def bare_environment_def)
  with usable show ?thesis by blast
qed

subsection \<open>Watching the file\<close>

text \<open>C28: The configuration file is read again exactly when it has settled: a reload is attempted only
  after three consecutive checks found the same contents, different from what is loaded, so a file in
  the middle of being written is left alone; and three such checks in a row never pass without an
  attempt, so a settled change is picked up. What counts as loaded changes with a successful reload
  only, and is then what was read; a file that does not load is tried again.\<close>

theorem reload_when_settled:
  assumes ts: "ts = watch_ticks rs (watching_from loaded)" and "i < length rs"
  shows "(snd (ts ! i) \<longrightarrow> 2 \<le> i \<and> fst (rs ! (i - 1)) = fst (rs ! i) \<and> fst (rs ! (i - 2)) = fst (rs ! i) \<and>
       fst (rs ! i) \<noteq> wc_loaded (fst (ts ! i))) \<and>
    (2 \<le> i \<and> fst (rs ! (i - 1)) = fst (rs ! i) \<and> fst (rs ! (i - 2)) = fst (rs ! i) \<and>
       fst (rs ! i) \<noteq> wc_loaded (fst (ts ! (i - 2))) \<longrightarrow> (\<exists>j \<in> {i - 2..i}. snd (ts ! j))) \<and>
    (Suc i < length rs \<longrightarrow> wc_loaded (fst (ts ! Suc i)) =
       (if snd (ts ! i) \<and> snd (rs ! i) then fst (rs ! i) else wc_loaded (fst (ts ! i))))"
proof (intro conjI impI)
  let ?s = "\<lambda>k. watched (take k rs) (watching_from loaded)"
  have t: "ts ! k = (?s k, snd (watch_tick (rs ! k) (?s k)))" if "k < length rs" for k
    unfolding ts by (rule watch_ticks_nth [OF that])
  have settling: "settling (take k rs) (?s k)" for k by (rule watched_settling)
  have after: "?s (Suc k) = fst (watch_tick (rs ! k) (?s k))" if "k < length rs" for k
    by (rule watched_take_Suc [OF that])
  {
    assume "snd (ts ! i)"
    then have "snd (watch_tick (rs ! i) (?s i))" using t [OF assms(2)] by simp
    then have r: "fst (rs ! i) \<noteq> wc_loaded (?s i)" "fst (rs ! i) = wc_candidate (?s i)" "wc_quietReads (?s i) \<ge> 2"
      by (auto simp: reload_tick stableChecks_def)
    from settling [of i] r(3) have q: "wc_quietReads (?s i) = 2" by (auto simp: settling_def stableChecks_def)
    with settling [of i] obtain older where
      o: "map fst (take i rs) = older @ [wc_candidate (?s i), wc_candidate (?s i)]"
      by (auto simp: settling_def numeral_2_eq_2)
    have l: "i = length older + 2" using arg_cong [OF o, of length] assms(2) by simp
    have n: "fst (rs ! k) = (older @ [wc_candidate (?s i), wc_candidate (?s i)]) ! k" if "k < i" for k
      using arg_cong [OF o, of "\<lambda>xs. xs ! k"] that assms(2) by simp
    show "2 \<le> i" using l by simp
    show "fst (rs ! (i - 1)) = fst (rs ! i)" using n [of "i - 1"] l r(2) by (simp add: nth_append)
    show "fst (rs ! (i - 2)) = fst (rs ! i)" using n [of "i - 2"] l r(2) by (simp add: nth_append)
    show "fst (rs ! i) \<noteq> wc_loaded (fst (ts ! i))" using r(1) t [OF assms(2)] by simp
  next
    assume three: "2 \<le> i \<and> fst (rs ! (i - 1)) = fst (rs ! i) \<and> fst (rs ! (i - 2)) = fst (rs ! i) \<and>
       fst (rs ! i) \<noteq> wc_loaded (fst (ts ! (i - 2)))"
    then obtain k where k: "i = Suc (Suc k)" by (metis add_2_eq_Suc le_Suc_ex)
    let ?c = "fst (rs ! i)"
    have b: "k < length rs" "Suc k < length rs" using k assms(2) by simp_all
    have "?c \<noteq> wc_loaded (?s k)" using three t [OF b(1)] k by simp
    moreover have "wc_quietReads (?s k) < stableChecks" using settling [of k] by (simp add: settling_def)
    moreover have s1: "?s (Suc k) = fst (watch_tick (rs ! k) (?s k))" by (rule after [OF b(1)])
    have s2: "?s i = fst (watch_tick (rs ! Suc k) (?s (Suc k)))" unfolding k by (rule after [OF b(2)])
    have "fst (rs ! Suc k) = fst (rs ! k)" "fst (rs ! i) = fst (rs ! k)" using three k by simp_all
    ultimately have "snd (ts ! k) \<or> snd (ts ! Suc k) \<or> snd (ts ! i)"
      unfolding t [OF b(1)] t [OF b(2)] t [OF assms(2)] snd_conv s2 s1 by (intro three_ticks) simp_all
    then show "\<exists>j \<in> {i - 2..i}. snd (ts ! j)" using k by auto
  next
    assume "Suc i < length rs"
    then show "wc_loaded (fst (ts ! Suc i)) = (if snd (ts ! i) \<and> snd (rs ! i) then fst (rs ! i) else wc_loaded (fst (ts ! i)))"
      using loaded_tick [of "rs ! i" "?s i"] t [OF assms(2)] t [of "Suc i"] after [OF assms(2)] by simp
  }
qed

definition contents_of :: "string \<Rightarrow> fingerprint" where
  "contents_of d = \<lparr>fp_digest = d, fp_missing = False\<rparr>"

theorem reload_when_settled_witness:
  "\<exists>j \<in> {1..3}. snd (watch_ticks [(contents_of ''a'', True), (contents_of ''b'', True), (contents_of ''b'', True),
      (contents_of ''b'', True)] (watching_from (contents_of ''z'')) ! j)"
proof -
  let ?rs = "[(contents_of ''a'', True), (contents_of ''b'', True), (contents_of ''b'', True), (contents_of ''b'', True)]"
  have no: "[c] \<noteq> no_digest" for c by (auto simp: no_digest_def dest: arg_cong [of _ _ length])
  have "fst (?rs ! 3) \<noteq> wc_loaded (fst (watch_ticks ?rs (watching_from (contents_of ''z'')) ! 1))"
    using no by (simp add: watch_tick_def watching_from_def contents_of_def no_fingerprint_def)
  with reload_when_settled [OF refl, of 3 ?rs "contents_of ''z''"] show ?thesis by simp
qed

subsection \<open>Reloading\<close>

text \<open>A file that does not load changes nothing and the reload answers with its error. One that loads
  becomes the daemon's configuration and its commands the ones workers run. In the database a reload
  touches nothing but the definitions of resources and the audit log: every declared resource that is
  new or was declared differently has the capacity it is declared with, every other keeps its own, and
  leases, queues, tasks, agents and messages stay as they are. Nothing is reported as waiting for a
  restart exactly when socket, database, secret and Telegram settings are the ones in force.\<close>

theorem reload_outcome:
  assumes "Load decode env opts = Inr upd"
    and "\<And>r. r \<in> set (cf_Resources upd) \<Longrightarrow> 0 < Microseconds (res_LeaseTimeToLive (Resource_of r (cf_DefaultLeaseTimeToLive upd)))"
  shows "(\<forall>e. Reload ttl (Inl e) path dm = (Inl e, dm)) \<and>
    (\<exists>outcome dm'. Reload ttl (Load decode env opts) path dm = (Inr outcome, dm') \<and>
       dm_configuration dm' = upd \<and> w_commands (dm_world dm') = cf_WorkerCommands upd \<and>
       only_resources (w_db (dm_world dm)) (w_db (dm_world dm')) \<and>
       (\<forall>n. capacity_of n (w_db (dm_world dm')) =
          (case List.find (\<lambda>r. rcf_Name r = n \<and> \<not> unchanged (dm_configuration dm) upd r) (cf_Resources upd) of
             Some r \<Rightarrow> Some (rcf_Capacity r)
           | None \<Rightarrow> capacity_of n (w_db (dm_world dm)))) \<and>
       rlo_Source outcome = path \<and>
       (rlo_Deferred outcome = [] \<longleftrightarrow> cf_SocketPath (dm_configuration dm) = cf_SocketPath upd \<and>
          cf_DatabasePath (dm_configuration dm) = cf_DatabasePath upd \<and>
          cf_SecretPath (dm_configuration dm) = cf_SecretPath upd \<and>
          cf_Telegram (dm_configuration dm) = cf_Telegram upd))"
proof -
  from assms(1) have "Validate env upd = Inr ()" by (auto simp: Load_def Let_def split: sum.splits prod.splits)
  then have "validateResources upd = Inr ()" unfolding Validate_def first_error_Inr by simp
  then have d: "\<And>r. r \<in> set (cf_Resources upd) \<Longrightarrow> definable upd r" "distinct (map rcf_Name (cf_Resources upd))"
    using assms(2) by (simp_all add: validateResources_def resources_valid_Inr definable_def)
  from daemon_apply_effect [OF d, of ttl dm] show ?thesis
    by (auto simp: Reload_def assms(1) no_deferred reloaded_capacity_def)
qed

text \<open>Reading the same file a second time changes nothing: the daemon's configuration and state stay
  exactly as they are, audit log and waiting channels included, and nothing is reported as applied or
  as waiting for a restart.\<close>

theorem reload_settles:
  assumes "Load decode env opts = Inr upd" and "distinct (map fst (cf_WorkerCommands upd))"
    and "Reload ttl (Load decode env opts) path dm = (outcome, dm')"
  shows "Reload ttl (Load decode env opts) path dm' = (Inr \<lparr>rlo_Source = path, rlo_Applied = [], rlo_Deferred = []\<rparr>, dm')"
proof -
  from assms(1) have "Validate env upd = Inr ()" by (auto simp: Load_def Let_def split: sum.splits prod.splits)
  then have "validateResources upd = Inr ()" unfolding Validate_def first_error_Inr by simp
  then have d: "distinct (map rcf_Name (cf_Resources upd))" by (simp add: validateResources_def resources_valid_Inr)
  obtain outcomes where "daemon_apply ttl upd dm = (outcomes, dm')"
    using assms(1,3) by (auto simp: Reload_def split: prod.splits)
  from daemon_apply_installs [OF this] d assms(2) have "daemon_apply ttl upd dm' = (([], []), dm')"
    using settled_again [of dm' ttl] by simp
  then show ?thesis by (simp add: Reload_def assms(1))
qed

subsection \<open>Housekeeping\<close>

text \<open>C29: A sweep reclaims what crashed agents left behind, and nothing else. It never fails. After it every
  agent that had been silent for its time to live is stale, holds no slot, waits in no queue and runs
  no task, and no lease is open that had run out when the sweep began. Only agents that were silent for
  that long by the end of the sweep are marked, lose a place in a queue or a task; another's lease is
  closed only if it had run out; a task that was taken back is queued again, without a worker.\<close>

theorem housekeeping_reclaims:
  assumes "keyed (w_db w)" and "distinct (map tasks_id (tasks (w_db w)))" and "mono (w_clock w)"
  shows "\<exists>S w'. runHousekeeping ropts mopts w = (Inr (), w') \<and>
    (\<forall>r \<in> set (agents (w_db w)). agents_state r = AgentActive \<and>
         agents_last_heartbeat_at r < requireMicros (time_of w - ro_TimeToLive ropts) \<longrightarrow>
       reclaimed (agents_id r) w' \<and>
       (\<forall>s \<in> set (agents (w_db w')). agents_id s = agents_id r \<longrightarrow> agents_state s = AgentStale)) \<and>
    (\<forall>l \<in> set (leases (w_db w')). leases_released_at l = None \<longrightarrow> requireMicros (time_of w) < leases_expires_at l) \<and>
    S \<subseteq> agents_id ` {r \<in> set (agents (w_db w)). agents_state r = AgentActive \<and>
         agents_last_heartbeat_at r < requireMicros (time_of w' - ro_TimeToLive ropts)} \<and>
    sweeps S (requireMicros (time_of w)) (w_db w) (w_db w')"
proof -
  from sweep_effect [OF assms, of ropts mopts] obtain v w' where
    e: "runHousekeeping ropts mopts w = (Inr (), w')" "clock_forward w v" "clock_forward v w'"
    "agents (w_db v) = agents (w_db w)"
    "sweeps (agent_ID ` set (silent_agents ropts v)) (requireMicros (time_of w)) (w_db w) (w_db w')"
    "\<forall>a \<in> set (silent_agents ropts v). reclaimed (agent_ID a) w'"
    "\<forall>r \<in> set (agents (w_db w')). agents_id r \<in> agent_ID ` set (silent_agents ropts v) \<longrightarrow> agents_state r = AgentStale"
    "\<forall>l \<in> set (leases (w_db w')). leases_released_at l = None \<longrightarrow> requireMicros (time_of w) < leases_expires_at l"
    by blast
  let ?S = "agent_ID ` set (silent_agents ropts v)"
  have m: "mono (w_clock v)" using assms(3) e(2) by (simp add: clock_forward_def)
  have t: "requireMicros (time_of w - ro_TimeToLive ropts) \<le> requireMicros (time_of v - ro_TimeToLive ropts)"
    "requireMicros (time_of v - ro_TimeToLive ropts) \<le> requireMicros (time_of w' - ro_TimeToLive ropts)"
    using clock_forward_time [OF assms(3) e(2)] clock_forward_time [OF m e(3)] by (simp_all add: requireMicros_mono)
  have inS: "agents_id r \<in> ?S" if "r \<in> set (agents (w_db w))" "agents_state r = AgentActive"
    "agents_last_heartbeat_at r < requireMicros (time_of w - ro_TimeToLive ropts)" for r
    unfolding silent_ids e(4) using that t(1) by auto
  have "?S \<subseteq> agents_id ` {r \<in> set (agents (w_db w)). agents_state r = AgentActive \<and>
         agents_last_heartbeat_at r < requireMicros (time_of w' - ro_TimeToLive ropts)}"
    unfolding silent_ids e(4) using t(2) by auto
  moreover have "reclaimed i w'" if "i \<in> ?S" for i using that e(6) by auto
  ultimately show ?thesis using e(1,5,7,8) inS by (intro exI [of _ ?S] exI [of _ w']) auto
qed

lemma swept_sample:
  "length (leases (w_db granted_world)) = 1 \<and> length (queue_entries (w_db granted_world)) = 1 \<and> tasks (w_db granted_world) = []"
  by code_simp

lemma sample_agents: "map (\<lambda>r. (agents_id r, agents_state r, agents_last_heartbeat_at r)) (agents (w_db granted_world)) =
    [(''agent_a'', AgentActive, 0), (''agent_b'', AgentActive, 0)]"
  by code_simp

lemma sample_silence: "0 < requireMicros (time_of granted_world - Second)"
  by code_simp

lemma distinct_one: "length xs = 1 \<Longrightarrow> distinct (map f xs)"
  by (auto simp: length_Suc_conv)

lemma granted_clock: "w_clock granted_world = (\<lambda>n. int n * Second)"
proof -
  have "clock_forward sample_world defined_world"
    unfolding defined_world_def by (rule conforms_snd [OF clock_ops(11)])
  moreover have "clock_forward defined_world joined_world"
    unfolding joined_world_def by (rule conforms_snd [OF clock_ops(9)])
  moreover have "clock_forward joined_world granted_world"
    unfolding granted_world_def by (rule conforms_snd [OF clock_ops(10)])
  ultimately show ?thesis by (simp add: clock_forward_def sample_world_def start_world_def)
qed

theorem housekeeping_reclaims_witness:
  "\<exists>w'. runHousekeeping (New_registry Second [] None) \<lparr>mo_DefaultTimeToLive = 0, mo_Retention = Minute, mo_Notifier = False\<rparr> granted_world = (Inr (), w') \<and> reclaimed ''agent_a'' w'"
proof -
  have o: "ro_TimeToLive (New_registry Second [] None) = Second" by (simp add: New_registry_def)
  have k: "keyed (w_db granted_world)" "distinct (map tasks_id (tasks (w_db granted_world)))"
    using swept_sample by (simp_all add: keyed_def distinct_one)
  have m: "mono (w_clock granted_world)" by (simp add: granted_clock mono_def)
  from sample_agents obtain r s where "agents (w_db granted_world) = [r, s]" "agents_id r = ''agent_a''"
    "agents_state r = AgentActive" "agents_last_heartbeat_at r = 0" by auto
  then have "r \<in> set (agents (w_db granted_world))" "agents_id r = ''agent_a''"
    "agents_state r = AgentActive" "agents_last_heartbeat_at r < requireMicros (time_of granted_world - Second)"
    using sample_silence by simp_all
  with housekeeping_reclaims [OF k m, of "New_registry Second [] None" "\<lparr>mo_DefaultTimeToLive = 0, mo_Retention = Minute, mo_Notifier = False\<rparr>"] show ?thesis
    unfolding o by (metis (no_types, lifting))
qed

end
