(* ===== verification/GitHub.thy ===== *)
theory GitHub
  imports JsonDecode PRWatch
begin

section \<open>Reading pull requests from GitHub (\<open>internal/github\<close>)\<close>

text \<open>
  The client asks GitHub through the \<^verbatim>\<open>gh\<close> command: the query for a pull request, the logins it is
  signed in to and their tokens, what its failures mean, and the conversion of GitHub's answer into the
  observation the watcher compares. The command is a parameter: what its \<open>n\<close>-th run gives, with which
  token and which arguments. The text of a JSON error is left out.
\<close>

subsection \<open>Text\<close>

definition lower_char :: "char \<Rightarrow> char" where
  "lower_char c = (if CHR ''A'' \<le> c \<and> c \<le> CHR ''Z'' then char_of (of_char c + 32 :: nat) else c)"

text \<open>\<^verbatim>\<open>strings.ToLower\<close> on ASCII letters; the texts it is compared with are ASCII.\<close>

definition ToLower :: "string \<Rightarrow> string" where
  "ToLower s = map lower_char s"

definition Contains :: "string \<Rightarrow> string \<Rightarrow> bool" where
  "Contains s sub \<longleftrightarrow> Index s sub \<noteq> None"

definition first_line_of :: "string \<Rightarrow> string" where
  "first_line_of t =
     (let trimmed = TrimSpace t
      in if trimmed = [] then ''gh gave no explanation''
         else (case cut_at newline trimmed of (line, _, found) \<Rightarrow> if found then line else trimmed))"

subsection \<open>Running the command (\<open>client.go\<close>)\<close>

datatype gh_end = Finished_well | Exited string | TimedOut | CallerGone | NoExecutable

record gh_run =
  gr_stdout :: string
  gr_stderr :: string
  gr_end :: gh_end

type_synonym gh = "nat \<Rightarrow> string option \<Rightarrow> string list \<Rightarrow> gh_run"

datatype gh_error =
    GHUnavailable string
  | GHNotFound string
  | GHNoCLI string
  | GHContext
  | GHOther string

definition maxOutput :: nat where
  "maxOutput = 16 * 2 ^ 20"

definition transient_words :: "string list" where
  "transient_words = [''timeout'', ''timed out'', ''connection refused'', ''no such host'', ''network is unreachable'',
     ''eof'', ''tls'', ''502'', ''503'', ''504'', ''server error'', ''try again'']"

definition says :: "string \<Rightarrow> string list \<Rightarrow> bool" where
  "says message words \<longleftrightarrow> list_ex (Contains message) words"

definition classify :: "string \<Rightarrow> string \<Rightarrow> string \<Rightarrow> gh_error" where
  "classify stdout stderr cause =
     (let message = (if ToLower stderr = [] then ToLower stdout else ToLower stderr);
          line = first_line_of stderr
      in if says message [''not found'', ''could not resolve to''] then GHNotFound line
         else if says message [''authentication'', ''not logged in'', ''gh auth login'', ''bad credentials''] then GHNoCLI line
         else if says message [''rate limit'', ''secondary rate'', ''abuse detection''] then GHUnavailable line
         else if says message transient_words then GHUnavailable line
         else GHUnavailable (line @ '' ('' @ cause @ '')''))"

definition outcome_of :: "gh_run \<Rightarrow> gh_error + string" where
  "outcome_of r =
     (if length (gr_stdout r) > maxOutput then Inl (GHOther ''the answer is more than this can handle'')
      else (case gr_end r of
          Finished_well \<Rightarrow> Inr (gr_stdout r)
        | TimedOut \<Rightarrow> Inl (GHUnavailable ''gh did not answer'')
        | CallerGone \<Rightarrow> Inl GHContext
        | NoExecutable \<Rightarrow> Inl (GHNoCLI ''install it'')
        | Exited cause \<Rightarrow> Inl (classify (gr_stdout r) (gr_stderr r) cause)))"

record client =
  cl_tokens :: "(string \<times> string) list"
  cl_runs :: nat

definition new_client :: client where
  "new_client = \<lparr>cl_tokens = [], cl_runs = 0\<rparr>"

type_synonym 'a gh_action = "(client, gh_error, 'a) op"

definition execute :: "gh \<Rightarrow> string option \<Rightarrow> string list \<Rightarrow> string gh_action" where
  "execute gh token arguments = (\<lambda>c.
     (outcome_of (gh (cl_runs c) token arguments), c\<lparr>cl_runs := Suc (cl_runs c)\<rparr>))"

definition Available :: "gh \<Rightarrow> bool \<Rightarrow> unit gh_action" where
  "Available gh installed = (\<lambda>c.
     if \<not> installed then (Inl (GHNoCLI ''install it''), c)
     else (case execute gh None [''auth'', ''status''] c of
         (Inr _, c') \<Rightarrow> (Inr (), c')
       | (Inl (GHUnavailable e), c') \<Rightarrow> (Inl (GHUnavailable e), c')
       | (Inl _, c') \<Rightarrow> (Inl (GHNoCLI ''run gh auth login''), c')))"

subsection \<open>Logins (\<open>accounts.go\<close>)\<close>

definition max_token :: nat where
  "max_token = 64 * 2 ^ 10"

text \<open>\<^verbatim>\<open>bufio.Scanner\<close> by lines: a line that does not fit the buffer ends the scan.\<close>

fun lines_from :: "string \<Rightarrow> string \<Rightarrow> string list" where
  "lines_from current [] = (if current = [] then [] else [rev current])"
| "lines_from current (c # cs) =
     (if c = newline then rev current # lines_from [] cs else lines_from (c # current) cs)"

definition scanned_lines :: "string \<Rightarrow> string list" where
  "scanned_lines output = takeWhile (\<lambda>l. length l < max_token) (lines_from [] output)"

definition loginFrom :: "string \<Rightarrow> string option" where
  "loginFrom line =
     (if \<not> Contains line ''Logged in to'' then None
      else (case Index line ''account '' of
          None \<Rightarrow> None
        | Some i \<Rightarrow>
            (case cut_at (CHR '' '') (TrimSpace (drop (i + length ''account '') line)) of (login, _, _) \<Rightarrow>
               if login = [] then None else Some (TrimSpace login))))"

record reading_accounts =
  ra_accounts :: "string list"
  ra_active :: string
  ra_current :: string

definition read_account_line :: "reading_accounts \<Rightarrow> string \<Rightarrow> reading_accounts" where
  "read_account_line s raw =
     (let line = TrimSpace raw
      in case loginFrom line of
          Some login \<Rightarrow> s\<lparr>ra_current := login, ra_accounts := ra_accounts s @ [login]\<rparr>
        | None \<Rightarrow>
            if ra_current s \<noteq> [] \<and> HasPrefix line ''- Active account:'' \<and> Contains line ''true''
            then s\<lparr>ra_active := ra_current s\<rparr> else s)"

definition parseAccounts :: "string \<Rightarrow> string list" where
  "parseAccounts output =
     (let s = foldl read_account_line \<lparr>ra_accounts = [], ra_active = [], ra_current = []\<rparr> (scanned_lines output)
      in if ra_active s = [] then ra_accounts s
         else ra_active s # filter (\<lambda>a. a \<noteq> ra_active s) (ra_accounts s))"

definition Accounts :: "gh \<Rightarrow> string list gh_action" where
  "Accounts gh = bindE (execute gh None [''auth'', ''status'']) (\<lambda>output. returnE (parseAccounts output))"

definition token_arguments :: "string \<Rightarrow> string list" where
  "token_arguments account = [''auth'', ''token'', ''--user'', account]"

definition tokenFor :: "gh \<Rightarrow> string \<Rightarrow> string gh_action" where
  "tokenFor gh account = (\<lambda>c. case map_of (cl_tokens c) account of
      Some token \<Rightarrow> (Inr token, c)
    | None \<Rightarrow> (case execute gh None (token_arguments account) c of
          (Inl e, c') \<Rightarrow> (Inl e, c')
        | (Inr output, c') \<Rightarrow>
            if TrimSpace output = [] then (Inl (GHNoCLI ''gh holds no token''), c')
            else (Inr (TrimSpace output), c'\<lparr>cl_tokens := (account, TrimSpace output) # cl_tokens c'\<rparr>)))"

definition forget :: "string \<Rightarrow> client \<Rightarrow> client" where
  "forget account c = c\<lparr>cl_tokens := filter (\<lambda>(a, _). a \<noteq> account) (cl_tokens c)\<rparr>"

definition runAs :: "gh \<Rightarrow> string \<Rightarrow> string list \<Rightarrow> string gh_action" where
  "runAs gh account arguments = bindE (tokenFor gh account) (\<lambda>token c.
     case execute gh (Some token) arguments c of
       (Inl (GHNoCLI e), c') \<Rightarrow> (Inl (GHNoCLI e), forget account c')
     | (r, c') \<Rightarrow> (r, c'))"

subsection \<open>GitHub's answer (\<open>decode.go\<close>)\<close>

text \<open>The nodes of the answer. A member that is absent or \<^verbatim>\<open>null\<close> leaves the zero value; of a member
  given twice the last counts.\<close>

record commentNode =
  cn_ID :: string
  cn_Author :: "string option"
  cn_Body :: string
  cn_CreatedAt :: string

record reviewNode =
  rn_ID :: string
  rn_Author :: "string option"
  rn_State :: string
  rn_SubmittedAt :: string

record threadNode =
  tn_ID :: string
  tn_IsResolved :: bool
  tn_IsOutdated :: bool
  tn_Path :: string
  tn_Line :: "int option"
  tn_Comments :: "commentNode list"

record checkNode =
  kn_Typename :: string
  kn_Name :: string
  kn_Status :: string
  kn_Conclusion :: string
  kn_DetailsURL :: string
  kn_Context :: string
  kn_State :: string
  kn_TargetURL :: string

record rollupNode =
  ru_State :: string
  ru_Contexts :: "checkNode list"

record pullRequestNode =
  pn_Number :: int
  pn_Title :: string
  pn_URL :: string
  pn_State :: string
  pn_IsDraft :: bool
  pn_Merged :: bool
  pn_Mergeable :: string
  pn_UpdatedAt :: string
  pn_Author :: "string option"
  pn_HeadSHA :: string
  pn_Comments :: "commentNode list"
  pn_Reviews :: "reviewNode list"
  pn_ReviewThreads :: "threadNode list"
  pn_Commits :: "rollupNode option list"

definition login_of :: "string option \<Rightarrow> string" where
  "login_of a = (case a of None \<Rightarrow> ''ghost'' | Some login \<Rightarrow> login)"

definition parseTime :: "string \<Rightarrow> instant" where
  "parseTime v = (if v = [] then zeroTime else (case ParseRFC3339 v of None \<Rightarrow> zeroTime | Some t \<Rightarrow> t))"

definition stateOf :: "string \<Rightarrow> bool \<Rightarrow> string" where
  "stateOf state merged = (if merged then ''merged'' else ToLower state)"

definition convert_comment :: "commentNode \<Rightarrow> Comment" where
  "convert_comment c = \<lparr>cm_ID = cn_ID c, cm_Author = login_of (cn_Author c), cm_Body = cn_Body c,
     cm_CreatedAt = parseTime (cn_CreatedAt c)\<rparr>"

definition convert_check :: "checkNode \<Rightarrow> Check" where
  "convert_check c =
     (if kn_Typename c = ''StatusContext''
      then \<lparr>chk_Name = kn_Context c, chk_State = ToLower (kn_State c), chk_URL = kn_TargetURL c\<rparr>
      else \<lparr>chk_Name = kn_Name c,
            chk_State = (if ToLower (kn_Conclusion c) \<noteq> [] then ToLower (kn_Conclusion c)
                         else if fold_name (kn_Status c) = fold_name ''COMPLETED'' then ''unknown'' else ''pending''),
            chk_URL = kn_DetailsURL c\<rparr>)"

definition add_check :: "ChecksSummary \<Rightarrow> checkNode \<Rightarrow> ChecksSummary" where
  "add_check s node =
     (let check = convert_check node;
          s' = s\<lparr>cs_Checks := cs_Checks s @ [check], cs_Total := cs_Total s + 1\<rparr>
      in if Check_Failed check then s'\<lparr>cs_Failed := cs_Failed s + 1\<rparr>
         else if chk_State check = ''success'' \<or> chk_State check = ''neutral'' \<or> chk_State check = ''skipped''
         then s'\<lparr>cs_Passed := cs_Passed s + 1\<rparr>
         else s'\<lparr>cs_Pending := cs_Pending s + 1\<rparr>)"

definition checks_of :: "rollupNode option list \<Rightarrow> ChecksSummary" where
  "checks_of commits =
     (let none = \<lparr>cs_State = ''unknown'', cs_Total = 0, cs_Passed = 0, cs_Failed = 0, cs_Pending = 0, cs_Checks = []\<rparr>
      in case commits of
          Some rollup # _ \<Rightarrow>
            (let s = foldl add_check (none\<lparr>cs_State := ToLower (ru_State rollup)\<rparr>) (ru_Contexts rollup)
             in if cs_Failed s > 0 then s\<lparr>cs_State := ''failure''\<rparr>
                else if cs_Pending s > 0 then s\<lparr>cs_State := ''pending''\<rparr>
                else if cs_Total s > 0 then s\<lparr>cs_State := ''success''\<rparr> else s)
        | _ \<Rightarrow> none)"

definition convert_review :: "reviewNode \<Rightarrow> Review" where
  "convert_review r = \<lparr>rv_ID = rn_ID r, rv_Author = login_of (rn_Author r), rv_State = ToLower (rn_State r),
     rv_SubmittedAt = parseTime (rn_SubmittedAt r)\<rparr>"

definition convert_thread :: "threadNode \<Rightarrow> ReviewThread" where
  "convert_thread t = \<lparr>th_ID = tn_ID t, th_Path = tn_Path t,
     th_Line = (case tn_Line t of None \<Rightarrow> 0 | Some l \<Rightarrow> l), th_Resolved = tn_IsResolved t,
     th_Outdated = tn_IsOutdated t, th_Comments = map convert_comment (tn_Comments t)\<rparr>"

definition convert_pull_request :: "pullRequestNode \<Rightarrow> string \<Rightarrow> string \<Rightarrow> PullRequest" where
  "convert_pull_request p owner repository = \<lparr>pr_Owner = owner, pr_Repository = repository,
     pr_Number = pn_Number p, pr_Title = pn_Title p, pr_URL = pn_URL p, pr_Author = login_of (pn_Author p),
     pr_State = stateOf (pn_State p) (pn_Merged p), pr_Draft = pn_IsDraft p, pr_Mergeable = pn_Mergeable p,
     pr_HeadSHA = pn_HeadSHA p, pr_UpdatedAt = parseTime (pn_UpdatedAt p), pr_Checks = checks_of (pn_Commits p),
     pr_Comments = map convert_comment (pn_Comments p), pr_Reviews = map convert_review (pn_Reviews p),
     pr_Threads = map convert_thread (pn_ReviewThreads p)\<rparr>"

subsection \<open>Reading the answer\<close>

definition absent :: "string \<Rightarrow> bool" where
  "absent raw \<longleftrightarrow> raw = [] \<or> raw = ''null''"

definition read_list :: "(string \<Rightarrow> 'a option) \<Rightarrow> string \<Rightarrow> 'a list option" where
  "read_list f raw =
     (if absent raw then Some [] else if HasPrefix raw ''['' then all_some (map f (elements_of raw)) else None)"

text \<open>\<open>struct { Nodes []T `json:"nodes"` }\<close>.\<close>

definition read_nodes :: "(string \<Rightarrow> 'a option) \<Rightarrow> string \<Rightarrow> 'a list option" where
  "read_nodes f raw =
     (if absent raw then Some []
      else Option.bind (decode_struct False [(''nodes'', RawField)] raw) (\<lambda>vs. read_list f (raw_at vs ''nodes'')))"

definition read_pointer :: "(string \<Rightarrow> 'a option) \<Rightarrow> string \<Rightarrow> 'a option option" where
  "read_pointer f raw = (if absent raw then Some None else map_option Some (f raw))"

definition read_actor :: "string \<Rightarrow> string option option" where
  "read_actor = read_pointer (\<lambda>raw. map_option (\<lambda>vs. string_at vs ''login'')
     (decode_struct False [(''login'', StringField)] raw))"

definition read_comment :: "string \<Rightarrow> commentNode option" where
  "read_comment raw = Option.bind (decode_struct False
       [(''id'', StringField), (''author'', RawField), (''body'', StringField), (''createdAt'', StringField)] raw) (\<lambda>vs.
     map_option (\<lambda>author. \<lparr>cn_ID = string_at vs ''id'', cn_Author = author, cn_Body = string_at vs ''body'',
       cn_CreatedAt = string_at vs ''createdAt''\<rparr>) (read_actor (raw_at vs ''author'')))"

definition read_review :: "string \<Rightarrow> reviewNode option" where
  "read_review raw = Option.bind (decode_struct False
       [(''id'', StringField), (''author'', RawField), (''state'', StringField), (''submittedAt'', StringField)] raw) (\<lambda>vs.
     map_option (\<lambda>author. \<lparr>rn_ID = string_at vs ''id'', rn_Author = author, rn_State = string_at vs ''state'',
       rn_SubmittedAt = string_at vs ''submittedAt''\<rparr>) (read_actor (raw_at vs ''author'')))"

definition read_thread :: "string \<Rightarrow> threadNode option" where
  "read_thread raw = Option.bind (decode_struct False
       [(''id'', StringField), (''isResolved'', BoolField), (''isOutdated'', BoolField), (''path'', StringField),
        (''line'', RawField), (''comments'', RawField)] raw) (\<lambda>vs.
     Option.bind (read_pointer Atoi (raw_at vs ''line'')) (\<lambda>line.
     map_option (\<lambda>comments. \<lparr>tn_ID = string_at vs ''id'', tn_IsResolved = bool_at vs ''isResolved'',
         tn_IsOutdated = bool_at vs ''isOutdated'', tn_Path = string_at vs ''path'', tn_Line = line,
         tn_Comments = comments\<rparr>)
       (read_nodes read_comment (raw_at vs ''comments''))))"

definition read_check :: "string \<Rightarrow> checkNode option" where
  "read_check raw = map_option (\<lambda>vs. \<lparr>kn_Typename = string_at vs ''__typename'', kn_Name = string_at vs ''name'',
       kn_Status = string_at vs ''status'', kn_Conclusion = string_at vs ''conclusion'',
       kn_DetailsURL = string_at vs ''detailsUrl'', kn_Context = string_at vs ''context'',
       kn_State = string_at vs ''state'', kn_TargetURL = string_at vs ''targetUrl''\<rparr>)
     (decode_struct False (map (\<lambda>n. (n, StringField)) [''__typename'', ''name'', ''status'', ''conclusion'', ''detailsUrl'',
        ''context'', ''state'', ''targetUrl'']) raw)"

definition read_rollup :: "string \<Rightarrow> rollupNode option" where
  "read_rollup raw = Option.bind (decode_struct False [(''state'', StringField), (''contexts'', RawField)] raw) (\<lambda>vs.
     map_option (\<lambda>contexts. \<lparr>ru_State = string_at vs ''state'', ru_Contexts = contexts\<rparr>)
       (read_nodes read_check (raw_at vs ''contexts'')))"

text \<open>A node of the commits: \<open>commit.statusCheckRollup\<close>.\<close>

definition read_commit :: "string \<Rightarrow> rollupNode option option" where
  "read_commit raw = Option.bind (decode_struct False [(''commit'', RawField)] raw) (\<lambda>vs.
     if absent (raw_at vs ''commit'') then Some None
     else Option.bind (decode_struct False [(''statusCheckRollup'', RawField)] (raw_at vs ''commit'')) (\<lambda>us.
       read_pointer read_rollup (raw_at us ''statusCheckRollup'')))"

definition read_pull_request :: "string \<Rightarrow> pullRequestNode option" where
  "read_pull_request raw = Option.bind (decode_struct False
       [(''number'', IntField), (''title'', StringField), (''url'', StringField), (''state'', StringField),
        (''isDraft'', BoolField), (''merged'', BoolField), (''mergeable'', StringField), (''updatedAt'', StringField),
        (''author'', RawField), (''headRefOid'', StringField), (''comments'', RawField), (''reviews'', RawField),
        (''reviewThreads'', RawField), (''commits'', RawField)] raw) (\<lambda>vs.
     Option.bind (read_actor (raw_at vs ''author'')) (\<lambda>author.
     Option.bind (read_nodes read_comment (raw_at vs ''comments'')) (\<lambda>comments.
     Option.bind (read_nodes read_review (raw_at vs ''reviews'')) (\<lambda>reviews.
     Option.bind (read_nodes read_thread (raw_at vs ''reviewThreads'')) (\<lambda>threads.
     map_option (\<lambda>commits. \<lparr>pn_Number = int_at vs ''number'', pn_Title = string_at vs ''title'', pn_URL = string_at vs ''url'',
         pn_State = string_at vs ''state'', pn_IsDraft = bool_at vs ''isDraft'', pn_Merged = bool_at vs ''merged'',
         pn_Mergeable = string_at vs ''mergeable'', pn_UpdatedAt = string_at vs ''updatedAt'', pn_Author = author,
         pn_HeadSHA = string_at vs ''headRefOid'', pn_Comments = comments, pn_Reviews = reviews,
         pn_ReviewThreads = threads, pn_Commits = commits\<rparr>)
       (read_nodes read_commit (raw_at vs ''commits'')))))))"

text \<open>The pull request of the answer, \<open>None\<close> when the repository or the pull request is null, and the
  errors with their types.\<close>

definition read_answer :: "string \<Rightarrow> (pullRequestNode option \<times> (string \<times> string) list) option" where
  "read_answer output = Option.bind (decode_struct False [(''data'', RawField), (''errors'', RawField)] output) (\<lambda>top.
     Option.bind (read_list (\<lambda>e. map_option (\<lambda>vs. (string_at vs ''type'', string_at vs ''message''))
         (decode_struct False [(''type'', StringField), (''message'', StringField)] e)) (raw_at top ''errors'')) (\<lambda>errors.
     let data = (if absent (raw_at top ''data'') then Some []
                 else map_option (\<lambda>vs. raw_at vs ''repository'') (decode_struct False [(''repository'', RawField)] (raw_at top ''data'')))
     in Option.bind data (\<lambda>repository.
        let pull = (if absent repository then Some []
                    else map_option (\<lambda>vs. raw_at vs ''pullRequest'') (decode_struct False [(''pullRequest'', RawField)] repository))
        in Option.bind pull (\<lambda>raw. map_option (\<lambda>p. (p, errors)) (read_pointer read_pull_request raw)))))"

definition answer_of :: "string \<Rightarrow> string \<Rightarrow> string \<Rightarrow> gh_error + PullRequest" where
  "answer_of owner repository output = (case read_answer output of
      None \<Rightarrow> Inl (GHOther ''reading the answer'')
    | Some (_, (kind, message) # _) \<Rightarrow>
        if fold_name kind = fold_name ''NOT_FOUND'' then Inl (GHNotFound message)
        else Inl (GHOther (''github refused the query: '' @ message))
    | Some (None, []) \<Rightarrow> Inl (GHNotFound [])
    | Some (Some p, []) \<Rightarrow> Inr (convert_pull_request p owner repository))"

subsection \<open>Reading a pull request\<close>

definition query_arguments :: "string \<Rightarrow> string \<Rightarrow> string \<Rightarrow> int \<Rightarrow> string list" where
  "query_arguments question owner repository number =
     [''api'', ''graphql'', ''-f'', ''query='' @ question, ''-F'', ''owner='' @ owner, ''-F'', ''repo='' @ repository,
      ''-F'', ''number='' @ itoa number]"

text \<open>\<open>question\<close> is the text of the constant \<open>pullRequestQuery\<close>.\<close>

definition Client_PullRequest ::
    "gh \<Rightarrow> string \<Rightarrow> string \<Rightarrow> string \<Rightarrow> string \<Rightarrow> int \<Rightarrow> PullRequest gh_action" where
  "Client_PullRequest gh question account owner repository number =
     (let arguments = query_arguments question owner repository number
      in bindE (if account = [] then execute gh None arguments else runAs gh account arguments) (\<lambda>output.
         liftE (answer_of owner repository output)))"

end
