(* ===== verification/GitHubProperties.thy ===== *)
theory GitHubProperties
  imports GitHub
begin

section \<open>Properties of the GitHub reader\<close>

text \<open>The summary of the checks, the logins read from \<^verbatim>\<open>gh auth status\<close>, and whose token is used.\<close>

subsection \<open>Checks\<close>

definition tallied :: "ChecksSummary \<Rightarrow> bool" where
  "tallied s \<longleftrightarrow> cs_Total s = int (length (cs_Checks s)) \<and> cs_Failed s = int (length (Failing s)) \<and>
     cs_Total s = cs_Passed s + cs_Failed s + cs_Pending s \<and> 0 \<le> cs_Passed s \<and> 0 \<le> cs_Pending s"

lemma add_check_tallied: "tallied s \<Longrightarrow> tallied (add_check s node)"
  by (auto simp: tallied_def add_check_def Let_def Failing_def)

lemma add_check_checks [simp]: "cs_Checks (add_check s node) = cs_Checks s @ [convert_check node]"
  "cs_State (add_check s node) = cs_State s"
  by (simp_all add: add_check_def Let_def)

lemma add_checks: "tallied s \<Longrightarrow> tallied (foldl add_check s nodes) \<and>
    cs_Checks (foldl add_check s nodes) = cs_Checks s @ map convert_check nodes \<and>
    cs_State (foldl add_check s nodes) = cs_State s"
  by (induction nodes arbitrary: s) (auto simp: add_check_tallied)

lemma tallied_state [simp]: "tallied (s\<lparr>cs_State := x\<rparr>) = tallied s"
  by (simp add: tallied_def Failing_def)

definition head_contexts :: "rollupNode option list \<Rightarrow> checkNode list" where
  "head_contexts commits = (case commits of Some rollup # _ \<Rightarrow> ru_Contexts rollup | _ \<Rightarrow> [])"

text \<open>The summary of the checks adds up: it has every check GitHub reported for the head commit, in
  order; passed, failed and pending partition them, and the failed ones are those the watcher lists as
  failing. The overall state follows from the counts, one failure outweighing everything and a pending
  check outweighing success, whatever GitHub's own rollup says; only without any check is it the rollup's,
  or unknown when there is none.\<close>

theorem checks_add_up:
  "cs_Checks (checks_of commits) = map convert_check (head_contexts commits) \<and>
   cs_Total (checks_of commits) = int (length (head_contexts commits)) \<and>
   cs_Total (checks_of commits) =
     cs_Passed (checks_of commits) + cs_Failed (checks_of commits) + cs_Pending (checks_of commits) \<and>
   0 \<le> cs_Passed (checks_of commits) \<and> 0 \<le> cs_Pending (checks_of commits) \<and>
   cs_Failed (checks_of commits) = int (length (Failing (checks_of commits))) \<and>
   cs_State (checks_of commits) =
     (if Failing (checks_of commits) \<noteq> [] then ''failure''
      else if 0 < cs_Pending (checks_of commits) then ''pending''
      else if head_contexts commits \<noteq> [] then ''success''
      else (case commits of Some rollup # _ \<Rightarrow> ToLower (ru_State rollup) | _ \<Rightarrow> ''unknown''))"
proof (cases "\<exists>rollup rest. commits = Some rollup # rest")
  case True
  then obtain rollup rest where c: "commits = Some rollup # rest" by blast
  let ?s = "foldl add_check \<lparr>cs_State = ToLower (ru_State rollup), cs_Total = 0, cs_Passed = 0, cs_Failed = 0,
      cs_Pending = 0, cs_Checks = []\<rparr> (ru_Contexts rollup)"
  have "tallied \<lparr>cs_State = ToLower (ru_State rollup), cs_Total = 0, cs_Passed = 0, cs_Failed = 0,
      cs_Pending = 0, cs_Checks = []\<rparr>" by (simp add: tallied_def Failing_def)
  from add_checks [OF this, of "ru_Contexts rollup"] have
    s: "tallied ?s" "cs_Checks ?s = map convert_check (ru_Contexts rollup)" "cs_State ?s = ToLower (ru_State rollup)"
    by simp_all
  from s(1) have t: "tallied (checks_of commits)" by (simp add: c checks_of_def Let_def)
  have k: "cs_Checks (checks_of commits) = map convert_check (ru_Contexts rollup)"
    using s(2) by (simp add: c checks_of_def Let_def)
  have st: "cs_State (checks_of commits) = (if cs_Failed (checks_of commits) > 0 then ''failure''
      else if cs_Pending (checks_of commits) > 0 then ''pending''
      else if cs_Total (checks_of commits) > 0 then ''success'' else ToLower (ru_State rollup))"
    using s(3) by (simp add: c checks_of_def Let_def)
  have "0 < cs_Failed (checks_of commits) \<longleftrightarrow> Failing (checks_of commits) \<noteq> []" using t by (simp add: tallied_def)
  moreover have "0 < cs_Total (checks_of commits) \<longleftrightarrow> ru_Contexts rollup \<noteq> []" using t k by (simp add: tallied_def)
  ultimately show ?thesis using t k st by (simp add: tallied_def head_contexts_def c)
next
  case False
  then have "checks_of commits = \<lparr>cs_State = ''unknown'', cs_Total = 0, cs_Passed = 0, cs_Failed = 0, cs_Pending = 0, cs_Checks = []\<rparr>"
    and "head_contexts commits = []" and "(case commits of Some rollup # _ \<Rightarrow> ToLower (ru_State rollup) | _ \<Rightarrow> ''unknown'') = ''unknown''"
    by (auto simp: checks_of_def head_contexts_def Let_def split: list.split option.split)
  then show ?thesis by (simp add: Failing_def)
qed

subsection \<open>Tokens\<close>

text \<open>The tokens \<^verbatim>\<open>gh\<close> printed for a login in one of the first \<open>n\<close> runs.\<close>

definition printed_for :: "gh \<Rightarrow> nat \<Rightarrow> string \<Rightarrow> string \<Rightarrow> bool" where
  "printed_for gh n account token \<longleftrightarrow> token \<noteq> [] \<and>
     (\<exists>k < n. \<exists>output. outcome_of (gh k None (token_arguments account)) = Inr output \<and> token = TrimSpace output)"

definition own_tokens :: "gh \<Rightarrow> client \<Rightarrow> bool" where
  "own_tokens gh c \<longleftrightarrow> (\<forall>(account, token) \<in> set (cl_tokens c). printed_for gh (cl_runs c) account token)"

lemma printed_for_later: "printed_for gh n account token \<Longrightarrow> n \<le> m \<Longrightarrow> printed_for gh m account token"
  unfolding printed_for_def by (elim conjE exE) (intro conjI exI, auto)

lemma own_tokens_execute: "own_tokens gh c \<Longrightarrow> execute gh token arguments c = (r, c') \<Longrightarrow> own_tokens gh c'"
  using printed_for_later [of gh "cl_runs c" _ _ "Suc (cl_runs c)"] by (force simp: own_tokens_def execute_def)

lemma tokenFor_own:
  assumes "own_tokens gh c" and "tokenFor gh account c = (r, c')"
  shows "own_tokens gh c' \<and> cl_runs c \<le> cl_runs c' \<and>
    (\<forall>token. r = Inr token \<longrightarrow> printed_for gh (cl_runs c') account token \<and> map_of (cl_tokens c') account = Some token)"
proof (cases "map_of (cl_tokens c) account")
  case (Some token)
  with assms show ?thesis by (auto simp: tokenFor_def own_tokens_def dest: map_of_SomeD)
next
  case None
  obtain o1 c1 where e: "execute gh None (token_arguments account) c = (o1, c1)" by fastforce
  have own: "own_tokens gh c1" by (rule own_tokens_execute [OF assms(1) e])
  show ?thesis
  proof (cases o1)
    case (Inl err)
    moreover from e have "cl_runs c1 = Suc (cl_runs c)" by (auto simp: execute_def)
    ultimately show ?thesis using assms(2) None e own by (auto simp: tokenFor_def)
  next
    case (Inr printed)
    then have out: "outcome_of (gh (cl_runs c) None (token_arguments account)) = Inr printed" "cl_runs c1 = Suc (cl_runs c)"
      using e by (auto simp: execute_def)
    show ?thesis
    proof (cases "TrimSpace printed = []")
      case True
      with assms(2) None e Inr own out(2) show ?thesis by (auto simp: tokenFor_def)
    next
      case False
      with out have "printed_for gh (cl_runs c1) account (TrimSpace printed)" by (auto simp: printed_for_def)
      with False assms(2) None e Inr own out(2) show ?thesis by (auto simp: tokenFor_def own_tokens_def)
    qed
  qed
qed

lemma forget_own: "own_tokens gh c \<Longrightarrow> own_tokens gh (forget account c)"
  by (auto simp: own_tokens_def forget_def)

lemma forgotten: "map_of (cl_tokens (forget account c)) account = None"
  by (auto simp: forget_def map_of_eq_None_iff)

lemma runAs_own:
  assumes "own_tokens gh c" and "runAs gh account arguments c = (r, c')"
  shows "own_tokens gh c' \<and>
    ((\<exists>e v. tokenFor gh account c = (Inl e, v) \<and> r = Inl e) \<or>
     (\<exists>n token. printed_for gh n account token \<and> r = outcome_of (gh n (Some token) arguments) \<and>
        (\<forall>e. r = Inl (GHNoCLI e) \<longrightarrow> map_of (cl_tokens c') account = None)))"
proof -
  obtain t v where t: "tokenFor gh account c = (t, v)" by fastforce
  note own = tokenFor_own [OF assms(1) t]
  show ?thesis
  proof (cases t)
    case (Inl e)
    with assms(2) t have "r = Inl e" "c' = v" by (auto simp: runAs_def bindE_apply)
    with t Inl own show ?thesis by blast
  next
    case (Inr token)
    obtain o1 u where e: "execute gh (Some token) arguments v = (o1, u)" by fastforce
    then have o1: "o1 = outcome_of (gh (cl_runs v) (Some token) arguments)" by (simp add: execute_def)
    have u: "own_tokens gh u" using own_tokens_execute [OF _ e] own by blast
    have r: "r = o1 \<and> c' = (case o1 of Inl (GHNoCLI _) \<Rightarrow> forget account u | _ \<Rightarrow> u)"
      using assms(2) t Inr e by (auto simp: runAs_def bindE_apply split: sum.splits gh_error.splits)
    have "own_tokens gh c'" using r u forget_own by (simp split: sum.split gh_error.split)
    moreover have "\<forall>e. r = Inl (GHNoCLI e) \<longrightarrow> map_of (cl_tokens c') account = None" using r forgotten by auto
    ultimately show ?thesis using own Inr o1 r by blast
  qed
qed

text \<open>One call of the client, whatever its arguments.\<close>

inductive client_run :: "gh \<Rightarrow> client \<Rightarrow> bool" for gh where
  fresh: "client_run gh new_client"
| lists: "client_run gh c \<Longrightarrow> Accounts gh c = (found, c') \<Longrightarrow> client_run gh c'"
| checks: "client_run gh c \<Longrightarrow> Available gh installed c = (ok, c') \<Longrightarrow> client_run gh c'"
| reads: "client_run gh c \<Longrightarrow> Client_PullRequest gh question account owner repository number c = (p, c') \<Longrightarrow> client_run gh c'"

lemma client_run_own: "client_run gh c \<Longrightarrow> own_tokens gh c"
proof (induction rule: client_run.induct)
  case fresh
  show ?case by (simp add: own_tokens_def new_client_def)
next
  case (lists c found c')
  then show ?case by (auto simp: Accounts_def elim!: bindE_cases intro: own_tokens_execute)
next
  case (checks c installed ok c')
  then show ?case
    by (auto simp: Available_def split: if_splits prod.splits sum.splits gh_error.splits intro: own_tokens_execute)
next
  case (reads c question account owner repository number p c')
  then show ?case
    by (auto simp: Client_PullRequest_def Let_def split: if_splits elim!: bindE_cases intro: own_tokens_execute dest: runAs_own)
qed

text \<open>C30: A login is only ever asked with its own token. Whatever the client did before, a pull request read
  as a named login either fails because the token of that login cannot be had, or is what \<^verbatim>\<open>gh\<close> answers
  with a token it printed earlier for that very login; and when it answers that the token is no good, the
  token is forgotten, so the next call asks for a new one. Without a name the query runs without a token.\<close>

theorem a_login_uses_its_own_token:
  assumes "client_run gh c" and "Client_PullRequest gh question account owner repository number c = (r, c')"
    and "said = (\<lambda>n token. case outcome_of (gh n token (query_arguments question owner repository number)) of
        Inl e \<Rightarrow> Inl e | Inr output \<Rightarrow> answer_of owner repository output)"
  shows "if account = [] then r = said (cl_runs c) None
    else (\<exists>e v. tokenFor gh account c = (Inl e, v) \<and> r = Inl e) \<or>
      (\<exists>n token. printed_for gh n account token \<and> r = said n (Some token) \<and>
         (\<forall>e. outcome_of (gh n (Some token) (query_arguments question owner repository number)) = Inl (GHNoCLI e) \<longrightarrow>
            map_of (cl_tokens c') account = None))"
proof (cases "account = []")
  case True
  then show ?thesis using assms(2,3)
    by (auto simp: Client_PullRequest_def bindE_apply execute_def split: sum.splits)
next
  case False
  let ?arguments = "query_arguments question owner repository number"
  obtain o1 u where e: "runAs gh account ?arguments c = (o1, u)" by fastforce
  have r: "r = (case o1 of Inl e \<Rightarrow> Inl e | Inr output \<Rightarrow> answer_of owner repository output)" "c' = u"
    using assms(2) False e by (auto simp: Client_PullRequest_def bindE_apply split: sum.splits)
  from runAs_own [OF client_run_own [OF assms(1)] e] consider
    (no_token) err v where "tokenFor gh account c = (Inl err, v)" "o1 = Inl err"
  | (token) n token where "printed_for gh n account token" "o1 = outcome_of (gh n (Some token) ?arguments)"
      "\<forall>e. o1 = Inl (GHNoCLI e) \<longrightarrow> map_of (cl_tokens u) account = None" by blast
  then show ?thesis
  proof cases
    case no_token
    with r False show ?thesis by auto
  next
    case token
    with r False assms(3) show ?thesis by auto
  qed
qed

definition sample_gh :: gh where
  "sample_gh = (\<lambda>n token arguments.
     if arguments = token_arguments ''sadeq'' then \<lparr>gr_stdout = ''abc '', gr_stderr = [], gr_end = Finished_well\<rparr>
     else \<lparr>gr_stdout = [], gr_stderr = ''Bad credentials'', gr_end = Exited ''exit status 1''\<rparr>)"

theorem a_login_uses_its_own_token_witness:
  "\<exists>r c'. Client_PullRequest sample_gh [] ''sadeq'' ''o'' ''r'' 1 new_client = (r, c') \<and>
     (\<exists>n. printed_for sample_gh n ''sadeq'' ''abc'') \<and> map_of (cl_tokens c') ''sadeq'' = None"
proof -
  obtain r c' where call: "Client_PullRequest sample_gh [] ''sadeq'' ''o'' ''r'' 1 new_client = (r, c')" by fastforce
  have ask: "outcome_of (sample_gh k None (token_arguments ''sadeq'')) = Inr ''abc ''" for k
    by (simp add: sample_gh_def outcome_of_def maxOutput_def)
  have trim: "TrimSpace ''abc '' = ''abc''" by code_simp
  have refused: "outcome_of (sample_gh n (Some token) (query_arguments [] ''o'' ''r'' 1)) = Inl (GHNoCLI ''Bad credentials'')"
    for n token
  proof -
    have "classify [] ''Bad credentials'' ''exit status 1'' = GHNoCLI ''Bad credentials''" by code_simp
    then show ?thesis
      by (simp add: sample_gh_def outcome_of_def query_arguments_def token_arguments_def)
  qed
  from ask have "tokenFor sample_gh ''sadeq'' new_client \<noteq> (Inl e, v)" for e v
    by (simp add: tokenFor_def new_client_def execute_def trim)
  with a_login_uses_its_own_token [OF client_run.fresh call refl] obtain n token where
    n: "printed_for sample_gh n ''sadeq'' token" "map_of (cl_tokens c') ''sadeq'' = None"
    using refused by auto
  then have "token = ''abc''" by (auto simp: printed_for_def ask trim)
  with call n show ?thesis by blast
qed

end
