(* ===== verification/Migrate.thy ===== *)
theory Migrate
  imports World Parsing
begin

section \<open>Schema migrations (\<open>internal/store/sqlite/migrate.go\<close>)\<close>

text \<open>
  The embedded SQL files, each a numbered step, and the application of those a database does not have
  yet. What a step does to the contents is a parameter: the contents after the statement, or \<open>None\<close>
  when SQLite refuses it. Of the database the model keeps its contents and the rows of
  \<^verbatim>\<open>schema_migrations\<close>; a step and its row are one transaction. The failures of opening a transaction
  and of reading rows are left out.
\<close>

subsection \<open>The steps\<close>

record migration =
  mg_version :: int
  mg_name :: string
  mg_statement :: string

definition parseMigrationName :: "string \<Rightarrow> migration res" where
  "parseMigrationName fileName =
     (case cut_at (CHR ''_'') (TrimSuffix fileName ''.sql'') of (prefix, name, found) \<Rightarrow>
        if \<not> found then Inl (OtherError ''is not named <version>_<name>.sql'')
        else (case Atoi prefix of
            None \<Rightarrow> Inl (OtherError ''does not start with a positive version number'')
          | Some version \<Rightarrow>
              if version < 1 then Inl (OtherError ''does not start with a positive version number'')
              else Inr \<lparr>mg_version = version, mg_name = name, mg_statement = []\<rparr>))"

text \<open>An entry of the embedded directory: its name, whether it is a directory, and its text.\<close>

record embedded =
  em_Name :: string
  em_IsDir :: bool
  em_contents :: "err + string"

fun read_steps :: "embedded list \<Rightarrow> migration list res" where
  "read_steps [] = Inr []"
| "read_steps (entry # rest) =
     (if em_IsDir entry \<or> \<not> HasPrefix (rev (em_Name entry)) (rev ''.sql'') then read_steps rest
      else (case parseMigrationName (em_Name entry) of
          Inl e \<Rightarrow> Inl e
        | Inr step \<Rightarrow> (case em_contents entry of
            Inl e \<Rightarrow> Inl e
          | Inr contents \<Rightarrow> (case read_steps rest of
              Inl e \<Rightarrow> Inl e
            | Inr steps \<Rightarrow> Inr (step\<lparr>mg_statement := contents\<rparr> # steps)))))"

fun shared_version :: "migration list \<Rightarrow> bool" where
  "shared_version (a # b # rest) = (mg_version b = mg_version a \<or> shared_version (b # rest))"
| "shared_version _ = False"

definition loadMigrations :: "embedded list \<Rightarrow> migration list res" where
  "loadMigrations entries = (case read_steps entries of
      Inl e \<Rightarrow> Inl e
    | Inr found \<Rightarrow>
        if found = [] then Inl (OtherError ''no migrations are embedded in this build'')
        else (let steps = sort_key mg_version found
              in if shared_version steps then Inl (OtherError ''two migrations share a version'')
                 else Inr steps))"

subsection \<open>Applying them\<close>

record 'd stored =
  st_contents :: 'd
  st_applied :: "(int \<times> string \<times> int) list"

type_synonym 'd sql = "string \<Rightarrow> 'd \<Rightarrow> 'd option"

definition appliedVersions :: "'d stored \<Rightarrow> int list" where
  "appliedVersions d = map fst (st_applied d)"

definition highestVersion :: "int list \<Rightarrow> int" where
  "highestVersion versions = foldl max 0 versions"

definition applyMigration :: "'d sql \<Rightarrow> instant \<Rightarrow> migration \<Rightarrow> 'd stored \<Rightarrow> unit res \<times> 'd stored" where
  "applyMigration run at step d = (case run (mg_statement step) (st_contents d) of
      None \<Rightarrow> (Inl (OtherError ''applying a migration''), d)
    | Some contents \<Rightarrow>
        if List.member (appliedVersions d) (mg_version step) then (Inl (OtherError ''recording a migration''), d)
        else (Inr (), \<lparr>st_contents = contents,
               st_applied = st_applied d @ [(mg_version step, mg_name step, UnixMicro at)]\<rparr>))"

fun apply_steps :: "'d sql \<Rightarrow> (int \<Rightarrow> instant) \<Rightarrow> int list \<Rightarrow> migration list \<Rightarrow> 'd stored \<Rightarrow> unit res \<times> 'd stored" where
  "apply_steps run clock applied [] d = (Inr (), d)"
| "apply_steps run clock applied (step # rest) d =
     (if List.member applied (mg_version step) then apply_steps run clock applied rest d
      else (case applyMigration run (clock (mg_version step)) step d of
          (Inl e, d') \<Rightarrow> (Inl e, d')
        | (Inr _, d') \<Rightarrow> apply_steps run clock applied rest d'))"

text \<open>\<open>clock\<close> gives the time at which a step is recorded.\<close>

definition migrate :: "embedded list \<Rightarrow> 'd sql \<Rightarrow> (int \<Rightarrow> instant) \<Rightarrow> 'd stored \<Rightarrow> unit res \<times> 'd stored" where
  "migrate entries run clock d = (case loadMigrations entries of
      Inl e \<Rightarrow> (Inl e, d)
    | Inr steps \<Rightarrow>
        (let applied = appliedVersions d; known = mg_version (last steps)
         in if highestVersion applied > known then (Inl (OtherError ''the database is newer than this build''), d)
            else apply_steps run clock applied steps d))"

subsection \<open>Facts\<close>

lemma highestVersion_le: "highestVersion vs \<le> k \<longleftrightarrow> 0 \<le> k \<and> (\<forall>v \<in> set vs. v \<le> k)"
proof -
  have "foldl max m vs \<le> k \<longleftrightarrow> m \<le> k \<and> (\<forall>v \<in> set vs. v \<le> k)" for m
    by (induction vs arbitrary: m) auto
  then show ?thesis by (simp add: highestVersion_def)
qed

lemma not_shared: "sorted (map mg_version steps) \<Longrightarrow> \<not> shared_version steps \<Longrightarrow> sorted_wrt (<) (map mg_version steps)"
proof (induction steps rule: shared_version.induct)
  case (1 a b rest)
  then have IH: "sorted_wrt (<) (map mg_version (b # rest))" and "mg_version a < mg_version b" by auto
  then show ?case by auto
qed auto

lemma read_steps_positive: "read_steps entries = Inr steps \<Longrightarrow> step \<in> set steps \<Longrightarrow> 0 < mg_version step"
  by (induction entries arbitrary: steps)
     (auto simp: parseMigrationName_def split: if_splits sum.splits prod.splits option.splits)

lemma loaded_steps:
  assumes "loadMigrations entries = Inr steps"
  shows "steps \<noteq> [] \<and> sorted_wrt (<) (map mg_version steps) \<and> (\<forall>step \<in> set steps. 0 < mg_version step \<and> mg_version step \<le> mg_version (last steps))"
proof -
  from assms obtain found where f: "read_steps entries = Inr found" "found \<noteq> []" "steps = sort_key mg_version found"
    "\<not> shared_version steps" by (auto simp: loadMigrations_def Let_def split: sum.splits if_splits)
  then have "sorted (map mg_version steps)" by simp
  with f(4) have s: "sorted_wrt (<) (map mg_version steps)" by (simp add: not_shared)
  have "steps \<noteq> []" using f(2,3) by (metis set_empty set_sort)
  moreover have "mg_version step \<le> mg_version (last steps)" if "step \<in> set steps" for step
    using that s by (induction steps rule: rev_induct) (auto simp: sorted_wrt_append)
  ultimately show ?thesis using s read_steps_positive [OF f(1)] f(3) by auto
qed

text \<open>The steps a database does not have, and running several.\<close>

definition pending :: "migration list \<Rightarrow> 'd stored \<Rightarrow> migration list" where
  "pending steps d = filter (\<lambda>step. mg_version step \<notin> set (appliedVersions d)) steps"

fun run_all :: "'d sql \<Rightarrow> migration list \<Rightarrow> 'd \<Rightarrow> 'd option" where
  "run_all run [] c = Some c"
| "run_all run (step # rest) c = Option.bind (run (mg_statement step) c) (run_all run rest)"

definition row_of :: "(int \<Rightarrow> instant) \<Rightarrow> migration \<Rightarrow> int \<times> string \<times> int" where
  "row_of clock step = (mg_version step, mg_name step, UnixMicro (clock (mg_version step)))"

lemma apply_steps_effect:
  assumes "distinct (map mg_version steps)" and "\<And>step. step \<in> set steps \<Longrightarrow> mg_version step \<notin> set applied \<Longrightarrow> mg_version step \<notin> set (appliedVersions d)"
  shows "\<exists>ran rest r d'. apply_steps run clock applied steps d = (r, d') \<and>
    filter (\<lambda>step. mg_version step \<notin> set applied) steps = ran @ rest \<and>
    st_applied d' = st_applied d @ map (row_of clock) ran \<and> run_all run ran (st_contents d) = Some (st_contents d') \<and>
    (r = Inr () \<longleftrightarrow> rest = []) \<and> (\<forall>failed others. rest = failed # others \<longrightarrow> run (mg_statement failed) (st_contents d') = None)"
  using assms
proof (induction steps arbitrary: d)
  case Nil
  show ?case by simp
next
  case (Cons step steps)
  show ?case
  proof (cases "mg_version step \<in> set applied")
    case True
    with Cons.IH [of d] Cons.prems show ?thesis by simp
  next
    case fresh: False
    show ?thesis
    proof (cases "run (mg_statement step) (st_contents d)")
      case None
      with fresh show ?thesis
        by (intro exI [of _ "[]"] exI [of _ "step # filter (\<lambda>step. mg_version step \<notin> set applied) steps"]
            exI [of _ "Inl (OtherError ''applying a migration'')"] exI [of _ d])
           (simp add: applyMigration_def)
    next
      case (Some contents)
      let ?d = "\<lparr>st_contents = contents, st_applied = st_applied d @ [row_of clock step]\<rparr>"
      have notin: "mg_version step \<notin> set (appliedVersions d)" using Cons.prems(2) [of step] fresh by simp
      have "mg_version s \<notin> set (appliedVersions ?d)" if "s \<in> set steps" "mg_version s \<notin> set applied" for s
      proof -
        have "mg_version s \<noteq> mg_version step" using Cons.prems(1) imageI [OF that(1), of mg_version] by auto
        with Cons.prems(2) [of s] that show ?thesis by (simp add: appliedVersions_def row_of_def)
      qed
      with Cons.IH [of ?d] Cons.prems(1) obtain ran rest r d' where
        IH: "apply_steps run clock applied steps ?d = (r, d')" "filter (\<lambda>step. mg_version step \<notin> set applied) steps = ran @ rest"
          "st_applied d' = st_applied ?d @ map (row_of clock) ran" "run_all run ran contents = Some (st_contents d')"
          "r = Inr () \<longleftrightarrow> rest = []" "\<forall>failed others. rest = failed # others \<longrightarrow> run (mg_statement failed) (st_contents d') = None"
        by auto
      have "applyMigration run (clock (mg_version step)) step d = (Inr (), ?d)"
        using Some notin by (simp add: applyMigration_def row_of_def)
      with IH fresh Some show ?thesis
        by (intro exI [of _ "step # ran"] exI [of _ rest] exI [of _ r] exI [of _ d']) simp
    qed
  qed
qed

lemma nothing_pending:
  "(\<And>step. step \<in> set steps \<Longrightarrow> mg_version step \<in> set applied) \<Longrightarrow> apply_steps run clock applied steps d = (Inr (), d)"
  by (induction steps) simp_all

subsection \<open>What a start does to the schema\<close>

text \<open>C31: A database newer than the build is refused untouched. Otherwise the steps it does not have are run
  in the order of their versions, each recorded with its effect or not at all: what was recorded is an
  initial part of the missing steps, the contents are exactly what those steps made of the contents
  before, and either all were run or the next one is a step SQLite refused. When the start succeeded,
  another one changes nothing.\<close>

theorem migration_outcome:
  assumes "loadMigrations entries = Inr steps" and "migrate entries run clock d = (r, d')"
  shows "if mg_version (last steps) < highestVersion (appliedVersions d) then r \<noteq> Inr () \<and> d' = d
    else (\<exists>ran rest. pending steps d = ran @ rest \<and> sorted_wrt (<) (map mg_version (ran @ rest)) \<and>
        st_applied d' = st_applied d @ map (row_of clock) ran \<and>
        run_all run ran (st_contents d) = Some (st_contents d') \<and> (r = Inr () \<longleftrightarrow> rest = []) \<and>
        (\<forall>failed others. rest = failed # others \<longrightarrow> run (mg_statement failed) (st_contents d') = None)) \<and>
      (r = Inr () \<longrightarrow> (\<forall>later. migrate entries run later d' = (Inr (), d')))"
proof (cases "mg_version (last steps) < highestVersion (appliedVersions d)")
  case True
  with assms show ?thesis by (auto simp: migrate_def Let_def)
next
  case False
  note steps = loaded_steps [OF assms(1)]
  have "distinct (map mg_version steps)" using steps by (simp add: strict_sorted_iff)
  from apply_steps_effect [OF this, of "appliedVersions d" d run clock] obtain ran rest r1 d1 where
    e: "apply_steps run clock (appliedVersions d) steps d = (r1, d1)" "pending steps d = ran @ rest"
    "st_applied d1 = st_applied d @ map (row_of clock) ran" "run_all run ran (st_contents d) = Some (st_contents d1)"
    "r1 = Inr () \<longleftrightarrow> rest = []" "\<forall>failed others. rest = failed # others \<longrightarrow> run (mg_statement failed) (st_contents d1) = None"
    by (auto simp: pending_def)
  have m: "migrate entries run clock d = (r1, d1)" using False e(1) assms(1) by (simp add: migrate_def Let_def)
  have "sorted_wrt (<) (map mg_version (pending steps d))"
    using steps unfolding pending_def sorted_wrt_map by (simp add: sorted_wrt_filter)
  moreover have "migrate entries run later d1 = (Inr (), d1)" if "r1 = Inr ()" for later
  proof -
    have versions: "set (appliedVersions d1) = set (appliedVersions d) \<union> mg_version ` set (pending steps d)"
      using e(2,3,5) that by (auto simp: appliedVersions_def row_of_def image_image)
    then have all: "mg_version step \<in> set (appliedVersions d1)" if "step \<in> set steps" for step
      using that by (auto simp: pending_def)
    have "highestVersion (appliedVersions d1) \<le> mg_version (last steps)"
      using False steps versions unfolding not_less highestVersion_le by (auto simp: pending_def)
    with all assms(1) show ?thesis by (simp add: migrate_def Let_def nothing_pending)
  qed
  ultimately show ?thesis using False m e assms(2) by auto
qed

definition two_steps :: "embedded list" where
  "two_steps = [\<lparr>em_Name = ''0002_tasks.sql'', em_IsDir = False, em_contents = Inr ''b''\<rparr>,
     \<lparr>em_Name = ''0001_init.sql'', em_IsDir = False, em_contents = Inr ''a''\<rparr>]"

definition log_sql :: "string sql" where
  "log_sql = (\<lambda>s d. if s = ''x'' then None else Some (d @ s))"

lemma two_steps_load: "loadMigrations two_steps =
    Inr [\<lparr>mg_version = 1, mg_name = ''init'', mg_statement = ''a''\<rparr>, \<lparr>mg_version = 2, mg_name = ''tasks'', mg_statement = ''b''\<rparr>]"
  by code_simp

theorem migration_outcome_witness:
  "\<exists>d'. migrate two_steps log_sql (\<lambda>_. 0) \<lparr>st_contents = [], st_applied = []\<rparr> = (Inr (), d') \<and>
     st_contents d' = ''ab'' \<and> migrate two_steps log_sql (\<lambda>_. 7) d' = (Inr (), d')"
proof -
  let ?d = "\<lparr>st_contents = [], st_applied = []\<rparr> :: string stored"
  obtain r d' where m: "migrate two_steps log_sql (\<lambda>_. 0) ?d = (r, d')" by fastforce
  have v: "r = Inr ()" "st_contents d' = ''ab''"
    using m by (auto simp: migrate_def two_steps_load appliedVersions_def highestVersion_def applyMigration_def log_sql_def)
  from migration_outcome [OF two_steps_load m] v have "migrate two_steps log_sql (\<lambda>_. 7) d' = (Inr (), d')"
    by (simp add: appliedVersions_def highestVersion_def)
  with m v show ?thesis by blast
qed

end
