(* ===== verification/TelegramClient.thy ===== *)
theory TelegramClient
  imports GitHub
begin

section \<open>Talking to Telegram (\<open>internal/transport/telegram/client.go\<close>)\<close>

text \<open>
  A minimal client of the Bot API: a call posts a JSON text and reads an envelope; updates are polled
  from an offset; a long text is sent in pieces. The network is a parameter: what the \<open>n\<close>-th call of a
  bridge is answered with, given its method and body. The address a call goes to, which carries the
  token, is left to that parameter.
\<close>

subsection \<open>Text\<close>

definition maxResponseSize :: nat where
  "maxResponseSize = 8 * 2 ^ 20"

definition maxMessageLength :: nat where
  "maxMessageLength = 4096"

definition ellipsis :: string where
  "ellipsis = [CHR 0xE2, CHR 0x80, CHR 0xA6]"

definition withoutToken :: "string \<Rightarrow> string \<Rightarrow> string" where
  "withoutToken body token = (if token = [] then body else ReplaceAll body token ellipsis)"

text \<open>\<^verbatim>\<open>strings.LastIndex\<close> of a line ending.\<close>

definition last_line_end :: "string \<Rightarrow> nat option" where
  "last_line_end s =
     (if newline \<in> set s then Some (length s - 1 - length (takeWhile (\<lambda>c. c \<noteq> newline) (rev s))) else None)"

definition cut_point :: "string \<Rightarrow> nat \<Rightarrow> nat" where
  "cut_point body limit = (case last_line_end (take limit body) of
      None \<Rightarrow> limit | Some i \<Rightarrow> if i = 0 then limit else i)"

definition without_line_ends :: "string \<Rightarrow> string" where
  "without_line_ends s = rev (dropWhile (\<lambda>c. c = newline) (rev s))"

text \<open>The loop of \<open>split\<close>. A limit of nothing would never end; the only caller passes 4096.\<close>

function split_rest :: "string \<Rightarrow> nat \<Rightarrow> string list" where
  "split_rest body limit =
     (if limit = 0 \<or> length body \<le> limit then (if body \<noteq> [] then [body] else [])
      else (let k = cut_point body limit
            in without_line_ends (take k body) # split_rest (dropWhile (\<lambda>c. c = newline) (drop k body)) limit))"
  by pat_completeness auto
termination
proof (relation "measure (\<lambda>(s, _). length s)")
  fix body :: string and limit k :: nat
  assume longer: "\<not> (limit = 0 \<or> length body \<le> limit)" and k: "k = cut_point body limit"
  have "0 < k" using longer by (auto simp: k cut_point_def split: option.splits)
  moreover have "length (dropWhile (\<lambda>c. c = newline) (drop k body)) \<le> length (drop k body)"
    by (rule length_dropWhile_le)
  ultimately have "length (dropWhile (\<lambda>c. c = newline) (drop k body)) < length body" using longer by (simp; linarith)
  then show "((dropWhile (\<lambda>c. c = newline) (drop k body), limit), body, limit) \<in> measure (\<lambda>(s, _). length s)"
    by simp
qed simp

declare split_rest.simps [simp del]

definition split_message :: "string \<Rightarrow> nat \<Rightarrow> string list" where
  "split_message body limit = (if length body \<le> limit then [body] else split_rest body limit)"

subsection \<open>What Telegram sends\<close>

record user =
  us_ID :: int
  us_IsBot :: bool
  us_FirstName :: string
  us_Username :: string

record chat =
  ch_ID :: int
  ch_Type :: string

record message =
  me_MessageID :: int
  me_From :: "user option"
  me_Chat :: chat
  me_Date :: int
  me_Text :: string

record update =
  up_UpdateID :: int
  up_Message :: "message option"

record apiResponse =
  ar_OK :: bool
  ar_Result :: string
  ar_Description :: string
  ar_ErrorCode :: int

definition read_user :: "string \<Rightarrow> user option" where
  "read_user raw = map_option (\<lambda>vs. \<lparr>us_ID = int_at vs ''id'', us_IsBot = bool_at vs ''is_bot'',
       us_FirstName = string_at vs ''first_name'', us_Username = string_at vs ''username''\<rparr>)
     (decode_struct False [(''id'', IntField), (''is_bot'', BoolField), (''first_name'', StringField),
        (''username'', StringField)] raw)"

definition read_chat :: "string \<Rightarrow> chat option" where
  "read_chat raw = map_option (\<lambda>vs. \<lparr>ch_ID = int_at vs ''id'', ch_Type = string_at vs ''type''\<rparr>)
     (decode_struct False [(''id'', IntField), (''type'', StringField)] (if absent raw then ''null'' else raw))"

definition read_message :: "string \<Rightarrow> message option" where
  "read_message raw =
     Option.bind (decode_struct False [(''message_id'', IntField), (''from'', RawField), (''chat'', RawField),
        (''date'', IntField), (''text'', StringField)] raw) (\<lambda>vs.
     Option.bind (read_pointer read_user (raw_at vs ''from'')) (\<lambda>sender.
     map_option (\<lambda>c. \<lparr>me_MessageID = int_at vs ''message_id'', me_From = sender, me_Chat = c,
         me_Date = int_at vs ''date'', me_Text = string_at vs ''text''\<rparr>)
       (read_chat (raw_at vs ''chat''))))"

definition read_update :: "string \<Rightarrow> update option" where
  "read_update raw =
     Option.bind (decode_struct False [(''update_id'', IntField), (''message'', RawField)] raw) (\<lambda>vs.
     map_option (\<lambda>m. \<lparr>up_UpdateID = int_at vs ''update_id'', up_Message = m\<rparr>)
       (read_pointer read_message (raw_at vs ''message'')))"

definition read_envelope :: "string \<Rightarrow> apiResponse option" where
  "read_envelope raw = map_option (\<lambda>vs. \<lparr>ar_OK = bool_at vs ''ok'', ar_Result = raw_at vs ''result'',
       ar_Description = string_at vs ''description'', ar_ErrorCode = int_at vs ''error_code''\<rparr>)
     (decode_struct False [(''ok'', BoolField), (''result'', RawField), (''description'', StringField),
        (''error_code'', IntField)] raw)"

subsection \<open>Calls\<close>

datatype http_answer = NoAnswer string | Contents string

type_synonym bot_api = "nat \<Rightarrow> string \<Rightarrow> string \<Rightarrow> http_answer"

datatype telegram_error = TGUnauthorised | TGFailed string

text \<open>The state of a bridge: the daemon's, its own agent identifier, and the calls it has made.\<close>

record bridge =
  br_world :: world
  br_agentID :: string
  br_calls :: "(string \<times> string) list"

type_synonym 'a bridge_action = "(bridge, telegram_error, 'a) op"

definition outcome_of_call :: "string \<Rightarrow> string \<Rightarrow> http_answer \<Rightarrow> telegram_error + string" where
  "outcome_of_call token api_method answer = (case answer of
      NoAnswer err \<Rightarrow> Inl (TGFailed (''calling telegram '' @ api_method @ '': '' @ withoutToken err token))
    | Contents answered \<Rightarrow> (case read_envelope (take maxResponseSize answered) of
          None \<Rightarrow> Inl (TGFailed (''decoding the '' @ api_method @ '' response''))
        | Some envelope \<Rightarrow>
            if ar_OK envelope then Inr (ar_Result envelope)
            else if ar_ErrorCode envelope = 401 then Inl TGUnauthorised
            else Inl (TGFailed (''telegram refused '' @ api_method @ '': '' @ ar_Description envelope))))"

definition call_api :: "bot_api \<Rightarrow> string \<Rightarrow> string \<Rightarrow> string \<Rightarrow> string bridge_action" where
  "call_api api token api_method payload = (\<lambda>b.
     (outcome_of_call token api_method (api (length (br_calls b)) api_method payload),
      b\<lparr>br_calls := br_calls b @ [(api_method, payload)]\<rparr>))"

text \<open>A \<^verbatim>\<open>map[string]any\<close>, its keys in order.\<close>

definition payload_of :: "(string \<times> string) list \<Rightarrow> string" where
  "payload_of members = ''{'' @ Join (map (\<lambda>(key, v). json_string key @ '':'' @ v) (sort_key fst members)) '','' @ ''}''"

definition updates_payload :: "int \<Rightarrow> duration \<Rightarrow> string" where
  "updates_payload offset wait = payload_of
     ([(''timeout'', itoa (quot wait Second)), (''allowed_updates'', ''['' @ json_string ''message'' @ '']'')] @
      (if offset > 0 then [(''offset'', itoa offset)] else []))"

definition message_payload :: "int \<Rightarrow> string \<Rightarrow> string" where
  "message_payload chat_id part = payload_of
     [(''chat_id'', itoa chat_id), (''text'', json_string part), (''disable_web_page_preview'', ''true'')]"

definition getUpdates :: "bot_api \<Rightarrow> string \<Rightarrow> int \<Rightarrow> duration \<Rightarrow> update list bridge_action" where
  "getUpdates api token offset wait =
     bindE (call_api api token ''getUpdates'' (updates_payload offset wait)) (\<lambda>raw.
     case (if raw = [] then None else read_list read_update raw) of
       None \<Rightarrow> throwE (TGFailed ''decoding updates'')
     | Some found \<Rightarrow> returnE found)"

definition sendMessage :: "bot_api \<Rightarrow> string \<Rightarrow> int \<Rightarrow> string \<Rightarrow> unit bridge_action" where
  "sendMessage api token chat_id body = forE (split_message body maxMessageLength) (\<lambda>part.
     bindE (call_api api token ''sendMessage'' (message_payload chat_id part)) (\<lambda>_. returnE ()))"

definition getMe :: "bot_api \<Rightarrow> string \<Rightarrow> user bridge_action" where
  "getMe api token =
     bindE (call_api api token ''getMe'' ''null'') (\<lambda>raw.
     case read_user raw of
       None \<Rightarrow> throwE (TGFailed ''decoding the details of the bot'')
     | Some me \<Rightarrow> returnE me)"

end
