(* ===== verification/Telegram.thy ===== *)
theory Telegram
  imports TelegramClient Leasing Reporting Config
begin

section \<open>The Telegram bridge (\<open>internal/transport/telegram/bridge.go\<close>, \<open>commands.go\<close>)\<close>

text \<open>
  The bridge is an agent of its own: it polls Telegram for what the operator writes, answers commands
  from the services, and forwards what its inbox holds to the operator's chats. The text of an error is
  a parameter. A wait for reports takes the pauses of \<open>Collect_reports\<close>; \<open>None\<close> means it is still
  waiting. The delay between two sends and the delay before a retry only let time pass.
\<close>

subsection \<open>Commands\<close>

definition AgentName :: string where
  "AgentName = ''telegram''"

definition bullet :: string where
  "bullet = [CHR 0xE2, CHR 0x80, CHR 0xA2, CHR '' '']"

definition dash :: string where
  "dash = [CHR '' '', CHR 0xE2, CHR 0x80, CHR 0x94, CHR '' '']"

definition helpText :: string where
  "helpText = Join [
     ''LAC'' @ dash @ ''the agents on your machine'',
     [],
     ''/agents            who is working, and where'',
     ''/resources         the shared resources and how busy they are'',
     ''/queue <resource>  who is waiting for it, in order'',
     ''/report [question] ask every agent what it is doing'',
     ''/say <agent> <text>  send a message to one agent'',
     ''/broadcast <text>  tell every agent at once'',
     ''/help              this''] [newline]"

definition splitCommand :: "string \<Rightarrow> string \<times> string" where
  "splitCommand body =
     (case cut_at (CHR '' '') (TrimSpace body) of (command, rest, _) \<Rightarrow>
        (ToLower (case Index command ''@'' of
             Some at \<Rightarrow> if at > 0 then take at command else command
           | None \<Rightarrow> command), TrimSpace rest))"

text \<open>\<^verbatim>\<open>strconv.Quote\<close>, with every character beyond ASCII taken as printable.\<close>

definition go_escape :: "char \<Rightarrow> string" where
  "go_escape c =
     (if c = CHR 0x22 \<or> c = CHR 0x5C then [CHR 0x5C, c]
      else if c = CHR 0x07 then [CHR 0x5C, CHR ''a'']
      else if c = CHR 0x08 then [CHR 0x5C, CHR ''b'']
      else if c = CHR 0x0C then [CHR 0x5C, CHR ''f'']
      else if c = CHR 0x0A then [CHR 0x5C, CHR ''n'']
      else if c = CHR 0x0D then [CHR 0x5C, CHR ''r'']
      else if c = CHR 0x09 then [CHR 0x5C, CHR ''t'']
      else if c = CHR 0x0B then [CHR 0x5C, CHR ''v'']
      else if c < CHR '' '' \<or> c = CHR 0x7F
        then [CHR 0x5C, CHR ''x'', hex_digit (of_char c div 16), hex_digit (of_char c)]
      else [c])"

function quoted_body :: "string \<Rightarrow> string" where
  "quoted_body [] = []"
| "quoted_body (c # cs) =
     (if c < CHR 0x80 then go_escape c @ quoted_body cs
      else (let n = rune_rest c cs
        in if n = 0 then [CHR 0x5C, CHR ''x'', hex_digit (of_char c div 16), hex_digit (of_char c)] @ quoted_body cs
           else (c # take n cs) @ quoted_body (drop n cs)))"
  by pat_completeness auto
termination by (relation "measure length") (auto simp: le_imp_less_Suc)

declare quoted_body.simps [simp del]

definition quoted :: "string \<Rightarrow> string" where
  "quoted s = [CHR 0x22] @ quoted_body s @ [CHR 0x22]"

text \<open>\<^verbatim>\<open>json.Unmarshal\<close> reports a wrong type but fills in what it can; a text is only used without an error.\<close>

definition bodyOf :: "string \<Rightarrow> string" where
  "bodyOf body = json_object [(''text'', body)]"

definition readableBody :: "string \<Rightarrow> string" where
  "readableBody body = (case decode_struct False [(''text'', StringField)] body of
      Some vs \<Rightarrow> if string_at vs ''text'' \<noteq> [] then string_at vs ''text'' else body
    | None \<Rightarrow> body)"

subsection \<open>What the bridge is built from\<close>

record bridge_services =
  bsv_Registry :: registry_options
  bsv_Messaging :: messaging_options
  bsv_mac :: keyed_hash
  bsv_secret :: string
  bsv_Audit :: bool
  bsv_Error :: "err \<Rightarrow> string"

record bridge_options =
  bo_Token :: string
  bo_AllowedChatIDs :: "int list"
  bo_PollTimeout :: duration
  bo_ReportDeadline :: duration

definition New_bridge :: "bridge_options \<Rightarrow> bridge_options res" where
  "New_bridge options0 =
     (if bo_Token options0 = [] then Inl (OtherError ''a telegram bot token is required'')
      else if length (bo_AllowedChatIDs options0) = 0 then Inl (OtherError ''at least one allowed chat id is required'')
      else Inr (options0\<lparr>
        bo_PollTimeout := (if bo_PollTimeout options0 \<le> 0 then 30 * Second else bo_PollTimeout options0),
        bo_ReportDeadline := (if bo_ReportDeadline options0 \<le> 0 then 30 * Second else bo_ReportDeadline options0)\<rparr>))"

subsection \<open>Answers (\<open>commands.go\<close>)\<close>

definition senderName :: "string \<Rightarrow> string action" where
  "senderName agentID = bindE (attemptE (ByID agentID)) (\<lambda>r. case r of
      Inl _ \<Rightarrow> returnE agentID | Inr agent \<Rightarrow> returnE (agent_Name agent))"

definition describeAgents :: "bridge_services \<Rightarrow> string action" where
  "describeAgents sv = bindE (attemptE (Active (bsv_Registry sv))) (\<lambda>r. case r of
      Inl e \<Rightarrow> returnE (''Could not read the roster: '' @ bsv_Error sv e)
    | Inr found \<Rightarrow>
        (let others = filter (\<lambda>a. agent_Name a \<noteq> AgentName) found
         in if length others = 0 then returnE ''No agents are working right now.''
            else returnE (itoa (int (length others)) @ '' agent(s) working:'' @ [newline] @
              concat (map (\<lambda>a. [newline] @ bullet @ agent_Name a @ '' ('' @ agent_Kind a @ '')'' @ [newline] @
                ''  '' @ agent_Workdir a) others))))"

definition usage_of :: "ResourceStatus \<Rightarrow> string" where
  "usage_of s = res_Name (rs_Resource s) @ dash @ itoa (rs_ActiveLeases s) @ ''/'' @
     itoa (res_Capacity (rs_Resource s)) @ '' in use''"

definition describeResources :: "bridge_services \<Rightarrow> string action" where
  "describeResources sv = bindE (attemptE List_resources) (\<lambda>r. case r of
      Inl e \<Rightarrow> returnE (''Could not read the resources: '' @ bsv_Error sv e)
    | Inr statuses \<Rightarrow>
        if length statuses = 0 then returnE ''No shared resources are defined.''
        else returnE (''Resources:'' @ [newline] @ concat (map (\<lambda>s. [newline] @ bullet @ usage_of s @
          (if rs_Waiting s > 0 then '', '' @ itoa (rs_Waiting s) @ '' waiting'' else [])) statuses)))"

definition describe_entry :: "nat \<times> QueueEntry \<Rightarrow> string action" where
  "describe_entry numbered = (case numbered of (position, entry) \<Rightarrow>
     bindE (senderName (qe_AgentID entry)) (\<lambda>name.
     returnE ([newline, newline] @ itoa (int position + 1) @ ''. '' @ name @
       (if qe_Reason entry \<noteq> [] then [newline] @ ''   '' @ qe_Reason entry else []))))"

definition describeQueue :: "bridge_services \<Rightarrow> string \<Rightarrow> string action" where
  "describeQueue sv resourceName =
     (if resourceName = [] then returnE ''Which resource? For example: /queue test''
      else bindE (attemptE (Status resourceName)) (\<lambda>r. case r of
        Inl e \<Rightarrow> returnE (''Could not read '' @ quoted resourceName @ '': '' @ bsv_Error sv e)
      | Inr status \<Rightarrow> bindE (attemptE (Queue resourceName)) (\<lambda>q. case q of
          Inl e \<Rightarrow> returnE (''Could not read the queue for '' @ quoted resourceName @ '': '' @ bsv_Error sv e)
        | Inr entries \<Rightarrow>
            bindE (mapE (enumerate 0 entries) describe_entry) (\<lambda>described.
            returnE (usage_of status @ '', '' @ itoa (int (length entries)) @ '' waiting'' @ concat described)))))"

definition describe_report :: "Report \<Rightarrow> string action" where
  "describe_report item = bindE (senderName (rep_AgentID item)) (\<lambda>name.
     returnE ([newline, newline] @ bullet @ name @ [newline] @ rep_Body item))"

definition describe_collection :: "string \<Rightarrow> ReportRequest \<Rightarrow> ReportCollection \<Rightarrow> string action" where
  "describe_collection question request collection =
     bindE (mapE (rc_Reports collection) describe_report) (\<lambda>told.
     bindE (mapE (rc_SilentAgentIDs collection) senderName) (\<lambda>silent.
     returnE (''Asked '' @ itoa (int (length (rq_AskedAgentIDs request))) @ '' agent(s): '' @ question @ concat told @
       (if length silent > 0 then [newline, newline] @ ''No answer from: '' @ Join silent '', '' else []))))"

text \<open>An answer the bridge gives without waiting.\<close>

definition right_away :: "string action \<Rightarrow> world \<Rightarrow> string option \<times> world" where
  "right_away answer w = (case answer w of (Inr reply, w') \<Rightarrow> (Some reply, w') | (Inl _, w') \<Rightarrow> (Some [], w'))"

definition collectReports ::
  "bridge_services \<Rightarrow> string \<Rightarrow> duration \<Rightarrow> interlude list \<Rightarrow> string \<Rightarrow> world \<Rightarrow> string option \<times> world" where
  "collectReports sv bridgeID deadline ps question0 w =
     (let question = (if question0 = [] then ''What are you working on right now?'' else question0)
      in case Request (bsv_Registry sv) (bsv_Messaging sv) bridgeID question deadline w of
          (Inl e, w1) \<Rightarrow> (Some (''Could not ask: '' @ bsv_Error sv e), w1)
        | (Inr request, w1) \<Rightarrow>
            if length (rq_AskedAgentIDs request) = 0
            then (Some ''No agents are working right now, so there is nobody to ask.'', w1)
            else (case Collect_reports ps (rq_ID request) w1 of
                (None, w2) \<Rightarrow> (None, w2)
              | (Some (Inl e), w2) \<Rightarrow> (Some (''Could not collect the answers: '' @ bsv_Error sv e), w2)
              | (Some (Inr collection), w2) \<Rightarrow> right_away (describe_collection question request collection) w2))"

definition sayTo :: "bridge_services \<Rightarrow> string \<Rightarrow> string \<Rightarrow> string action" where
  "sayTo sv bridgeID rest = (case cut_at (CHR '' '') rest of (recipient, body, found) \<Rightarrow>
     if \<not> found \<or> TrimSpace body = [] then returnE ''Who, and what? For example: /say claude-a please stop rebasing''
     else bindE (attemptE (Send (bsv_Messaging sv) \<lparr>snd_FromAgentID = bridgeID, snd_ToAgentName = recipient,
         snd_Topic = [], snd_Kind = ''operator'', snd_Body = bodyOf body\<rparr>)) (\<lambda>r. case r of
       Inl e \<Rightarrow> returnE (''Could not reach '' @ quoted recipient @ '': '' @ bsv_Error sv e)
     | Inr _ \<Rightarrow> returnE (''Sent to '' @ recipient @ ''.'')))"

definition broadcast :: "bridge_services \<Rightarrow> string \<Rightarrow> string \<Rightarrow> string action" where
  "broadcast sv bridgeID body =
     (if body = [] then returnE ''What should everyone hear? For example: /broadcast I am about to rebase main''
      else bindE (attemptE (Send (bsv_Messaging sv) \<lparr>snd_FromAgentID = bridgeID, snd_ToAgentName = [],
         snd_Topic = BroadcastTopic, snd_Kind = ''operator'', snd_Body = bodyOf body\<rparr>)) (\<lambda>r. case r of
       Inl e \<Rightarrow> returnE (''Could not send: '' @ bsv_Error sv e)
     | Inr sent \<Rightarrow> returnE (''Told '' @ itoa (int (length (sent_RecipientIDs sent))) @ '' agent(s).'')))"

definition respond_to ::
  "bridge_services \<Rightarrow> string \<Rightarrow> duration \<Rightarrow> interlude list \<Rightarrow> string \<Rightarrow> world \<Rightarrow> string option \<times> world" where
  "respond_to sv bridgeID deadline ps body w = (case splitCommand body of (command, rest) \<Rightarrow>
     if command = ''/start'' \<or> command = ''/help'' then (Some helpText, w)
     else if command = ''/agents'' then right_away (describeAgents sv) w
     else if command = ''/resources'' then right_away (describeResources sv) w
     else if command = ''/queue'' then right_away (describeQueue sv rest) w
     else if command = ''/report'' then collectReports sv bridgeID deadline ps rest w
     else if command = ''/say'' then right_away (sayTo sv bridgeID rest) w
     else if command = ''/broadcast'' then right_away (broadcast sv bridgeID rest) w
     else if \<not> HasPrefix command ''/'' then collectReports sv bridgeID deadline ps body w
     else (Some (''I do not know that command.'' @ [newline, newline] @ helpText), w))"

subsection \<open>The bridge (\<open>bridge.go\<close>)\<close>

text \<open>A daemon operation run by the bridge; its failure is handed back.\<close>

definition in_world :: "'a action \<Rightarrow> (bridge, telegram_error, err + 'a) op" where
  "in_world m = (\<lambda>b. case m (br_world b) of (r, w) \<Rightarrow> (Inr r, b\<lparr>br_world := w\<rparr>))"

definition chat_allowed :: "bridge_options \<Rightarrow> int \<Rightarrow> bool" where
  "chat_allowed options chat_id = List.member (bo_AllowedChatIDs options) chat_id"

definition bridge_audit :: "bridge_services \<Rightarrow> string \<Rightarrow> string \<Rightarrow> unit action" where
  "bridge_audit sv target detail =
     (if \<not> bsv_Audit sv then returnE ()
      else bindE now (\<lambda>at.
        bindE (attemptE (exec (Audit_Append (entry_of AgentName AuditAuthDenied target detail at)))) (\<lambda>_. returnE ())))"

text \<open>What happens with one message: \<open>True\<close> when it has been dealt with.\<close>

definition handleMessage ::
  "bot_api \<Rightarrow> bridge_services \<Rightarrow> bridge_options \<Rightarrow> interlude list \<Rightarrow> message \<Rightarrow> bridge \<Rightarrow> bool \<times> bridge" where
  "handleMessage api sv options ps incoming b =
     (if \<not> chat_allowed options (ch_ID (me_Chat incoming))
      then (True, b\<lparr>br_world := snd (bridge_audit sv (''telegram chat '' @ itoa (ch_ID (me_Chat incoming)))
        ''a message arrived from a chat that is not on the allowlist and was ignored'' (br_world b))\<rparr>)
      else if TrimSpace (me_Text incoming) = [] then (True, b)
      else (case respond_to sv (br_agentID b) (bo_ReportDeadline options) ps (TrimSpace (me_Text incoming)) (br_world b) of
          (None, w) \<Rightarrow> (False, b\<lparr>br_world := w\<rparr>)
        | (Some reply, w) \<Rightarrow>
            if reply = [] then (True, b\<lparr>br_world := w\<rparr>)
            else (True, snd (sendMessage api (bo_Token options) (ch_ID (me_Chat incoming)) reply (b\<lparr>br_world := w\<rparr>)))))"

text \<open>The updates of one answer, each with the pauses of its wait, and the offset after them.\<close>

fun handle_updates :: "bot_api \<Rightarrow> bridge_services \<Rightarrow> bridge_options \<Rightarrow> interlude list list \<Rightarrow> update list \<Rightarrow>
    int \<Rightarrow> bridge \<Rightarrow> bool \<times> int \<times> bridge" where
  "handle_updates api sv options pss [] offset b = (True, offset, b)"
| "handle_updates api sv options pss (item # rest) offset b =
     (let offset' = max offset (up_UpdateID item + 1)
      in case up_Message item of
          None \<Rightarrow> handle_updates api sv options pss rest offset' b
        | Some incoming \<Rightarrow>
            (case handleMessage api sv options (case pss of [] \<Rightarrow> [] | ps # _ \<Rightarrow> ps) incoming b of
                (False, b') \<Rightarrow> (False, offset', b')
              | (True, b') \<Rightarrow> handle_updates api sv options (tl pss) rest offset' b'))"

text \<open>
  One turn of the polling loop. \<open>ended\<close> says whether the context has ended at the head of the loop,
  and \<open>ended_after\<close> whether it has after a failed poll or during the delay before the retry.
\<close>

datatype poll_end = Stopped | Again int | Collecting

definition poll_turn :: "bot_api \<Rightarrow> bridge_services \<Rightarrow> bridge_options \<Rightarrow> bool \<Rightarrow> bool \<Rightarrow> interlude list list \<Rightarrow>
    int \<Rightarrow> bridge \<Rightarrow> poll_end \<times> bridge" where
  "poll_turn api sv options ended ended_after pss offset b =
     (if ended then (Stopped, b)
      else (case getUpdates api (bo_Token options) offset (bo_PollTimeout options) b of
          (Inl e, b1) \<Rightarrow> if ended_after \<or> e = TGUnauthorised then (Stopped, b1) else (Again offset, b1)
        | (Inr found, b1) \<Rightarrow> (case handle_updates api sv options pss found offset b1 of
              (False, _, b2) \<Rightarrow> (Collecting, b2)
            | (True, offset', b2) \<Rightarrow> (Again offset', b2))))"

definition register_bridge :: "bridge_services \<Rightarrow> unit bridge_action" where
  "register_bridge sv =
     bindE (in_world (RegisterInternal (bsv_mac sv) (bsv_secret sv) (bsv_Registry sv)
       \<lparr>reg_Name = AgentName, reg_Kind = ''telegram'', reg_Workdir = [], reg_ProcessID = 0\<rparr>)) (\<lambda>r. case r of
       Inl e \<Rightarrow> throwE (TGFailed (''registering the telegram bridge: '' @ bsv_Error sv e))
     | Inr registration \<Rightarrow> (\<lambda>b. (Inr (), b\<lparr>br_agentID := agent_ID (registered_Agent registration)\<rparr>)))"

text \<open>What \<open>Run\<close> does before it polls, from offset 0.\<close>

definition start_bridge :: "bot_api \<Rightarrow> bridge_services \<Rightarrow> bridge_options \<Rightarrow> unit bridge_action" where
  "start_bridge api sv options =
     bindE (getMe api (bo_Token options)) (\<lambda>_. register_bridge sv)"

subsection \<open>Forwarding\<close>

definition forward_text :: "string \<Rightarrow> Message \<Rightarrow> string" where
  "forward_text who item = who @ '' ('' @ msg_Kind item @ ''):'' @ [newline] @ readableBody (msg_Body item)"

fun forward_to :: "bot_api \<Rightarrow> string \<Rightarrow> int list \<Rightarrow> string \<Rightarrow> nat \<Rightarrow> nat bridge_action" where
  "forward_to api token [] body delivered = returnE delivered"
| "forward_to api token (chat_id # rest) body delivered =
     bindE (attemptE (sendMessage api token chat_id body)) (\<lambda>r. case r of
       Inl _ \<Rightarrow> forward_to api token rest body delivered
     | Inr _ \<Rightarrow> forward_to api token rest body (delivered + 1))"

fun forward_each :: "bot_api \<Rightarrow> bridge_options \<Rightarrow> Message list \<Rightarrow> nat \<Rightarrow> nat bridge_action" where
  "forward_each api options [] delivered = returnE delivered"
| "forward_each api options (item # rest) delivered =
     bindE (in_world (senderName (msg_FromAgentID item))) (\<lambda>who.
     bindE (forward_to api (bo_Token options) (bo_AllowedChatIDs options)
       (forward_text (case who of Inr name \<Rightarrow> name | Inl _ \<Rightarrow> msg_FromAgentID item) item) delivered) (\<lambda>reached b.
     bindE (in_world (Acknowledge (br_agentID b) [msg_ID item])) (\<lambda>_.
     forward_each api options rest reached) b))"

text \<open>\<^verbatim>\<open>Bridge.Broadcast\<close>, the front end the notifier calls.\<close>

definition Bridge_Broadcast :: "bot_api \<Rightarrow> bridge_options \<Rightarrow> string \<Rightarrow> string \<Rightarrow> nat bridge_action" where
  "Bridge_Broadcast api options agentID rpc_method = (\<lambda>b.
     if agentID \<noteq> br_agentID b \<or> rpc_method \<noteq> NotificationMethod then (Inr 0, b)
     else bindE (in_world (Inbox (br_agentID b) 0)) (\<lambda>r. case r of
         Inl _ \<Rightarrow> returnE 0
       | Inr found \<Rightarrow> forward_each api options found 0) b)"

end
