(* ===== verification/TelegramProperties.thy ===== *)
theory TelegramProperties
  imports Telegram MailScenario
begin

section \<open>Properties of the Telegram bridge\<close>

text \<open>
  What reaches the operator's phone is whole, what leaves the machine goes to the operator alone, a
  stranger changes nothing, and what is forwarded leaves the inbox.
\<close>

subsection \<open>Long messages\<close>

definition line_ends :: "string \<Rightarrow> bool" where
  "line_ends g \<longleftrightarrow> set g \<subseteq> {newline}"

text \<open>The pieces are a text with line endings dropped between them.\<close>

definition pieces_of :: "string list \<Rightarrow> string \<Rightarrow> bool" where
  "pieces_of pieces body \<longleftrightarrow> (\<exists>gaps. length gaps = length pieces \<and> list_all line_ends gaps \<and>
     body = concat (map2 (@) pieces gaps))"

lemma pieces_of_one: "pieces_of [s] s"
  unfolding pieces_of_def by (rule exI [of _ "[[]]"]) (simp add: line_ends_def)

lemma pieces_of_none: "pieces_of [] []"
  by (simp add: pieces_of_def)

lemma pieces_of_Cons: "pieces_of ps s \<Longrightarrow> line_ends g \<Longrightarrow> pieces_of (p # ps) (p @ g @ s)"
  unfolding pieces_of_def by (elim exE, rule_tac x = "g # gaps" in exI) simp

lemma without_line_ends_gap: "\<exists>g. line_ends g \<and> s = without_line_ends s @ g"
proof (intro exI conjI)
  show "line_ends (rev (takeWhile (\<lambda>c. c = newline) (rev s)))"
    by (auto simp: line_ends_def dest: set_takeWhileD)
  have "s = rev (takeWhile (\<lambda>c. c = newline) (rev s) @ dropWhile (\<lambda>c. c = newline) (rev s))" by simp
  then show "s = without_line_ends s @ rev (takeWhile (\<lambda>c. c = newline) (rev s))"
    by (simp only: rev_append without_line_ends_def)
qed

lemma without_line_ends_length: "length (without_line_ends s) \<le> length s"
  using length_dropWhile_le [of "\<lambda>c. c = newline" "rev s"] by (simp add: without_line_ends_def)

lemma without_line_ends_Nil: "without_line_ends s = [] \<Longrightarrow> line_ends s"
  by (auto simp: without_line_ends_def line_ends_def)

lemma cut_point_bounds: "0 < limit \<Longrightarrow> limit < length s \<Longrightarrow> 0 < cut_point s limit \<and> cut_point s limit \<le> limit"
  by (auto simp: cut_point_def last_line_end_def split: option.split)

lemma split_rest_pieces:
  "0 < limit \<Longrightarrow> list_all (\<lambda>p. length p \<le> limit) (split_rest s limit) \<and> pieces_of (split_rest s limit) s \<and>
     ((s = [] \<or> hd s \<noteq> newline) \<longrightarrow> [] \<notin> set (split_rest s limit))"
proof (induction s limit rule: split_rest.induct)
  case (1 s limit)
  show ?case
  proof (cases "length s \<le> limit")
    case True
    then show ?thesis by (simp add: split_rest.simps [of s limit] pieces_of_one pieces_of_none)
  next
    case False
    define k where "k = cut_point s limit"
    let ?p = "without_line_ends (take k s)" and ?s = "dropWhile (\<lambda>c. c = newline) (drop k s)"
    have k: "0 < k" "k \<le> limit" using cut_point_bounds [of limit s] 1(2) False by (simp_all add: k_def)
    have e: "split_rest s limit = ?p # split_rest ?s limit"
      using False 1(2) by (simp add: split_rest.simps [of s limit] k_def Let_def)
    have ih: "list_all (\<lambda>p. length p \<le> limit) (split_rest ?s limit)" "pieces_of (split_rest ?s limit) ?s"
      "(?s = [] \<or> hd ?s \<noteq> newline) \<longrightarrow> [] \<notin> set (split_rest ?s limit)"
      using 1(1) [OF _ k_def 1(2)] 1(2) False by simp_all
    obtain g where g: "line_ends g" "take k s = ?p @ g" using without_line_ends_gap by blast
    let ?g = "takeWhile (\<lambda>c. c = newline) (drop k s)"
    have "line_ends (g @ ?g)" using g(1) by (auto simp: line_ends_def dest: set_takeWhileD)
    moreover have "?p @ (g @ ?g) @ ?s = (?p @ g) @ (?g @ ?s)" by simp
    then have "s = ?p @ (g @ ?g) @ ?s"
      using g(2) by (metis append_take_drop_id takeWhile_dropWhile_id)
    ultimately have "pieces_of (?p # split_rest ?s limit) s" using pieces_of_Cons ih(2) by metis
    moreover have "length ?p \<le> limit" using without_line_ends_length [of "take k s"] k by simp
    moreover have "[] \<notin> set (?p # split_rest ?s limit)" if start: "s = [] \<or> hd s \<noteq> newline"
    proof -
      have "take k s \<noteq> []" "hd (take k s) = hd s" using k False by (auto simp: hd_take)
      then have "hd s \<in> set (take k s)" using hd_in_set by metis
      with start False have "\<not> line_ends (take k s)" by (auto simp: line_ends_def)
      then have "?p \<noteq> []" using without_line_ends_Nil by blast
      moreover have "?s = [] \<or> hd ?s \<noteq> newline" using hd_dropWhile [of "\<lambda>c. c = newline" "drop k s"] by blast
      ultimately show ?thesis using ih(3) by auto
    qed
    ultimately show ?thesis using e ih(1) by simp
  qed
qed




subsection \<open>Who is answered\<close>

text \<open>A message leaves only for a chat on the allowlist, and no longer than Telegram takes.\<close>

definition proper_call :: "bridge_options \<Rightarrow> string \<times> string \<Rightarrow> bool" where
  "proper_call options c \<longleftrightarrow> (case c of (api_method, payload) \<Rightarrow>
     api_method = ''sendMessage'' \<longrightarrow> (\<exists>chat_id part. chat_id \<in> set (bo_AllowedChatIDs options) \<and>
       length part \<le> maxMessageLength \<and> payload = message_payload chat_id part))"

definition calls_grow :: "bridge_options \<Rightarrow> bridge \<Rightarrow> bridge \<Rightarrow> bool" where
  "calls_grow options b b' \<longleftrightarrow> br_agentID b' = br_agentID b \<and>
     (\<exists>made. br_calls b' = br_calls b @ made \<and> (\<forall>c \<in> set made. proper_call options c))"

interpretation calls: effect_order "calls_grow options"
proof
  show "calls_grow options w w" for w by (simp add: calls_grow_def)
  show "calls_grow options u w" if "calls_grow options u v" "calls_grow options v w" for u v w
    using that unfolding calls_grow_def by (metis (no_types, lifting) UnE append.assoc set_append)
qed

lemma call_api_grow: "proper_call options (api_method, payload) \<Longrightarrow> conforms (calls_grow options) (call_api api token api_method payload)"
  by (simp add: conforms_def call_api_def calls_grow_def)

lemma in_world_grow: "conforms (calls_grow options) (in_world m)"
  by (auto simp: conforms_def in_world_def calls_grow_def split: prod.split)

lemma sendMessage_grow:
  assumes "chat_id \<in> set (bo_AllowedChatIDs options)"
  shows "conforms (calls_grow options) (sendMessage api token chat_id body)"
proof -
  have "length part \<le> maxMessageLength" if "part \<in> set (split_message body maxMessageLength)" for part
    using that split_rest_pieces [of maxMessageLength body]
    by (auto simp: split_message_def list_all_iff maxMessageLength_def split: if_splits)
  then show ?thesis unfolding sendMessage_def using assms
    by (intro calls.resp_for calls.resp_bind call_api_grow calls.resp_return) (auto simp: proper_call_def)
qed

lemma getUpdates_grow: "conforms (calls_grow options) (getUpdates api token offset wait)"
  unfolding getUpdates_def
  by (auto intro!: calls.resp_intros call_api_grow simp: proper_call_def split: option.split)

lemma handleMessage_grow:
  "calls_grow options b (snd (handleMessage api sv options ps incoming b))"
proof -
  have world: "calls_grow options b (b\<lparr>br_world := w\<rparr>)" for w by (simp add: calls_grow_def)
  have "calls_grow options b (snd (sendMessage api token (ch_ID (me_Chat incoming)) reply (b\<lparr>br_world := w\<rparr>)))"
    if "chat_allowed options (ch_ID (me_Chat incoming))" for token reply w
  proof -
    have "conforms (calls_grow options) (sendMessage api token (ch_ID (me_Chat incoming)) reply)"
      using that by (auto simp: chat_allowed_def intro: sendMessage_grow)
    then show ?thesis using world unfolding conforms_def by (blast intro: calls.R_trans)
  qed
  with world show ?thesis by (auto simp: handleMessage_def calls.R_refl split: prod.split option.split)
qed

lemma handle_updates_grow:
  "calls_grow options b (snd (snd (handle_updates api sv options pss found offset b)))"
proof (induction found arbitrary: pss offset b)
  case Nil
  then show ?case by (simp add: calls.R_refl)
next
  case (Cons item found)
  show ?case
  proof (cases "up_Message item")
    case None
    then show ?thesis using Cons by (simp add: Let_def)
  next
    case (Some incoming)
    let ?ps = "case pss of [] \<Rightarrow> [] | ps # _ \<Rightarrow> ps"
    obtain finished b1 where e: "handleMessage api sv options ?ps incoming b = (finished, b1)" by fastforce
    have "calls_grow options b b1" using handleMessage_grow [of options b api sv ?ps incoming] e by simp
    with Some e Cons show ?thesis
      by (cases finished) (auto simp: Let_def intro: calls.R_trans)
  qed
qed

lemma poll_turn_grow: "calls_grow options b (snd (poll_turn api sv options ended ended_after pss offset b))"
proof (cases "getUpdates api (bo_Token options) offset (bo_PollTimeout options) b")
  case (Pair r b1)
  have "calls_grow options b b1" using getUpdates_grow Pair by (metis conformsD)
  moreover have "calls_grow options b1 (snd (snd (handle_updates api sv options pss found offset b1)))" for found
    by (rule handle_updates_grow)
  ultimately show ?thesis using Pair
    by (auto simp: poll_turn_def calls.R_refl split: sum.split prod.split bool.split dest: calls.R_trans)
      (metis calls.R_trans snd_conv)+
qed

lemma forward_to_grow:
  "set chats \<subseteq> set (bo_AllowedChatIDs options) \<Longrightarrow> conforms (calls_grow options) (forward_to api token chats body n)"
proof (induction chats arbitrary: n)
  case Nil
  show ?case by (simp only: forward_to.simps calls.resp_return)
next
  case (Cons chat_id chats)
  then have "conforms (calls_grow options) (forward_to api token chats body m)" for m by simp
  with Cons.prems show ?case
    by (auto intro!: calls.resp_bind calls.resp_attempt sendMessage_grow split: sum.split)
qed

lemma forward_each_grow: "conforms (calls_grow options) (forward_each api options found n)"
proof (induction found arbitrary: n)
  case Nil
  show ?case by (simp only: forward_each.simps calls.resp_return)
next
  case (Cons item found)
  have "conforms (calls_grow options) (\<lambda>b. bindE (in_world (Acknowledge (br_agentID b) [msg_ID item]))
      (\<lambda>_. forward_each api options found reached) b)" for reached
    using calls.resp_bind [OF in_world_grow, where f = "\<lambda>_. forward_each api options found reached"] Cons
    unfolding conforms_def by blast
  then show ?case by (auto intro!: calls.resp_bind in_world_grow forward_to_grow)
qed

lemma Bridge_Broadcast_grow: "conforms (calls_grow options) (Bridge_Broadcast api options agentID rpc_method)"
proof -
  have "conforms (calls_grow options) (bindE (in_world (Inbox bridgeID 0)) (\<lambda>r. case r of
         Inl _ \<Rightarrow> returnE 0 | Inr found \<Rightarrow> forward_each api options found 0))" for bridgeID
    by (auto intro!: calls.resp_intros in_world_grow forward_each_grow split: sum.split)
  then show ?thesis by (auto simp: Bridge_Broadcast_def conforms_def calls.R_refl)
qed

text \<open>The bridge between its steps: it starts, polls, is told of a message; meanwhile the daemon goes on.\<close>

inductive bridge_run :: "bot_api \<Rightarrow> bridge_services \<Rightarrow> bridge_options \<Rightarrow> bridge \<Rightarrow> bool" for api sv options where
  created: "bridge_run api sv options \<lparr>br_world = w, br_agentID = [], br_calls = []\<rparr>"
| started: "bridge_run api sv options b \<Longrightarrow> start_bridge api sv options b = (r, b') \<Longrightarrow> bridge_run api sv options b'"
| polled: "bridge_run api sv options b \<Longrightarrow>
    poll_turn api sv options ended ended_after pss offset b = (e, b') \<Longrightarrow> bridge_run api sv options b'"
| notified: "bridge_run api sv options b \<Longrightarrow> Bridge_Broadcast api options agentID rpc_method b = (r', b') \<Longrightarrow>
    bridge_run api sv options b'"
| elsewhere: "bridge_run api sv options b \<Longrightarrow> bridge_run api sv options (b\<lparr>br_world := w\<rparr>)"

lemma start_bridge_calls:
  "start_bridge api sv options b = (r, b') \<Longrightarrow> br_calls b' = br_calls b @ [(''getMe'', ''null'')]"
  by (auto simp: start_bridge_def getMe_def register_bridge_def bindE_apply call_api_def in_world_def
      split: sum.splits option.splits prod.splits)

lemma bridge_run_calls: "bridge_run api sv options b \<Longrightarrow> \<forall>c \<in> set (br_calls b). proper_call options c"
proof (induction rule: bridge_run.induct)
  case (started b r b')
  then show ?case using start_bridge_calls [OF started(2)] by (auto simp: proper_call_def)
next
  case (polled b ended ended_after pss offset e b')
  then show ?case using poll_turn_grow [of options b api sv ended ended_after pss offset] by (auto simp: calls_grow_def)
next
  case (notified b agentID rpc_method r' b')
  then show ?case using conformsD [OF Bridge_Broadcast_grow notified(2)] by (auto simp: calls_grow_def)
qed simp_all

text \<open>The entry a refused chat leaves, and the daemon with it.\<close>

definition refusal_row :: "int \<Rightarrow> world \<Rightarrow> audit_log_row" where
  "refusal_row chat_id w = \<lparr>audit_log_id = audit_log_seq (w_db w) + 1, audit_log_actor = AgentName,
     audit_log_action = AuditAuthDenied, audit_log_target = ''telegram chat '' @ itoa chat_id,
     audit_log_detail = ''a message arrived from a chat that is not on the allowlist and was ignored'',
     audit_log_at = requireMicros (time_of w)\<rparr>"

definition with_refusal :: "int \<Rightarrow> world \<Rightarrow> world" where
  "with_refusal chat_id w = w\<lparr>w_ticks := Suc (w_ticks w), w_db := (w_db w)
     \<lparr>audit_log_seq := audit_log_seq (w_db w) + 1, audit_log := audit_log (w_db w) @ [refusal_row chat_id w]\<rparr>\<rparr>"

lemma strangers_message:
  assumes "ch_ID (me_Chat incoming) \<notin> set (bo_AllowedChatIDs options)" and "bsv_Audit sv"
  shows "handleMessage api sv options ps incoming b =
    (True, b\<lparr>br_world := with_refusal (ch_ID (me_Chat incoming)) (br_world b)\<rparr>)"
  using assms by (simp add: handleMessage_def chat_allowed_def bridge_audit_def attemptE_apply bindE_apply exec_apply
      Audit_Append_def entry_of_def AgentName_def with_refusal_def refusal_row_def)

definition sample_services :: bridge_services where
  "sample_services = \<lparr>bsv_Registry = New_registry Minute [] None, bsv_Messaging = sample_mail, bsv_mac = (\<lambda>_ x. x),
     bsv_secret = ''key'', bsv_Audit = True, bsv_Error = (\<lambda>_. ''no'')\<rparr>"

definition sample_operator :: bridge_options where
  "sample_operator = \<lparr>bo_Token = ''1:a'', bo_AllowedChatIDs = [7], bo_PollTimeout = Second, bo_ReportDeadline = Second\<rparr>"

definition silent_api :: bot_api where
  "silent_api = (\<lambda>n api_method payload. NoAnswer ''timeout'')"

text \<open>C37: The bridge speaks to the operator alone. In any run, whatever Telegram sends and answers, every
  message that leaves goes to a chat on the allowlist, a piece of at most 4096 bytes; and a message from
  any other chat is answered with nothing, makes no call at all and changes nothing of the daemon but
  one audit entry that names the chat.\<close>

theorem only_the_operator_is_answered:
  assumes "bridge_run api sv options b" and "bsv_Audit sv"
  shows "(\<forall>payload. (''sendMessage'', payload) \<in> set (br_calls b) \<longrightarrow>
      (\<exists>chat_id part. chat_id \<in> set (bo_AllowedChatIDs options) \<and> length part \<le> 4096 \<and> payload = message_payload chat_id part)) \<and>
    (\<forall>incoming ps. ch_ID (me_Chat incoming) \<notin> set (bo_AllowedChatIDs options) \<longrightarrow>
      handleMessage api sv options ps incoming b =
        (True, b\<lparr>br_world := with_refusal (ch_ID (me_Chat incoming)) (br_world b)\<rparr>))"
  using bridge_run_calls [OF assms(1)] strangers_message [OF _ assms(2)]
  by (auto simp: proper_call_def maxMessageLength_def)

definition said :: "int \<Rightarrow> string \<Rightarrow> message" where
  "said chat_id body = \<lparr>me_MessageID = 1, me_From = None, me_Chat = \<lparr>ch_ID = chat_id, ch_Type = ''private''\<rparr>,
     me_Date = 0, me_Text = body\<rparr>"

definition new_bridge :: bridge where
  "new_bridge = \<lparr>br_world = sample_world, br_agentID = [], br_calls = []\<rparr>"

theorem only_the_operator_is_answered_witness:
  "fst (handleMessage silent_api sample_services sample_operator [] (said 8 ''/agents'') new_bridge) \<and>
   br_calls (snd (handleMessage silent_api sample_services sample_operator [] (said 8 ''/agents'') new_bridge)) = []"
proof -
  have "bridge_run silent_api sample_services sample_operator new_bridge"
    unfolding new_bridge_def by (rule bridge_run.created)
  moreover have "bsv_Audit sample_services" by (simp add: sample_services_def)
  ultimately have "handleMessage silent_api sample_services sample_operator [] (said 8 ''/agents'') new_bridge =
      (True, new_bridge\<lparr>br_world := with_refusal 8 (br_world new_bridge)\<rparr>)"
    using only_the_operator_is_answered [of silent_api sample_services sample_operator new_bridge]
    by (auto simp: said_def sample_operator_def)
  then show ?thesis by (simp add: new_bridge_def)
qed

subsection \<open>Forwarding\<close>

definition world_kept :: "bridge \<Rightarrow> bridge \<Rightarrow> bool" where
  "world_kept b b' \<longleftrightarrow> br_world b' = br_world b \<and> br_agentID b' = br_agentID b \<and> set (br_calls b) \<subseteq> set (br_calls b')"

interpretation outside: effect_order world_kept
  by unfold_locales (auto simp: world_kept_def)

lemma call_api_kept: "conforms world_kept (call_api api token api_method payload)"
  by (auto simp: conforms_def call_api_def world_kept_def)

lemma sendMessage_kept: "conforms world_kept (sendMessage api token chat_id body)"
  unfolding sendMessage_def by (intro outside.resp_for outside.resp_bind call_api_kept outside.resp_return)

text \<open>The piece a chat is sent first.\<close>

definition first_call :: "int \<Rightarrow> string \<Rightarrow> string \<times> string" where
  "first_call chat_id body = (''sendMessage'', message_payload chat_id (hd (split_message body maxMessageLength)))"

lemma sendMessage_first: "body \<noteq> [] \<Longrightarrow> first_call chat_id body \<in> set (br_calls (snd (sendMessage api token chat_id body b)))"
proof -
  assume "body \<noteq> []"
  then have "split_message body maxMessageLength \<noteq> []"
    by (auto simp: split_message_def maxMessageLength_def split_rest.simps [of body] Let_def)
  then obtain p ps where pieces: "split_message body maxMessageLength = p # ps" by (cases "split_message body maxMessageLength") auto
  let ?send = "\<lambda>part. bindE (call_api api token ''sendMessage'' (message_payload chat_id part)) (\<lambda>_. returnE ())"
  have "conforms world_kept (forE ps ?send)"
    by (intro outside.resp_for outside.resp_bind call_api_kept outside.resp_return)
  then have "set (br_calls v) \<subseteq> set (br_calls (snd (forE ps ?send v)))" for v by (simp add: conforms_def world_kept_def)
  then show ?thesis
    by (auto simp: sendMessage_def pieces first_call_def bindE_apply call_api_def split: sum.splits prod.splits)
      (force split: sum.splits prod.splits)+
qed

definition name_of :: "db \<Rightarrow> string \<Rightarrow> string" where
  "name_of d agentID = (case Agents_ByID agentID d of Inl _ \<Rightarrow> agentID | Inr agent \<Rightarrow> agent_Name agent)"

lemma senderName_eq: "senderName agentID w = (Inr (name_of (w_db w) agentID), w)"
  by (simp add: senderName_def attemptE_apply bindE_apply ByID_def name_of_def split: sum.split)

lemma name_of_deliveries [simp]: "name_of (d\<lparr>deliveries := x\<rparr>) = name_of d"
  by (rule ext) (simp add: name_of_def Agents_ByID_def)

lemma forward_to_effect:
  "body \<noteq> [] \<Longrightarrow> forward_to api token chats body n b = (r, b') \<Longrightarrow>
     (\<exists>k. r = Inr (n + k) \<and> k \<le> length chats) \<and> world_kept b b' \<and>
     (\<forall>chat_id \<in> set chats. first_call chat_id body \<in> set (br_calls b'))"
proof (induction chats arbitrary: n b)
  case Nil
  then show ?case by (simp add: outside.R_refl)
next
  case (Cons chat_id chats)
  obtain o1 b1 where e: "sendMessage api token chat_id body b = (o1, b1)" by fastforce
  have sent: "first_call chat_id body \<in> set (br_calls b1)"
    using sendMessage_first [OF Cons.prems(1), of chat_id api token b] e by simp
  have kept: "world_kept b b1" using conformsD [OF sendMessage_kept e] .
  define m where "m = (case o1 of Inl _ \<Rightarrow> n | Inr _ \<Rightarrow> n + 1)"
  have "forward_to api token chats body m b1 = (r, b')"
    using Cons.prems(2) e by (simp add: bindE_apply attemptE_apply m_def split: sum.splits)
  from Cons.IH [OF Cons.prems(1) this] have rest: "\<exists>k. r = Inr (m + k) \<and> k \<le> length chats" "world_kept b1 b'"
    "\<forall>chat_id \<in> set chats. first_call chat_id body \<in> set (br_calls b')" by blast+
  have "\<exists>k. r = Inr (n + k) \<and> k \<le> length (chat_id # chats)"
    using rest(1) by (cases o1) (auto simp: m_def)
  moreover have "first_call chat_id body \<in> set (br_calls b')" using sent rest(2) by (auto simp: world_kept_def)
  ultimately show ?case using rest(2,3) outside.R_trans [OF kept] by simp
qed

lemma acknowledge_one:
  "in_world (Acknowledge a ids) b = (r, b') \<Longrightarrow>
     (\<forall>agent. mailbox (w_db (br_world b')) agent = (if agent = a
        then {m \<in> mailbox (w_db (br_world b)) agent. messages_id m \<notin> set ids} else mailbox (w_db (br_world b)) agent)) \<and>
     name_of (w_db (br_world b')) = name_of (w_db (br_world b)) \<and>
     br_agentID b' = br_agentID b \<and> br_calls b' = br_calls b \<and> (\<exists>x. r = Inr x)"
proof -
  assume e: "in_world (Acknowledge a ids) b = (r, b')"
  obtain o1 w where a: "Acknowledge a ids (br_world b) = (o1, w)" by fastforce
  then obtain n where n: "o1 = Inr n" using Acknowledge_Inl by (cases o1) auto
  from a n have m: "Messages_Acknowledge a ids (time_of (br_world b)) (w_db (br_world b)) = Inr (n, w_db w)"
    using Acknowledge_run by blast
  have b': "b' = b\<lparr>br_world := w\<rparr>" "\<exists>x. r = Inr x" using e a by (auto simp: in_world_def)
  show ?thesis using b' Acknowledge_mailbox [OF m] m by (auto simp: Acknowledge_Inr)
qed

lemma forward_each_effect:
  assumes "forward_each api options found n b = (r, b')"
  shows "(\<exists>k. r = Inr (n + k) \<and> k \<le> length found * length (bo_AllowedChatIDs options)) \<and>
     (\<forall>a. mailbox (w_db (br_world b')) a = (if a = br_agentID b
        then {m \<in> mailbox (w_db (br_world b)) a. messages_id m \<notin> msg_ID ` set found} else mailbox (w_db (br_world b)) a)) \<and>
     br_agentID b' = br_agentID b \<and> set (br_calls b) \<subseteq> set (br_calls b') \<and>
     (\<forall>item \<in> set found. \<forall>chat_id \<in> set (bo_AllowedChatIDs options).
        first_call chat_id (forward_text (name_of (w_db (br_world b)) (msg_FromAgentID item)) item) \<in> set (br_calls b'))"
  using assms
proof (induction found arbitrary: n b)
  case Nil
  then show ?case by auto
next
  case (Cons item found)
  let ?body = "forward_text (name_of (w_db (br_world b)) (msg_FromAgentID item)) item"
  have "?body \<noteq> []" by (simp add: forward_text_def)
  obtain o1 b1 where e1: "forward_to api (bo_Token options) (bo_AllowedChatIDs options) ?body n b = (o1, b1)" by fastforce
  from forward_to_effect [OF \<open>?body \<noteq> []\<close> e1] obtain k where k: "o1 = Inr (n + k)" "k \<le> length (bo_AllowedChatIDs options)"
    "world_kept b b1" "\<forall>chat_id \<in> set (bo_AllowedChatIDs options). first_call chat_id ?body \<in> set (br_calls b1)" by blast
  have same: "br_world b1 = br_world b" "br_agentID b1 = br_agentID b" "set (br_calls b) \<subseteq> set (br_calls b1)"
    using k(3) by (simp_all add: world_kept_def)
  obtain o2 b2 where e2: "in_world (Acknowledge (br_agentID b1) [msg_ID item]) b1 = (o2, b2)" by fastforce
  from acknowledge_one [OF e2] same have ack: "\<And>a. mailbox (w_db (br_world b2)) a = (if a = br_agentID b
        then {m \<in> mailbox (w_db (br_world b)) a. messages_id m \<noteq> msg_ID item} else mailbox (w_db (br_world b)) a)"
    "name_of (w_db (br_world b2)) = name_of (w_db (br_world b))" "br_agentID b2 = br_agentID b" "br_calls b2 = br_calls b1"
    "\<exists>x. o2 = Inr x" by auto
  have "forward_each api options found (n + k) b2 = (r, b')"
    using Cons.prems e1 k(1) e2 ack(5)
    by (auto simp: bindE_apply in_world_def senderName_eq)
  note ih = Cons.IH [OF this]
  from ih obtain j where j: "r = Inr (n + k + j)" "j \<le> length found * length (bo_AllowedChatIDs options)" by blast
  show ?case
  proof (intro conjI)
    show "\<exists>i. r = Inr (n + i) \<and> i \<le> length (item # found) * length (bo_AllowedChatIDs options)"
      using j k(2) by (intro exI [of _ "k + j"]) simp
    show "\<forall>a. mailbox (w_db (br_world b')) a = (if a = br_agentID b
        then {m \<in> mailbox (w_db (br_world b)) a. messages_id m \<notin> msg_ID ` set (item # found)} else mailbox (w_db (br_world b)) a)"
      using ih ack(1,3) by auto
    show "br_agentID b' = br_agentID b" using ih ack(3) by simp
    show "set (br_calls b) \<subseteq> set (br_calls b')" using ih ack(4) same(3) by auto
    show "\<forall>x \<in> set (item # found). \<forall>chat_id \<in> set (bo_AllowedChatIDs options).
        first_call chat_id (forward_text (name_of (w_db (br_world b)) (msg_FromAgentID x)) x) \<in> set (br_calls b')"
      using ih ack(2,4) k(4) by auto
  qed
qed

lemma inbox_effect:
  assumes "Pending a limit (w_db w) = Inr found"
  shows "\<exists>w'. Inbox a limit w = (Inr found, w') \<and> name_of (w_db w') = name_of (w_db w) \<and>
    (\<forall>x. mailbox (w_db w') x = mailbox (w_db w) x)"
proof (cases "found = []")
  case True
  then show ?thesis using assms by (simp add: Inbox_def bindE_apply)
next
  case False
  obtain d where d: "MarkDelivered a (map msg_ID found) (time_of w) (w_db w) = Inr d"
    by (simp add: MarkDelivered_Inr)
  have "Inbox a limit w = (Inr found, w\<lparr>w_ticks := Suc (w_ticks w), w_db := d\<rparr>)"
    using assms False d by (simp add: Inbox_def bindE_apply exec_apply)
  moreover have "name_of d = name_of (w_db w)" using d by (auto simp: MarkDelivered_Inr)
  ultimately show ?thesis using MarkDelivered_mailbox [OF d] by simp
qed

text \<open>Forwarding empties the inbox and reaches for every chat. When the bridge is told of a message for
  it, every chat on the allowlist is sent the beginning of each waiting message, under its sender's name,
  and exactly those messages leave the bridge's mailbox, whatever Telegram answered; no other mailbox
  changes. Told of anything else, the bridge does nothing.\<close>

theorem forwarding_empties_the_inbox:
  assumes "Pending (br_agentID b) 0 (w_db (br_world b)) = Inr found"
    and "Bridge_Broadcast api options agentID rpc_method b = (r, b')"
  shows "if agentID = br_agentID b \<and> rpc_method = NotificationMethod
    then (\<exists>reached. r = Inr reached \<and> reached \<le> length found * length (bo_AllowedChatIDs options)) \<and>
      (\<forall>item \<in> set found. \<forall>chat_id \<in> set (bo_AllowedChatIDs options).
        first_call chat_id (forward_text (name_of (w_db (br_world b)) (msg_FromAgentID item)) item) \<in> set (br_calls b')) \<and>
      (\<forall>a. mailbox (w_db (br_world b')) a = (if a = br_agentID b
        then {m \<in> mailbox (w_db (br_world b)) a. messages_id m \<notin> msg_ID ` set found} else mailbox (w_db (br_world b)) a))
    else r = Inr 0 \<and> b' = b"
proof (cases "agentID = br_agentID b \<and> rpc_method = NotificationMethod")
  case False
  then show ?thesis using assms(2) by (auto simp: Bridge_Broadcast_def)
next
  case True
  from inbox_effect [OF assms(1)] obtain w where inbox: "Inbox (br_agentID b) 0 (br_world b) = (Inr found, w)"
    "name_of (w_db w) = name_of (w_db (br_world b))" "\<forall>x. mailbox (w_db w) x = mailbox (w_db (br_world b)) x" by blast
  have "forward_each api options found 0 (b\<lparr>br_world := w\<rparr>) = (r, b')"
    using assms(2) True inbox(1) by (simp add: Bridge_Broadcast_def bindE_apply in_world_def)
  from forward_each_effect [OF this] show ?thesis using True inbox by simp
qed

end
