(* ===== verification/JsonEncode.thy ===== *)
theory JsonEncode
  imports JsonDecode
begin

section \<open>What is written reads back (\<^verbatim>\<open>json.Marshal\<close> and \<^verbatim>\<open>json.Unmarshal\<close>)\<close>

text \<open>
  The values the program writes into JSON objects: strings, whole numbers, truth values, lists of them
  and objects of them. \<open>encoded n v\<close> says that \<open>v\<close> is the text of such a value, nested at most \<open>n\<close> deep:
  the scanner gets past it, cutting a text at its separators does not cut it, and it has no space
  around it. An object of encoded members is read member by member.
\<close>

definition json_list :: "string list \<Rightarrow> string" where
  "json_list vs = ''['' @ Join vs '','' @ '']''"

text \<open>A \<^verbatim>\<open>map[string]any\<close>, its keys in order.\<close>

definition json_members :: "(string \<times> string) list \<Rightarrow> string" where
  "json_members ms = ''{'' @ Join (map (\<lambda>(key, v). json_string key @ '':'' @ v) ms) '','' @ ''}''"

definition json_record :: "(string \<times> string) list \<Rightarrow> string" where
  "json_record ms = json_members (sort_key fst ms)"

definition json_bool :: "bool \<Rightarrow> string" where
  "json_bool b = (if b then ''true'' else ''false'')"

subsection \<open>Strings\<close>

function utf8 :: "string \<Rightarrow> bool" where
  "utf8 [] = True"
| "utf8 (c # cs) = (if c < CHR 0x80 then utf8 cs else rune_rest c cs \<noteq> 0 \<and> utf8 (drop (rune_rest c cs) cs))"
  by pat_completeness auto
termination by (relation "measure length") (auto simp: le_imp_less_Suc)

declare utf8.simps [simp del]

lemma utf8_plain: "list_all (\<lambda>c. c < CHR 0x80) s \<Longrightarrow> utf8 s"
  by (induction s) (auto simp: utf8.simps)

lemma rune_rest_take: "rune_rest c cs = n \<Longrightarrow> n \<noteq> 0 \<Longrightarrow> rune_rest c (take n cs @ rest) = n \<and> n \<le> length cs"
  by (auto simp: rune_rest_def Let_def split: if_splits)

lemma hex_value_digit: "hex_value (hex_digit n) = n mod 16"
proof -
  have "\<forall>m < 16. hex_value (''0123456789abcdef'' ! m) = m" by code_simp
  then show ?thesis by (simp add: hex_digit_def)
qed

lemma unquote_plain: "c \<noteq> CHR 0x5C \<Longrightarrow> c < CHR 0x80 \<Longrightarrow> unquote_body (c # rest) = c # unquote_body rest"
  by (simp add: unquote_body.simps)

lemma unquote_simple: "e \<noteq> CHR ''u'' \<Longrightarrow> unquote_body (CHR 0x5C # e # rest) = simple_escape e # unquote_body rest"
  by (simp add: unquote_body.simps(2) [of "CHR 0x5C"])

lemma unquote_unicode:
  assumes "list_all is_hex [p, q, r, s]" and "n = ((hex_value p * 16 + hex_value q) * 16 + hex_value r) * 16 + hex_value s"
    and "\<not> is_surrogate n"
  shows "unquote_body (CHR 0x5C # CHR ''u'' # p # q # r # s # rest) = utf8_encode n @ unquote_body rest"
  using assms by (simp add: unquote_body.simps(2) [of "CHR 0x5C"])

lemma unquote_escape: "c < CHR 0x80 \<Longrightarrow> unquote_body (json_escape c @ rest) = c # unquote_body rest"
proof -
  assume c: "c < CHR 0x80"
  let ?n = "of_char c :: nat"
  have n: "?n < 128" using c by (simp add: less_char_def)
  have u: "unquote_body ([CHR 0x5C, CHR ''u'', CHR ''0'', CHR ''0'', hex_digit (?n div 16), hex_digit ?n] @ rest) =
      c # unquote_body rest"
  proof -
    have "hex_value (CHR ''0'') = 0" by code_simp
    then have "((hex_value (CHR ''0'') * 16 + hex_value (CHR ''0'')) * 16 + hex_value (hex_digit (?n div 16))) * 16 + hex_value (hex_digit ?n) = ?n"
      using n by (simp add: hex_value_digit)
    moreover have "list_all is_hex [CHR ''0'', CHR ''0'', hex_digit (?n div 16), hex_digit ?n]"
      by (simp add: is_hex_digit) (simp add: is_hex_def is_digit_def)
    moreover have "\<not> is_surrogate ?n" using n by (simp add: is_surrogate_def)
    moreover have "utf8_encode ?n = [c]" using n by (simp add: utf8_encode_def)
    ultimately show ?thesis using unquote_unicode by simp
  qed
  show ?thesis
    using u c by (auto simp: json_escape_def unquote_simple simple_escape_def unquote_plain)
qed

lemma unquote_replacements:
  "unquote_body ((CHR 0x5C # ''u2028'') @ rest) = [CHR 0xE2, CHR 0x80, CHR 0xA8] @ unquote_body rest"
  "unquote_body ((CHR 0x5C # ''u2029'') @ rest) = [CHR 0xE2, CHR 0x80, CHR 0xA9] @ unquote_body rest"
proof -
  have h: "list_all is_hex ''2028'' \<and> list_all is_hex ''2029''" by code_simp
  have v: "((hex_value (CHR ''2'') * 16 + hex_value (CHR ''0'')) * 16 + hex_value (CHR ''2'')) * 16 + hex_value (CHR ''8'') = 0x2028 \<and>
      ((hex_value (CHR ''2'') * 16 + hex_value (CHR ''0'')) * 16 + hex_value (CHR ''2'')) * 16 + hex_value (CHR ''9'') = 0x2029"
    by (simp add: hex_value_def is_digit_def less_eq_char_def)
  have e: "utf8_encode 0x2028 = [CHR 0xE2, CHR 0x80, CHR 0xA8] \<and> utf8_encode 0x2029 = [CHR 0xE2, CHR 0x80, CHR 0xA9]"
    by (simp add: utf8_encode_def char_of_def bit_0)
  show "unquote_body ((CHR 0x5C # ''u2028'') @ rest) = [CHR 0xE2, CHR 0x80, CHR 0xA8] @ unquote_body rest"
    using unquote_unicode [of "CHR ''2''" "CHR ''0''" "CHR ''2''" "CHR ''8''" "0x2028" rest] h v e
    by (simp add: is_surrogate_def)
  show "unquote_body ((CHR 0x5C # ''u2029'') @ rest) = [CHR 0xE2, CHR 0x80, CHR 0xA9] @ unquote_body rest"
    using unquote_unicode [of "CHR ''2''" "CHR ''0''" "CHR ''2''" "CHR ''9''" "0x2029" rest] h v e
    by (simp add: is_surrogate_def)
qed

lemma unquote_rune:
  assumes "\<not> c < CHR 0x80" and "rune_rest c cs = n" and "n \<noteq> 0"
  shows "unquote_body ((c # take n cs) @ rest) = (c # take n cs) @ unquote_body rest"
proof -
  have n: "rune_rest c (take n cs @ rest) = n" "n \<le> length cs" using rune_rest_take [OF assms(2,3)] by auto
  moreover have "c \<noteq> CHR 0x5C" using high_plain [OF assms(1)] by blast
  ultimately show ?thesis
    using assms by (simp add: unquote_body.simps(2) [of c] Let_def min_absorb2)
qed

lemma unquote_body_string: "utf8 s \<Longrightarrow> unquote_body (json_string_body s) = s"
proof (induction s rule: utf8.induct)
  case 1
  show ?case by (simp add: json_string_body.simps unquote_body.simps)
next
  case (2 c cs)
  show ?case
  proof (cases "c < CHR 0x80")
    case True
    with 2 show ?thesis by (simp add: json_string_body.simps(2) [of c] utf8.simps(2) [of c] unquote_escape)
  next
    case False
    define n where "n = rune_rest c cs"
    have n: "n \<noteq> 0" "utf8 (drop n cs)" using 2(3) False by (simp_all add: utf8.simps(2) [of c] n_def)
    then have ih: "unquote_body (json_string_body (drop n cs)) = drop n cs" using 2(2) False by (simp add: n_def)
    have whole: "take n cs @ drop n cs = cs" by simp
    have e: "json_string_body (c # cs) =
       (if c # take n cs = [CHR 0xE2, CHR 0x80, CHR 0xA8] then (CHR 0x5C # ''u2028'') @ json_string_body (drop n cs)
        else if c # take n cs = [CHR 0xE2, CHR 0x80, CHR 0xA9] then (CHR 0x5C # ''u2029'') @ json_string_body (drop n cs)
        else (c # take n cs) @ json_string_body (drop n cs))"
      using False n(1) by (simp only: json_string_body.simps(2) [of c] n_def Let_def if_False)
    have "unquote_body (json_string_body (c # cs)) = (c # take n cs) @ unquote_body (json_string_body (drop n cs))"
      unfolding e using unquote_replacements unquote_rune [OF False n_def [symmetric] n(1)] by (auto simp del: append_Cons)
    then show ?thesis using ih by simp
  qed
qed

lemma unquote_string: "utf8 s \<Longrightarrow> unquote (json_string s) = s"
  by (simp add: unquote_def json_string_def butlast_append unquote_body_string)

subsection \<open>Cutting at separators\<close>

definition glue :: "string \<Rightarrow> string list \<Rightarrow> string list" where
  "glue s ps = foldr prepend s ps"

lemma glue_simps [simp]: "glue [] ps = ps" "glue (c # s) ps = prepend c (glue s ps)" "glue (a @ b) ps = glue a (glue b ps)"
  by (simp_all add: glue_def)

lemma glue_part: "glue s (p # ps) = (s @ p) # ps"
  by (induction s) simp_all

text \<open>Text that stays inside a string, and text that is passed over outside one.\<close>

definition quiet :: "string \<Rightarrow> bool" where
  "quiet s \<longleftrightarrow> (\<forall>sep depth rest. split_top sep depth Inside (s @ rest) = glue s (split_top sep depth Inside rest))"

definition solid :: "char \<Rightarrow> nat \<Rightarrow> string \<Rightarrow> bool" where
  "solid sep least s \<longleftrightarrow> (\<forall>depth rest. least \<le> depth \<longrightarrow>
     split_top sep depth Outside (s @ rest) = glue s (split_top sep depth Outside rest))"

lemma quiet_append: "quiet s \<Longrightarrow> quiet t \<Longrightarrow> quiet (s @ t)"
  by (simp add: quiet_def)

lemma quiet_char: "c \<noteq> CHR 0x22 \<Longrightarrow> c \<noteq> CHR 0x5C \<Longrightarrow> quiet [c]"
  by (simp add: quiet_def depth_after_def)

lemma quiet_plain: "list_all (\<lambda>c. c \<noteq> CHR 0x22 \<and> c \<noteq> CHR 0x5C) s \<Longrightarrow> quiet s"
  by (induction s) (auto simp: quiet_def depth_after_def)

lemma quiet_escaped: "list_all (\<lambda>c. c \<noteq> CHR 0x22 \<and> c \<noteq> CHR 0x5C) s \<Longrightarrow> quiet (CHR 0x5C # e # s)"
  using quiet_plain [of s] by (simp add: quiet_def depth_after_def)

lemma hex_digit_plain: "hex_digit n \<noteq> CHR 0x22 \<and> hex_digit n \<noteq> CHR 0x5C"
proof -
  have "\<forall>m < 16. (''0123456789abcdef'' ! m) \<noteq> CHR 0x22 \<and> (''0123456789abcdef'' ! m) \<noteq> CHR 0x5C" by code_simp
  then show ?thesis by (simp add: hex_digit_def)
qed

lemma quiet_escape: "quiet (json_escape c)"
  using hex_digit_plain quiet_char [of c] quiet_escaped [of "[]"]
    quiet_escaped [of "[CHR ''0'', CHR ''0'', hex_digit (of_char c div 16), hex_digit (of_char c)]" "CHR ''u''"]
  by (auto simp: json_escape_def)

lemma quiet_body: "quiet (json_string_body s)"
proof (induction s rule: json_string_body.induct)
  case 1
  show ?case by (simp add: json_string_body.simps quiet_def)
next
  case (2 c cs)
  have u: "quiet replacement" "quiet (CHR 0x5C # ''u2028'')" "quiet (CHR 0x5C # ''u2029'')"
    by (simp_all add: replacement_def quiet_escaped)
  show ?case
  proof (cases "c < CHR 0x80")
    case True
    with 2 show ?thesis by (simp add: json_string_body.simps(2) [of c] quiet_append quiet_escape)
  next
    case False
    have "quiet (c # take (rune_rest c cs) cs)"
      using False rune_rest_high [of _ c cs] high_plain by (intro quiet_plain) (auto simp: list_all_iff)
    with 2 False u show ?thesis
      by (auto simp: json_string_body.simps(2) [of c cs] Let_def intro!: quiet_append simp del: append_Cons)
  qed
qed

lemma solid_append: "solid sep n s \<Longrightarrow> solid sep n t \<Longrightarrow> solid sep n (s @ t)"
  by (simp add: solid_def)

lemma solid_weaken: "solid sep n s \<Longrightarrow> n \<le> m \<Longrightarrow> solid sep m s"
  by (simp add: solid_def)

lemma solid_string: "sep \<noteq> CHR 0x22 \<Longrightarrow> solid sep 0 (json_string s)"
proof -
  assume sep: "sep \<noteq> CHR 0x22"
  have "split_top sep depth Inside (json_string_body s @ CHR 0x22 # rest) =
      glue (json_string_body s) (prepend (CHR 0x22) (split_top sep depth Outside rest))" for depth rest
    using quiet_body [of s] by (simp add: quiet_def depth_after_def)
  with sep show ?thesis by (auto simp: solid_def json_string_def depth_after_def)
qed

definition plain_text :: "string \<Rightarrow> bool" where
  "plain_text s \<longleftrightarrow> list_all (\<lambda>c. c \<notin> {CHR 0x22, CHR ''{'', CHR ''['', CHR ''}'', CHR '']'', CHR '','', CHR '':''}) s"

lemma solid_plain: "plain_text s \<Longrightarrow> sep \<in> {CHR '','', CHR '':''} \<Longrightarrow> solid sep 0 s"
  by (induction s) (auto simp: plain_text_def solid_def depth_after_def)

text \<open>One level down, separators are passed over as well.\<close>

lemma solid_separator: "c \<in> {CHR '','', CHR '':''} \<Longrightarrow> solid sep 1 [c]"
  by (auto simp: solid_def depth_after_def)

lemma solid_Join: "(\<And>v. v \<in> set vs \<Longrightarrow> solid sep 1 v) \<Longrightarrow> solid sep 1 (Join vs '','')"
proof (induction vs rule: induct_list012)
  case (3 x y zs)
  then have "solid sep 1 (x @ [CHR '',''] @ Join (y # zs) '','')"
    using solid_separator by (intro solid_append) auto
  then show ?case by simp
qed (simp_all add: solid_def)

lemma solid_bracketed:
  assumes "solid sep 1 s" and "(a = CHR ''{'' \<and> b = CHR ''}'') \<or> (a = CHR ''['' \<and> b = CHR '']'')" and "sep \<in> {CHR '','', CHR '':''}"
  shows "solid sep 0 ([a] @ s @ [b])"
proof -
  have "split_top sep (Suc depth) Outside (s @ b # rest) = glue s (prepend b (split_top sep depth Outside rest))" for depth rest
    using assms by (auto simp: solid_def depth_after_def)
  then show ?thesis using assms(2,3) by (auto simp: solid_def depth_after_def)
qed

lemma solid_end: "solid sep 0 v \<Longrightarrow> split_top sep 0 Outside v = [v]"
proof -
  assume "solid sep 0 v"
  then have "split_top sep 0 Outside (v @ []) = glue v (split_top sep 0 Outside [])" unfolding solid_def by blast
  then show ?thesis by (simp add: glue_part)
qed

lemma cut_Join:
  "(\<And>v. v \<in> set vs \<Longrightarrow> solid (CHR '','') 0 v) \<Longrightarrow> vs \<noteq> [] \<Longrightarrow> split_top (CHR '','') 0 Outside (Join vs '','') = vs"
proof (induction vs rule: induct_list012)
  case (2 x)
  then show ?case by (simp add: solid_end)
next
  case (3 x y zs)
  then have "split_top (CHR '','') 0 Outside (x @ '','' @ Join (y # zs) '','') =
      glue x (split_top (CHR '','') 0 Outside ('','' @ Join (y # zs) '',''))" unfolding solid_def by (meson le0 list.set_intros(1))
  with 3 show ?case by (simp add: glue_part)
qed simp

lemma split_member:
  assumes "solid (CHR '':'') 0 k" and "solid (CHR '':'') 0 v"
  shows "split_top (CHR '':'') 0 Outside (k @ '':'' @ v) = [k, v]"
proof -
  have "split_top (CHR '':'') 0 Outside (k @ '':'' @ v) = glue k (split_top (CHR '':'') 0 Outside ('':'' @ v))"
    using assms(1) unfolding solid_def by blast
  then show ?thesis using solid_end [OF assms(2)] by (simp add: glue_part)
qed

subsection \<open>Spaces\<close>

definition tight :: "string \<Rightarrow> bool" where
  "tight v \<longleftrightarrow> v \<noteq> [] \<and> \<not> json_space (hd v) \<and> \<not> json_space (last v)"

lemma trim_tight: "tight v \<Longrightarrow> json_trim v = v"
proof -
  assume t: "tight v"
  then obtain c s where v: "v = c # s" by (cases v) (auto simp: tight_def)
  have "dropWhile json_space v = v" using t v by (simp add: tight_def)
  moreover have "dropWhile json_space (rev v) = rev v"
    using t by (cases "rev v") (auto simp: tight_def last_rev hd_rev [symmetric])
  ultimately show ?thesis by (simp add: json_trim_def)
qed

lemma trim_Nil: "json_trim [] = []"
  by (simp add: json_trim_def)

lemma tight_append: "tight a \<Longrightarrow> tight b \<Longrightarrow> tight (a @ m @ b)"
  by (auto simp: tight_def)

lemma tight_Join: "(\<And>v. v \<in> set vs \<Longrightarrow> tight v) \<Longrightarrow> vs \<noteq> [] \<Longrightarrow> tight (Join vs '','')"
proof (induction vs rule: induct_list012)
  case (3 x y zs)
  then show ?case using tight_append [of x "Join (y # zs) '',''" "'',''"] by simp
qed simp_all

subsection \<open>Getting past a value\<close>

definition scannable :: "nat \<Rightarrow> string \<Rightarrow> bool" where
  "scannable n v \<longleftrightarrow> (\<forall>k stack c rest. length stack + n < maxNestingDepth \<and> c \<in> {CHR '','', CHR ''}'', CHR '']''} \<longrightarrow>
     json_scan (BeginValue, k # stack) (v @ c # rest) = json_scan (EndValue, k # stack) (c # rest))"

definition encoded :: "nat \<Rightarrow> string \<Rightarrow> bool" where
  "encoded n v \<longleftrightarrow> scannable n v \<and> solid (CHR '','') 0 v \<and> solid (CHR '':'') 0 v \<and> tight v \<and> hd v \<noteq> CHR '']''"

lemma encoded_string: "encoded n (json_string s)"
  using solid_string
  by (simp add: encoded_def scannable_def tight_def json_string_def begin_value_def json_space_def scan_string)

lemma encoded_bool: "encoded n (json_bool b)" and encoded_null: "encoded n ''null''"
  by (auto simp: encoded_def scannable_def tight_def json_bool_def begin_value_def json_space_def plain_text_def
      intro!: solid_plain)

lemma scan_digits: "list_all is_digit ds \<Longrightarrow> c \<in> {CHR '','', CHR ''}'', CHR '']''} \<Longrightarrow>
    json_scan (One, k # stack) (ds @ c # rest) = json_scan (EndValue, k # stack) (c # rest)"
proof (induction ds)
  case Nil
  have "\<not> is_digit c" "c \<noteq> CHR ''.''" "c \<noteq> CHR ''e''" "c \<noteq> CHR ''E''" using Nil(2) by (auto simp: is_digit_def less_eq_char_def)
  then show ?case by (simp add: after_zero_def exponent_def)
qed simp

definition numeral_text :: "string \<Rightarrow> bool" where
  "numeral_text s \<longleftrightarrow> s = ''0'' \<or> (\<exists>d ds. s = d # ds \<and> is_digit d \<and> d \<noteq> CHR ''0'' \<and> list_all is_digit ds)"

lemma digit_not: "is_digit d \<Longrightarrow> d \<notin> {CHR ''{'', CHR ''['', CHR ''}'', CHR '']'', CHR 0x22, CHR ''-'', CHR '','', CHR '':'', CHR ''t'', CHR ''f'', CHR ''n''} \<and> \<not> json_space d"
  by (auto simp: is_digit_def less_eq_char_def json_space_def)

lemma scan_numeral:
  assumes "numeral_text s" and "c \<in> {CHR '','', CHR ''}'', CHR '']''}" and "st = BeginValue \<or> st = Neg"
  shows "json_scan (st, k # stack) (s @ c # rest) = json_scan (EndValue, k # stack) (c # rest)"
proof -
  have c: "\<not> is_digit c" "c \<noteq> CHR ''.''" "c \<noteq> CHR ''e''" "c \<noteq> CHR ''E''" using assms(2) by (auto simp: is_digit_def less_eq_char_def)
  from assms(1) consider "s = ''0''" | d ds where "s = d # ds" "is_digit d" "d \<noteq> CHR ''0''" "list_all is_digit ds"
    by (auto simp: numeral_text_def)
  then show ?thesis
  proof cases
    case 1
    with c assms(3) show ?thesis by (auto simp: begin_value_def json_space_def after_zero_def exponent_def)
  next
    case 2
    then show ?thesis using digit_not [OF 2(2)] scan_digits [OF 2(4) assms(2)] assms(3) by (auto simp: begin_value_def)
  qed
qed

lemma digit_is_digit: "n < 10 \<Longrightarrow> is_digit (digit n) \<and> (digit n = CHR ''0'' \<longleftrightarrow> n = 0)"
proof -
  assume "n < 10"
  then have "n \<in> {0, 1, 2, 3, 4, 5, 6, 7, 8, 9}" by auto
  then show ?thesis by (auto simp: digit_def is_digit_def less_eq_char_def numeral_eq_Suc)
qed

lemma digits10_numeral: "0 < n \<Longrightarrow> \<exists>d ds. digits10 n = d # ds \<and> is_digit d \<and> d \<noteq> CHR ''0'' \<and> list_all is_digit ds"
proof (induction n rule: digits10.induct)
  case (1 n)
  show ?case
  proof (cases "n < 10")
    case True
    with 1(2) digit_is_digit [of "nat n"] show ?thesis by (simp add: digits10.simps [of n])
  next
    case False
    have "is_digit (digit (nat (n mod 10)))" using digit_is_digit [of "nat (n mod 10)"] by simp
    moreover have "0 < n div 10" using False by (simp add: pos_imp_zdiv_pos_iff)
    ultimately show ?thesis using False 1(1) by (auto simp: digits10.simps [of n])
  qed
qed

lemma numeral_digits10: "0 \<le> n \<Longrightarrow> numeral_text (digits10 n)"
proof (cases "n = 0")
  case True
  then show ?thesis by (simp add: numeral_text_def digits10.simps [of 0] digit_def)
next
  case False
  assume "0 \<le> n"
  with False show ?thesis using digits10_numeral [of n] by (auto simp: numeral_text_def)
qed

lemma numeral_plain: "numeral_text s \<Longrightarrow> plain_text s \<and> tight s \<and> hd s \<noteq> CHR '']'' \<and> hd s \<noteq> CHR ''n''"
proof -
  assume n: "numeral_text s"
  then have s: "list_all is_digit s" "s \<noteq> []" by (auto simp: numeral_text_def is_digit_def)
  then have "is_digit (hd s)" "is_digit (last s)" by (simp_all add: list_all_iff)
  with s digit_not show ?thesis by (fastforce simp: plain_text_def tight_def list_all_iff)
qed

lemma encoded_itoa: "encoded n (itoa i)"
proof (cases "i < 0")
  case True
  then have t: "numeral_text (digits10 (- i))" by (simp add: numeral_digits10)
  have p: "plain_text (CHR ''-'' # digits10 (- i))" "tight (digits10 (- i))" using numeral_plain [OF t] by (simp_all add: plain_text_def)
  have "scannable n (CHR ''-'' # digits10 (- i))"
    using scan_numeral [OF t] by (auto simp: scannable_def begin_value_def json_space_def)
  moreover have "tight (CHR ''-'' # digits10 (- i))" using p(2) by (auto simp: tight_def json_space_def)
  ultimately show ?thesis using True p(1) solid_plain by (simp add: encoded_def itoa_def)
next
  case False
  then have t: "numeral_text (digits10 i)" by (simp add: numeral_digits10)
  have "scannable n (digits10 i)" using scan_numeral [OF t] by (auto simp: scannable_def)
  then show ?thesis using False numeral_plain [OF t] solid_plain by (simp add: encoded_def itoa_def)
qed

subsection \<open>Lists and objects\<close>

lemma encoded_weaken: "encoded n v \<Longrightarrow> n \<le> m \<Longrightarrow> encoded m v"
  unfolding encoded_def scannable_def by (meson add_left_mono le_less_trans)

lemma encoded_first: "encoded n v \<Longrightarrow> \<exists>c s. v = c # s \<and> c \<noteq> CHR '']'' \<and> \<not> json_space c"
  by (cases v) (auto simp: encoded_def tight_def)

lemma scan_elements:
  assumes "vs \<noteq> []" and "\<And>v. v \<in> set vs \<Longrightarrow> encoded n v" and "st = BeginValue \<or> st = BeginValueOrEmpty"
    and "length stack + n < maxNestingDepth"
  shows "json_scan (st, ArrayValue # stack) (Join vs '','' @ '']'' @ rest) = json_scan (pop_open stack) rest"
  using assms(1-3)
proof (induction vs arbitrary: st)
  case (Cons v vs)
  have first: "json_scan (st, ArrayValue # stack) (v @ c # s) = json_scan (EndValue, ArrayValue # stack) (c # s)"
    if "c \<in> {CHR '','', CHR '']''}" for c s
  proof -
    have "encoded n v" using Cons.prems(2) by simp
    from encoded_first [OF this] obtain a t where v: "v = a # t" "a \<noteq> CHR '']''" "\<not> json_space a" by blast
    have "scannable n v" using Cons.prems(2) by (auto simp: encoded_def)
    then have "json_scan (BeginValue, ArrayValue # stack) (v @ c # s) = json_scan (EndValue, ArrayValue # stack) (c # s)"
      using that assms(4) unfolding scannable_def by blast
    moreover have "json_scan (BeginValueOrEmpty, ArrayValue # stack) (v @ c # s) = json_scan (BeginValue, ArrayValue # stack) (v @ c # s)"
      using v by simp
    ultimately show ?thesis using Cons.prems(3) by auto
  qed
  show ?case
  proof (cases vs)
    case Nil
    then show ?thesis using first [of "CHR '']''" rest] by (simp add: end_value_def json_space_def)
  next
    case (Cons v' vs')
    then show ?thesis
      using first [of "CHR '',''" "Join vs '','' @ '']'' @ rest"] Cons.IH [of BeginValue] Cons.prems(2)
      by (simp add: end_value_def json_space_def)
  qed
qed simp

lemma encoded_list:
  assumes "\<And>v. v \<in> set vs \<Longrightarrow> encoded n v"
  shows "encoded (Suc n) (json_list vs)"
proof -
  have "scannable (Suc n) (json_list vs)"
    unfolding scannable_def
  proof (intro allI impI)
    fix k stack c rest
    assume a: "length (stack :: json_open list) + Suc n < maxNestingDepth \<and> c \<in> {CHR '','', CHR ''}'', CHR '']''}"
    show "json_scan (BeginValue, k # stack) (json_list vs @ c # rest) = json_scan (EndValue, k # stack) (c # rest)"
    proof (cases "vs = []")
      case True
      with a show ?thesis
        by (simp add: json_list_def begin_value_def push_open_def json_space_def end_value_def pop_open_def)
    next
      case False
      have "json_scan (BeginValueOrEmpty, ArrayValue # k # stack) (Join vs '','' @ '']'' @ c # rest) = json_scan (pop_open (k # stack)) (c # rest)"
        using a by (intro scan_elements [OF False assms]) auto
      with a show ?thesis by (simp add: json_list_def begin_value_def push_open_def json_space_def pop_open_def)
    qed
  qed
  moreover have "solid sep 0 (json_list vs)" if "sep \<in> {CHR '','', CHR '':''}" for sep
  proof -
    have "solid sep 1 v" if "v \<in> set vs" for v
      using assms [OF that] \<open>sep \<in> _\<close> by (auto simp: encoded_def intro: solid_weaken)
    then show ?thesis unfolding json_list_def using that solid_bracketed [OF solid_Join] by simp
  qed
  ultimately show ?thesis by (simp add: encoded_def tight_def json_list_def json_space_def)
qed

definition member_text :: "string \<times> string \<Rightarrow> string" where
  "member_text m = (case m of (key, v) \<Rightarrow> json_string key @ '':'' @ v)"

lemma json_members_text: "json_members ms = ''{'' @ Join (map member_text ms) '','' @ ''}''"
  by (simp add: json_members_def member_text_def [abs_def])

lemma scan_encoded_member:
  assumes "encoded n v" and "st = BeginString \<or> st = BeginStringOrEmpty" and "length stack + n < maxNestingDepth"
    and "c \<in> {CHR '','', CHR ''}''}"
  shows "json_scan (st, ObjectKey # stack) (member_text (key, v) @ c # rest) = json_scan (EndValue, ObjectValue # stack) (c # rest)"
proof -
  have "json_scan (BeginValue, ObjectValue # stack) (v @ c # rest) = json_scan (EndValue, ObjectValue # stack) (c # rest)"
    using assms(1,3,4) unfolding encoded_def scannable_def by blast
  with assms(2) show ?thesis
    by (auto simp: member_text_def json_string_def begin_string_def begin_value_def json_space_def scan_string end_value_def)
qed

lemma scan_encoded_members:
  assumes "ms \<noteq> []" and "\<And>m. m \<in> set ms \<Longrightarrow> encoded n (snd m)" and "st = BeginString \<or> st = BeginStringOrEmpty"
    and "length stack + n < maxNestingDepth"
  shows "json_scan (st, ObjectKey # stack) (Join (map member_text ms) '','' @ ''}'' @ rest) = json_scan (pop_open stack) rest"
  using assms(1-3)
proof (induction ms arbitrary: st)
  case (Cons m ms)
  obtain key v where m: "m = (key, v)" by force
  have v: "encoded n v" using Cons.prems(2) [of m] m by simp
  show ?case
  proof (cases ms)
    case Nil
    then show ?thesis using scan_encoded_member [OF v Cons.prems(3) assms(4), of "CHR ''}''" key rest] m
      by (simp add: end_value_def json_space_def)
  next
    case (Cons m' ms')
    then show ?thesis
      using scan_encoded_member [OF v Cons.prems(3) assms(4), of "CHR '',''" key "Join (map member_text ms) '','' @ ''}'' @ rest"] m
        Cons.IH [of BeginString] Cons.prems(2)
      by (simp add: end_value_def json_space_def)
  qed
qed simp

lemma scan_members_object:
  assumes "\<And>m. m \<in> set ms \<Longrightarrow> encoded n (snd m)" and "length stack + n < maxNestingDepth"
  shows "json_scan (BeginValue, stack) (json_members ms @ rest) = json_scan (pop_open stack) rest"
proof (cases "ms = []")
  case True
  with assms(2) show ?thesis
    by (simp add: json_members_def begin_value_def push_open_def json_space_def end_value_def)
next
  case False
  with assms show ?thesis
    using scan_encoded_members [OF False, of n BeginStringOrEmpty stack rest]
    by (simp add: json_members_text begin_value_def push_open_def json_space_def)
qed

lemma solid_member: "encoded n v \<Longrightarrow> sep \<in> {CHR '','', CHR '':''} \<Longrightarrow> solid sep 1 (member_text (key, v))"
proof -
  assume v: "encoded n v" and sep: "sep \<in> {CHR '','', CHR '':''}"
  then have "solid sep 1 v" "solid sep 1 (json_string key)"
    using solid_weaken [OF solid_string, of sep 1 key] by (auto simp: encoded_def intro: solid_weaken)
  then have "solid sep 1 (json_string key @ '':'' @ v)" using solid_separator by (intro solid_append) auto
  then show ?thesis by (simp add: member_text_def)
qed

lemma encoded_members:
  assumes "\<And>m. m \<in> set ms \<Longrightarrow> encoded n (snd m)"
  shows "encoded (Suc n) (json_members ms)"
proof -
  have "scannable (Suc n) (json_members ms)"
    unfolding scannable_def
  proof (intro allI impI)
    fix k stack c rest
    assume a: "length (stack :: json_open list) + Suc n < maxNestingDepth \<and> c \<in> {CHR '','', CHR ''}'', CHR '']''}"
    have "json_scan (BeginValue, k # stack) (json_members ms @ c # rest) = json_scan (pop_open (k # stack)) (c # rest)"
      using a by (intro scan_members_object [OF assms]) auto
    then show "json_scan (BeginValue, k # stack) (json_members ms @ c # rest) = json_scan (EndValue, k # stack) (c # rest)"
      by (simp only: pop_open_def list.distinct if_False)
  qed
  moreover have "solid sep 0 (json_members ms)" if "sep \<in> {CHR '','', CHR '':''}" for sep
  proof -
    have "solid sep 1 v" if "v \<in> set (map member_text ms)" for v
      using that assms solid_member \<open>sep \<in> _\<close> by fastforce
    then have "solid sep 1 (Join (map member_text ms) '','')" by (rule solid_Join)
    from solid_bracketed [OF this, of "CHR ''{''" "CHR ''}''"] that show ?thesis by (simp add: json_members_text)
  qed
  ultimately show ?thesis by (simp add: encoded_def tight_def json_members_def json_space_def)
qed

lemma members_valid:
  assumes "\<And>m. m \<in> set ms \<Longrightarrow> encoded n (snd m)" and "n < maxNestingDepth"
  shows "json_Valid (json_members ms)"
  using scan_members_object [OF assms(1), of ms "[]" "[]"] assms(2) by (simp add: json_Valid_def pop_open_def)

lemma tight_member: "encoded n v \<Longrightarrow> tight (member_text (key, v))"
proof -
  assume "encoded n v"
  then have "tight v" "tight (json_string key)" by (simp_all add: encoded_def tight_def json_string_def json_space_def)
  then show ?thesis using tight_append [of "json_string key" v "'':''"] by (simp add: member_text_def)
qed

lemma solid_member_comma: "encoded n v \<Longrightarrow> solid (CHR '','') 0 (member_text (key, v))"
proof -
  assume "encoded n v"
  then have "solid (CHR '','') 0 v" by (simp add: encoded_def)
  moreover have "solid (CHR '','') 0 (json_string key)" by (simp add: solid_string)
  moreover have "solid (CHR '','') 0 '':''" by (simp add: solid_def depth_after_def)
  ultimately have "solid (CHR '','') 0 (json_string key @ '':'' @ v)" by (intro solid_append)
  then show ?thesis by (simp add: member_text_def)
qed

lemma elements_of_members:
  assumes "\<And>m. m \<in> set ms \<Longrightarrow> encoded n (snd m)"
  shows "elements_of (json_members ms) = map member_text ms"
proof (cases "ms = []")
  case True
  then show ?thesis by (simp add: elements_of_def json_members_def trim_Nil)
next
  case False
  have t: "tight x" "solid (CHR '','') 0 x" if "x \<in> set (map member_text ms)" for x
    using that assms tight_member solid_member_comma by fastforce+
  then have inside: "json_trim (Join (map member_text ms) '','') = Join (map member_text ms) '',''"
    using False by (intro trim_tight tight_Join) auto
  have "Join (map member_text ms) '','' \<noteq> []" using tight_Join [of "map member_text ms"] t False by (simp add: tight_def)
  moreover have "split_top (CHR '','') 0 Outside (Join (map member_text ms) '','') = map member_text ms"
    using t(2) False by (intro cut_Join) auto
  moreover have "map json_trim (map member_text ms) = map member_text ms" using t(1) trim_tight by (simp add: map_idI)
  ultimately show ?thesis using inside by (simp add: elements_of_def json_members_text butlast_append)
qed

lemma member_of_text: "encoded n v \<Longrightarrow> utf8 key \<Longrightarrow> member_of (member_text (key, v)) = (key, v)"
proof -
  assume v: "encoded n v" and key: "utf8 key"
  have "split_top (CHR '':'') 0 Outside (json_string key @ '':'' @ v) = [json_string key, v]"
    using v solid_string by (intro split_member) (auto simp: encoded_def)
  moreover have "json_trim (json_string key) = json_string key" "json_trim v = v"
    using v by (auto intro!: trim_tight simp: encoded_def tight_def json_string_def json_space_def)
  ultimately show ?thesis by (simp add: member_of_def member_text_def unquote_string key)
qed

text \<open>Reading what was written: the members are assigned one after the other.\<close>

theorem decode_written:
  assumes "\<And>key v. (key, v) \<in> set ms \<Longrightarrow> encoded n v \<and> utf8 key" and "n < maxNestingDepth"
  shows "decode_struct strict fs (json_members ms) =
    decode_members strict fs ms (map (\<lambda>(name, kind). (name, zero_value kind)) fs)"
proof -
  have e: "encoded n (snd m)" if "m \<in> set ms" for m using that assms(1) [of "fst m" "snd m"] by simp
  have "tight (json_members ms)" by (simp add: tight_def json_members_def json_space_def)
  moreover have "map member_of (map member_text ms) = ms"
  proof -
    have "member_of (member_text m) = m" if "m \<in> set ms" for m
      using that assms(1) [of "fst m" "snd m"] member_of_text [of n "snd m" "fst m"] by simp
    then show ?thesis by (simp add: map_idI)
  qed
  ultimately show ?thesis
    using members_valid [OF e assms(2)] elements_of_members [OF e]
    by (simp add: decode_struct_def Let_def trim_tight del: map_map) (simp add: json_members_def HasPrefix_def)
qed

text \<open>What a field makes of an encoded value.\<close>

lemma decode_string: "utf8 s \<Longrightarrow> decode_value StringField (json_string s) old = Some (StringV s)"
  by (simp add: string_value_def HasPrefix_def unquote_string) (simp add: json_string_def)

lemma decode_bool: "decode_value BoolField (json_bool b) old = Some (BoolV b)"
  by (simp add: json_bool_def)

lemma Atoi_itoa_signed:
  assumes "- MaxInt64 - 1 \<le> i" and "i \<le> MaxInt64"
  shows "Atoi (itoa i) = Some i"
proof (cases "0 \<le> i")
  case True
  with assms show ?thesis by (simp add: Atoi_itoa)
next
  case False
  then have d: "decimal (digits10 (- i)) = - i" "list_all decimal_digit (digits10 (- i))" "digits10 (- i) \<noteq> []"
    using digits10_decimal [of "- i"] by simp_all
  with False assms show ?thesis by (simp add: Atoi_def itoa_def MaxInt64_def)
qed

lemma decode_int: "- MaxInt64 - 1 \<le> i \<Longrightarrow> i \<le> MaxInt64 \<Longrightarrow> decode_value IntField (itoa i) old = Some (IntV i)"
proof -
  assume i: "- MaxInt64 - 1 \<le> i" "i \<le> MaxInt64"
  have "hd (itoa i) \<noteq> CHR ''n''" using numeral_plain [OF numeral_digits10, of i] by (simp add: itoa_def)
  then have "itoa i \<noteq> ''null''" by auto
  with i show ?thesis by (simp add: Atoi_itoa_signed)
qed

lemma elements_of_list:
  assumes "\<And>v. v \<in> set vs \<Longrightarrow> encoded n v"
  shows "elements_of (json_list vs) = vs"
proof (cases "vs = []")
  case True
  then show ?thesis by (simp add: elements_of_def json_list_def trim_Nil)
next
  case False
  have t: "tight v" "solid (CHR '','') 0 v" if "v \<in> set vs" for v
    using assms [OF that] by (simp_all add: encoded_def)
  then have "json_trim (Join vs '','') = Join vs '',''" "Join vs '','' \<noteq> []"
    using tight_Join [of vs] False by (auto intro: trim_tight simp: tight_def)
  moreover have "split_top (CHR '','') 0 Outside (Join vs '','') = vs" using t(2) False by (intro cut_Join)
  moreover have "map json_trim vs = vs" using t(1) trim_tight by (simp add: map_idI)
  ultimately show ?thesis by (simp add: elements_of_def json_list_def butlast_append)
qed

lemma all_some_strings: "list_all utf8 ss \<Longrightarrow> all_some (map (\<lambda>s. string_value (json_string s)) ss) = Some ss"
proof (induction ss)
  case (Cons s ss)
  then have "string_value (json_string s) = Some s"
    by (simp add: string_value_def HasPrefix_def unquote_string) (simp add: json_string_def)
  with Cons show ?case by simp
qed simp

lemma decode_strings: "list_all utf8 ss \<Longrightarrow> decode_value StringsField (json_list (map json_string ss)) old = Some (StringsV ss)"
proof -
  assume u: "list_all utf8 ss"
  have "encoded 0 v" if "v \<in> set (map json_string ss)" for v using that encoded_string by auto
  then have e: "elements_of (json_list (map json_string ss)) = map json_string ss" by (rule elements_of_list)
  have "json_list (map json_string ss) \<noteq> ''null''" "HasPrefix (json_list (map json_string ss)) ''[''"
    by (simp_all add: json_list_def HasPrefix_def)
  then show ?thesis using e all_some_strings [OF u] by (simp add: comp_def)
qed

subsection \<open>Typed members\<close>

text \<open>What a caller puts into a \<^verbatim>\<open>map[string]any\<close>, and the struct fields it is read into. A slice that is
  nil is written as \<^verbatim>\<open>null\<close>.\<close>

fun written_value :: "field_value \<Rightarrow> string" where
  "written_value (StringV s) = json_string s"
| "written_value (IntV i) = itoa i"
| "written_value (BoolV b) = json_bool b"
| "written_value (RawV raw) = raw"
| "written_value (StringsV ss) = (if ss = [] then ''null'' else json_list (map json_string ss))"

fun kind_of :: "field_value \<Rightarrow> field_kind" where
  "kind_of (StringV s) = StringField"
| "kind_of (IntV i) = IntField"
| "kind_of (BoolV b) = BoolField"
| "kind_of (RawV raw) = RawField"
| "kind_of (StringsV ss) = StringsField"

fun writable :: "nat \<Rightarrow> field_value \<Rightarrow> bool" where
  "writable n (StringV s) = utf8 s"
| "writable n (IntV i) = (- MaxInt64 - 1 \<le> i \<and> i \<le> MaxInt64)"
| "writable n (BoolV b) = True"
| "writable n (RawV raw) = encoded n raw"
| "writable n (StringsV ss) = list_all utf8 ss"

lemma written_encoded: "writable n v \<Longrightarrow> 1 \<le> n \<Longrightarrow> encoded n (written_value v)"
proof (cases v)
  case (StringsV ss)
  have "encoded (Suc 0) (json_list (map json_string ss))" by (rule encoded_list) (auto intro: encoded_string)
  moreover assume "1 \<le> n"
  ultimately have "encoded n (json_list (map json_string ss))" by (auto intro: encoded_weaken)
  with StringsV show ?thesis by (simp add: encoded_null)
qed (auto intro: encoded_string encoded_itoa encoded_bool)

lemma written_reads: "writable n v \<Longrightarrow> decode_value (kind_of v) (written_value v) old = Some v"
proof (cases v)
  case (StringsV ss)
  assume "writable n v"
  with StringsV have "list_all utf8 ss" by simp
  from decode_strings [OF this] StringsV show ?thesis
    by (cases "ss = []") (simp_all del: decode_value.simps, simp)
next
  case (StringV s)
  assume "writable n v"
  with StringV decode_string [of s old] show ?thesis by (simp del: decode_value.simps)
next
  case (IntV i)
  assume "writable n v"
  with IntV decode_int [of i old] show ?thesis by (simp del: decode_value.simps)
next
  case (BoolV b)
  with decode_bool [of b old] show ?thesis by (simp del: decode_value.simps)
qed simp

definition written :: "(string \<times> field_value) list \<Rightarrow> (string \<times> string) list" where
  "written given = map (\<lambda>(key, v). (key, written_value v)) given"

lemma decode_given:
  assumes "\<And>key v. (key, v) \<in> set given \<Longrightarrow> writable n v \<and> (key, kind_of v) \<in> set fs" and "distinct (map fst fs)"
  shows "\<exists>vs. decode_members strict fs (written given) zs = Some vs \<and>
    (distinct (map fst given) \<longrightarrow> (\<forall>name. map_of vs name = (case map_of given name of Some v \<Rightarrow> Some v | None \<Rightarrow> map_of zs name)))"
  using assms(1)
proof (induction given arbitrary: zs)
  case Nil
  then show ?case by (simp add: written_def)
next
  case (Cons m given)
  obtain key v where m: "m = (key, v)" by force
  have v: "writable n v" "(key, kind_of v) \<in> set fs" using Cons.prems [of key v] m by simp_all
  have "field_named fs key = Some (key, kind_of v)"
  proof -
    have "List.find (\<lambda>f. fst f = key) fs = Some (key, kind_of v)"
      using v(2) assms(2)
    proof (induction fs)
      case (Cons f fs)
      then show ?case by (cases f) (force simp: image_iff)
    qed simp
    then show ?thesis by (simp add: field_named_def)
  qed
  then have step: "decode_members strict fs (written (m # given)) zs = decode_members strict fs (written given) (AList.update key v zs)"
    using written_reads [OF v(1)] by (simp add: written_def m)
  obtain vs where vs: "decode_members strict fs (written given) (AList.update key v zs) = Some vs"
    "distinct (map fst given) \<longrightarrow> (\<forall>name. map_of vs name =
       (case map_of given name of Some v \<Rightarrow> Some v | None \<Rightarrow> map_of (AList.update key v zs) name))"
    using Cons.IH [of "AList.update key v zs"] Cons.prems by auto
  show ?case
  proof (intro exI [of _ vs] conjI impI allI)
    show "decode_members strict fs (written (m # given)) zs = Some vs" using step vs(1) by simp
  next
    fix name
    assume d: "distinct (map fst (m # given))"
    then have "map_of given key = None" using m by (simp add: map_of_eq_None_iff)
    with d vs(2) show "map_of vs name = (case map_of (m # given) name of Some v \<Rightarrow> Some v | None \<Rightarrow> map_of zs name)"
      by (cases "name = key") (auto simp: m AList.update_conv split: option.split)
  qed
qed

lemma written_sorted: "sort_key fst (written given) = written (sort_key fst given)"
proof -
  let ?f = "\<lambda>(key :: string, v). (key, written_value v)"
  have "insort_key fst (?f x) (map ?f xs) = map ?f (insort_key fst x xs)" for x xs
    by (induction xs) (auto simp: case_prod_beta)
  then have "sort_key fst (map ?f xs) = map ?f (sort_key fst xs)" for xs
    by (induction xs) simp_all
  then show ?thesis by (simp add: written_def)
qed

theorem decode_record:
  assumes "\<And>key v. (key, v) \<in> set given \<Longrightarrow> writable n v \<and> utf8 key \<and> (key, kind_of v) \<in> set fs"
    and "1 \<le> n" and "n < maxNestingDepth" and "distinct (map fst fs)" and "distinct (map fst given)"
  shows "\<exists>vs. decode_struct strict fs (json_record (written given)) = Some vs \<and>
    (\<forall>(name, kind) \<in> set fs. map_of vs name = Some (case map_of given name of Some v \<Rightarrow> v | None \<Rightarrow> zero_value kind))"
proof -
  let ?g = "sort_key fst given" and ?zs = "map (\<lambda>(name, kind). (name, zero_value kind)) fs"
  have g: "set ?g = set given" "distinct (map fst ?g)" using assms(5) by (simp_all add: distinct_map)
  have "map_of ?g = map_of given"
    using g assms(5) by (metis map_of_inject_set)
  obtain vs where vs: "decode_members strict fs (written ?g) ?zs = Some vs"
    "\<forall>name. map_of vs name = (case map_of ?g name of Some v \<Rightarrow> Some v | None \<Rightarrow> map_of ?zs name)"
    using decode_given [of ?g n fs strict ?zs] assms(1,4) g by auto
  have "decode_struct strict fs (json_record (written given)) = decode_members strict fs (written ?g) ?zs"
    unfolding json_record_def written_sorted
  proof (rule decode_written)
    fix key v
    assume "(key, v) \<in> set (written ?g)"
    then obtain x where "(key, x) \<in> set given" "v = written_value x" using g(1) by (auto simp: written_def)
    with assms(1) show "encoded n v \<and> utf8 key" using written_encoded assms(2) by auto
  next
    show "n < maxNestingDepth" by (rule assms(3))
  qed
  moreover have "map_of ?zs name = Some (zero_value kind)" if "(name, kind) \<in> set fs" for name kind
    using that assms(4) by (intro map_of_is_SomeI) (force simp: comp_def case_prod_beta)+
  ultimately show ?thesis using vs \<open>map_of ?g = map_of given\<close> by (auto split: option.split)
qed

lemma encoded_record:
  assumes "\<And>key v. (key, v) \<in> set given \<Longrightarrow> writable n v" and "1 \<le> n"
  shows "encoded (Suc n) (json_record (written given))"
  unfolding json_record_def
  by (rule encoded_members) (auto simp: written_def intro: written_encoded [OF assms])

end
