(* ===== verification/ClientLibrary.thy ===== *)
theory ClientLibrary
  imports JsonEncode ApiMethods Config
begin

section \<open>The Go client library (\<open>pkg/lacclient\<close>)\<close>

text \<open>
  What the command line, the MCP server and other programs talk to the daemon with: one call per method
  of the daemon (\<open>methods.go\<close>), the frame it is sent in, and the connection that gives every reply to the
  call it answers (\<open>client.go\<close>). The body of a message and the metadata of a lease are JSON the caller
  already encoded. What a reply holds is the daemon's \<open>Result\<close>.
\<close>

subsection \<open>Calls (\<open>methods.go\<close>)\<close>

record LogFilter =
  lof_Agent :: string
  lof_Topic :: string
  lof_Since :: string
  lof_Limit :: int

record LeaseRequest =
  lr_Resource :: string
  lr_Priority :: int
  lr_Reason :: string
  lr_Metadata :: "string option"
  lr_NoWait :: bool
  lr_Timeout :: duration

text \<open>The calls come in the groups of the file. A call has a method and parameters; no parameters (\<open>None\<close>) is nil, which sends
  none at all. A member that is only sent when it says something.\<close>

definition given_if :: "bool \<Rightarrow> string \<Rightarrow> field_value \<Rightarrow> (string \<times> field_value) list" where
  "given_if present key v = (if present then [(key, v)] else [])"

paragraph \<open>Agents\<close>

datatype agent_call =
    Call_Register string string string int
  | Call_Authenticate string
  | Call_Heartbeat
  | Call_Agents "string list"
  | Call_Deregister

primrec agent_method :: "agent_call \<Rightarrow> string" where
  "agent_method (Call_Register name kind workdir processID) = ''agent.register''"
| "agent_method (Call_Authenticate token) = ''agent.authenticate''"
| "agent_method Call_Heartbeat = ''agent.heartbeat''"
| "agent_method (Call_Agents states) = ''agent.list''"
| "agent_method Call_Deregister = ''agent.deregister''"

primrec agent_given :: "agent_call \<Rightarrow> (string \<times> field_value) list option" where
  "agent_given (Call_Register name kind workdir processID) =
     Some [(''name'', StringV name), (''kind'', StringV kind), (''workdir'', StringV workdir), (''pid'', IntV processID)]"
| "agent_given (Call_Authenticate token) = Some [(''token'', StringV token)]"
| "agent_given Call_Heartbeat = None"
| "agent_given (Call_Agents states) = Some (given_if (length states > 0) ''states'' (StringsV states))"
| "agent_given Call_Deregister = None"

paragraph \<open>Messages\<close>

datatype message_call =
    Call_SendTo string string string
  | Call_SendToTopic string string string
  | Call_Inbox int
  | Call_MessageLog LogFilter
  | Call_Acknowledge "string list"
  | Call_Subscribe string
  | Call_Unsubscribe string

primrec message_method :: "message_call \<Rightarrow> string" where
  "message_method (Call_SendTo agentName kind body) = ''message.send''"
| "message_method (Call_SendToTopic topic kind body) = ''message.send''"
| "message_method (Call_Inbox limit) = ''message.inbox''"
| "message_method (Call_MessageLog wanted) = ''message.log''"
| "message_method (Call_Acknowledge messageIDs) = ''message.ack''"
| "message_method (Call_Subscribe topic) = ''message.subscribe''"
| "message_method (Call_Unsubscribe topic) = ''message.unsubscribe''"

primrec message_given :: "message_call \<Rightarrow> (string \<times> field_value) list option" where
  "message_given (Call_SendTo agentName kind body) =
     Some [(''to'', StringV agentName), (''kind'', StringV kind), (''body'', RawV body)]"
| "message_given (Call_SendToTopic topic kind body) =
     Some [(''topic'', StringV topic), (''kind'', StringV kind), (''body'', RawV body)]"
| "message_given (Call_Inbox limit) = Some (given_if (limit > 0) ''limit'' (IntV limit))"
| "message_given (Call_MessageLog wanted) =
     Some (given_if (lof_Agent wanted \<noteq> []) ''agent'' (StringV (lof_Agent wanted)) @
       given_if (lof_Topic wanted \<noteq> []) ''topic'' (StringV (lof_Topic wanted)) @
       given_if (lof_Since wanted \<noteq> []) ''since'' (StringV (lof_Since wanted)) @
       given_if (lof_Limit wanted > 0) ''limit'' (IntV (lof_Limit wanted)))"
| "message_given (Call_Acknowledge messageIDs) = Some [(''message_ids'', StringsV messageIDs)]"
| "message_given (Call_Subscribe topic) = Some [(''topic'', StringV topic)]"
| "message_given (Call_Unsubscribe topic) = Some [(''topic'', StringV topic)]"

paragraph \<open>Resources\<close>

datatype resource_call =
    Call_DefineResource string int duration string
  | Call_Resources
  | Call_ResourceStatus string

primrec resource_method :: "resource_call \<Rightarrow> string" where
  "resource_method (Call_DefineResource name capacity timeToLive description) = ''resource.define''"
| "resource_method Call_Resources = ''resource.list''"
| "resource_method (Call_ResourceStatus name) = ''resource.status''"

primrec resource_given :: "resource_call \<Rightarrow> (string \<times> field_value) list option" where
  "resource_given (Call_DefineResource name capacity timeToLive description) =
     Some ([(''name'', StringV name), (''capacity'', IntV capacity), (''description'', StringV description)] @
       given_if (timeToLive > 0) ''lease_time_to_live'' (StringV (FormatDuration timeToLive)))"
| "resource_given Call_Resources = None"
| "resource_given (Call_ResourceStatus name) = Some [(''resource'', StringV name)]"

paragraph \<open>Leases\<close>

datatype lease_call =
    Call_Acquire LeaseRequest
  | Call_Renew string
  | Call_Release string
  | Call_ForceRelease string

primrec lease_method :: "lease_call \<Rightarrow> string" where
  "lease_method (Call_Acquire request) = ''lease.acquire''"
| "lease_method (Call_Renew leaseID) = ''lease.renew''"
| "lease_method (Call_Release leaseID) = ''lease.release''"
| "lease_method (Call_ForceRelease leaseID) = ''lease.release''"

primrec lease_given :: "lease_call \<Rightarrow> (string \<times> field_value) list option" where
  "lease_given (Call_Acquire request) =
     Some ([(''resource'', StringV (lr_Resource request))] @
       given_if (lr_Priority request \<noteq> 0) ''priority'' (IntV (lr_Priority request)) @
       given_if (lr_Reason request \<noteq> []) ''reason'' (StringV (lr_Reason request)) @
       given_if (lr_NoWait request) ''no_wait'' (BoolV True) @
       given_if (lr_Timeout request > 0) ''timeout'' (StringV (FormatDuration (lr_Timeout request))) @
       (case lr_Metadata request of Some encoded_json \<Rightarrow> [(''metadata'', RawV encoded_json)] | None \<Rightarrow> []))"
| "lease_given (Call_Renew leaseID) = Some [(''lease_id'', StringV leaseID)]"
| "lease_given (Call_Release leaseID) = Some [(''lease_id'', StringV leaseID)]"
| "lease_given (Call_ForceRelease leaseID) = Some [(''lease_id'', StringV leaseID), (''force'', BoolV True)]"

paragraph \<open>Force controls of the operator\<close>

datatype admin_call =
    Call_ReleaseAgent string
  | Call_FreeResource string
  | Call_ClearQueue string
  | Call_Evict string

primrec admin_method :: "admin_call \<Rightarrow> string" where
  "admin_method (Call_ReleaseAgent agent) = ''admin.release_agent''"
| "admin_method (Call_FreeResource resource) = ''admin.free_resource''"
| "admin_method (Call_ClearQueue resource) = ''admin.clear_queue''"
| "admin_method (Call_Evict agent) = ''admin.evict''"

primrec admin_given :: "admin_call \<Rightarrow> (string \<times> field_value) list option" where
  "admin_given (Call_ReleaseAgent agent) = Some [(''agent'', StringV agent)]"
| "admin_given (Call_FreeResource resource) = Some [(''resource'', StringV resource)]"
| "admin_given (Call_ClearQueue resource) = Some [(''resource'', StringV resource)]"
| "admin_given (Call_Evict agent) = Some [(''agent'', StringV agent)]"

paragraph \<open>Slots held and queues\<close>

datatype queue_call =
    Call_Held
  | Call_Queue string
  | Call_CancelQueueEntry string
  | Call_ForceCancelQueueEntry string

primrec queue_method :: "queue_call \<Rightarrow> string" where
  "queue_method Call_Held = ''lease.held''"
| "queue_method (Call_Queue resource) = ''queue.status''"
| "queue_method (Call_CancelQueueEntry entryID) = ''queue.cancel''"
| "queue_method (Call_ForceCancelQueueEntry entryID) = ''queue.cancel''"

primrec queue_given :: "queue_call \<Rightarrow> (string \<times> field_value) list option" where
  "queue_given Call_Held = None"
| "queue_given (Call_Queue resource) = Some [(''resource'', StringV resource)]"
| "queue_given (Call_CancelQueueEntry entryID) = Some [(''entry_id'', StringV entryID)]"
| "queue_given (Call_ForceCancelQueueEntry entryID) = Some [(''entry_id'', StringV entryID), (''force'', BoolV True)]"

paragraph \<open>The daemon itself\<close>

datatype daemon_call =
    Call_Info
  | Call_Ping
  | Call_Reload

primrec daemon_method :: "daemon_call \<Rightarrow> string" where
  "daemon_method Call_Info = ''daemon.info''"
| "daemon_method Call_Ping = ''daemon.ping''"
| "daemon_method Call_Reload = ''daemon.reload''"

primrec daemon_given :: "daemon_call \<Rightarrow> (string \<times> field_value) list option" where
  "daemon_given Call_Info = None"
| "daemon_given Call_Ping = None"
| "daemon_given Call_Reload = None"

paragraph \<open>Reports\<close>

datatype report_call =
    Call_RequestReports string duration bool
  | Call_SubmitReport string string
  | Call_CollectReports string bool

primrec report_method :: "report_call \<Rightarrow> string" where
  "report_method (Call_RequestReports question deadline wait) = ''report.request''"
| "report_method (Call_SubmitReport requestID body) = ''report.submit''"
| "report_method (Call_CollectReports requestID wait) = ''report.collect''"

primrec report_given :: "report_call \<Rightarrow> (string \<times> field_value) list option" where
  "report_given (Call_RequestReports question deadline wait) =
     Some ([(''question'', StringV question), (''wait'', BoolV wait)] @
       given_if (deadline > 0) ''deadline'' (StringV (FormatDuration deadline)))"
| "report_given (Call_SubmitReport requestID body) = Some [(''request_id'', StringV requestID), (''body'', StringV body)]"
| "report_given (Call_CollectReports requestID wait) = Some [(''request_id'', StringV requestID), (''wait'', BoolV wait)]"

paragraph \<open>Tasks\<close>

datatype task_call =
    Call_Commands
  | Call_SubmitTask string string bool duration
  | Call_WaitForWork string
  | Call_ClaimTask string string bool
  | Call_AppendTaskOutput string string
  | Call_CompleteTask string int string
  | Call_TaskStatus string bool
  | Call_CancelTask string
  | Call_Tasks int

primrec task_method :: "task_call \<Rightarrow> string" where
  "task_method Call_Commands = ''task.commands''"
| "task_method (Call_SubmitTask command workdir wait timeout) = ''task.submit''"
| "task_method (Call_WaitForWork resource) = ''task.wait''"
| "task_method (Call_ClaimTask resource leaseID noWait) = ''task.claim''"
| "task_method (Call_AppendTaskOutput taskID chunk) = ''task.output''"
| "task_method (Call_CompleteTask taskID exitCode failure) = ''task.complete''"
| "task_method (Call_TaskStatus taskID wait) = ''task.status''"
| "task_method (Call_CancelTask taskID) = ''task.cancel''"
| "task_method (Call_Tasks limit) = ''task.list''"

primrec task_given :: "task_call \<Rightarrow> (string \<times> field_value) list option" where
  "task_given Call_Commands = None"
| "task_given (Call_SubmitTask command workdir wait timeout) =
     Some ([(''command'', StringV command), (''wait'', BoolV wait)] @
       given_if (workdir \<noteq> []) ''workdir'' (StringV workdir) @
       given_if (timeout > 0) ''timeout'' (StringV (FormatDuration timeout)))"
| "task_given (Call_WaitForWork resource) = Some [(''resource'', StringV resource)]"
| "task_given (Call_ClaimTask resource leaseID noWait) =
     Some [(''resource'', StringV resource), (''lease_id'', StringV leaseID), (''no_wait'', BoolV noWait)]"
| "task_given (Call_AppendTaskOutput taskID chunk) = Some [(''task_id'', StringV taskID), (''chunk'', StringV chunk)]"
| "task_given (Call_CompleteTask taskID exitCode failure) =
     Some ([(''task_id'', StringV taskID), (''exit_code'', IntV exitCode)] @
       given_if (failure \<noteq> []) ''failure'' (StringV failure))"
| "task_given (Call_TaskStatus taskID wait) = Some [(''task_id'', StringV taskID), (''wait'', BoolV wait)]"
| "task_given (Call_CancelTask taskID) = Some [(''task_id'', StringV taskID)]"
| "task_given (Call_Tasks limit) = Some (given_if (limit > 0) ''limit'' (IntV limit))"

paragraph \<open>Pull requests\<close>

datatype watch_call =
    Call_WatchPullRequest string
  | Call_PullRequestStatus string bool bool
  | Call_WatchedPullRequests bool
  | Call_UnwatchPullRequest string

primrec watch_method :: "watch_call \<Rightarrow> string" where
  "watch_method (Call_WatchPullRequest reference) = ''pr.watch''"
| "watch_method (Call_PullRequestStatus reference refresh wait) = ''pr.status''"
| "watch_method (Call_WatchedPullRequests everything) = ''pr.list''"
| "watch_method (Call_UnwatchPullRequest reference) = ''pr.unwatch''"

primrec watch_given :: "watch_call \<Rightarrow> (string \<times> field_value) list option" where
  "watch_given (Call_WatchPullRequest reference) = Some [(''pull_request'', StringV reference)]"
| "watch_given (Call_PullRequestStatus reference refresh wait) =
     Some ([(''pull_request'', StringV reference)] @ given_if refresh ''refresh'' (BoolV True) @
       given_if wait ''wait'' (BoolV True))"
| "watch_given (Call_WatchedPullRequests everything) = Some (given_if everything ''all'' (BoolV True))"
| "watch_given (Call_UnwatchPullRequest reference) = Some [(''pull_request'', StringV reference)]"

paragraph \<open>Every call\<close>

datatype client_call =
    Agent_Call agent_call
  | Message_Call message_call
  | Resource_Call resource_call
  | Lease_Call lease_call
  | Admin_Call admin_call
  | Queue_Call queue_call
  | Daemon_Call daemon_call
  | Report_Call report_call
  | Task_Call task_call
  | Watch_Call watch_call

primrec method_of :: "client_call \<Rightarrow> string" where
  "method_of (Agent_Call c) = agent_method c"
| "method_of (Message_Call c) = message_method c"
| "method_of (Resource_Call c) = resource_method c"
| "method_of (Lease_Call c) = lease_method c"
| "method_of (Admin_Call c) = admin_method c"
| "method_of (Queue_Call c) = queue_method c"
| "method_of (Daemon_Call c) = daemon_method c"
| "method_of (Report_Call c) = report_method c"
| "method_of (Task_Call c) = task_method c"
| "method_of (Watch_Call c) = watch_method c"

primrec params_given :: "client_call \<Rightarrow> (string \<times> field_value) list option" where
  "params_given (Agent_Call c) = agent_given c"
| "params_given (Message_Call c) = message_given c"
| "params_given (Resource_Call c) = resource_given c"
| "params_given (Lease_Call c) = lease_given c"
| "params_given (Admin_Call c) = admin_given c"
| "params_given (Queue_Call c) = queue_given c"
| "params_given (Daemon_Call c) = daemon_given c"
| "params_given (Report_Call c) = report_given c"
| "params_given (Task_Call c) = task_given c"
| "params_given (Watch_Call c) = watch_given c"

text \<open>The frame of a request, without the line ending the encoder adds.\<close>

definition request_line :: "int \<Rightarrow> client_call \<Rightarrow> string" where
  "request_line requestID c = json_record
     ([(''jsonrpc'', json_string ''2.0''), (''id'', itoa requestID), (''method'', json_string (method_of c))] @
      (case params_given c of None \<Rightarrow> [] | Some given \<Rightarrow> [(''params'', json_record (written given))]))"

subsection \<open>Errors\<close>

text \<open>A call fails with an error of the daemon, the end of the caller's context, or the end of the
  connection.\<close>

datatype call_error = DaemonError int string | CallContext ctx_err | Disconnected string | BadResult

fun ErrorCode :: "call_error \<Rightarrow> int" where
  "ErrorCode (DaemonError code text) = code"
| "ErrorCode _ = 0"

definition IsCapacityReached :: "call_error \<Rightarrow> bool" where
  "IsCapacityReached e \<longleftrightarrow> ErrorCode e = - 32004"

subsection \<open>The connection (\<open>client.go\<close>)\<close>

record reply =
  ry_Result :: string
  ry_Error :: "(int \<times> string) option"

record link =
  lk_nextID :: int
  lk_pending :: "(int \<times> reply option) list"
  lk_written :: "string list"
  lk_notified :: "(string \<times> string) list"
  lk_closed :: "string option"

definition new_link :: link where
  "new_link = \<lparr>lk_nextID = 0, lk_pending = [], lk_written = [], lk_notified = [], lk_closed = None\<rparr>"

text \<open>Only the first cause counts.\<close>

definition shut_down :: "string \<Rightarrow> link \<Rightarrow> link" where
  "shut_down cause lk = (if lk_closed lk = None then lk\<lparr>lk_closed := Some cause\<rparr> else lk)"

text \<open>The first half of \<open>Call\<close>: take a number, leave a buffered channel under it, write the request.
  \<open>written_ok\<close> says whether the socket took it; \<open>Inr\<close> is the number of a call that now waits.\<close>

definition begin_request :: "bool \<Rightarrow> client_call \<Rightarrow> link \<Rightarrow> (call_error + int) \<times> link" where
  "begin_request written_ok c lk = (case lk_closed lk of
      Some cause \<Rightarrow> (Inl (Disconnected cause), lk)
    | None \<Rightarrow>
        (let requestID = lk_nextID lk + 1; lk1 = lk\<lparr>lk_nextID := requestID\<rparr>
         in if \<not> written_ok then (Inl (Disconnected ''sending to the daemon''), lk1)
            else (Inr requestID, lk1\<lparr>lk_pending := (requestID, None) # lk_pending lk1,
              lk_written := lk_written lk1 @ [request_line requestID c]\<rparr>)))"

text \<open>A reply goes into the channel under its number; a channel that is full would block the reader,
  which is the value \<open>None\<close>. A reply nobody waits for is dropped.\<close>

definition deliver_reply :: "int \<Rightarrow> reply \<Rightarrow> link \<Rightarrow> link option" where
  "deliver_reply requestID r lk = (case map_of (lk_pending lk) requestID of
      None \<Rightarrow> Some lk
    | Some (Some _) \<Rightarrow> None
    | Some None \<Rightarrow> Some (lk\<lparr>lk_pending := AList.update requestID (Some r) (lk_pending lk)\<rparr>))"

text \<open>A frame of the daemon: its number if it has one, and what it carries.\<close>

record client_frame =
  fr_ID :: "int option"
  fr_Method :: string
  fr_Params :: string
  fr_Reply :: reply

definition error_fields :: fields where
  "error_fields = [(''code'', IntField), (''message'', StringField)]"

definition frame_fields :: fields where
  "frame_fields = [(''id'', RawField), (''method'', StringField), (''params'', RawField), (''result'', RawField),
     (''error'', RawField)]"

definition pointer_in :: "(string \<Rightarrow> 'a option) \<Rightarrow> string \<Rightarrow> 'a option option" where
  "pointer_in f raw = (if raw = [] \<or> raw = ''null'' then Some None else map_option Some (f raw))"

definition unmarshal_frame :: "string \<Rightarrow> client_frame option" where
  "unmarshal_frame line =
     Option.bind (decode_struct False frame_fields line) (\<lambda>vs.
     Option.bind (pointer_in Atoi (raw_at vs ''id'')) (\<lambda>requestID.
     map_option (\<lambda>failure. \<lparr>fr_ID = requestID, fr_Method = string_at vs ''method'', fr_Params = raw_at vs ''params'',
         fr_Reply = \<lparr>ry_Result = raw_at vs ''result'', ry_Error = failure\<rparr>\<rparr>)
       (pointer_in (\<lambda>raw. map_option (\<lambda>es. (int_at es ''code'', string_at es ''message'')) (decode_struct False error_fields raw))
          (raw_at vs ''error''))))"

text \<open>One line of the reading loop; \<open>handler\<close> says whether notifications are wanted.\<close>

definition read_line :: "bool \<Rightarrow> string \<Rightarrow> link \<Rightarrow> link option" where
  "read_line handler line lk = (case unmarshal_frame line of
      None \<Rightarrow> Some (shut_down ''the daemon sent something unreadable'' lk)
    | Some frame \<Rightarrow> (case fr_ID frame of
        None \<Rightarrow> Some (if handler \<and> fr_Method frame \<noteq> []
          then lk\<lparr>lk_notified := lk_notified lk @ [(fr_Method frame, fr_Params frame)]\<rparr> else lk)
      | Some requestID \<Rightarrow> deliver_reply requestID (fr_Reply frame) lk))"

text \<open>The second half of \<open>Call\<close>: it ends with its reply, with its context, or with the connection, and
  takes its channel away. \<open>None\<close> is a call that goes on waiting. When several of them hold, the choice
  is the scheduler's.\<close>

datatype ending = ByReply | ByContext ctx_err | ByHangup

definition end_request :: "ending \<Rightarrow> int \<Rightarrow> link \<Rightarrow> ((call_error + string) \<times> link) option" where
  "end_request why requestID lk =
     (let lk' = lk\<lparr>lk_pending := AList.delete requestID (lk_pending lk)\<rparr>
      in case why of
          ByReply \<Rightarrow> (case map_of (lk_pending lk) requestID of
              Some (Some r) \<Rightarrow> Some (case ry_Error r of Some (code, text) \<Rightarrow> Inl (DaemonError code text) | None \<Rightarrow> Inr (ry_Result r), lk')
            | _ \<Rightarrow> None)
        | ByContext ce \<Rightarrow> Some (Inl (CallContext ce), lk')
        | ByHangup \<Rightarrow> (case lk_closed lk of Some cause \<Rightarrow> Some (Inl (Disconnected cause), lk') | None \<Rightarrow> None))"

subsection \<open>Where the daemon listens\<close>

definition DefaultSocketPath :: "environment \<Rightarrow> string res" where
  "DefaultSocketPath env =
     (if env_var env ''LAC_SOCKET'' \<noteq> [] then Inr (env_var env ''LAC_SOCKET'')
      else (case env_home env of
          Inl e \<Rightarrow> Inl e
        | Inr home \<Rightarrow>
            if IsAbs (env_var env ''XDG_RUNTIME_DIR'')
            then Inr (filepath_Join [env_var env ''XDG_RUNTIME_DIR'', ''lac'', ''lacd.sock''])
            else Inr (filepath_Join
              [if IsAbs (env_var env ''XDG_STATE_HOME'') then env_var env ''XDG_STATE_HOME''
               else filepath_Join [home, ''.local'', ''state''], ''lac'', ''run'', ''lacd.sock''])))"

text \<open>What a \<open>Task\<close> and a \<open>WatchDetail\<close> can say of themselves.\<close>

definition Task_Finished :: "TaskView \<Rightarrow> bool" where
  "Task_Finished t \<longleftrightarrow> List.member [''succeeded'', ''failed'', ''cancelled''] (tv_State t)"

definition unresolved_threads :: "WatchDetail \<Rightarrow> ThreadView list" where
  "unresolved_threads d = filter (\<lambda>t. \<not> thv_Resolved t \<and> \<not> thv_Outdated t) (wd_Threads d)"

definition RenewAfter :: "LeaseView \<Rightarrow> duration" where
  "RenewAfter l = lv_RenewAfterSeconds l * Second"

end
