(* ===== verification/ClientProperties.thy ===== *)
theory ClientProperties
  imports ClientLibrary RegistryFacts
begin

section \<open>Properties of the client library\<close>

text \<open>
  The client and the daemon agree: what a call says is what the daemon reads, every reply reaches the
  call it answers, and both look for the socket in the same place.
\<close>

subsection \<open>Requests\<close>


















subsection \<open>Replies\<close>

text \<open>The connection between its steps: calls begin and end, lines arrive, it closes. \<open>answers\<close> records how
  the calls that have ended did, and \<open>arrived\<close> the numbered replies that were read.\<close>

inductive link_run :: "link \<Rightarrow> (int \<times> (call_error + string)) list \<Rightarrow> (int \<times> reply) list \<Rightarrow> bool" where
  dialled: "link_run new_link [] []"
| begins: "link_run lk answers arrived \<Longrightarrow> begin_request ok c lk = (r, lk') \<Longrightarrow> link_run lk' answers arrived"
| reads: "link_run lk answers arrived \<Longrightarrow> unmarshal_frame line = Some f \<Longrightarrow> fr_ID f = Some i \<Longrightarrow>
    read_line handler line lk = Some lk' \<Longrightarrow> link_run lk' answers (arrived @ [(i, fr_Reply f)])"
| other_line: "link_run lk answers arrived \<Longrightarrow> Option.bind (unmarshal_frame line) fr_ID = None \<Longrightarrow>
    read_line handler line lk = Some lk' \<Longrightarrow> link_run lk' answers arrived"
| ends: "link_run lk answers arrived \<Longrightarrow> i \<in> fst ` set (lk_pending lk) \<Longrightarrow> end_request why i lk = Some (outcome, lk') \<Longrightarrow>
    link_run lk' (answers @ [(i, outcome)]) arrived"
| closes: "link_run lk answers arrived \<Longrightarrow> link_run (shut_down cause lk) answers arrived"

definition sent_under :: "link \<Rightarrow> int \<Rightarrow> bool" where
  "sent_under lk i \<longleftrightarrow> 1 \<le> i \<and> i \<le> lk_nextID lk \<and> (\<exists>c. request_line i c \<in> set (lk_written lk))"

definition answer_accounted :: "link \<Rightarrow> (int \<times> reply) list \<Rightarrow> int \<Rightarrow> call_error + string \<Rightarrow> bool" where
  "answer_accounted lk arrived i outcome \<longleftrightarrow> (case outcome of
      Inr raw \<Rightarrow> (\<exists>r. (i, r) \<in> set arrived \<and> ry_Error r = None \<and> ry_Result r = raw)
    | Inl (DaemonError code text) \<Rightarrow> (\<exists>r. (i, r) \<in> set arrived \<and> ry_Error r = Some (code, text))
    | Inl (CallContext ce) \<Rightarrow> True
    | Inl (Disconnected cause) \<Rightarrow> lk_closed lk = Some cause
    | Inl BadResult \<Rightarrow> False)"

definition link_ok :: "link \<Rightarrow> (int \<times> (call_error + string)) list \<Rightarrow> (int \<times> reply) list \<Rightarrow> bool" where
  "link_ok lk answers arrived \<longleftrightarrow> 0 \<le> lk_nextID lk \<and> distinct (map fst (lk_pending lk)) \<and> distinct (map fst answers) \<and>
     fst ` set (lk_pending lk) \<inter> fst ` set answers = {} \<and>
     (\<forall>i \<in> fst ` set (lk_pending lk) \<union> fst ` set answers. sent_under lk i) \<and>
     (\<forall>i r. map_of (lk_pending lk) i = Some (Some r) \<longrightarrow> (i, r) \<in> set arrived) \<and>
     (\<forall>(i, outcome) \<in> set answers. answer_accounted lk arrived i outcome)"

lemma answer_accounted_mono: "answer_accounted lk arrived i outcome \<Longrightarrow> set arrived \<subseteq> set arrived' \<Longrightarrow>
    lk_closed lk' = lk_closed lk \<or> lk_closed lk = None \<Longrightarrow> answer_accounted lk' arrived' i outcome"
  by (auto simp: answer_accounted_def split: sum.splits call_error.splits)

lemma link_okI:
  assumes "0 \<le> lk_nextID lk" and "distinct (map fst (lk_pending lk))" and "distinct (map fst answers)"
    and "fst ` set (lk_pending lk) \<inter> fst ` set answers = {}"
    and "\<And>i. i \<in> fst ` set (lk_pending lk) \<union> fst ` set answers \<Longrightarrow> sent_under lk i"
    and "\<And>i r. map_of (lk_pending lk) i = Some (Some r) \<Longrightarrow> (i, r) \<in> set arrived"
    and "\<And>i outcome. (i, outcome) \<in> set answers \<Longrightarrow> answer_accounted lk arrived i outcome"
  shows "link_ok lk answers arrived"
  unfolding link_ok_def
proof (intro conjI)
  show "\<forall>(i, outcome) \<in> set answers. answer_accounted lk arrived i outcome" using assms(7) by blast
  show "\<forall>i r. map_of (lk_pending lk) i = Some (Some r) \<longrightarrow> (i, r) \<in> set arrived" using assms(6) by blast
  show "\<forall>i \<in> fst ` set (lk_pending lk) \<union> fst ` set answers. sent_under lk i" using assms(5) by (rule ballI)
qed (rule assms(1-4))+

lemma link_okD:
  assumes "link_ok lk answers arrived"
  shows "0 \<le> lk_nextID lk" and "distinct (map fst (lk_pending lk))" and "distinct (map fst answers)"
    and "fst ` set (lk_pending lk) \<inter> fst ` set answers = {}"
    and "i \<in> fst ` set (lk_pending lk) \<union> fst ` set answers \<Longrightarrow> sent_under lk i"
    and "map_of (lk_pending lk) i = Some (Some r) \<Longrightarrow> (i, r) \<in> set arrived"
    and "(i, outcome) \<in> set answers \<Longrightarrow> answer_accounted lk arrived i outcome"
  using assms unfolding link_ok_def by (blast | fast)+

lemma link_ok_mono:
  assumes "link_ok lk answers arrived" and "lk_pending lk' = lk_pending lk" and "lk_nextID lk' \<ge> lk_nextID lk"
    and "set (lk_written lk) \<subseteq> set (lk_written lk')" and "lk_closed lk' = lk_closed lk \<or> lk_closed lk = None"
    and "set arrived \<subseteq> set arrived'"
  shows "link_ok lk' answers arrived'"
proof (rule link_okI)
  show "0 \<le> lk_nextID lk'" using link_okD(1) [OF assms(1)] assms(3) by simp
  show "sent_under lk' i" if "i \<in> fst ` set (lk_pending lk') \<union> fst ` set answers" for i
    using link_okD(5) [OF assms(1), of i] that assms(2-4) unfolding sent_under_def by auto
  show "(i, r) \<in> set arrived'" if "map_of (lk_pending lk') i = Some (Some r)" for i r
    using link_okD(6) [OF assms(1)] that assms(2,6) by auto
  show "answer_accounted lk' arrived' i outcome" if "(i, outcome) \<in> set answers" for i outcome
    by (rule answer_accounted_mono [OF link_okD(7) [OF assms(1) that] assms(6,5)])
qed (simp_all add: assms(2) link_okD(2-4) [OF assms(1)])

lemma begin_ok:
  assumes k: "link_ok lk answers arrived" and b: "begin_request ok c lk = (r, lk')"
  shows "link_ok lk' answers arrived"
proof -
  consider "lk' = lk" | "lk' = lk\<lparr>lk_nextID := lk_nextID lk + 1\<rparr>"
    | "lk' = lk\<lparr>lk_nextID := lk_nextID lk + 1, lk_pending := (lk_nextID lk + 1, None) # lk_pending lk,
        lk_written := lk_written lk @ [request_line (lk_nextID lk + 1) c]\<rparr>"
    using b by (auto simp: begin_request_def Let_def split: option.splits if_splits)
  then show ?thesis
  proof cases
    case 1
    with k show ?thesis by simp
  next
    case 2
    then show ?thesis by (intro link_ok_mono [OF k]) simp_all
  next
    case 3
    let ?n = "lk_nextID lk + 1"
    have fresh: "?n \<notin> fst ` set (lk_pending lk) \<union> fst ` set answers"
      using link_okD(5) [OF k, of ?n] unfolding sent_under_def by linarith
    show ?thesis
    proof (rule link_okI)
      show "0 \<le> lk_nextID lk'" using link_okD(1) [OF k] 3 by simp
      show "distinct (map fst (lk_pending lk'))" using link_okD(2) [OF k] 3 fresh by simp
      show "distinct (map fst answers)" by (rule link_okD(3) [OF k])
      show "fst ` set (lk_pending lk') \<inter> fst ` set answers = {}" using link_okD(4) [OF k] 3 fresh by simp
      show "sent_under lk' i" if i: "i \<in> fst ` set (lk_pending lk') \<union> fst ` set answers" for i
      proof (cases "i = ?n")
        case True
        then show ?thesis using 3 link_okD(1) [OF k] by (auto simp: sent_under_def)
      next
        case False
        with i 3 have "sent_under lk i" by (intro link_okD(5) [OF k]) simp
        then show ?thesis using 3 by (auto simp: sent_under_def)
      qed
      show "(i, r) \<in> set arrived" if "map_of (lk_pending lk') i = Some (Some r)" for i r
        using that 3 by (intro link_okD(6) [OF k]) (simp split: if_splits)
      show "answer_accounted lk' arrived i outcome" if "(i, outcome) \<in> set answers" for i outcome
        by (rule answer_accounted_mono [OF link_okD(7) [OF k that]]) (simp_all add: 3)
    qed
  qed
qed

lemma deliver_ok:
  assumes k: "link_ok lk answers arrived" and "deliver_reply i r lk = Some lk'"
  shows "link_ok lk' answers (arrived @ [(i, r)])"
proof (cases "lk' = lk")
  case True
  then show ?thesis by (intro link_ok_mono [OF k]) auto
next
  case False
  with assms(2) have d: "map_of (lk_pending lk) i = Some None" "lk' = lk\<lparr>lk_pending := AList.update i (Some r) (lk_pending lk)\<rparr>"
    by (auto simp: deliver_reply_def split: option.splits)
  have "i \<in> fst ` set (lk_pending lk)" using d(1) by (metis domI dom_map_of_conv_image_fst)
  then have keys: "fst ` set (lk_pending lk') = fst ` set (lk_pending lk)" using d(2) by (auto simp: AList.dom_update)
  show ?thesis
  proof (rule link_okI)
    show "distinct (map fst (lk_pending lk'))" using d(2) link_okD(2) [OF k] by (simp add: AList.distinct_update)
    show "sent_under lk' j" if "j \<in> fst ` set (lk_pending lk') \<union> fst ` set answers" for j
      using link_okD(5) [OF k, of j] that d(2) unfolding keys by (simp add: sent_under_def)
    show "(j, x) \<in> set (arrived @ [(i, r)])" if "map_of (lk_pending lk') j = Some (Some x)" for j x
      using that d(2) link_okD(6) [OF k, of j x] by (cases "j = i") (auto simp: AList.update_conv')
    show "answer_accounted lk' (arrived @ [(i, r)]) j outcome" if "(j, outcome) \<in> set answers" for j outcome
      by (rule answer_accounted_mono [OF link_okD(7) [OF k that]]) (auto simp: d(2))
  qed (use link_okD(1,3,4) [OF k] keys d(2) in simp_all)
qed

lemma end_ok:
  assumes k: "link_ok lk answers arrived" and i: "i \<in> fst ` set (lk_pending lk)" and "end_request why i lk = Some (outcome, lk')"
  shows "link_ok lk' (answers @ [(i, outcome)]) arrived"
proof -
  have lk': "lk' = lk\<lparr>lk_pending := AList.delete i (lk_pending lk)\<rparr>"
    using assms(3) by (auto simp: end_request_def Let_def split: ending.splits option.splits)
  have "answer_accounted lk arrived i outcome"
    using assms(3) link_okD(6) [OF k, of i]
    by (auto simp: end_request_def answer_accounted_def Let_def split: ending.splits option.splits)
  then have one: "answer_accounted lk' arrived i outcome" by (rule answer_accounted_mono) (simp_all add: lk')
  have keys: "fst ` set (lk_pending lk') = fst ` set (lk_pending lk) - {i}" by (auto simp: lk' AList.delete_eq)
  show ?thesis
  proof (rule link_okI)
    show "distinct (map fst (lk_pending lk'))" using lk' link_okD(2) [OF k] by (simp add: AList.distinct_delete)
    show "distinct (map fst (answers @ [(i, outcome)]))" using link_okD(3,4) [OF k] i by auto
    show "fst ` set (lk_pending lk') \<inter> fst ` set (answers @ [(i, outcome)]) = {}" using link_okD(4) [OF k] keys by auto
    show "sent_under lk' j" if "j \<in> fst ` set (lk_pending lk') \<union> fst ` set (answers @ [(i, outcome)])" for j
    proof -
      have "sent_under lk j" using that keys i by (intro link_okD(5) [OF k]) auto
      then show ?thesis by (simp add: sent_under_def lk')
    qed
    show "(j, x) \<in> set arrived" if "map_of (lk_pending lk') j = Some (Some x)" for j x
      using that lk' link_okD(6) [OF k, of j x] by (cases "j = i") (simp_all add: AList.delete_conv')
    show "answer_accounted lk' arrived j x" if "(j, x) \<in> set (answers @ [(i, outcome)])" for j x
    proof (cases "(j, x) = (i, outcome)")
      case True
      with one show ?thesis by simp
    next
      case False
      with that have "(j, x) \<in> set answers" by auto
      from answer_accounted_mono [OF link_okD(7) [OF k this]] show ?thesis by (simp add: lk')
    qed
  qed (use link_okD(1) [OF k] lk' in simp)
qed

lemma link_run_ok: "link_run lk answers arrived \<Longrightarrow> link_ok lk answers arrived"
proof (induction rule: link_run.induct)
  case dialled
  show ?case by (simp add: link_ok_def new_link_def)
next
  case (begins lk answers arrived ok c r lk')
  then show ?case using begin_ok by blast
next
  case (reads lk answers arrived line f i handler lk')
  then have "deliver_reply i (fr_Reply f) lk = Some lk'" by (simp add: read_line_def)
  then show ?case using deliver_ok [OF reads(5)] by blast
next
  case (other_line lk answers arrived line handler lk')
  then show ?case
    by (intro link_ok_mono [OF other_line(4)])
      (auto simp: read_line_def shut_down_def split: option.splits if_splits)
next
  case (ends lk answers arrived i why outcome lk')
  then show ?case using end_ok by blast
next
  case (closes lk answers arrived cause)
  then show ?case by (intro link_ok_mono [OF closes(2)]) (auto simp: shut_down_def)
qed

text \<open>C33: Every reply reaches the call it answers, and nobody else. On a connection however calls, lines and
  its end interleave, a number ends at most one call, whose request was sent under it; what the call
  returned is what a reply with that number carried, the daemon's error or its result, unless its own
  context or the connection ended first. Once the connection has ended every waiting call can return, and
  the reader is never stopped by the first reply to a call.\<close>

theorem replies_reach_their_callers:
  assumes "link_run lk answers arrived"
  shows "distinct (map fst answers) \<and>
    (\<forall>(i, outcome) \<in> set answers. (\<exists>c. request_line i c \<in> set (lk_written lk)) \<and>
      (case outcome of
         Inr raw \<Rightarrow> (\<exists>r. (i, r) \<in> set arrived \<and> ry_Error r = None \<and> ry_Result r = raw)
       | Inl (DaemonError code text) \<Rightarrow> (\<exists>r. (i, r) \<in> set arrived \<and> ry_Error r = Some (code, text))
       | Inl (CallContext ce) \<Rightarrow> True
       | Inl (Disconnected cause) \<Rightarrow> lk_closed lk = Some cause
       | Inl BadResult \<Rightarrow> False)) \<and>
    (lk_closed lk \<noteq> None \<longrightarrow> (\<forall>i. end_request ByHangup i lk \<noteq> None)) \<and>
    (\<forall>handler line f i. unmarshal_frame line = Some f \<longrightarrow> fr_ID f = Some i \<longrightarrow> i \<notin> fst ` set arrived \<longrightarrow>
      read_line handler line lk \<noteq> None)"
proof (intro conjI)
  note k = link_run_ok [OF assms]
  show "distinct (map fst answers)" by (rule link_okD(3) [OF k])
  show "\<forall>(i, outcome) \<in> set answers. (\<exists>c. request_line i c \<in> set (lk_written lk)) \<and>
      (case outcome of
         Inr raw \<Rightarrow> (\<exists>r. (i, r) \<in> set arrived \<and> ry_Error r = None \<and> ry_Result r = raw)
       | Inl (DaemonError code text) \<Rightarrow> (\<exists>r. (i, r) \<in> set arrived \<and> ry_Error r = Some (code, text))
       | Inl (CallContext ce) \<Rightarrow> True
       | Inl (Disconnected cause) \<Rightarrow> lk_closed lk = Some cause
       | Inl BadResult \<Rightarrow> False)"
  proof clarify
    fix i outcome
    assume a: "(i, outcome) \<in> set answers"
    then have "i \<in> fst ` set answers" by force
    then have "sent_under lk i" using link_okD(5) [OF k] by blast
    with link_okD(7) [OF k a] show "(\<exists>c. request_line i c \<in> set (lk_written lk)) \<and>
      (case outcome of
         Inr raw \<Rightarrow> (\<exists>r. (i, r) \<in> set arrived \<and> ry_Error r = None \<and> ry_Result r = raw)
       | Inl (DaemonError code text) \<Rightarrow> (\<exists>r. (i, r) \<in> set arrived \<and> ry_Error r = Some (code, text))
       | Inl (CallContext ce) \<Rightarrow> True
       | Inl (Disconnected cause) \<Rightarrow> lk_closed lk = Some cause
       | Inl BadResult \<Rightarrow> False)"
      unfolding answer_accounted_def sent_under_def by blast
  qed
  show "lk_closed lk \<noteq> None \<longrightarrow> (\<forall>i. end_request ByHangup i lk \<noteq> None)"
    by (auto simp: end_request_def Let_def)
  show "\<forall>handler line f i. unmarshal_frame line = Some f \<longrightarrow> fr_ID f = Some i \<longrightarrow> i \<notin> fst ` set arrived \<longrightarrow>
      read_line handler line lk \<noteq> None"
  proof (intro allI impI)
    fix handler line f i
    assume f: "unmarshal_frame line = Some f" "fr_ID f = Some i" "i \<notin> fst ` set arrived"
    then have "map_of (lk_pending lk) i \<noteq> Some (Some r)" for r using link_okD(6) [OF k, of i r] by force
    then show "read_line handler line lk \<noteq> None"
      using f by (auto simp: read_line_def deliver_reply_def split: option.split)
  qed
qed

definition pong :: string where
  "pong = json_record (written [(''jsonrpc'', StringV ''2.0''), (''id'', IntV 1), (''result'', BoolV True)])"

lemma pong_read: "unmarshal_frame pong = Some \<lparr>fr_ID = Some 1, fr_Method = [], fr_Params = [],
    fr_Reply = \<lparr>ry_Result = ''true'', ry_Error = None\<rparr>\<rparr>"
  by code_simp

theorem replies_reach_their_callers_witness:
  "\<exists>lk r. link_run lk [(1, Inr ''true'')] [(1, r)] \<and> ry_Result r = ''true''"
proof -
  let ?lk1 = "new_link\<lparr>lk_nextID := 1, lk_pending := [(1, None)], lk_written := [request_line 1 (Daemon_Call Call_Ping)]\<rparr>"
  let ?r = "\<lparr>ry_Result = ''true'', ry_Error = None\<rparr>"
  let ?lk2 = "?lk1\<lparr>lk_pending := [(1, Some ?r)]\<rparr>" and ?lk3 = "?lk1\<lparr>lk_pending := []\<rparr>"
  have "begin_request True (Daemon_Call Call_Ping) new_link = (Inr 1, ?lk1)" by (simp add: begin_request_def new_link_def Let_def)
  from link_run.begins [OF link_run.dialled this] have one: "link_run ?lk1 [] []" .
  have "read_line False pong ?lk1 = Some ?lk2"
    by (simp add: read_line_def pong_read deliver_reply_def)
  from link_run.reads [OF one pong_read _ this] have two: "link_run ?lk2 [] [(1, ?r)]" by simp
  have "end_request ByReply 1 ?lk2 = Some (Inr ''true'', ?lk3)" by (simp add: end_request_def Let_def)
  from link_run.ends [OF two _ this] have three: "link_run ?lk3 [(1, Inr ''true'')] [(1, ?r)]" by simp
  from replies_reach_their_callers [OF three, THEN conjunct2, THEN conjunct1] show ?thesis using three by fastforce
qed

subsection \<open>The socket\<close>

lemma split_slash_join: "split_slash (a @ CHR ''/'' # b) = split_slash a @ split_slash b"
proof -
  have some: "split_slash s \<noteq> []" for s by (induction s) (auto split: list.splits)
  show ?thesis
  proof (induction a)
    case (Cons c a)
    then show ?case using some [of a] by (cases "split_slash a") auto
  qed simp
qed

lemma clean_components_into:
  assumes "IsAbs p" and "CHR ''/'' \<notin> set e" and "e \<notin> {[], ''.'', ''..''}"
  shows "IsAbs (p @ ''/'' @ e)" and "clean_components (p @ ''/'' @ e) = clean_components p @ [e]"
proof -
  show abs: "IsAbs (p @ ''/'' @ e)" using assms(1) by (cases p) (auto simp: IsAbs_def HasPrefix_def)
  have "split_slash e = [e]" using assms(2) by (induction e) auto
  then have "path_components (p @ ''/'' @ e) = path_components p @ [e]"
    using assms(3) by (simp add: path_components_def split_slash_join)
  then show "clean_components (p @ ''/'' @ e) = clean_components p @ [e]"
    using assms abs by (simp add: clean_components_def clean_step.simps)
qed

lemma Clean_same:
  assumes "IsAbs p" and "IsAbs q" and "clean_components p = clean_components q"
  shows "Clean p = Clean q"
  using assms by (simp add: Clean_def)

lemma clean_components_Clean: "IsAbs p \<Longrightarrow> clean_components (Clean p) = clean_components p"
proof -
  assume p: "IsAbs p"
  then have "path_components (Clean p) = clean_components p" "IsAbs (Clean p)" using Clean_abs by blast+
  then show ?thesis using clean_dotless [OF clean_abs_dotless [OF p], of _ "[]"] by (simp add: clean_components_def)
qed

lemma filepath_Join_abs: "IsAbs p \<Longrightarrow> filepath_Join (p # es) = Clean (Join (p # es) ''/'')"
  by (auto simp: filepath_Join_def IsAbs_def HasPrefix_def)

text \<open>One element into an absolute directory; a cleaned directory makes no difference.\<close>

definition plain_element :: "string \<Rightarrow> bool" where
  "plain_element e \<longleftrightarrow> CHR ''/'' \<notin> set e \<and> e \<notin> {[], ''.'', ''..''}"

lemma Join_into:
  assumes "IsAbs p" and "plain_element e"
  shows "IsAbs (filepath_Join [p, e])" and "clean_components (filepath_Join [p, e]) = clean_components p @ [e]"
proof -
  note into = clean_components_into [OF assms(1), of e]
  have j: "filepath_Join [p, e] = Clean (p @ ''/'' @ e)" using assms(1) by (simp add: filepath_Join_abs)
  show "IsAbs (filepath_Join [p, e])" "clean_components (filepath_Join [p, e]) = clean_components p @ [e]"
    using into assms(2) Clean_abs(1) clean_components_Clean by (auto simp: j plain_element_def)
qed

lemma Join_elements:
  assumes "IsAbs p" and "es \<noteq> []" and "list_all plain_element es"
  shows "IsAbs (filepath_Join (p # es)) \<and> clean_components (filepath_Join (p # es)) = clean_components p @ es"
proof -
  have "IsAbs (Join (p # es) ''/'') \<and> clean_components (Join (p # es) ''/'') = clean_components p @ es"
    using assms
  proof (induction es arbitrary: p)
    case (Cons e es)
    then have into: "IsAbs (p @ ''/'' @ e)" "clean_components (p @ ''/'' @ e) = clean_components p @ [e]"
      using clean_components_into [of p e] by (simp_all add: plain_element_def)
    show ?case
    proof (cases es)
      case Nil
      with into show ?thesis by simp
    next
      case (Cons d ds)
      then have "Join (p # e # es) ''/'' = Join ((p @ ''/'' @ e) # es) ''/''" by simp
      with Cons.IH [OF into(1)] Cons.prems Cons into(2) show ?thesis by simp
    qed
  qed simp
  then show ?thesis using assms(1) Clean_abs(1) clean_components_Clean by (simp add: filepath_Join_abs)
qed

lemma Clean_of_Clean: "filepath_Join (p # es) = Clean (Join (p # es) ''/'') \<Longrightarrow> IsAbs (Join (p # es) ''/'') \<Longrightarrow>
    Clean (filepath_Join (p # es)) = filepath_Join (p # es)"
  using Clean_abs(3) by metis

lemma Joins_same:
  assumes "IsAbs p" and "IsAbs q" and "es \<noteq> []" and "fs \<noteq> []" and "list_all plain_element es" and "list_all plain_element fs"
    and "clean_components p @ es = clean_components q @ fs"
  shows "filepath_Join (p # es) = filepath_Join (q # fs)"
proof -
  have c: "filepath_Join (p # es) = ''/'' @ Join (clean_components p @ es) ''/''"
    if "IsAbs p" "es \<noteq> []" "list_all plain_element es" for p es
  proof -
    have "filepath_Join (p # es) = Clean (filepath_Join (p # es))"
      using filepath_Join_abs [OF that(1)] Clean_abs(3) Join_elements [OF that] Clean_rel by metis
    with Join_elements [OF that] show ?thesis by (metis Clean_def)
  qed
  show ?thesis using c [OF assms(1,3,5)] c [OF assms(2,4,6)] assms(7) by simp
qed

text \<open>C34: A client without any settings finds the daemon. Whenever the daemon's configuration loads, and neither
  its command line nor its file names a socket, the default socket of the client is the one the daemon
  listens on, whether the environment names it, a runtime directory or a state directory, or nothing.\<close>

theorem client_finds_the_daemon:
  assumes "Load decode env opts = Inr c" and "opt_SocketPath opts = []"
    and "\<forall>contents base c'. decode contents base = Some c' \<longrightarrow> cf_SocketPath c' = cf_SocketPath base"
    and "env_home env = Inr home" and "IsAbs home"
  shows "DefaultSocketPath env = Inr (cf_SocketPath c)"
proof -
  obtain paths where paths: "DefaultPaths env = Inr paths" using assms(1) by (auto simp: Load_def split: sum.splits)
  obtain path explicit where chosen: "configFilePath env opts paths = (path, explicit)" by fastforce
  obtain c0 where c0: "applyFile decode env (defaults paths) path explicit = Inr c0"
    "c = applyOptions opts (applyEnvironment env c0)"
    using assms(1) paths chosen by (auto simp: Load_def Let_def split: sum.splits)
  have "cf_SocketPath c0 = cf_SocketPath (defaults paths)"
    using c0(1) assms(3) by (auto simp: applyFile_def split: sum.splits if_splits option.splits)
  then have socket: "cf_SocketPath c =
      (if env_var env ''LAC_SOCKET'' \<noteq> [] then env_var env ''LAC_SOCKET'' else filepath_Join [pt_RuntimeDir paths, ''lacd.sock''])"
    using c0(2) assms(2) by (simp add: applyOptions_def applyEnvironment_def overlayString_def defaults_def)
  have plain: "plain_element ''lac''" "plain_element ''run''" "plain_element ''lacd.sock''" "plain_element ''.local''"
    "plain_element ''state''" by (simp_all add: plain_element_def)
  let ?runtime = "env_var env ''XDG_RUNTIME_DIR''" and ?state = "env_var env ''XDG_STATE_HOME''"
  let ?home = "filepath_Join [home, ''.local'', ''state'']"
  have home: "IsAbs ?home" using Join_elements [OF assms(5), of "[''.local'', ''state'']"] plain by simp
  define S where "S = (if IsAbs ?state then ?state else ?home)"
  have S: "IsAbs S" "IsAbs (if IsAbs ?state then Clean ?state else ?home)"
    "clean_components (if IsAbs ?state then Clean ?state else ?home) = clean_components S"
    using home Clean_abs(1) clean_components_Clean by (auto simp: S_def)
  show ?thesis
  proof (cases "env_var env ''LAC_SOCKET'' \<noteq> []")
    case True
    then show ?thesis using socket by (simp add: DefaultSocketPath_def)
  next
    case False
    show ?thesis
    proof (cases "IsAbs ?runtime")
      case True
      have "IsAbs (Clean ?runtime)" by (rule Clean_abs(1) [OF True])
      then have "Clean ?runtime \<noteq> []" by (cases "Clean ?runtime") (simp_all add: IsAbs_def HasPrefix_def)
      then have rd: "pt_RuntimeDir paths = filepath_Join [Clean ?runtime, ''lac'']"
        using paths True assms(4) by (auto simp: DefaultPaths_def environmentDir_def Let_def applicationName_def)
      have "IsAbs (pt_RuntimeDir paths)" "clean_components (pt_RuntimeDir paths) = clean_components ?runtime @ [''lac'']"
        using Join_into [OF Clean_abs(1) [OF True] plain(1)] clean_components_Clean [OF True] by (simp_all add: rd)
      then have "filepath_Join [?runtime, ''lac'', ''lacd.sock''] = filepath_Join [pt_RuntimeDir paths, ''lacd.sock'']"
        using True plain by (intro Joins_same) simp_all
      then show ?thesis using False True assms(4) socket by (simp add: DefaultSocketPath_def)
    next
      case other: False
      let ?T = "if IsAbs ?state then Clean ?state else ?home"
      have rd: "pt_RuntimeDir paths = filepath_Join [filepath_Join [?T, ''lac''], ''run'']"
        using paths other assms(4) by (auto simp: DefaultPaths_def environmentDir_def Let_def applicationName_def)
      have one: "IsAbs (filepath_Join [?T, ''lac''])" "clean_components (filepath_Join [?T, ''lac'']) = clean_components S @ [''lac'']"
        using Join_into [OF S(2) plain(1)] S(3) by simp_all
      have "IsAbs (pt_RuntimeDir paths)" "clean_components (pt_RuntimeDir paths) = clean_components S @ [''lac'', ''run'']"
        unfolding rd using Join_into [OF one(1) plain(2)] one(2) by simp_all
      then have "filepath_Join [S, ''lac'', ''run'', ''lacd.sock''] = filepath_Join [pt_RuntimeDir paths, ''lacd.sock'']"
        using S(1) plain by (intro Joins_same) simp_all
      then show ?thesis using False other assms(4) socket by (simp add: DefaultSocketPath_def S_def)
    qed
  qed
qed

text \<open>With nothing set at all, both sides come to the same place under the home directory.\<close>

definition empty_environment :: environment where
  "empty_environment = \<lparr>env_var = (\<lambda>_. []), env_home = Inr ''/home/u'', env_file = (\<lambda>_. NoFile)\<rparr>"

definition without_options :: Options where
  "without_options = \<lparr>opt_ConfigPath = [], opt_SocketPath = [], opt_DatabasePath = [], opt_LogLevel = []\<rparr>"

theorem client_finds_the_daemon_witness:
  "\<exists>c. Load (\<lambda>_ _. None) empty_environment without_options = Inr c \<and>
     DefaultSocketPath empty_environment = Inr (cf_SocketPath c)"
proof -
  have "succeeded (Load (\<lambda>_ _. None) empty_environment without_options)" by code_simp
  then obtain c where c: "Load (\<lambda>_ _. None) empty_environment without_options = Inr c"
    by (cases "Load (\<lambda>_ _. None) empty_environment without_options") auto
  have "DefaultSocketPath empty_environment = Inr (cf_SocketPath c)"
    by (rule client_finds_the_daemon [OF c, of "''/home/u''"])
      (simp_all add: empty_environment_def without_options_def IsAbs_def HasPrefix_def)
  with c show ?thesis by blast
qed

end
