(* ===== verification/McpTools.thy ===== *)
theory McpTools
  imports ClientLibrary Telegram
begin

section \<open>The tools of the MCP server (\<open>internal/transport/mcp/tools.go\<close>)\<close>

text \<open>
  What a model can ask of the coordinator: the tools as they are advertised, the arguments each of them
  reads, the calls it makes of the daemon through the client library, and what the model is told. What
  the daemon answers to the n-th call of a session is a parameter. The descriptions of the tools, prose
  for the model, and the text of a decoding error are left out.
\<close>

subsection \<open>Results (\<open>protocol.go\<close>)\<close>

record callToolResult =
  ct_Text :: string
  ct_IsError :: bool

definition textResult :: "string \<Rightarrow> callToolResult" where
  "textResult t = \<lparr>ct_Text = t, ct_IsError = False\<rparr>"

definition errorResult :: "string \<Rightarrow> callToolResult" where
  "errorResult t = \<lparr>ct_Text = t, ct_IsError = True\<rparr>"

subsection \<open>A session and the daemon it talks to\<close>

record mcp_options =
  mo_AgentName :: string
  mo_AgentKind :: string
  mo_Workdir :: string
  mo_AcquireTimeout :: duration

text \<open>What is outside: whether the n-th dial fails, whether the connection was found gone when the n-th
  request asked for it, what the daemon answers to the n-th call, and the process itself.\<close>

record surroundings =
  sr_Dial :: "nat \<Rightarrow> string option"
  sr_Gone :: "nat \<Rightarrow> bool"
  sr_Answer :: "nat \<Rightarrow> client_call \<Rightarrow> call_error + Result"
  sr_Getwd :: "string + string"
  sr_ProcessID :: int
  sr_Version :: string

record mcp_session =
  ms_Options :: mcp_options
  ms_connected :: bool
  ms_agent :: AgentView
  ms_beating :: bool
  ms_dials :: nat
  ms_asked :: nat
  ms_calls :: "client_call list"

text \<open>A tool ends early with the failure the model is to read.\<close>

type_synonym 'a tool_action = "(mcp_session, callToolResult, 'a) op"

definition error_text :: "call_error \<Rightarrow> string" where
  "error_text e = (case e of
      DaemonError code t \<Rightarrow> t
    | CallContext ce \<Rightarrow> (case ce of DeadlineExceeded \<Rightarrow> ''context deadline exceeded'' | Canceled \<Rightarrow> ''context canceled'')
    | Disconnected cause \<Rightarrow> cause
    | BadResult \<Rightarrow> ''decoding the result'')"

definition isTimeout :: "call_error \<Rightarrow> bool" where
  "isTimeout e \<longleftrightarrow> Contains (error_text e) ''context deadline exceeded''"

definition call_daemon :: "surroundings \<Rightarrow> client_call \<Rightarrow> (mcp_session, call_error, Result) op" where
  "call_daemon sr c = (\<lambda>s. (sr_Answer sr (length (ms_calls s)) c, s\<lparr>ms_calls := ms_calls s @ [c]\<rparr>))"

text \<open>The outcome of an operation, error included, in the hands of one that fails differently.\<close>

definition settled :: "('w, 'e, 'a) op \<Rightarrow> ('w, 'f, 'e + 'a) op" where
  "settled m = (\<lambda>w. case m w of (r, v) \<Rightarrow> (Inr r, v))"

text \<open>One call of the client library. \<open>view\<close> is the struct the result is decoded into.\<close>

definition asking ::
  "surroundings \<Rightarrow> client_call \<Rightarrow> (Result \<Rightarrow> 'a option) \<Rightarrow> (call_error \<Rightarrow> callToolResult) \<Rightarrow> 'a tool_action" where
  "asking sr c view on_error = bindE (settled (call_daemon sr c)) (\<lambda>r. case r of
      Inl e \<Rightarrow> throwE (on_error e)
    | Inr x \<Rightarrow> (case view x of None \<Rightarrow> throwE (on_error BadResult) | Some y \<Rightarrow> returnE y))"

definition this_session :: "mcp_session tool_action" where
  "this_session = (\<lambda>s. (Inr s, s))"

definition insist :: "bool \<Rightarrow> string \<Rightarrow> unit tool_action" where
  "insist ok t = (if ok then returnE () else throwE (errorResult t))"

definition decode_arguments :: "fields \<Rightarrow> string \<Rightarrow> decoded tool_action" where
  "decode_arguments fs arguments =
     (if length arguments = 0 then returnE []
      else (case decode_struct False fs arguments of
          None \<Rightarrow> throwE (errorResult ''those arguments could not be read'')
        | Some vs \<Rightarrow> returnE vs))"

subsection \<open>Reading results\<close>

fun agents_in :: "Result \<Rightarrow> AgentView list option" where
  "agents_in (AgentListResult found) = Some found" | "agents_in _ = None"
fun resources_in :: "Result \<Rightarrow> ResourceView list option" where
  "resources_in (ResourceListResult found) = Some found" | "resources_in _ = None"
fun lease_in :: "Result \<Rightarrow> LeaseView option" where
  "lease_in (LeaseResult l) = Some l" | "lease_in _ = None"
fun leases_in :: "Result \<Rightarrow> LeaseView list option" where
  "leases_in (HeldResult ls) = Some ls" | "leases_in _ = None"
fun queue_in :: "Result \<Rightarrow> (ResourceView \<times> QueueEntryView list) option" where
  "queue_in (QueueStatusResult res holders waiting) = Some (res, waiting)" | "queue_in _ = None"
fun recipients_in :: "Result \<Rightarrow> nat option" where
  "recipients_in (SendResult messageID recipients notified) = Some recipients" | "recipients_in _ = None"
fun task_in :: "Result \<Rightarrow> TaskView option" where
  "task_in (TaskResult t) = Some t" | "task_in _ = None"
fun commands_in :: "Result \<Rightarrow> CommandView list option" where
  "commands_in (TaskCommandsResult found) = Some found" | "commands_in _ = None"
fun watch_in :: "Result \<Rightarrow> WatchView option" where
  "watch_in (WatchResult w) = Some w" | "watch_in _ = None"
fun detail_in :: "Result \<Rightarrow> WatchDetail option" where
  "detail_in (WatchStatusResult d) = Some d" | "detail_in _ = None"
fun messages_in :: "Result \<Rightarrow> MessageView list option" where
  "messages_in (InboxResult ms) = Some ms" | "messages_in _ = None"

definition anything :: "Result \<Rightarrow> unit option" where
  "anything r = Some ()"

subsection \<open>Agents and resources\<close>

definition line_end :: string where
  "line_end = [newline]"

definition handleAgents :: "surroundings \<Rightarrow> string \<Rightarrow> callToolResult tool_action" where
  "handleAgents sr _ =
     bindE (asking sr (Agent_Call (Call_Agents [])) agents_in
       (\<lambda>e. errorResult (''Could not read the agent roster: '' @ error_text e))) (\<lambda>found.
     bindE this_session (\<lambda>s.
     let others = filter (\<lambda>a. av_ID a \<noteq> av_ID (ms_agent s)) found
     in if length others = 0
        then returnE (textResult (''No other agents are working on this machine right now. '' @
          ''You are registered as \"'' @ av_Name (ms_agent s) @ ''\".''))
        else returnE (textResult (itoa (int (length others)) @ '' other agent(s) working right now (you are '' @
          Telegram.quoted (av_Name (ms_agent s)) @ ''):'' @ line_end @ line_end @
          concat (map (\<lambda>a. ''- '' @ av_Name a @ '' ('' @ av_Kind a @ '') in '' @ av_Workdir a @ line_end) others)))))"

definition usage_line :: "ResourceView \<Rightarrow> string" where
  "usage_line r = itoa (rsv_Held r) @ '' of '' @ itoa (rsv_Capacity r) @ '' slots in use, ''"

definition handleResources :: "surroundings \<Rightarrow> string \<Rightarrow> callToolResult tool_action" where
  "handleResources sr _ =
     bindE (asking sr (Resource_Call Call_Resources) resources_in
       (\<lambda>e. errorResult (''Could not read the resources: '' @ error_text e))) (\<lambda>found.
     if length found = 0
     then returnE (textResult (''No shared resources are defined on this machine, so nothing needs '' @
       ''queueing for. The operator defines them in ~/.config/lac/config.yaml.''))
     else returnE (textResult (''Shared resources on this machine:'' @ line_end @ line_end @
       concat (map (\<lambda>r. ''- '' @ rsv_Name r @ '': '' @ usage_line r @ itoa (rsv_Waiting r) @ '' waiting'' @
         (if rsv_Description r \<noteq> [] then dash @ rsv_Description r else []) @ line_end) found) @
       line_end @ ''Acquire a slot with lac_acquire_slot before running work that needs one.'')))"

subsection \<open>Slots\<close>

definition acquireArguments :: fields where
  "acquireArguments = [(''resource'', StringField), (''reason'', StringField), (''priority'', IntField), (''no_wait'', BoolField)]"

definition acquire_request :: "mcp_session \<Rightarrow> decoded \<Rightarrow> LeaseRequest" where
  "acquire_request s vs = \<lparr>lr_Resource = string_at vs ''resource'', lr_Priority = int_at vs ''priority'',
     lr_Reason = string_at vs ''reason'', lr_Metadata = None, lr_NoWait = bool_at vs ''no_wait'',
     lr_Timeout = mo_AcquireTimeout (ms_Options s)\<rparr>"

text \<open>A full resource and a long queue are not failures.\<close>

definition acquire_failure :: "string \<Rightarrow> duration \<Rightarrow> call_error \<Rightarrow> callToolResult" where
  "acquire_failure resource timeout e =
     (if IsCapacityReached e then textResult (Telegram.quoted resource @
        '' is fully in use right now and you asked not to wait. Either do something else and '' @
        ''try again, or call this again without no_wait to take your place in the queue.'')
      else if isTimeout e then textResult (''Still waiting for a slot on '' @ Telegram.quoted resource @ '' after '' @
        FormatDuration timeout @ dash @ ''other agents are ahead of you. This is '' @
        ''normal. Call lac_acquire_slot again to keep waiting, or lac_queue to see the line.'')
      else errorResult (''Could not get a slot on '' @ Telegram.quoted resource @ '': '' @ error_text e))"

definition handleAcquireSlot :: "surroundings \<Rightarrow> string \<Rightarrow> callToolResult tool_action" where
  "handleAcquireSlot sr arguments =
     bindE (decode_arguments acquireArguments arguments) (\<lambda>vs.
     bindE (insist (string_at vs ''resource'' \<noteq> []) (''Which resource? Give resource, for example \"test\". '' @
       ''lac_resources lists what exists.'')) (\<lambda>_.
     bindE this_session (\<lambda>s.
     bindE (asking sr (Lease_Call (Call_Acquire (acquire_request s vs))) lease_in
       (acquire_failure (string_at vs ''resource'') (mo_AcquireTimeout (ms_Options s)))) (\<lambda>lease.
     returnE (textResult (''You have a slot on '' @ Telegram.quoted (lv_Resource lease) @ ''. Lease id: '' @ lv_ID lease @
       '' (expires '' @ lv_ExpiresAt lease @ ''; it is renewed for you while this session '' @
       ''lives). Do the work now, then call lac_release_slot with that lease id'' @ dash @ ''even if the '' @
       ''work fails.''))))))"

definition leaseArguments :: fields where
  "leaseArguments = [(''lease_id'', StringField)]"

definition handleReleaseSlot :: "surroundings \<Rightarrow> string \<Rightarrow> callToolResult tool_action" where
  "handleReleaseSlot sr arguments =
     bindE (decode_arguments leaseArguments arguments) (\<lambda>vs.
     bindE (insist (string_at vs ''lease_id'' \<noteq> []) ''Which slot? Give lease_id. lac_my_slots lists the ones you hold.'') (\<lambda>_.
     bindE (asking sr (Lease_Call (Call_Release (string_at vs ''lease_id''))) anything
       (\<lambda>e. errorResult (''Could not release '' @ string_at vs ''lease_id'' @ '': '' @ error_text e))) (\<lambda>_.
     returnE (textResult ''Slot released. Whoever was next in the queue can start.''))))"

definition handleMySlots :: "surroundings \<Rightarrow> string \<Rightarrow> callToolResult tool_action" where
  "handleMySlots sr _ =
     bindE (asking sr (Queue_Call Call_Held) leases_in
       (\<lambda>e. errorResult (''Could not read your slots: '' @ error_text e))) (\<lambda>leases.
     if length leases = 0 then returnE (textResult ''You are not holding any slots.'')
     else returnE (textResult (''You are holding:'' @ line_end @ line_end @
       concat (map (\<lambda>l. ''- '' @ lv_ID l @ '' on '' @ Telegram.quoted (lv_Resource l) @ '', expires '' @ lv_ExpiresAt l @ line_end) leases) @
       line_end @ ''Release each one with lac_release_slot as soon as its work is done.'')))"

definition queueArguments :: fields where
  "queueArguments = [(''resource'', StringField)]"

definition handleQueue :: "surroundings \<Rightarrow> string \<Rightarrow> callToolResult tool_action" where
  "handleQueue sr arguments =
     bindE (decode_arguments queueArguments arguments) (\<lambda>vs.
     bindE (insist (string_at vs ''resource'' \<noteq> []) ''Which resource? Give resource, for example \"test\".'') (\<lambda>_.
     bindE (asking sr (Queue_Call (Call_Queue (string_at vs ''resource''))) queue_in
       (\<lambda>e. errorResult (''Could not read the queue for '' @ Telegram.quoted (string_at vs ''resource'') @ '': '' @ error_text e)))
       (\<lambda>(res, waiting).
     returnE (textResult (rsv_Name res @ '': '' @ usage_line res @ itoa (int (length waiting)) @ '' waiting.'' @ line_end @
       concat (map (\<lambda>q. line_end @ itoa (int (qv_Position q)) @ ''. '' @ qv_AgentName q @
         (if qv_Reason q \<noteq> [] then dash @ qv_Reason q else [])) waiting))))))"

subsection \<open>Messages\<close>

definition sendArguments :: fields where
  "sendArguments = [(''to'', StringField), (''broadcast'', BoolField), (''kind'', StringField), (''text'', StringField)]"

definition send_call :: "decoded \<Rightarrow> client_call" where
  "send_call vs =
     (let kind = (if string_at vs ''kind'' = [] then ''status'' else string_at vs ''kind'');
          body = json_object [(''text'', string_at vs ''text'')]
      in if bool_at vs ''broadcast'' then Message_Call (Call_SendToTopic ''all'' kind body)
         else Message_Call (Call_SendTo (string_at vs ''to'') kind body))"

definition handleSendMessage :: "surroundings \<Rightarrow> string \<Rightarrow> callToolResult tool_action" where
  "handleSendMessage sr arguments =
     bindE (decode_arguments sendArguments arguments) (\<lambda>vs.
     bindE (insist (string_at vs ''text'' \<noteq> []) ''Nothing to send: give text.'') (\<lambda>_.
     bindE (insist (\<not> (string_at vs ''to'' = [] \<and> \<not> bool_at vs ''broadcast''))
       (''Who should hear this? Give to with an agent name from lac_agents, '' @ ''or set broadcast to reach everyone.'')) (\<lambda>_.
     bindE (asking sr (send_call vs) recipients_in
       (\<lambda>e. if ErrorCode e = CodeNotFound
            then errorResult (''Nobody is listening: '' @ error_text e @ ''. Use lac_agents to see who is here.'')
            else errorResult (''Could not send the message: '' @ error_text e))) (\<lambda>recipients.
     if recipients = 1 then returnE (textResult ''Sent. It is waiting for them whether or not they are looking right now.'')
     else returnE (textResult (''Sent to '' @ itoa (int recipients) @ '' agents.''))))))"

definition inboxArguments :: fields where
  "inboxArguments = [(''keep_unread'', BoolField)]"

definition textOf :: "string \<Rightarrow> string" where
  "textOf body = (case decode_struct False [(''text'', StringField)] body of
      Some vs \<Rightarrow> if string_at vs ''text'' \<noteq> [] then string_at vs ''text'' else body
    | None \<Rightarrow> body)"

definition reportRequestFrom :: "string \<Rightarrow> string \<Rightarrow> string" where
  "reportRequestFrom author body =
     (let plain = ''From '' @ author @ '' (report-request): '' @ body
      in case decode_struct False [(''request_id'', StringField), (''question'', StringField)] body of
           None \<Rightarrow> plain
         | Some vs \<Rightarrow> if string_at vs ''request_id'' = [] then plain
             else ''The operator asks: '' @ string_at vs ''question'' @ line_end @ ''  Answer now with lac_report(request_id: '' @
               Telegram.quoted (string_at vs ''request_id'') @ '', text: ...)'')"

definition shown_message :: "MessageView \<Rightarrow> string" where
  "shown_message m =
     (let author = (if mv_FromName m = [] then mv_From m else mv_FromName m)
      in if mv_Kind m = ''report-request'' then line_end @ reportRequestFrom author (mv_Body m)
         else line_end @ ''From '' @ author @ '' ('' @ mv_Kind m @ ''): '' @ textOf (mv_Body m))"

text \<open>The messages are shown whether or not they can be marked as read.\<close>

definition handleInbox_tool :: "surroundings \<Rightarrow> string \<Rightarrow> callToolResult tool_action" where
  "handleInbox_tool sr arguments =
     bindE (decode_arguments inboxArguments arguments) (\<lambda>vs.
     bindE (asking sr (Message_Call (Call_Inbox 0)) messages_in
       (\<lambda>e. errorResult (''Could not read your inbox: '' @ error_text e))) (\<lambda>found.
     if length found = 0 then returnE (textResult ''Nothing waiting for you.'')
     else (let report = itoa (int (length found)) @ '' message(s):'' @ line_end @ concat (map shown_message found)
       in if \<not> bool_at vs ''keep_unread''
          then bindE (settled (call_daemon sr (Message_Call (Call_Acknowledge (map mv_ID found))))) (\<lambda>r.
            returnE (textResult (report @ (if succeeded r then [] else line_end @ line_end @
              ''(These could not be marked as read, so they will appear again.)''))))
          else returnE (textResult (report @ line_end @ line_end @ ''(Left unread; they will appear again next time.)'')))))"

subsection \<open>Reports\<close>

definition reportArguments :: fields where
  "reportArguments = [(''request_id'', StringField), (''text'', StringField)]"

definition handleReport :: "surroundings \<Rightarrow> string \<Rightarrow> callToolResult tool_action" where
  "handleReport sr arguments =
     bindE (decode_arguments reportArguments arguments) (\<lambda>vs.
     bindE (insist (string_at vs ''request_id'' \<noteq> []) (''Which request? Give request_id, from the report-request message in '' @
       ''lac_inbox.'')) (\<lambda>_.
     bindE (insist (string_at vs ''text'' \<noteq> []) ''Nothing to report: give text saying what you are working on.'') (\<lambda>_.
     bindE (asking sr (Report_Call (Call_SubmitReport (string_at vs ''request_id'') (string_at vs ''text''))) anything
       (\<lambda>e. errorResult (''Could not send your report: '' @ error_text e))) (\<lambda>_.
     returnE (textResult ''Reported. The operator can see it.'')))))"

subsection \<open>Work for a shared worker\<close>

definition describeTask :: "TaskView \<Rightarrow> string" where
  "describeTask t = tv_Command t @ '': '' @ tv_State t @
     (if tv_Worker t \<noteq> [] then '', run by '' @ tv_Worker t else []) @
     (if tv_State t = ''failed'' then '' (exit status '' @ itoa (tv_ExitCode t) @ '')'' else []) @
     (if tv_Failure t \<noteq> [] then line_end @ tv_Failure t else []) @
     (if tv_Output t \<noteq> [] then line_end @ line_end @ tv_Output t else [])"

text \<open>\<open>wait\<close> is a pointer: waiting is what happens unless it is false.\<close>

definition askArguments :: fields where
  "askArguments = [(''command'', StringField), (''wait'', RawField)]"

definition read_flag :: "string \<Rightarrow> bool option option" where
  "read_flag = read_pointer (\<lambda>raw. if raw = ''true'' then Some True else if raw = ''false'' then Some False else None)"

definition decode_ask :: "string \<Rightarrow> (string \<times> bool) tool_action" where
  "decode_ask arguments =
     bindE (decode_arguments askArguments arguments) (\<lambda>vs. case read_flag (raw_at vs ''wait'') of
       None \<Rightarrow> throwE (errorResult ''those arguments could not be read'')
     | Some flag \<Rightarrow> returnE (string_at vs ''command'', flag \<noteq> Some False))"

definition handleAskWorker :: "surroundings \<Rightarrow> string \<Rightarrow> callToolResult tool_action" where
  "handleAskWorker sr arguments =
     bindE (decode_ask arguments) (\<lambda>(command, wait).
     bindE (insist (command \<noteq> []) ''Which job? Give command. lac_worker_commands lists what can be asked for.'') (\<lambda>_.
     bindE (asking sr (Task_Call (Call_SubmitTask command [] wait 0)) task_in
       (\<lambda>e. if ErrorCode e = CodeNotFound
            then errorResult (error_text e @ ''. Call lac_worker_commands to see what this machine offers; you name a '' @
              ''configured job rather than a command line.'')
            else errorResult (''Could not ask for '' @ Telegram.quoted command @ '': '' @ error_text e))) (\<lambda>t.
     if \<not> Task_Finished t
     then returnE (textResult (''Queued as '' @ tv_ID t @ ''. Nobody may have picked it up yet'' @ dash @
       ''a worker has to be running for this '' @ ''resource. Follow it with lac_task(task_id: '' @ Telegram.quoted (tv_ID t) @ '').''))
     else returnE (textResult (describeTask t)))))"

definition handleWorkerCommands :: "surroundings \<Rightarrow> string \<Rightarrow> callToolResult tool_action" where
  "handleWorkerCommands sr _ =
     bindE (asking sr (Task_Call Call_Commands) commands_in
       (\<lambda>e. errorResult (''Could not read the commands: '' @ error_text e))) (\<lambda>found.
     if length found = 0
     then returnE (textResult (''No jobs are configured for workers on this machine, so there is nothing '' @
       ''to hand off. Do the work yourself, taking a slot with lac_acquire_slot first.''))
     else returnE (textResult (''Jobs a shared worker will run for you:'' @ line_end @
       concat (map (\<lambda>c. line_end @ ''- '' @ cmv_Key c @ '': runs '' @ [CHR 0x60] @ Join (cmv_Run c) '' '' @ [CHR 0x60] @ '' on the '' @
         Telegram.quoted (cmv_Resource c) @ '' resource'' @ (if cmv_Description c \<noteq> [] then dash @ cmv_Description c else [])) found) @
       line_end @ line_end @ ''Ask for one with lac_ask_worker. It runs in your working directory.'')))"

definition taskArguments :: fields where
  "taskArguments = [(''task_id'', StringField), (''wait'', BoolField)]"

definition handleTask :: "surroundings \<Rightarrow> string \<Rightarrow> callToolResult tool_action" where
  "handleTask sr arguments =
     bindE (decode_arguments taskArguments arguments) (\<lambda>vs.
     bindE (insist (string_at vs ''task_id'' \<noteq> []) ''Which job? Give task_id, the one lac_ask_worker gave you.'') (\<lambda>_.
     bindE (asking sr (Task_Call (Call_TaskStatus (string_at vs ''task_id'') (bool_at vs ''wait''))) task_in
       (\<lambda>e. errorResult (''Could not read '' @ string_at vs ''task_id'' @ '': '' @ error_text e))) (\<lambda>t.
     returnE (textResult (describeTask t)))))"

subsection \<open>Pull requests\<close>

definition pullRequestArguments :: fields where
  "pullRequestArguments = [(''pull_request'', StringField), (''refresh'', BoolField)]"

definition describeWatch :: "WatchView \<Rightarrow> string" where
  "describeWatch w = ''State: '' @ wv_State w @ (if wv_Draft w then '' (draft)'' else []) @ ''. CI: '' @ wv_Checks w @
     ''. Unresolved review conversations: '' @ itoa (wv_Unresolved w) @ ''.'' @
     (if wv_Stale w then '' This is the last thing that was true, not the current state: GitHub could '' @ ''not be reached.'' @
        (if wv_LastError w \<noteq> [] then '' ('' @ wv_LastError w @ '')'' else [])
      else [])"

definition failingChecks :: "Check list \<Rightarrow> string list" where
  "failingChecks checks = map chk_Name (filter (\<lambda>c. List.member
     [''failure'', ''cancelled'', ''timed_out'', ''action_required'', ''startup_failure'', ''stale''] (chk_State c)) checks)"

definition firstCommentOf :: "ThreadView \<Rightarrow> string" where
  "firstCommentOf t = (case thv_Comments t of [] \<Rightarrow> []
     | c # _ \<Rightarrow> (let body = TrimSpace (pcv_Body c) in case cut_at newline body of (line, _, found) \<Rightarrow> if found then line else body))"

definition handleWatchPullRequest_tool :: "surroundings \<Rightarrow> string \<Rightarrow> callToolResult tool_action" where
  "handleWatchPullRequest_tool sr arguments =
     bindE (decode_arguments pullRequestArguments arguments) (\<lambda>vs.
     bindE (insist (string_at vs ''pull_request'' \<noteq> []) ''Which pull request? Give pull_request as owner/repository#number.'') (\<lambda>_.
     bindE (asking sr (Watch_Call (Call_WatchPullRequest (string_at vs ''pull_request''))) watch_in
       (\<lambda>e. errorResult (''Could not watch '' @ string_at vs ''pull_request'' @ '': '' @ error_text e))) (\<lambda>w.
     returnE (textResult (''Watching '' @ wv_Reference w @ dash @ wv_Title w @ ''.'' @ line_end @ describeWatch w @ line_end @ line_end @
       ''Changes will arrive in lac_inbox: CI results, reviews, '' @ ''comments, and whether it is merged.'')))))"

definition conversations :: "ThreadView list \<Rightarrow> string" where
  "conversations ts =
     (if length ts > 0
      then line_end @ line_end @ itoa (int (length ts)) @ '' review conversation(s) waiting on somebody:'' @
        concat (map (\<lambda>t. line_end @ ''- '' @ (if thv_Line t > 0 then thv_Path t @ '':'' @ itoa (thv_Line t) else thv_Path t) @ '': '' @
          firstCommentOf t) ts) @
        line_end @ line_end @ ''Deal with these before asking for the pull request to be merged.''
      else [])"

definition handlePullRequestStatus :: "surroundings \<Rightarrow> string \<Rightarrow> callToolResult tool_action" where
  "handlePullRequestStatus sr arguments =
     bindE (decode_arguments pullRequestArguments arguments) (\<lambda>vs.
     bindE (insist (string_at vs ''pull_request'' \<noteq> []) ''Which pull request? Give pull_request as owner/repository#number.'') (\<lambda>_.
     bindE (asking sr (Watch_Call (Call_PullRequestStatus (string_at vs ''pull_request'') (bool_at vs ''refresh'') False)) detail_in
       (\<lambda>e. if ErrorCode e = CodeNotFound
            then errorResult (string_at vs ''pull_request'' @ '' is not being watched. Start with lac_watch_pr.'')
            else errorResult (''Could not read '' @ string_at vs ''pull_request'' @ '': '' @ error_text e))) (\<lambda>d.
     returnE (textResult (wv_Reference (wd_Watch d) @ dash @ wv_Title (wd_Watch d) @ line_end @ describeWatch (wd_Watch d) @
       (if length (failingChecks (wd_Checks d)) > 0
        then line_end @ line_end @ ''Failing checks: '' @ Join (failingChecks (wd_Checks d)) '', '' else []) @
       conversations (unresolved_threads d) @
       (if length (wd_Changes d) > 0
        then line_end @ line_end @ ''Recently:'' @ concat (map (\<lambda>c. line_end @ ''- '' @ wev_Summary c) (take 5 (wd_Changes d)))
        else []))))))"

subsection \<open>The tools\<close>

record tool =
  to_Name :: string
  to_Title :: string
  to_Properties :: "(string \<times> string) list"
  to_Required :: "string list"

definition toolDefinitions :: "tool list" where
  "toolDefinitions =
     [\<lparr>to_Name = ''lac_agents'', to_Title = ''Who else is working'', to_Properties = [], to_Required = []\<rparr>,
      \<lparr>to_Name = ''lac_resources'', to_Title = ''Shared resources and how busy they are'', to_Properties = [], to_Required = []\<rparr>,
      \<lparr>to_Name = ''lac_acquire_slot'', to_Title = ''Wait for a slot before doing heavy work'',
        to_Properties = [(''resource'', ''string''), (''reason'', ''string''), (''priority'', ''integer''), (''no_wait'', ''boolean'')],
        to_Required = [''resource'']\<rparr>,
      \<lparr>to_Name = ''lac_release_slot'', to_Title = ''Give a slot back'', to_Properties = [(''lease_id'', ''string'')],
        to_Required = [''lease_id'']\<rparr>,
      \<lparr>to_Name = ''lac_my_slots'', to_Title = ''Slots you are holding'', to_Properties = [], to_Required = []\<rparr>,
      \<lparr>to_Name = ''lac_queue'', to_Title = ''Who is waiting for a resource'', to_Properties = [(''resource'', ''string'')],
        to_Required = [''resource'']\<rparr>,
      \<lparr>to_Name = ''lac_send_message'', to_Title = ''Tell another agent something'',
        to_Properties = [(''to'', ''string''), (''broadcast'', ''boolean''), (''kind'', ''string''), (''text'', ''string'')],
        to_Required = [''kind'', ''text'']\<rparr>,
      \<lparr>to_Name = ''lac_ask_worker'', to_Title = ''Ask a shared worker to run something for you'',
        to_Properties = [(''command'', ''string''), (''wait'', ''boolean'')], to_Required = [''command'']\<rparr>,
      \<lparr>to_Name = ''lac_worker_commands'', to_Title = ''What a shared worker can be asked to do'', to_Properties = [],
        to_Required = []\<rparr>,
      \<lparr>to_Name = ''lac_task'', to_Title = ''Follow a job you asked for'',
        to_Properties = [(''task_id'', ''string''), (''wait'', ''boolean'')], to_Required = [''task_id'']\<rparr>,
      \<lparr>to_Name = ''lac_watch_pr'', to_Title = ''Watch a pull request'', to_Properties = [(''pull_request'', ''string'')],
        to_Required = [''pull_request'']\<rparr>,
      \<lparr>to_Name = ''lac_pr_status'', to_Title = ''Where a pull request has got to'',
        to_Properties = [(''pull_request'', ''string''), (''refresh'', ''boolean'')], to_Required = [''pull_request'']\<rparr>,
      \<lparr>to_Name = ''lac_report'', to_Title = ''Answer the operator'' @ [CHR 0x27] @ ''s report request'',
        to_Properties = [(''request_id'', ''string''), (''text'', ''string'')], to_Required = [''request_id'', ''text'']\<rparr>,
      \<lparr>to_Name = ''lac_inbox'', to_Title = ''Read messages sent to you'', to_Properties = [(''keep_unread'', ''boolean'')],
        to_Required = []\<rparr>]"

definition toolHandlers :: "surroundings \<Rightarrow> (string \<times> (string \<Rightarrow> callToolResult tool_action)) list" where
  "toolHandlers sr =
     [(''lac_agents'', handleAgents sr), (''lac_resources'', handleResources sr), (''lac_acquire_slot'', handleAcquireSlot sr),
      (''lac_release_slot'', handleReleaseSlot sr), (''lac_my_slots'', handleMySlots sr), (''lac_queue'', handleQueue sr),
      (''lac_send_message'', handleSendMessage sr), (''lac_inbox'', handleInbox_tool sr), (''lac_report'', handleReport sr),
      (''lac_ask_worker'', handleAskWorker sr), (''lac_worker_commands'', handleWorkerCommands sr), (''lac_task'', handleTask sr),
      (''lac_watch_pr'', handleWatchPullRequest_tool sr), (''lac_pr_status'', handlePullRequestStatus sr)]"

text \<open>A tool never fails: what it threw is its result.\<close>

definition run_tool :: "callToolResult tool_action \<Rightarrow> mcp_session \<Rightarrow> callToolResult \<times> mcp_session" where
  "run_tool h s = (case h s of (Inl r, s') \<Rightarrow> (r, s') | (Inr r, s') \<Rightarrow> (r, s'))"

subsection \<open>Resources to read\<close>

definition resourceDefinitions :: "string list" where
  "resourceDefinitions = [''lac://agents'', ''lac://resources'']"

text \<open>The text of a resource is the JSON of this value, which the encoder writes.\<close>

datatype resource_text = AgentsText "AgentView list" | ResourcesText "ResourceView list"

definition readResource :: "surroundings \<Rightarrow> string \<Rightarrow> (mcp_session, string, resource_text) op" where
  "readResource sr uri =
     (if uri = ''lac://agents'' then bindE (settled (asking sr (Agent_Call (Call_Agents [])) agents_in
          (\<lambda>e. errorResult (''reading the agent roster: '' @ error_text e)))) (\<lambda>r. case r of
            Inl e \<Rightarrow> throwE (ct_Text e) | Inr found \<Rightarrow> returnE (AgentsText found))
      else if uri = ''lac://resources'' then bindE (settled (asking sr (Resource_Call Call_Resources) resources_in
          (\<lambda>e. errorResult (''reading the resources: '' @ error_text e)))) (\<lambda>r. case r of
            Inl e \<Rightarrow> throwE (ct_Text e) | Inr found \<Rightarrow> returnE (ResourcesText found))
      else throwE (''unknown resource '' @ Telegram.quoted uri))"

end
