(* ===== verification/McpServer.thy ===== *)
theory McpServer
  imports McpTools
begin

section \<open>The MCP server (\<open>internal/transport/mcp/server.go\<close>, \<open>protocol.go\<close>, \<open>identity.go\<close>)\<close>

text \<open>
  One session: the lines a client writes are read and answered in order, the daemon is dialled and the
  session registered when a tool first needs it, a heartbeat keeps it on the roster, and it is
  deregistered at the end. Logging and the instructions for the model are left out.
\<close>

subsection \<open>Who the session is (\<open>identity.go\<close>)\<close>

text \<open>The lower-case letter of a rune as far as a name may contain it: ASCII letters, and the Kelvin sign
  and the dotted I, which lower to ASCII letters. Every other rune, and every byte that is not UTF-8,
  becomes a dash.\<close>

definition kept_rune :: "string \<Rightarrow> char" where
  "kept_rune r = (case r of
      [c] \<Rightarrow> if name_rest (lower_char c) then lower_char c else CHR ''-''
    | _ \<Rightarrow> if r = [CHR 0xE2, CHR 0x84, CHR 0xAA] then CHR ''k'' else if r = [CHR 0xC4, CHR 0xB0] then CHR ''i'' else CHR ''-'')"

function sanitised :: "string \<Rightarrow> string" where
  "sanitised [] = []"
| "sanitised (c # cs) =
     (if c < CHR 0x80 then kept_rune [c] # sanitised cs
      else kept_rune (c # take (rune_rest c cs) cs) # sanitised (drop (rune_rest c cs) cs))"
  by pat_completeness auto
termination by (relation "measure length") (auto simp: le_imp_less_Suc)

declare sanitised.simps [simp del]

definition edge_char :: "char \<Rightarrow> bool" where
  "edge_char c \<longleftrightarrow> c = CHR ''-'' \<or> c = CHR ''.'' \<or> c = CHR ''_''"

definition sanitiseSegment :: "string \<Rightarrow> string" where
  "sanitiseSegment v = rev (dropWhile edge_char (rev (dropWhile edge_char (sanitised v))))"

definition sanitiseKind :: "string \<Rightarrow> string" where
  "sanitiseKind clientName =
     (let kind = sanitiseSegment clientName
      in if kind = [] then ''mcp''
         else (case IndexAny kind ''-.'' of Some index \<Rightarrow> if index > 0 then take index kind else kind | None \<Rightarrow> kind))"

definition filepath_Base :: "string \<Rightarrow> string" where
  "filepath_Base path =
     (if path = [] then ''.''
      else (let trimmed = rev (dropWhile (\<lambda>c. c = CHR ''/'') (rev path));
                base = rev (takeWhile (\<lambda>c. c \<noteq> CHR ''/'') (rev trimmed))
        in if base = [] then ''/'' else base))"

definition deriveName :: "int \<Rightarrow> string \<Rightarrow> string \<Rightarrow> string" where
  "deriveName processID workdir kind =
     (let project = sanitiseSegment (filepath_Base workdir)
      in sanitiseSegment kind @ ''-'' @ (if project = [] then ''session'' else project) @ ''-'' @ itoa processID)"

definition identity :: "surroundings \<Rightarrow> mcp_options \<Rightarrow> string + string \<times> string" where
  "identity sr opts = (case (if mo_Workdir opts = [] then sr_Getwd sr else Inr (mo_Workdir opts)) of
      Inl e \<Rightarrow> Inl e
    | Inr workdir \<Rightarrow> Inr (if mo_AgentName opts = [] then deriveName (sr_ProcessID sr) workdir (mo_AgentKind opts)
        else mo_AgentName opts, workdir))"

subsection \<open>The session\<close>

definition no_agent :: AgentView where
  "no_agent = \<lparr>av_ID = [], av_Name = [], av_Kind = [], av_Workdir = [], av_ProcessID = 0, av_Internal = False, av_State = [],
     av_Capabilities = \<lparr>cv_Resources = [], cv_CanBroadcast = False, cv_CanDefineResources = False, cv_CanRequestReports = False\<rparr>,
     av_RegisteredAt = [], av_LastHeartbeatAt = []\<rparr>"

definition newServer :: "mcp_options \<Rightarrow> mcp_session" where
  "newServer opts =
     (let timed = (if mo_AcquireTimeout opts \<le> 0 then opts\<lparr>mo_AcquireTimeout := 5 * Minute\<rparr> else opts);
          kinded = (if mo_AgentKind timed = [] then timed\<lparr>mo_AgentKind := ''mcp''\<rparr> else timed)
      in \<lparr>ms_Options = kinded, ms_connected = False, ms_agent = no_agent, ms_beating = False, ms_dials = 0, ms_asked = 0,
          ms_calls = []\<rparr>)"

fun registration_in :: "Result \<Rightarrow> AgentView option" where
  "registration_in (RegisterResult a token) = Some a" | "registration_in _ = None"

definition not_reachable :: "string \<Rightarrow> string" where
  "not_reachable e = ''the lac daemon is not reachable, so nothing can be coordinated yet. '' @
     ''Start it with '' @ [CHR 0x60] @ ''lacd &'' @ [CHR 0x60] @ '' and try again. ('' @ e @ '')''"

text \<open>A connection that has gone is dialled again, and the session registers again.\<close>

definition lose_connection :: "surroundings \<Rightarrow> (mcp_session, string, unit) op" where
  "lose_connection sr = (\<lambda>s. (Inr (), s\<lparr>ms_connected := ms_connected s \<and> \<not> sr_Gone sr (ms_asked s), ms_asked := ms_asked s + 1\<rparr>))"

definition dial :: "surroundings \<Rightarrow> (mcp_session, string, unit) op" where
  "dial sr = (\<lambda>s. (case sr_Dial sr (ms_dials s) of Some e \<Rightarrow> Inl (not_reachable e) | None \<Rightarrow> Inr (), s\<lparr>ms_dials := ms_dials s + 1\<rparr>))"

definition joined :: "AgentView \<Rightarrow> (mcp_session, string, unit) op" where
  "joined a = (\<lambda>s. (Inr (), s\<lparr>ms_connected := True, ms_agent := a, ms_beating := True\<rparr>))"

definition registering :: "surroundings \<Rightarrow> string \<Rightarrow> string \<Rightarrow> (mcp_session, string, AgentView) op" where
  "registering sr name workdir = (\<lambda>s.
     bindE (settled (asking sr (Agent_Call (Call_Register name (mo_AgentKind (ms_Options s)) workdir (sr_ProcessID sr))) registration_in
         (\<lambda>e. errorResult (''registering with the lac daemon as '' @ Telegram.quoted name @ '': '' @ error_text e))))
       (\<lambda>r. case r of Inl failed \<Rightarrow> throwE (ct_Text failed) | Inr a \<Rightarrow> returnE a) s)"

definition connect :: "surroundings \<Rightarrow> (mcp_session, string, unit) op" where
  "connect sr =
     bindE (lose_connection sr) (\<lambda>_. \<lambda>s.
     if ms_connected s then (Inr (), s)
     else bindE (dial sr) (\<lambda>_.
       case identity sr (ms_Options s) of
         Inl e \<Rightarrow> throwE e
       | Inr (name, workdir) \<Rightarrow> bindE (registering sr name workdir) joined) s)"

text \<open>The heartbeat: its interval, from what the first beat was answered, and one beat.\<close>

definition heartbeat_interval :: "duration option \<Rightarrow> duration" where
  "heartbeat_interval answered =
     (let interval = (case answered of Some timeToLive \<Rightarrow> if timeToLive > 0 then quot timeToLive 3 else Minute | None \<Rightarrow> Minute)
      in if interval < Second then Second else interval)"

definition heartbeat :: "surroundings \<Rightarrow> mcp_session \<Rightarrow> mcp_session" where
  "heartbeat sr s = (if ms_connected s then snd (call_daemon sr (Agent_Call Call_Heartbeat) s) else s)"

definition disconnect :: "surroundings \<Rightarrow> mcp_session \<Rightarrow> mcp_session" where
  "disconnect sr s =
     (let gone = s\<lparr>ms_connected := False, ms_beating := False\<rparr>
      in if ms_connected s then snd (call_daemon sr (Agent_Call Call_Deregister) gone) else gone)"

subsection \<open>Requests and replies\<close>

definition supportedProtocolVersions :: "string list" where
  "supportedProtocolVersions = [''2025-06-18'', ''2025-03-26'', ''2024-11-05'']"

definition negotiateProtocol :: "string \<Rightarrow> string" where
  "negotiateProtocol requested = (if List.member supportedProtocolVersions requested then requested else ''2025-06-18'')"

datatype mcp_result =
    Initialized string string
  | Pong
  | Tools_Listed "tool list"
  | Tool_Answered callToolResult
  | Resources_Listed "string list"
  | Resource_Read string resource_text

record mcp_response =
  mr_ID :: string
  mr_Outcome :: "int + mcp_result"

text \<open>The frame of a request is that of JSON-RPC (\<open>Request\<close>).\<close>

definition read_mcp :: "string \<Rightarrow> Request option" where
  "read_mcp line = map_option (\<lambda>vs. \<lparr>req_JSONRPC = string_at vs ''jsonrpc'', req_ID = raw_at vs ''id'',
     req_Method = string_at vs ''method'', req_Params = raw_at vs ''params''\<rparr>)
     (decode_struct False [(''jsonrpc'', StringField), (''id'', RawField), (''method'', StringField), (''params'', RawField)] line)"

definition isNotification :: "Request \<Rightarrow> bool" where
  "isNotification r \<longleftrightarrow> length (req_ID r) = 0 \<or> req_ID r = ''null''"

text \<open>What the client says of itself: the protocol version it wants and its name.\<close>

definition read_initialize :: "string \<Rightarrow> (string \<times> string) option" where
  "read_initialize params =
     (if length params > 0
      then Option.bind (decode_struct False [(''protocolVersion'', StringField), (''capabilities'', RawField), (''clientInfo'', RawField)]
          params) (\<lambda>vs.
        if \<not> absent (raw_at vs ''capabilities'') \<and> \<not> HasPrefix (raw_at vs ''capabilities'') ''{'' then None
        else map_option (\<lambda>info. (string_at vs ''protocolVersion'', string_at info ''name''))
          (decode_struct False [(''name'', StringField), (''version'', StringField)]
             (if absent (raw_at vs ''clientInfo'') then ''null'' else raw_at vs ''clientInfo'')))
      else Some ([], []))"

text \<open>Each handler gives the outcome of the request.\<close>

definition handleInitialize :: "surroundings \<Rightarrow> Request \<Rightarrow> mcp_session \<Rightarrow> (int + mcp_result) \<times> mcp_session" where
  "handleInitialize sr r s = (case read_initialize (req_Params r) of
      None \<Rightarrow> (Inl CodeInvalidParams, s)
    | Some (wanted, clientName) \<Rightarrow>
        (Inr (Initialized (negotiateProtocol wanted) (sr_Version sr)),
         if mo_AgentKind (ms_Options s) = ''mcp'' \<and> clientName \<noteq> []
         then s\<lparr>ms_Options := (ms_Options s)\<lparr>mo_AgentKind := sanitiseKind clientName\<rparr>\<rparr> else s))"

definition handleCallTool :: "surroundings \<Rightarrow> Request \<Rightarrow> mcp_session \<Rightarrow> (int + mcp_result) \<times> mcp_session" where
  "handleCallTool sr r s = (case decode_struct False [(''name'', StringField), (''arguments'', RawField)] (req_Params r) of
      None \<Rightarrow> (Inl CodeInvalidParams, s)
    | Some vs \<Rightarrow> (case map_of (toolHandlers sr) (string_at vs ''name'') of
          None \<Rightarrow> (Inl CodeMethodNotFound, s)
        | Some handler \<Rightarrow> (case connect sr s of
              (Inl e, s') \<Rightarrow> (Inr (Tool_Answered (errorResult e)), s')
            | (Inr _, s') \<Rightarrow> (case run_tool (handler (raw_at vs ''arguments'')) s' of
                  (result, s'') \<Rightarrow> (Inr (Tool_Answered result), s'')))))"

definition handleReadResource :: "surroundings \<Rightarrow> Request \<Rightarrow> mcp_session \<Rightarrow> (int + mcp_result) \<times> mcp_session" where
  "handleReadResource sr r s = (case decode_struct False [(''uri'', StringField)] (req_Params r) of
      None \<Rightarrow> (Inl CodeInvalidParams, s)
    | Some vs \<Rightarrow> (case connect sr s of
          (Inl e, s') \<Rightarrow> (Inl CodeInternalError, s')
        | (Inr _, s') \<Rightarrow> (case readResource sr (string_at vs ''uri'') s' of
              (Inl e, s'') \<Rightarrow> (Inl CodeInvalidParams, s'')
            | (Inr found, s'') \<Rightarrow> (Inr (Resource_Read (string_at vs ''uri'') found), s''))))"

text \<open>\<open>None\<close> is no reply at all, whatever the request.\<close>

definition handle_request :: "surroundings \<Rightarrow> Request \<Rightarrow> mcp_session \<Rightarrow> (int + mcp_result) option \<times> mcp_session" where
  "handle_request sr r s =
     (let replying = (\<lambda>(outcome, s'). (Some outcome, s'))
      in if req_JSONRPC r \<noteq> ''2.0'' then (Some (Inl CodeInvalidRequest), s)
         else if req_Method r = ''initialize'' then replying (handleInitialize sr r s)
         else if req_Method r = ''notifications/initialized'' \<or> req_Method r = ''notifications/cancelled'' then (None, s)
         else if req_Method r = ''ping'' then (Some (Inr Pong), s)
         else if req_Method r = ''tools/list'' then (Some (Inr (Tools_Listed toolDefinitions)), s)
         else if req_Method r = ''tools/call'' then replying (handleCallTool sr r s)
         else if req_Method r = ''resources/list'' then (Some (Inr (Resources_Listed resourceDefinitions)), s)
         else if req_Method r = ''resources/read'' then replying (handleReadResource sr r s)
         else (Some (Inl CodeMethodNotFound), s))"

text \<open>One line of \<open>Serve\<close>: the replies written and the session after it.\<close>

definition serve_line :: "surroundings \<Rightarrow> string \<Rightarrow> mcp_session \<Rightarrow> mcp_response list \<times> mcp_session" where
  "serve_line sr line s =
     (if length line = 0 then ([], s)
      else (case read_mcp line of
          None \<Rightarrow> ([\<lparr>mr_ID = ''null'', mr_Outcome = Inl CodeParseError\<rparr>], s)
        | Some r \<Rightarrow> (case handle_request sr r s of
              (outcome, s') \<Rightarrow> ((case outcome of
                  Some oc \<Rightarrow> if isNotification r then [] else [\<lparr>mr_ID = req_ID r, mr_Outcome = oc\<rparr>]
                | None \<Rightarrow> []), s'))))"

text \<open>A session between its steps: the lines read, the replies written. A beat of the heartbeat can
  come between any two of them.\<close>

inductive mcp_run :: "surroundings \<Rightarrow> mcp_options \<Rightarrow> string list \<Rightarrow> mcp_response list \<Rightarrow> mcp_session \<Rightarrow> bool"
  for sr :: surroundings and opts :: mcp_options where
  served_nothing: "mcp_run sr opts [] [] (newServer opts)"
| served_line: "mcp_run sr opts lines replies s \<Longrightarrow> serve_line sr line s = (new, s') \<Longrightarrow>
    mcp_run sr opts (lines @ [line]) (replies @ new) s'"
| beaten: "mcp_run sr opts lines replies s \<Longrightarrow> ms_beating s \<Longrightarrow> mcp_run sr opts lines replies (heartbeat sr s)"

end
