(* ===== verification/McpProperties.thy ===== *)
theory McpProperties
  imports McpServer
begin

section \<open>Properties of the MCP server\<close>

text \<open>
  What a session can make the daemon do, that every request is answered once, that an inbox is only
  acknowledged as far as it was shown, and that a session can name itself.
\<close>

subsection \<open>The calls of a session\<close>

text \<open>What the tools ask for, apart from registering and acknowledging: nothing is forced, defined,
  claimed or cancelled, and a task never names a directory of its own.\<close>

fun is_register :: "client_call \<Rightarrow> bool" where
  "is_register (Agent_Call (Call_Register name kind workdir processID)) = True" | "is_register _ = False"

fun session_call :: "client_call \<Rightarrow> bool" where
  "session_call (Agent_Call c) = (case c of Call_Heartbeat \<Rightarrow> True | Call_Agents states \<Rightarrow> states = [] | Call_Deregister \<Rightarrow> True | _ \<Rightarrow> False)"
| "session_call (Message_Call c) = (case c of Call_SendTo whom kind body \<Rightarrow> whom \<noteq> [] \<and> kind \<noteq> []
     | Call_SendToTopic topic kind body \<Rightarrow> topic = ''all'' \<and> kind \<noteq> [] | Call_Inbox limit \<Rightarrow> limit = 0 | _ \<Rightarrow> False)"
| "session_call (Resource_Call c) = (c = Call_Resources)"
| "session_call (Lease_Call c) = (case c of Call_Acquire r \<Rightarrow> lr_Resource r \<noteq> [] | Call_Release lease \<Rightarrow> lease \<noteq> [] | _ \<Rightarrow> False)"
| "session_call (Queue_Call c) = (case c of Call_Held \<Rightarrow> True | Call_Queue res \<Rightarrow> res \<noteq> [] | _ \<Rightarrow> False)"
| "session_call (Report_Call c) = (case c of Call_SubmitReport request body \<Rightarrow> request \<noteq> [] \<and> body \<noteq> [] | _ \<Rightarrow> False)"
| "session_call (Task_Call c) = (case c of Call_Commands \<Rightarrow> True
     | Call_SubmitTask command workdir wait timeout \<Rightarrow> command \<noteq> [] \<and> workdir = [] \<and> timeout = 0
     | Call_TaskStatus t wait \<Rightarrow> t \<noteq> [] | _ \<Rightarrow> False)"
| "session_call (Watch_Call c) = (case c of Call_WatchPullRequest reference \<Rightarrow> reference \<noteq> []
     | Call_PullRequestStatus reference refresh wait \<Rightarrow> reference \<noteq> [] \<and> \<not> wait | _ \<Rightarrow> False)"
| "session_call (Admin_Call c) = False"
| "session_call (Daemon_Call c) = False"

text \<open>An acknowledgement follows directly on reading the inbox, and names what was read.\<close>

definition acknowledges_shown :: "surroundings \<Rightarrow> client_call list \<Rightarrow> client_call \<Rightarrow> bool" where
  "acknowledges_shown sr before c \<longleftrightarrow> before \<noteq> [] \<and> List.last before = Message_Call (Call_Inbox 0) \<and>
     (\<exists>shown. sr_Answer sr (length before - 1) (List.last before) = Inr (InboxResult shown) \<and>
        c = Message_Call (Call_Acknowledge (map mv_ID shown)))"

definition call_ok :: "surroundings \<Rightarrow> client_call list \<Rightarrow> client_call \<Rightarrow> bool" where
  "call_ok sr before c \<longleftrightarrow> is_register c \<or> list_ex is_register before \<and> (session_call c \<or> acknowledges_shown sr before c)"

definition calls_ok :: "surroundings \<Rightarrow> client_call list \<Rightarrow> bool" where
  "calls_ok sr cs \<longleftrightarrow> (\<forall>n < length cs. call_ok sr (take n cs) (cs ! n))"

lemma calls_ok_Nil [simp]: "calls_ok sr []"
  by (simp add: calls_ok_def)

lemma calls_ok_snoc [simp]: "calls_ok sr (cs @ [c]) \<longleftrightarrow> calls_ok sr cs \<and> call_ok sr cs c"
  by (auto simp: calls_ok_def nth_append less_Suc_eq)

lemma calls_ok_two [simp]: "calls_ok sr (cs @ [c, d]) \<longleftrightarrow> calls_ok sr cs \<and> call_ok sr cs c \<and> call_ok sr (cs @ [c]) d"
  using calls_ok_snoc [of sr "cs @ [c]" d] by simp

text \<open>A tool leaves the session as it is but for the calls it makes.\<close>

definition tool_step :: "surroundings \<Rightarrow> mcp_session \<Rightarrow> mcp_session \<Rightarrow> bool" where
  "tool_step sr s s' \<longleftrightarrow> ms_connected s' = ms_connected s \<and> ms_beating s' = ms_beating s \<and>
     (list_ex is_register (ms_calls s) \<and> calls_ok sr (ms_calls s) \<longrightarrow> list_ex is_register (ms_calls s') \<and> calls_ok sr (ms_calls s'))"

interpretation tool_frame: effect_order "tool_step sr" for sr
  by unfold_locales (auto simp: tool_step_def)

lemma step_insist: "(ok \<Longrightarrow> conforms (tool_step sr) (f ())) \<Longrightarrow> conforms (tool_step sr) (bindE (insist ok t) f)"
  by (cases ok) (simp_all add: insist_def conforms_def bindE_def tool_frame.R_refl)

lemma step_arguments: "conforms (tool_step sr) (decode_arguments fs arguments)"
  by (simp add: decode_arguments_def tool_frame.resp_intros split: option.split)

lemma step_session: "conforms (tool_step sr) this_session"
  by (simp add: this_session_def conforms_def tool_frame.R_refl)

lemma step_asking: "session_call c \<Longrightarrow> conforms (tool_step sr) (asking sr c view on_error)"
  by (auto simp: conforms_def asking_def bindE_def settled_def call_daemon_def tool_step_def call_ok_def
      split: prod.splits sum.splits option.splits)

lemmas step_intros = step_insist step_arguments step_session step_asking tool_frame.resp_intros

lemma step_settled: "conforms (tool_step sr) m \<Longrightarrow> conforms (tool_step sr) (settled m)"
  by (simp add: conforms_def settled_def case_prod_beta)

lemma step_inbox: "conforms (tool_step sr) (handleInbox_tool sr arguments)"
proof -
  have inbox: "conforms (tool_step sr) (bindE (asking sr (Message_Call (Call_Inbox 0)) messages_in on_error) (\<lambda>found.
     if length found = 0 then returnE none
     else if \<not> keep then bindE (settled (call_daemon sr (Message_Call (Call_Acknowledge (map mv_ID found))))) (\<lambda>r. returnE (report found r))
     else returnE (kept found)))" for on_error none keep report kept
    unfolding conforms_def
  proof
    fix s
    show "tool_step sr s (snd (bindE (asking sr (Message_Call (Call_Inbox 0)) messages_in on_error) (\<lambda>found.
     if length found = 0 then returnE none
     else if \<not> keep then bindE (settled (call_daemon sr (Message_Call (Call_Acknowledge (map mv_ID found))))) (\<lambda>r. returnE (report found r))
     else returnE (kept found)) s))"
      by (cases "sr_Answer sr (length (ms_calls s)) (Message_Call (Call_Inbox 0))")
        (auto simp: asking_def bindE_def settled_def call_daemon_def tool_step_def call_ok_def acknowledges_shown_def
          split: option.split elim!: messages_in.elims)
  qed
  show ?thesis
    unfolding handleInbox_tool_def Let_def by (rule tool_frame.resp_bind [OF step_arguments inbox])
qed

lemma send_is_session_call: "\<not> (string_at vs ''to'' = [] \<and> \<not> bool_at vs ''broadcast'') \<Longrightarrow> session_call (send_call vs)"
  by (auto simp: send_call_def Let_def)

lemma step_tool: "map_of (toolHandlers sr) name = Some h \<Longrightarrow> conforms (tool_step sr) (h arguments)"
proof -
  assume h: "map_of (toolHandlers sr) name = Some h"
  have plain: "conforms (tool_step sr) (handleAgents sr a)" "conforms (tool_step sr) (handleResources sr a)"
    "conforms (tool_step sr) (handleMySlots sr a)" "conforms (tool_step sr) (handleWorkerCommands sr a)" for a
    unfolding handleAgents_def handleResources_def handleMySlots_def handleWorkerCommands_def Let_def
    by (auto intro!: step_intros)
  have slots: "conforms (tool_step sr) (handleAcquireSlot sr a)" "conforms (tool_step sr) (handleReleaseSlot sr a)"
    "conforms (tool_step sr) (handleQueue sr a)" for a
    unfolding handleAcquireSlot_def handleReleaseSlot_def handleQueue_def
    by (auto intro!: step_intros simp: acquire_request_def split: prod.split)
  have messages: "conforms (tool_step sr) (handleSendMessage sr a)" "conforms (tool_step sr) (handleReport sr a)" for a
    unfolding handleSendMessage_def handleReport_def
    by (auto intro!: step_intros send_is_session_call)
  have work: "conforms (tool_step sr) (handleAskWorker sr a)" "conforms (tool_step sr) (handleTask sr a)" for a
    unfolding handleAskWorker_def handleTask_def decode_ask_def
    by (auto intro!: step_intros split: prod.split option.split)
  have pulls: "conforms (tool_step sr) (handleWatchPullRequest_tool sr a)" "conforms (tool_step sr) (handlePullRequestStatus sr a)" for a
    unfolding handleWatchPullRequest_tool_def handlePullRequestStatus_def
    by (auto intro!: step_intros)
  from h show ?thesis
    by (auto simp: toolHandlers_def plain slots messages work pulls step_inbox split: if_splits)
qed

lemma step_either:
  "(\<And>e. conforms (tool_step sr) (f e)) \<Longrightarrow> (\<And>x. conforms (tool_step sr) (g x)) \<Longrightarrow>
   conforms (tool_step sr) (case r of Inl e \<Rightarrow> f e | Inr x \<Rightarrow> g x)"
  by (cases r) simp_all

lemma step_read: "conforms (tool_step sr) (readResource sr uri)"
  unfolding readResource_def by (auto intro!: step_intros step_settled step_either)

subsection \<open>A session between its steps\<close>

definition session_ok :: "surroundings \<Rightarrow> mcp_session \<Rightarrow> bool" where
  "session_ok sr s \<longleftrightarrow> calls_ok sr (ms_calls s) \<and> (ms_connected s \<longrightarrow> list_ex is_register (ms_calls s))"

lemma session_step: "session_ok sr s \<Longrightarrow> ms_connected s \<Longrightarrow> tool_step sr s s' \<Longrightarrow> session_ok sr s' \<and> ms_connected s'"
  by (simp add: session_ok_def tool_step_def)

lemma connect_ok:
  assumes "session_ok sr s" and "connect sr s = (r, s')"
  shows "session_ok sr s'" and "r = Inr u \<Longrightarrow> ms_connected s'"
  using assms by (auto simp: connect_def lose_connection_def dial_def registering_def joined_def asking_def settled_def
      call_daemon_def bindE_def session_ok_def call_ok_def split: prod.splits sum.splits option.splits if_splits)

lemma run_tool_step: "conforms (tool_step sr) h \<Longrightarrow> run_tool h s = (result, s') \<Longrightarrow> tool_step sr s s'"
  by (auto simp: conforms_def run_tool_def split: prod.splits sum.splits) (metis snd_conv)+

lemma request_ok:
  assumes "session_ok sr s" and "handle_request sr r s = (outcome, s')"
  shows "session_ok sr s'"
proof -
  have init: "session_ok sr s'" if "handleInitialize sr r s = (x, s')" for x s'
    using that assms(1) by (auto simp: handleInitialize_def session_ok_def split: option.splits if_splits prod.splits)
  have tool: "session_ok sr s'" if h: "handleCallTool sr r s = (x, s')" for x s'
  proof -
    consider "s' = s" | e where "connect sr s = (Inl e, s')"
      | name h u s1 arguments result where "map_of (toolHandlers sr) name = Some h" "connect sr s = (Inr u, s1)"
          "run_tool (h arguments) s1 = (result, s')"
      using h by (auto simp: handleCallTool_def split: option.splits sum.splits prod.splits)
    then show ?thesis
    proof cases
      case 3
      then have "session_ok sr s1" "ms_connected s1" using connect_ok [OF assms(1)] by blast+
      moreover have "tool_step sr s1 s'" by (rule run_tool_step [OF step_tool [OF 3(1)] 3(3)])
      ultimately show ?thesis using session_step by blast
    qed (use assms(1) connect_ok in blast)+
  qed
  have read: "session_ok sr s'" if h: "handleReadResource sr r s = (x, s')" for x s'
  proof -
    consider "s' = s" | e where "connect sr s = (Inl e, s')"
      | u s1 uri y where "connect sr s = (Inr u, s1)" "readResource sr uri s1 = (y, s')"
      using h by (auto simp: handleReadResource_def split: option.splits sum.splits prod.splits)
    then show ?thesis
      by cases (use assms(1) connect_ok conformsD [OF step_read] session_step in \<open>blast+\<close>)
  qed
  from assms(2) show ?thesis
    using assms(1) by (auto simp: handle_request_def Let_def split: prod.splits if_splits intro: init tool read)
qed

lemma serve_line_ok:
  assumes "session_ok sr s" and "serve_line sr line s = (new, s')"
  shows "session_ok sr s'"
  using assms request_ok by (auto simp: serve_line_def split: if_splits option.splits prod.splits)

lemma heartbeat_ok: "session_ok sr s \<Longrightarrow> session_ok sr (heartbeat sr s)"
  by (auto simp: session_ok_def heartbeat_def call_daemon_def call_ok_def)

lemma run_ok: "mcp_run sr opts lines replies s \<Longrightarrow> session_ok sr s"
proof (induction rule: mcp_run.induct)
  case served_nothing
  show ?case by (simp add: session_ok_def newServer_def Let_def)
next
  case (served_line lines replies s line new s')
  then show ?case using serve_line_ok by blast
next
  case (beaten lines replies s)
  then show ?case using heartbeat_ok by blast
qed

text \<open>C35: A session keeps to itself. Whatever a client sends and whatever the daemon answers, a session
  makes no call before it has registered; it acknowledges messages only straight after reading its inbox,
  and exactly the messages that were in it; and no other call of it forces anything, uses a power of the
  operator, claims work, withdraws anything, renews a lease or names a working directory for a task.\<close>

theorem sessions_keep_to_themselves:
  assumes "mcp_run sr opts lines replies s" and "n < length (ms_calls s)"
  shows "is_register (ms_calls s ! n) \<or>
    list_ex is_register (take n (ms_calls s)) \<and>
    (session_call (ms_calls s ! n) \<or> acknowledges_shown sr (take n (ms_calls s)) (ms_calls s ! n))"
  using run_ok [OF assms(1)] assms(2) by (simp add: session_ok_def calls_ok_def call_ok_def)

definition sample_agent :: AgentView where
  "sample_agent = no_agent\<lparr>av_ID := ''agt_1'', av_Name := ''claude''\<rparr>"

definition sample_message :: MessageView where
  "sample_message = \<lparr>mv_ID = ''msg_1'', mv_From = ''agt_2'', mv_FromName = ''codex'', mv_To = ''agt_1'', mv_Topic = [], mv_Kind = ''status'',
     mv_Body = ''7'', mv_CreatedAt = []\<rparr>"

definition sample_surroundings :: surroundings where
  "sample_surroundings = \<lparr>sr_Dial = (\<lambda>_. None), sr_Gone = (\<lambda>_. False),
     sr_Answer = (\<lambda>n c. if is_register c then Inr (RegisterResult sample_agent ''t'')
       else if c = Message_Call (Call_Inbox 0) then Inr (InboxResult [sample_message]) else Inr (AcknowledgeResult 1)),
     sr_Getwd = Inr ''/home/u'', sr_ProcessID = 7, sr_Version = ''1''\<rparr>"

definition sample_session_options :: mcp_options where
  "sample_session_options = \<lparr>mo_AgentName = ''claude'', mo_AgentKind = ''mcp'', mo_Workdir = ''/home/u'', mo_AcquireTimeout = 0\<rparr>"

definition inbox_line :: string where
  "inbox_line = json_record [(''jsonrpc'', json_string ''2.0''), (''id'', ''1''), (''method'', json_string ''tools/call''),
     (''params'', json_record [(''name'', json_string ''lac_inbox'')])]"

lemma inbox_line_served:
  "let (replies, s) = serve_line sample_surroundings inbox_line (newServer sample_session_options)
   in map mr_ID replies = [''1''] \<and> ms_calls s = [Agent_Call (Call_Register ''claude'' ''mcp'' ''/home/u'' 7),
     Message_Call (Call_Inbox 0), Message_Call (Call_Acknowledge [''msg_1''])]"
  by code_simp

lemma inbox_line_run:
  obtains replies s where "mcp_run sample_surroundings sample_session_options [inbox_line] replies s" and "map mr_ID replies = [''1'']"
    and "ms_calls s = [Agent_Call (Call_Register ''claude'' ''mcp'' ''/home/u'' 7),
      Message_Call (Call_Inbox 0), Message_Call (Call_Acknowledge [''msg_1''])]"
proof -
  obtain replies s where served: "serve_line sample_surroundings inbox_line (newServer sample_session_options) = (replies, s)" by fastforce
  have run: "mcp_run sample_surroundings sample_session_options [inbox_line] replies s"
    using served_line [OF served_nothing served] by simp
  note served_so = inbox_line_served [unfolded served Let_def prod.case]
  show thesis by (rule that [OF run served_so [THEN conjunct1] served_so [THEN conjunct2]])
qed

theorem sessions_keep_to_themselves_witness:
  "acknowledges_shown sample_surroundings [Agent_Call (Call_Register ''claude'' ''mcp'' ''/home/u'' 7), Message_Call (Call_Inbox 0)]
     (Message_Call (Call_Acknowledge [''msg_1'']))"
proof -
  obtain replies s where run: "mcp_run sample_surroundings sample_session_options [inbox_line] replies s" "map mr_ID replies = [''1'']"
    "ms_calls s = [Agent_Call (Call_Register ''claude'' ''mcp'' ''/home/u'' 7), Message_Call (Call_Inbox 0), Message_Call (Call_Acknowledge [''msg_1''])]"
    by (rule inbox_line_run)
  show ?thesis using sessions_keep_to_themselves [OF run(1), of 2] run(3) by (simp add: numeral_2_eq_2)
qed

subsection \<open>Replies\<close>

text \<open>The identifier a line is answered under, when it is answered.\<close>

definition answer_due :: "string \<Rightarrow> string list" where
  "answer_due line =
     (if line = [] then []
      else (case read_mcp line of
          None \<Rightarrow> [''null'']
        | Some r \<Rightarrow> if isNotification r \<or> req_JSONRPC r = ''2.0'' \<and>
              (req_Method r = ''notifications/initialized'' \<or> req_Method r = ''notifications/cancelled'')
            then [] else [req_ID r]))"

lemma line_answered: "serve_line sr line s = (new, s') \<Longrightarrow> map mr_ID new = answer_due line"
  by (auto simp: serve_line_def answer_due_def handle_request_def Let_def split: if_splits option.splits prod.splits)

text \<open>C36: Every request is answered once and in order. The replies a session has written carry the
  identifiers of exactly the lines that ask for an answer, one each, in the order they were read: a
  notification gets none, a line that is not a request is answered under \<^verbatim>\<open>null\<close>, and everything else
  is answered under its own identifier, whatever tool it names and whatever the daemon does.\<close>

theorem mcp_answers_every_request_once:
  assumes "mcp_run sr opts lines replies s"
  shows "map mr_ID replies = concat (map answer_due lines)"
  using assms
proof (induction rule: mcp_run.induct)
  case (served_line lines replies s line new s')
  then show ?case using line_answered by simp
qed simp_all

theorem mcp_answers_every_request_once_witness: "concat (map answer_due [inbox_line]) = [''1'']"
proof -
  obtain replies s where run: "mcp_run sample_surroundings sample_session_options [inbox_line] replies s" "map mr_ID replies = [''1'']"
    by (rule inbox_line_run)
  from mcp_answers_every_request_once [OF run(1)] run(2) show ?thesis by simp
qed

subsection \<open>Names\<close>

lemma kept_rune_name: "name_rest (kept_rune r)"
  by (auto simp: kept_rune_def name_rest_def name_first_def split: list.split)

lemma sanitised_name: "list_all name_rest (sanitised v)"
  by (induction v rule: sanitised.induct) (simp_all add: sanitised.simps kept_rune_name)

lemma list_all_dropWhile: "list_all P xs \<Longrightarrow> list_all P (dropWhile Q xs)"
  by (induction xs) simp_all

lemma segment_name: "list_all name_rest (sanitiseSegment v) \<and> (sanitiseSegment v = [] \<or> name_first (hd (sanitiseSegment v)))"
proof -
  define front where "front = dropWhile edge_char (sanitised v)"
  have all: "list_all name_rest front" unfolding front_def by (rule list_all_dropWhile [OF sanitised_name])
  have ends: "sanitiseSegment v = rev (dropWhile edge_char (rev front))" by (simp add: sanitiseSegment_def front_def)
  have "list_all name_rest (sanitiseSegment v)"
    unfolding ends using list_all_dropWhile [of name_rest "rev front"] all by simp
  moreover have "name_first c" if c: "sanitiseSegment v = c # cs" for c cs
  proof -
    have "front = sanitiseSegment v @ rev (takeWhile edge_char (rev front))"
      unfolding ends by (metis rev_append rev_rev_ident takeWhile_dropWhile_id)
    then obtain ds where "front = c # ds" using c by simp
    then have "\<not> edge_char c" unfolding front_def dropWhile_eq_Cons_conv by simp
    with \<open>front = c # ds\<close> all show ?thesis by (auto simp: name_rest_def edge_char_def)
  qed
  ultimately show ?thesis by (cases "sanitiseSegment v") auto
qed

lemma name_valid:
  assumes "list_all name_rest s" and "s \<noteq> []" and "name_first (hd s)"
  shows "ValidateName s = check (length s \<le> 63) ErrInvalidArgument"
  using assms by (cases s) (auto simp: ValidateName_check nameSyntax_def)

lemma itoa_name: "list_all name_rest (itoa i)"
proof -
  have "list_all name_rest (digits10 n)" if "0 \<le> n" for n
    using numeral_digits10 [OF that]
    by (auto simp: numeral_text_def is_digit_def name_rest_def name_first_def list_all_iff)
  then show ?thesis by (simp add: itoa_def name_rest_def)
qed

text \<open>A session can always name itself, within the length of a name. The name made from the tool, the
  directory and the process, and the kind made from what a client calls itself, are names the daemon
  accepts exactly when they have at most 63 characters; only a kind without any letter or digit makes a
  name that is refused whatever its length.\<close>

theorem derived_names_are_valid:
  "ValidateName (deriveName processID workdir kind) =
     check (sanitiseSegment kind \<noteq> [] \<and> length (deriveName processID workdir kind) \<le> 63) ErrInvalidArgument \<and>
   ValidateName (sanitiseKind clientName) = check (length (sanitiseKind clientName) \<le> 63) ErrInvalidArgument"
proof
  let ?project = "sanitiseSegment (filepath_Base workdir)"
  have project: "list_all name_rest (if ?project = [] then ''session'' else ?project)"
    using segment_name by (simp add: name_rest_def name_first_def)
  show "ValidateName (deriveName processID workdir kind) =
     check (sanitiseSegment kind \<noteq> [] \<and> length (deriveName processID workdir kind) \<le> 63) ErrInvalidArgument"
  proof (cases "sanitiseSegment kind")
    case Nil
    then show ?thesis by (simp add: deriveName_def ValidateName_check nameSyntax_def name_first_def Let_def)
  next
    case (Cons c cs)
    have "ValidateName (deriveName processID workdir kind) = check (length (deriveName processID workdir kind) \<le> 63) ErrInvalidArgument"
      by (rule name_valid) (use segment_name [of kind] itoa_name [of processID] project Cons in \<open>auto simp: deriveName_def Let_def name_rest_def\<close>)
    with Cons show ?thesis by simp
  qed
  let ?kind = "sanitiseSegment clientName"
  have "list_all name_rest (sanitiseKind clientName) \<and> sanitiseKind clientName \<noteq> [] \<and> name_first (hd (sanitiseKind clientName))"
  proof (cases "?kind = []")
    case True
    then show ?thesis by (simp add: sanitiseKind_def name_rest_def name_first_def)
  next
    case False
    then have k: "list_all name_rest ?kind" "name_first (hd ?kind)" using segment_name by blast+
    have "list_all name_rest (take i ?kind)" for i using k(1) by (auto simp: list_all_iff dest: in_set_takeD)
    moreover have "0 < i \<Longrightarrow> take i ?kind \<noteq> [] \<and> hd (take i ?kind) = hd ?kind" for i using False by (cases i; cases ?kind) auto
    ultimately show ?thesis using False k by (auto simp: sanitiseKind_def Let_def split: option.split)
  qed
  then show "ValidateName (sanitiseKind clientName) = check (length (sanitiseKind clientName) \<le> 63) ErrInvalidArgument"
    by (intro name_valid) simp_all
qed

end
