(* ===== verification/Cli.thy ===== *)
theory Cli
  imports McpServer
begin

section \<open>The command line at work (\<open>cmd/lac/identity.go\<close>, \<open>run.go\<close>, \<open>worker.go\<close>)\<close>

text \<open>
  How a command of the operator or of an agent identifies itself, how \<^verbatim>\<open>lac run\<close> puts a slot around a
  command, and how \<^verbatim>\<open>lac worker\<close> does the work of others. What the daemon answers and what a started
  command does are parameters; flags are parsed already, and what is printed for a person is left out.
\<close>

subsection \<open>The machine a command runs on\<close>

text \<open>Output arrives by lines, each with whether it is time to flush; a tick is due when the lease is to be
  renewed. \<open>Ran_out\<close> is a command that failed after its context had ended.\<close>

datatype run_event = RenewTick | OutputLine string bool

datatype run_end = Went_well | Exited_with int | Ran_out | Not_started string | Run_failed string

record machine =
  mx_Answer :: "nat \<Rightarrow> client_call \<Rightarrow> call_error + Result"
  mx_Dial :: "nat \<Rightarrow> string option"
  mx_Environment :: environment
  mx_Decode :: yaml
  mx_Getwd :: "err + string"
  mx_Username :: "string option"
  mx_ProcessID :: int
  mx_Events :: "string list \<Rightarrow> string \<Rightarrow> run_event list"
  mx_End :: "string list \<Rightarrow> string \<Rightarrow> run_end"

text \<open>What a command has done so far, in order.\<close>

datatype deed = Dialled | Did client_call | Started "string list" string

type_synonym deeds = "deed list"

datatype cli_error = CallFailed call_error | SetupFailed err | TextFailed string | ExitCode int

type_synonym 'a command = "(deeds, cli_error, 'a) op"

definition did :: "machine \<Rightarrow> client_call \<Rightarrow> (Result \<Rightarrow> 'a option) \<Rightarrow> (deeds, call_error, 'a) op" where
  "did m c view = (\<lambda>ds. (case mx_Answer m (length ds) c of
      Inl e \<Rightarrow> Inl e
    | Inr r \<Rightarrow> (case view r of None \<Rightarrow> Inl BadResult | Some x \<Rightarrow> Inr x), ds @ [Did c]))"

definition calling :: "machine \<Rightarrow> client_call \<Rightarrow> (Result \<Rightarrow> 'a option) \<Rightarrow> 'a command" where
  "calling m c view = bindE (settled (did m c view)) (\<lambda>r. case r of Inl e \<Rightarrow> throwE (CallFailed e) | Inr x \<Rightarrow> returnE x)"

subsection \<open>Who the command is (\<open>identity.go\<close>)\<close>

record cli_identity =
  ci_token :: string
  ci_name :: string
  ci_kind :: string
  ci_workdir :: string
  ci_personal :: bool

definition sanitiseName :: "string \<Rightarrow> string" where
  "sanitiseName v = rev (dropWhile edge_char (rev (dropWhile edge_char (sanitised v))))"

definition no_settings :: Options where
  "no_settings = \<lparr>opt_ConfigPath = [], opt_SocketPath = [], opt_DatabasePath = [], opt_LogLevel = []\<rparr>"

definition configuredAgentName :: "machine \<Rightarrow> string" where
  "configuredAgentName m = (case Load (mx_Decode m) (mx_Environment m) no_settings of
      Inl e \<Rightarrow> []
    | Inr settings \<Rightarrow> if succeeded (ValidateName (cf_DefaultAgentName settings)) then cf_DefaultAgentName settings else [])"

definition personalName :: "machine \<Rightarrow> string" where
  "personalName m =
     (if configuredAgentName m \<noteq> [] then configuredAgentName m
      else (case mx_Username m of
          None \<Rightarrow> []
        | Some username \<Rightarrow> if succeeded (ValidateName (sanitiseName username)) then sanitiseName username else []))"

definition workdir_of :: "machine \<Rightarrow> cli_identity \<Rightarrow> cli_error + string" where
  "workdir_of m i = (if ci_workdir i = [] then (case mx_Getwd m of Inl e \<Rightarrow> Inl (SetupFailed e) | Inr d \<Rightarrow> Inr d) else Inr (ci_workdir i))"

definition resolveName :: "machine \<Rightarrow> cli_identity \<Rightarrow> cli_error + string" where
  "resolveName m i =
     (if ci_name i \<noteq> [] then Inr (ci_name i)
      else if ci_personal i \<and> personalName m \<noteq> [] then Inr (personalName m)
      else (case workdir_of m i of
          Inl e \<Rightarrow> Inl e
        | Inr workdir \<Rightarrow>
            (let base = sanitiseName (filepath_Base workdir);
                 named = (if base = [] then personalName m else base)
             in Inr ((if named = [] then ''agent'' else named) @ ''-'' @ itoa (mx_ProcessID m)))))"

definition credentialPath :: "environment \<Rightarrow> cli_error + string" where
  "credentialPath env =
     (if env_var env ''LAC_TOKEN_FILE'' \<noteq> [] then Inr (env_var env ''LAC_TOKEN_FILE'')
      else (case env_home env of
          Inl e \<Rightarrow> Inl (SetupFailed e)
        | Inr home \<Rightarrow> Inr (filepath_Join
            [if IsAbs (env_var env ''XDG_STATE_HOME'') then env_var env ''XDG_STATE_HOME''
             else filepath_Join [home, ''.local'', ''state''], ''lac'', ''agent.token''])))"

text \<open>A file other users can read is refused.\<close>

definition readSavedToken :: "environment \<Rightarrow> cli_error + string" where
  "readSavedToken env = (case credentialPath env of
      Inl e \<Rightarrow> Inl e
    | Inr path \<Rightarrow> (case env_file env path of
          NoFile \<Rightarrow> Inr []
        | Unreadable e \<Rightarrow> Inl (SetupFailed e)
        | AFile bytes private contents \<Rightarrow>
            if \<not> private then Inl (TextFailed ''it holds an agent token and must not be readable by other users'')
            else (case contents of Inl e \<Rightarrow> Inl (SetupFailed e) | Inr t \<Rightarrow> Inr (TrimSpace t))))"

definition token_to_use :: "machine \<Rightarrow> cli_identity \<Rightarrow> cli_error + string" where
  "token_to_use m i =
     (if ci_token i \<noteq> [] then Inr (ci_token i)
      else if env_var (mx_Environment m) ''LAC_TOKEN'' \<noteq> [] then Inr (env_var (mx_Environment m) ''LAC_TOKEN'')
      else readSavedToken (mx_Environment m))"

text \<open>\<open>Dial\<close> of the client library: a connection, and the agent of a token.\<close>

definition dial_daemon :: "machine \<Rightarrow> string \<Rightarrow> (deeds, call_error, unit) op" where
  "dial_daemon m token = (\<lambda>ds. (case mx_Dial m (length ds) of
      Some e \<Rightarrow> (Inl (Disconnected e), ds @ [Dialled])
    | None \<Rightarrow> if token \<noteq> [] then did m (Agent_Call (Call_Authenticate token)) anything (ds @ [Dialled])
        else (Inr (), ds @ [Dialled])))"

text \<open>A name that is taken is made unique with the process.\<close>

definition register_visitor :: "machine \<Rightarrow> cli_identity \<Rightarrow> unit command" where
  "register_visitor m i =
     bindE (liftE (resolveName m i)) (\<lambda>name.
     bindE (liftE (workdir_of m i)) (\<lambda>workdir.
     let registering = (\<lambda>name. did m (Agent_Call (Call_Register name (ci_kind i) workdir (mx_ProcessID m))) anything)
     in bindE (settled (registering name)) (\<lambda>r. case r of
          Inr _ \<Rightarrow> returnE ()
        | Inl e \<Rightarrow>
            if ErrorCode e \<noteq> CodeAlreadyExists then throwE (CallFailed e)
            else bindE (settled (registering (name @ ''-'' @ itoa (mx_ProcessID m)))) (\<lambda>r. case r of
                Inr _ \<Rightarrow> returnE ()
              | Inl e \<Rightarrow> throwE (CallFailed e)))))"

text \<open>The value says whether the command had to register an identity of its own.\<close>

definition identity_connect :: "machine \<Rightarrow> cli_identity \<Rightarrow> bool command" where
  "identity_connect m i =
     bindE (liftE (token_to_use m i)) (\<lambda>token.
     bindE (settled (dial_daemon m token)) (\<lambda>r. case r of
       Inr _ \<Rightarrow> if token \<noteq> [] then returnE False else bindE (register_visitor m i) (\<lambda>_. returnE True)
     | Inl e \<Rightarrow>
         if token = [] \<or> ErrorCode e \<noteq> CodeUnauthorised then throwE (CallFailed e)
         else bindE (settled (dial_daemon m [])) (\<lambda>r. case r of
             Inl e \<Rightarrow> throwE (CallFailed e)
           | Inr _ \<Rightarrow> bindE (register_visitor m i) (\<lambda>_. returnE True))))"

definition release_identity :: "machine \<Rightarrow> bool \<Rightarrow> deeds \<Rightarrow> deeds" where
  "release_identity m ephemeral ds = (if ephemeral then snd (did m (Agent_Call Call_Deregister) anything ds) else ds)"

text \<open>A command with an identity, which it releases however it ends.\<close>

definition with_identity :: "machine \<Rightarrow> cli_identity \<Rightarrow> 'a command \<Rightarrow> 'a command" where
  "with_identity m i body = bindE (identity_connect m i) (\<lambda>ephemeral ds.
     case body ds of (r, ds') \<Rightarrow> (r, release_identity m ephemeral ds'))"

subsection \<open>Slots\<close>

text \<open>The slot goes back however the work ends, and whether or not the daemon takes it.\<close>

definition with_slot :: "machine \<Rightarrow> LeaseView \<Rightarrow> 'a command \<Rightarrow> 'a command" where
  "with_slot m lease body = (\<lambda>ds. case body ds of
     (r, ds') \<Rightarrow> (r, snd (did m (Lease_Call (Call_Release (lv_ID lease))) anything ds')))"

text \<open>One tick of \<open>keepAlive\<close>: renewing stops with the first renewal that fails.\<close>

definition renewal_tick :: "machine \<Rightarrow> LeaseView \<Rightarrow> bool \<Rightarrow> deeds \<Rightarrow> bool \<times> deeds" where
  "renewal_tick m lease renewing ds =
     (if renewing then (case did m (Lease_Call (Call_Renew (lv_ID lease))) anything ds of (r, ds') \<Rightarrow> (succeeded r, ds')) else (False, ds))"

definition keepAlive_interval :: "LeaseView \<Rightarrow> duration" where
  "keepAlive_interval lease = (if RenewAfter lease \<le> 0 then Minute else RenewAfter lease)"

subsection \<open>\<open>lac run\<close> (\<open>run.go\<close>)\<close>

definition isCoverageRun :: "string list \<Rightarrow> bool" where
  "isCoverageRun commandLine = list_ex (\<lambda>token. HasPrefix token ''-cover'' \<or> HasPrefix token ''--cov'' \<or> token = ''cover'' \<or>
     Contains token ''coverage'') commandLine"

record run_flags =
  rf_resource :: string
  rf_reason :: string
  rf_priority :: "int option"
  rf_timeout :: duration
  rf_quiet :: bool
  rf_json :: bool
  rf_command :: "string list"

definition coveragePriority :: int where
  "coveragePriority = - 10"

definition run_request :: "machine \<Rightarrow> run_flags \<Rightarrow> LeaseRequest" where
  "run_request m f = \<lparr>lr_Resource = rf_resource f,
     lr_Priority = (case rf_priority f of Some p \<Rightarrow> p | None \<Rightarrow> if isCoverageRun (rf_command f) then coveragePriority else 0),
     lr_Reason = (if rf_reason f = [] then Join (rf_command f) '' '' else rf_reason f),
     lr_Metadata = Some (json_record [(''command'', json_list (map json_string (rf_command f))), (''pid'', itoa (mx_ProcessID m))]),
     lr_NoWait = False, lr_Timeout = rf_timeout f\<rparr>"

fun renewals :: "machine \<Rightarrow> LeaseView \<Rightarrow> run_event list \<Rightarrow> bool \<Rightarrow> deeds \<Rightarrow> deeds" where
  "renewals m lease [] renewing ds = ds"
| "renewals m lease (RenewTick # es) renewing ds =
     (case renewal_tick m lease renewing ds of (renewing', ds') \<Rightarrow> renewals m lease es renewing' ds')"
| "renewals m lease (OutputLine l due # es) renewing ds = renewals m lease es renewing ds"

fun exit_of :: "run_end \<Rightarrow> cli_error + unit" where
  "exit_of Went_well = Inr ()"
| "exit_of (Exited_with code) = Inl (ExitCode code)"
| "exit_of Ran_out = Inl (TextFailed ''running the command'')"
| "exit_of (Not_started t) = Inl (TextFailed t)"
| "exit_of (Run_failed t) = Inl (TextFailed t)"

text \<open>\<open>execute\<close>, in the directory of the command itself, with its lease kept alive meanwhile.\<close>

definition execute_held :: "machine \<Rightarrow> LeaseView \<Rightarrow> string list \<Rightarrow> unit command" where
  "execute_held m lease commandLine = (\<lambda>ds.
     (exit_of (mx_End m commandLine []),
      case mx_End m commandLine [] of
        Not_started e \<Rightarrow> ds
      | _ \<Rightarrow> renewals m lease (mx_Events m commandLine []) True (ds @ [Started commandLine []])))"

definition report_waiting :: "machine \<Rightarrow> run_flags \<Rightarrow> unit command" where
  "report_waiting m f =
     (if \<not> rf_quiet f \<and> \<not> rf_json f
      then bindE (settled (did m (Resource_Call (Call_ResourceStatus (rf_resource f))) anything)) (\<lambda>_. returnE ())
      else returnE ())"

definition runRun :: "machine \<Rightarrow> cli_identity \<Rightarrow> run_flags \<Rightarrow> unit command" where
  "runRun m i f =
     (if rf_resource f = [] \<or> rf_command f = [] then throwE (TextFailed ''usage'')
      else with_identity m i (bindE (report_waiting m f) (\<lambda>_.
        bindE (calling m (Lease_Call (Call_Acquire (run_request m f))) lease_in) (\<lambda>lease.
        with_slot m lease (execute_held m lease (rf_command f))))))"

subsection \<open>\<open>lac worker\<close> (\<open>worker.go\<close>)\<close>

fun claimed_in :: "Result \<Rightarrow> (TaskView \<times> string list) option" where
  "claimed_in (TaskClaimResult t run limit) = Some (t, run)" | "claimed_in _ = None"

text \<open>The scanner takes a line without its end, and stops for good at one it cannot hold.\<close>

definition scanned_line :: "string \<Rightarrow> string" where
  "scanned_line l = (if l \<noteq> [] \<and> List.last l = CHR 0x0D then butlast l else l)"

definition max_line :: nat where
  "max_line = 2 ^ 20"

definition flush_size :: nat where
  "flush_size = 2 ^ 14"

definition flush_output :: "machine \<Rightarrow> string \<Rightarrow> string \<Rightarrow> deeds \<Rightarrow> deeds" where
  "flush_output m taskID pending ds =
     (if length pending = 0 then ds else snd (did m (Task_Call (Call_AppendTaskOutput taskID pending)) anything ds))"

text \<open>\<open>streamOutput\<close> beside \<open>keepAlive\<close> while the command runs: what is pending, whether the scanner still
  reads, whether the lease is still renewed.\<close>

fun streaming :: "machine \<Rightarrow> LeaseView \<Rightarrow> string \<Rightarrow> run_event list \<Rightarrow> string \<Rightarrow> bool \<Rightarrow> bool \<Rightarrow> deeds \<Rightarrow> deeds" where
  "streaming m lease taskID [] pending reading renewing ds = flush_output m taskID pending ds"
| "streaming m lease taskID (RenewTick # es) pending reading renewing ds =
     (case renewal_tick m lease renewing ds of (renewing', ds') \<Rightarrow> streaming m lease taskID es pending reading renewing' ds')"
| "streaming m lease taskID (OutputLine l due # es) pending reading renewing ds =
     (if \<not> reading then streaming m lease taskID es pending False renewing ds
      else if length l \<ge> max_line then streaming m lease taskID es [] False renewing (flush_output m taskID pending ds)
      else (let grown = pending @ scanned_line l @ [newline]
        in if due \<or> length grown > flush_size then streaming m lease taskID es [] True renewing (flush_output m taskID grown ds)
           else streaming m lease taskID es grown True renewing ds))"

fun result_of :: "run_end \<Rightarrow> string list \<Rightarrow> int \<times> string" where
  "result_of Went_well run = (0, [])"
| "result_of (Exited_with code) run = (code, [])"
| "result_of Ran_out run = (- 1, ''the command ran out of time and was stopped'')"
| "result_of (Not_started t) run = (- 1, ''could not start '' @ hd run @ '': '' @ t)"
| "result_of (Run_failed t) run = (- 1, ''running '' @ hd run @ '': '' @ t)"

definition runTask :: "machine \<Rightarrow> LeaseView \<Rightarrow> TaskView \<Rightarrow> string list \<Rightarrow> deeds \<Rightarrow> (int \<times> string) \<times> deeds" where
  "runTask m lease t run ds =
     (if length run = 0 then ((- 1, ''the daemon supplied no command to run''), ds)
      else (let started = ds @ [Started run (tv_Workdir t)]
        in (result_of (mx_End m run (tv_Workdir t)) run,
            case mx_End m run (tv_Workdir t) of
              Not_started e \<Rightarrow> ds
            | _ \<Rightarrow> streaming m lease (tv_ID t) (mx_Events m run (tv_Workdir t)) [] True True started)))"

definition workOnce :: "machine \<Rightarrow> string \<Rightarrow> unit command" where
  "workOnce m resource =
     bindE (calling m (Task_Call (Call_WaitForWork resource)) anything) (\<lambda>_.
     bindE (calling m (Lease_Call (Call_Acquire \<lparr>lr_Resource = resource, lr_Priority = 0, lr_Reason = ''running dispatched work'',
         lr_Metadata = None, lr_NoWait = False, lr_Timeout = 0\<rparr>)) lease_in) (\<lambda>lease.
     with_slot m lease (bindE (settled (did m (Task_Call (Call_ClaimTask resource (lv_ID lease) True)) claimed_in)) (\<lambda>r. case r of
       Inl e \<Rightarrow> if ErrorCode e = CodeNotFound then returnE () else throwE (CallFailed e)
     | Inr (t, run) \<Rightarrow> (\<lambda>ds. case runTask m lease t run ds of ((exitCode, failure), ds') \<Rightarrow>
         calling m (Task_Call (Call_CompleteTask (tv_ID t) exitCode failure)) anything ds')))))"

text \<open>The loop of the worker, for at most \<open>rounds\<close> pieces of work; \<open>None\<close> is a worker that goes on. Being
  cancelled and losing the daemon are not failures.\<close>

definition quiet_end :: "cli_error \<Rightarrow> bool" where
  "quiet_end e = (case e of CallFailed (CallContext ce) \<Rightarrow> True
     | CallFailed (Disconnected cause) \<Rightarrow> cause = ''not connected to the daemon'' | _ \<Rightarrow> False)"

fun working :: "machine \<Rightarrow> string \<Rightarrow> bool \<Rightarrow> nat \<Rightarrow> deeds \<Rightarrow> (cli_error + unit) option \<times> deeds" where
  "working m resource once 0 ds = (None, ds)"
| "working m resource once (Suc rounds) ds = (case workOnce m resource ds of
      (Inl e, ds') \<Rightarrow> (Some (if quiet_end e then Inr () else Inl e), ds')
    | (Inr _, ds') \<Rightarrow> if once then (Some (Inr ()), ds') else working m resource once rounds ds')"

definition runWorker :: "machine \<Rightarrow> cli_identity \<Rightarrow> string \<Rightarrow> bool \<Rightarrow> nat \<Rightarrow> deeds \<Rightarrow> (cli_error + unit) option \<times> deeds" where
  "runWorker m i resource once rounds ds =
     (if resource = [] then (Some (Inl (TextFailed ''usage: lac worker --resource <name>'')), ds)
      else (case identity_connect m i ds of
          (Inl e, ds') \<Rightarrow> (Some (Inl e), ds')
        | (Inr ephemeral, ds') \<Rightarrow> (case working m resource once rounds ds' of
              (None, ds'') \<Rightarrow> (None, ds'')
            | (Some r, ds'') \<Rightarrow> (Some r, release_identity m ephemeral ds''))))"

end
