(* ===== verification/CliProperties.thy ===== *)
theory CliProperties
  imports Cli
begin

section \<open>Properties of the command line\<close>

text \<open>
  What \<^verbatim>\<open>lac run\<close> and \<^verbatim>\<open>lac worker\<close> start, they start inside a slot of the resource, and the slot is
  given back; a command that had to register leaves the roster again.
\<close>

lemma did_appends: "did m c view ds = (r, ds') \<Longrightarrow> ds' = ds @ [Did c]"
  by (auto simp: did_def)

lemma did_snd [simp]: "snd (did m c view ds) = ds @ [Did c]"
  by (simp add: did_def)

lemma calling_apply: "calling m c view ds =
    (case fst (did m c view ds) of Inl e \<Rightarrow> Inl (CallFailed e) | Inr x \<Rightarrow> Inr x, ds @ [Did c])"
  by (simp add: calling_def bindE_def settled_def did_def split: sum.split option.split)

lemma did_lease: "fst (did m c lease_in ds) = Inr lease \<longleftrightarrow> mx_Answer m (length ds) c = Inr (LeaseResult lease)"
  by (auto simp: did_def split: sum.splits option.splits elim!: lease_in.elims)


subsection \<open>While a command runs\<close>

definition renew_of :: "LeaseView \<Rightarrow> deed" where
  "renew_of lease = Did (Lease_Call (Call_Renew (lv_ID lease)))"

definition release_of :: "LeaseView \<Rightarrow> deed" where
  "release_of lease = Did (Lease_Call (Call_Release (lv_ID lease)))"

definition output_of :: "string \<Rightarrow> string \<Rightarrow> deed" where
  "output_of taskID chunk = Did (Task_Call (Call_AppendTaskOutput taskID chunk))"

text \<open>The text of the chunks among some deeds, and the text of the lines a scanner can hold.\<close>

fun chunk_of :: "deed \<Rightarrow> string" where
  "chunk_of (Did (Task_Call (Call_AppendTaskOutput taskID chunk))) = chunk" | "chunk_of _ = []"

definition text_sent :: "deeds \<Rightarrow> string" where
  "text_sent ds = concat (map chunk_of ds)"


definition beside :: "LeaseView \<Rightarrow> string \<Rightarrow> deed \<Rightarrow> bool" where
  "beside lease taskID d \<longleftrightarrow> d = renew_of lease \<or> (\<exists>chunk. d = output_of taskID chunk)"

definition streams :: "LeaseView \<Rightarrow> string \<Rightarrow> string \<Rightarrow> deeds \<Rightarrow> deeds \<Rightarrow> bool" where
  "streams lease taskID t ds ds' \<longleftrightarrow> (\<exists>new. ds' = ds @ new \<and> list_all (beside lease taskID) new \<and> text_sent new = t)"

lemma streams_none: "streams lease taskID [] ds ds"
  by (simp add: streams_def text_sent_def)





lemma renewals_only: "\<exists>ticks. renewals m lease es renewing ds = ds @ replicate ticks (renew_of lease)"
proof (induction m lease es renewing ds rule: renewals.induct)
  case (1 m lease renewing ds)
  show ?case by (rule exI [of _ 0]) simp
next
  case (2 m lease es renewing ds)
  obtain renewing' ds' where tick: "renewal_tick m lease renewing ds = (renewing', ds')" by fastforce
  then obtain k where "ds' = ds @ replicate k (renew_of lease)"
    by (auto simp: renewal_tick_def renew_of_def split: if_splits prod.splits dest!: did_appends
        intro: that [of 0, simplified] that [of "Suc 0", simplified])
  moreover from "2.IH" [OF tick [symmetric]] obtain j where "renewals m lease es renewing' ds' = ds' @ replicate j (renew_of lease)"
    by blast
  ultimately show ?case using tick by (intro exI [of _ "k + j"]) (simp add: replicate_add)
next
  case (3 m lease l due es renewing ds)
  then show ?case by simp
qed

subsection \<open>The worker\<close>







subsection \<open>Visitors\<close>

text \<open>What connecting may do, and whether one of its registrations was accepted.\<close>

fun connecting :: "deed \<Rightarrow> bool" where
  "connecting Dialled = True"
| "connecting (Did (Agent_Call c)) = (case c of Call_Authenticate token \<Rightarrow> True | Call_Register name kind workdir processID \<Rightarrow> True | _ \<Rightarrow> False)"
| "connecting _ = False"

fun registers :: "client_call \<Rightarrow> bool" where
  "registers (Agent_Call (Call_Register name kind workdir processID)) = True" | "registers _ = False"

definition registered_at :: "machine \<Rightarrow> deeds \<Rightarrow> nat \<Rightarrow> bool" where
  "registered_at m ds n \<longleftrightarrow> (case ds ! n of Did c \<Rightarrow> registers c \<and> succeeded (mx_Answer m n c) | _ \<Rightarrow> False)"

definition registered_in :: "machine \<Rightarrow> deeds \<Rightarrow> nat \<Rightarrow> bool" where
  "registered_in m ds from_here \<longleftrightarrow> list_ex (registered_at m ds) [from_here..<length ds]"

lemma registered_in_none [simp]: "registered_in m ds (length ds) = False"
  by (simp add: registered_in_def)

lemma registered_in_snoc: "k \<le> length ds \<Longrightarrow> registered_in m (ds @ [d]) k \<longleftrightarrow> registered_in m ds k \<or> registered_at m (ds @ [d]) (length ds)"
  by (auto simp: registered_in_def registered_at_def nth_append Bex_set [symmetric] less_Suc_eq split: if_splits)

lemma registered_at_snoc [simp]: "registered_at m (ds @ [d]) (length ds) = (case d of Did c \<Rightarrow> registers c \<and> succeeded (mx_Answer m (length ds) c) | _ \<Rightarrow> False)"
  by (simp add: registered_at_def)

definition visit_state :: "machine \<Rightarrow> deeds \<Rightarrow> bool \<Rightarrow> deeds \<Rightarrow> bool" where
  "visit_state m ds entered ds' \<longleftrightarrow> (\<exists>new. ds' = ds @ new \<and> list_all connecting new) \<and> registered_in m ds' (length ds) = entered"

lemma visit_none: "visit_state m ds False ds"
  by (simp add: visit_state_def)

lemma visit_more:
  "visit_state m ds entered ds' \<Longrightarrow> connecting d \<Longrightarrow>
   visit_state m ds (entered \<or> (case d of Did c \<Rightarrow> registers c \<and> succeeded (mx_Answer m (length ds') c) | _ \<Rightarrow> False)) (ds' @ [d])"
proof -
  assume v: "visit_state m ds entered ds'" and d: "connecting d"
  from v obtain new where new: "ds' = ds @ new" "list_all connecting new" "registered_in m ds' (length ds) = entered"
    by (auto simp: visit_state_def)
  have "\<exists>new. ds' @ [d] = ds @ new \<and> list_all connecting new" using new(1,2) d by (intro exI [of _ "new @ [d]"]) simp
  moreover have "length ds \<le> length ds'" using new(1) by simp
  ultimately show ?thesis
    using registered_in_snoc [of "length ds" ds' m d] new(3) unfolding visit_state_def registered_at_snoc by simp
qed

lemma visit_dial: "visit_state m ds False ds' \<Longrightarrow> dial_daemon m token ds' = (r, ds'') \<Longrightarrow> visit_state m ds False ds''"
  using visit_more [of m ds False ds' Dialled]
    visit_more [of m ds False "ds' @ [Dialled]" "Did (Agent_Call (Call_Authenticate token))"]
  by (auto simp: dial_daemon_def split: option.splits if_splits dest!: did_appends)

lemma visit_register:
  assumes "visit_state m ds False ds'" and "did m (Agent_Call (Call_Register name kind workdir processID)) anything ds' = (r, ds'')"
  shows "visit_state m ds (succeeded r) ds''"
proof -
  have "succeeded r = succeeded (mx_Answer m (length ds') (Agent_Call (Call_Register name kind workdir processID)))"
    using assms(2) by (auto simp: did_def anything_def succeeded_def split: sum.splits)
  with visit_more [OF assms(1), of "Did (Agent_Call (Call_Register name kind workdir processID))"] did_appends [OF assms(2)]
  show ?thesis by simp
qed

lemma visit_visitor:
  assumes "visit_state m ds False ds'" and "register_visitor m i ds' = (r, ds'')"
  shows "visit_state m ds (succeeded r) ds''"
proof (cases "resolveName m i")
  case (Inl e)
  with assms show ?thesis by (auto simp: register_visitor_def bindE_def)
next
  case named: (Inr name)
  show ?thesis
  proof (cases "workdir_of m i")
    case (Inl e)
    with assms named show ?thesis by (auto simp: register_visitor_def bindE_def)
  next
    case (Inr workdir)
    let ?reg = "\<lambda>name. did m (Agent_Call (Call_Register name (ci_kind i) workdir (mx_ProcessID m))) anything"
    obtain r1 ds1 where first: "?reg name ds' = (r1, ds1)" by fastforce
    obtain r2 ds2 where second: "?reg (name @ ''-'' @ itoa (mx_ProcessID m)) ds1 = (r2, ds2)" by fastforce
    have v1: "visit_state m ds (succeeded r1) ds1" by (rule visit_register [OF assms(1) first])
    have v2: "\<not> succeeded r1 \<Longrightarrow> visit_state m ds (succeeded r2) ds2" using visit_register [OF _ second] v1 by simp
    show ?thesis
      using assms(2) v1 v2
      by (cases r1; cases r2) (auto simp: register_visitor_def bindE_def settled_def named Inr first second [simplified] Let_def split: if_splits)
  qed
qed

text \<open>Connecting says whether the command registered, and when it fails nothing was registered.\<close>

lemma connect_visit:
  assumes "identity_connect m i ds = (r, ds')"
  shows "visit_state m ds (r = Inr True) ds'"
proof (cases "token_to_use m i")
  case (Inl e)
  with assms visit_none show ?thesis by (auto simp: identity_connect_def bindE_def)
next
  case (Inr token)
  obtain r1 ds1 where first: "dial_daemon m token ds = (r1, ds1)" by fastforce
  obtain r2 ds2 where second: "dial_daemon m [] ds1 = (r2, ds2)" by fastforce
  have v1: "visit_state m ds False ds1" by (rule visit_dial [OF visit_none first])
  have v2: "visit_state m ds False ds2" by (rule visit_dial [OF v1 second])
  have entered: "visit_state m ds (q = Inr True) ds4"
    if q: "bindE (register_visitor m i) (\<lambda>_. returnE True) ds3 = (q, ds4)" and v: "visit_state m ds False ds3" for q ds3 ds4
  proof -
    obtain q1 ds5 where q1: "register_visitor m i ds3 = (q1, ds5)" by fastforce
    show ?thesis using q visit_visitor [OF v q1] by (cases q1) (auto simp: bindE_def q1)
  qed
  show ?thesis
    using assms v1 v2 entered [of ds1] entered [of ds2]
    by (cases r1; cases r2)
      (auto simp: identity_connect_def bindE_def [of "liftE _"] bindE_def [of "settled _"] settled_def Inr first second split: if_splits)
qed

text \<open>What \<^verbatim>\<open>lac run\<close> does between connecting and leaving: nothing when it fails before, or a slot with at
  most one command inside, its own, and renewals of that slot. Its outcome is then that of the command.\<close>

definition run_round :: "machine \<Rightarrow> run_flags \<Rightarrow> cli_error + unit \<Rightarrow> deeds \<Rightarrow> deeds \<Rightarrow> bool" where
  "run_round m f outcome ds work \<longleftrightarrow>
     (let acquire = Lease_Call (Call_Acquire (run_request m f))
      in work = [] \<and> \<not> succeeded outcome \<or>
         (\<nexists>lease. mx_Answer m (length ds) acquire = Inr (LeaseResult lease)) \<and> work = [Did acquire] \<and> \<not> succeeded outcome \<or>
         (\<exists>lease inside. mx_Answer m (length ds) acquire = Inr (LeaseResult lease) \<and>
            work = Did acquire # inside @ [release_of lease] \<and> outcome = exit_of (mx_End m (rf_command f) []) \<and>
            (inside = [] \<or> (\<exists>ticks. inside = Started (rf_command f) [] # replicate ticks (renew_of lease)))))"

text \<open>C40: A command runs inside a slot and its visitor leaves. Whatever fails, \<^verbatim>\<open>lac run\<close> starts at most the
  command it was given, and only after a slot of the resource was granted; while it runs only that slot is
  renewed; the slot is given back and the exit status is passed on. A command that had to register
  deregisters as its last call, and one that uses a token never deregisters its agent.\<close>

theorem commands_run_inside_a_slot:
  "\<exists>before work. snd (runRun m i f ds) = ds @ before @ work @ (if registered_in m (ds @ before) (length ds) then [Did (Agent_Call Call_Deregister)] else []) \<and>
     list_all (\<lambda>d. connecting d \<or> d = Did (Resource_Call (Call_ResourceStatus (rf_resource f)))) before \<and>
     run_round m f (fst (runRun m i f ds)) (ds @ before) work"
proof (cases "rf_resource f = [] \<or> rf_command f = []")
  case True
  then have "runRun m i f ds = (Inl (TextFailed ''usage''), ds)" by (simp add: runRun_def)
  then show ?thesis by (intro exI [of _ "[]"]) (simp add: run_round_def)
next
  case False
  let ?status = "Did (Resource_Call (Call_ResourceStatus (rf_resource f)))"
  let ?acquire = "Lease_Call (Call_Acquire (run_request m f))"
  obtain r ds1 where con: "identity_connect m i ds = (r, ds1)" by fastforce
  from connect_visit [OF con] obtain new where new: "ds1 = ds @ new" "list_all connecting new"
    "registered_in m ds1 (length ds) = (r = Inr True)" by (auto simp: visit_state_def)
  show ?thesis
  proof (cases r)
    case (Inl e)
    then have "runRun m i f ds = (Inl e, ds1)" using False con by (simp add: runRun_def with_identity_def bindE_def)
    moreover have "list_all (\<lambda>d. connecting d \<or> d = ?status) new" using new(2) by (auto simp: list_all_iff)
    ultimately show ?thesis using new Inl by (intro exI [of _ new] exI [of _ "[]"]) (simp add: run_round_def)
  next
    case (Inr ephemeral)
    define seen where "seen = (if \<not> rf_quiet f \<and> \<not> rf_json f then [?status] else [])"
    have waiting: "report_waiting m f ds1 = (Inr (), ds1 @ seen)"
      by (auto simp: report_waiting_def seen_def bindE_def settled_def did_def)
    define ds2 where "ds2 = ds1 @ seen"
    have same: "registered_in m ds2 (length ds) = ephemeral"
      using new(3) Inr registered_in_snoc [of "length ds" ds1 m ?status, unfolded registered_at_snoc] new(1) [symmetric]
      by (auto simp: ds2_def seen_def)
    let ?inside = "bindE (calling m ?acquire lease_in) (\<lambda>lease. with_slot m lease (execute_held m lease (rf_command f)))"
    obtain out ds3 where inside: "?inside ds2 = (out, ds3)" by fastforce
    have run: "runRun m i f ds = (out, release_identity m ephemeral ds3)"
      using False con Inr waiting inside by (simp add: runRun_def with_identity_def bindE_def [of "identity_connect m i"]
          bindE_def [of "report_waiting m f"] ds2_def)
    have "\<exists>work. ds3 = ds2 @ work \<and> run_round m f out ds2 work"
    proof (cases "fst (did m ?acquire lease_in ds2)")
      case (Inl e)
      then have "ds3 = ds2 @ [Did ?acquire]" "\<not> succeeded out"
        using inside by (auto simp: bindE_def calling_apply)
      moreover have "\<nexists>lease. mx_Answer m (length ds2) ?acquire = Inr (LeaseResult lease)"
        using Inl did_lease [of m ?acquire ds2] by (metis Inl_Inr_False)
      ultimately show ?thesis by (auto simp: run_round_def Let_def)
    next
      case granted: (Inr lease)
      obtain ticks where ticks: "renewals m lease (mx_Events m (rf_command f) []) True (ds2 @ [Did ?acquire] @ [Started (rf_command f) []]) =
          (ds2 @ [Did ?acquire] @ [Started (rf_command f) []]) @ replicate ticks (renew_of lease)"
        using renewals_only by blast
      obtain work where work: "execute_held m lease (rf_command f) (ds2 @ [Did ?acquire]) = (exit_of (mx_End m (rf_command f) []), (ds2 @ [Did ?acquire]) @ work)"
        "work = [] \<or> work = Started (rf_command f) [] # replicate ticks (renew_of lease)"
        using ticks by (cases "mx_End m (rf_command f) []") (auto simp: execute_held_def)
      have "(out, ds3) = (exit_of (mx_End m (rf_command f) []), ds2 @ Did ?acquire # work @ [release_of lease])"
        using inside granted work(1) by (simp add: bindE_def calling_apply with_slot_def release_of_def)
      moreover have "mx_Answer m (length ds2) ?acquire = Inr (LeaseResult lease)" using granted did_lease by blast
      ultimately show ?thesis using work(2) by (auto simp: run_round_def Let_def)
    qed
    then obtain work where work: "ds3 = ds2 @ work" "run_round m f out ds2 work" by blast
    have "list_all (\<lambda>d. connecting d \<or> d = ?status) (new @ seen)" using new(2) by (auto simp: list_all_iff seen_def)
    then show ?thesis
      using run work same new(1)
      by (intro exI [of _ "new @ seen"] exI [of _ work]) (auto simp: ds2_def release_identity_def)
  qed
qed

end
