(* ===== verification/Host.thy ===== *)
theory Host
  imports Config RegistryFacts
begin

section \<open>What the daemon keeps on its machine\<close>

text \<open>
  The install secret (\<open>internal/auth/secret.go\<close>), the lock of a state directory
  (\<open>internal/singleton/lock.go\<close>) and who may connect to the socket
  (\<open>internal/transport/unixsock/listener.go\<close>). Files are values; what the operating system refuses is a
  parameter, and file modes are whether others can reach a file.
\<close>

subsection \<open>The install secret\<close>

definition secretSize :: nat where
  "secretSize = 32"

record secret_file =
  sf_Private :: bool
  sf_Contents :: string

type_synonym files = "string \<Rightarrow> secret_file option"

datatype host_error = NotAbsolute | TooOpen | WrongSize | Refused string | Exists

definition validateSecret :: "secret_file \<Rightarrow> host_error + string" where
  "validateSecret f =
     (if \<not> sf_Private f then Inl TooOpen
      else if length (sf_Contents f) \<noteq> secretSize then Inl WrongSize
      else Inr (sf_Contents f))"

text \<open>\<open>meanwhile\<close> is what other processes did between the read and the creation; the creation is
  exclusive.\<close>

definition createSecret :: "string \<Rightarrow> string \<Rightarrow> files \<Rightarrow> (host_error + string) \<times> files" where
  "createSecret path fresh fs = (case fs path of
      Some _ \<Rightarrow> (Inl Exists, fs)
    | None \<Rightarrow> (Inr fresh, fs(path \<mapsto> \<lparr>sf_Private = True, sf_Contents = fresh\<rparr>)))"

definition LoadOrCreateSecret :: "string \<Rightarrow> string \<Rightarrow> (files \<Rightarrow> files) \<Rightarrow> files \<Rightarrow> (host_error + string) \<times> files" where
  "LoadOrCreateSecret path fresh meanwhile fs =
     (if \<not> IsAbs path then (Inl NotAbsolute, fs)
      else (case fs path of
          Some f \<Rightarrow> (validateSecret f, fs)
        | None \<Rightarrow> createSecret path fresh (meanwhile fs)))"

text \<open>Once there is a secret it stays: a start that succeeds leaves the file with exactly the secret it
  returned, 32 bytes nobody else can read, and every later start returns the same one. No start changes a
  file that was there when it began or that another daemon created in the meantime.\<close>

theorem secret_is_stable:
  assumes "LoadOrCreateSecret path fresh meanwhile fs = (r, fs')" and "length fresh = secretSize"
  shows "(\<exists>secret. r = Inr secret \<and> length secret = secretSize \<and> fs' path = Some \<lparr>sf_Private = True, sf_Contents = secret\<rparr> \<and>
        (\<forall>fresh' meanwhile'. LoadOrCreateSecret path fresh' meanwhile' fs' = (Inr secret, fs')) \<or> \<not> succeeded r) \<and>
     (IsAbs path \<longrightarrow> fs path = None \<longrightarrow> meanwhile fs path \<noteq> None \<longrightarrow> fs' = meanwhile fs) \<and> (fs path \<noteq> None \<longrightarrow> fs' = fs)"
  using assms
  by (auto simp: LoadOrCreateSecret_def createSecret_def validateSecret_def split: if_splits option.splits)

subsection \<open>The lock\<close>

text \<open>The lock file: the process that holds the lock of the kernel, and the text in it.\<close>

record lock_file =
  lf_Holder :: "int option"
  lf_Text :: string

datatype lock_error = LockPath_relative | AlreadyRunning "int option"

definition holderOf :: "lock_file \<Rightarrow> int" where
  "holderOf f = (case Atoi (TrimSpace (take 32 (lf_Text f))) of Some holder \<Rightarrow> holder | None \<Rightarrow> 0)"

definition Acquire_lock :: "string \<Rightarrow> int \<Rightarrow> lock_file \<Rightarrow> (lock_error + unit) \<times> lock_file" where
  "Acquire_lock path processID f =
     (if \<not> IsAbs path then (Inl LockPath_relative, f)
      else (case lf_Holder f of
          Some _ \<Rightarrow> (Inl (AlreadyRunning (if holderOf f > 0 then Some (holderOf f) else None)), f)
        | None \<Rightarrow> (Inr (), \<lparr>lf_Holder = Some processID, lf_Text = itoa processID @ [newline]\<rparr>)))"

text \<open>The file stays behind.\<close>

definition Release_lock :: "int \<Rightarrow> lock_file \<Rightarrow> lock_file" where
  "Release_lock processID f = (if lf_Holder f = Some processID then f\<lparr>lf_Holder := None\<rparr> else f)"

inductive lock_run :: "string \<Rightarrow> int set \<Rightarrow> lock_file \<Rightarrow> bool" for path :: string where
  unlocked: "lock_run path {} \<lparr>lf_Holder = None, lf_Text = t\<rparr>"
| acquires: "lock_run path daemons f \<Longrightarrow> Acquire_lock path p f = (Inr (), f') \<Longrightarrow> lock_run path (insert p daemons) f'"
| refused: "lock_run path daemons f \<Longrightarrow> Acquire_lock path p f = (Inl e, f') \<Longrightarrow> lock_run path daemons f'"
| leaves: "lock_run path daemons f \<Longrightarrow> p \<in> daemons \<Longrightarrow> lock_run path (daemons - {p}) (Release_lock p f)"

text \<open>However daemons start and end, at most one runs on a state directory.\<close>

theorem one_daemon_at_a_time: "lock_run path daemons f \<Longrightarrow> daemons = set_option (lf_Holder f)"
  by (induction rule: lock_run.induct) (auto simp: Acquire_lock_def Release_lock_def split: if_splits option.splits)

subsection \<open>The socket\<close>

text \<open>What is at the path of the socket, and whether somebody answers there.\<close>

datatype socket_state = Nothing_there | Uninspectable string | Other_file | Socket bool

datatype socket_error = DaemonRunning | NotASocket | Inspecting string

definition clearStaleSocket :: "socket_state \<Rightarrow> (socket_error + unit) \<times> socket_state" where
  "clearStaleSocket there = (case there of
      Nothing_there \<Rightarrow> (Inr (), there)
    | Uninspectable e \<Rightarrow> (Inl (Inspecting e), there)
    | Other_file \<Rightarrow> (Inl NotASocket, there)
    | Socket answers \<Rightarrow> if answers then (Inl DaemonRunning, there) else (Inr (), Nothing_there))"

text \<open>Accepting goes on past every connection of another user and every one without a known peer. A
  connection is its peer's user, if that can be told; the value is the accepted connection and the closed
  ones, and \<open>None\<close> is a listener that still waits.\<close>

fun Accept :: "int \<Rightarrow> (string + 'c \<times> int option) list \<Rightarrow> ((string + 'c) option) \<times> 'c list" where
  "Accept ownUID [] = (None, [])"
| "Accept ownUID (Inl e # arriving) = (Some (Inl e), [])"
| "Accept ownUID (Inr (c, peer) # arriving) =
     (if peer = Some ownUID then (Some (Inr c), [])
      else (case Accept ownUID arriving of (r, closed) \<Rightarrow> (r, c # closed)))"

text \<open>Nobody else gets in: an accepted connection is one of the daemon's own user, and it is the first
  such; everything that arrived before it was closed.\<close>

theorem only_own_connections_are_accepted:
  assumes "Accept ownUID arriving = (Some (Inr c), closed)"
  shows "\<exists>before after. arriving = map Inr before @ Inr (c, Some ownUID) # after \<and> map fst before = closed \<and>
    list_all (\<lambda>(d, peer). peer \<noteq> Some ownUID) before"
  using assms
proof (induction ownUID arriving arbitrary: closed rule: Accept.induct)
  case (3 ownUID d peer arriving)
  show ?case
  proof (cases "peer = Some ownUID")
    case True
    with 3 show ?thesis by (intro exI [of _ "[]"] exI [of _ arriving]) auto
  next
    case False
    obtain r rest where accepted: "Accept ownUID arriving = (r, rest)" by fastforce
    with False 3 obtain before after where
      "arriving = map Inr before @ Inr (c, Some ownUID) # after" "map fst before = rest" "closed = d # rest"
      "list_all (\<lambda>(d, peer). peer \<noteq> Some ownUID) before" by fastforce
    with False show ?thesis by (intro exI [of _ "(d, peer) # before"] exI [of _ after]) simp
  qed
qed simp_all

theorem live_socket_is_kept:
  "clearStaleSocket there = (r, later) \<Longrightarrow> later = there \<or> there = Socket False \<and> later = Nothing_there \<and> r = Inr ()"
  by (auto simp: clearStaleSocket_def split: socket_state.splits if_splits)

end
