(* ===== verification/Spec2Isabelle.thy ===== *)
theory Spec2Isabelle
  imports LeasingProperties RegistryProperties MessagingProperties DispatchProperties ReportingProperties
    PRWatchProperties ParsingProperties ApiProperties DaemonProperties GitHubProperties Migrate
    TelegramProperties ClientProperties McpProperties CliProperties Host
begin

text \<open>
  A verification development for LAC, the local agent coordinator: a daemon (\<^verbatim>\<open>lacd\<close>) that lets
  the coding agents of one machine share its resources. Agents connect over a Unix socket, register,
  queue for slots of named resources, send each other messages, hand work to workers, answer reports
  and watch pull requests. The daemon keeps everything in SQLite.

  \<^bold>\<open>How the program is put together.\<close> A connection (\<^verbatim>\<open>transport/jsonrpc\<close>) reads requests, one
  JSON text per line, and runs each in a goroutine. The router finds the handler of the method
  (\<^verbatim>\<open>api\<close>), which checks who is calling (\<^verbatim>\<open>auth\<close>), reads the parameters and calls a service
  (\<^verbatim>\<open>service/*\<close>). Services keep no state of their own but wake-up channels: what they know is in the
  store (\<^verbatim>\<open>store/sqlite\<close>), and waiting is a loop that looks, parks on a channel and looks again. The
  daemon (\<^verbatim>\<open>daemon\<close>) builds all this from a configuration (\<^verbatim>\<open>config\<close>), reclaims what crashed
  agents leave behind and reloads a changed file. On the other side of the socket the client library
  (\<^verbatim>\<open>pkg/lacclient\<close>) writes the requests and hands the replies out; the MCP server
  (\<^verbatim>\<open>transport/mcp\<close>), one process per session, turns tool calls of a model into its calls. The Telegram
  bridge (\<^verbatim>\<open>transport/telegram\<close>) is an agent inside the daemon that calls the services directly.

  \<^bold>\<open>The state.\<close> \<open>World.world\<close> is the daemon's state: the database as one list of rows per table
  (\<open>Schema.db\<close>, the columns of \<^verbatim>\<open>store/sqlite/schema\<close>), the wake-up channels of each service,
  the pushes to connected sessions, and the sources of what the program reads from outside as streams
  with a position: the clock, the random bytes of identifiers and tokens, the jitter. An operation is
  a function from the state to an error or a value and the next state, composed with \<open>bindE\<close> in the
  order of the code; \<open>InTransaction\<close> gives the database back when its body fails. A SQL statement is
  a selection, insertion, update or deletion over a row list under the constraints of the schema, with
  the translation of constraint errors of \<^verbatim>\<open>store.go\<close>.

  \<^bold>\<open>Concurrency.\<close> Statements and transactions are atomic because the store has a single connection; an
  operation of several transactions is a sequence of them. Waiting operations take a list of pauses:
  what the rest of the daemon does to the state while the caller is parked, and how the pause ended
  (woken, polled or the context ended). The system of all callers is an inductive run relation per
  service (\<open>lease_run\<close>, \<open>task_run\<close>, the runs of messages) whose steps are the operations in any
  order, with arbitrary changes of the other tables in between, and \<open>connection_run\<close> for the
  requests of a connection. Invariants are proved by rule induction over them.

  \<^bold>\<open>The theories\<close>, in the order they build on each other:

  \<^item> \<open>Prelude\<close>: operations with errors, the locale \<open>effect_order\<close> of relations that every step of
    an operation keeps, the locale \<open>table\<close> of row lists, selections and updates of rows.
  \<^item> \<open>GoStd\<close>, \<open>Ident\<close>, \<open>Base64\<close>, \<open>Json\<close>, \<open>JsonDecode\<close>, \<open>Parsing\<close>: the parts of Go's
    library the source uses (time, strings, JSON validity, writing and reading, durations, time stamps),
    \<^verbatim>\<open>id/id.go\<close>, and \<^verbatim>\<open>github.ParseReference\<close>.
  \<^item> \<open>Core\<close>: \<^verbatim>\<open>core/*.go\<close>, the entities with their validation. \<open>Schema\<close>: the tables and
    \<^verbatim>\<open>convert.go\<close>. \<open>World\<close>: the state and its primitive operations.
  \<^item> \<open>StoreLeases\<close>, \<open>StoreAgents\<close>, \<open>StoreMessages\<close>, \<open>StoreTasks\<close>, \<open>StoreReports\<close>,
    \<open>StoreWatches\<close>: one definition per method of \<^verbatim>\<open>store/sqlite/*.go\<close>.
  \<^item> \<open>Waiters\<close>, \<open>WaitLoop\<close>: the wake-up channels (locale \<open>wakeups\<close>, interpreted for each
    service) and the loop that waits on them.
  \<^item> \<open>Leasing\<close>, \<open>LeasingFacts\<close>, \<open>LeasingBulk\<close>, \<open>LeasingSystem\<close>, \<open>LeasingProperties\<close>:
    \<^verbatim>\<open>service/leasing\<close>. Capacity, the correspondence of leases and granted entries and the history
    are invariants of \<open>lease_run\<close>; the order of service, renewal and wake-ups are per operation.
  \<^item> \<open>Auth\<close>, \<open>Registry\<close>, \<open>RegistryFacts\<close>, \<open>RegistryProperties\<close>: \<^verbatim>\<open>auth\<close> and
    \<^verbatim>\<open>service/registry\<close>: tokens, names, departure, and the confinement of working directories
    against a reference definition over path elements.
  \<^item> \<open>Messaging\<close>, \<open>DirectMail\<close>, \<open>MessagingFacts\<close>, \<open>MailScenario\<close>,
    \<open>MessagingProperties\<close>: \<^verbatim>\<open>service/messaging\<close> and \<^verbatim>\<open>daemon/notifier.go\<close>; the mailbox of an
    agent is the abstract state that sending, reading, acknowledging and pruning refine.
  \<^item> \<open>Catalogue\<close>, \<open>Dispatch\<close>, \<open>DispatchFacts\<close>, \<open>DispatchProperties\<close>:
    \<^verbatim>\<open>service/dispatch\<close>, \<^verbatim>\<open>daemon/catalogue.go\<close>, \<^verbatim>\<open>config/commands.go\<close>: the life of a task.
  \<^item> \<open>Reporting\<close>, \<open>ReportingFacts\<close>, \<open>ReportingProperties\<close>: \<^verbatim>\<open>service/reporting\<close>.
  \<^item> \<open>PullRequest\<close>, \<open>Changes\<close>, \<open>PRWatch\<close>, \<open>PRWatchFacts\<close>, \<open>PRWatchProperties\<close>:
    \<^verbatim>\<open>service/prwatch\<close> and the values of \<^verbatim>\<open>github/pullrequest.go\<close>.
  \<^item> \<open>Protocol\<close>, \<open>Connection\<close>: \<^verbatim>\<open>transport/jsonrpc\<close>: requests, responses, error codes, the router,
    the session, dispatch, and the accounting of the calls of a connection.
  \<^item> \<open>Wire\<close>, \<open>Api\<close>, \<open>ApiWork\<close>, \<open>ApiMethods\<close>, \<open>ApiFacts\<close>, \<open>ApiWaits\<close>,
    \<open>ApiProperties\<close>: \<^verbatim>\<open>api\<close> and \<^verbatim>\<open>daemon/methods.go\<close>: views, parameters, one definition per
    handler, the table of methods; who may do what, and that every call ends with its connection.
  \<^item> \<open>Config\<close>, \<open>Daemon\<close>, \<open>DaemonFacts\<close>, \<open>SweepFacts\<close>, \<open>DaemonProperties\<close>:
    \<^verbatim>\<open>config\<close> and the parts of \<^verbatim>\<open>daemon\<close> that decide something: loading and validating a
    configuration, reloading it, watching the file, and housekeeping.
  \<^item> \<open>GitHub\<close>, \<open>GitHubProperties\<close>: \<^verbatim>\<open>github/client.go\<close>, \<^verbatim>\<open>accounts.go\<close> and \<^verbatim>\<open>decode.go\<close>: logins and
    their tokens, what a failed run of \<^verbatim>\<open>gh\<close> means, and the pull request read from its answer.
  \<^item> \<open>Migrate\<close>: \<^verbatim>\<open>store/sqlite/migrate.go\<close>: which steps run, in which order, and what is recorded.
  \<^item> \<open>TelegramClient\<close>, \<open>Telegram\<close>, \<open>TelegramProperties\<close>: \<^verbatim>\<open>transport/telegram\<close>: the calls of the Bot
    API, the cutting of long texts, the commands of the operator, polling and forwarding.
  \<^item> \<open>JsonEncode\<close>, \<open>ClientLibrary\<close>, \<open>ClientProperties\<close>: \<^verbatim>\<open>pkg/lacclient\<close>: JSON objects that read back
    as what was written, every call with its method and parameters, and the connection as an inductive
    run relation \<open>link_run\<close> whose steps are the beginnings and ends of calls and the lines that arrive.
  \<^item> \<open>McpTools\<close>, \<open>McpServer\<close>, \<open>McpProperties\<close>: \<^verbatim>\<open>transport/mcp\<close>: one definition per tool, the requests
    and replies of a session, its connection and its name, and the run relation \<open>mcp_run\<close> of lines and
    heartbeats.
  \<^item> \<open>Cli\<close>, \<open>CliProperties\<close>: \<^verbatim>\<open>cmd/lac/identity.go\<close>, \<^verbatim>\<open>run.go\<close> and \<^verbatim>\<open>worker.go\<close>: who a command is, and the
    order of everything \<^verbatim>\<open>lac run\<close> and \<^verbatim>\<open>lac worker\<close> do, as the list of their deeds.
  \<^item> \<open>Host\<close>: \<^verbatim>\<open>auth/secret.go\<close>, \<^verbatim>\<open>singleton/lock.go\<close> and the decisions of \<^verbatim>\<open>transport/unixsock\<close>.
  \<^item> \<open>Scenario\<close>: the concrete states on which the properties are evaluated.

  \<^bold>\<open>Bounds and fuel.\<close> No definition runs out of fuel. A waiting loop recurs over its list of pauses; when
  the list ends without a result the call is still waiting, which is the value \<open>None\<close>, and
  \<open>no_call_outlives_its_connection\<close> shows that a list in which the context ends always gives a
  result. The other loops are structural or have a termination proof. Instants are nanoseconds since
  the epoch as integers; the code's ranges (years 1678 to 2262) are not enforced, and 64-bit wrap-around
  is written out where an input can reach it (\<open>Config.wrap64\<close>). The limits of the source (64 calls per
  connection, a socket path of 103 bytes, 256 Ki of output) are the source's constants.

  \<^bold>\<open>Parameters.\<close> The keyed hash of tokens, the install secret, what GitHub answers a service
  (\<open>PRWatch.forge\<close>) and what a run of \<^verbatim>\<open>gh\<close> prints (\<open>GitHub.gh\<close>), the effect of the statements of a
  migration, what Telegram answers the n-th call (\<open>TelegramClient.bot_api\<close>), what the daemon answers the
  n-th call of an MCP session (\<open>McpTools.surroundings\<close>) or of a command (\<open>Cli.machine\<close>, with what a
  started program prints and how it ends), the text of an error, the YAML decoder, the
  digest of file contents, the environment and the files. What a property needs of one of them is a
  hypothesis of its statement, and its witness instantiates it.

  \<^bold>\<open>Not modelled.\<close> Opening, creating and removing files and sockets, and the version and skill texts. Of
  the command line, flag parsing, completion and the commands that print what one call answered. Of the
  MCP server the descriptions of the tools, prose for a model, and of the Telegram bridge the delays between sends.
  Of the daemon itself, construction, goroutines, signals and shutdown are left out, and of the
  JSON-RPC server listening, broadcasting and shutdown; encoding a result as JSON is left to the
  library. Logging is left out everywhere.
\<close>

end
